(* ===== verification/Prelude.thy ===== *)
theory Prelude
  imports Main "HOL-Library.Word" "HOL-Library.Multiset" "HOL-Library.AList"
begin

text \<open>
  What every theory of the development shares: the machine integers of the Rust code as words,
  the panics of the code as values of a sum type, the collections the component proofs draw on,
  and generic lemmas on lists, options and words.

  The release profile is modelled: + on a machine integer wraps, an index out of the
  bounds of a vector panics. The signed integers are words read in two's complement.
\<close>

unbundle bit_operations_syntax

type_synonym u8 = "8 word"
type_synonym u16 = "16 word"
type_synonym u32 = "32 word"
type_synonym u64 = "64 word"
type_synonym i8 = "8 word"
type_synonym i16 = "16 word"
type_synonym i32 = "32 word"
type_synonym bytes = "u8 list"

section \<open>Panics\<close>

text \<open>A Rust panic ends the thread. A function that can panic returns a value of 'a res; a function
  that never returns has the value Diverges there.\<close>

datatype panic =
    IndexOutOfBounds | UnwrapFailed | OutOfBoundsSetter | InvalidPattern | CapacityOverflow
  | Unreachable | Diverges

type_synonym 'a res = "panic + 'a"

abbreviation ok :: "'a \<Rightarrow> 'a res" where
  "ok x \<equiv> Inr x"

abbreviation panics :: "panic \<Rightarrow> 'a res" where
  "panics p \<equiv> Inl p"

fun and_then :: "'a res \<Rightarrow> ('a \<Rightarrow> 'b res) \<Rightarrow> 'b res" where
  "and_then (Inl p) f = Inl p"
| "and_then (Inr x) f = f x"

fun index :: "'a list \<Rightarrow> nat \<Rightarrow> 'a res" where
  "index xs i = (if i < length xs then Inr (xs ! i) else Inl IndexOutOfBounds)"

fun unwrap :: "'a option \<Rightarrow> 'a res" where
  "unwrap None = Inl UnwrapFailed"
| "unwrap (Some x) = Inr x"

fun get :: "'a list \<Rightarrow> nat \<Rightarrow> 'a option" where
  "get xs i = (if i < length xs then Some (xs ! i) else None)"

fun is_ok :: "'a res \<Rightarrow> bool" where
  "is_ok (Inl _) = False"
| "is_ok (Inr _) = True"

section \<open>Strings\<close>

text \<open>A Rust string is the list of its Unicode scalar values.\<close>

type_synonym str = "nat list"

definition lit :: "string \<Rightarrow> str" where
  "lit s = map of_char s"

definition to_ascii_uppercase :: "nat \<Rightarrow> nat" where
  "to_ascii_uppercase c = (if 97 \<le> c \<and> c \<le> 122 then c - 32 else c)"

lemma lit_simps [simp]:
  "lit [] = []" "lit (c # s) = of_char c # lit s"
  by (simp_all add: lit_def)

section \<open>Hash maps\<close>

text \<open>A hash map is the list of its entries in the order it would be iterated, with distinct keys.
  That order is arbitrary in the program, so a result that must not depend on it is stated for
  every reordering of the entries.\<close>

type_synonym ('k, 'v) hmap = "('k \<times> 'v) list"

abbreviation hmap_insert :: "'k \<Rightarrow> 'v \<Rightarrow> ('k, 'v) hmap \<Rightarrow> ('k, 'v) hmap" where
  "hmap_insert \<equiv> AList.update"

abbreviation hmap_get :: "('k, 'v) hmap \<Rightarrow> 'k \<Rightarrow> 'v option" where
  "hmap_get \<equiv> map_of"

definition wf_hmap :: "('k, 'v) hmap \<Rightarrow> bool" where
  "wf_hmap m \<longleftrightarrow> distinct (map fst m)"

fun get_or :: "'v \<Rightarrow> ('k, 'v) hmap \<Rightarrow> 'k \<Rightarrow> 'v" where
  "get_or d m k = (case map_of m k of None \<Rightarrow> d | Some v \<Rightarrow> v)"

declare get_or.simps [simp del]

lemma get_or_empty [simp]: "get_or d [] k = d"
  by (simp add: get_or.simps)

text \<open>The idiom that counts: the entry, zero if there is none, plus one.\<close>

definition bump :: "'k \<Rightarrow> ('k, 'v::{zero, plus, one}) hmap \<Rightarrow> ('k, 'v) hmap" where
  "bump k m = hmap_insert k (get_or 0 m k + 1) m"

lemma wf_hmap_empty [simp]: "wf_hmap []"
  by (simp add: wf_hmap_def)

lemma wf_hmap_insert [simp, intro]: "wf_hmap m \<Longrightarrow> wf_hmap (hmap_insert k v m)"
  by (simp add: wf_hmap_def distinct_update)

lemma hmap_get_insert: "hmap_get (hmap_insert k v m) = (hmap_get m)(k \<mapsto> v)"
  by (rule update_conv')

lemma get_or_insert [simp]: "get_or d (hmap_insert k v m) k' = (if k' = k then v else get_or d m k')"
  by (simp add: get_or.simps hmap_get_insert)

lemma set_hmap_insert: "e \<in> set (hmap_insert k v m) \<Longrightarrow> e = (k, v) \<or> e \<in> set m"
  by (induction m) (auto split: if_splits)

lemma hmap_reorder: "wf_hmap m \<Longrightarrow> mset m = mset m' \<Longrightarrow> wf_hmap m' \<and> hmap_get m' = hmap_get m"
  unfolding wf_hmap_def
  by (metis map_of_inject_set mset_eq_imp_distinct_iff mset_eq_setD mset_map)

named_theorems codec_simps \<open>unfolding of writers and readers\<close>
named_theorems model_simps \<open>branch equations of the model's operations\<close>

lemma and_then_eq_ok [simp]: "and_then m f = Inr y \<longleftrightarrow> (\<exists>x. m = Inr x \<and> f x = Inr y)"
  by (cases m) auto

lemma is_ok_iff: "is_ok m \<longleftrightarrow> (\<exists>x. m = Inr x)"
  by (cases m) auto

section \<open>Lists, options, words\<close>

lemma get_Some_iff [simp]: "get xs i = Some x \<longleftrightarrow> i < length xs \<and> xs ! i = x"
  by auto

lemma find_distinct:
  assumes "distinct (map f xs)" and "x \<in> set xs"
  shows "find (\<lambda>y. f y = f x) xs = Some x"
  using assms by (induction xs) auto

lemma find_key_Some:
  assumes "find (\<lambda>y. f y = k) xs = Some x"
  shows "f x = k" and "x \<in> set xs"
  using assms by (induction xs) (auto split: if_splits)

lemma find_key_None:
  "find (\<lambda>y. f y = k) xs = None \<longleftrightarrow> k \<notin> f ` set xs"
  by (induction xs) auto

lemma count_list_mset: "count_list xs = count (mset xs)"
  by (induction xs) auto

lemma concat_replicate_length: "length (concat (map f xs)) = sum_list (map (length \<circ> f) xs)"
  by (induction xs) auto

lemma of_nat_word_id: "n < 2 ^ LENGTH('a) \<Longrightarrow> unat (of_nat n :: 'a::len word) = n"
  by (simp add: unat_of_nat take_bit_nat_eq_self)

text \<open>A loop that folds values into a hash with exclusive or.\<close>

primrec xor_all :: "'a::len word list \<Rightarrow> 'a word" where
  "xor_all [] = 0"
| "xor_all (x # xs) = x XOR xor_all xs"

lemma xor_all_append [simp]: "xor_all (xs @ ys) = xor_all xs XOR xor_all ys"
  by (induction xs) (auto simp: xor.assoc)

lemma fold_xor_pairs:
  "(\<And>a b h. g a b h = h XOR f a b) \<Longrightarrow>
   fold (\<lambda>(a, b). g a b) xs h = h XOR xor_all (map (\<lambda>(a, b). f a b) xs)"
  by (induction xs arbitrary: h) (auto simp: xor.assoc)

lemma xor_all_remove1: "x \<in> set xs \<Longrightarrow> xor_all xs = x XOR xor_all (remove1 x xs)"
  by (induction xs) (auto simp: xor.left_commute)

lemma xor_all_mset: "mset xs = mset ys \<Longrightarrow> xor_all xs = xor_all ys"
proof (induction xs arbitrary: ys)
  case (Cons x xs)
  then have "x \<in> set ys" and "mset xs = mset (remove1 x ys)"
    by (metis list.set_intros(1) mset_eq_setD, metis add_mset_remove_trivial mset.simps(2) mset_remove1)
  then show ?case using Cons.IH xor_all_remove1 by (metis xor_all.simps(2))
qed simp

text \<open>Two fields packed in one word. The distribution of take bit and drop bit over a disjunction
  is kept out of the simplifier: it would split a packed word before its fields are recognised.\<close>

declare take_bit_or [simp del] drop_bit_or [simp del]

lemma small_word_iff: "(w::'a::len word) < 2 ^ k \<Longrightarrow> take_bit k w = w"
  by (metis less_mask_eq take_bit_eq_mask)

lemma bit_small_word: "(w::'a::len word) < 2 ^ k \<Longrightarrow> k \<le> n \<Longrightarrow> \<not> bit w n"
  using small_word_iff [of w k] by (metis bit_take_bit_iff not_less)

lemma bit_word_bound: "bit (w::'a::len word) n \<Longrightarrow> w < 2 ^ k \<Longrightarrow> n < k"
  by (meson bit_small_word not_less)

lemma pack_low: "(n::'a::len word) < 2 ^ k \<Longrightarrow> take_bit k (push_bit k a OR n) = n"
  by (rule bit_word_eqI) (auto simp: bit_simps dest: bit_word_bound)

lemma pack_high: "(n::'a::len word) < 2 ^ k \<Longrightarrow> drop_bit k (push_bit k (drop_bit k a) OR n) = drop_bit k a"
  by (rule bit_word_eqI) (auto simp: bit_simps bit_small_word dest: bit_imp_le_length)

lemma pack_high_small:
  "(n::'a::len word) < 2 ^ k \<Longrightarrow> a < 2 ^ (LENGTH('a) - k) \<Longrightarrow> drop_bit k (push_bit k a OR n) = a"
  by (rule bit_word_eqI) (fastforce simp: bit_simps bit_small_word dest: bit_word_bound)

lemma take_bit_less: "k < LENGTH('a) \<Longrightarrow> take_bit k (w::'a::len word) < 2 ^ k"
  by (simp add: and_mask_less' take_bit_eq_mask)

lemma unat_ucast_up:
  "LENGTH('a::len) \<le> LENGTH('b::len) \<Longrightarrow> unat (ucast (w::'a word) :: 'b word) = unat w"
  by transfer (simp add: take_bit_int_eq_self_iff min_absorb2)

lemma ucast_ucast_up [simp]:
  "LENGTH('a::len) \<le> LENGTH('b::len) \<Longrightarrow> ucast (ucast (w::'a word) :: 'b word) = w"
  by (rule bit_word_eqI) (auto simp: bit_simps)

end
