(* ===== verification/Codec.thy ===== *)
theory Codec
  imports Prelude
begin

text \<open>
  The byte-level layer of the protocol: every wire type of the program derives or implements the
  traits BinRead and BinWrite of the crate binrw, little endian. A writer is a function to the
  bytes it emits, a reader takes the bytes left in the cursor and returns the value and the bytes
  after it, or None where binrw returns an error.

  The interface is the locale codec (what is written is read back, whatever follows), extended by
  fixed codec (every value has the same width, a shorter input is an error) and by exact codec
  (the reader accepts nothing but what the writer emits).
\<close>

type_synonym 'a reader = "bytes \<Rightarrow> ('a \<times> bytes) option"
type_synonym 'a writer = "'a \<Rightarrow> bytes"

section \<open>Primitive integers\<close>

definition wr_u8 :: "u8 writer" where
  "wr_u8 w = [w]"

fun rd_u8 :: "u8 reader" where
  "rd_u8 [] = None"
| "rd_u8 (b # bs) = Some (b, bs)"

definition wr_u16 :: "u16 writer" where
  "wr_u16 w = [ucast w, ucast (drop_bit 8 w)]"

fun rd_u16 :: "u16 reader" where
  "rd_u16 (a # b # bs) = Some (ucast a OR push_bit 8 (ucast b), bs)"
| "rd_u16 _ = None"

definition wr_u32 :: "u32 writer" where
  "wr_u32 w = [ucast w, ucast (drop_bit 8 w), ucast (drop_bit 16 w), ucast (drop_bit 24 w)]"

fun rd_u32 :: "u32 reader" where
  "rd_u32 (a # b # c # d # bs) =
     Some (ucast a OR push_bit 8 (ucast b) OR push_bit 16 (ucast c) OR push_bit 24 (ucast d), bs)"
| "rd_u32 _ = None"

section \<open>The interface\<close>

locale codec =
  fixes wr :: "'a \<Rightarrow> bytes" and rd :: "bytes \<Rightarrow> ('a \<times> bytes) option" and valid :: "'a \<Rightarrow> bool"
  assumes rd_wr: "valid x \<Longrightarrow> rd (wr x @ r) = Some (x, r)"
begin

lemma rd_wr_whole: "valid x \<Longrightarrow> rd (wr x) = Some (x, [])"
  using rd_wr [of x "[]"] by simp

lemma wr_inj: "valid x \<Longrightarrow> valid y \<Longrightarrow> wr x = wr y \<Longrightarrow> x = y"
  by (metis option.inject prod.inject rd_wr_whole)

lemma wr_prefix_free:
  "valid x \<Longrightarrow> valid y \<Longrightarrow> wr x @ r = wr y @ s \<Longrightarrow> x = y \<and> r = s"
  by (metis option.inject prod.inject rd_wr)

end

locale fixed_codec = codec +
  fixes width :: nat
  assumes length_wr: "length (wr x) = width"
    and rd_short: "length bs < width \<Longrightarrow> rd bs = None"
    and rd_length: "rd bs = Some (x, r) \<Longrightarrow> length bs = width + length r"
begin

lemma rd_needs_width: "rd bs = Some (x, r) \<Longrightarrow> width \<le> length bs"
  using rd_length by fastforce

end

locale exact_codec = codec +
  assumes wr_rd: "rd bs = Some (x, r) \<Longrightarrow> wr x @ r = bs \<and> valid x"
begin

lemma rd_iff: "rd bs = Some (x, r) \<longleftrightarrow> valid x \<and> bs = wr x @ r"
  using wr_rd rd_wr by auto

end

section \<open>Counted and unbounded vectors\<close>

primrec wr_vec :: "'a writer \<Rightarrow> 'a list writer" where
  "wr_vec wr [] = []"
| "wr_vec wr (x # xs) = wr x @ wr_vec wr xs"

primrec rd_count :: "'a reader \<Rightarrow> nat \<Rightarrow> 'a list reader" where
  "rd_count rd 0 bs = Some ([], bs)"
| "rd_count rd (Suc n) bs =
     (case rd bs of None \<Rightarrow> None
      | Some (x, r) \<Rightarrow> (case rd_count rd n r of None \<Rightarrow> None | Some (xs, r') \<Rightarrow> Some (x # xs, r')))"

text \<open>The helper until eof of binrw: it collects elements until one cannot be read for lack of
  input, which ends the vector. Every element type it is used with takes at least one byte, so the
  length of the input bounds the number of rounds.\<close>

primrec rd_eof :: "'a reader \<Rightarrow> nat \<Rightarrow> bytes \<Rightarrow> 'a list" where
  "rd_eof rd 0 bs = []"
| "rd_eof rd (Suc n) bs = (case rd bs of None \<Rightarrow> [] | Some (x, r) \<Rightarrow> x # rd_eof rd n r)"

definition rd_until_eof :: "'a reader \<Rightarrow> 'a list reader" where
  "rd_until_eof rd bs = Some (rd_eof rd (length bs) bs, [])"

lemma wr_vec_concat: "wr_vec wr xs = concat (map wr xs)"
  by (induction xs) auto

lemma wr_vec_append [simp]: "wr_vec wr (xs @ ys) = wr_vec wr xs @ wr_vec wr ys"
  by (induction xs) auto

context codec
begin

lemma rd_count_wr_vec:
  "\<forall>x \<in> set xs. valid x \<Longrightarrow> rd_count rd (length xs) (wr_vec wr xs @ r) = Some (xs, r)"
  by (induction xs) (auto simp: rd_wr)

end

context fixed_codec
begin

lemma length_wr_vec [simp]: "length (wr_vec wr xs) = width * length xs"
  by (induction xs) (auto simp: length_wr)

lemma rd_eof_wr_vec:
  assumes "\<forall>x \<in> set xs. valid x" and "length s < width" and "length xs \<le> n"
  shows "rd_eof rd n (wr_vec wr xs @ s) = xs"
  using assms
proof (induction xs arbitrary: n)
  case Nil
  then show ?case by (cases n) (auto simp: rd_short)
next
  case (Cons x xs)
  then obtain m where "n = Suc m" by (cases n) auto
  with Cons show ?case by (auto simp: rd_wr)
qed

lemma rd_until_eof_wr_vec:
  assumes "\<forall>x \<in> set xs. valid x" and "length s < width"
  shows "rd_until_eof rd (wr_vec wr xs @ s) = Some (xs, [])"
proof -
  have "length xs \<le> length (wr_vec wr xs @ s)"
    using assms(2) by (cases width) auto
  with assms show ?thesis by (simp add: rd_until_eof_def rd_eof_wr_vec)
qed

end

section \<open>The integers are codecs\<close>

lemma bit_u8_high [simp]: "8 \<le> n \<Longrightarrow> \<not> bit (a::u8) n"
  using bit_imp_le_length [of a n] by auto

lemma u16_join_split [simp]:
  "ucast (ucast w :: u8) OR push_bit 8 (ucast (ucast (drop_bit 8 w) :: u8)) = (w::u16)"
  by (rule bit_word_eqI) (auto simp: bit_simps)

lemma u16_split [simp]:
  "ucast (ucast (a::u8) OR push_bit 8 (ucast b) :: u16) = a"
  "ucast (drop_bit 8 (ucast (a::u8) OR push_bit 8 (ucast b) :: u16)) = (b::u8)"
  by (rule bit_word_eqI, auto simp: bit_simps)+

lemma u32_join_split [simp]:
  "ucast (ucast w :: u8) OR push_bit 8 (ucast (ucast (drop_bit 8 w) :: u8))
   OR push_bit 16 (ucast (ucast (drop_bit 16 w) :: u8))
   OR push_bit 24 (ucast (ucast (drop_bit 24 w) :: u8)) = (w::u32)" (is "?j = w")
proof (rule bit_word_eqI)
  fix n assume "n < LENGTH(32)"
  then consider "n < 8" | "8 \<le> n" "n < 16" | "16 \<le> n" "n < 24" | "24 \<le> n" "n < 32" by force
  then show "bit ?j n = bit w n" by cases (auto simp: bit_simps)
qed

lemma u32_split [simp]:
  fixes a b c d :: u8
  defines "w \<equiv> (ucast a OR push_bit 8 (ucast b) OR push_bit 16 (ucast c) OR push_bit 24 (ucast d)) :: u32"
  shows "ucast w = a" "ucast (drop_bit 8 w) = b" "ucast (drop_bit 16 w) = c" "ucast (drop_bit 24 w) = d"
  unfolding w_def by (rule bit_word_eqI, auto simp: bit_simps)+

abbreviation always :: "'a \<Rightarrow> bool" where
  "always x \<equiv> True"

lemma rd_u8_iff: "rd_u8 bs = Some (x, r) \<longleftrightarrow> bs = wr_u8 x @ r"
  by (cases bs) (auto simp: wr_u8_def)

lemma rd_u16_iff: "rd_u16 bs = Some (x, r) \<longleftrightarrow> bs = wr_u16 x @ r"
  by (cases bs rule: rd_u16.cases) (auto simp: wr_u16_def)

lemma rd_u32_iff: "rd_u32 bs = Some (x, r) \<longleftrightarrow> bs = wr_u32 x @ r"
  by (cases bs rule: rd_u32.cases) (auto simp: wr_u32_def)

lemma rd_u8_short: "length bs < 1 \<Longrightarrow> rd_u8 bs = None"
  by (cases bs) auto

lemma rd_u16_short: "length bs < 2 \<Longrightarrow> rd_u16 bs = None"
  by (cases bs rule: rd_u16.cases) auto

lemma rd_u32_short: "length bs < 4 \<Longrightarrow> rd_u32 bs = None"
  by (cases bs rule: rd_u32.cases) auto

lemma length_wr_int [simp]:
  "length (wr_u8 x) = 1" "length (wr_u16 y) = 2" "length (wr_u32 z) = 4"
  by (simp_all add: wr_u8_def wr_u16_def wr_u32_def)

interpretation u8: codec wr_u8 rd_u8 always
  by unfold_locales (simp add: rd_u8_iff)

interpretation u8: exact_codec wr_u8 rd_u8 always
  by unfold_locales (simp add: rd_u8_iff)

interpretation u8: fixed_codec wr_u8 rd_u8 always 1
  by unfold_locales (auto simp: rd_u8_short rd_u8_iff)

interpretation u16: exact_codec wr_u16 rd_u16 always
  by unfold_locales (simp_all add: rd_u16_iff)

interpretation u16: fixed_codec wr_u16 rd_u16 always 2
  by unfold_locales (auto simp: rd_u16_short rd_u16_iff)

interpretation u32: exact_codec wr_u32 rd_u32 always
  by unfold_locales (simp_all add: rd_u32_iff)

interpretation u32: fixed_codec wr_u32 rd_u32 always 4
  by unfold_locales (auto simp: rd_u32_short rd_u32_iff)

section \<open>Readers in sequence\<close>

text \<open>A derived reader reads the fields of a struct one after the other; a tuple is read like a
  struct, a flag is a byte that is zero or not, and a vector may be preceded by its length in one
  or four bytes, which the writer truncates. Padding is written as zeros and skipped by seeking,
  which does not fail beyond the end of the input.\<close>

definition rd_return :: "'a \<Rightarrow> 'a reader" where
  "rd_return x bs = Some (x, bs)"

definition rd_bind :: "'a reader \<Rightarrow> ('a \<Rightarrow> 'b reader) \<Rightarrow> 'b reader" where
  "rd_bind rd f bs = (case rd bs of None \<Rightarrow> None | Some (x, r) \<Rightarrow> f x r)"

fun wr_pair :: "'a writer \<Rightarrow> 'b writer \<Rightarrow> ('a \<times> 'b) writer" where
  "wr_pair wr wr' (x, y) = wr x @ wr' y"

definition rd_pair :: "'a reader \<Rightarrow> 'b reader \<Rightarrow> ('a \<times> 'b) reader" where
  "rd_pair rd rd' = rd_bind rd (\<lambda>x. rd_bind rd' (\<lambda>y. rd_return (x, y)))"

definition wr_bool :: "bool writer" where
  "wr_bool b = wr_u8 (if b then 1 else 0)"

definition rd_bool :: "bool reader" where
  "rd_bool = rd_bind rd_u8 (\<lambda>v. rd_return (v > 0))"

definition len8 :: "'a list \<Rightarrow> u8" where
  "len8 xs = of_nat (length xs)"

definition wr_vec8 :: "'a writer \<Rightarrow> 'a list writer" where
  "wr_vec8 wr xs = wr_u8 (len8 xs) @ wr_vec wr xs"

definition rd_vec8 :: "'a reader \<Rightarrow> 'a list reader" where
  "rd_vec8 rd = rd_bind rd_u8 (\<lambda>n. rd_count rd (unat n))"

definition len32 :: "'a list \<Rightarrow> u32" where
  "len32 xs = of_nat (length xs)"

definition wr_vec32 :: "'a writer \<Rightarrow> 'a list writer" where
  "wr_vec32 wr xs = wr_u32 (len32 xs) @ wr_vec wr xs"

definition rd_vec32 :: "'a reader \<Rightarrow> 'a list reader" where
  "rd_vec32 rd = rd_bind rd_u32 (\<lambda>n. rd_count rd (unat n))"

definition wr_pad :: "nat \<Rightarrow> bytes" where
  "wr_pad n = replicate n 0"

definition rd_skip :: "nat \<Rightarrow> 'b reader \<Rightarrow> 'b reader" where
  "rd_skip n rd bs = rd (drop n bs)"

definition rd_if :: "bool \<Rightarrow> 'a reader \<Rightarrow> 'a \<Rightarrow> 'a reader" where
  "rd_if b rd x = (if b then rd else rd_return x)"

lemma rd_skip_pad [simp]: "rd_skip n rd (wr_pad n @ r) = rd r"
  by (simp add: rd_skip_def wr_pad_def)

lemma length_wr_pad [simp]: "length (wr_pad n) = n"
  by (simp add: wr_pad_def)

lemma rd_bind_return [simp]: "rd_bind (rd_return x) f bs = f x bs"
  by (simp add: rd_bind_def rd_return_def)

lemma unat_len32: "length xs < 2 ^ 32 \<Longrightarrow> unat (len32 xs) = length xs"
  by (simp add: len32_def of_nat_word_id)

lemma rd_return_apply [simp]: "rd_return x bs = Some (x, bs)"
  by (simp add: rd_return_def)

lemma unat_len8: "length xs < 256 \<Longrightarrow> unat (len8 xs) = length xs"
  by (simp add: len8_def of_nat_word_id)

context codec
begin

lemma rd_bind_wr: "valid x \<Longrightarrow> rd_bind rd f (wr x @ r) = f x r"
  by (simp add: rd_bind_def rd_wr)

lemma rd_eof_whole:
  assumes "\<forall>x \<in> set xs. valid x \<and> wr x \<noteq> []" and "rd [] = None" and "length xs \<le> n"
  shows "rd_eof rd n (wr_vec wr xs) = xs"
  using assms
proof (induction xs arbitrary: n)
  case Nil
  then show ?case by (cases n) auto
next
  case (Cons x xs)
  then obtain m where "n = Suc m" by (cases n) auto
  with Cons show ?case by (auto simp: rd_wr)
qed

lemma rd_until_eof_whole:
  assumes "\<forall>x \<in> set xs. valid x \<and> wr x \<noteq> []" and "rd [] = None"
  shows "rd_until_eof rd (wr_vec wr xs) = Some (xs, [])"
proof -
  have "length xs \<le> length (wr_vec wr xs)"
    using assms(1) by (induction xs) (auto simp: Suc_le_eq add_strict_increasing)
  with assms show ?thesis by (simp add: rd_until_eof_def rd_eof_whole)
qed

lemma rd_bind_count: "\<forall>x \<in> set xs. valid x \<Longrightarrow> n = length xs \<Longrightarrow>
  rd_bind (rd_count rd n) f (wr_vec wr xs @ r) = f xs r"
  by (simp add: rd_bind_def rd_count_wr_vec)

end

definition valid_pair :: "('a \<Rightarrow> bool) \<Rightarrow> ('b \<Rightarrow> bool) \<Rightarrow> 'a \<times> 'b \<Rightarrow> bool" where
  "valid_pair v v' = (\<lambda>(x, y). v x \<and> v' y)"

lemma codec_pair:
  "codec wr rd valid \<Longrightarrow> codec wr' rd' valid' \<Longrightarrow> codec (wr_pair wr wr') (rd_pair rd rd') (valid_pair valid valid')"
  by (auto simp: codec_def rd_pair_def rd_bind_def valid_pair_def)

lemma codec_vec32:
  assumes "codec wr rd valid"
  shows "codec (wr_vec32 wr) (rd_vec32 rd) (\<lambda>xs. length xs < 2 ^ 32 \<and> (\<forall>x \<in> set xs. valid x))"
  by unfold_locales (simp add: wr_vec32_def rd_vec32_def u32.rd_bind_wr unat_len32
    codec.rd_count_wr_vec [OF assms])

lemma codec_vec8:
  assumes "codec wr rd valid"
  shows "codec (wr_vec8 wr) (rd_vec8 rd) (\<lambda>xs. length xs < 256 \<and> (\<forall>x \<in> set xs. valid x))"
  by unfold_locales (simp add: wr_vec8_def rd_vec8_def rd_bind_def wr_u8_def unat_len8
    codec.rd_count_wr_vec [OF assms])

interpretation bool: codec wr_bool rd_bool always
  by unfold_locales (simp add: wr_bool_def rd_bool_def rd_bind_def u8.rd_wr)

interpretation bool: fixed_codec wr_bool rd_bool always 1
  by unfold_locales (auto simp: wr_bool_def rd_bool_def rd_bind_def rd_u8_short rd_u8_iff split: option.splits)

section \<open>Readers that tell the end of the input from other errors\<close>

text \<open>The helper until eof stops at an error that is an unexpected end of the input and fails with
  any other error. Where its elements can fail in both ways the readers keep the difference. An
  element that takes no input is read again at the same place with the same result, for ever.\<close>

datatype rd_error = Eof | NoVariantMatch

type_synonym 'a ereader = "bytes \<Rightarrow> rd_error + ('a \<times> bytes)"

definition e_return :: "'a \<Rightarrow> 'a ereader" where
  "e_return x bs = Inr (x, bs)"

definition e_bind :: "'a ereader \<Rightarrow> ('a \<Rightarrow> 'b ereader) \<Rightarrow> 'b ereader" where
  "e_bind rd f bs = (case rd bs of Inl e \<Rightarrow> Inl e | Inr (x, r) \<Rightarrow> f x r)"

definition e_fixed :: "nat \<Rightarrow> 'a reader \<Rightarrow> 'a ereader" where
  "e_fixed width rd bs =
     (if length bs < width then Inl Eof
      else case rd bs of None \<Rightarrow> Inl NoVariantMatch | Some x \<Rightarrow> Inr x)"

primrec e_count :: "'a ereader \<Rightarrow> nat \<Rightarrow> 'a list ereader" where
  "e_count rd 0 = e_return []"
| "e_count rd (Suc n) = e_bind rd (\<lambda>x. e_bind (e_count rd n) (\<lambda>xs. e_return (x # xs)))"

definition opt_rd :: "'a ereader \<Rightarrow> 'a reader" where
  "opt_rd rd bs = (case rd bs of Inl _ \<Rightarrow> None | Inr x \<Rightarrow> Some x)"

function e_until_eof :: "'a ereader \<Rightarrow> bytes \<Rightarrow> (rd_error + 'a list) res" where
  "e_until_eof rd bs =
     (case rd bs of
        Inl Eof \<Rightarrow> Inr (Inr [])
      | Inl e \<Rightarrow> Inr (Inl e)
      | Inr (x, r) \<Rightarrow>
          if length bs \<le> length r then Inl Diverges
          else and_then (e_until_eof rd r) (\<lambda>xs. Inr (map_sum id ((#) x) xs)))"
  by pat_completeness auto
termination by (relation "measure (length \<circ> snd)") auto

declare e_until_eof.simps [simp del]

lemma e_return_apply [simp]: "e_return x bs = Inr (x, bs)"
  by (simp add: e_return_def)

context fixed_codec
begin

lemma e_fixed_wr: "valid x \<Longrightarrow> e_fixed width rd (wr x @ r) = Inr (x, r)"
  by (simp add: e_fixed_def rd_wr length_wr)

lemma e_bind_wr: "valid x \<Longrightarrow> e_bind (e_fixed width rd) f (wr x @ r) = f x r"
  by (simp add: e_bind_def e_fixed_wr)

end

lemma e_count_wr_vec:
  assumes "\<And>x r. x \<in> set xs \<Longrightarrow> rd (wr x @ r) = Inr (x, r)"
  shows "e_count rd (length xs) (wr_vec wr xs @ r) = Inr (xs, r)"
  using assms by (induction xs) (auto simp: e_bind_def)

lemma e_until_eof_wr_vec:
  assumes "\<And>x r. x \<in> set xs \<Longrightarrow> rd (wr x @ r) = Inr (x, r)"
    and "\<And>x. x \<in> set xs \<Longrightarrow> wr x \<noteq> []" and "rd [] = Inl Eof"
  shows "e_until_eof rd (wr_vec wr xs) = Inr (Inr xs)"
  using assms
proof (induction xs)
  case Nil
  then show ?case by (subst e_until_eof.simps) simp
next
  case (Cons x xs)
  then show ?case by (subst e_until_eof.simps) simp
qed

section \<open>Enumerations with a primitive representation\<close>

text \<open>An enum with #[repr(p)] and the derives IntoPrimitive, TryFromPrimitive, BinRead and
  BinWrite: its discriminants, and the list of its variants. TryFrom returns the variant with the
  number; the derived reader reads the primitive and has no variant for any other number.\<close>

definition try_from :: "('e \<Rightarrow> 'p) \<Rightarrow> 'e list \<Rightarrow> 'p \<Rightarrow> 'e option" where
  "try_from repr all n = find (\<lambda>v. repr v = n) all"

definition wr_enum :: "'p writer \<Rightarrow> ('e \<Rightarrow> 'p) \<Rightarrow> 'e writer" where
  "wr_enum wr repr v = wr (repr v)"

definition rd_enum :: "'p reader \<Rightarrow> ('e \<Rightarrow> 'p) \<Rightarrow> 'e list \<Rightarrow> 'e reader" where
  "rd_enum rd repr all bs =
     (case rd bs of None \<Rightarrow> None
      | Some (n, r) \<Rightarrow> (case try_from repr all n of None \<Rightarrow> None | Some v \<Rightarrow> Some (v, r)))"

locale repr_enum =
  fixes repr :: "'e \<Rightarrow> 'p" and all :: "'e list"
  assumes complete: "v \<in> set all" and distinct_repr: "distinct (map repr all)"
begin

lemma try_from_repr [simp]: "try_from repr all (repr v) = Some v"
  unfolding try_from_def by (rule find_distinct [OF distinct_repr complete])

lemma try_from_iff: "try_from repr all n = Some v \<longleftrightarrow> repr v = n"
  using find_key_Some(1) try_from_repr unfolding try_from_def by fastforce

lemma try_from_None: "try_from repr all n = None \<longleftrightarrow> (\<forall>v. repr v \<noteq> n)"
  using try_from_iff by (cases "try_from repr all n") auto

lemma repr_eq [simp]: "repr v = repr w \<longleftrightarrow> v = w"
  using try_from_repr by (metis option.inject)

end

locale repr_codec = repr_enum repr all + prim: exact_codec wr rd always + prim: fixed_codec wr rd always width
  for repr :: "'e \<Rightarrow> 'p" and all :: "'e list" and wr :: "'p writer" and rd :: "'p reader" and width :: nat
begin

lemma rd_enum_iff: "rd_enum rd repr all bs = Some (v, r) \<longleftrightarrow> bs = wr_enum wr repr v @ r"
proof
  assume "rd_enum rd repr all bs = Some (v, r)"
  then obtain n where "rd bs = Some (n, r)" and "try_from repr all n = Some v"
    by (auto simp: rd_enum_def split: option.splits)
  then show "bs = wr_enum wr repr v @ r"
    by (simp add: prim.rd_iff try_from_iff wr_enum_def)
next
  assume "bs = wr_enum wr repr v @ r"
  then show "rd_enum rd repr all bs = Some (v, r)"
    by (simp add: rd_enum_def wr_enum_def prim.rd_wr)
qed

lemma rd_enum_None: "rd_enum rd repr all bs = None \<longleftrightarrow> (\<forall>n r. rd bs = Some (n, r) \<longrightarrow> (\<forall>v. repr v \<noteq> n))"
  by (auto simp: rd_enum_def try_from_None try_from_iff split: option.splits)

end

sublocale repr_codec \<subseteq> enum: exact_codec "wr_enum wr repr" "rd_enum rd repr all" always
  by unfold_locales (simp_all add: rd_enum_iff)

sublocale repr_codec \<subseteq> enum: fixed_codec "wr_enum wr repr" "rd_enum rd repr all" always width
  by unfold_locales (simp_all add: rd_enum_iff wr_enum_def prim.length_wr rd_enum_def prim.rd_short,
    auto simp: prim.length_wr rd_enum_iff wr_enum_def simp flip: rd_enum_def)

end
