(* ===== verification/RustStr.thy ===== *)
theory RustStr
  imports Codec
begin

text \<open>
  The operations of Rust strings the program uses: white space, trimming, splitting into lines and
  words, decimal numbers, and the encodings UTF-8 and UTF-16. A string is the list of its Unicode scalar values.
\<close>

section \<open>Characters\<close>

definition is_whitespace :: "nat \<Rightarrow> bool" where
  "is_whitespace c \<longleftrightarrow>
     (9 \<le> c \<and> c \<le> 13) \<or> c = 32 \<or> c = 0x85 \<or> c = 0xA0 \<or> c = 0x1680 \<or> (0x2000 \<le> c \<and> c \<le> 0x200A)
     \<or> c = 0x2028 \<or> c = 0x2029 \<or> c = 0x202F \<or> c = 0x205F \<or> c = 0x3000"

definition is_ascii_digit :: "nat \<Rightarrow> bool" where
  "is_ascii_digit c \<longleftrightarrow> 48 \<le> c \<and> c \<le> 57"

definition is_scalar_value :: "nat \<Rightarrow> bool" where
  "is_scalar_value c \<longleftrightarrow> c < 0xD800 \<or> (0xE000 \<le> c \<and> c < 0x110000)"

section \<open>Trimming and splitting\<close>

definition trim :: "str \<Rightarrow> str" where
  "trim s = rev (dropWhile is_whitespace (rev (dropWhile is_whitespace s)))"

fun strip_prefix :: "str \<Rightarrow> str \<Rightarrow> str option" where
    "strip_prefix [] s = Some s"
  | "strip_prefix (p # ps) [] = None"
  | "strip_prefix (p # ps) (c # s) = (if p = c then strip_prefix ps s else None)"

definition starts_with :: "str \<Rightarrow> str \<Rightarrow> bool" where
  "starts_with p s \<longleftrightarrow> strip_prefix p s \<noteq> None"

definition strip_cr :: "str \<Rightarrow> str" where
  "strip_cr l = (if l \<noteq> [] \<and> last l = 13 then butlast l else l)"

text \<open>A line ends at a line feed, which is dropped with a carriage return before it; the last line
  may have no line feed.\<close>

function lines :: "str \<Rightarrow> str list" where
  "lines s =
     (if s = [] then []
      else case dropWhile (\<lambda>c. c \<noteq> 10) s of
             [] \<Rightarrow> [s]
           | _ # r \<Rightarrow> strip_cr (takeWhile (\<lambda>c. c \<noteq> 10) s) # lines r)"
  by pat_completeness auto
termination
proof (relation "measure length")
  fix s :: str and c r
  assume "dropWhile (\<lambda>c. c \<noteq> 10) s = c # r"
  then have "length (c # r) \<le> length s" by (metis length_dropWhile_le)
  then show "(r, s) \<in> measure length" by simp
qed simp

function split_whitespace :: "str \<Rightarrow> str list" where
  "split_whitespace s =
     (let t = dropWhile is_whitespace s in
      if t = [] then []
      else takeWhile (\<lambda>c. \<not> is_whitespace c) t # split_whitespace (dropWhile (\<lambda>c. \<not> is_whitespace c) t))"
  by pat_completeness auto
termination
proof (relation "measure length")
  fix s t :: str
  assume t: "t = dropWhile is_whitespace s" and "t \<noteq> []"
  then have "\<not> is_whitespace (hd t)" by (metis hd_dropWhile)
  with \<open>t \<noteq> []\<close> have "length (dropWhile (\<lambda>c. \<not> is_whitespace c) t) < length t"
    by (cases t) (auto intro: le_imp_less_Suc length_dropWhile_le)
  also have "length t \<le> length s" by (simp add: t length_dropWhile_le)
  finally show "(dropWhile (\<lambda>c. \<not> is_whitespace c) t, s) \<in> measure length" by simp
qed simp

declare lines.simps [simp del] split_whitespace.simps [simp del]

section \<open>Decimal numbers\<close>

fun digits_val :: "int \<Rightarrow> str \<Rightarrow> int option" where
    "digits_val n [] = Some n"
  | "digits_val n (c # s) = (if is_ascii_digit c then digits_val (10 * n + int (c - 48)) s else None)"

text \<open>The parser of an unsigned integer type: an optional plus sign, at least one digit, and an
  error on overflow.\<close>

definition parse_uint :: "int \<Rightarrow> str \<Rightarrow> int option" where
  "parse_uint limit s =
     (let ds = (case s of [] \<Rightarrow> [] | c # r \<Rightarrow> if c = 43 then r else s) in
      if ds = [] then None
      else case digits_val 0 ds of
             None \<Rightarrow> None
           | Some n \<Rightarrow> if n < limit then Some n else None)"

definition parse_u32 :: "str \<Rightarrow> u32 option" where
  "parse_u32 s = map_option of_int (parse_uint (2 ^ 32) s)"

definition parse_u8 :: "str \<Rightarrow> u8 option" where
  "parse_u8 s = map_option of_int (parse_uint (2 ^ 8) s)"

fun decimal :: "nat \<Rightarrow> str" where
  "decimal n = (if n < 10 then [48 + n] else decimal (n div 10) @ [48 + n mod 10])"

declare decimal.simps [simp del]

definition u32_to_string :: "u32 \<Rightarrow> str" where
  "u32_to_string w = decimal (unat w)"

section \<open>Encodings\<close>

fun utf8_char :: "nat \<Rightarrow> bytes" where
  "utf8_char c =
     (if c < 0x80 then [of_nat c]
      else if c < 0x800 then [of_nat (0xC0 + c div 64), of_nat (0x80 + c mod 64)]
      else if c < 0x10000 then
        [of_nat (0xE0 + c div 4096), of_nat (0x80 + c div 64 mod 64), of_nat (0x80 + c mod 64)]
      else [of_nat (0xF0 + c div 262144), of_nat (0x80 + c div 4096 mod 64),
            of_nat (0x80 + c div 64 mod 64), of_nat (0x80 + c mod 64)])"

definition str_bytes :: "str \<Rightarrow> bytes" where
  "str_bytes s = concat (map utf8_char s)"

text \<open>The byte sequences that are valid UTF-8, as the standard library checks them.\<close>

definition is_continuation :: "u8 \<Rightarrow> bool" where
  "is_continuation b \<longleftrightarrow> 0x80 \<le> b \<and> b \<le> 0xBF"

fun is_utf8 :: "bytes \<Rightarrow> bool" where
    "is_utf8 [] \<longleftrightarrow> True"
  | "is_utf8 (a # r) \<longleftrightarrow>
       (if a < 0x80 then is_utf8 r
        else case r of
          [] \<Rightarrow> False
        | b # r1 \<Rightarrow>
            if 0xC2 \<le> a \<and> a \<le> 0xDF then is_continuation b \<and> is_utf8 r1
            else case r1 of
              [] \<Rightarrow> False
            | c # r2 \<Rightarrow>
                if 0xE0 \<le> a \<and> a \<le> 0xEF
                then is_continuation b \<and> is_continuation c \<and> (a = 0xE0 \<longrightarrow> 0xA0 \<le> b) \<and>
                     (a = 0xED \<longrightarrow> b \<le> 0x9F) \<and> is_utf8 r2
                else case r2 of
                  [] \<Rightarrow> False
                | d # r3 \<Rightarrow>
                    0xF0 \<le> a \<and> a \<le> 0xF4 \<and> is_continuation b \<and> is_continuation c \<and>
                    is_continuation d \<and> (a = 0xF0 \<longrightarrow> 0x90 \<le> b) \<and> (a = 0xF4 \<longrightarrow> b \<le> 0x8F) \<and> is_utf8 r3)"

fun utf16_char :: "nat \<Rightarrow> u16 list" where
  "utf16_char c =
     (if c < 0x10000 then [of_nat c]
      else [of_nat (0xD800 + (c - 0x10000) div 1024), of_nat (0xDC00 + (c - 0x10000) mod 1024)])"

definition encode_utf16 :: "str \<Rightarrow> u16 list" where
  "encode_utf16 s = concat (map utf16_char s)"

section \<open>Lemmas\<close>

lemma dropWhile_all: "\<forall>c \<in> set s. P c \<Longrightarrow> dropWhile P s = []"
  by (induction s) auto

lemma dropWhile_hd: "s = [] \<or> \<not> P (hd s) \<Longrightarrow> dropWhile P s = s"
  by (cases s) auto

lemma trim_id: "s = [] \<or> (\<not> is_whitespace (hd s) \<and> \<not> is_whitespace (last s)) \<Longrightarrow> trim s = s"
  by (auto simp: trim_def dropWhile_hd hd_rev)

lemma lines_Nil [simp]: "lines [] = []"
  by (simp add: lines.simps)

lemma lines_line:
  assumes "10 \<notin> set l"
  shows "lines (l @ 10 # r) = strip_cr l # lines r"
proof -
  have "\<forall>c \<in> set l. c \<noteq> 10" using assms by metis
  then have "dropWhile (\<lambda>c. c \<noteq> 10) (l @ 10 # r) = 10 # r"
    and "takeWhile (\<lambda>c. c \<noteq> 10) (l @ 10 # r) = l"
    by (simp_all add: dropWhile_append2 takeWhile_append2)
  then show ?thesis by (subst lines.simps) simp
qed

lemma digits_val_append:
  "digits_val n (s @ t) = (case digits_val n s of None \<Rightarrow> None | Some m \<Rightarrow> digits_val m t)"
  by (induction s arbitrary: n) auto

lemma decimal_digits: "\<forall>c \<in> set (decimal n). is_ascii_digit c"
proof (induction n rule: decimal.induct)
  case (1 n)
  then show ?case by (subst decimal.simps) (auto simp: is_ascii_digit_def)
qed

lemma decimal_nonempty [simp]: "decimal n \<noteq> []"
  by (subst decimal.simps) simp

lemma digits_val_decimal: "digits_val 0 (decimal n) = Some (int n)"
proof (induction n rule: decimal.induct)
  case (1 n)
  then show ?case
    by (subst decimal.simps) (auto simp: digits_val_append is_ascii_digit_def zdiv_int zmod_int)
qed

lemma parse_uint_digits:
  assumes "s \<noteq> []" and "\<forall>c \<in> set s. is_ascii_digit c"
  shows "parse_uint limit s =
    (case digits_val 0 s of None \<Rightarrow> None | Some n \<Rightarrow> if n < limit then Some n else None)"
  using assms by (cases s) (auto simp: parse_uint_def is_ascii_digit_def)

lemma parse_u32_to_string [simp]: "parse_u32 (u32_to_string w) = Some w"
proof -
  have "uint w < 2 ^ 32" using uint_lt2p [of w] by simp
  then show ?thesis
    by (simp add: parse_u32_def u32_to_string_def parse_uint_digits decimal_digits digits_val_decimal)
qed

lemma u32_to_string_digits:
  "u32_to_string w \<noteq> []" "\<forall>c \<in> set (u32_to_string w). is_ascii_digit c"
  by (simp_all add: u32_to_string_def decimal_digits)

lemma digit_not_special: "is_ascii_digit c \<Longrightarrow> \<not> is_whitespace c \<and> c \<noteq> 10 \<and> c \<noteq> 13 \<and> c \<noteq> 33 \<and> c \<noteq> 35"
  by (auto simp: is_ascii_digit_def is_whitespace_def)

text \<open>The rules that evaluate the string functions on a literal.\<close>

lemmas str_eval = lines.simps split_whitespace.simps trim_def strip_cr_def starts_with_def
  is_whitespace_def is_ascii_digit_def parse_u32_def parse_u8_def parse_uint_def Let_def

end
