(* ===== verification/Flags.thy ===== *)
theory Flags
  imports Codec
begin

text \<open>
  The bit sets of constants.rs. The crate bitflags keeps every bit of the integer
  (from bits retain), so a value of one of these types is the integer itself; the named constants
  of a type are an enumeration with its masks.
\<close>

section \<open>The operations of a bit set\<close>

definition contains :: "'a::len word \<Rightarrow> 'a word \<Rightarrow> bool" where
  "contains s m \<longleftrightarrow> s AND m = m"

definition intersects :: "'a::len word \<Rightarrow> 'a word \<Rightarrow> bool" where
  "intersects s m \<longleftrightarrow> s AND m \<noteq> 0"

lemma contains_iff: "contains s m \<longleftrightarrow> (\<forall>n. bit m n \<longrightarrow> bit s n)"
  by (auto simp: contains_def bit_eq_iff bit_simps dest: bit_imp_le_length)

lemma contains_empty [simp]: "contains s 0"
  by (simp add: contains_def)

lemma contains_refl [simp]: "contains s s"
  by (simp add: contains_def)

lemma contains_trans: "contains s m \<Longrightarrow> contains m k \<Longrightarrow> contains s k"
  by (auto simp: contains_iff)

lemma contains_or: "contains s (m OR k) \<longleftrightarrow> contains s m \<and> contains s k"
  by (auto simp: contains_iff bit_simps)

section \<open>The constants\<close>

datatype (plugins only: code) Location =
    Location_Limbo
  | Location_Deck
  | Location_Hand
  | Location_MZone
  | Location_SZone
  | Location_Grave
  | Location_Removed
  | Location_Extra
  | Location_Overlay
  | Location_OnField

fun Location_bits :: "Location \<Rightarrow> u8" where
    "Location_bits Location_Limbo = 0"
  | "Location_bits Location_Deck = 0x1"
  | "Location_bits Location_Hand = 0x2"
  | "Location_bits Location_MZone = 0x4"
  | "Location_bits Location_SZone = 0x8"
  | "Location_bits Location_Grave = 0x10"
  | "Location_bits Location_Removed = 0x20"
  | "Location_bits Location_Extra = 0x40"
  | "Location_bits Location_Overlay = 0x80"
  | "Location_bits Location_OnField = 0xC"

datatype (plugins only: code) Position =
    Position_Any
  | Position_FaceupAttack
  | Position_FaceDownAttack
  | Position_FaceupDefense
  | Position_FacedownDefense
  | Position_Faceup
  | Position_Facedown
  | Position_Attack
  | Position_Defense
  | Position_Reveal

fun Position_bits :: "Position \<Rightarrow> u8" where
    "Position_bits Position_Any = 0"
  | "Position_bits Position_FaceupAttack = 0x1"
  | "Position_bits Position_FaceDownAttack = 0x2"
  | "Position_bits Position_FaceupDefense = 0x4"
  | "Position_bits Position_FacedownDefense = 0x8"
  | "Position_bits Position_Faceup = 0x5"
  | "Position_bits Position_Facedown = 0xA"
  | "Position_bits Position_Attack = 0x3"
  | "Position_bits Position_Defense = 0xC"
  | "Position_bits Position_Reveal = 0x80"

datatype (plugins only: code) Timing =
    Timing_DrawPhase
  | Timing_StandbyPhase
  | Timing_MainEnd
  | Timing_BattleStart
  | Timing_BattleEnd
  | Timing_EndPhase
  | Timing_Summon
  | Timing_SpecialSummon
  | Timing_FlipSummon
  | Timing_MonsterSet
  | Timing_SpellTrapSet
  | Timing_PositionChange
  | Timing_Attack
  | Timing_DamageStep
  | Timing_DamageCalculate
  | Timing_ChainEnd
  | Timing_Draw
  | Timing_Damage
  | Timing_Recover
  | Timing_Destroy
  | Timing_Remove
  | Timing_ToHand
  | Timing_ToDeck
  | Timing_ToGrave
  | Timing_BattlePhase
  | Timing_Equip
  | Timing_BattleStepEnd
  | Timing_Battled

fun Timing_bits :: "Timing \<Rightarrow> u32" where
    "Timing_bits Timing_DrawPhase = 0x1"
  | "Timing_bits Timing_StandbyPhase = 0x2"
  | "Timing_bits Timing_MainEnd = 0x4"
  | "Timing_bits Timing_BattleStart = 0x8"
  | "Timing_bits Timing_BattleEnd = 0x10"
  | "Timing_bits Timing_EndPhase = 0x20"
  | "Timing_bits Timing_Summon = 0x40"
  | "Timing_bits Timing_SpecialSummon = 0x80"
  | "Timing_bits Timing_FlipSummon = 0x100"
  | "Timing_bits Timing_MonsterSet = 0x200"
  | "Timing_bits Timing_SpellTrapSet = 0x400"
  | "Timing_bits Timing_PositionChange = 0x800"
  | "Timing_bits Timing_Attack = 0x1000"
  | "Timing_bits Timing_DamageStep = 0x2000"
  | "Timing_bits Timing_DamageCalculate = 0x4000"
  | "Timing_bits Timing_ChainEnd = 0x8000"
  | "Timing_bits Timing_Draw = 0x10000"
  | "Timing_bits Timing_Damage = 0x20000"
  | "Timing_bits Timing_Recover = 0x40000"
  | "Timing_bits Timing_Destroy = 0x80000"
  | "Timing_bits Timing_Remove = 0x100000"
  | "Timing_bits Timing_ToHand = 0x200000"
  | "Timing_bits Timing_ToDeck = 0x400000"
  | "Timing_bits Timing_ToGrave = 0x800000"
  | "Timing_bits Timing_BattlePhase = 0x1000000"
  | "Timing_bits Timing_Equip = 0x2000000"
  | "Timing_bits Timing_BattleStepEnd = 0x4000000"
  | "Timing_bits Timing_Battled = 0x8000000"

datatype (plugins only: code) Type =
    Type_Monster
  | Type_Spell
  | Type_Trap
  | Type_Normal
  | Type_Effect
  | Type_Fusion
  | Type_Ritual
  | Type_Trapmonster
  | Type_Spirit
  | Type_Union
  | Type_Dual
  | Type_Tuner
  | Type_Synchro
  | Type_Token
  | Type_Quickplay
  | Type_Continuous
  | Type_Equip
  | Type_Field
  | Type_Counter
  | Type_Flip
  | Type_Toon
  | Type_Xyz
  | Type_Pendulum
  | Type_SpecialSummon
  | Type_Link
  | Type_ExtraDeck

fun Type_bits :: "Type \<Rightarrow> u32" where
    "Type_bits Type_Monster = 0x1"
  | "Type_bits Type_Spell = 0x2"
  | "Type_bits Type_Trap = 0x4"
  | "Type_bits Type_Normal = 0x10"
  | "Type_bits Type_Effect = 0x20"
  | "Type_bits Type_Fusion = 0x40"
  | "Type_bits Type_Ritual = 0x80"
  | "Type_bits Type_Trapmonster = 0x100"
  | "Type_bits Type_Spirit = 0x200"
  | "Type_bits Type_Union = 0x400"
  | "Type_bits Type_Dual = 0x800"
  | "Type_bits Type_Tuner = 0x1000"
  | "Type_bits Type_Synchro = 0x2000"
  | "Type_bits Type_Token = 0x4000"
  | "Type_bits Type_Quickplay = 0x10000"
  | "Type_bits Type_Continuous = 0x20000"
  | "Type_bits Type_Equip = 0x40000"
  | "Type_bits Type_Field = 0x80000"
  | "Type_bits Type_Counter = 0x100000"
  | "Type_bits Type_Flip = 0x200000"
  | "Type_bits Type_Toon = 0x400000"
  | "Type_bits Type_Xyz = 0x800000"
  | "Type_bits Type_Pendulum = 0x1000000"
  | "Type_bits Type_SpecialSummon = 0x2000000"
  | "Type_bits Type_Link = 0x4000000"
  | "Type_bits Type_ExtraDeck = 0x4802040"

datatype (plugins only: code) Race =
    Race_Warrior
  | Race_Spellcaster
  | Race_Fairy
  | Race_Fiend
  | Race_Zombie
  | Race_Machine
  | Race_Aqua
  | Race_Pyro
  | Race_Rock
  | Race_Windbeast
  | Race_Plant
  | Race_Insect
  | Race_Thunder
  | Race_Dragon
  | Race_Beast
  | Race_Beastwarrior
  | Race_Dinosaur
  | Race_Fish
  | Race_Seaserpent
  | Race_Reptile
  | Race_Psycho
  | Race_Devine
  | Race_Creatorgod
  | Race_Wyrm
  | Race_Cyberse
  | Race_Illusion
  | Race_All

fun Race_bits :: "Race \<Rightarrow> u32" where
    "Race_bits Race_Warrior = 0x1"
  | "Race_bits Race_Spellcaster = 0x2"
  | "Race_bits Race_Fairy = 0x4"
  | "Race_bits Race_Fiend = 0x8"
  | "Race_bits Race_Zombie = 0x10"
  | "Race_bits Race_Machine = 0x20"
  | "Race_bits Race_Aqua = 0x40"
  | "Race_bits Race_Pyro = 0x80"
  | "Race_bits Race_Rock = 0x100"
  | "Race_bits Race_Windbeast = 0x200"
  | "Race_bits Race_Plant = 0x400"
  | "Race_bits Race_Insect = 0x800"
  | "Race_bits Race_Thunder = 0x1000"
  | "Race_bits Race_Dragon = 0x2000"
  | "Race_bits Race_Beast = 0x4000"
  | "Race_bits Race_Beastwarrior = 0x8000"
  | "Race_bits Race_Dinosaur = 0x10000"
  | "Race_bits Race_Fish = 0x20000"
  | "Race_bits Race_Seaserpent = 0x40000"
  | "Race_bits Race_Reptile = 0x80000"
  | "Race_bits Race_Psycho = 0x100000"
  | "Race_bits Race_Devine = 0x200000"
  | "Race_bits Race_Creatorgod = 0x400000"
  | "Race_bits Race_Wyrm = 0x800000"
  | "Race_bits Race_Cyberse = 0x1000000"
  | "Race_bits Race_Illusion = 0x2000000"
  | "Race_bits Race_All = 0x3FFFFFF"

datatype (plugins only: code) Reason =
    Reason_Destroy
  | Reason_Release
  | Reason_Temporary
  | Reason_Material
  | Reason_Summon
  | Reason_Battle
  | Reason_Effect
  | Reason_Cost
  | Reason_Adjust
  | Reason_LostTarget
  | Reason_Rule
  | Reason_SpecialSummon
  | Reason_DisableSummon
  | Reason_Flip
  | Reason_Discard
  | Reason_RecoverDamage
  | Reason_RecoverRecover
  | Reason_Return
  | Reason_Fusion
  | Reason_Synchro
  | Reason_Ritual
  | Reason_Xyz
  | Reason_Replace
  | Reason_Draw
  | Reason_Redirect
  | Reason_Reveal
  | Reason_Link
  | Reason_LostOverlay
  | Reason_Maintenance
  | Reason_Action
  | Reason_Procedure

fun Reason_bits :: "Reason \<Rightarrow> u32" where
    "Reason_bits Reason_Destroy = 0x1"
  | "Reason_bits Reason_Release = 0x2"
  | "Reason_bits Reason_Temporary = 0x4"
  | "Reason_bits Reason_Material = 0x8"
  | "Reason_bits Reason_Summon = 0x10"
  | "Reason_bits Reason_Battle = 0x20"
  | "Reason_bits Reason_Effect = 0x40"
  | "Reason_bits Reason_Cost = 0x80"
  | "Reason_bits Reason_Adjust = 0x100"
  | "Reason_bits Reason_LostTarget = 0x200"
  | "Reason_bits Reason_Rule = 0x400"
  | "Reason_bits Reason_SpecialSummon = 0x800"
  | "Reason_bits Reason_DisableSummon = 0x1000"
  | "Reason_bits Reason_Flip = 0x2000"
  | "Reason_bits Reason_Discard = 0x4000"
  | "Reason_bits Reason_RecoverDamage = 0x8000"
  | "Reason_bits Reason_RecoverRecover = 0x10000"
  | "Reason_bits Reason_Return = 0x20000"
  | "Reason_bits Reason_Fusion = 0x40000"
  | "Reason_bits Reason_Synchro = 0x80000"
  | "Reason_bits Reason_Ritual = 0x100000"
  | "Reason_bits Reason_Xyz = 0x200000"
  | "Reason_bits Reason_Replace = 0x1000000"
  | "Reason_bits Reason_Draw = 0x2000000"
  | "Reason_bits Reason_Redirect = 0x4000000"
  | "Reason_bits Reason_Reveal = 0x8000000"
  | "Reason_bits Reason_Link = 0x10000000"
  | "Reason_bits Reason_LostOverlay = 0x20000000"
  | "Reason_bits Reason_Maintenance = 0x40000000"
  | "Reason_bits Reason_Action = 0x80000000"
  | "Reason_bits Reason_Procedure = 0x10280000"

datatype (plugins only: code) Status =
    Status_Disabled
  | Status_ToEnable
  | Status_ToDisable
  | Status_ProcessComplete
  | Status_SetTurn
  | Status_NoLevel
  | Status_BattleResult
  | Status_SpecialSummonStep
  | Status_CannotChangeForm
  | Status_Summoning
  | Status_EffectEnabled
  | Status_SummonTurn
  | Status_DestroyConfirmed
  | Status_LeaveConfirmed
  | Status_BattleDestroyed
  | Status_CopyingEffect
  | Status_Chaining
  | Status_SummonDisabled
  | Status_ActivateDisabled
  | Status_EffectReplaced
  | Status_FlipSummoning
  | Status_AttackCanceled
  | Status_Initializing
  | Status_ToHandWithoutConfirm
  | Status_JustPos
  | Status_ContinuousPos
  | Status_Forbidden
  | Status_ActFromHand
  | Status_OpponentBattle
  | Status_FlipSummonTurn
  | Status_SpecialSummonTurn
  | Status_FlipSummonDisabled

fun Status_bits :: "Status \<Rightarrow> u32" where
    "Status_bits Status_Disabled = 0x0001"
  | "Status_bits Status_ToEnable = 0x0002"
  | "Status_bits Status_ToDisable = 0x0004"
  | "Status_bits Status_ProcessComplete = 0x0008"
  | "Status_bits Status_SetTurn = 0x0010"
  | "Status_bits Status_NoLevel = 0x0020"
  | "Status_bits Status_BattleResult = 0x0040"
  | "Status_bits Status_SpecialSummonStep = 0x0080"
  | "Status_bits Status_CannotChangeForm = 0x0100"
  | "Status_bits Status_Summoning = 0x0200"
  | "Status_bits Status_EffectEnabled = 0x0400"
  | "Status_bits Status_SummonTurn = 0x0800"
  | "Status_bits Status_DestroyConfirmed = 0x1000"
  | "Status_bits Status_LeaveConfirmed = 0x2000"
  | "Status_bits Status_BattleDestroyed = 0x4000"
  | "Status_bits Status_CopyingEffect = 0x8000"
  | "Status_bits Status_Chaining = 0x10000"
  | "Status_bits Status_SummonDisabled = 0x20000"
  | "Status_bits Status_ActivateDisabled = 0x40000"
  | "Status_bits Status_EffectReplaced = 0x80000"
  | "Status_bits Status_FlipSummoning = 0x100000"
  | "Status_bits Status_AttackCanceled = 0x200000"
  | "Status_bits Status_Initializing = 0x400000"
  | "Status_bits Status_ToHandWithoutConfirm = 0x800000"
  | "Status_bits Status_JustPos = 0x1000000"
  | "Status_bits Status_ContinuousPos = 0x2000000"
  | "Status_bits Status_Forbidden = 0x4000000"
  | "Status_bits Status_ActFromHand = 0x8000000"
  | "Status_bits Status_OpponentBattle = 0x10000000"
  | "Status_bits Status_FlipSummonTurn = 0x20000000"
  | "Status_bits Status_SpecialSummonTurn = 0x40000000"
  | "Status_bits Status_FlipSummonDisabled = 0x80000000"

datatype (plugins only: code) Query =
    Query_Code
  | Query_Position
  | Query_Alias
  | Query_Type
  | Query_Level
  | Query_Rank
  | Query_Attribute
  | Query_Race
  | Query_Attack
  | Query_Defense
  | Query_BaseAttack
  | Query_BaseDefense
  | Query_Reason
  | Query_ReasonCard
  | Query_EquipCard
  | Query_TargetCard
  | Query_OverlayCard
  | Query_Counters
  | Query_Owner
  | Query_Status
  | Query_LeftScale
  | Query_RightScale
  | Query_Link

fun Query_bits :: "Query \<Rightarrow> u32" where
    "Query_bits Query_Code = 0x1"
  | "Query_bits Query_Position = 0x2"
  | "Query_bits Query_Alias = 0x4"
  | "Query_bits Query_Type = 0x8"
  | "Query_bits Query_Level = 0x10"
  | "Query_bits Query_Rank = 0x20"
  | "Query_bits Query_Attribute = 0x40"
  | "Query_bits Query_Race = 0x80"
  | "Query_bits Query_Attack = 0x100"
  | "Query_bits Query_Defense = 0x200"
  | "Query_bits Query_BaseAttack = 0x400"
  | "Query_bits Query_BaseDefense = 0x800"
  | "Query_bits Query_Reason = 0x1000"
  | "Query_bits Query_ReasonCard = 0x2000"
  | "Query_bits Query_EquipCard = 0x4000"
  | "Query_bits Query_TargetCard = 0x8000"
  | "Query_bits Query_OverlayCard = 0x10000"
  | "Query_bits Query_Counters = 0x20000"
  | "Query_bits Query_Owner = 0x40000"
  | "Query_bits Query_Status = 0x80000"
  | "Query_bits Query_LeftScale = 0x200000"
  | "Query_bits Query_RightScale = 0x400000"
  | "Query_bits Query_Link = 0x800000"

datatype (plugins only: code) Attribute =
    Attribute_Earth
  | Attribute_Water
  | Attribute_Fire
  | Attribute_Wind
  | Attribute_Light
  | Attribute_Dark
  | Attribute_Devine
  | Attribute_All

fun Attribute_bits :: "Attribute \<Rightarrow> u32" where
    "Attribute_bits Attribute_Earth = 0x1"
  | "Attribute_bits Attribute_Water = 0x2"
  | "Attribute_bits Attribute_Fire = 0x4"
  | "Attribute_bits Attribute_Wind = 0x8"
  | "Attribute_bits Attribute_Light = 0x10"
  | "Attribute_bits Attribute_Dark = 0x20"
  | "Attribute_bits Attribute_Devine = 0x40"
  | "Attribute_bits Attribute_All = 0x7F"

datatype (plugins only: code) Linkmarkers =
    Linkmarkers_BottomLeft
  | Linkmarkers_Bottom
  | Linkmarkers_BottomRight
  | Linkmarkers_Left
  | Linkmarkers_Right
  | Linkmarkers_TopLeft
  | Linkmarkers_Top
  | Linkmarkers_TopRight

fun Linkmarkers_bits :: "Linkmarkers \<Rightarrow> u32" where
    "Linkmarkers_bits Linkmarkers_BottomLeft = 0x1"
  | "Linkmarkers_bits Linkmarkers_Bottom = 0x2"
  | "Linkmarkers_bits Linkmarkers_BottomRight = 0x4"
  | "Linkmarkers_bits Linkmarkers_Left = 0x8"
  | "Linkmarkers_bits Linkmarkers_Right = 0x20"
  | "Linkmarkers_bits Linkmarkers_TopLeft = 0x40"
  | "Linkmarkers_bits Linkmarkers_Top = 0x80"
  | "Linkmarkers_bits Linkmarkers_TopRight = 0x100"

datatype (plugins only: code) SummonType =
    SummonType_Normal
  | SummonType_Advance
  | SummonType_Dual
  | SummonType_Flip
  | SummonType_Special
  | SummonType_Fusion
  | SummonType_Ritual
  | SummonType_Synchro
  | SummonType_Xyz
  | SummonType_Pendulum
  | SummonType_Link

fun SummonType_bits :: "SummonType \<Rightarrow> u32" where
    "SummonType_bits SummonType_Normal = 0x10000000"
  | "SummonType_bits SummonType_Advance = 0x11000000"
  | "SummonType_bits SummonType_Dual = 0x12000000"
  | "SummonType_bits SummonType_Flip = 0x20000000"
  | "SummonType_bits SummonType_Special = 0x40000000"
  | "SummonType_bits SummonType_Fusion = 0x43000000"
  | "SummonType_bits SummonType_Ritual = 0x45000000"
  | "SummonType_bits SummonType_Synchro = 0x46000000"
  | "SummonType_bits SummonType_Xyz = 0x49000000"
  | "SummonType_bits SummonType_Pendulum = 0x4A000000"
  | "SummonType_bits SummonType_Link = 0x4C000000"

datatype (plugins only: code) OT =
    OT_OCG
  | OT_TCG
  | OT_Custom
  | OT_SC

fun OT_bits :: "OT \<Rightarrow> u8" where
    "OT_bits OT_OCG = 1"
  | "OT_bits OT_TCG = 2"
  | "OT_bits OT_Custom = 4"
  | "OT_bits OT_SC = 8"

datatype (plugins only: code) Category =
    Category_Destroy
  | Category_Release
  | Category_Remove
  | Category_ToHand
  | Category_ToDeck
  | Category_ToGrave
  | Category_DeckDestroy
  | Category_HandDestroy
  | Category_Summon
  | Category_SpecialSummon
  | Category_Token
  | Category_GraveAction
  | Category_Position
  | Category_Control
  | Category_Disable
  | Category_DisableSummon
  | Category_Draw
  | Category_Search
  | Category_Equip
  | Category_Damage
  | Category_Recover
  | Category_AttackChange
  | Category_DefenseChange
  | Category_Counter
  | Category_Coin
  | Category_Dice
  | Category_LeaveGrave
  | Category_GraveSpecialSummon
  | Category_Negate
  | Category_Announce
  | Category_FusionSummon
  | Category_ToExtra

fun Category_bits :: "Category \<Rightarrow> u32" where
    "Category_bits Category_Destroy = 0x1"
  | "Category_bits Category_Release = 0x2"
  | "Category_bits Category_Remove = 0x4"
  | "Category_bits Category_ToHand = 0x8"
  | "Category_bits Category_ToDeck = 0x10"
  | "Category_bits Category_ToGrave = 0x20"
  | "Category_bits Category_DeckDestroy = 0x40"
  | "Category_bits Category_HandDestroy = 0x80"
  | "Category_bits Category_Summon = 0x100"
  | "Category_bits Category_SpecialSummon = 0x200"
  | "Category_bits Category_Token = 0x400"
  | "Category_bits Category_GraveAction = 0x800"
  | "Category_bits Category_Position = 0x1000"
  | "Category_bits Category_Control = 0x2000"
  | "Category_bits Category_Disable = 0x4000"
  | "Category_bits Category_DisableSummon = 0x8000"
  | "Category_bits Category_Draw = 0x10000"
  | "Category_bits Category_Search = 0x20000"
  | "Category_bits Category_Equip = 0x40000"
  | "Category_bits Category_Damage = 0x80000"
  | "Category_bits Category_Recover = 0x100000"
  | "Category_bits Category_AttackChange = 0x200000"
  | "Category_bits Category_DefenseChange = 0x400000"
  | "Category_bits Category_Counter = 0x800000"
  | "Category_bits Category_Coin = 0x1000000"
  | "Category_bits Category_Dice = 0x2000000"
  | "Category_bits Category_LeaveGrave = 0x4000000"
  | "Category_bits Category_GraveSpecialSummon = 0x8000000"
  | "Category_bits Category_Negate = 0x10000000"
  | "Category_bits Category_Announce = 0x20000000"
  | "Category_bits Category_FusionSummon = 0x40000000"
  | "Category_bits Category_ToExtra = 0x80000000"

section \<open>Operations on the bit sets\<close>

definition Position_is_face_down :: "u8 \<Rightarrow> bool" where
  "Position_is_face_down p \<longleftrightarrow> intersects p (Position_bits Position_Facedown)"

definition Race_COUNT :: u8 where
  "Race_COUNT = 26"

definition Attribute_COUNT :: u8 where
  "Attribute_COUNT = 7"

end
