(* ===== verification/Constants.thy ===== *)
theory Constants
  imports Flags
begin

text \<open>
  The enumerations of constants.rs and the operations on them: the positions of a player in a room
  (Netplayer) and in the core (CorePlayer), the packed structs TypeChange and PlayerChange, the
  error message of the server, rock paper scissors, and the card pool rules. An enum of the wire is
  its variants, their discriminants and the list of the variants, and interprets the locale of
  enumerations; a struct of the crate modular bitfield is the integer it is stored in with the
  getters and setters the crate generates, which panic on a pattern or value out of range.
\<close>

section \<open>Enumerations\<close>

datatype (plugins only: code) Network =
    Network_ServerId
  | Network_ClientId

fun Network_repr :: "Network \<Rightarrow> u16" where
    "Network_repr Network_ServerId = 29736"
  | "Network_repr Network_ClientId = 57078"

definition Network_all :: "Network list" where
  "Network_all =
    [Network_ServerId,
     Network_ClientId]"

lemma Network_complete: "v \<in> set Network_all"
  by (cases v) (simp_all add: Network_all_def)

interpretation Network: repr_codec Network_repr Network_all wr_u16 rd_u16 2
  by unfold_locales (simp_all add: Network_complete, simp add: Network_all_def)

datatype (plugins only: code) Mode =
    Mode_Single
  | Mode_Match
  | Mode_Tag

fun Mode_repr :: "Mode \<Rightarrow> u8" where
    "Mode_repr Mode_Single = 0"
  | "Mode_repr Mode_Match = 1"
  | "Mode_repr Mode_Tag = 2"

definition Mode_all :: "Mode list" where
  "Mode_all =
    [Mode_Single,
     Mode_Match,
     Mode_Tag]"

lemma Mode_complete: "v \<in> set Mode_all"
  by (cases v) (simp_all add: Mode_all_def)

interpretation Mode: repr_codec Mode_repr Mode_all wr_u8 rd_u8 1
  by unfold_locales (simp_all add: Mode_complete, simp add: Mode_all_def)

datatype (plugins only: code) DuelStage =
    DuelStage_Begin
  | DuelStage_Finger
  | DuelStage_Firstgo
  | DuelStage_Dueling
  | DuelStage_Siding
  | DuelStage_End

fun DuelStage_repr :: "DuelStage \<Rightarrow> u8" where
    "DuelStage_repr DuelStage_Begin = 0"
  | "DuelStage_repr DuelStage_Finger = 1"
  | "DuelStage_repr DuelStage_Firstgo = 2"
  | "DuelStage_repr DuelStage_Dueling = 3"
  | "DuelStage_repr DuelStage_Siding = 4"
  | "DuelStage_repr DuelStage_End = 5"

definition DuelStage_all :: "DuelStage list" where
  "DuelStage_all =
    [DuelStage_Begin,
     DuelStage_Finger,
     DuelStage_Firstgo,
     DuelStage_Dueling,
     DuelStage_Siding,
     DuelStage_End]"

lemma DuelStage_complete: "v \<in> set DuelStage_all"
  by (cases v) (simp_all add: DuelStage_all_def)

interpretation DuelStage: repr_codec DuelStage_repr DuelStage_all wr_u8 rd_u8 1
  by unfold_locales (simp_all add: DuelStage_complete, simp add: DuelStage_all_def)

datatype (plugins only: code) Color =
    Color_Observer
  | Color_System
  | Color_Error
  | Color_Hidden
  | Color_Red
  | Color_Green
  | Color_Blue
  | Color_Babyblue
  | Color_Pink
  | Color_Yellow
  | Color_White
  | Color_Gray
  | Color_Darkgray

fun Color_repr :: "Color \<Rightarrow> u8" where
    "Color_repr Color_Observer = 7"
  | "Color_repr Color_System = 8"
  | "Color_repr Color_Error = 9"
  | "Color_repr Color_Hidden = 10"
  | "Color_repr Color_Red = 11"
  | "Color_repr Color_Green = 12"
  | "Color_repr Color_Blue = 13"
  | "Color_repr Color_Babyblue = 14"
  | "Color_repr Color_Pink = 15"
  | "Color_repr Color_Yellow = 16"
  | "Color_repr Color_White = 17"
  | "Color_repr Color_Gray = 18"
  | "Color_repr Color_Darkgray = 19"

definition Color_all :: "Color list" where
  "Color_all =
    [Color_Observer,
     Color_System,
     Color_Error,
     Color_Hidden,
     Color_Red,
     Color_Green,
     Color_Blue,
     Color_Babyblue,
     Color_Pink,
     Color_Yellow,
     Color_White,
     Color_Gray,
     Color_Darkgray]"

lemma Color_complete: "v \<in> set Color_all"
  by (cases v) (simp_all add: Color_all_def)

interpretation Color: repr_codec Color_repr Color_all wr_u8 rd_u8 1
  by unfold_locales (simp_all add: Color_complete, simp add: Color_all_def)

datatype (plugins only: code) Hint =
    Hint_Event
  | Hint_Message
  | Hint_SelectMessage
  | Hint_OpponentSelected
  | Hint_Effect
  | Hint_Race
  | Hint_Attribute
  | Hint_Code
  | Hint_Number
  | Hint_Card
  | Hint_Zone

fun Hint_repr :: "Hint \<Rightarrow> u8" where
    "Hint_repr Hint_Event = 1"
  | "Hint_repr Hint_Message = 2"
  | "Hint_repr Hint_SelectMessage = 3"
  | "Hint_repr Hint_OpponentSelected = 4"
  | "Hint_repr Hint_Effect = 5"
  | "Hint_repr Hint_Race = 6"
  | "Hint_repr Hint_Attribute = 7"
  | "Hint_repr Hint_Code = 8"
  | "Hint_repr Hint_Number = 9"
  | "Hint_repr Hint_Card = 10"
  | "Hint_repr Hint_Zone = 11"

definition Hint_all :: "Hint list" where
  "Hint_all =
    [Hint_Event,
     Hint_Message,
     Hint_SelectMessage,
     Hint_OpponentSelected,
     Hint_Effect,
     Hint_Race,
     Hint_Attribute,
     Hint_Code,
     Hint_Number,
     Hint_Card,
     Hint_Zone]"

lemma Hint_complete: "v \<in> set Hint_all"
  by (cases v) (simp_all add: Hint_all_def)

interpretation Hint: repr_codec Hint_repr Hint_all wr_u8 rd_u8 1
  by unfold_locales (simp_all add: Hint_complete, simp add: Hint_all_def)

datatype (plugins only: code) Phase =
    Phase_Draw
  | Phase_Standby
  | Phase_Main1
  | Phase_BattleStart
  | Phase_BattleStep
  | Phase_Damage
  | Phase_DamageCalculate
  | Phase_Battle
  | Phase_Main2
  | Phase_End

fun Phase_repr :: "Phase \<Rightarrow> u16" where
    "Phase_repr Phase_Draw = 0x1"
  | "Phase_repr Phase_Standby = 0x2"
  | "Phase_repr Phase_Main1 = 0x4"
  | "Phase_repr Phase_BattleStart = 0x8"
  | "Phase_repr Phase_BattleStep = 0x10"
  | "Phase_repr Phase_Damage = 0x20"
  | "Phase_repr Phase_DamageCalculate = 0x40"
  | "Phase_repr Phase_Battle = 0x80"
  | "Phase_repr Phase_Main2 = 0x100"
  | "Phase_repr Phase_End = 0x200"

definition Phase_all :: "Phase list" where
  "Phase_all =
    [Phase_Draw,
     Phase_Standby,
     Phase_Main1,
     Phase_BattleStart,
     Phase_BattleStep,
     Phase_Damage,
     Phase_DamageCalculate,
     Phase_Battle,
     Phase_Main2,
     Phase_End]"

lemma Phase_complete: "v \<in> set Phase_all"
  by (cases v) (simp_all add: Phase_all_def)

interpretation Phase: repr_codec Phase_repr Phase_all wr_u16 rd_u16 2
  by unfold_locales (simp_all add: Phase_complete, simp add: Phase_all_def)

datatype (plugins only: code) Hand =
    Hand_Scissors
  | Hand_Rock
  | Hand_Paper

fun Hand_repr :: "Hand \<Rightarrow> u8" where
    "Hand_repr Hand_Scissors = 1"
  | "Hand_repr Hand_Rock = 2"
  | "Hand_repr Hand_Paper = 3"

definition Hand_all :: "Hand list" where
  "Hand_all =
    [Hand_Scissors,
     Hand_Rock,
     Hand_Paper]"

lemma Hand_complete: "v \<in> set Hand_all"
  by (cases v) (simp_all add: Hand_all_def)

interpretation Hand: repr_codec Hand_repr Hand_all wr_u8 rd_u8 1
  by unfold_locales (simp_all add: Hand_complete, simp add: Hand_all_def)

datatype (plugins only: code) Rule =
    Rule_OCG
  | Rule_TCG
  | Rule_SC
  | Rule_Custom
  | Rule_OCG_TCG
  | Rule_All

fun Rule_repr :: "Rule \<Rightarrow> u8" where
    "Rule_repr Rule_OCG = 0"
  | "Rule_repr Rule_TCG = 1"
  | "Rule_repr Rule_SC = 2"
  | "Rule_repr Rule_Custom = 3"
  | "Rule_repr Rule_OCG_TCG = 4"
  | "Rule_repr Rule_All = 5"

definition Rule_all :: "Rule list" where
  "Rule_all =
    [Rule_OCG,
     Rule_TCG,
     Rule_SC,
     Rule_Custom,
     Rule_OCG_TCG,
     Rule_All]"

lemma Rule_complete: "v \<in> set Rule_all"
  by (cases v) (simp_all add: Rule_all_def)

interpretation Rule: repr_codec Rule_repr Rule_all wr_u8 rd_u8 1
  by unfold_locales (simp_all add: Rule_complete, simp add: Rule_all_def)

datatype (plugins only: code) MasterRule =
    MasterRule_MasterRule1
  | MasterRule_MasterRule2
  | MasterRule_MasterRule3
  | MasterRule_MasterRuleNew
  | MasterRule_MasterRule2020

fun MasterRule_repr :: "MasterRule \<Rightarrow> u8" where
    "MasterRule_repr MasterRule_MasterRule1 = 1"
  | "MasterRule_repr MasterRule_MasterRule2 = 2"
  | "MasterRule_repr MasterRule_MasterRule3 = 3"
  | "MasterRule_repr MasterRule_MasterRuleNew = 4"
  | "MasterRule_repr MasterRule_MasterRule2020 = 5"

definition MasterRule_all :: "MasterRule list" where
  "MasterRule_all =
    [MasterRule_MasterRule1,
     MasterRule_MasterRule2,
     MasterRule_MasterRule3,
     MasterRule_MasterRuleNew,
     MasterRule_MasterRule2020]"

lemma MasterRule_complete: "v \<in> set MasterRule_all"
  by (cases v) (simp_all add: MasterRule_all_def)

interpretation MasterRule: repr_codec MasterRule_repr MasterRule_all wr_u8 rd_u8 1
  by unfold_locales (simp_all add: MasterRule_complete, simp add: MasterRule_all_def)

datatype (plugins only: code) Activity =
    Activity_Summon
  | Activity_NormalSummon
  | Activity_SpecialSummon
  | Activity_FlipSummon
  | Activity_Attack
  | Activity_BattlePhase
  | Activity_Chain

fun Activity_repr :: "Activity \<Rightarrow> u8" where
    "Activity_repr Activity_Summon = 1"
  | "Activity_repr Activity_NormalSummon = 2"
  | "Activity_repr Activity_SpecialSummon = 3"
  | "Activity_repr Activity_FlipSummon = 4"
  | "Activity_repr Activity_Attack = 5"
  | "Activity_repr Activity_BattlePhase = 6"
  | "Activity_repr Activity_Chain = 7"

definition Activity_all :: "Activity list" where
  "Activity_all =
    [Activity_Summon,
     Activity_NormalSummon,
     Activity_SpecialSummon,
     Activity_FlipSummon,
     Activity_Attack,
     Activity_BattlePhase,
     Activity_Chain]"

lemma Activity_complete: "v \<in> set Activity_all"
  by (cases v) (simp_all add: Activity_all_def)

interpretation Activity: repr_codec Activity_repr Activity_all wr_u8 rd_u8 1
  by unfold_locales (simp_all add: Activity_complete, simp add: Activity_all_def)

datatype (plugins only: code) CardHint =
    CardHint_Turn
  | CardHint_Card
  | CardHint_Race
  | CardHint_Attribute
  | CardHint_Number
  | CardHint_DescriptionAdd
  | CardHint_DescriptionRemove

fun CardHint_repr :: "CardHint \<Rightarrow> u8" where
    "CardHint_repr CardHint_Turn = 1"
  | "CardHint_repr CardHint_Card = 2"
  | "CardHint_repr CardHint_Race = 3"
  | "CardHint_repr CardHint_Attribute = 4"
  | "CardHint_repr CardHint_Number = 5"
  | "CardHint_repr CardHint_DescriptionAdd = 6"
  | "CardHint_repr CardHint_DescriptionRemove = 7"

definition CardHint_all :: "CardHint list" where
  "CardHint_all =
    [CardHint_Turn,
     CardHint_Card,
     CardHint_Race,
     CardHint_Attribute,
     CardHint_Number,
     CardHint_DescriptionAdd,
     CardHint_DescriptionRemove]"

lemma CardHint_complete: "v \<in> set CardHint_all"
  by (cases v) (simp_all add: CardHint_all_def)

interpretation CardHint: repr_codec CardHint_repr CardHint_all wr_u8 rd_u8 1
  by unfold_locales (simp_all add: CardHint_complete, simp add: CardHint_all_def)

datatype (plugins only: code) PlayerHint =
    PlayerHint_DescriptionAdd
  | PlayerHint_DescriptionRemove

fun PlayerHint_repr :: "PlayerHint \<Rightarrow> u8" where
    "PlayerHint_repr PlayerHint_DescriptionAdd = 6"
  | "PlayerHint_repr PlayerHint_DescriptionRemove = 7"

definition PlayerHint_all :: "PlayerHint list" where
  "PlayerHint_all =
    [PlayerHint_DescriptionAdd,
     PlayerHint_DescriptionRemove]"

lemma PlayerHint_complete: "v \<in> set PlayerHint_all"
  by (cases v) (simp_all add: PlayerHint_all_def)

interpretation PlayerHint: repr_codec PlayerHint_repr PlayerHint_all wr_u8 rd_u8 1
  by unfold_locales (simp_all add: PlayerHint_complete, simp add: PlayerHint_all_def)

datatype (plugins only: code) EffectDescription =
    EffectDescription_Operation
  | EffectDescription_Reset

fun EffectDescription_repr :: "EffectDescription \<Rightarrow> u8" where
    "EffectDescription_repr EffectDescription_Operation = 1"
  | "EffectDescription_repr EffectDescription_Reset = 2"

definition EffectDescription_all :: "EffectDescription list" where
  "EffectDescription_all =
    [EffectDescription_Operation,
     EffectDescription_Reset]"

lemma EffectDescription_complete: "v \<in> set EffectDescription_all"
  by (cases v) (simp_all add: EffectDescription_all_def)

interpretation EffectDescription: repr_codec EffectDescription_repr EffectDescription_all wr_u8 rd_u8 1
  by unfold_locales (simp_all add: EffectDescription_complete, simp add: EffectDescription_all_def)

datatype (plugins only: code) OperationResult =
    OperationResult_Canceled
  | OperationResult_Fail
  | OperationResult_Success

fun OperationResult_repr :: "OperationResult \<Rightarrow> u8" where
    "OperationResult_repr OperationResult_Canceled = - 1"
  | "OperationResult_repr OperationResult_Fail = 0"
  | "OperationResult_repr OperationResult_Success = 1"

definition OperationResult_all :: "OperationResult list" where
  "OperationResult_all =
    [OperationResult_Canceled,
     OperationResult_Fail,
     OperationResult_Success]"

lemma OperationResult_complete: "v \<in> set OperationResult_all"
  by (cases v) (simp_all add: OperationResult_all_def)

interpretation OperationResult: repr_codec OperationResult_repr OperationResult_all wr_u8 rd_u8 1
  by unfold_locales (simp_all add: OperationResult_complete, simp add: OperationResult_all_def)

datatype (plugins only: code) SelectSumMode =
    SelectSumMode_Exact
  | SelectSumMode_AtLeast

fun SelectSumMode_repr :: "SelectSumMode \<Rightarrow> u8" where
    "SelectSumMode_repr SelectSumMode_Exact = 0"
  | "SelectSumMode_repr SelectSumMode_AtLeast = 1"

definition SelectSumMode_all :: "SelectSumMode list" where
  "SelectSumMode_all =
    [SelectSumMode_Exact,
     SelectSumMode_AtLeast]"

lemma SelectSumMode_complete: "v \<in> set SelectSumMode_all"
  by (cases v) (simp_all add: SelectSumMode_all_def)

interpretation SelectSumMode: repr_codec SelectSumMode_repr SelectSumMode_all wr_u8 rd_u8 1
  by unfold_locales (simp_all add: SelectSumMode_complete, simp add: SelectSumMode_all_def)

datatype (plugins only: code) JoinError =
    JoinError_RoomFull
  | JoinError_WrongPassword
  | JoinError_HostRefused

fun JoinError_repr :: "JoinError \<Rightarrow> u8" where
    "JoinError_repr JoinError_RoomFull = 0"
  | "JoinError_repr JoinError_WrongPassword = 1"
  | "JoinError_repr JoinError_HostRefused = 2"

definition JoinError_all :: "JoinError list" where
  "JoinError_all =
    [JoinError_RoomFull,
     JoinError_WrongPassword,
     JoinError_HostRefused]"

lemma JoinError_complete: "v \<in> set JoinError_all"
  by (cases v) (simp_all add: JoinError_all_def)

interpretation JoinError: repr_codec JoinError_repr JoinError_all wr_u8 rd_u8 1
  by unfold_locales (simp_all add: JoinError_complete, simp add: JoinError_all_def)

datatype (plugins only: code) PlayerChangeState =
    PlayerChangeState_Observe
  | PlayerChangeState_Ready
  | PlayerChangeState_Notready
  | PlayerChangeState_Leave

fun PlayerChangeState_repr :: "PlayerChangeState \<Rightarrow> u8" where
    "PlayerChangeState_repr PlayerChangeState_Observe = 0x8"
  | "PlayerChangeState_repr PlayerChangeState_Ready = 0x9"
  | "PlayerChangeState_repr PlayerChangeState_Notready = 0xA"
  | "PlayerChangeState_repr PlayerChangeState_Leave = 0xB"

definition PlayerChangeState_all :: "PlayerChangeState list" where
  "PlayerChangeState_all =
    [PlayerChangeState_Observe,
     PlayerChangeState_Ready,
     PlayerChangeState_Notready,
     PlayerChangeState_Leave]"

lemma PlayerChangeState_complete: "v \<in> set PlayerChangeState_all"
  by (cases v) (simp_all add: PlayerChangeState_all_def)

interpretation PlayerChangeState: repr_codec PlayerChangeState_repr PlayerChangeState_all wr_u8 rd_u8 1
  by unfold_locales (simp_all add: PlayerChangeState_complete, simp add: PlayerChangeState_all_def)

fun DuelStage_rank :: "DuelStage \<Rightarrow> nat" where
    "DuelStage_rank DuelStage_Begin = 0"
  | "DuelStage_rank DuelStage_Finger = 1"
  | "DuelStage_rank DuelStage_Firstgo = 2"
  | "DuelStage_rank DuelStage_Dueling = 3"
  | "DuelStage_rank DuelStage_Siding = 4"
  | "DuelStage_rank DuelStage_End = 5"

lemma DuelStage_rank_inj: "DuelStage_rank a = DuelStage_rank b \<Longrightarrow> a = b"
  by (cases a; cases b) auto

text \<open>The derived order of the enum, and the type class instance that rests on it.\<close>

definition DuelStage_le :: "DuelStage \<Rightarrow> DuelStage \<Rightarrow> bool" where
  "DuelStage_le a b \<longleftrightarrow> DuelStage_rank a \<le> DuelStage_rank b"

definition DuelStage_lt :: "DuelStage \<Rightarrow> DuelStage \<Rightarrow> bool" where
  "DuelStage_lt a b \<longleftrightarrow> DuelStage_rank a < DuelStage_rank b"

instantiation DuelStage :: linorder
begin

definition less_eq_DuelStage :: "DuelStage \<Rightarrow> DuelStage \<Rightarrow> bool" where
  "less_eq_DuelStage = DuelStage_le"

definition less_DuelStage :: "DuelStage \<Rightarrow> DuelStage \<Rightarrow> bool" where
  "less_DuelStage = DuelStage_lt"

instance
  by intro_classes (auto simp: less_eq_DuelStage_def less_DuelStage_def DuelStage_le_def DuelStage_lt_def
    dest: DuelStage_rank_inj)

end

text \<open>The enums with a catch-all variant.\<close>

datatype (plugins only: code) Operation =
    Operation_Add
  | Operation_Subtract
  | Operation_Multiply
  | Operation_Divide
  | Operation_And
  | Operation_Or
  | Operation_Negate
  | Operation_Not
  | Operation_IsCode
  | Operation_IsSetcard
  | Operation_IsType
  | Operation_IsRace
  | Operation_IsAttribute
  | Operation_Operand u32

fun Operation_into :: "Operation \<Rightarrow> u32" where
    "Operation_into Operation_Add = 0x40000000"
  | "Operation_into Operation_Subtract = 0x40000001"
  | "Operation_into Operation_Multiply = 0x40000002"
  | "Operation_into Operation_Divide = 0x40000003"
  | "Operation_into Operation_And = 0x40000004"
  | "Operation_into Operation_Or = 0x40000005"
  | "Operation_into Operation_Negate = 0x40000006"
  | "Operation_into Operation_Not = 0x40000007"
  | "Operation_into Operation_IsCode = 0x40000100"
  | "Operation_into Operation_IsSetcard = 0x40000101"
  | "Operation_into Operation_IsType = 0x40000102"
  | "Operation_into Operation_IsRace = 0x40000103"
  | "Operation_into Operation_IsAttribute = 0x40000104"
  | "Operation_into (Operation_Operand n) = n"

definition Operation_from :: "u32 \<Rightarrow> Operation" where
  "Operation_from n =
    (case map_of [(0x40000000, Operation_Add),
       (0x40000001, Operation_Subtract),
       (0x40000002, Operation_Multiply),
       (0x40000003, Operation_Divide),
       (0x40000004, Operation_And),
       (0x40000005, Operation_Or),
       (0x40000006, Operation_Negate),
       (0x40000007, Operation_Not),
       (0x40000100, Operation_IsCode),
       (0x40000101, Operation_IsSetcard),
       (0x40000102, Operation_IsType),
       (0x40000103, Operation_IsRace),
       (0x40000104, Operation_IsAttribute)] n of
       Some v \<Rightarrow> v | None \<Rightarrow> Operation_Operand n)"

lemma Operation_into_from [simp]: "Operation_into (Operation_from n) = n"
  by (simp add: Operation_from_def)

datatype (plugins only: code) WinReason =
    WinReason_OpponentSurrender
  | WinReason_LPZero
  | WinReason_DeckOut
  | WinReason_Timeout
  | WinReason_OpponentLeave
  | WinReason_Other u8

fun WinReason_into :: "WinReason \<Rightarrow> u8" where
    "WinReason_into WinReason_OpponentSurrender = 0"
  | "WinReason_into WinReason_LPZero = 1"
  | "WinReason_into WinReason_DeckOut = 2"
  | "WinReason_into WinReason_Timeout = 3"
  | "WinReason_into WinReason_OpponentLeave = 4"
  | "WinReason_into (WinReason_Other n) = n"

definition WinReason_from :: "u8 \<Rightarrow> WinReason" where
  "WinReason_from n =
    (case map_of [(0, WinReason_OpponentSurrender),
       (1, WinReason_LPZero),
       (2, WinReason_DeckOut),
       (3, WinReason_Timeout),
       (4, WinReason_OpponentLeave)] n of
       Some v \<Rightarrow> v | None \<Rightarrow> WinReason_Other n)"

lemma WinReason_into_from [simp]: "WinReason_into (WinReason_from n) = n"
  by (simp add: WinReason_from_def)

section \<open>Names of the chat colours\<close>

fun Color_to_string :: "Color \<Rightarrow> str" where
    "Color_to_string Color_Observer = lit ''OBSERVER''"
  | "Color_to_string Color_System = lit ''SYSTEM''"
  | "Color_to_string Color_Error = lit ''ERROR''"
  | "Color_to_string Color_Hidden = lit ''HIDDEN''"
  | "Color_to_string Color_Red = lit ''RED''"
  | "Color_to_string Color_Green = lit ''GREEN''"
  | "Color_to_string Color_Blue = lit ''BLUE''"
  | "Color_to_string Color_Babyblue = lit ''BABYBLUE''"
  | "Color_to_string Color_Pink = lit ''PINK''"
  | "Color_to_string Color_Yellow = lit ''YELLOW''"
  | "Color_to_string Color_White = lit ''WHITE''"
  | "Color_to_string Color_Gray = lit ''GRAY''"
  | "Color_to_string Color_Darkgray = lit ''DARKGRAY''"

definition Color_from_str :: "str \<Rightarrow> Color option" where
  "Color_from_str s = map_of
    [(lit ''OBSERVER'', Color_Observer), (lit ''SYSTEM'', Color_System),
     (lit ''ERROR'', Color_Error), (lit ''HIDDEN'', Color_Hidden), (lit ''RED'', Color_Red),
     (lit ''GREEN'', Color_Green), (lit ''BLUE'', Color_Blue), (lit ''BABYBLUE'', Color_Babyblue),
     (lit ''PINK'', Color_Pink), (lit ''YELLOW'', Color_Yellow), (lit ''WHITE'', Color_White),
     (lit ''GRAY'', Color_Gray), (lit ''DARKGRAY'', Color_Darkgray)]
    (map to_ascii_uppercase s)"

section \<open>Positions of a player\<close>

datatype Netplayer = Player u8 | Observer u8 | Undecided u8 | UnknownPlayer

definition Netplayer_from_primitive :: "u8 \<Rightarrow> Netplayer" where
  "Netplayer_from_primitive n =
     (if n \<le> 6 then Player n else if n = 7 then Observer 255 else UnknownPlayer)"

fun Netplayer_to_u8 :: "Netplayer \<Rightarrow> u8" where
    "Netplayer_to_u8 (Player i) = i"
  | "Netplayer_to_u8 (Observer _) = 7"
  | "Netplayer_to_u8 (Undecided _) = 255"
  | "Netplayer_to_u8 UnknownPlayer = 255"

definition Netplayer_into_bytes :: "Netplayer \<Rightarrow> u8 option" where
  "Netplayer_into_bytes p = (let b = Netplayer_to_u8 p in if b \<ge> 16 then None else Some b)"

definition Netplayer_from_bytes :: "u8 \<Rightarrow> Netplayer option" where
  "Netplayer_from_bytes b =
     (let p = Netplayer_from_primitive b in if p = UnknownPlayer then None else Some p)"

definition wr_Netplayer :: "Netplayer writer" where
  "wr_Netplayer p = wr_u8 (Netplayer_to_u8 p)"

fun rd_Netplayer :: "Netplayer reader" where
  "rd_Netplayer bs =
     (case rd_u8 bs of None \<Rightarrow> None | Some (b, r) \<Rightarrow> Some (Netplayer_from_primitive b, r))"

text \<open>The positions the protocol can carry: the seven seats, the observer without its index, and
  the unknown position.\<close>

fun canonical_netplayer :: "Netplayer \<Rightarrow> bool" where
    "canonical_netplayer (Player i) \<longleftrightarrow> i \<le> 6"
  | "canonical_netplayer (Observer i) \<longleftrightarrow> i = 255"
  | "canonical_netplayer (Undecided i) \<longleftrightarrow> False"
  | "canonical_netplayer UnknownPlayer \<longleftrightarrow> True"

lemma Netplayer_from_to_u8:
  "canonical_netplayer p \<Longrightarrow> Netplayer_from_primitive (Netplayer_to_u8 p) = p"
  by (cases p) (auto simp: Netplayer_from_primitive_def)

lemma canonical_from_primitive: "canonical_netplayer (Netplayer_from_primitive b)"
  by (simp add: Netplayer_from_primitive_def)

interpretation Netplayer: codec wr_Netplayer rd_Netplayer canonical_netplayer
  by unfold_locales (simp add: wr_Netplayer_def u8.rd_wr Netplayer_from_to_u8 del: Netplayer_to_u8.simps)

interpretation Netplayer: fixed_codec wr_Netplayer rd_Netplayer canonical_netplayer 1
  by unfold_locales (auto simp: wr_Netplayer_def rd_u8_short rd_u8_iff split: option.splits)

datatype CorePlayer =
    FirstAttackPlayer | SecondAttackPlayer | NoPlayer | AllPlayers | RulePlayer

fun CorePlayer_repr :: "CorePlayer \<Rightarrow> u8" where
    "CorePlayer_repr FirstAttackPlayer = 0"
  | "CorePlayer_repr SecondAttackPlayer = 1"
  | "CorePlayer_repr NoPlayer = 2"
  | "CorePlayer_repr AllPlayers = 3"
  | "CorePlayer_repr RulePlayer = 5"

definition CorePlayer_all :: "CorePlayer list" where
  "CorePlayer_all = [FirstAttackPlayer, SecondAttackPlayer, NoPlayer, AllPlayers, RulePlayer]"

lemma CorePlayer_complete: "v \<in> set CorePlayer_all"
  by (cases v) (simp_all add: CorePlayer_all_def)

interpretation CorePlayer: repr_codec CorePlayer_repr CorePlayer_all wr_u8 rd_u8 1
  by unfold_locales (simp_all add: CorePlayer_complete, simp add: CorePlayer_all_def)

fun CorePlayer_opponent :: "CorePlayer \<Rightarrow> CorePlayer" where
    "CorePlayer_opponent FirstAttackPlayer = SecondAttackPlayer"
  | "CorePlayer_opponent SecondAttackPlayer = FirstAttackPlayer"
  | "CorePlayer_opponent NoPlayer = NoPlayer"
  | "CorePlayer_opponent AllPlayers = AllPlayers"
  | "CorePlayer_opponent RulePlayer = RulePlayer"

fun Netplayer_to_core :: "Netplayer \<Rightarrow> CorePlayer" where
    "Netplayer_to_core (Player u) = (if u mod 2 = 0 then FirstAttackPlayer else SecondAttackPlayer)"
  | "Netplayer_to_core _ = NoPlayer"

fun CorePlayer_to_net :: "CorePlayer \<Rightarrow> Netplayer" where
    "CorePlayer_to_net FirstAttackPlayer = Player 0"
  | "CorePlayer_to_net SecondAttackPlayer = Player 1"
  | "CorePlayer_to_net NoPlayer = UnknownPlayer"
  | "CorePlayer_to_net AllPlayers = UnknownPlayer"
  | "CorePlayer_to_net RulePlayer = UnknownPlayer"

definition CorePlayer_mul :: "CorePlayer \<Rightarrow> CorePlayer \<Rightarrow> CorePlayer" where
  "CorePlayer_mul a b =
     (if a = b then a
      else case (a, b) of
        (NoPlayer, _) \<Rightarrow> b
      | (_, NoPlayer) \<Rightarrow> a
      | (RulePlayer, _) \<Rightarrow> RulePlayer
      | (_, RulePlayer) \<Rightarrow> RulePlayer
      | (_, _) \<Rightarrow> AllPlayers)"

lemma CorePlayer_mul_simps [simp]:
  "CorePlayer_mul a a = a" "CorePlayer_mul NoPlayer a = a" "CorePlayer_mul a NoPlayer = a"
  "CorePlayer_mul RulePlayer a = RulePlayer" "CorePlayer_mul a RulePlayer = RulePlayer"
  by (cases a; simp add: CorePlayer_mul_def)+

section \<open>Packed structs\<close>

text \<open>The low four bits of a TypeChange hold the player, bit 4 the host flag; a PlayerChange holds
  the state in its low and the player in its high four bits.\<close>

type_synonym TypeChange = u8
type_synonym PlayerChange = u8

definition low_nibble :: "u8 \<Rightarrow> u8" where
  "low_nibble b = take_bit 4 b"

definition high_nibble :: "u8 \<Rightarrow> u8" where
  "high_nibble b = drop_bit 4 b"

fun get_field :: "'a option \<Rightarrow> 'a res" where
  "get_field None = Inl InvalidPattern"
| "get_field (Some v) = Inr v"

fun set_field :: "u8 option \<Rightarrow> (u8 \<Rightarrow> u8) \<Rightarrow> u8 res" where
  "set_field None f = Inl OutOfBoundsSetter"
| "set_field (Some b) f = Inr (f b)"

definition TypeChange_new :: TypeChange where
  "TypeChange_new = 0"

definition TypeChange_player :: "TypeChange \<Rightarrow> Netplayer res" where
  "TypeChange_player b = get_field (Netplayer_from_bytes (low_nibble b))"

definition TypeChange_host :: "TypeChange \<Rightarrow> bool" where
  "TypeChange_host b \<longleftrightarrow> bit b 4"

definition TypeChange_with_player :: "Netplayer \<Rightarrow> TypeChange \<Rightarrow> TypeChange res" where
  "TypeChange_with_player p b =
     set_field (Netplayer_into_bytes p) (\<lambda>n. push_bit 4 (drop_bit 4 b) OR n)"

definition TypeChange_with_host :: "bool \<Rightarrow> TypeChange \<Rightarrow> TypeChange" where
  "TypeChange_with_host h b = (if h then set_bit 4 b else unset_bit 4 b)"

definition PlayerChange_new :: PlayerChange where
  "PlayerChange_new = 0"

definition PlayerChange_state :: "PlayerChange \<Rightarrow> PlayerChangeState res" where
  "PlayerChange_state b = get_field (try_from PlayerChangeState_repr PlayerChangeState_all (low_nibble b))"

definition PlayerChange_player :: "PlayerChange \<Rightarrow> Netplayer res" where
  "PlayerChange_player b = get_field (Netplayer_from_bytes (high_nibble b))"

definition PlayerChange_with_state :: "PlayerChangeState \<Rightarrow> PlayerChange \<Rightarrow> PlayerChange" where
  "PlayerChange_with_state s b = push_bit 4 (drop_bit 4 b) OR PlayerChangeState_repr s"

definition PlayerChange_with_player :: "Netplayer \<Rightarrow> PlayerChange \<Rightarrow> PlayerChange res" where
  "PlayerChange_with_player p b =
     set_field (Netplayer_into_bytes p) (\<lambda>n. push_bit 4 n OR take_bit 4 b)"

section \<open>Errors of a deck\<close>

text \<open>The error of a deck packs its kind in the high four bits and a card code in the low 28
  bits of a 32-bit integer. The setter of the code panics on a code of more than 28 bits.\<close>

datatype DeckErrorType =
    DeckErrorType_Lflist
  | DeckErrorType_OcgOnly
  | DeckErrorType_TcgOnly
  | DeckErrorType_UnknownCard
  | DeckErrorType_CardCount
  | DeckErrorType_MainCount
  | DeckErrorType_ExtraCount
  | DeckErrorType_SideCount
  | DeckErrorType_NotAvailable

fun DeckErrorType_repr :: "DeckErrorType \<Rightarrow> u8" where
    "DeckErrorType_repr DeckErrorType_Lflist = 1"
  | "DeckErrorType_repr DeckErrorType_OcgOnly = 2"
  | "DeckErrorType_repr DeckErrorType_TcgOnly = 3"
  | "DeckErrorType_repr DeckErrorType_UnknownCard = 4"
  | "DeckErrorType_repr DeckErrorType_CardCount = 5"
  | "DeckErrorType_repr DeckErrorType_MainCount = 6"
  | "DeckErrorType_repr DeckErrorType_ExtraCount = 7"
  | "DeckErrorType_repr DeckErrorType_SideCount = 8"
  | "DeckErrorType_repr DeckErrorType_NotAvailable = 9"

definition DeckErrorType_all :: "DeckErrorType list" where
  "DeckErrorType_all =
    [DeckErrorType_Lflist, DeckErrorType_OcgOnly, DeckErrorType_TcgOnly, DeckErrorType_UnknownCard,
     DeckErrorType_CardCount, DeckErrorType_MainCount, DeckErrorType_ExtraCount,
     DeckErrorType_SideCount, DeckErrorType_NotAvailable]"

lemma DeckErrorType_complete: "v \<in> set DeckErrorType_all"
  by (cases v) (simp_all add: DeckErrorType_all_def)

interpretation DeckErrorType: repr_codec DeckErrorType_repr DeckErrorType_all wr_u8 rd_u8 1
  by unfold_locales (simp_all add: DeckErrorType_complete, simp add: DeckErrorType_all_def)

type_synonym DeckError = u32

definition DeckError_new :: DeckError where
  "DeckError_new = 0"

definition DeckError_code :: "DeckError \<Rightarrow> u32" where
  "DeckError_code e = take_bit 28 e"

definition DeckError_error_type :: "DeckError \<Rightarrow> DeckErrorType res" where
  "DeckError_error_type e =
     get_field (try_from DeckErrorType_repr DeckErrorType_all (ucast (drop_bit 28 e)))"

definition DeckError_with_error_type :: "DeckErrorType \<Rightarrow> DeckError \<Rightarrow> DeckError" where
  "DeckError_with_error_type t e = take_bit 28 e OR push_bit 28 (ucast (DeckErrorType_repr t))"

definition DeckError_with_code :: "u32 \<Rightarrow> DeckError \<Rightarrow> DeckError res" where
  "DeckError_with_code c e =
     (if c < 2 ^ 28 then Inr (push_bit 28 (drop_bit 28 e) OR c) else Inl OutOfBoundsSetter)"

section \<open>The error message of the server\<close>

datatype ErrorMessage =
    ErrorMessage_JoinError JoinError
  | ErrorMessage_DeckError DeckError
  | ErrorMessage_SideError
  | ErrorMessage_VersionError u16

definition ErrorMessage_decode :: "u32 \<Rightarrow> u32 \<Rightarrow> ErrorMessage option" where
  "ErrorMessage_decode tag code =
     (if tag = 1 then
        (if code < 2 ^ 8
         then map_option ErrorMessage_JoinError (try_from JoinError_repr JoinError_all (ucast code))
         else None)
      else if tag = 2 then Some (ErrorMessage_DeckError code)
      else if tag = 3 then Some ErrorMessage_SideError
      else if tag = 4 then
        (if code < 2 ^ 16 then Some (ErrorMessage_VersionError (ucast code)) else None)
      else None)"

fun rd_ErrorMessage :: "ErrorMessage reader" where
  "rd_ErrorMessage bs =
     (case rd_u32 bs of None \<Rightarrow> None
      | Some (tag, r) \<Rightarrow> (case rd_u32 r of None \<Rightarrow> None
         | Some (code, r') \<Rightarrow> map_option (\<lambda>m. (m, r')) (ErrorMessage_decode tag code)))"

fun wr_ErrorMessage :: "ErrorMessage writer" where
    "wr_ErrorMessage (ErrorMessage_JoinError e) = wr_u32 1 @ wr_u32 (ucast (JoinError_repr e))"
  | "wr_ErrorMessage (ErrorMessage_DeckError e) = wr_u32 2 @ wr_u32 e"
  | "wr_ErrorMessage ErrorMessage_SideError = wr_u32 3 @ wr_u32 0"
  | "wr_ErrorMessage (ErrorMessage_VersionError v) = wr_u32 4 @ wr_u32 (ucast v)"

section \<open>Rock paper scissors\<close>

datatype HandResult = HandResult_Win | HandResult_Draw | HandResult_Lose

fun Hand_judge :: "Hand \<Rightarrow> Hand \<Rightarrow> HandResult" where
  "Hand_judge a b =
     (if a = b then HandResult_Draw
      else case a of
        Hand_Scissors \<Rightarrow> if b = Hand_Paper then HandResult_Win else HandResult_Lose
      | Hand_Rock \<Rightarrow> if b = Hand_Scissors then HandResult_Win else HandResult_Lose
      | Hand_Paper \<Rightarrow> if b = Hand_Rock then HandResult_Win else HandResult_Lose)"

section \<open>Card pools\<close>

fun Rule_to_OT :: "Rule \<Rightarrow> u8" where
    "Rule_to_OT Rule_OCG = OT_bits OT_OCG"
  | "Rule_to_OT Rule_TCG = OT_bits OT_TCG"
  | "Rule_to_OT Rule_SC = OT_bits OT_SC"
  | "Rule_to_OT Rule_Custom = OT_bits OT_Custom"
  | "Rule_to_OT Rule_OCG_TCG = OT_bits OT_OCG OR OT_bits OT_TCG"
  | "Rule_to_OT Rule_All = 0"

definition Rule_check_ot :: "Rule \<Rightarrow> u8 \<Rightarrow> DeckErrorType option" where
  "Rule_check_ot rule card_ot =
     (let allowed = Rule_to_OT rule in
      if contains card_ot allowed then None
      else if contains card_ot (OT_bits OT_OCG) \<and> allowed \<noteq> OT_bits OT_OCG
      then Some DeckErrorType_OcgOnly
      else if contains card_ot (OT_bits OT_TCG) \<and> allowed \<noteq> OT_bits OT_TCG
      then Some DeckErrorType_TcgOnly
      else Some DeckErrorType_NotAvailable)"

section \<open>Lemmas\<close>

subsection \<open>Packed structs\<close>

lemma Netplayer_into_bytes_iff:
  "Netplayer_into_bytes p = Some n \<longleftrightarrow> n = Netplayer_to_u8 p \<and> n < 16"
  by (auto simp: Netplayer_into_bytes_def Let_def not_le split: if_splits)

lemma Netplayer_from_bytes_to_u8:
  "canonical_netplayer p \<Longrightarrow> p \<noteq> UnknownPlayer \<Longrightarrow> Netplayer_from_bytes (Netplayer_to_u8 p) = Some p"
  by (simp add: Netplayer_from_bytes_def Let_def Netplayer_from_to_u8)

lemma TypeChange_with_player_ok:
  assumes "TypeChange_with_player p b = Inr c"
  shows "low_nibble c = Netplayer_to_u8 p" and "TypeChange_host c = TypeChange_host b"
  using assms
  by (auto simp: TypeChange_with_player_def Netplayer_into_bytes_def Let_def low_nibble_def
      TypeChange_host_def not_le bit_simps bit_small_word [of _ 4] intro!: pack_low split: if_splits)

lemma TypeChange_with_host_fields [simp]:
  "low_nibble (TypeChange_with_host h b) = low_nibble b"
  "TypeChange_host (TypeChange_with_host h b) = h"
  by (auto simp: TypeChange_with_host_def low_nibble_def TypeChange_host_def bit_simps
      intro!: bit_word_eqI)

lemma PlayerChangeState_repr_less: "PlayerChangeState_repr s < 2 ^ 4"
  by (cases s) simp_all

lemma PlayerChange_with_state_fields [simp]:
  "PlayerChange_state (PlayerChange_with_state s b) = Inr s"
  "high_nibble (PlayerChange_with_state s b) = high_nibble b"
  using PlayerChangeState_repr_less [of s]
  by (simp_all add: PlayerChange_state_def PlayerChange_with_state_def low_nibble_def
      high_nibble_def pack_low pack_high)

lemma PlayerChange_with_player_ok:
  assumes "PlayerChange_with_player p b = Inr c"
  shows "PlayerChange_state c = PlayerChange_state b" and "high_nibble c = Netplayer_to_u8 p"
proof -
  have t: "take_bit 4 b < 2 ^ 4" by (rule take_bit_less) simp
  from assms have n: "Netplayer_to_u8 p < 2 ^ (LENGTH(8) - 4)"
    and c: "c = push_bit 4 (Netplayer_to_u8 p) OR take_bit 4 b"
    by (auto simp: PlayerChange_with_player_def Netplayer_into_bytes_def Let_def not_le split: if_splits)
  show "PlayerChange_state c = PlayerChange_state b"
    using pack_low [OF t] by (simp add: c PlayerChange_state_def low_nibble_def)
  show "high_nibble c = Netplayer_to_u8 p"
    using pack_high_small [OF t n] by (simp add: c high_nibble_def)
qed

lemma DeckError_pack:
  assumes "c < 2 ^ 28"
  shows "\<exists>e. DeckError_with_code c (DeckError_with_error_type t d) = Inr e \<and>
    DeckError_code e = c \<and> DeckError_error_type e = Inr t"
proof -
  have t: "(ucast (DeckErrorType_repr t) :: u32) < 2 ^ (LENGTH(32) - 28)" by (cases t) simp_all
  have d: "take_bit 28 d < 2 ^ 28" by (rule take_bit_less) simp
  have h: "drop_bit 28 (DeckError_with_error_type t d) = ucast (DeckErrorType_repr t)"
    using pack_high_small [OF d t] by (simp add: DeckError_with_error_type_def or.commute)
  have u: "ucast (ucast (DeckErrorType_repr t) :: u32) = DeckErrorType_repr t" by (cases t) simp_all
  show ?thesis using assms
    by (simp add: DeckError_with_code_def DeckError_code_def DeckError_error_type_def
        pack_low pack_high_small [OF _ t] h u)
qed

lemma DeckError_with_code_panics:
  "is_ok (DeckError_with_code c e) \<longleftrightarrow> c < 2 ^ 28"
  by (simp add: DeckError_with_code_def)

subsection \<open>The error message\<close>

lemma ErrorMessage_decode_wr [simp]:
  "ErrorMessage_decode 1 (ucast (JoinError_repr e)) = Some (ErrorMessage_JoinError e)"
  "ErrorMessage_decode 2 c = Some (ErrorMessage_DeckError c)"
  "ErrorMessage_decode 3 c = Some ErrorMessage_SideError"
  "ErrorMessage_decode 4 (ucast (v::u16)) = Some (ErrorMessage_VersionError v)"
proof -
  have "ucast v < (2::u32) ^ 16" by (simp add: word_less_nat_alt unat_ucast_up unsigned_less [of v, simplified])
  then show "ErrorMessage_decode 4 (ucast (v::u16)) = Some (ErrorMessage_VersionError v)"
    by (simp add: ErrorMessage_decode_def)
  show "ErrorMessage_decode 1 (ucast (JoinError_repr e)) = Some (ErrorMessage_JoinError e)"
    by (cases e) (simp_all add: ErrorMessage_decode_def try_from_def JoinError_all_def)
qed (simp_all add: ErrorMessage_decode_def)

interpretation ErrorMessage: codec wr_ErrorMessage rd_ErrorMessage always
proof
  fix m r
  show "rd_ErrorMessage (wr_ErrorMessage m @ r) = Some (m, r)"
    by (cases m) (simp_all add: u32.rd_wr)
qed

interpretation ErrorMessage: fixed_codec wr_ErrorMessage rd_ErrorMessage always 8
proof
  fix m show "length (wr_ErrorMessage m) = 8" by (cases m) simp_all
qed (auto simp: rd_u32_iff split: option.splits)

subsection \<open>Players\<close>

lemma CorePlayer_mul_assoc:
  "CorePlayer_mul (CorePlayer_mul a b) c = CorePlayer_mul a (CorePlayer_mul b c)"
  by (cases a; cases b; cases c) (simp_all add: CorePlayer_mul_def)

lemma CorePlayer_mul_commute: "CorePlayer_mul a b = CorePlayer_mul b a"
  by (cases a; cases b) (simp_all add: CorePlayer_mul_def)

lemma CorePlayer_opponent_opponent [simp]: "CorePlayer_opponent (CorePlayer_opponent p) = p"
  by (cases p) simp_all

lemma CorePlayer_mul_opponent:
  "CorePlayer_mul p (CorePlayer_opponent p) =
     (if p = FirstAttackPlayer \<or> p = SecondAttackPlayer then AllPlayers else p)"
  by (cases p) (simp_all add: CorePlayer_mul_def)

end
