(* ===== verification/Card.thy ===== *)
theory Card
  imports RustStr Constants
begin

text \<open>
  Card data (ygopro-data data/card.rs) and the card pool of the server (DataManager in
  managers.rs): the record shared with the core, the codes that identify a card, set codes, the
  decoding of a database row, the merge of several databases and the final pass that separates
  alternative art from cards treated as another card.
\<close>

section \<open>The records\<close>

record CoreCard =
  cd_code :: u32
  cd_alias :: u32
  cd_setcode :: "u16 list"
  cd_type :: u32
  cd_level :: u32
  cd_attribute :: u32
  cd_race :: u32
  cd_attack :: u32
  cd_defense :: u32
  cd_left_scale :: u32
  cd_right_scale :: u32
  cd_link_marker :: u32
  cd_rule_code :: u32

record Card = CoreCard +
  cd_ot :: u8
  cd_category :: u32
  cd_name :: str
  cd_text :: str
  cd_desc :: "str list"

definition SIZE_SETCODE :: nat where
  "SIZE_SETCODE = 16"

definition original_code :: "'a CoreCard_scheme \<Rightarrow> u32" where
  "original_code c = (if cd_alias c \<noteq> 0 then cd_alias c else cd_code c)"

definition duel_code :: "'a CoreCard_scheme \<Rightarrow> u32" where
  "duel_code c = (if cd_rule_code c \<noteq> 0 then cd_rule_code c else original_code c)"

definition check_setcode :: "u32 \<Rightarrow> u32 \<Rightarrow> bool" where
  "check_setcode sc v \<longleftrightarrow>
     sc > 0 \<and> sc AND 0x0FFF = v AND 0x0FFF \<and> sc AND (v AND 0xF000) = v AND 0xF000"

fun any_setcode :: "u16 list \<Rightarrow> u32 \<Rightarrow> bool" where
    "any_setcode [] v = False"
  | "any_setcode (x # xs) v =
       (if x = 0 then False else if check_setcode (ucast x) v then True else any_setcode xs v)"

definition is_setcodes :: "'a CoreCard_scheme \<Rightarrow> u32 \<Rightarrow> bool" where
  "is_setcodes c v = any_setcode (cd_setcode c) v"

section \<open>A row of the database\<close>

text \<open>The integer columns of a row as the driver returns them; the driver has already checked
  that each value fits its type.\<close>

record Row =
  r_id :: u32
  r_ot :: u64
  r_alias :: u32
  r_setcode :: u64
  r_type :: u32
  r_atk :: u32
  r_def :: u32
  r_level :: u32
  r_race :: u32
  r_attribute :: u32
  r_category :: u64
  r_name :: str
  r_desc :: str
  r_strs :: "str list"

definition CoreCard_from_row :: "Row \<Rightarrow> CoreCard" where
  "CoreCard_from_row r =
     \<lparr> cd_code = r_id r,
       cd_alias = r_alias r,
       cd_setcode = [ucast (r_setcode r AND 0xFFFF), ucast (drop_bit 16 (r_setcode r) AND 0xFFFF),
                  ucast (drop_bit 32 (r_setcode r) AND 0xFFFF), ucast (drop_bit 48 (r_setcode r) AND 0xFFFF)]
                 @ replicate (SIZE_SETCODE - 4) 0,
       cd_type = r_type r,
       cd_level = r_level r AND 0xFF,
       cd_attribute = r_attribute r,
       cd_race = r_race r,
       cd_attack = r_atk r,
       cd_defense = r_def r,
       cd_left_scale = drop_bit 24 (r_level r) AND 0xFF,
       cd_right_scale = drop_bit 16 (r_level r) AND 0xFF,
       cd_link_marker = (if contains (r_type r) (Type_bits Type_Link) then r_def r else 0),
       cd_rule_code = 0 \<rparr>"

definition Card_from_row :: "Row \<Rightarrow> Card" where
  "Card_from_row r = CoreCard.extend (CoreCard_from_row r)
     \<lparr> cd_ot = ucast (r_ot r), cd_category = ucast (r_category r),
       cd_name = r_name r, cd_text = r_desc r, cd_desc = take 16 (r_strs r) \<rparr>"

end
