(* ===== verification/LFList.thy ===== *)
theory LFList
  imports RustStr
begin

text \<open>
  The forbidden and limited list (ygopro-data data/lflist.rs): the limits and credits of a list,
  its hash, kept up to date entry by entry while a file is parsed and computed from scratch by
  calculate hash, and the parser. A shift of a 32-bit integer takes its amount modulo 32.
\<close>

definition HASH_INITIAL_VALUE :: u32 where
  "HASH_INITIAL_VALUE = 0x7DFCEE6A"

definition CREDIT_MARKER :: u32 where
  "CREDIT_MARKER = 0x43524544"

record LFList =
  lf_hash :: u32
  lf_name :: str
  lf_content :: "(u32, u8) hmap"
  lf_credit_limits :: "(str, u32) hmap"
  lf_credits :: "(u32, (str, u32) hmap) hmap"

definition LFList_new :: "str \<Rightarrow> LFList" where
  "LFList_new n =
     \<lparr> lf_hash = HASH_INITIAL_VALUE, lf_name = n, lf_content = [], lf_credit_limits = [], lf_credits = [] \<rparr>"

section \<open>The hash\<close>

definition shl32 :: "u32 \<Rightarrow> u8 \<Rightarrow> u32" where
  "shl32 w n = push_bit (unat n mod 32) w"

definition shr32 :: "u32 \<Rightarrow> u8 \<Rightarrow> u32" where
  "shr32 w n = drop_bit (unat n mod 32) w"

definition card_mix :: "u32 \<Rightarrow> u8 \<Rightarrow> u32" where
  "card_mix c n = (shl32 c 18 OR shr32 c 14) XOR (shl32 c (27 + n) OR shr32 c (5 - n))"

definition credit_hash :: "str \<Rightarrow> u32" where
  "credit_hash key = fold (\<lambda>b h. (h XOR ucast b) * 16777619) (str_bytes key) 2166136261"

definition credit_mix :: "u32 \<Rightarrow> u32 \<Rightarrow> u32 \<Rightarrow> u32" where
  "credit_mix a b c =
     (shl32 a 18 OR shr32 a 14) XOR (shl32 b 9 OR shr32 b 23) XOR (shl32 c 27 OR shr32 c 5)"

definition update_credit_hash :: "u32 \<Rightarrow> u32 \<Rightarrow> u32 \<Rightarrow> u32 \<Rightarrow> u32" where
  "update_credit_hash h a b c = h XOR credit_mix a b c"

definition hash_credits :: "u32 \<Rightarrow> (str, u32) hmap \<Rightarrow> u32 \<Rightarrow> u32" where
  "hash_credits c = fold (\<lambda>(key, credit) h. update_credit_hash h c (credit_hash key) credit)"

definition compute_hash :: "LFList \<Rightarrow> u32" where
  "compute_hash l =
     (let h1 = fold (\<lambda>(c, n) h. h XOR card_mix c n) (lf_content l) HASH_INITIAL_VALUE;
          h2 = fold (\<lambda>(key, v) h. update_credit_hash h (credit_hash key) v CREDIT_MARKER) (lf_credit_limits l) h1
      in fold (\<lambda>(c, credits). hash_credits c credits) (lf_credits l) h2)"

definition calculate_hash :: "LFList \<Rightarrow> LFList" where
  "calculate_hash l = l \<lparr> lf_hash := compute_hash l \<rparr>"

definition LFList_from :: "str \<Rightarrow> (u32, u8) hmap \<Rightarrow> LFList" where
  "LFList_from n content = calculate_hash (LFList_new n \<lparr> lf_content := content \<rparr>)"

section \<open>Entries\<close>

definition credit :: "LFList \<Rightarrow> u32 \<Rightarrow> str \<Rightarrow> u32" where
  "credit l c key =
     (case hmap_get (lf_credits l) c of
        None \<Rightarrow> 0
      | Some credits \<Rightarrow> (case hmap_get credits key of None \<Rightarrow> 0 | Some v \<Rightarrow> v))"

definition push_card :: "u32 \<Rightarrow> u8 \<Rightarrow> LFList \<Rightarrow> LFList" where
  "push_card c n l =
     l \<lparr> lf_content := hmap_insert c n (lf_content l), lf_hash := lf_hash l XOR card_mix c n \<rparr>"

definition push_credit_limit :: "str \<Rightarrow> u32 \<Rightarrow> LFList \<Rightarrow> LFList" where
  "push_credit_limit key v l =
     l \<lparr> lf_credit_limits := hmap_insert key v (lf_credit_limits l),
         lf_hash := update_credit_hash (lf_hash l) (credit_hash key) v CREDIT_MARKER \<rparr>"

definition push_credit :: "u32 \<Rightarrow> str \<Rightarrow> u32 \<Rightarrow> LFList \<Rightarrow> LFList" where
  "push_credit c key v l =
     l \<lparr> lf_credits := hmap_insert c (hmap_insert key v (get_or [] (lf_credits l) c)) (lf_credits l),
         lf_hash := update_credit_hash (lf_hash l) c (credit_hash key) v \<rparr>"

text \<open>The list of the credit mode genesys: the maps are given, the credits of every card are
  inserted under the one key, and the hash is computed.\<close>

definition LFList_from_genesys ::
  "str \<Rightarrow> (u32, u8) hmap \<Rightarrow> u32 \<Rightarrow> (u32, u32) hmap \<Rightarrow> LFList" where
  "LFList_from_genesys n content genesys glist =
     (let key = lit ''genesys'';
          l1 = LFList_new n \<lparr> lf_content := content \<rparr>;
          l2 = (if genesys > 0 then l1 \<lparr> lf_credit_limits := hmap_insert key genesys (lf_credit_limits l1) \<rparr> else l1);
          l3 = fold (\<lambda>(c, v) l. l \<lparr> lf_credits :=
                 hmap_insert c (hmap_insert key v (get_or [] (lf_credits l) c)) (lf_credits l) \<rparr>) glist l2
      in calculate_hash l3)"

section \<open>The parser\<close>

datatype Entry = Skip | CreditLimit str u32 | Credit u32 str u32 | Limit u32 u8

text \<open>The key after a dollar sign may be glued to it or be the next word.\<close>

fun dollar_key :: "str \<Rightarrow> str list \<Rightarrow> (str \<times> str list) option" where
  "dollar_key key tokens =
     (if key = [] then (case tokens of [] \<Rightarrow> None | t # ts \<Rightarrow> Some (t, ts)) else Some (key, tokens))"

fun next_u32 :: "str list \<Rightarrow> u32 option" where
    "next_u32 [] = None"
  | "next_u32 (t # ts) = parse_u32 t"

definition parse_entry :: "str \<Rightarrow> Entry" where
  "parse_entry line =
     (case split_whitespace line of
        [] \<Rightarrow> Skip
      | first # tokens \<Rightarrow>
          (case strip_prefix (lit ''$'') first of
             Some key \<Rightarrow>
               (case dollar_key key tokens of
                  None \<Rightarrow> Skip
                | Some (key, rest) \<Rightarrow>
                    (case next_u32 rest of None \<Rightarrow> Skip | Some v \<Rightarrow> CreditLimit key v))
           | None \<Rightarrow>
               (case parse_u32 first of
                  None \<Rightarrow> Skip
                | Some c \<Rightarrow>
                    (case tokens of
                       [] \<Rightarrow> Skip
                     | second # tokens' \<Rightarrow>
                         (case strip_prefix (lit ''$'') second of
                            Some key \<Rightarrow>
                              (case dollar_key key tokens' of
                                 None \<Rightarrow> Skip
                               | Some (key, rest) \<Rightarrow>
                                   (case next_u32 rest of None \<Rightarrow> Skip | Some v \<Rightarrow> Credit c key v))
                          | None \<Rightarrow>
                              (case parse_u8 second of
                                 None \<Rightarrow> Skip
                               | Some n \<Rightarrow> if n \<le> 2 then Limit c n else Skip))))))"

fun apply_entry :: "Entry \<Rightarrow> LFList \<Rightarrow> LFList" where
    "apply_entry Skip l = l"
  | "apply_entry (CreditLimit key v) l = push_credit_limit key v l"
  | "apply_entry (Credit c key v) l = push_credit c key v l"
  | "apply_entry (Limit c n) l = push_card c n l"

definition parse_line :: "str \<Rightarrow> LFList list \<Rightarrow> LFList list" where
  "parse_line line ls =
     (if line = [] \<or> starts_with (lit ''#'') line then ls
      else case strip_prefix (lit ''!'') line of
        Some n \<Rightarrow> ls @ [LFList_new n]
      | None \<Rightarrow>
          if ls = [] then ls
          else butlast ls @ [apply_entry (parse_entry line) (last ls)])"

definition parse_lflist_content :: "str \<Rightarrow> LFList list" where
  "parse_lflist_content content = fold parse_line (map trim (lines content)) []"

section \<open>Lemmas\<close>

lemma hash_credits_xor:
  "hash_credits c credits h = h XOR xor_all (map (\<lambda>(key, v). credit_mix c (credit_hash key) v) credits)"
  unfolding hash_credits_def by (rule fold_xor_pairs) (simp add: update_credit_hash_def)

definition card_terms :: "(u32, u8) hmap \<Rightarrow> u32 list" where
  "card_terms = map (\<lambda>(c, n). card_mix c n)"

definition limit_terms :: "(str, u32) hmap \<Rightarrow> u32 list" where
  "limit_terms = map (\<lambda>(key, v). credit_mix (credit_hash key) v CREDIT_MARKER)"

definition credit_terms :: "u32 \<Rightarrow> (str, u32) hmap \<Rightarrow> u32" where
  "credit_terms c credits = xor_all (map (\<lambda>(key, v). credit_mix c (credit_hash key) v) credits)"

definition all_credit_terms :: "(u32, (str, u32) hmap) hmap \<Rightarrow> u32 list" where
  "all_credit_terms = map (\<lambda>(c, credits). credit_terms c credits)"

lemma compute_hash_xor:
  "compute_hash l = HASH_INITIAL_VALUE XOR xor_all (card_terms (lf_content l))
     XOR xor_all (limit_terms (lf_credit_limits l)) XOR xor_all (all_credit_terms (lf_credits l))"
proof -
  have "fold (\<lambda>(c, n) h. h XOR card_mix c n) m h = h XOR xor_all (card_terms m)" for m h
    unfolding card_terms_def by (rule fold_xor_pairs) simp
  moreover have "fold (\<lambda>(key, v) h. update_credit_hash h (credit_hash key) v CREDIT_MARKER) m h
      = h XOR xor_all (limit_terms m)" for m h
    unfolding limit_terms_def by (rule fold_xor_pairs) (simp add: update_credit_hash_def)
  moreover have "fold (\<lambda>(c, credits). hash_credits c credits) m h = h XOR xor_all (all_credit_terms m)" for m h
    unfolding all_credit_terms_def by (rule fold_xor_pairs) (simp add: credit_terms_def hash_credits_xor)
  ultimately show ?thesis by (simp add: compute_hash_def Let_def xor.assoc)
qed

lemma xor_map_insert_fresh:
  "map_of m k = None \<Longrightarrow> xor_all (map f (hmap_insert k v m)) = xor_all (map f m) XOR f (k, v)"
  by (induction m) (auto simp: xor.assoc split: if_splits)

lemma xor_map_insert_used:
  "map_of m k = Some w \<Longrightarrow> xor_all (map f (hmap_insert k v m)) = xor_all (map f m) XOR f (k, w) XOR f (k, v)"
  by (induction m) (auto simp: ac_simps split: if_splits)

definition hash_current :: "LFList \<Rightarrow> bool" where
  "hash_current l \<longleftrightarrow> lf_hash l = compute_hash l"

text \<open>An entry is new to a list when its key has no entry yet.\<close>

fun new_entry :: "Entry \<Rightarrow> LFList \<Rightarrow> bool" where
    "new_entry Skip l \<longleftrightarrow> True"
  | "new_entry (CreditLimit key v) l \<longleftrightarrow> hmap_get (lf_credit_limits l) key = None"
  | "new_entry (Credit c key v) l \<longleftrightarrow> hmap_get (get_or [] (lf_credits l) c) key = None"
  | "new_entry (Limit c n) l \<longleftrightarrow> hmap_get (lf_content l) c = None"

lemma hash_current_new [simp]: "hash_current (LFList_new n)"
  by (simp add: hash_current_def compute_hash_def LFList_new_def)

lemma hash_current_push_card:
  "hash_current l \<Longrightarrow> hmap_get (lf_content l) c = None \<Longrightarrow> hash_current (push_card c n l)"
  by (simp add: hash_current_def push_card_def compute_hash_xor card_terms_def xor_map_insert_fresh ac_simps)

lemma hash_current_push_credit_limit:
  "hash_current l \<Longrightarrow> hmap_get (lf_credit_limits l) key = None \<Longrightarrow> hash_current (push_credit_limit key v l)"
  by (simp add: hash_current_def push_credit_limit_def compute_hash_xor limit_terms_def
      xor_map_insert_fresh update_credit_hash_def ac_simps)

lemma hash_current_push_credit:
  assumes "hash_current l" and "hmap_get (get_or [] (lf_credits l) c) key = None"
  shows "hash_current (push_credit c key v l)"
proof (cases "hmap_get (lf_credits l) c")
  case None
  then show ?thesis using assms
    by (simp add: hash_current_def push_credit_def compute_hash_xor all_credit_terms_def credit_terms_def
        xor_map_insert_fresh update_credit_hash_def get_or.simps ac_simps)
next
  case (Some m)
  then have "hmap_get m key = None" using assms(2) by (simp add: get_or.simps)
  then show ?thesis using assms Some
    by (simp add: hash_current_def push_credit_def compute_hash_xor all_credit_terms_def credit_terms_def
        xor_map_insert_used xor_map_insert_fresh update_credit_hash_def get_or.simps ac_simps)
qed

lemma hash_current_apply_entry:
  "hash_current l \<Longrightarrow> new_entry e l \<Longrightarrow> hash_current (apply_entry e l)"
  by (cases e) (simp_all add: hash_current_push_card hash_current_push_credit_limit hash_current_push_credit)

text \<open>The lines of a file in which no entry of a list is repeated.\<close>

definition new_line :: "str \<Rightarrow> LFList list \<Rightarrow> bool" where
  "new_line line ls \<longleftrightarrow>
     line = [] \<or> starts_with (lit ''#'') line \<or> starts_with (lit ''!'') line \<or> ls = []
     \<or> new_entry (parse_entry line) (last ls)"

primrec no_repeats :: "str list \<Rightarrow> LFList list \<Rightarrow> bool" where
  "no_repeats [] ls \<longleftrightarrow> True"
| "no_repeats (line # rest) ls \<longleftrightarrow> new_line line ls \<and> no_repeats rest (parse_line line ls)"

lemma parse_line_hash_current:
  assumes "\<forall>l \<in> set ls. hash_current l" and "new_line line ls"
  shows "\<forall>l \<in> set (parse_line line ls). hash_current l"
proof (cases "line = [] \<or> starts_with (lit ''#'') line \<or> ls = [] \<or> strip_prefix (lit ''!'') line \<noteq> None")
  case True
  with assms(1) show ?thesis by (auto simp: parse_line_def)
next
  case False
  with assms have "hash_current (apply_entry (parse_entry line) (last ls))"
    by (intro hash_current_apply_entry) (auto simp: new_line_def starts_with_def)
  with False assms(1) show ?thesis by (auto simp: parse_line_def dest: in_set_butlastD)
qed

lemma fold_parse_hash_current:
  "\<forall>l \<in> set ls. hash_current l \<Longrightarrow> no_repeats xs ls \<Longrightarrow> \<forall>l \<in> set (fold parse_line xs ls). hash_current l"
proof (induction xs arbitrary: ls)
  case (Cons line xs)
  then show ?case using parse_line_hash_current [of ls line] by simp
qed simp

section \<open>Properties\<close>

text \<open>The hash a parsed list carries, accumulated entry by entry, is the hash that is computed
  from its final contents, in every list of a file that does not repeat an entry within a list.\<close>

theorem parse_lflist_hash:
  assumes "no_repeats (map trim (lines content)) []" and "l \<in> set (parse_lflist_content content)"
  shows "lf_hash l = compute_hash l"
  using assms fold_parse_hash_current [of "[]"] by (auto simp: parse_lflist_content_def hash_current_def)

text \<open>The computed hash of a list does not depend on the order in which its hash maps are
  iterated: reordering the limits, the credit limits and the cards with credits, and the credits of
  each card, leaves it the same.\<close>

theorem compute_hash_order_independent:
  assumes "mset (lf_content l') = mset (lf_content l)"
    and "mset (lf_credit_limits l') = mset (lf_credit_limits l)"
    and "image_mset (\<lambda>(c, m). (c, mset m)) (mset (lf_credits l')) =
         image_mset (\<lambda>(c, m). (c, mset m)) (mset (lf_credits l))"
  shows "compute_hash l' = compute_hash l"
proof -
  define g where "g = (\<lambda>(c :: u32, M). credit_mix c)"
  define term_of where "term_of = (\<lambda>(c, M). xor_all (map (\<lambda>(key, v). credit_mix c (credit_hash key) v)
    (SOME m. mset m = M)))"
  have same: "credit_terms c m = term_of (c, mset m)" for c m
  proof -
    have "mset (SOME m'. mset m' = mset m) = mset m" by (rule someI) simp
    then have "mset (map (\<lambda>(key, v). credit_mix c (credit_hash key) v) (SOME m'. mset m' = mset m))
      = mset (map (\<lambda>(key, v). credit_mix c (credit_hash key) v) m)" by simp
    from xor_all_mset [OF this] show ?thesis by (simp add: credit_terms_def term_of_def)
  qed
  have "mset (all_credit_terms (lf_credits x)) =
    image_mset term_of (image_mset (\<lambda>(c, m). (c, mset m)) (mset (lf_credits x)))" for x :: LFList
    by (auto simp: all_credit_terms_def same image_mset.compositionality comp_def intro!: image_mset_cong)
  then have "xor_all (all_credit_terms (lf_credits l')) = xor_all (all_credit_terms (lf_credits l))"
    using assms(3) by (intro xor_all_mset) simp
  moreover have "xor_all (card_terms (lf_content l')) = xor_all (card_terms (lf_content l))"
    using assms(1) by (intro xor_all_mset) (simp add: card_terms_def)
  moreover have "xor_all (limit_terms (lf_credit_limits l')) = xor_all (limit_terms (lf_credit_limits l))"
    using assms(2) by (intro xor_all_mset) (simp add: limit_terms_def)
  ultimately show ?thesis by (simp add: compute_hash_xor)
qed

section \<open>Witnesses\<close>

definition sample_file :: str where
  "sample_file = lit ''!a'' @ 10 # lit ''$g 9'' @ 10 # lit ''7 1'' @ 10 # lit ''8 $g 3''"

lemma sample_file_no_repeats: "no_repeats (map trim (lines sample_file)) []"
  by (simp add: sample_file_def str_eval parse_line_def parse_entry_def new_line_def LFList_new_def
      push_card_def push_credit_limit_def get_or.simps)

lemma sample_file_parses: "length (parse_lflist_content sample_file) = 1"
  by (simp add: sample_file_def str_eval parse_line_def parse_entry_def parse_lflist_content_def)

theorem parse_lflist_hash_witness:
  "lf_hash (hd (parse_lflist_content sample_file)) = compute_hash (hd (parse_lflist_content sample_file))"
proof -
  have "parse_lflist_content sample_file \<noteq> []" using sample_file_parses by auto
  then show ?thesis by (intro parse_lflist_hash [OF sample_file_no_repeats] hd_in_set)
qed

theorem compute_hash_order_independent_witness:
  "compute_hash (LFList_new [] \<lparr> lf_content := [(7, 1), (8, 0)], lf_credits := [(7, [([1], 2), ([3], 4)])] \<rparr>) =
   compute_hash (LFList_new [] \<lparr> lf_content := [(8, 0), (7, 1)], lf_credits := [(7, [([3], 4), ([1], 2)])] \<rparr>)"
  by (rule compute_hash_order_independent) (simp_all add: LFList_new_def add_mset_commute)

end
