(* ===== verification/Deck.thy ===== *)
theory Deck
  imports Card LFList
begin

text \<open>
  A player's deck (ygopro-data data/deck.rs): its wire and text formats, the preparation of a
  submitted deck (dropping unknown cards, moving extra deck cards), the comparison after side
  decking, and the checks of the room's rule and limit list. A check returns the error it found or
  none; building an error panics when the card code does not fit 28 bits.
\<close>

definition DECK_MIN :: nat where "DECK_MIN = 40"
definition DECK_MAX :: nat where "DECK_MAX = 60"
definition EXTRA_MAX :: nat where "EXTRA_MAX = 15"
definition SIDE_MAX :: nat where "SIDE_MAX = 15"

record Deck =
  dk_main :: "u32 list"
  dk_side :: "u32 list"
  dk_extra :: "u32 list"

definition Deck_new :: Deck where
  "Deck_new = \<lparr> dk_main = [], dk_side = [], dk_extra = [] \<rparr>"

definition Deck_iter :: "Deck \<Rightarrow> u32 list" where
  "Deck_iter d = dk_main d @ dk_extra d @ dk_side d"

section \<open>Wire format\<close>

definition wr_Deck :: "Deck writer" where
  "wr_Deck d =
     wr_u32 (of_nat (length (dk_main d)) + of_nat (length (dk_extra d))) @ wr_u32 (of_nat (length (dk_side d)))
     @ wr_vec wr_u32 (dk_main d) @ wr_vec wr_u32 (dk_side d) @ wr_vec wr_u32 (dk_extra d)"

fun rd_Deck :: "Deck reader" where
  "rd_Deck bs =
     (case rd_u32 bs of None \<Rightarrow> None
      | Some (main_size, r1) \<Rightarrow> (case rd_u32 r1 of None \<Rightarrow> None
      | Some (side_size, r2) \<Rightarrow> (case rd_count rd_u32 (unat main_size) r2 of None \<Rightarrow> None
      | Some (m, r3) \<Rightarrow> (case rd_count rd_u32 (unat side_size) r3 of None \<Rightarrow> None
      | Some (s, r4) \<Rightarrow> Some (\<lparr> dk_main = m, dk_side = s, dk_extra = [] \<rparr>, r4)))))"

definition load_from_codes :: "u32 list \<Rightarrow> nat \<Rightarrow> nat \<Rightarrow> Deck" where
  "load_from_codes codes mainc sidec =
     (let mc = min mainc (length codes); sc = min sidec (length codes - mc) in
      Deck_new \<lparr> dk_main := take mc codes, dk_side := take sc (drop mc codes) \<rparr>)"

section \<open>Counting and comparing\<close>

definition count_codes :: "u32 list \<Rightarrow> (u32, nat) hmap" where
  "count_codes codes = fold bump codes []"

definition get_hash :: "Deck \<Rightarrow> (u32, nat) hmap" where
  "get_hash d = count_codes (Deck_iter d)"

definition hmap_eq :: "('k, 'v) hmap \<Rightarrow> ('k, 'v) hmap \<Rightarrow> bool" where
  "hmap_eq m m' \<longleftrightarrow> length m = length m' \<and> (\<forall>(k, v) \<in> set m. hmap_get m' k = Some v)"

definition Deck_eq :: "Deck \<Rightarrow> Deck \<Rightarrow> bool" where
  "Deck_eq a b \<longleftrightarrow>
     (if length (dk_main a) \<noteq> length (dk_main b) \<or> length (dk_side a) \<noteq> length (dk_side b)
         \<or> length (dk_extra a) \<noteq> length (dk_extra b) then False
      else hmap_eq (get_hash a) (get_hash b))"

section \<open>Preparing a deck\<close>

definition EXTRA_TYPE :: u32 where
  "EXTRA_TYPE = 0x4802040"

fun separate_main_and_extra :: "(u32 \<Rightarrow> u32) \<Rightarrow> u32 list \<Rightarrow> u32 list \<Rightarrow> u32 list \<times> u32 list" where
    "separate_main_and_extra ty [] ex = ([], ex)"
  | "separate_main_and_extra ty (c # cs) ex =
       (if intersects (ty c) EXTRA_TYPE
        then separate_main_and_extra ty cs (if length ex < EXTRA_MAX then ex @ [c] else ex)
        else let (m, e) = separate_main_and_extra ty cs ex in (c # m, e))"

definition Deck_separate :: "(u32 \<Rightarrow> u32) \<Rightarrow> Deck \<Rightarrow> Deck" where
  "Deck_separate ty d =
     (let (m, e) = separate_main_and_extra ty (dk_main d) (dk_extra d) in d \<lparr> dk_main := m, dk_extra := e \<rparr>)"

definition deck_error :: "DeckErrorType \<Rightarrow> u32 \<Rightarrow> DeckError res" where
  "deck_error t c = DeckError_with_code c (DeckError_with_error_type t DeckError_new)"

definition is_unknown :: "(u32 \<Rightarrow> u32 option) \<Rightarrow> u32 \<Rightarrow> bool" where
  "is_unknown ty c =
     (case ty c of Some t \<Rightarrow> contains t (Type_bits Type_Token) | None \<Rightarrow> True)"

fun retain_known :: "(u32 \<Rightarrow> u32 option) \<Rightarrow> u32 list \<Rightarrow> u32 option \<Rightarrow> u32 list \<times> u32 option" where
    "retain_known ty [] lst = ([], lst)"
  | "retain_known ty (c # cs) lst =
       (if is_unknown ty c then retain_known ty cs (Some c)
        else let (m, l) = retain_known ty cs lst in (c # m, l))"

definition remove_unknown_cards ::
  "(u32 \<Rightarrow> u32 option) \<Rightarrow> u32 list \<Rightarrow> (u32 list \<times> DeckError option) res" where
  "remove_unknown_cards ty cs =
     (case retain_known ty cs None of
        (m, None) \<Rightarrow> Inr (m, None)
      | (m, Some c) \<Rightarrow> (case deck_error DeckErrorType_UnknownCard c of
                         Inl p \<Rightarrow> Inl p | Inr e \<Rightarrow> Inr (m, Some e)))"

definition type_or_empty :: "(u32 \<Rightarrow> Card option) \<Rightarrow> u32 \<Rightarrow> u32" where
  "type_or_empty resolve c = (case resolve c of None \<Rightarrow> 0 | Some cd \<Rightarrow> cd_type cd)"

definition Deck_load :: "(u32 \<Rightarrow> Card option) \<Rightarrow> Deck \<Rightarrow> (Deck \<times> DeckError option) res" where
  "Deck_load resolve d =
     and_then (remove_unknown_cards (\<lambda>c. map_option cd_type (resolve c)) (dk_main d)) (\<lambda>(m, e1).
     and_then (remove_unknown_cards (\<lambda>c. map_option cd_type (resolve c)) (dk_side d)) (\<lambda>(s, e2).
       Inr (Deck_separate (type_or_empty resolve) (d \<lparr> dk_main := m, dk_side := s \<rparr>),
            (case e1 of Some e \<Rightarrow> Some e | None \<Rightarrow> e2))))"

text \<open>The new deck after side decking is compared with the old one; the error has no card code.\<close>

definition check_after_replacing_side ::
  "(u32 \<Rightarrow> Card option) \<Rightarrow> Deck \<Rightarrow> Deck \<Rightarrow> Deck \<times> DeckError option" where
  "check_after_replacing_side resolve old deck =
     (let new = Deck_separate (type_or_empty resolve) deck in
      (new, if Deck_eq old new then None
            else Some (DeckError_with_error_type DeckErrorType_SideCount DeckError_new)))"

section \<open>Checking a deck\<close>

text \<open>The result of a check: a panic, no error, or the error found.\<close>

type_synonym check = "DeckError option res"

fun or_else_check :: "check \<Rightarrow> check \<Rightarrow> check" where
    "or_else_check (Inr None) k = k"
  | "or_else_check r k = r"

definition fail_check :: "DeckErrorType \<Rightarrow> u32 \<Rightarrow> check" where
  "fail_check t c = and_then (deck_error t c) (\<lambda>e. Inr (Some e))"

definition check_deck_length :: "u32 list \<Rightarrow> u32 list \<Rightarrow> u32 list \<Rightarrow> check" where
  "check_deck_length m ex s =
     (if length m < DECK_MIN \<or> length m > DECK_MAX then fail_check DeckErrorType_MainCount (of_nat (length m))
      else if length ex > EXTRA_MAX then fail_check DeckErrorType_ExtraCount (of_nat (length ex))
      else if length s > SIDE_MAX then fail_check DeckErrorType_SideCount (of_nat (length s))
      else Inr None)"

fun first_error :: "('a \<Rightarrow> check) \<Rightarrow> 'a list \<Rightarrow> check" where
    "first_error f [] = Inr None"
  | "first_error f (x # xs) = or_else_check (f x) (first_error f xs)"

definition check_illegal_cards :: "(u32 \<Rightarrow> u32) \<Rightarrow> u32 list \<Rightarrow> u32 list \<Rightarrow> u32 list \<Rightarrow> check" where
  "check_illegal_cards ty m s ex =
     or_else_check
       (first_error (\<lambda>c. if contains (ty c) (Type_bits Type_Token) \<or> intersects (ty c) EXTRA_TYPE
                         then fail_check DeckErrorType_MainCount 0 else Inr None) m)
     (or_else_check
       (first_error (\<lambda>c. if contains (ty c) (Type_bits Type_Token)
                         then fail_check DeckErrorType_SideCount 0 else Inr None) s)
       (first_error (\<lambda>c. if contains (ty c) (Type_bits Type_Token) \<or> \<not> intersects (ty c) EXTRA_TYPE
                         then fail_check DeckErrorType_ExtraCount 0 else Inr None) ex))"

definition check_rule :: "Rule \<Rightarrow> (u32 \<Rightarrow> u8) \<Rightarrow> u32 list \<Rightarrow> check" where
  "check_rule rule get_ot codes =
     first_error (\<lambda>c. case Rule_check_ot rule (get_ot c) of
                        Some t \<Rightarrow> fail_check t c | None \<Rightarrow> Inr None) codes"

text \<open>One card against the credit limits, in the order the limits are iterated: the credits used so
  far, and whether a limit was exceeded.\<close>

fun use_credits :: "LFList \<Rightarrow> u32 \<Rightarrow> (str, u32) hmap \<Rightarrow> (str, u32) hmap \<Rightarrow> (str, u32) hmap \<times> bool" where
    "use_credits l c [] used = (used, True)"
  | "use_credits l c ((key, lim) # rest) used =
       (let u = get_or 0 used key + credit l c key; used' = hmap_insert key u used in
        if u > lim then (used', False) else use_credits l c rest used')"

fun lflist_loop :: "LFList \<Rightarrow> (u32 \<Rightarrow> u32) \<Rightarrow> u32 list \<Rightarrow> (u32, u32) hmap \<Rightarrow> (str, u32) hmap \<Rightarrow> check" where
    "lflist_loop l resolve [] counts used = Inr None"
  | "lflist_loop l resolve (c0 # cs) counts used =
       (let c = resolve c0; counts' = bump c counts; n = get_or 0 counts' c in
        if n > 3 then fail_check DeckErrorType_CardCount c
        else if (case hmap_get (lf_content l) c of Some lim \<Rightarrow> (ucast n :: u8) > lim | None \<Rightarrow> False)
        then fail_check DeckErrorType_Lflist c
        else let (used', fine) = use_credits l c (lf_credit_limits l) used in
          if fine then lflist_loop l resolve cs counts' used'
          else fail_check DeckErrorType_Lflist c)"

definition check_deck_lflists :: "LFList \<Rightarrow> (u32 \<Rightarrow> u32) \<Rightarrow> u32 list \<Rightarrow> check" where
  "check_deck_lflists l resolve codes = lflist_loop l resolve codes [] []"

definition Deck_check ::
  "LFList \<Rightarrow> Rule \<Rightarrow> (u32 \<Rightarrow> u8) \<Rightarrow> (u32 \<Rightarrow> u32) \<Rightarrow> (u32 \<Rightarrow> u32) \<Rightarrow> Deck \<Rightarrow> check" where
  "Deck_check l rule get_ot get_type resolve_code d =
     or_else_check (check_deck_length (dk_main d) (dk_extra d) (dk_side d))
     (or_else_check (check_illegal_cards get_type (dk_main d) (dk_side d) (dk_extra d))
     (or_else_check (check_rule rule get_ot (Deck_iter d))
        (check_deck_lflists l resolve_code (Deck_iter d))))"

definition Deck_prepare :: "LFList \<Rightarrow> Rule \<Rightarrow> (u32 \<Rightarrow> Card option) \<Rightarrow> Deck \<Rightarrow> check" where
  "Deck_prepare l rule resolve d =
     Deck_check l rule
       (\<lambda>c. case resolve c of None \<Rightarrow> 0 | Some cd \<Rightarrow> cd_ot cd)
       (type_or_empty resolve)
       (\<lambda>c. case resolve c of None \<Rightarrow> 0 | Some cd \<Rightarrow> duel_code cd) d"

section \<open>Text format\<close>

definition code_lines :: "u32 list \<Rightarrow> str" where
  "code_lines codes = concat (map (\<lambda>c. u32_to_string c @ [10]) codes)"

definition Deck_to_string :: "Deck \<Rightarrow> str" where
  "Deck_to_string d =
     lit ''#ygopro-rs deck generated'' @ [10] @ lit ''#main'' @ [10] @ code_lines (dk_main d)
     @ (if length (dk_extra d) > 0 then lit ''#extra'' @ [10] @ code_lines (dk_extra d) else [])
     @ lit ''!side'' @ [10] @ code_lines (dk_side d)"

datatype Section = Main | Side | Extra

fun push_code :: "Section \<Rightarrow> u32 \<Rightarrow> Deck \<Rightarrow> Deck" where
    "push_code Main c d = d \<lparr> dk_main := dk_main d @ [c] \<rparr>"
  | "push_code Side c d = d \<lparr> dk_side := dk_side d @ [c] \<rparr>"
  | "push_code Extra c d = d \<lparr> dk_extra := dk_extra d @ [c] \<rparr>"

definition deck_line :: "str \<Rightarrow> Section \<times> Deck \<Rightarrow> Section \<times> Deck" where
  "deck_line raw = (\<lambda>(sec, d). let line = trim raw in
     if line = [] then (sec, d)
     else if hd line = 33 then (Side, d)
     else if hd line = 35 then
       (if line = lit ''#main'' then (Main, d) else if line = lit ''#extra'' then (Extra, d) else (sec, d))
     else if is_ascii_digit (hd line) then
       (case parse_u32 (takeWhile is_ascii_digit line) of
          Some c \<Rightarrow> (sec, push_code sec c d) | None \<Rightarrow> (sec, d))
     else (sec, d))"

definition Deck_from_str :: "str \<Rightarrow> Deck" where
  "Deck_from_str s = snd (fold deck_line (lines s) (Main, Deck_new))"

section \<open>Lemmas\<close>

subsection \<open>Counting\<close>

lemma wf_bump [simp]: "wf_hmap m \<Longrightarrow> wf_hmap (bump k m)"
  by (simp add: bump_def)

lemma get_bump: "hmap_get (bump k m) = (hmap_get m)(k \<mapsto> get_or 0 m k + 1)"
  by (simp add: bump_def hmap_get_insert)

lemma get_or_bump: "get_or 0 (bump k m) k' = (if k' = k then get_or 0 m k + 1 else get_or 0 m k')"
  by (simp add: bump_def)

lemma wf_count_fold: "wf_hmap m \<Longrightarrow> wf_hmap (fold bump codes m)"
  by (induction codes arbitrary: m) auto

lemma count_fold_get:
  "hmap_get (fold bump codes (m :: ('k, nat) hmap)) k =
     (if k \<in> set codes then Some (get_or 0 m k + count_list codes k) else hmap_get m k)"
proof (induction codes arbitrary: m)
  case (Cons c codes)
  show ?case
    by (cases "k \<in> set codes") (auto simp: Cons.IH get_or_bump get_bump count_notin)
qed simp

lemma count_codes_get:
  "hmap_get (count_codes codes) k = (if k \<in> set codes then Some (count_list codes k) else None)"
  by (simp add: count_codes_def count_fold_get)

lemma wf_count_codes: "wf_hmap (count_codes codes)"
  by (simp add: count_codes_def wf_count_fold)

lemma hmap_eq_iff:
  assumes "wf_hmap m" and "wf_hmap m'"
  shows "hmap_eq m m' \<longleftrightarrow> hmap_get m = hmap_get m'"
proof
  assume "hmap_eq m m'"
  then have len: "length m = length m'" and sub: "set m \<subseteq> set m'"
    using assms(2) by (auto simp: hmap_eq_def dest: map_of_SomeD)
  have "distinct m" "distinct m'"
    using assms unfolding wf_hmap_def by (simp_all add: distinct_map)
  then have "set m = set m'"
    using len sub by (metis card_subset_eq distinct_card List.finite_set)
  then show "hmap_get m = hmap_get m'"
    using assms unfolding wf_hmap_def by (simp add: map_of_inject_set)
next
  assume e: "hmap_get m = hmap_get m'"
  then have s: "set m = set m'"
    using assms unfolding wf_hmap_def by (simp add: map_of_inject_set)
  have "distinct m" "distinct m'"
    using assms unfolding wf_hmap_def by (simp_all add: distinct_map)
  then have "length m = length m'" using s by (metis distinct_card)
  with e show "hmap_eq m m'"
    using assms unfolding hmap_eq_def wf_hmap_def by (auto simp flip: e)
qed

lemma get_hash_eq_iff: "hmap_eq (get_hash a) (get_hash b) \<longleftrightarrow> mset (Deck_iter a) = mset (Deck_iter b)"
proof -
  have "hmap_get (count_codes xs) = hmap_get (count_codes ys) \<longleftrightarrow> mset xs = mset ys" for xs ys
  proof
    assume e: "hmap_get (count_codes xs) = hmap_get (count_codes ys)"
    have "count (mset xs) k = count (mset ys) k" for k
      using fun_cong [OF e, of k]
      by (auto simp: count_codes_get count_list_mset [symmetric] count_list_0_iff split: if_splits)
    then show "mset xs = mset ys" by (simp add: multiset_eq_iff)
  next
    assume "mset xs = mset ys"
    then show "hmap_get (count_codes xs) = hmap_get (count_codes ys)"
      by (auto simp: count_codes_get fun_eq_iff count_list_mset dest: mset_eq_setD)
  qed
  then show ?thesis by (simp add: get_hash_def hmap_eq_iff wf_count_codes)
qed

subsection \<open>Text format\<close>

lemma strip_cr_digits: "\<forall>c \<in> set l. is_ascii_digit c \<Longrightarrow> strip_cr l = l"
  using digit_not_special last_in_set unfolding strip_cr_def by metis

lemma lines_code_lines: "lines (code_lines codes @ r) = map u32_to_string codes @ lines r"
proof (induction codes)
  case (Cons c codes)
  have "10 \<notin> set (u32_to_string c)" using u32_to_string_digits(2) digit_not_special by blast
  then show ?case
    using lines_line [of "u32_to_string c"] Cons strip_cr_digits [OF u32_to_string_digits(2)]
    by (simp add: code_lines_def)
qed (simp add: code_lines_def)

lemma deck_line_code: "deck_line (u32_to_string c) (sec, d) = (sec, push_code sec c d)"
proof -
  let ?s = "u32_to_string c"
  note digits = u32_to_string_digits [of c]
  have h: "is_ascii_digit (hd ?s)" "is_ascii_digit (last ?s)" using digits by auto
  have "trim ?s = ?s" using h digit_not_special by (intro trim_id) blast
  moreover have "parse_u32 (takeWhile is_ascii_digit ?s) = Some c"
    using digits(2) by (metis parse_u32_to_string takeWhile_eq_all_conv)
  ultimately show ?thesis using digits(1) h digit_not_special [OF h(1)]
    by (simp add: deck_line_def Let_def)
qed

lemma fold_deck_line_codes:
  "fold deck_line (map u32_to_string codes) (sec, d) = (sec, fold (push_code sec) codes d)"
  by (induction codes arbitrary: d) (simp_all add: deck_line_code)

lemma fold_push_code:
  "fold (push_code Main) cs d = d \<lparr> dk_main := dk_main d @ cs \<rparr>"
  "fold (push_code Side) cs d = d \<lparr> dk_side := dk_side d @ cs \<rparr>"
  "fold (push_code Extra) cs d = d \<lparr> dk_extra := dk_extra d @ cs \<rparr>"
  by (induction cs arbitrary: d) simp_all

lemma deck_line_header:
  "deck_line (lit ''#ygopro-rs deck generated'') st = st"
  "deck_line (lit ''#main'') st = (Main, snd st)"
  "deck_line (lit ''#extra'') st = (Extra, snd st)"
  "deck_line (lit ''!side'') st = (Side, snd st)"
  by (simp_all add: deck_line_def trim_def is_whitespace_def Let_def split: prod.split)

lemma lines_header:
  "lines (lit ''#ygopro-rs deck generated'' @ 10 # r) = lit ''#ygopro-rs deck generated'' # lines r"
  "lines (lit ''#main'' @ 10 # r) = lit ''#main'' # lines r"
  "lines (lit ''#extra'' @ 10 # r) = lit ''#extra'' # lines r"
  "lines (lit ''!side'' @ 10 # r) = lit ''!side'' # lines r"
  by (subst lines_line; simp add: strip_cr_def)+

subsection \<open>Preparation\<close>

lemma separate_spec:
  assumes "separate_main_and_extra ty cs ex = (m, e)"
  shows "m = filter (\<lambda>c. \<not> intersects (ty c) EXTRA_TYPE) cs"
    and "e = ex @ take (EXTRA_MAX - length ex) (filter (\<lambda>c. intersects (ty c) EXTRA_TYPE) cs)"
  using assms
proof (induction cs arbitrary: ex m e)
  case (Cons c cs)
  {
    case 1
    then show ?case using Cons.IH(1) by (auto simp: Let_def split: if_splits prod.splits)
  next
    case 2
    show ?case
    proof (cases "intersects (ty c) EXTRA_TYPE \<and> length ex < EXTRA_MAX")
      case True
      then have "EXTRA_MAX - length ex = Suc (EXTRA_MAX - length (ex @ [c]))" by (simp add: Suc_diff_Suc)
      with True 2 Cons.IH(2) [of "ex @ [c]" m e] show ?thesis by simp
    next
      case False
      then show ?thesis using 2 Cons.IH(2) [of ex]
        by (cases "intersects (ty c) EXTRA_TYPE") (auto simp: Let_def split: prod.splits)
    qed
  }
qed simp_all

lemma retain_known_spec:
  "retain_known ty cs lst = (filter (\<lambda>c. \<not> is_unknown ty c) cs,
     (case filter (is_unknown ty) cs of [] \<Rightarrow> lst | _ # _ \<Rightarrow> Some (last (filter (is_unknown ty) cs))))"
  by (induction cs arbitrary: lst) (auto split: list.split)

lemma deck_error_cases:
  "(deck_error t c = Inl OutOfBoundsSetter \<and> \<not> c < 2 ^ 28) \<or>
   (\<exists>e. deck_error t c = Inr e \<and> c < 2 ^ 28 \<and> DeckError_code e = c \<and> DeckError_error_type e = Inr t)"
  using DeckError_pack [of c t DeckError_new] by (auto simp: deck_error_def DeckError_with_code_def)


subsection \<open>Checks\<close>

lemma or_else_ok [simp]: "or_else_check r k = Inr None \<longleftrightarrow> r = Inr None \<and> k = Inr None"
  by (cases "(r, k)" rule: or_else_check.cases) auto

lemma fail_check_not_ok [simp]: "fail_check t c \<noteq> Inr None"
  by (auto simp: fail_check_def)

lemma first_error_ok [simp]: "first_error f xs = Inr None \<longleftrightarrow> (\<forall>x \<in> set xs. f x = Inr None)"
  by (induction xs) auto

definition deck_length_ok :: "Deck \<Rightarrow> bool" where
  "deck_length_ok d \<longleftrightarrow> 40 \<le> length (dk_main d) \<and> length (dk_main d) \<le> 60
     \<and> length (dk_extra d) \<le> 15 \<and> length (dk_side d) \<le> 15"

definition deck_cards_ok :: "(u32 \<Rightarrow> u32) \<Rightarrow> Deck \<Rightarrow> bool" where
  "deck_cards_ok ty d \<longleftrightarrow>
     (\<forall>c \<in> set (Deck_iter d). \<not> contains (ty c) (Type_bits Type_Token)) \<and>
     (\<forall>c \<in> set (dk_main d). \<not> intersects (ty c) EXTRA_TYPE) \<and>
     (\<forall>c \<in> set (dk_extra d). intersects (ty c) EXTRA_TYPE)"

definition limits_ok :: "LFList \<Rightarrow> u32 list \<Rightarrow> bool" where
  "limits_ok l cs \<longleftrightarrow> (\<forall>c \<in> set cs. count_list cs c \<le> 3 \<and>
     (case hmap_get (lf_content l) c of None \<Rightarrow> True | Some n \<Rightarrow> count_list cs c \<le> unat n))"

definition credits_of :: "LFList \<Rightarrow> str \<Rightarrow> u32 list \<Rightarrow> nat" where
  "credits_of l key cs = sum_list (map (\<lambda>c. unat (credit l c key)) cs)"

definition credits_ok :: "LFList \<Rightarrow> u32 list \<Rightarrow> bool" where
  "credits_ok l cs \<longleftrightarrow> (\<forall>(key, lim) \<in> set (lf_credit_limits l). credits_of l key cs \<le> unat lim)"

definition no_credit_overflow :: "LFList \<Rightarrow> u32 list \<Rightarrow> bool" where
  "no_credit_overflow l cs \<longleftrightarrow> (\<forall>(key, lim) \<in> set (lf_credit_limits l). credits_of l key cs < 2 ^ 32)"

lemma check_deck_length_ok:
  "check_deck_length (dk_main d) (dk_extra d) (dk_side d) = Inr None \<longleftrightarrow> deck_length_ok d"
  by (simp add: check_deck_length_def deck_length_ok_def DECK_MIN_def DECK_MAX_def EXTRA_MAX_def
      SIDE_MAX_def not_less not_le)

lemma check_illegal_cards_ok:
  "check_illegal_cards ty (dk_main d) (dk_side d) (dk_extra d) = Inr None \<longleftrightarrow> deck_cards_ok ty d"
  by (auto simp: check_illegal_cards_def deck_cards_ok_def Deck_iter_def split: if_splits)

lemma check_rule_ok:
  "check_rule rule get_ot cs = Inr None \<longleftrightarrow> (\<forall>c \<in> set cs. Rule_check_ot rule (get_ot c) = None)"
  by (auto simp: check_rule_def split: option.splits)

lemma credits_of_append [simp]: "credits_of l key (ps @ cs) = credits_of l key ps + credits_of l key cs"
  by (simp add: credits_of_def)

lemma credits_of_simps [simp]:
  "credits_of l key [] = 0" "credits_of l key (c # cs) = unat (credit l c key) + credits_of l key cs"
  by (simp_all add: credits_of_def)

lemma use_credits_spec:
  assumes "use_credits l c lims used = (used', fine)" and "distinct (map fst lims)"
    and "\<And>key lim. (key, lim) \<in> set lims \<Longrightarrow> unat (get_or 0 used key) + unat (credit l c key) < 2 ^ 32"
  shows "fine \<longleftrightarrow> (\<forall>(key, lim) \<in> set lims. unat (get_or 0 used key) + unat (credit l c key) \<le> unat lim)"
    and "fine \<Longrightarrow> get_or 0 used' key = get_or 0 used key + (if key \<in> fst ` set lims then credit l c key else 0)"
proof -
  have "(fine \<longleftrightarrow> (\<forall>(key, lim) \<in> set lims. unat (get_or 0 used key) + unat (credit l c key) \<le> unat lim)) \<and>
    (fine \<longrightarrow> (\<forall>key. get_or 0 used' key = get_or 0 used key + (if key \<in> fst ` set lims then credit l c key else 0)))"
    using assms
  proof (induction lims arbitrary: used)
    case (Cons p lims)
    obtain key lim where p: "p = (key, lim)" by (cases p)
    let ?u = "get_or 0 used key + credit l c key"
    have u: "unat ?u = unat (get_or 0 used key) + unat (credit l c key)"
      using Cons.prems(3) [of key lim] by (simp add: p unat_word_ariths)
    have other: "get_or 0 (hmap_insert key ?u used) k = get_or 0 used k" if "k \<in> fst ` set lims" for k
      using Cons.prems(2) that by (auto simp: p)
    show ?case
    proof (cases "?u > lim")
      case True
      then show ?thesis using Cons.prems(1) by (auto simp: p Let_def u word_less_nat_alt)
    next
      case False
      have "use_credits l c lims (hmap_insert key ?u used) = (used', fine)"
        using False Cons.prems(1) by (simp add: p Let_def)
      moreover have "distinct (map fst lims)" using Cons.prems(2) by simp
      moreover have "unat (get_or 0 (hmap_insert key ?u used) k) + unat (credit l c k) < 2 ^ 32"
        if "(k, m) \<in> set lims" for k m
        using that Cons.prems(3) [of k m] other [of k] by force
      ultimately have ih: "(fine \<longleftrightarrow> (\<forall>(k, m) \<in> set lims.
            unat (get_or 0 (hmap_insert key ?u used) k) + unat (credit l c k) \<le> unat m)) \<and>
          (fine \<longrightarrow> (\<forall>k. get_or 0 used' k = get_or 0 (hmap_insert key ?u used) k
            + (if k \<in> fst ` set lims then credit l c k else 0)))"
        by (rule Cons.IH)
      have "(\<forall>(k, m) \<in> set lims. unat (get_or 0 (hmap_insert key ?u used) k) + unat (credit l c k) \<le> unat m)
        \<longleftrightarrow> (\<forall>(k, m) \<in> set lims. unat (get_or 0 used k) + unat (credit l c k) \<le> unat m)"
        using other by (force simp del: get_or_insert)
      moreover have "key \<notin> fst ` set lims" using Cons.prems(2) by (simp add: p)
      ultimately show ?thesis using ih False
        by (auto simp: p u word_less_nat_alt not_less)
    qed
  qed simp
  then show "fine \<longleftrightarrow> (\<forall>(key, lim) \<in> set lims. unat (get_or 0 used key) + unat (credit l c key) \<le> unat lim)"
    and "fine \<Longrightarrow> get_or 0 used' key = get_or 0 used key + (if key \<in> fst ` set lims then credit l c key else 0)"
    by blast+
qed


lemma limits_ok_prefix:
  assumes "limits_ok l (xs @ ys)"
  shows "limits_ok l xs"
  unfolding limits_ok_def
proof
  fix c assume "c \<in> set xs"
  then have "count_list (xs @ ys) c \<le> 3 \<and>
      (case hmap_get (lf_content l) c of None \<Rightarrow> True | Some n \<Rightarrow> count_list (xs @ ys) c \<le> unat n)"
    using assms by (simp add: limits_ok_def del: count_list_append)
  then show "count_list xs c \<le> 3 \<and>
      (case hmap_get (lf_content l) c of None \<Rightarrow> True | Some n \<Rightarrow> count_list xs c \<le> unat n)"
    by (auto split: option.splits)
qed

lemma credits_ok_prefix: "credits_ok l (xs @ ys) \<Longrightarrow> credits_ok l xs"
  by (force simp: credits_ok_def credits_of_def)

lemma limits_ok_snoc:
  "limits_ok l (ps @ [c]) \<longleftrightarrow> limits_ok l ps \<and> count_list ps c + 1 \<le> 3 \<and>
     (case hmap_get (lf_content l) c of None \<Rightarrow> True | Some n \<Rightarrow> count_list ps c + 1 \<le> unat n)"
  by (fastforce simp: limits_ok_def count_notin split: option.splits)

lemma limits_ok_count: "limits_ok l ps \<Longrightarrow> count_list ps c \<le> 3"
  by (cases "c \<in> set ps") (auto simp: limits_ok_def count_notin)

lemma small_count_word:
  assumes "n \<le> 3"
  shows "(of_nat n + 1 > (3::u32)) \<longleftrightarrow> n + 1 > 3" and "(ucast (of_nat n + 1 :: u32) :: u8) > lim \<longleftrightarrow> n + 1 > unat lim"
proof -
  have u: "unat (of_nat n + 1 :: u32) = n + 1" "unat (ucast (of_nat n + 1 :: u32) :: u8) = n + 1"
  proof -
    consider "n = 0" | "n = 1" | "n = 2" | "n = 3" using assms by linarith
    then show "unat (of_nat n + 1 :: u32) = n + 1" "unat (ucast (of_nat n + 1 :: u32) :: u8) = n + 1"
      by (cases; simp)+
  qed
  show "(of_nat n + 1 > (3::u32)) \<longleftrightarrow> n + 1 > 3"
    unfolding word_less_nat_alt u by simp
  show "(ucast (of_nat n + 1 :: u32) :: u8) > lim \<longleftrightarrow> n + 1 > unat lim"
    unfolding word_less_nat_alt u by simp
qed

lemma lflist_loop_ok:
  assumes "distinct (map fst (lf_credit_limits l))"
    and "\<And>c. get_or 0 counts c = of_nat (count_list ps c)"
    and "\<And>key. key \<in> fst ` set (lf_credit_limits l) \<Longrightarrow> get_or 0 used key = of_nat (credits_of l key ps)"
    and "limits_ok l ps" and "credits_ok l ps"
    and "no_credit_overflow l (ps @ map resolve cs)"
  shows "lflist_loop l resolve cs counts used = Inr None \<longleftrightarrow>
    limits_ok l (ps @ map resolve cs) \<and> credits_ok l (ps @ map resolve cs)"
  using assms(2-)
proof (induction cs arbitrary: ps counts used)
  case (Cons c0 cs)
  let ?c = "resolve c0"
  let ?ps = "ps @ [?c]"
  obtain used' fine where use: "use_credits l ?c (lf_credit_limits l) used = (used', fine)" by fastforce
  have whole: "ps @ map resolve (c0 # cs) = ?ps @ map resolve cs" by simp
  have n3: "count_list ps ?c \<le> 3" using limits_ok_count [OF Cons.prems(3)] .
  have unat_used: "unat (get_or 0 used key) = credits_of l key ps" 
    and sum: "unat (get_or 0 used key) + unat (credit l ?c key) = credits_of l key ?ps"
    and bound: "credits_of l key ?ps < 2 ^ 32"
    if "(key, lim) \<in> set (lf_credit_limits l)" for key lim
  proof -
    have "credits_of l key (?ps @ map resolve cs) < 2 ^ 32"
      using Cons.prems(5) that unfolding no_credit_overflow_def whole by blast
    then show b: "credits_of l key ?ps < 2 ^ 32" by simp
    have "get_or 0 used key = of_nat (credits_of l key ps)" using Cons.prems(2) that by force
    then show u: "unat (get_or 0 used key) = credits_of l key ps" using b by (simp add: of_nat_word_id)
    then show "unat (get_or 0 used key) + unat (credit l ?c key) = credits_of l key ?ps"
      by (simp add: credits_of_def)
  qed
  have no: "unat (get_or 0 used key) + unat (credit l ?c key) < 2 ^ 32"
    if "(key, lim) \<in> set (lf_credit_limits l)" for key lim
    using sum [OF that] bound [OF that] by simp
  note spec = use_credits_spec [OF use assms(1) no]
  have fine: "fine \<longleftrightarrow> credits_ok l ?ps"
    using spec(1) sum by (fastforce simp: credits_ok_def)
  have lim: "limits_ok l ?ps \<longleftrightarrow> \<not> of_nat (count_list ps ?c) + 1 > (3::u32) \<and>
     \<not> (case hmap_get (lf_content l) ?c of Some n \<Rightarrow> (ucast (of_nat (count_list ps ?c) + 1 :: u32) :: u8) > n | None \<Rightarrow> False)"
    using Cons.prems(3) small_count_word [OF n3]
    by (simp add: limits_ok_snoc not_less split: option.split)
  show ?case
  proof (cases "limits_ok l ?ps \<and> credits_ok l ?ps")
    case False
    then have "\<not> (limits_ok l (?ps @ map resolve cs) \<and> credits_ok l (?ps @ map resolve cs))"
      using limits_ok_prefix credits_ok_prefix by blast
    moreover have "lflist_loop l resolve (c0 # cs) counts used \<noteq> Inr None"
      using False lim fine use by (auto simp: Let_def get_or_bump Cons.prems(1) split: option.splits)
    ultimately show ?thesis unfolding whole by blast
  next
    case True
    have "lflist_loop l resolve (c0 # cs) counts used = lflist_loop l resolve cs (bump ?c counts) used'"
      using True lim fine use by (auto simp: Let_def get_or_bump Cons.prems(1) split: option.splits)
    moreover have "lflist_loop l resolve cs (bump ?c counts) used' = Inr None \<longleftrightarrow>
      limits_ok l (?ps @ map resolve cs) \<and> credits_ok l (?ps @ map resolve cs)"
    proof (rule Cons.IH)
      show "get_or 0 (bump ?c counts) c = of_nat (count_list ?ps c)" for c
        by (simp add: get_or_bump Cons.prems(1))
      show "get_or 0 used' key = of_nat (credits_of l key ?ps)" if "key \<in> fst ` set (lf_credit_limits l)" for key
        using spec(2) True fine that Cons.prems(2) [OF that] by (simp add: credits_of_def)
    qed (use True Cons.prems(5) in auto)
    ultimately show ?thesis unfolding whole by (simp only:)
  qed
qed simp

definition last_unknown :: "(u32 \<Rightarrow> Card option) \<Rightarrow> u32 list \<Rightarrow> u32 option" where
  "last_unknown resolve cs =
     (case filter (is_unknown (\<lambda>c. map_option cd_type (resolve c))) cs of [] \<Rightarrow> None | x # xs \<Rightarrow> Some (last (x # xs)))"

lemma remove_unknown_cards_spec:
  "remove_unknown_cards (\<lambda>c. map_option cd_type (resolve c)) cs =
     (case last_unknown resolve cs of
        None \<Rightarrow> Inr (filter (\<lambda>c. \<not> is_unknown (\<lambda>c. map_option cd_type (resolve c)) c) cs, None)
      | Some c \<Rightarrow> and_then (deck_error DeckErrorType_UnknownCard c)
          (\<lambda>e. Inr (filter (\<lambda>c. \<not> is_unknown (\<lambda>c. map_option cd_type (resolve c)) c) cs, Some e)))"
  by (simp add: remove_unknown_cards_def retain_known_spec last_unknown_def split: list.split sum.split)

fun oversized :: "u32 option \<Rightarrow> bool" where
    "oversized None = False"
  | "oversized (Some c) \<longleftrightarrow> \<not> c < 2 ^ 28"

lemma rd_wr_Deck:
  assumes "length (dk_main d) + length (dk_extra d) < 2 ^ 32" and "length (dk_side d) < 2 ^ 32"
  shows "rd_Deck (wr_Deck d @ r) = Some
    (let n = length (dk_main d) + length (dk_extra d); all = dk_main d @ dk_side d @ dk_extra d in
     \<lparr> dk_main = take n all, dk_side = drop n all, dk_extra = [] \<rparr>, r)"
proof -
  let ?n = "length (dk_main d) + length (dk_extra d)" and ?all = "dk_main d @ dk_side d @ dk_extra d"
  have n: "unat (of_nat (length (dk_main d)) + of_nat (length (dk_extra d)) :: u32) = ?n"
    using of_nat_word_id [where 'a = 32, of ?n] assms(1) by simp
  have s: "unat (of_nat (length (dk_side d)) :: u32) = length (drop ?n ?all)"
    using of_nat_word_id [where 'a = 32, of "length (dk_side d)"] assms(2) by simp
  have w: "wr_vec wr_u32 (dk_main d) @ wr_vec wr_u32 (dk_side d) @ wr_vec wr_u32 (dk_extra d) @ r
    = wr_vec wr_u32 (take ?n ?all) @ wr_vec wr_u32 (drop ?n ?all) @ r"
  proof -
    have "wr_vec wr_u32 (take ?n ?all) @ wr_vec wr_u32 (drop ?n ?all) = wr_vec wr_u32 ?all"
      by (simp only: wr_vec_append [symmetric] append_take_drop_id)
    then show ?thesis by (metis append_assoc wr_vec_append)
  qed
  have t: "length (take ?n ?all) = ?n" by simp
  show ?thesis
    using u32.rd_count_wr_vec [of "take ?n ?all" "wr_vec wr_u32 (drop ?n ?all) @ r"]
      u32.rd_count_wr_vec [of "drop ?n ?all" r]
    by (simp only: wr_Deck_def append_assoc w rd_Deck.simps u32.rd_wr option.case prod.case n s t Let_def)
       (simp add: t)
qed

section \<open>Properties\<close>

text \<open>C3: A deck is accepted exactly when its parts have legal sizes, every card is in a part that
  fits its type and none is a token, every card is in the card pool of the rule, no card (counted by
  its duel code) has more than three copies or more than its limit, and for no credit the total of
  the deck exceeds the limit. The credits of the deck must not overflow 32 bits.\<close>

theorem Deck_check_accepts_iff:
  assumes "distinct (map fst (lf_credit_limits l))"
    and "no_credit_overflow l (map resolve_code (Deck_iter d))"
  shows "Deck_check l rule get_ot get_type resolve_code d = Inr None \<longleftrightarrow>
    deck_length_ok d \<and> deck_cards_ok get_type d \<and>
    (\<forall>c \<in> set (Deck_iter d). Rule_check_ot rule (get_ot c) = None) \<and>
    limits_ok l (map resolve_code (Deck_iter d)) \<and> credits_ok l (map resolve_code (Deck_iter d))"
proof -
  have "lflist_loop l resolve_code (Deck_iter d) [] [] = Inr None \<longleftrightarrow>
    limits_ok l ([] @ map resolve_code (Deck_iter d)) \<and> credits_ok l ([] @ map resolve_code (Deck_iter d))"
    by (rule lflist_loop_ok [OF assms(1)])
       (use assms(2) in \<open>auto simp: limits_ok_def credits_ok_def\<close>)
  then show ?thesis
    by (simp add: Deck_check_def check_deck_length_ok check_illegal_cards_ok check_rule_ok check_deck_lflists_def)
qed

text \<open>C18: Loading a submitted deck panics exactly when the last unknown card of the main deck, or of
  the side deck, has a code of more than 28 bits: the setter of the error's card code is out of
  bounds.\<close>

theorem Deck_load_panics_iff:
  "Deck_load resolve d = Inl p \<longleftrightarrow> p = OutOfBoundsSetter \<and>
     (oversized (last_unknown resolve (dk_main d)) \<or> oversized (last_unknown resolve (dk_side d)))"
  by (cases "last_unknown resolve (dk_main d)"; cases "last_unknown resolve (dk_side d)")
     (auto simp: Deck_load_def remove_unknown_cards_spec deck_error_def DeckError_with_code_def)

text \<open>C17: A deck that loads keeps, in order, the known cards: those of the main deck that belong
  there, those of the side deck, and in the extra deck the extra deck cards found in the main deck
  after the ones already there, up to fifteen. An error is reported exactly when a card was
  unknown.\<close>

theorem Deck_load_spec:
  assumes "Deck_load resolve d = Inr (d', err)"
  defines "known \<equiv> \<lambda>c. \<not> is_unknown (\<lambda>c. map_option cd_type (resolve c)) c"
    and "is_extra \<equiv> \<lambda>c. intersects (type_or_empty resolve c) EXTRA_TYPE"
  shows "dk_main d' = filter (\<lambda>c. known c \<and> \<not> is_extra c) (dk_main d) \<and>
    dk_side d' = filter known (dk_side d) \<and>
    dk_extra d' = dk_extra d @ take (15 - length (dk_extra d)) (filter (\<lambda>c. known c \<and> is_extra c) (dk_main d)) \<and>
    (err = None \<longleftrightarrow> (\<forall>c \<in> set (dk_main d @ dk_side d). known c))"
proof -
  have d': "d' = Deck_separate (type_or_empty resolve)
      (d \<lparr> dk_main := filter known (dk_main d), dk_side := filter known (dk_side d) \<rparr>)"
    and err: "err = None \<longleftrightarrow> last_unknown resolve (dk_main d) = None \<and> last_unknown resolve (dk_side d) = None"
    using assms(1) unfolding Deck_load_def remove_unknown_cards_spec known_def [symmetric]
    by (auto split: option.splits)
  have "last_unknown resolve cs = None \<longleftrightarrow> (\<forall>c \<in> set cs. known c)" for cs
  proof -
    have "last_unknown resolve cs = None \<longleftrightarrow> filter (is_unknown (\<lambda>c. map_option cd_type (resolve c))) cs = []"
      by (simp add: last_unknown_def split: list.split)
    then show ?thesis by (simp add: filter_empty_conv known_def)
  qed
  then have r: "err = None \<longleftrightarrow> (\<forall>c \<in> set (dk_main d @ dk_side d). known c)"
    by (auto simp: err)
  obtain m e where me: "separate_main_and_extra (type_or_empty resolve) (filter known (dk_main d)) (dk_extra d) = (m, e)"
    by fastforce
  show ?thesis using separate_spec [OF me] r
    by (simp add: d' Deck_separate_def me EXTRA_MAX_def is_extra_def conj_commute)
qed


text \<open>After side decking the new deck is accepted exactly when its three parts, once its extra
  deck cards are separated, have the sizes of the old ones and both decks hold the same cards.\<close>

theorem check_after_replacing_side_iff:
  "snd (check_after_replacing_side resolve old deck) = None \<longleftrightarrow>
     (let new = Deck_separate (type_or_empty resolve) deck in
      length (dk_main new) = length (dk_main old) \<and> length (dk_side new) = length (dk_side old) \<and>
      length (dk_extra new) = length (dk_extra old) \<and> mset (Deck_iter new) = mset (Deck_iter old))"
  by (auto simp: check_after_replacing_side_def Let_def Deck_eq_def get_hash_eq_iff)

text \<open>C20: A deck read back from its wire form has as its main deck the first cards of the main deck,
  the side deck and the extra deck in that order, as many as its main and extra deck have, and the
  cards after them as its side deck: a deck without an extra deck round trips, one with an extra
  deck and a side deck does not.\<close>

theorem Deck_wire_read:
  assumes "length (dk_main d) + length (dk_extra d) < 2 ^ 32" and "length (dk_side d) < 2 ^ 32"
  shows "rd_Deck (wr_Deck d @ r) = Some
    (let n = length (dk_main d) + length (dk_extra d); all = dk_main d @ dk_side d @ dk_extra d in
     \<lparr> dk_main = take n all, dk_side = drop n all, dk_extra = [] \<rparr>, r)"
  using assms by (rule rd_wr_Deck)

section \<open>Witnesses\<close>

definition sample_list :: LFList where
  "sample_list = push_credit 7 (lit ''g'') 3 (push_card 5 1 (push_credit_limit (lit ''g'') 9 (LFList_new [])))"

definition sample_deck :: Deck where
  "sample_deck = \<lparr> dk_main = map of_nat [1..<41], dk_side = [1, 7], dk_extra = [] \<rparr>"

lemma sample_limits:
  "lf_credit_limits sample_list = [(lit ''g'', 9)]" "lf_content sample_list = [(5, 1)]"
  "lf_credits sample_list = [(7, [(lit ''g'', 3)])]"
  by (simp_all add: sample_list_def push_credit_def push_card_def push_credit_limit_def LFList_new_def)

lemma sample_hyps:
  "distinct (map fst (lf_credit_limits sample_list))"
  "no_credit_overflow sample_list (map id (Deck_iter sample_deck))"
  by (simp_all add: sample_limits no_credit_overflow_def credit_def sample_deck_def Deck_iter_def
      upt_conv_Cons)

theorem Deck_check_accepts_iff_witness:
  "Deck_check sample_list Rule_OCG (\<lambda>c. 3) (\<lambda>c. 1) id sample_deck = Inr None"
  unfolding Deck_check_accepts_iff [OF sample_hyps] by code_simp

theorem Deck_load_spec_witness:
  "\<exists>d' err. Deck_load (\<lambda>c. None) (Deck_new \<lparr> dk_main := [7], dk_side := [8] \<rparr>) = Inr (d', err)
     \<and> dk_main d' = [] \<and> dk_side d' = [] \<and> err \<noteq> None"
proof -
  obtain d' err where r: "Deck_load (\<lambda>c. None) (Deck_new \<lparr> dk_main := [7], dk_side := [8] \<rparr>) = Inr (d', err)"
    by (simp add: Deck_load_def remove_unknown_cards_def is_unknown_def deck_error_def DeckError_with_code_def)
  from Deck_load_spec [OF r] r show ?thesis by (auto simp: is_unknown_def)
qed

theorem Deck_wire_read_witness:
  "rd_Deck (wr_Deck \<lparr> dk_main = [1], dk_side = [2], dk_extra = [3] \<rparr>) =
     Some (\<lparr> dk_main = [1, 2], dk_side = [3], dk_extra = [] \<rparr>, [])"
  using Deck_wire_read [of "\<lparr> dk_main = [1], dk_side = [2], dk_extra = [3] \<rparr>" "[]"] by simp

end
