(* ===== verification/DataManager.thy ===== *)
theory DataManager
  imports Card
begin

text \<open>
  The card database of the server (data manager in managers.rs): merging the cards of the database
  files, separating alternative art from cards that are treated as another card, and the set codes
  that do not fit a row.
\<close>

definition CARD_ARTWORK_VERSIONS_OFFSET :: u32 where
  "CARD_ARTWORK_VERSIONS_OFFSET = 20"

definition is_alternative :: "u32 \<Rightarrow> u32 \<Rightarrow> bool" where
  "is_alternative c a \<longleftrightarrow>
     a \<noteq> 0 \<and> a < c + CARD_ARTWORK_VERSIONS_OFFSET \<and> c < a + CARD_ARTWORK_VERSIONS_OFFSET"

record DataManager =
  dm_cards :: "(u32, Card) hmap"
  dm_extra_setcode :: "(u32, u16 list) hmap"

definition DataManager_new :: DataManager where
  "DataManager_new =
     \<lparr> dm_cards = [],
       dm_extra_setcode = [(8512558, [0x8F, 0x54, 0x59, 0x82, 0x13A]),
                           (55088578, [0x8F, 0x54, 0x59, 0x82, 0x13A])] \<rparr>"

definition is_token :: "'a CoreCard_scheme \<Rightarrow> bool" where
  "is_token c \<longleftrightarrow> contains (cd_type c) (Type_bits Type_Token)"

definition normalise_alias :: "Card \<Rightarrow> Card" where
  "normalise_alias c =
     (if cd_code c = 5405695 then c \<lparr> cd_rule_code := cd_alias c, cd_alias := 0 \<rparr>
      else if cd_alias c \<noteq> 0 \<and> \<not> is_token c \<and> \<not> is_alternative (cd_code c) (cd_alias c)
      then c \<lparr> cd_rule_code := cd_alias c, cd_alias := 0 \<rparr>
      else c)"

definition insert_cards :: "Card list \<Rightarrow> DataManager \<Rightarrow> DataManager" where
  "insert_cards cards dm =
     fold (\<lambda>c d. d \<lparr> dm_cards := hmap_insert (cd_code c) (normalise_alias c) (dm_cards d) \<rparr>) cards dm"

definition is_pending :: "'a CoreCard_scheme \<Rightarrow> bool" where
  "is_pending c \<longleftrightarrow> \<not> (cd_rule_code c \<noteq> 0 \<or> cd_alias c = 0 \<or> is_token c)"

definition pending :: "(u32, Card) hmap \<Rightarrow> (u32 \<times> u32) list" where
  "pending cards = map (\<lambda>(k, c). (k, cd_alias c)) (filter (\<lambda>(k, c). is_pending c) cards)"

definition inherit_rule_code :: "u32 \<times> u32 \<Rightarrow> (u32, Card) hmap \<Rightarrow> (u32, Card) hmap" where
  "inherit_rule_code = (\<lambda>(k, a) cards.
     let rule = (case hmap_get cards a of None \<Rightarrow> 0 | Some c \<Rightarrow> cd_rule_code c) in
     case hmap_get cards k of
       None \<Rightarrow> cards
     | Some c \<Rightarrow> hmap_insert k (c \<lparr> cd_rule_code := rule \<rparr>) cards)"

definition apply_extra_setcode :: "u32 \<times> u16 list \<Rightarrow> (u32, Card) hmap \<Rightarrow> (u32, Card) hmap" where
  "apply_extra_setcode = (\<lambda>(k, list) cards.
     if list = [] \<or> 16 < length list then cards
     else case hmap_get cards k of
       None \<Rightarrow> cards
     | Some c \<Rightarrow> hmap_insert k (c \<lparr> cd_setcode := list @ drop (length list) (cd_setcode c) \<rparr>) cards)"

definition finalize_db :: "DataManager \<Rightarrow> DataManager" where
  "finalize_db dm =
     (let cards = fold inherit_rule_code (pending (dm_cards dm)) (dm_cards dm) in
      dm \<lparr> dm_cards := fold apply_extra_setcode (dm_extra_setcode dm) cards \<rparr>)"

definition get_card :: "DataManager \<Rightarrow> u32 \<Rightarrow> Card option" where
  "get_card dm k = hmap_get (dm_cards dm) k"

section \<open>Lemmas\<close>

definition inherited :: "(u32, Card) hmap \<Rightarrow> Card \<Rightarrow> Card" where
  "inherited cards c =
     (if is_pending c
      then c \<lparr> cd_rule_code := (case hmap_get cards (cd_alias c) of None \<Rightarrow> 0 | Some o' \<Rightarrow> cd_rule_code o') \<rparr>
      else c)"

text \<open>No alternative art refers to a card that is an alternative art itself.\<close>

definition chain_free :: "(u32, Card) hmap \<Rightarrow> bool" where
  "chain_free cards \<longleftrightarrow>
     (\<forall>k a k' a'. (k, a) \<in> set (pending cards) \<longrightarrow> (k', a') \<in> set (pending cards) \<longrightarrow> a \<noteq> k')"

lemma inherit_rule_code_get:
  "hmap_get (inherit_rule_code (k, a) cards) =
     (hmap_get cards)(k := map_option (\<lambda>c. c \<lparr> cd_rule_code :=
        (case hmap_get cards a of None \<Rightarrow> 0 | Some o' \<Rightarrow> cd_rule_code o') \<rparr>) (hmap_get cards k))"
  by (auto simp: inherit_rule_code_def hmap_get_insert fun_eq_iff split: option.split)

lemma fold_inherit:
  assumes "distinct (map fst ps)" and "\<And>k a k' a'. (k, a) \<in> set ps \<Longrightarrow> (k', a') \<in> set ps \<Longrightarrow> a \<noteq> k'"
  shows "hmap_get (fold inherit_rule_code ps cards) k =
    (case map_of ps k of
       None \<Rightarrow> hmap_get cards k
     | Some a \<Rightarrow> map_option (\<lambda>c. c \<lparr> cd_rule_code :=
        (case hmap_get cards a of None \<Rightarrow> 0 | Some o' \<Rightarrow> cd_rule_code o') \<rparr>) (hmap_get cards k))"
  using assms
proof (induction ps arbitrary: cards)
  case (Cons p ps)
  obtain k0 a0 where p: "p = (k0, a0)" by (cases p)
  have fresh: "map_of ps k0 = None"
    using Cons.prems(1) by (simp add: p map_of_eq_None_iff)
  have other: "a \<noteq> k0" if "map_of ps k = Some a" for a
    using Cons.prems(2) [of k a k0 a0] map_of_SomeD [OF that] by (simp add: p)
  have ih: "hmap_get (fold inherit_rule_code ps (inherit_rule_code p cards)) k =
    (case map_of ps k of
       None \<Rightarrow> hmap_get (inherit_rule_code p cards) k
     | Some a \<Rightarrow> map_option (\<lambda>c. c \<lparr> cd_rule_code :=
        (case hmap_get (inherit_rule_code p cards) a of None \<Rightarrow> 0 | Some o' \<Rightarrow> cd_rule_code o') \<rparr>)
        (hmap_get (inherit_rule_code p cards) k))"
    by (rule Cons.IH) (use Cons.prems in \<open>auto\<close>)
  show ?case
  proof (cases "k = k0")
    case True
    with ih fresh show ?thesis by (simp add: p inherit_rule_code_get)
  next
    case False
    with ih other show ?thesis by (auto simp: p inherit_rule_code_get split: option.split)
  qed
qed simp

lemma pending_get:
  assumes "wf_hmap cards"
  shows "map_of (pending cards) k =
    (case hmap_get cards k of None \<Rightarrow> None | Some c \<Rightarrow> if is_pending c then Some (cd_alias c) else None)"
  using assms unfolding wf_hmap_def pending_def
  by (induction cards) (auto split: option.split dest: map_of_SomeD simp: rev_image_eqI)

lemma distinct_pending: "wf_hmap cards \<Longrightarrow> distinct (map fst (pending cards))"
  unfolding wf_hmap_def pending_def by (induction cards) (auto simp: rev_image_eqI)

lemma inherit_spec:
  assumes "wf_hmap cards" and "chain_free cards"
  shows "hmap_get (fold inherit_rule_code (pending cards) cards) k =
    map_option (inherited cards) (hmap_get cards k)"
proof -
  have "a \<noteq> k'" if "(k, a) \<in> set (pending cards)" "(k', a') \<in> set (pending cards)" for k a k' a'
    using assms(2) that unfolding chain_free_def by blast
  then show ?thesis
    by (subst fold_inherit [OF distinct_pending [OF assms(1)]])
       (auto simp: pending_get [OF assms(1)] inherited_def split: option.splits)
qed

lemma apply_extra_setcode_get:
  "hmap_get (apply_extra_setcode e cards) k =
     map_option (\<lambda>c. if k = fst e \<and> snd e \<noteq> [] \<and> length (snd e) \<le> 16
        then c \<lparr> cd_setcode := snd e @ drop (length (snd e)) (cd_setcode c) \<rparr> else c) (hmap_get cards k)"
  by (cases "hmap_get cards k")
     (auto simp: apply_extra_setcode_def hmap_get_insert split: prod.split option.split)

lemma fold_extra_get:
  "\<exists>f. (\<forall>c. \<exists>sc. f c = c \<lparr> cd_setcode := sc \<rparr>) \<and>
     (\<forall>cards. hmap_get (fold apply_extra_setcode es cards) k = map_option f (hmap_get cards k))"
proof (induction es)
  case Nil
  have "\<forall>c::Card. \<exists>sc. c = c \<lparr> cd_setcode := sc \<rparr>" by (metis Card.surjective CoreCard.update_convs(3) CoreCard.surjective)
  then show ?case by (auto intro!: exI [of _ "\<lambda>c. c"] simp: option.map_ident)
next
  case (Cons e es)
  then obtain f where f: "\<forall>c. \<exists>sc. f c = c \<lparr> cd_setcode := sc \<rparr>"
    and g: "\<And>cards. hmap_get (fold apply_extra_setcode es cards) k = map_option f (hmap_get cards k)"
    by auto
  define h where "h c = (if k = fst e \<and> snd e \<noteq> [] \<and> length (snd e) \<le> 16
    then c \<lparr> cd_setcode := snd e @ drop (length (snd e)) (cd_setcode c) \<rparr> else c)" for c :: Card
  have "\<exists>sc. f (h c) = c \<lparr> cd_setcode := sc \<rparr>" for c
    using f [rule_format, of "h c"] by (auto simp: h_def)
  moreover have "hmap_get (fold apply_extra_setcode (e # es) cards) k = map_option (f \<circ> h) (hmap_get cards k)" for cards
    by (simp add: g apply_extra_setcode_get h_def option.map_comp comp_def)
  ultimately show ?case by (intro exI [of _ "f \<circ> h"]) (simp add: comp_def)
qed

lemma finalize_get:
  assumes "wf_hmap (dm_cards dm)" and "chain_free (dm_cards dm)"
  shows "\<exists>f. (\<forall>c. \<exists>sc. f c = c \<lparr> cd_setcode := sc \<rparr>) \<and>
    get_card (finalize_db dm) k = map_option (f \<circ> inherited (dm_cards dm)) (get_card dm k)"
proof -
  obtain f where "\<forall>c. \<exists>sc. f c = c \<lparr> cd_setcode := sc \<rparr>"
    and "\<And>cards. hmap_get (fold apply_extra_setcode (dm_extra_setcode dm) cards) k =
      map_option f (hmap_get cards k)"
    using fold_extra_get by blast
  then show ?thesis using inherit_spec [OF assms, of k]
    by (intro exI [of _ f]) (simp add: finalize_db_def Let_def get_card_def option.map_comp)
qed

section \<open>Properties\<close>

text \<open>After the database is finalised, an alternative art of a card has the same duel code as
  the card it is an art of, whatever set codes were added: in a deck the two count as one card.
  The databases must not contain an alternative art of an alternative art.\<close>

theorem finalize_alternative_duel_code:
  assumes "wf_hmap (dm_cards dm)" and "chain_free (dm_cards dm)"
    and "get_card dm k = Some c" and "is_pending c"
    and "get_card dm (cd_alias c) = Some orig" and "cd_alias orig = 0" and "cd_code orig = cd_alias c"
  shows "map_option duel_code (get_card (finalize_db dm) k) =
         map_option duel_code (get_card (finalize_db dm) (cd_alias c))"
proof -
  obtain f where f: "\<And>c. \<exists>sc. f c = c \<lparr> cd_setcode := sc \<rparr>"
    and k: "get_card (finalize_db dm) k = Some (f (inherited (dm_cards dm) c))"
    using finalize_get [OF assms(1,2), of k] assms(3) by auto
  obtain g where g: "\<And>c. \<exists>sc. g c = c \<lparr> cd_setcode := sc \<rparr>"
    and a: "get_card (finalize_db dm) (cd_alias c) = Some (g (inherited (dm_cards dm) orig))"
    using finalize_get [OF assms(1,2), of "cd_alias c"] assms(5) by auto
  have same: "duel_code (x \<lparr> cd_setcode := sc \<rparr>) = duel_code x" for x :: Card and sc
    by (simp add: duel_code_def original_code_def)
  have "duel_code (f x) = duel_code x" "duel_code (g x) = duel_code x" for x
    using f [of x] g [of x] same by metis+
  moreover have "duel_code (inherited (dm_cards dm) c) = duel_code (inherited (dm_cards dm) orig)"
    using assms(4-7) by (simp add: inherited_def is_pending_def get_card_def duel_code_def original_code_def)
  ultimately show ?thesis by (simp add: k a)
qed

text \<open>C21: The order in which the hash map of the cards is iterated does not change what the
  finalised database returns for any code, when no alternative art refers to another one.\<close>

theorem finalize_order_independent:
  assumes "wf_hmap (dm_cards dm)" and "chain_free (dm_cards dm)"
    and "mset (dm_cards dm') = mset (dm_cards dm)" and "dm_extra_setcode dm' = dm_extra_setcode dm"
  shows "get_card (finalize_db dm') k = get_card (finalize_db dm) k"
proof -
  have wf: "wf_hmap (dm_cards dm')" and eq: "hmap_get (dm_cards dm') = hmap_get (dm_cards dm)"
    using hmap_reorder [OF assms(1) assms(3) [symmetric]] by auto
  have "set (pending (dm_cards dm')) = set (pending (dm_cards dm))"
    using mset_eq_setD [OF assms(3)] by (auto simp: pending_def)
  then have cf: "chain_free (dm_cards dm')" using assms(2) by (simp add: chain_free_def)
  obtain f where "\<And>cards. hmap_get (fold apply_extra_setcode (dm_extra_setcode dm) cards) k =
      map_option f (hmap_get cards k)"
    using fold_extra_get by blast
  moreover have "inherited (dm_cards dm') c = inherited (dm_cards dm) c" for c
    by (simp add: inherited_def eq)
  ultimately show ?thesis
    using inherit_spec [OF assms(1,2), of k] inherit_spec [OF wf cf, of k]
    by (simp add: finalize_db_def Let_def get_card_def assms(4) eq option.map_comp comp_def)
qed

section \<open>Witnesses\<close>

definition sample_card :: "u32 \<Rightarrow> u32 \<Rightarrow> u32 \<Rightarrow> Card" where
  "sample_card k a rule =
     \<lparr> cd_code = k, cd_alias = a, cd_setcode = replicate 16 0, cd_type = 1, cd_level = 4,
       cd_attribute = 1, cd_race = 1, cd_attack = 0, cd_defense = 0, cd_left_scale = 0,
       cd_right_scale = 0, cd_link_marker = 0, cd_rule_code = rule, cd_ot = 3, cd_category = 0,
       cd_name = [], cd_text = [], cd_desc = [] \<rparr>"

definition sample_db :: DataManager where
  "sample_db = insert_cards [sample_card 100 0 0, sample_card 101 100 0, sample_card 500 100 0] DataManager_new"

lemma sample_db_cards:
  "dm_cards sample_db = [(100, sample_card 100 0 0), (101, sample_card 101 100 0), (500, sample_card 500 0 100)]"
  by (simp add: sample_db_def insert_cards_def DataManager_new_def sample_card_def normalise_alias_def
      is_token_def contains_def is_alternative_def CARD_ARTWORK_VERSIONS_OFFSET_def)

lemma sample_db_ok: "wf_hmap (dm_cards sample_db)" "chain_free (dm_cards sample_db)"
  by (auto simp: sample_db_cards wf_hmap_def chain_free_def pending_def is_pending_def sample_card_def
      is_token_def contains_def)

theorem finalize_alternative_duel_code_witness:
  "map_option duel_code (get_card (finalize_db sample_db) 101) =
   map_option duel_code (get_card (finalize_db sample_db) 100)"
  using finalize_alternative_duel_code [OF sample_db_ok, of 101 "sample_card 101 100 0" "sample_card 100 0 0"]
  by (simp add: get_card_def sample_db_cards is_pending_def sample_card_def is_token_def contains_def)

theorem finalize_order_independent_witness:
  "get_card (finalize_db (sample_db \<lparr> dm_cards := rev (dm_cards sample_db) \<rparr>)) 101 =
   get_card (finalize_db sample_db) 101"
  by (rule finalize_order_independent [OF sample_db_ok]) simp_all

end
