(* ===== verification/CardQuery.thy ===== *)
theory CardQuery
  imports Constants
begin

text \<open>
  The card structures inside game messages (query.rs and the card code of game\_message.rs): card
  codes, positions of a card on the field, and the answers to a query of the core, with the wire
  format of each and the trait that masks what a player must not see.

  A card code packs the code in its low 28 bits and the public flag in bit 31; three bits are
  skipped and keep what was read. The const parameters of a card position are arguments of its
  reader and writer; a field that is not on the wire is read as zero.
\<close>

section \<open>The contract of a maskable value\<close>

text \<open>Masking is a projection: a value that has been masked has nothing left to mask.\<close>

locale maskable =
  fixes mask :: "'a \<Rightarrow> 'a"
  assumes mask_mask: "mask (mask x) = mask x"
begin

lemma mask_list: "map mask (map mask xs) = map mask xs"
  by (simp add: mask_mask)

lemma masked_iff: "x \<in> range mask \<longleftrightarrow> mask x = x"
  by (metis mask_mask rangeE rangeI)

end

section \<open>Card codes\<close>

type_synonym CardCode = u32

definition CardCode_new :: CardCode where
  "CardCode_new = 0"

definition CardCode_id :: "CardCode \<Rightarrow> u32" where
  "CardCode_id c = take_bit 28 c"

definition CardCode_is_public :: "CardCode \<Rightarrow> bool" where
  "CardCode_is_public c \<longleftrightarrow> bit c 31"

definition CardCode_set_id :: "u32 \<Rightarrow> CardCode \<Rightarrow> CardCode res" where
  "CardCode_set_id v c = (if v < 2 ^ 28 then Inr (push_bit 28 (drop_bit 28 c) OR v) else Inl OutOfBoundsSetter)"

definition CardCode_mask :: "CardCode \<Rightarrow> CardCode" where
  "CardCode_mask c = (if CardCode_is_public c then c else push_bit 28 (drop_bit 28 c))"

definition CardCode_should_mask :: "CardCode \<Rightarrow> CorePlayer \<Rightarrow> bool" where
  "CardCode_should_mask c player \<longleftrightarrow> \<not> CardCode_is_public c"

lemma CardCode_mask_set_id: "\<not> CardCode_is_public c \<Longrightarrow> CardCode_set_id 0 c = Inr (CardCode_mask c)"
  by (simp add: CardCode_set_id_def CardCode_mask_def)

lemma CardCode_public_mask [simp]: "CardCode_is_public (CardCode_mask c) = CardCode_is_public c"
  by (simp add: CardCode_is_public_def CardCode_mask_def bit_simps)

lemma CardCode_id_mask [simp]:
  "CardCode_id (CardCode_mask c) = (if CardCode_is_public c then CardCode_id c else 0)"
proof -
  have "take_bit 28 (push_bit 28 (drop_bit 28 c)) = 0" by (rule bit_word_eqI) (auto simp: bit_simps)
  then show ?thesis by (simp add: CardCode_mask_def CardCode_id_def)
qed

interpretation CardCode: maskable CardCode_mask
proof
  fix c :: CardCode
  have "push_bit 28 (drop_bit 28 (push_bit 28 (drop_bit 28 c))) = push_bit 28 (drop_bit 28 c)"
    by (rule bit_word_eqI) (auto simp: bit_simps)
  then show "CardCode_mask (CardCode_mask c) = CardCode_mask c"
    by (simp add: CardCode_mask_def CardCode_is_public_def bit_simps)
qed

section \<open>Positions\<close>

record CardPosition =
  cp_code :: CardCode
  cp_controller :: CorePlayer
  cp_location :: u8
  cp_sequence :: i8
  cp_sub_sequence :: i8
  cp_description :: i32

definition CardPosition_mask :: "CardPosition \<Rightarrow> CardPosition" where
  "CardPosition_mask p = p \<lparr> cp_code := CardCode_mask (cp_code p) \<rparr>"

definition CardPosition_should_mask :: "CardPosition \<Rightarrow> CorePlayer \<Rightarrow> bool" where
  "CardPosition_should_mask p player \<longleftrightarrow> cp_controller p \<noteq> player"

abbreviation wr_CorePlayer :: "CorePlayer writer" where
  "wr_CorePlayer \<equiv> wr_enum wr_u8 CorePlayer_repr"

abbreviation rd_CorePlayer :: "CorePlayer reader" where
  "rd_CorePlayer \<equiv> rd_enum rd_u8 CorePlayer_repr CorePlayer_all"

definition wr_CardPosition :: "bool \<Rightarrow> bool \<Rightarrow> bool \<Rightarrow> CardPosition writer" where
  "wr_CardPosition code sub desc p =
     (if code then wr_u32 (cp_code p) else []) @ wr_CorePlayer (cp_controller p) @ wr_u8 (cp_location p) @
     wr_u8 (cp_sequence p) @ (if sub then wr_u8 (cp_sub_sequence p) else []) @
     (if desc then wr_u32 (cp_description p) else [])"

definition e_if :: "bool \<Rightarrow> 'a ereader \<Rightarrow> 'a \<Rightarrow> 'a ereader" where
  "e_if b rd x = (if b then rd else e_return x)"

definition e_CardPosition :: "bool \<Rightarrow> bool \<Rightarrow> bool \<Rightarrow> CardPosition ereader" where
  "e_CardPosition code sub desc =
     e_bind (e_if code (e_fixed 4 rd_u32) 0) (\<lambda>c.
     e_bind (e_fixed 1 rd_CorePlayer) (\<lambda>controller.
     e_bind (e_fixed 1 rd_u8) (\<lambda>location.
     e_bind (e_fixed 1 rd_u8) (\<lambda>sequence.
     e_bind (e_if sub (e_fixed 1 rd_u8) 0) (\<lambda>sub_sequence.
     e_bind (e_if desc (e_fixed 4 rd_u32) 0) (\<lambda>description.
     e_return \<lparr> cp_code = c, cp_controller = controller, cp_location = location, cp_sequence = sequence,
       cp_sub_sequence = sub_sequence, cp_description = description \<rparr>))))))"

definition rd_CardPosition :: "bool \<Rightarrow> bool \<Rightarrow> bool \<Rightarrow> CardPosition reader" where
  "rd_CardPosition code sub desc = opt_rd (e_CardPosition code sub desc)"

record InfoLocation =
  il_controller :: CorePlayer
  il_location :: u8
  il_sequence :: u8
  il_position :: u8
  il_overlay_sequence :: u8

definition is_overlay :: "u8 \<Rightarrow> bool" where
  "is_overlay location \<longleftrightarrow> contains location (Location_bits Location_Overlay)"

definition InfoLocation_should_mask :: "InfoLocation \<Rightarrow> bool" where
  "InfoLocation_should_mask p =
     (if intersects (il_position p) (Position_bits Position_Reveal) then False
      else if contains (il_location p) (Location_bits Location_Hand)
      then \<not> intersects (il_position p) (Position_bits Position_Faceup)
      else intersects (il_position p) (Position_bits Position_Facedown))"

definition wr_InfoLocation :: "InfoLocation writer" where
  "wr_InfoLocation p =
     wr_CorePlayer (il_controller p) @ wr_u8 (il_location p) @ wr_u8 (il_sequence p) @
     (if is_overlay (il_location p) then [] else wr_u8 (il_position p)) @
     (if is_overlay (il_location p) then wr_u8 (il_overlay_sequence p) else [])"

definition e_InfoLocation :: "InfoLocation ereader" where
  "e_InfoLocation =
     e_bind (e_fixed 1 rd_CorePlayer) (\<lambda>controller.
     e_bind (e_fixed 1 rd_u8) (\<lambda>location.
     e_bind (e_fixed 1 rd_u8) (\<lambda>sequence.
     e_bind (e_if (\<not> is_overlay location) (e_fixed 1 rd_u8) (Position_bits Position_Any)) (\<lambda>position.
     e_bind (e_if (is_overlay location) (e_fixed 1 rd_u8) 0) (\<lambda>overlay_sequence.
     e_return \<lparr> il_controller = controller, il_location = location, il_sequence = sequence,
       il_position = position, il_overlay_sequence = overlay_sequence \<rparr>)))))"

definition rd_InfoLocation :: "InfoLocation reader" where
  "rd_InfoLocation = opt_rd e_InfoLocation"

subsection \<open>They are codecs\<close>

definition valid_CardPosition :: "bool \<Rightarrow> bool \<Rightarrow> bool \<Rightarrow> CardPosition \<Rightarrow> bool" where
  "valid_CardPosition code sub desc p \<longleftrightarrow>
     (code \<or> cp_code p = 0) \<and> (sub \<or> cp_sub_sequence p = 0) \<and> (desc \<or> cp_description p = 0)"

definition valid_InfoLocation :: "InfoLocation \<Rightarrow> bool" where
  "valid_InfoLocation p \<longleftrightarrow>
     (if is_overlay (il_location p) then il_position p = Position_bits Position_Any else il_overlay_sequence p = 0)"

lemma e_bind_return [simp]: "e_bind (e_return x) f bs = f x bs"
  by (simp add: e_bind_def)

lemmas e_wire = u8.e_bind_wr u16.e_bind_wr u32.e_bind_wr CorePlayer.enum.e_bind_wr

lemma e_wr_CardPosition:
  "valid_CardPosition code sub desc p \<Longrightarrow>
   e_CardPosition code sub desc (wr_CardPosition code sub desc p @ r) = Inr (p, r)"
  by (cases code; cases sub; cases desc)
     (simp_all add: e_CardPosition_def wr_CardPosition_def valid_CardPosition_def e_if_def e_wire del: One_nat_def)

lemma e_wr_InfoLocation: "valid_InfoLocation p \<Longrightarrow> e_InfoLocation (wr_InfoLocation p @ r) = Inr (p, r)"
  by (simp add: e_InfoLocation_def wr_InfoLocation_def valid_InfoLocation_def e_if_def e_wire del: One_nat_def split: if_splits)

interpretation CardPosition: codec "wr_CardPosition code sub desc" "rd_CardPosition code sub desc"
    "valid_CardPosition code sub desc" for code sub desc
  by unfold_locales (simp add: rd_CardPosition_def opt_rd_def e_wr_CardPosition)

interpretation InfoLocation: codec wr_InfoLocation rd_InfoLocation valid_InfoLocation
  by unfold_locales (simp add: rd_InfoLocation_def opt_rd_def e_wr_InfoLocation)

interpretation CardPosition: maskable CardPosition_mask
  by unfold_locales (simp add: CardPosition_mask_def CardCode.mask_mask)

section \<open>Answers to a query\<close>

datatype QueryData =
    QD_Clear
  | QD_Code i32
  | QD_Position InfoLocation
  | QD_Alias i32
  | QD_Type u32
  | QD_Level i32
  | QD_Rank i32
  | QD_Attribute u32
  | QD_Race u32
  | QD_Attack i32
  | QD_Defense i32
  | QD_BaseAttack i32
  | QD_BaseDefense i32
  | QD_Reason u32
  | QD_ReasonCard i32
  | QD_EquipCard CardPosition
  | QD_TargetCard "CardPosition list"
  | QD_OverlayCard "u32 list"
  | QD_Counters "(u16 \<times> u16) list"
  | QD_Owner CorePlayer
  | QD_Status u32
  | QD_LeftScale i32
  | QD_RightScale i32
  | QD_Link i32 u32

fun QueryData_query :: "QueryData \<Rightarrow> u32" where
    "QueryData_query QD_Clear = 0"
  | "QueryData_query (QD_Code _) = Query_bits Query_Code"
  | "QueryData_query (QD_Position _) = Query_bits Query_Position"
  | "QueryData_query (QD_Alias _) = Query_bits Query_Alias"
  | "QueryData_query (QD_Type _) = Query_bits Query_Type"
  | "QueryData_query (QD_Level _) = Query_bits Query_Level"
  | "QueryData_query (QD_Rank _) = Query_bits Query_Rank"
  | "QueryData_query (QD_Attribute _) = Query_bits Query_Attribute"
  | "QueryData_query (QD_Race _) = Query_bits Query_Race"
  | "QueryData_query (QD_Attack _) = Query_bits Query_Attack"
  | "QueryData_query (QD_Defense _) = Query_bits Query_Defense"
  | "QueryData_query (QD_BaseAttack _) = Query_bits Query_BaseAttack"
  | "QueryData_query (QD_BaseDefense _) = Query_bits Query_BaseDefense"
  | "QueryData_query (QD_Reason _) = Query_bits Query_Reason"
  | "QueryData_query (QD_ReasonCard _) = Query_bits Query_ReasonCard"
  | "QueryData_query (QD_EquipCard _) = Query_bits Query_EquipCard"
  | "QueryData_query (QD_TargetCard _) = Query_bits Query_TargetCard"
  | "QueryData_query (QD_OverlayCard _) = Query_bits Query_OverlayCard"
  | "QueryData_query (QD_Counters _) = Query_bits Query_Counters"
  | "QueryData_query (QD_Owner _) = Query_bits Query_Owner"
  | "QueryData_query (QD_Status _) = Query_bits Query_Status"
  | "QueryData_query (QD_LeftScale _) = Query_bits Query_LeftScale"
  | "QueryData_query (QD_RightScale _) = Query_bits Query_RightScale"
  | "QueryData_query (QD_Link _ _) = Query_bits Query_Link"

text \<open>The reader of the query data reads, for every flag in the order of the code, the data of that
  flag if the query has it.\<close>

definition e_map :: "('a \<Rightarrow> 'b) \<Rightarrow> 'a ereader \<Rightarrow> 'b ereader" where
  "e_map f rd = e_bind rd (\<lambda>x. e_return (f x))"

abbreviation e_u32 :: "u32 ereader" where
  "e_u32 \<equiv> e_fixed 4 rd_u32"

definition e_vec32 :: "'a ereader \<Rightarrow> 'a list ereader" where
  "e_vec32 rd = e_bind e_u32 (\<lambda>n. e_count rd (unat n))"

definition e_pair_u16 :: "(u16 \<times> u16) ereader" where
  "e_pair_u16 = e_bind (e_fixed 2 rd_u16) (\<lambda>a. e_bind (e_fixed 2 rd_u16) (\<lambda>b. e_return (a, b)))"

fun e_query_data :: "Query \<Rightarrow> QueryData ereader" where
    "e_query_data Query_Code = e_map QD_Code e_u32"
  | "e_query_data Query_Position = e_map QD_Position e_InfoLocation"
  | "e_query_data Query_Alias = e_map QD_Alias e_u32"
  | "e_query_data Query_Type = e_map QD_Type e_u32"
  | "e_query_data Query_Level = e_map QD_Level e_u32"
  | "e_query_data Query_Rank = e_map QD_Rank e_u32"
  | "e_query_data Query_Attribute = e_map QD_Attribute e_u32"
  | "e_query_data Query_Race = e_map QD_Race e_u32"
  | "e_query_data Query_Attack = e_map QD_Attack e_u32"
  | "e_query_data Query_Defense = e_map QD_Defense e_u32"
  | "e_query_data Query_BaseAttack = e_map QD_BaseAttack e_u32"
  | "e_query_data Query_BaseDefense = e_map QD_BaseDefense e_u32"
  | "e_query_data Query_Reason = e_map QD_Reason e_u32"
  | "e_query_data Query_ReasonCard = e_map QD_ReasonCard e_u32"
  | "e_query_data Query_EquipCard = e_map QD_EquipCard (e_CardPosition False True False)"
  | "e_query_data Query_TargetCard = e_map QD_TargetCard (e_vec32 (e_CardPosition False True False))"
  | "e_query_data Query_OverlayCard = e_map QD_OverlayCard (e_vec32 e_u32)"
  | "e_query_data Query_Counters = e_map QD_Counters (e_vec32 e_pair_u16)"
  | "e_query_data Query_Owner =
       e_bind (e_fixed 1 rd_CorePlayer) (\<lambda>p. e_bind (e_count (e_fixed 1 rd_u8) 3) (\<lambda>_. e_return (QD_Owner p)))"
  | "e_query_data Query_Status = e_map QD_Status e_u32"
  | "e_query_data Query_LeftScale = e_map QD_LeftScale e_u32"
  | "e_query_data Query_RightScale = e_map QD_RightScale e_u32"
  | "e_query_data Query_Link = e_bind e_u32 (\<lambda>l. e_map (QD_Link l) e_u32)"

definition query_order :: "Query list" where
  "query_order =
     [Query_Code, Query_Position, Query_Alias, Query_Type, Query_Level, Query_Rank, Query_Attribute,
      Query_Race, Query_Attack, Query_Defense, Query_BaseAttack, Query_BaseDefense, Query_Reason,
      Query_ReasonCard, Query_EquipCard, Query_TargetCard, Query_OverlayCard, Query_Counters,
      Query_Owner, Query_Status, Query_LeftScale, Query_RightScale, Query_Link]"

primrec e_queries :: "u32 \<Rightarrow> Query list \<Rightarrow> QueryData list ereader" where
    "e_queries q [] = e_return []"
  | "e_queries q (k # ks) =
       (if contains q (Query_bits k)
        then e_bind (e_query_data k) (\<lambda>d. e_bind (e_queries q ks) (\<lambda>ds. e_return (d # ds)))
        else e_queries q ks)"

definition e_QueryDatas :: "QueryData list ereader" where
  "e_QueryDatas =
     e_bind e_u32 (\<lambda>q. e_bind (e_queries q query_order) (\<lambda>ds.
       e_return ((if q = 0 then [QD_Clear] else []) @ ds)))"

datatype UpdateCardInfo = UC_Empty | UC_Data "QueryData list"

text \<open>The length counts its own four bytes, and the reader continues where it says, wherever the
  data ended: a shorter record is padded, a length of zero leads back to its own start.\<close>

definition e_UpdateCardInfo :: "UpdateCardInfo ereader" where
  "e_UpdateCardInfo bs =
     (case e_u32 bs of
        Inl e \<Rightarrow> Inl e
      | Inr (len, r) \<Rightarrow>
          if len = 4 then Inr (UC_Empty, r)
          else case e_QueryDatas r of
                 Inl e \<Rightarrow> Inl e
               | Inr (ds, _) \<Rightarrow> Inr (UC_Data ds, drop (unat len) bs))"

fun wr_query_data :: "QueryData writer" where
    "wr_query_data QD_Clear = []"
  | "wr_query_data (QD_Code v) = wr_u32 v"
  | "wr_query_data (QD_Position p) = wr_InfoLocation p"
  | "wr_query_data (QD_Alias v) = wr_u32 v"
  | "wr_query_data (QD_Type v) = wr_u32 v"
  | "wr_query_data (QD_Level v) = wr_u32 v"
  | "wr_query_data (QD_Rank v) = wr_u32 v"
  | "wr_query_data (QD_Attribute v) = wr_u32 v"
  | "wr_query_data (QD_Race v) = wr_u32 v"
  | "wr_query_data (QD_Attack v) = wr_u32 v"
  | "wr_query_data (QD_Defense v) = wr_u32 v"
  | "wr_query_data (QD_BaseAttack v) = wr_u32 v"
  | "wr_query_data (QD_BaseDefense v) = wr_u32 v"
  | "wr_query_data (QD_Reason v) = wr_u32 v"
  | "wr_query_data (QD_ReasonCard v) = wr_u32 v"
  | "wr_query_data (QD_EquipCard p) = wr_CardPosition False True False p"
  | "wr_query_data (QD_TargetCard ps) = wr_u32 (len32 ps) @ wr_vec (wr_CardPosition False True False) ps"
  | "wr_query_data (QD_OverlayCard vs) = wr_u32 (len32 vs) @ wr_vec wr_u32 vs"
  | "wr_query_data (QD_Counters cs) = wr_u32 (len32 cs) @ wr_vec (wr_pair wr_u16 wr_u16) cs"
  | "wr_query_data (QD_Owner p) = wr_CorePlayer p @ [0, 0, 0]"
  | "wr_query_data (QD_Status v) = wr_u32 v"
  | "wr_query_data (QD_LeftScale v) = wr_u32 v"
  | "wr_query_data (QD_RightScale v) = wr_u32 v"
  | "wr_query_data (QD_Link l m) = wr_u32 l @ wr_u32 m"

definition update_body :: "QueryData list \<Rightarrow> bytes" where
  "update_body ds = wr_u32 (sum_list (map QueryData_query ds)) @ wr_vec wr_query_data ds"

text \<open>The writer reports an error for a record of 4 GiB or more; such a record is outside of
  the model.\<close>

fun wr_UpdateCardInfo :: "UpdateCardInfo writer" where
    "wr_UpdateCardInfo UC_Empty = wr_u32 4"
  | "wr_UpdateCardInfo (UC_Data ds) = wr_u32 (4 + len32 (update_body ds)) @ update_body ds"

section \<open>Masking\<close>

fun position_of :: "QueryData list \<Rightarrow> InfoLocation option" where
    "position_of [] = None"
  | "position_of (QD_Position p # ds) = Some p"
  | "position_of (_ # ds) = position_of ds"

definition is_teammate :: "CorePlayer \<Rightarrow> CorePlayer \<Rightarrow> bool" where
  "is_teammate controller player \<longleftrightarrow>
     (controller = FirstAttackPlayer \<and> player = NoPlayer) \<or>
     (controller = SecondAttackPlayer \<and> player = RulePlayer)"

fun UpdateCardInfo_should_mask :: "UpdateCardInfo \<Rightarrow> CorePlayer \<Rightarrow> bool" where
    "UpdateCardInfo_should_mask UC_Empty player \<longleftrightarrow> False"
  | "UpdateCardInfo_should_mask (UC_Data ds) player \<longleftrightarrow>
       (case position_of ds of
          None \<Rightarrow> False
        | Some p \<Rightarrow> InfoLocation_should_mask p \<and> il_controller p \<noteq> player \<and>
            (\<not> is_teammate (il_controller p) player \<or>
             \<not> intersects (il_location p) (Location_bits Location_OnField OR Location_bits Location_Removed)))"

fun UpdateCardInfo_mask :: "UpdateCardInfo \<Rightarrow> UpdateCardInfo" where
    "UpdateCardInfo_mask UC_Empty = UC_Empty"
  | "UpdateCardInfo_mask (UC_Data ds) =
       (if UpdateCardInfo_should_mask (UC_Data ds) AllPlayers then UC_Data (map (\<lambda>_. QD_Clear) ds)
        else UC_Data ds)"

lemma position_of_Clear [simp]: "position_of (map (\<lambda>_. QD_Clear) ds) = None"
  by (induction ds) auto

interpretation UpdateCardInfo: maskable UpdateCardInfo_mask
proof
  fix u show "UpdateCardInfo_mask (UpdateCardInfo_mask u) = UpdateCardInfo_mask u"
    by (cases u) simp_all
qed

lemma update_body_Clear: "update_body (map (\<lambda>_. QD_Clear) ds) = wr_u32 0"
proof -
  have "wr_vec wr_query_data (map (\<lambda>_. QD_Clear) ds) = []" by (induction ds) auto
  moreover have "sum_list (map QueryData_query (map (\<lambda>_. QD_Clear) ds)) = 0" by (induction ds) auto
  ultimately show ?thesis by (simp add: update_body_def)
qed

lemma should_mask_any_imp_All:
  assumes "UpdateCardInfo_should_mask u player" and "\<forall>ds p. u = UC_Data ds \<and> position_of ds = Some p \<longrightarrow> il_controller p \<noteq> AllPlayers"
  shows "UpdateCardInfo_should_mask u AllPlayers"
  using assms by (cases u) (auto simp: is_teammate_def split: option.splits)

subsection \<open>Reading back what was written\<close>

fun query_kind :: "QueryData \<Rightarrow> Query option" where
    "query_kind QD_Clear = None"
  | "query_kind (QD_Code _) = Some Query_Code"
  | "query_kind (QD_Position _) = Some Query_Position"
  | "query_kind (QD_Alias _) = Some Query_Alias"
  | "query_kind (QD_Type _) = Some Query_Type"
  | "query_kind (QD_Level _) = Some Query_Level"
  | "query_kind (QD_Rank _) = Some Query_Rank"
  | "query_kind (QD_Attribute _) = Some Query_Attribute"
  | "query_kind (QD_Race _) = Some Query_Race"
  | "query_kind (QD_Attack _) = Some Query_Attack"
  | "query_kind (QD_Defense _) = Some Query_Defense"
  | "query_kind (QD_BaseAttack _) = Some Query_BaseAttack"
  | "query_kind (QD_BaseDefense _) = Some Query_BaseDefense"
  | "query_kind (QD_Reason _) = Some Query_Reason"
  | "query_kind (QD_ReasonCard _) = Some Query_ReasonCard"
  | "query_kind (QD_EquipCard _) = Some Query_EquipCard"
  | "query_kind (QD_TargetCard _) = Some Query_TargetCard"
  | "query_kind (QD_OverlayCard _) = Some Query_OverlayCard"
  | "query_kind (QD_Counters _) = Some Query_Counters"
  | "query_kind (QD_Owner _) = Some Query_Owner"
  | "query_kind (QD_Status _) = Some Query_Status"
  | "query_kind (QD_LeftScale _) = Some Query_LeftScale"
  | "query_kind (QD_RightScale _) = Some Query_RightScale"
  | "query_kind (QD_Link _ _) = Some Query_Link"

fun valid_query_data :: "QueryData \<Rightarrow> bool" where
    "valid_query_data (QD_Position p) \<longleftrightarrow> valid_InfoLocation p"
  | "valid_query_data (QD_EquipCard p) \<longleftrightarrow> valid_CardPosition False True False p"
  | "valid_query_data (QD_TargetCard ps) \<longleftrightarrow>
       length ps < 2 ^ 32 \<and> (\<forall>p \<in> set ps. valid_CardPosition False True False p)"
  | "valid_query_data (QD_OverlayCard vs) \<longleftrightarrow> length vs < 2 ^ 32"
  | "valid_query_data (QD_Counters cs) \<longleftrightarrow> length cs < 2 ^ 32"
  | "valid_query_data _ \<longleftrightarrow> True"

text \<open>The records the core and the server write: the data of a set of flags, in the order of the
  flags, or nothing but the mark of a masked card.\<close>

fun valid_UpdateCardInfo :: "UpdateCardInfo \<Rightarrow> bool" where
    "valid_UpdateCardInfo UC_Empty \<longleftrightarrow> True"
  | "valid_UpdateCardInfo (UC_Data ds) \<longleftrightarrow>
       4 + length (update_body ds) < 2 ^ 32 \<and>
       (ds = [QD_Clear] \<or>
        ds \<noteq> [] \<and> (\<forall>d \<in> set ds. valid_query_data d) \<and>
        map query_kind ds = map Some (filter (\<lambda>k. Some k \<in> query_kind ` set ds) query_order))"

lemma QueryData_query_kind:
  "QueryData_query d = (case query_kind d of None \<Rightarrow> 0 | Some k \<Rightarrow> Query_bits k)"
  by (cases d) simp_all

lemma e_pair_u16_wr: "e_pair_u16 (wr_pair wr_u16 wr_u16 x @ r) = Inr (x, r)"
  by (cases x) (simp add: e_pair_u16_def e_wire)

lemma e_vec32_wr:
  assumes "length xs < 2 ^ 32" and "\<And>x r. x \<in> set xs \<Longrightarrow> rd (wr x @ r) = Inr (x, r)"
  shows "e_vec32 rd (wr_u32 (len32 xs) @ wr_vec wr xs @ r) = Inr (xs, r)"
proof -
  have "e_count rd (length xs) (wr_vec wr xs @ r) = Inr (xs, r)"
    by (rule e_count_wr_vec) (rule assms(2))
  then show ?thesis using assms(1) by (simp add: e_vec32_def e_wire unat_len32)
qed

lemma e_map_ok: "rd bs = Inr (x, r) \<Longrightarrow> e_map f rd bs = Inr (f x, r)"
  by (simp add: e_map_def e_bind_def)

lemma e_padding: "e_count (e_fixed 1 rd_u8) 3 (a # b # c # r) = Inr ([a, b, c], r)"
  by (simp add: numeral_3_eq_3 e_bind_def e_fixed_def)

lemma e_query_data_wr:
  assumes "query_kind d = Some k" and "valid_query_data d"
  shows "e_query_data k (wr_query_data d @ r) = Inr (d, r)"
  using assms
proof (cases d)
  case (QD_Owner p)
  with assms show ?thesis
    by (simp add: CorePlayer.enum.e_bind_wr del: One_nat_def) (simp add: e_bind_def e_padding del: One_nat_def)
next
  case (QD_TargetCard ps)
  with assms show ?thesis by (auto intro!: e_map_ok e_vec32_wr e_wr_CardPosition)
next
  case (QD_OverlayCard vs)
  with assms show ?thesis by (auto intro!: e_map_ok e_vec32_wr u32.e_fixed_wr)
next
  case (QD_Counters cs)
  with assms show ?thesis by (auto intro!: e_map_ok e_vec32_wr e_pair_u16_wr)
next
  case (QD_Link l m)
  with assms show ?thesis by (auto simp: u32.e_bind_wr intro!: e_map_ok u32.e_fixed_wr)
qed (auto intro!: e_map_ok u32.e_fixed_wr e_wr_CardPosition e_wr_InfoLocation)

lemma e_queries_wr:
  assumes "map query_kind ds = map Some (filter (\<lambda>k. contains q (Query_bits k)) ks)"
    and "\<forall>d \<in> set ds. valid_query_data d"
  shows "e_queries q ks (wr_vec wr_query_data ds @ r) = Inr (ds, r)"
  using assms
proof (induction ks arbitrary: ds)
  case (Cons k ks)
  show ?case
  proof (cases "contains q (Query_bits k)")
    case True
    then obtain d ds' where ds: "ds = d # ds'" and "query_kind d = Some k" using Cons.prems(1)
      by (cases ds) auto
    moreover have "e_queries q ks (wr_vec wr_query_data ds' @ r) = Inr (ds', r)"
      using Cons True ds by simp
    ultimately show ?thesis using True Cons.prems(2) by (simp add: e_bind_def e_query_data_wr)
  qed (use Cons in simp)
qed simp

definition query_index :: "Query \<Rightarrow> nat" where
  "query_index k = (case map_of (zip query_order ([0..<20] @ [21, 22, 23])) k of Some i \<Rightarrow> i | None \<Rightarrow> 0)"

lemma Query_bits_index: "Query_bits k = push_bit (query_index k) 1 \<and> query_index k < 32"
  by (cases k) (simp_all add: query_index_def query_order_def upt_rec push_bit_eq_mult)

lemma inj_query_index: "query_index k = query_index l \<longleftrightarrow> k = l"
  by (cases k; cases l) (simp_all add: query_index_def query_order_def upt_rec)

lemma bit_Query_bits: "bit (Query_bits k) n \<longleftrightarrow> n = query_index k"
  using Query_bits_index [of k] by (auto simp: bit_simps bit_1_iff)

lemma bit_sum_queries:
  "distinct ks \<Longrightarrow> bit (sum_list (map Query_bits ks)) n \<longleftrightarrow> n \<in> query_index ` set ks"
proof (induction ks arbitrary: n)
  case (Cons k ks)
  have "Query_bits k AND sum_list (map Query_bits ks) = 0"
    using Cons by (intro bit_word_eqI) (auto simp: bit_simps bit_Query_bits inj_query_index)
  then have "sum_list (map Query_bits (k # ks)) = Query_bits k OR sum_list (map Query_bits ks)"
    by (simp add: disjunctive_add_eq_or)
  then show ?case using Cons by (auto simp: bit_simps bit_Query_bits)
qed simp

lemma contains_sum_queries:
  "distinct ks \<Longrightarrow> contains (sum_list (map Query_bits ks)) (Query_bits k) \<longleftrightarrow> k \<in> set ks"
  by (auto simp: contains_iff bit_sum_queries bit_Query_bits inj_query_index)

lemma distinct_query_order: "distinct query_order"
  by (simp add: query_order_def)

lemma e_QueryDatas_body:
  assumes "valid_UpdateCardInfo (UC_Data ds)"
  shows "e_QueryDatas (update_body ds @ r) = Inr (ds, r)"
proof (cases "ds = [QD_Clear]")
  case True
  have "e_queries 0 query_order bs = Inr ([], bs)" for bs
    by (simp add: query_order_def contains_def)
  then show ?thesis using True
    by (simp add: e_QueryDatas_def update_body_def u32.e_bind_wr) (simp add: e_bind_def)
next
  case False
  define ks where "ks = filter (\<lambda>k. Some k \<in> query_kind ` set ds) query_order"
  let ?q = "sum_list (map QueryData_query ds)"
  from assms False have ds: "ds \<noteq> []" and v: "\<forall>d \<in> set ds. valid_query_data d"
    and kinds: "map query_kind ds = map Some ks" by (auto simp: ks_def)
  have "distinct ks" by (simp add: ks_def distinct_query_order)
  have "map QueryData_query ds = map (\<lambda>o'. case o' of None \<Rightarrow> 0 | Some k \<Rightarrow> Query_bits k) (map query_kind ds)"
    by (simp add: QueryData_query_kind)
  then have q: "?q = sum_list (map Query_bits ks)" by (simp add: kinds comp_def)
  have "filter (\<lambda>k. contains ?q (Query_bits k)) query_order = ks"
    by (simp add: q contains_sum_queries [OF \<open>distinct ks\<close>]) (simp add: ks_def cong: filter_cong)
  then have rd: "e_queries ?q query_order (wr_vec wr_query_data ds @ r) = Inr (ds, r)"
    by (intro e_queries_wr) (simp_all add: kinds v)
  from ds kinds obtain k where "k \<in> set ks" by (cases ks) auto
  then have "bit ?q (query_index k)" by (simp add: q bit_sum_queries [OF \<open>distinct ks\<close>])
  then have "?q \<noteq> 0" by force
  with rd show ?thesis
    by (simp add: e_QueryDatas_def update_body_def u32.e_bind_wr) (simp add: e_bind_def)
qed

lemma e_UpdateCardInfo_wr:
  assumes "valid_UpdateCardInfo u"
  shows "e_UpdateCardInfo (wr_UpdateCardInfo u @ r) = Inr (u, r)"
proof (cases u)
  case UC_Empty
  then show ?thesis by (simp add: e_UpdateCardInfo_def u32.e_fixed_wr)
next
  case (UC_Data ds)
  let ?b = "update_body ds"
  let ?len = "4 + len32 ?b :: u32"
  have "4 + length ?b < 2 ^ LENGTH(32)" using assms UC_Data by simp
  then have "unat (of_nat (4 + length ?b) :: u32) = 4 + length ?b" by (rule of_nat_word_id)
  moreover have "?len = of_nat (4 + length ?b)" by (simp add: len32_def)
  ultimately have len: "unat ?len = 4 + length ?b" by (simp only:)
  have "4 \<le> length ?b" by (simp add: update_body_def)
  have "?len \<noteq> 4"
  proof
    assume "?len = 4"
    then have "unat ?len = 4" by (simp only:) simp
    with len \<open>4 \<le> length ?b\<close> show False by simp
  qed
  then show ?thesis using len assms UC_Data
    by (simp add: e_UpdateCardInfo_def u32.e_fixed_wr e_QueryDatas_body
      del: valid_UpdateCardInfo.simps)
qed

lemma wr_UpdateCardInfo_nonempty: "wr_UpdateCardInfo u \<noteq> []"
  by (cases u) (simp_all add: wr_u32_def)

lemma e_UpdateCardInfo_progress:
  assumes "e_UpdateCardInfo (wr_u32 len @ bs) = Inr (u, r)" and "len \<noteq> 0"
  shows "length r < length (wr_u32 len @ bs)"
proof -
  have "unat len \<noteq> 0" using assms(2) by (simp add: unat_eq_0)
  then show ?thesis using assms(1)
    by (auto simp: e_UpdateCardInfo_def u32.e_fixed_wr split: if_splits sum.splits)
qed

lemma update_vector_written:
  assumes "\<forall>u \<in> set us. valid_UpdateCardInfo u"
  shows "e_until_eof e_UpdateCardInfo (wr_vec wr_UpdateCardInfo us) = Inr (Inr us)"
  using assms by (intro e_until_eof_wr_vec)
    (simp_all add: e_UpdateCardInfo_wr wr_UpdateCardInfo_nonempty, simp add: e_UpdateCardInfo_def e_fixed_def)

lemma update_vector_stuck:
  assumes "\<forall>u \<in> set us. valid_UpdateCardInfo u" and r: "e_QueryDatas r = Inr x"
  shows "e_until_eof e_UpdateCardInfo (wr_vec wr_UpdateCardInfo us @ wr_u32 0 @ r) = Inl Diverges"
  using assms(1)
proof (induction us)
  case Nil
  have "e_UpdateCardInfo (wr_u32 0 @ r) = Inr (UC_Data (fst x), wr_u32 0 @ r)"
    using r by (simp add: e_UpdateCardInfo_def u32.e_fixed_wr split: prod.split)
  then show ?case by (subst e_until_eof.simps) simp
next
  case (Cons u us)
  then show ?case
    by (subst e_until_eof.simps) (simp add: e_UpdateCardInfo_wr wr_UpdateCardInfo_nonempty)
qed

section \<open>Properties\<close>

text \<open>A card of a query that must be hidden from some player, and whose controller is one of the
  two sides, is masked to the same eight bytes whatever it is: neither the values, nor which values
  were queried, nor where the card lies can be read off the masked copy.\<close>

theorem masked_card_reveals_nothing:
  assumes "UpdateCardInfo_should_mask (UC_Data ds) player" and "position_of ds = Some p"
    and "il_controller p \<in> {FirstAttackPlayer, SecondAttackPlayer}"
  shows "wr_UpdateCardInfo (UpdateCardInfo_mask (UC_Data ds)) = [8, 0, 0, 0, 0, 0, 0, 0]"
proof -
  have "UpdateCardInfo_should_mask (UC_Data ds) AllPlayers"
    using assms by (intro should_mask_any_imp_All [of _ player]) auto
  then show ?thesis
    by (simp add: update_body_Clear del: UpdateCardInfo_should_mask.simps) (simp add: len32_def wr_u32_def)
qed

text \<open>C23: The cards of a location are read back as they were written, as long as each holds the data of
  its flags in the order of the flags. A record of length zero after them is never passed: the
  reader returns to its start and reads it again for ever.\<close>

theorem update_vector_roundtrip:
  assumes "\<forall>u \<in> set us. valid_UpdateCardInfo u"
  shows "e_until_eof e_UpdateCardInfo (wr_vec wr_UpdateCardInfo us) = Inr (Inr us) \<and>
    (\<forall>r x. e_QueryDatas r = Inr x \<longrightarrow>
       e_until_eof e_UpdateCardInfo (wr_vec wr_UpdateCardInfo us @ wr_u32 0 @ r) = Inl Diverges)"
  using update_vector_written [OF assms] update_vector_stuck [OF assms] by blast

section \<open>Witnesses\<close>

definition sample_location :: InfoLocation where
  "sample_location = \<lparr> il_controller = SecondAttackPlayer, il_location = 2, il_sequence = 0,
     il_position = 10, il_overlay_sequence = 0 \<rparr>"

definition sample_query :: "QueryData list" where
  "sample_query = [QD_Code 89631139, QD_Position sample_location]"

theorem masked_card_reveals_nothing_witness:
  "wr_UpdateCardInfo (UpdateCardInfo_mask (UC_Data sample_query)) = [8, 0, 0, 0, 0, 0, 0, 0]"
  by (rule masked_card_reveals_nothing [of _ FirstAttackPlayer sample_location])
     (simp_all add: sample_query_def sample_location_def InfoLocation_should_mask_def is_teammate_def
        intersects_def contains_def)

lemma sample_query_valid: "valid_UpdateCardInfo (UC_Data sample_query)"
  by (simp add: sample_query_def sample_location_def update_body_def valid_InfoLocation_def is_overlay_def
      contains_def wr_InfoLocation_def wr_enum_def query_order_def)

theorem update_vector_roundtrip_witness:
  "e_until_eof e_UpdateCardInfo (wr_vec wr_UpdateCardInfo [UC_Data sample_query, UC_Empty]) =
     Inr (Inr [UC_Data sample_query, UC_Empty]) \<and>
   e_until_eof e_UpdateCardInfo (wr_vec wr_UpdateCardInfo [UC_Empty] @ wr_u32 0 @ wr_u32 0) = Inl Diverges"
proof -
  have "e_QueryDatas (wr_u32 0) = Inr ([QD_Clear], [])"
    by (simp add: e_QueryDatas_def query_order_def contains_def u32.e_bind_wr [where r = "[]", simplified])
  then show ?thesis
    using update_vector_roundtrip [of "[UC_Data sample_query, UC_Empty]"] update_vector_roundtrip [of "[UC_Empty]"]
      sample_query_valid by (simp del: valid_UpdateCardInfo.simps(2))
qed

end
