(* ===== verification/WireString.thy ===== *)
theory WireString
  imports RustStr
begin

text \<open>
  The UTF-16 strings of the wire protocol (utils.rs): strings in an array of a fixed number of
  units, and strings that run to the end of the message. Both end at the first zero unit, and both
  keep the text they were built from, or the text they were first read as, beside the units.

  Decoding is done by the crate encoding rs. It is the parameter dec: the text of a sequence of
  little endian units, or None when it reports errors. What is relied on is that it inverts the
  encoding of the standard library.
\<close>

section \<open>Decoding\<close>

type_synonym decoder = "bytes \<Rightarrow> str option"

definition cast_to_string :: "decoder \<Rightarrow> u16 list \<Rightarrow> str option" where
  "cast_to_string dec array =
     (if 0 \<in> set array then dec (wr_vec wr_u16 (takeWhile (\<lambda>u. u \<noteq> 0) array)) else None)"

definition cast_to_c_array :: "str \<Rightarrow> u16 list" where
  "cast_to_c_array s = encode_utf16 s @ [0]"

definition cast_to_fix_length_array :: "nat \<Rightarrow> str \<Rightarrow> u16 list res" where
  "cast_to_fix_length_array n s =
     (let us = encode_utf16 s in
      if length us \<le> n then Inr (us @ replicate (n - length us) 0) else Inl IndexOutOfBounds)"

section \<open>Strings of a fixed length\<close>

record FixedLengthString =
  fls_data :: "u16 list"
  fls_str :: "str option"

definition FixedLengthString_allocate :: "nat \<Rightarrow> FixedLengthString" where
  "FixedLengthString_allocate n = \<lparr> fls_data = replicate n 0, fls_str = None \<rparr>"

definition FixedLengthString_is_empty :: "FixedLengthString \<Rightarrow> bool" where
  "FixedLengthString_is_empty s = list_all (\<lambda>x. x = 0) (fls_data s)"

definition FixedLengthString_new :: "nat \<Rightarrow> str \<Rightarrow> FixedLengthString res" where
  "FixedLengthString_new n s =
     and_then (cast_to_fix_length_array n s) (\<lambda>us. Inr \<lparr> fls_data = us, fls_str = Some s \<rparr>)"

definition FixedLengthString_resolve_data :: "decoder \<Rightarrow> FixedLengthString \<Rightarrow> FixedLengthString" where
  "FixedLengthString_resolve_data dec s =
     (if fls_str s = None then s \<lparr> fls_str := cast_to_string dec (fls_data s) \<rparr> else s)"

definition FixedLengthString_resolve_str :: "nat \<Rightarrow> FixedLengthString \<Rightarrow> FixedLengthString res" where
  "FixedLengthString_resolve_str n s =
     (case fls_str s of
        None \<Rightarrow> Inr s
      | Some t \<Rightarrow> and_then (cast_to_fix_length_array n t) (\<lambda>us. Inr (s \<lparr> fls_data := us \<rparr>)))"

definition FixedLengthString_deref :: "decoder \<Rightarrow> FixedLengthString \<Rightarrow> str" where
  "FixedLengthString_deref dec s =
     (case fls_str s of
        Some t \<Rightarrow> t
      | None \<Rightarrow> (case cast_to_string dec (fls_data s) of Some t \<Rightarrow> t | None \<Rightarrow> []))"

definition FixedLengthString_eq :: "decoder \<Rightarrow> FixedLengthString \<Rightarrow> FixedLengthString \<Rightarrow> bool" where
  "FixedLengthString_eq dec a b \<longleftrightarrow> FixedLengthString_deref dec a = FixedLengthString_deref dec b"

definition wr_FixedLengthString :: "FixedLengthString writer" where
  "wr_FixedLengthString s = wr_vec wr_u16 (fls_data s)"

definition rd_FixedLengthString :: "nat \<Rightarrow> FixedLengthString reader" where
  "rd_FixedLengthString n =
     rd_bind (rd_count rd_u16 n) (\<lambda>us. rd_return \<lparr> fls_data = us, fls_str = None \<rparr>)"

section \<open>Strings that run to the end\<close>

record U16String =
  us_data :: "u16 list"
  us_str :: "str option"

definition U16String_new :: "str \<Rightarrow> U16String" where
  "U16String_new s = \<lparr> us_data = cast_to_c_array s, us_str = Some s \<rparr>"

definition U16String_from_slice :: "u16 list \<Rightarrow> U16String" where
  "U16String_from_slice us = \<lparr> us_data = us, us_str = None \<rparr>"

definition U16String_resolve_data :: "decoder \<Rightarrow> U16String \<Rightarrow> U16String" where
  "U16String_resolve_data dec s =
     (if us_str s = None then s \<lparr> us_str := cast_to_string dec (us_data s) \<rparr> else s)"

definition U16String_resolve_str :: "U16String \<Rightarrow> U16String" where
  "U16String_resolve_str s =
     (case us_str s of None \<Rightarrow> s | Some t \<Rightarrow> s \<lparr> us_data := cast_to_c_array t \<rparr>)"

definition U16String_deref :: "decoder \<Rightarrow> U16String \<Rightarrow> str" where
  "U16String_deref dec s =
     (case us_str s of
        Some t \<Rightarrow> t
      | None \<Rightarrow> (case cast_to_string dec (us_data s) of Some t \<Rightarrow> t | None \<Rightarrow> []))"

definition wr_U16String :: "U16String writer" where
  "wr_U16String s = wr_vec wr_u16 (us_data s)"

definition rd_U16String :: "U16String reader" where
  "rd_U16String = rd_bind (rd_until_eof rd_u16) (\<lambda>us. rd_return \<lparr> us_data = us, us_str = None \<rparr>)"

section \<open>Lemmas\<close>

text \<open>What a wire string is after it has been written and read: its units, without its text.\<close>

definition forget_str :: "FixedLengthString \<Rightarrow> FixedLengthString" where
  "forget_str s = s \<lparr> fls_str := None \<rparr>"

lemma rd_wr_FixedLengthString:
  "length (fls_data s) = n \<Longrightarrow>
   rd_FixedLengthString n (wr_FixedLengthString s @ r) = Some (forget_str s, r)"
  unfolding rd_FixedLengthString_def wr_FixedLengthString_def
  by (subst u16.rd_bind_count) (simp_all add: forget_str_def)

definition valid_fls :: "nat \<Rightarrow> FixedLengthString \<Rightarrow> bool" where
  "valid_fls n s \<longleftrightarrow> length (fls_data s) = n \<and> fls_str s = None"

lemma codec_FixedLengthString: "codec wr_FixedLengthString (rd_FixedLengthString n) (valid_fls n)"
  by unfold_locales (simp add: rd_wr_FixedLengthString valid_fls_def forget_str_def)

lemma rd_wr_U16String:
  "length r < 2 \<Longrightarrow> rd_U16String (wr_U16String s @ r) = Some (s \<lparr> us_str := None \<rparr>, [])"
  by (simp add: rd_U16String_def wr_U16String_def rd_bind_def u16.rd_until_eof_wr_vec)

lemma cast_length: "cast_to_fix_length_array n s = Inr us \<Longrightarrow> length us = n"
  by (auto simp: cast_to_fix_length_array_def Let_def split: if_splits)

definition decodes :: "decoder \<Rightarrow> str \<Rightarrow> bool" where
  "decodes dec s \<longleftrightarrow> dec (wr_vec wr_u16 (encode_utf16 s)) = Some s"

lemma takeWhile_replicate_0: "0 \<notin> set us \<Longrightarrow> takeWhile (\<lambda>u. u \<noteq> 0) (us @ replicate n 0) = (us :: u16 list)"
  by (induction us) (auto simp: takeWhile_replicate)

lemma cast_to_string_units:
  "0 \<notin> set us \<Longrightarrow> 0 < n \<Longrightarrow> cast_to_string dec (us @ replicate n 0) = dec (wr_vec wr_u16 us)"
  by (simp add: cast_to_string_def takeWhile_replicate_0)

section \<open>Properties\<close>

text \<open>C26: A string of a fixed length is built without a panic exactly when its UTF-16 form fits.
  The receiver reads the same text when there is room for the closing zero; a string that fills
  the array is read as the empty string.\<close>

theorem FixedLengthString_travels:
  fixes s n
  defines "us \<equiv> encode_utf16 s"
  assumes "decodes dec s" and "0 \<notin> set us"
  shows "(is_ok (FixedLengthString_new n s) \<longleftrightarrow> length us \<le> n) \<and>
    (\<forall>a. FixedLengthString_new n s = Inr a \<longrightarrow>
       (\<exists>b. rd_FixedLengthString n (wr_FixedLengthString a @ r) = Some (b, r) \<and>
            FixedLengthString_deref dec b = (if length us < n then s else [])))"
proof -
  have ok: "is_ok (FixedLengthString_new n s) \<longleftrightarrow> length us \<le> n"
    by (simp add: FixedLengthString_new_def cast_to_fix_length_array_def Let_def us_def)
  { fix a assume "FixedLengthString_new n s = Inr a"
    then have us: "length us \<le> n" and a: "a = \<lparr> fls_data = us @ replicate (n - length us) 0, fls_str = Some s \<rparr>"
      by (auto simp: FixedLengthString_new_def cast_to_fix_length_array_def Let_def us_def split: if_splits)
    have "rd_FixedLengthString n (wr_FixedLengthString a @ r) = Some (forget_str a, r)"
      using us by (intro rd_wr_FixedLengthString) (simp add: a)
    moreover have "FixedLengthString_deref dec (forget_str a) = (if length us < n then s else [])"
    proof (cases "length us < n")
      case True
      then show ?thesis using assms
        by (simp add: FixedLengthString_deref_def forget_str_def a cast_to_string_units decodes_def us_def)
    next
      case False
      then show ?thesis using assms us
        by (simp add: FixedLengthString_deref_def forget_str_def a cast_to_string_def us_def)
    qed
    ultimately have "\<exists>b. rd_FixedLengthString n (wr_FixedLengthString a @ r) = Some (b, r) \<and>
            FixedLengthString_deref dec b = (if length us < n then s else [])" by blast }
  with ok show ?thesis by blast
qed

theorem FixedLengthString_travels_witness:
  "\<exists>a b. FixedLengthString_new 2 [65, 66] = Inr a \<and>
     rd_FixedLengthString 2 (wr_FixedLengthString a @ []) = Some (b, []) \<and>
     FixedLengthString_deref (\<lambda>bs. if bs = [65, 0, 66, 0] then Some [65, 66] else None) b = []"
proof -
  have "decodes (\<lambda>bs. if bs = [65, 0, 66, 0] then Some [65, 66] else None) [65, 66]"
    and "0 \<notin> set (encode_utf16 [65, 66])" and l: "length (encode_utf16 [65, 66]) = 2"
    by (simp_all add: decodes_def encode_utf16_def utf16_char.simps wr_u16_def)
  note t = FixedLengthString_travels [OF this(1,2), where n = 2 and r = "[]"]
  then obtain a where a: "FixedLengthString_new 2 [65, 66] = Inr a" by (auto simp: l is_ok_iff)
  with t show ?thesis by (auto simp: l)
qed

end
