(* ===== verification/MessageType.thy ===== *)
theory MessageType
  imports Prelude
begin

text \<open>
  The message types of the three wire protocols: client to server, server to client and game
  messages. The enumeration of each, its numbers and the conversion from a number are generated in
  the program by the macro generate enum of message/utils.rs from the flags of the structs.
\<close>

section \<open>Client to server\<close>

datatype (plugins only: code) ctos_MessageType =
    ctos_T_Unknown u8
  | ctos_T_Response
  | ctos_T_UpdateDeck
  | ctos_T_HandResult
  | ctos_T_TpResult
  | ctos_T_PlayerInfo
  | ctos_T_CreateGame
  | ctos_T_JoinGame
  | ctos_T_LeaveGame
  | ctos_T_Surrender
  | ctos_T_TimeConfirm
  | ctos_T_Chat
  | ctos_T_ExternalAddress
  | ctos_T_HsToDuelist
  | ctos_T_HsToObserver
  | ctos_T_HsReady
  | ctos_T_HsNotReady
  | ctos_T_HsKick
  | ctos_T_HsStart
  | ctos_T_RequestField

fun ctos_MessageType_into :: "ctos_MessageType \<Rightarrow> u8" where
    "ctos_MessageType_into (ctos_T_Unknown v) = v"
  | "ctos_MessageType_into ctos_T_Response = 1"
  | "ctos_MessageType_into ctos_T_UpdateDeck = 2"
  | "ctos_MessageType_into ctos_T_HandResult = 3"
  | "ctos_MessageType_into ctos_T_TpResult = 4"
  | "ctos_MessageType_into ctos_T_PlayerInfo = 16"
  | "ctos_MessageType_into ctos_T_CreateGame = 17"
  | "ctos_MessageType_into ctos_T_JoinGame = 18"
  | "ctos_MessageType_into ctos_T_LeaveGame = 19"
  | "ctos_MessageType_into ctos_T_Surrender = 20"
  | "ctos_MessageType_into ctos_T_TimeConfirm = 21"
  | "ctos_MessageType_into ctos_T_Chat = 22"
  | "ctos_MessageType_into ctos_T_ExternalAddress = 23"
  | "ctos_MessageType_into ctos_T_HsToDuelist = 32"
  | "ctos_MessageType_into ctos_T_HsToObserver = 33"
  | "ctos_MessageType_into ctos_T_HsReady = 34"
  | "ctos_MessageType_into ctos_T_HsNotReady = 35"
  | "ctos_MessageType_into ctos_T_HsKick = 36"
  | "ctos_MessageType_into ctos_T_HsStart = 37"
  | "ctos_MessageType_into ctos_T_RequestField = 48"

definition ctos_MessageType_table :: "(u8 \<times> ctos_MessageType) list" where
  "ctos_MessageType_table =
    [(1, ctos_T_Response),
     (2, ctos_T_UpdateDeck),
     (3, ctos_T_HandResult),
     (4, ctos_T_TpResult),
     (16, ctos_T_PlayerInfo),
     (17, ctos_T_CreateGame),
     (18, ctos_T_JoinGame),
     (19, ctos_T_LeaveGame),
     (20, ctos_T_Surrender),
     (21, ctos_T_TimeConfirm),
     (22, ctos_T_Chat),
     (23, ctos_T_ExternalAddress),
     (32, ctos_T_HsToDuelist),
     (33, ctos_T_HsToObserver),
     (34, ctos_T_HsReady),
     (35, ctos_T_HsNotReady),
     (36, ctos_T_HsKick),
     (37, ctos_T_HsStart),
     (48, ctos_T_RequestField)]"

definition ctos_MessageType_from :: "u8 \<Rightarrow> ctos_MessageType" where
  "ctos_MessageType_from v = (case map_of ctos_MessageType_table v of Some t \<Rightarrow> t | None \<Rightarrow> ctos_T_Unknown v)"

lemma ctos_MessageType_into_from [simp]: "ctos_MessageType_into (ctos_MessageType_from v) = v"
proof (cases "map_of ctos_MessageType_table v")
  case (Some t)
  then have "(v, t) \<in> set ctos_MessageType_table" by (rule map_of_SomeD)
  moreover have "list_all (\<lambda>(v, t). ctos_MessageType_into t = v) ctos_MessageType_table" by (simp add: ctos_MessageType_table_def)
  ultimately show ?thesis using Some by (auto simp: ctos_MessageType_from_def list_all_iff)
qed (simp add: ctos_MessageType_from_def)

section \<open>Server to client\<close>

datatype (plugins only: code) stoc_MessageType =
    stoc_T_Unknown u8
  | stoc_T_GameMessage
  | stoc_T_ErrorMessage
  | stoc_T_SelectHand
  | stoc_T_SelectTp
  | stoc_T_HandResult
  | stoc_T_TpResult
  | stoc_T_ChangeSide
  | stoc_T_WaitingSide
  | stoc_T_DeckCount
  | stoc_T_CreateGame
  | stoc_T_JoinGame
  | stoc_T_TypeChange
  | stoc_T_LeaveGame
  | stoc_T_DuelStart
  | stoc_T_DuelEnd
  | stoc_T_Replay
  | stoc_T_TimeLimit
  | stoc_T_Chat
  | stoc_T_HsPlayerEnter
  | stoc_T_HsPlayerChange
  | stoc_T_HsWatchChange
  | stoc_T_TeammateSurrender
  | stoc_T_FieldFinish

fun stoc_MessageType_into :: "stoc_MessageType \<Rightarrow> u8" where
    "stoc_MessageType_into (stoc_T_Unknown v) = v"
  | "stoc_MessageType_into stoc_T_GameMessage = 1"
  | "stoc_MessageType_into stoc_T_ErrorMessage = 2"
  | "stoc_MessageType_into stoc_T_SelectHand = 3"
  | "stoc_MessageType_into stoc_T_SelectTp = 4"
  | "stoc_MessageType_into stoc_T_HandResult = 5"
  | "stoc_MessageType_into stoc_T_TpResult = 6"
  | "stoc_MessageType_into stoc_T_ChangeSide = 7"
  | "stoc_MessageType_into stoc_T_WaitingSide = 8"
  | "stoc_MessageType_into stoc_T_DeckCount = 9"
  | "stoc_MessageType_into stoc_T_CreateGame = 17"
  | "stoc_MessageType_into stoc_T_JoinGame = 18"
  | "stoc_MessageType_into stoc_T_TypeChange = 19"
  | "stoc_MessageType_into stoc_T_LeaveGame = 20"
  | "stoc_MessageType_into stoc_T_DuelStart = 21"
  | "stoc_MessageType_into stoc_T_DuelEnd = 22"
  | "stoc_MessageType_into stoc_T_Replay = 23"
  | "stoc_MessageType_into stoc_T_TimeLimit = 24"
  | "stoc_MessageType_into stoc_T_Chat = 25"
  | "stoc_MessageType_into stoc_T_HsPlayerEnter = 32"
  | "stoc_MessageType_into stoc_T_HsPlayerChange = 33"
  | "stoc_MessageType_into stoc_T_HsWatchChange = 34"
  | "stoc_MessageType_into stoc_T_TeammateSurrender = 35"
  | "stoc_MessageType_into stoc_T_FieldFinish = 48"

definition stoc_MessageType_table :: "(u8 \<times> stoc_MessageType) list" where
  "stoc_MessageType_table =
    [(1, stoc_T_GameMessage),
     (2, stoc_T_ErrorMessage),
     (3, stoc_T_SelectHand),
     (4, stoc_T_SelectTp),
     (5, stoc_T_HandResult),
     (6, stoc_T_TpResult),
     (7, stoc_T_ChangeSide),
     (8, stoc_T_WaitingSide),
     (9, stoc_T_DeckCount),
     (17, stoc_T_CreateGame),
     (18, stoc_T_JoinGame),
     (19, stoc_T_TypeChange),
     (20, stoc_T_LeaveGame),
     (21, stoc_T_DuelStart),
     (22, stoc_T_DuelEnd),
     (23, stoc_T_Replay),
     (24, stoc_T_TimeLimit),
     (25, stoc_T_Chat),
     (32, stoc_T_HsPlayerEnter),
     (33, stoc_T_HsPlayerChange),
     (34, stoc_T_HsWatchChange),
     (35, stoc_T_TeammateSurrender),
     (48, stoc_T_FieldFinish)]"

definition stoc_MessageType_from :: "u8 \<Rightarrow> stoc_MessageType" where
  "stoc_MessageType_from v = (case map_of stoc_MessageType_table v of Some t \<Rightarrow> t | None \<Rightarrow> stoc_T_Unknown v)"

lemma stoc_MessageType_into_from [simp]: "stoc_MessageType_into (stoc_MessageType_from v) = v"
proof (cases "map_of stoc_MessageType_table v")
  case (Some t)
  then have "(v, t) \<in> set stoc_MessageType_table" by (rule map_of_SomeD)
  moreover have "list_all (\<lambda>(v, t). stoc_MessageType_into t = v) stoc_MessageType_table" by (simp add: stoc_MessageType_table_def)
  ultimately show ?thesis using Some by (auto simp: stoc_MessageType_from_def list_all_iff)
qed (simp add: stoc_MessageType_from_def)

section \<open>Game messages\<close>

text \<open>There are 98 types of game messages; a value of their enumeration is modelled by its number,
  so that the conversion from and to a number is the identity.\<close>

type_synonym gm_MessageType = u8

abbreviation (input) gm_T_Retry :: gm_MessageType where "gm_T_Retry \<equiv> 1"
abbreviation (input) gm_T_Hint :: gm_MessageType where "gm_T_Hint \<equiv> 2"
abbreviation (input) gm_T_Waiting :: gm_MessageType where "gm_T_Waiting \<equiv> 3"
abbreviation (input) gm_T_Start :: gm_MessageType where "gm_T_Start \<equiv> 4"
abbreviation (input) gm_T_Win :: gm_MessageType where "gm_T_Win \<equiv> 5"
abbreviation (input) gm_T_UpdateData :: gm_MessageType where "gm_T_UpdateData \<equiv> 6"
abbreviation (input) gm_T_UpdateCard :: gm_MessageType where "gm_T_UpdateCard \<equiv> 7"
abbreviation (input) gm_T_RequestDeck :: gm_MessageType where "gm_T_RequestDeck \<equiv> 8"
abbreviation (input) gm_T_SelectBattleCommand :: gm_MessageType where "gm_T_SelectBattleCommand \<equiv> 10"
abbreviation (input) gm_T_SelectIdleCommand :: gm_MessageType where "gm_T_SelectIdleCommand \<equiv> 11"
abbreviation (input) gm_T_SelectEffectYesNo :: gm_MessageType where "gm_T_SelectEffectYesNo \<equiv> 12"
abbreviation (input) gm_T_SelectYesNo :: gm_MessageType where "gm_T_SelectYesNo \<equiv> 13"
abbreviation (input) gm_T_SelectOption :: gm_MessageType where "gm_T_SelectOption \<equiv> 14"
abbreviation (input) gm_T_SelectCard :: gm_MessageType where "gm_T_SelectCard \<equiv> 15"
abbreviation (input) gm_T_SelectChain :: gm_MessageType where "gm_T_SelectChain \<equiv> 16"
abbreviation (input) gm_T_SelectPlace :: gm_MessageType where "gm_T_SelectPlace \<equiv> 18"
abbreviation (input) gm_T_SelectPosition :: gm_MessageType where "gm_T_SelectPosition \<equiv> 19"
abbreviation (input) gm_T_SelectTribute :: gm_MessageType where "gm_T_SelectTribute \<equiv> 20"
abbreviation (input) gm_T_SortChain :: gm_MessageType where "gm_T_SortChain \<equiv> 21"
abbreviation (input) gm_T_SelectCounter :: gm_MessageType where "gm_T_SelectCounter \<equiv> 22"
abbreviation (input) gm_T_SelectSum :: gm_MessageType where "gm_T_SelectSum \<equiv> 23"
abbreviation (input) gm_T_SelectDisableField :: gm_MessageType where "gm_T_SelectDisableField \<equiv> 24"
abbreviation (input) gm_T_SortCard :: gm_MessageType where "gm_T_SortCard \<equiv> 25"
abbreviation (input) gm_T_SelectUnselectCard :: gm_MessageType where "gm_T_SelectUnselectCard \<equiv> 26"
abbreviation (input) gm_T_ConfirmDecktop :: gm_MessageType where "gm_T_ConfirmDecktop \<equiv> 30"
abbreviation (input) gm_T_ConfirmCards :: gm_MessageType where "gm_T_ConfirmCards \<equiv> 31"
abbreviation (input) gm_T_ShuffleDeck :: gm_MessageType where "gm_T_ShuffleDeck \<equiv> 32"
abbreviation (input) gm_T_ShuffleHand :: gm_MessageType where "gm_T_ShuffleHand \<equiv> 33"
abbreviation (input) gm_T_RefreshDeck :: gm_MessageType where "gm_T_RefreshDeck \<equiv> 34"
abbreviation (input) gm_T_SwapGraveDeck :: gm_MessageType where "gm_T_SwapGraveDeck \<equiv> 35"
abbreviation (input) gm_T_ShuffleSetCard :: gm_MessageType where "gm_T_ShuffleSetCard \<equiv> 36"
abbreviation (input) gm_T_ReverseDeck :: gm_MessageType where "gm_T_ReverseDeck \<equiv> 37"
abbreviation (input) gm_T_DeckTop :: gm_MessageType where "gm_T_DeckTop \<equiv> 38"
abbreviation (input) gm_T_ShuffleExtra :: gm_MessageType where "gm_T_ShuffleExtra \<equiv> 39"
abbreviation (input) gm_T_NewTurn :: gm_MessageType where "gm_T_NewTurn \<equiv> 40"
abbreviation (input) gm_T_NewPhase :: gm_MessageType where "gm_T_NewPhase \<equiv> 41"
abbreviation (input) gm_T_ConfirmExtraTop :: gm_MessageType where "gm_T_ConfirmExtraTop \<equiv> 42"
abbreviation (input) gm_T_Move :: gm_MessageType where "gm_T_Move \<equiv> 50"
abbreviation (input) gm_T_PositionChange :: gm_MessageType where "gm_T_PositionChange \<equiv> 53"
abbreviation (input) gm_T_Set :: gm_MessageType where "gm_T_Set \<equiv> 54"
abbreviation (input) gm_T_Swap :: gm_MessageType where "gm_T_Swap \<equiv> 55"
abbreviation (input) gm_T_FieldDisabled :: gm_MessageType where "gm_T_FieldDisabled \<equiv> 56"
abbreviation (input) gm_T_Summoning :: gm_MessageType where "gm_T_Summoning \<equiv> 60"
abbreviation (input) gm_T_Summoned :: gm_MessageType where "gm_T_Summoned \<equiv> 61"
abbreviation (input) gm_T_SpecialSummoning :: gm_MessageType where "gm_T_SpecialSummoning \<equiv> 62"
abbreviation (input) gm_T_SpecialSummoned :: gm_MessageType where "gm_T_SpecialSummoned \<equiv> 63"
abbreviation (input) gm_T_FlipSummoning :: gm_MessageType where "gm_T_FlipSummoning \<equiv> 64"
abbreviation (input) gm_T_FlipSummoned :: gm_MessageType where "gm_T_FlipSummoned \<equiv> 65"
abbreviation (input) gm_T_Chaining :: gm_MessageType where "gm_T_Chaining \<equiv> 70"
abbreviation (input) gm_T_Chained :: gm_MessageType where "gm_T_Chained \<equiv> 71"
abbreviation (input) gm_T_ChainSolving :: gm_MessageType where "gm_T_ChainSolving \<equiv> 72"
abbreviation (input) gm_T_ChainSolved :: gm_MessageType where "gm_T_ChainSolved \<equiv> 73"
abbreviation (input) gm_T_ChainEnd :: gm_MessageType where "gm_T_ChainEnd \<equiv> 74"
abbreviation (input) gm_T_ChainNegated :: gm_MessageType where "gm_T_ChainNegated \<equiv> 75"
abbreviation (input) gm_T_ChainDisabled :: gm_MessageType where "gm_T_ChainDisabled \<equiv> 76"
abbreviation (input) gm_T_CardSelected :: gm_MessageType where "gm_T_CardSelected \<equiv> 80"
abbreviation (input) gm_T_RandomSelected :: gm_MessageType where "gm_T_RandomSelected \<equiv> 81"
abbreviation (input) gm_T_BecomeTarget :: gm_MessageType where "gm_T_BecomeTarget \<equiv> 83"
abbreviation (input) gm_T_Draw :: gm_MessageType where "gm_T_Draw \<equiv> 90"
abbreviation (input) gm_T_Damage :: gm_MessageType where "gm_T_Damage \<equiv> 91"
abbreviation (input) gm_T_Recover :: gm_MessageType where "gm_T_Recover \<equiv> 92"
abbreviation (input) gm_T_Equip :: gm_MessageType where "gm_T_Equip \<equiv> 93"
abbreviation (input) gm_T_LPUpdate :: gm_MessageType where "gm_T_LPUpdate \<equiv> 94"
abbreviation (input) gm_T_Unequip :: gm_MessageType where "gm_T_Unequip \<equiv> 95"
abbreviation (input) gm_T_CardTarget :: gm_MessageType where "gm_T_CardTarget \<equiv> 96"
abbreviation (input) gm_T_CancelTarget :: gm_MessageType where "gm_T_CancelTarget \<equiv> 97"
abbreviation (input) gm_T_PayLPCost :: gm_MessageType where "gm_T_PayLPCost \<equiv> 100"
abbreviation (input) gm_T_AddCounter :: gm_MessageType where "gm_T_AddCounter \<equiv> 101"
abbreviation (input) gm_T_RemoveCounter :: gm_MessageType where "gm_T_RemoveCounter \<equiv> 102"
abbreviation (input) gm_T_Attack :: gm_MessageType where "gm_T_Attack \<equiv> 110"
abbreviation (input) gm_T_Battle :: gm_MessageType where "gm_T_Battle \<equiv> 111"
abbreviation (input) gm_T_AttackDisabled :: gm_MessageType where "gm_T_AttackDisabled \<equiv> 112"
abbreviation (input) gm_T_DamageStepStart :: gm_MessageType where "gm_T_DamageStepStart \<equiv> 113"
abbreviation (input) gm_T_DamageStepEnd :: gm_MessageType where "gm_T_DamageStepEnd \<equiv> 114"
abbreviation (input) gm_T_MissedEffect :: gm_MessageType where "gm_T_MissedEffect \<equiv> 120"
abbreviation (input) gm_T_BeChainTarget :: gm_MessageType where "gm_T_BeChainTarget \<equiv> 121"
abbreviation (input) gm_T_CreateRelation :: gm_MessageType where "gm_T_CreateRelation \<equiv> 122"
abbreviation (input) gm_T_ReleaseRelation :: gm_MessageType where "gm_T_ReleaseRelation \<equiv> 123"
abbreviation (input) gm_T_TossCoin :: gm_MessageType where "gm_T_TossCoin \<equiv> 130"
abbreviation (input) gm_T_TossDice :: gm_MessageType where "gm_T_TossDice \<equiv> 131"
abbreviation (input) gm_T_RockPaperScissors :: gm_MessageType where "gm_T_RockPaperScissors \<equiv> 132"
abbreviation (input) gm_T_HandResult :: gm_MessageType where "gm_T_HandResult \<equiv> 133"
abbreviation (input) gm_T_AnnounceRace :: gm_MessageType where "gm_T_AnnounceRace \<equiv> 140"
abbreviation (input) gm_T_AnnounceAttribute :: gm_MessageType where "gm_T_AnnounceAttribute \<equiv> 141"
abbreviation (input) gm_T_AnnounceCard :: gm_MessageType where "gm_T_AnnounceCard \<equiv> 142"
abbreviation (input) gm_T_AnnounceNumber :: gm_MessageType where "gm_T_AnnounceNumber \<equiv> 143"
abbreviation (input) gm_T_CardHint :: gm_MessageType where "gm_T_CardHint \<equiv> 160"
abbreviation (input) gm_T_TagSwap :: gm_MessageType where "gm_T_TagSwap \<equiv> 161"
abbreviation (input) gm_T_ReloadField :: gm_MessageType where "gm_T_ReloadField \<equiv> 162"
abbreviation (input) gm_T_AIName :: gm_MessageType where "gm_T_AIName \<equiv> 163"
abbreviation (input) gm_T_ShowHint :: gm_MessageType where "gm_T_ShowHint \<equiv> 164"
abbreviation (input) gm_T_PlayerHint :: gm_MessageType where "gm_T_PlayerHint \<equiv> 165"
abbreviation (input) gm_T_MatchKill :: gm_MessageType where "gm_T_MatchKill \<equiv> 170"
abbreviation (input) gm_T_CustomMsg :: gm_MessageType where "gm_T_CustomMsg \<equiv> 180"
abbreviation (input) gm_T_SibylChat :: gm_MessageType where "gm_T_SibylChat \<equiv> 230"
abbreviation (input) gm_T_SibylReplay :: gm_MessageType where "gm_T_SibylReplay \<equiv> 231"
abbreviation (input) gm_T_SibylName :: gm_MessageType where "gm_T_SibylName \<equiv> 235"
abbreviation (input) gm_T_SibylQuit :: gm_MessageType where "gm_T_SibylQuit \<equiv> 236"

definition gm_types :: "gm_MessageType list" where
  "gm_types =
    [gm_T_Retry, gm_T_Hint, gm_T_Waiting, gm_T_Start,
     gm_T_Win, gm_T_UpdateData, gm_T_UpdateCard, gm_T_RequestDeck,
     gm_T_SelectBattleCommand, gm_T_SelectIdleCommand, gm_T_SelectEffectYesNo, gm_T_SelectYesNo,
     gm_T_SelectOption, gm_T_SelectCard, gm_T_SelectChain, gm_T_SelectPlace,
     gm_T_SelectPosition, gm_T_SelectTribute, gm_T_SortChain, gm_T_SelectCounter,
     gm_T_SelectSum, gm_T_SelectDisableField, gm_T_SortCard, gm_T_SelectUnselectCard,
     gm_T_ConfirmDecktop, gm_T_ConfirmCards, gm_T_ShuffleDeck, gm_T_ShuffleHand,
     gm_T_RefreshDeck, gm_T_SwapGraveDeck, gm_T_ShuffleSetCard, gm_T_ReverseDeck,
     gm_T_DeckTop, gm_T_ShuffleExtra, gm_T_NewTurn, gm_T_NewPhase,
     gm_T_ConfirmExtraTop, gm_T_Move, gm_T_PositionChange, gm_T_Set,
     gm_T_Swap, gm_T_FieldDisabled, gm_T_Summoning, gm_T_Summoned,
     gm_T_SpecialSummoning, gm_T_SpecialSummoned, gm_T_FlipSummoning, gm_T_FlipSummoned,
     gm_T_Chaining, gm_T_Chained, gm_T_ChainSolving, gm_T_ChainSolved,
     gm_T_ChainEnd, gm_T_ChainNegated, gm_T_ChainDisabled, gm_T_CardSelected,
     gm_T_RandomSelected, gm_T_BecomeTarget, gm_T_Draw, gm_T_Damage,
     gm_T_Recover, gm_T_Equip, gm_T_LPUpdate, gm_T_Unequip,
     gm_T_CardTarget, gm_T_CancelTarget, gm_T_PayLPCost, gm_T_AddCounter,
     gm_T_RemoveCounter, gm_T_Attack, gm_T_Battle, gm_T_AttackDisabled,
     gm_T_DamageStepStart, gm_T_DamageStepEnd, gm_T_MissedEffect, gm_T_BeChainTarget,
     gm_T_CreateRelation, gm_T_ReleaseRelation, gm_T_TossCoin, gm_T_TossDice,
     gm_T_RockPaperScissors, gm_T_HandResult, gm_T_AnnounceRace, gm_T_AnnounceAttribute,
     gm_T_AnnounceCard, gm_T_AnnounceNumber, gm_T_CardHint, gm_T_TagSwap,
     gm_T_ReloadField, gm_T_AIName, gm_T_ShowHint, gm_T_PlayerHint,
     gm_T_MatchKill, gm_T_CustomMsg, gm_T_SibylChat, gm_T_SibylReplay,
     gm_T_SibylName, gm_T_SibylQuit]"

definition gm_is_known :: "gm_MessageType \<Rightarrow> bool" where
  "gm_is_known t \<longleftrightarrow> t \<in> set gm_types"

end
