(* ===== verification/PlayerResponse.thy ===== *)
theory PlayerResponse
  imports Constants MessageType
begin

text \<open>
  The answer of a player to a prompt of the core (response.rs): its variants, its wire format, and
  the parser that resolves the raw bytes of an answer by the type of the message that asked for it.
\<close>

datatype (plugins only: code) IdleCommand =
    IdleCommand_Summon
  | IdleCommand_SpecialSummon
  | IdleCommand_Reposition
  | IdleCommand_SetMonster
  | IdleCommand_SetSpellTrap
  | IdleCommand_Activate
  | IdleCommand_EnterBattlePhase
  | IdleCommand_EnterEndPhase
  | IdleCommand_ShuffleDeck

fun IdleCommand_repr :: "IdleCommand \<Rightarrow> u16" where
    "IdleCommand_repr IdleCommand_Summon = 0"
  | "IdleCommand_repr IdleCommand_SpecialSummon = 1"
  | "IdleCommand_repr IdleCommand_Reposition = 2"
  | "IdleCommand_repr IdleCommand_SetMonster = 3"
  | "IdleCommand_repr IdleCommand_SetSpellTrap = 4"
  | "IdleCommand_repr IdleCommand_Activate = 5"
  | "IdleCommand_repr IdleCommand_EnterBattlePhase = 6"
  | "IdleCommand_repr IdleCommand_EnterEndPhase = 7"
  | "IdleCommand_repr IdleCommand_ShuffleDeck = 8"

definition IdleCommand_all :: "IdleCommand list" where
  "IdleCommand_all =
     [IdleCommand_Summon, IdleCommand_SpecialSummon, IdleCommand_Reposition, IdleCommand_SetMonster,
      IdleCommand_SetSpellTrap, IdleCommand_Activate, IdleCommand_EnterBattlePhase,
      IdleCommand_EnterEndPhase, IdleCommand_ShuffleDeck]"

lemma IdleCommand_complete: "v \<in> set IdleCommand_all"
  by (cases v) (simp_all add: IdleCommand_all_def)

interpretation IdleCommand: repr_codec IdleCommand_repr IdleCommand_all wr_u16 rd_u16 2
  by unfold_locales (simp_all add: IdleCommand_complete, simp add: IdleCommand_all_def)

datatype (plugins only: code) BattleCommand =
    BattleCommand_Activate
  | BattleCommand_Attack
  | BattleCommand_EnterMainPhase2
  | BattleCommand_EnterEndPhase

fun BattleCommand_repr :: "BattleCommand \<Rightarrow> u16" where
    "BattleCommand_repr BattleCommand_Activate = 0"
  | "BattleCommand_repr BattleCommand_Attack = 1"
  | "BattleCommand_repr BattleCommand_EnterMainPhase2 = 2"
  | "BattleCommand_repr BattleCommand_EnterEndPhase = 3"

definition BattleCommand_all :: "BattleCommand list" where
  "BattleCommand_all =
     [BattleCommand_Activate, BattleCommand_Attack, BattleCommand_EnterMainPhase2, BattleCommand_EnterEndPhase]"

lemma BattleCommand_complete: "v \<in> set BattleCommand_all"
  by (cases v) (simp_all add: BattleCommand_all_def)

interpretation BattleCommand: repr_codec BattleCommand_repr BattleCommand_all wr_u16 rd_u16 2
  by unfold_locales (simp_all add: BattleCommand_complete, simp add: BattleCommand_all_def)

datatype PlayerResponse =
    R_Cancel
  | R_SelectIdleCommand IdleCommand u16
  | R_SelectBattleCommand BattleCommand u16
  | R_SelectYesNo bool
  | R_SelectOption u8
  | R_SelectChain u8
  | R_DeclineChain
  | R_SelectPosition u8
  | R_SelectCards "u16 list"
  | R_SelectUnselectCards u16
  | R_SelectTribute "u16 list"
  | R_SelectSum "u16 list"
  | R_SelectCounter "u16 list"
  | R_SelectPlace CorePlayer u8 u8
  | R_DeclinePlace
  | R_SortCards "u16 list"
  | R_KeepCardOrder
  | R_AnnounceRace u32
  | R_AnnounceAttribute u32
  | R_AnnounceCard u32
  | R_Unknown bytes

fun wr_PlayerResponse :: "PlayerResponse writer" where
    "wr_PlayerResponse R_Cancel = wr_u32 (- 1)"
  | "wr_PlayerResponse (R_SelectIdleCommand c i) = wr_enum wr_u16 IdleCommand_repr c @ wr_u16 i"
  | "wr_PlayerResponse (R_SelectBattleCommand c i) = wr_enum wr_u16 BattleCommand_repr c @ wr_u16 i"
  | "wr_PlayerResponse (R_SelectYesNo yes) = wr_bool yes"
  | "wr_PlayerResponse (R_SelectOption i) = wr_u8 i"
  | "wr_PlayerResponse (R_SelectChain i) = wr_u8 i"
  | "wr_PlayerResponse R_DeclineChain = wr_u32 (- 1)"
  | "wr_PlayerResponse (R_SelectPosition p) = wr_u8 p"
  | "wr_PlayerResponse (R_SelectCards is) = wr_vec8 wr_u16 is"
  | "wr_PlayerResponse (R_SelectUnselectCards i) = wr_u8 1 @ wr_u16 i"
  | "wr_PlayerResponse (R_SelectTribute is) = wr_vec8 wr_u16 is"
  | "wr_PlayerResponse (R_SelectSum is) = wr_vec8 wr_u16 is"
  | "wr_PlayerResponse (R_SelectCounter counts) = wr_vec wr_u16 counts"
  | "wr_PlayerResponse (R_SelectPlace p l s) = wr_enum wr_u8 CorePlayer_repr p @ wr_u8 l @ wr_u8 s"
  | "wr_PlayerResponse R_DeclinePlace = [0, 0, 0]"
  | "wr_PlayerResponse (R_SortCards order) = wr_vec wr_u16 order"
  | "wr_PlayerResponse R_KeepCardOrder = wr_u8 0xff"
  | "wr_PlayerResponse (R_AnnounceRace races) = wr_u32 races"
  | "wr_PlayerResponse (R_AnnounceAttribute attributes) = wr_u32 attributes"
  | "wr_PlayerResponse (R_AnnounceCard code) = wr_u32 code"
  | "wr_PlayerResponse (R_Unknown data) = data"

fun PlayerResponse_len :: "PlayerResponse \<Rightarrow> nat" where
    "PlayerResponse_len R_Cancel = 4"
  | "PlayerResponse_len (R_SelectIdleCommand _ _) = 4"
  | "PlayerResponse_len (R_SelectBattleCommand _ _) = 4"
  | "PlayerResponse_len (R_SelectYesNo _) = 1"
  | "PlayerResponse_len (R_SelectOption _) = 1"
  | "PlayerResponse_len (R_SelectChain _) = 1"
  | "PlayerResponse_len R_DeclineChain = 4"
  | "PlayerResponse_len (R_SelectPosition _) = 1"
  | "PlayerResponse_len (R_SelectCards is) = 1 + length is * 2"
  | "PlayerResponse_len (R_SelectUnselectCards _) = 3"
  | "PlayerResponse_len (R_SelectTribute is) = 1 + length is * 2"
  | "PlayerResponse_len (R_SelectSum is) = 1 + length is * 2"
  | "PlayerResponse_len (R_SelectCounter counts) = length counts * 2"
  | "PlayerResponse_len (R_SelectPlace _ _ _) = 3"
  | "PlayerResponse_len R_DeclinePlace = 3"
  | "PlayerResponse_len (R_SortCards order) = length order * 2"
  | "PlayerResponse_len R_KeepCardOrder = 1"
  | "PlayerResponse_len (R_AnnounceRace _) = 4"
  | "PlayerResponse_len (R_AnnounceAttribute _) = 4"
  | "PlayerResponse_len (R_AnnounceCard _) = 4"
  | "PlayerResponse_len (R_Unknown data) = length data"

section \<open>Resolving an answer\<close>

definition minus_one_bytes :: bytes where
  "minus_one_bytes = wr_u32 (- 1)"

definition rd_command :: "'c reader \<Rightarrow> ('c \<Rightarrow> u16 \<Rightarrow> PlayerResponse) \<Rightarrow> PlayerResponse reader" where
  "rd_command rd f = rd_bind rd (\<lambda>c. rd_bind rd_u16 (\<lambda>i. rd_return (f c i)))"

definition rd_map :: "('a \<Rightarrow> 'b) \<Rightarrow> 'a reader \<Rightarrow> 'b reader" where
  "rd_map f rd = rd_bind rd (\<lambda>x. rd_return (f x))"

definition rd_unselect :: "PlayerResponse reader" where
  "rd_unselect = rd_bind rd_u8 (\<lambda>marker bs. if marker \<noteq> 1 then None else rd_map R_SelectUnselectCards rd_u16 bs)"

definition rd_place :: "PlayerResponse reader" where
  "rd_place =
     rd_bind (rd_enum rd_u8 CorePlayer_repr CorePlayer_all) (\<lambda>player.
     rd_bind rd_u8 (\<lambda>location.
     rd_bind rd_u8 (\<lambda>sequence.
     rd_return (if player = FirstAttackPlayer \<and> location = 0 \<and> sequence = 0 then R_DeclinePlace
                else R_SelectPlace player location sequence))))"

definition PlayerResponse_parse :: "gm_MessageType \<Rightarrow> PlayerResponse reader" where
  "PlayerResponse_parse t bs =
     (if t = gm_T_SelectIdleCommand
        then rd_command (rd_enum rd_u16 IdleCommand_repr IdleCommand_all) R_SelectIdleCommand bs
      else if t = gm_T_SelectBattleCommand
        then rd_command (rd_enum rd_u16 BattleCommand_repr BattleCommand_all) R_SelectBattleCommand bs
      else if t = gm_T_SelectEffectYesNo \<or> t = gm_T_SelectYesNo then rd_map R_SelectYesNo rd_bool bs
      else if t = gm_T_SelectOption \<or> t = gm_T_AnnounceNumber then rd_map R_SelectOption rd_u8 bs
      else if t = gm_T_SelectPosition then rd_map R_SelectPosition rd_u8 bs
      else if t = gm_T_SelectCounter then rd_map R_SelectCounter (rd_until_eof rd_u16) bs
      else if t = gm_T_AnnounceRace then rd_map R_AnnounceRace rd_u32 bs
      else if t = gm_T_AnnounceAttribute then rd_map R_AnnounceAttribute rd_u32 bs
      else if t = gm_T_AnnounceCard then rd_map R_AnnounceCard rd_u32 bs
      else if t = gm_T_SelectChain then
        (if bs = minus_one_bytes then Some (R_DeclineChain, bs) else rd_map R_SelectChain rd_u8 bs)
      else if t = gm_T_SelectCard then
        (if bs = minus_one_bytes then Some (R_Cancel, bs) else rd_map R_SelectCards (rd_vec8 rd_u16) bs)
      else if t = gm_T_SelectUnselectCard then
        (if bs = minus_one_bytes then Some (R_Cancel, bs) else rd_unselect bs)
      else if t = gm_T_SelectTribute then
        (if bs = minus_one_bytes then Some (R_Cancel, bs) else rd_map R_SelectTribute (rd_vec8 rd_u16) bs)
      else if t = gm_T_SelectSum then rd_map R_SelectSum (rd_vec8 rd_u16) bs
      else if t = gm_T_SelectPlace \<or> t = gm_T_SelectDisableField then rd_place bs
      else if t = gm_T_SortCard then
        (if bs = [0xff] then Some (R_KeepCardOrder, bs) else rd_map R_SortCards (rd_until_eof rd_u16) bs)
      else None)"

definition rd_PlayerResponse :: "gm_MessageType option \<Rightarrow> PlayerResponse reader" where
  "rd_PlayerResponse t bs =
     (case t of
        Some t \<Rightarrow> PlayerResponse_parse t bs
      | None \<Rightarrow> rd_map R_Unknown (rd_until_eof rd_u8) bs)"

text \<open>The resolved response, or None where resolving fails and leaves the response as it is.\<close>

fun PlayerResponse_resolve :: "gm_MessageType \<Rightarrow> PlayerResponse \<Rightarrow> PlayerResponse option" where
    "PlayerResponse_resolve t (R_Unknown data) = map_option fst (PlayerResponse_parse t data)"
  | "PlayerResponse_resolve t r = Some r"

section \<open>Lemmas\<close>

lemma length_wr_vec8_u16 [simp]: "length (wr_vec8 wr_u16 is) = 1 + 2 * length is"
  by (simp add: wr_vec8_def)

lemma PlayerResponse_len_wr: "PlayerResponse_len r = length (wr_PlayerResponse r)"
  by (cases r) (simp_all add: wr_enum_def wr_bool_def)

text \<open>Which answers belong to which prompt.\<close>

definition answers :: "gm_MessageType \<Rightarrow> PlayerResponse \<Rightarrow> bool" where
  "answers t r =
     (case r of
        R_Cancel \<Rightarrow> t \<in> {gm_T_SelectCard, gm_T_SelectUnselectCard, gm_T_SelectTribute}
      | R_SelectIdleCommand _ _ \<Rightarrow> t = gm_T_SelectIdleCommand
      | R_SelectBattleCommand _ _ \<Rightarrow> t = gm_T_SelectBattleCommand
      | R_SelectYesNo _ \<Rightarrow> t \<in> {gm_T_SelectYesNo, gm_T_SelectEffectYesNo}
      | R_SelectOption _ \<Rightarrow> t \<in> {gm_T_SelectOption, gm_T_AnnounceNumber}
      | R_SelectChain _ \<Rightarrow> t = gm_T_SelectChain
      | R_DeclineChain \<Rightarrow> t = gm_T_SelectChain
      | R_SelectPosition _ \<Rightarrow> t = gm_T_SelectPosition
      | R_SelectCards is \<Rightarrow> t = gm_T_SelectCard \<and> length is < 256
      | R_SelectUnselectCards _ \<Rightarrow> t = gm_T_SelectUnselectCard
      | R_SelectTribute is \<Rightarrow> t = gm_T_SelectTribute \<and> length is < 256
      | R_SelectSum is \<Rightarrow> t = gm_T_SelectSum \<and> length is < 256
      | R_SelectCounter _ \<Rightarrow> t = gm_T_SelectCounter
      | R_SelectPlace p l s \<Rightarrow>
          t \<in> {gm_T_SelectPlace, gm_T_SelectDisableField} \<and> \<not> (p = FirstAttackPlayer \<and> l = 0 \<and> s = 0)
      | R_DeclinePlace \<Rightarrow> t \<in> {gm_T_SelectPlace, gm_T_SelectDisableField}
      | R_SortCards _ \<Rightarrow> t = gm_T_SortCard
      | R_KeepCardOrder \<Rightarrow> t = gm_T_SortCard
      | R_AnnounceRace _ \<Rightarrow> t = gm_T_AnnounceRace
      | R_AnnounceAttribute _ \<Rightarrow> t = gm_T_AnnounceAttribute
      | R_AnnounceCard _ \<Rightarrow> t = gm_T_AnnounceCard
      | R_Unknown _ \<Rightarrow> False)"

lemma rd_map_whole: "rd bs = Some (x, r) \<Longrightarrow> rd_map f rd bs = Some (f x, r)"
  by (simp add: rd_map_def rd_bind_def)

lemma vec8_u16_whole: "length is < 256 \<Longrightarrow> rd_vec8 rd_u16 (wr_vec8 wr_u16 is) = Some (is, [])"
  using codec.rd_wr_whole [OF codec_vec8 [OF u16.codec_axioms]] by simp

lemma vec_u16_whole: "rd_until_eof rd_u16 (wr_vec wr_u16 is) = Some (is, [])"
  using u16.rd_until_eof_wr_vec [of "is" "[]"] by simp

lemma not_minus_one: "length bs \<noteq> 4 \<Longrightarrow> bs \<noteq> minus_one_bytes"
  by (auto simp: minus_one_bytes_def)

lemma wr_vec_u16_not_ff [simp]: "wr_vec wr_u16 is \<noteq> [b]"
proof
  assume "wr_vec wr_u16 is = [b]"
  then have "2 * length is = 1" using u16.length_wr_vec [of "is"] by simp
  then show False by presburger
qed

lemma vec8_not_minus_one [simp]: "wr_vec8 wr_u16 is \<noteq> minus_one_bytes"
proof
  assume "wr_vec8 wr_u16 is = minus_one_bytes"
  then have "length (wr_vec8 wr_u16 is) = length minus_one_bytes" by simp
  then have "2 * length is = 3" by (simp add: minus_one_bytes_def)
  then show False by presburger
qed

lemma rd_wr_place:
  "rd_place (wr_enum wr_u8 CorePlayer_repr p @ wr_u8 l @ wr_u8 s) =
     Some (if p = FirstAttackPlayer \<and> l = 0 \<and> s = 0 then R_DeclinePlace else R_SelectPlace p l s, [])"
  by (simp add: rd_place_def CorePlayer.enum.rd_bind_wr u8.rd_bind_wr u8.rd_bind_wr [where r = "[]", simplified])

lemma parse_place:
  "t = gm_T_SelectPlace \<or> t = gm_T_SelectDisableField \<Longrightarrow> PlayerResponse_parse t bs = rd_place bs"
  by (elim disjE) (simp_all add: PlayerResponse_parse_def)

lemma parse_unselect:
  "PlayerResponse_parse gm_T_SelectUnselectCard bs =
     (if bs = minus_one_bytes then Some (R_Cancel, bs) else rd_unselect bs)"
  by (simp add: PlayerResponse_parse_def)

section \<open>Properties\<close>

text \<open>The length a response announces is the number of bytes it is written as.\<close>

theorem PlayerResponse_len_correct: "PlayerResponse_len r = length (wr_PlayerResponse r)"
  by (rule PlayerResponse_len_wr)

text \<open>C24: The raw bytes of an answer are resolved by the prompt they belong to into the answer that was
  written, for every prompt and every answer to it; the parser tells a refusal from a choice.\<close>

theorem PlayerResponse_resolves:
  assumes "answers t r"
  shows "PlayerResponse_resolve t (R_Unknown (wr_PlayerResponse r)) = Some r"
proof (cases r)
  case (R_SelectPlace p l s)
  with assms have "t = gm_T_SelectPlace \<or> t = gm_T_SelectDisableField"
    and "\<not> (p = FirstAttackPlayer \<and> l = 0 \<and> s = 0)" by (simp_all add: answers_def)
  then show ?thesis by (simp only: R_SelectPlace PlayerResponse_resolve.simps parse_place
      wr_PlayerResponse.simps rd_wr_place if_False option.map fst_conv)
next
  case R_DeclinePlace
  with assms have "t = gm_T_SelectPlace \<or> t = gm_T_SelectDisableField" by (simp add: answers_def)
  moreover have "rd_place [0, 0, 0] = Some (R_DeclinePlace, [])"
    using rd_wr_place [of FirstAttackPlayer 0 0] by (simp add: wr_enum_def wr_u8_def)
  ultimately show ?thesis by (simp only: R_DeclinePlace PlayerResponse_resolve.simps parse_place
      wr_PlayerResponse.simps option.map fst_conv)
next
  case (R_SelectUnselectCards i)
  have "rd_unselect (wr_u8 1 @ wr_u16 i) = Some (r, [])"
    by (simp add: rd_unselect_def u8.rd_bind_wr R_SelectUnselectCards rd_map_whole u16.rd_wr_whole)
  with assms R_SelectUnselectCards show ?thesis
    by (simp add: answers_def parse_unselect not_minus_one)
next
  case R_KeepCardOrder
  with assms show ?thesis by (simp add: answers_def PlayerResponse_parse_def wr_u8_def)
next
  case (R_SelectIdleCommand c i)
  with assms show ?thesis
    by (simp add: answers_def PlayerResponse_parse_def rd_command_def IdleCommand.enum.rd_bind_wr
        u16.rd_bind_wr [where r = "[]", simplified])
next
  case (R_SelectBattleCommand c i)
  with assms show ?thesis
    by (simp add: answers_def PlayerResponse_parse_def rd_command_def BattleCommand.enum.rd_bind_wr
        u16.rd_bind_wr [where r = "[]", simplified])
qed (use assms in \<open>auto simp: answers_def PlayerResponse_parse_def not_minus_one minus_one_bytes_def
      [symmetric] rd_map_whole bool.rd_wr_whole u8.rd_wr_whole
      u32.rd_wr_whole vec8_u16_whole vec_u16_whole\<close>)

theorem PlayerResponse_resolves_witness:
  "PlayerResponse_resolve gm_T_SelectCard (R_Unknown (wr_PlayerResponse (R_SelectCards [1, 0]))) =
     Some (R_SelectCards [1, 0])"
  by (rule PlayerResponse_resolves) (simp add: answers_def)

end
