(* ===== verification/HostInfo.thy ===== *)
theory HostInfo
  imports Constants
begin

text \<open>
  The settings of a room (HostInfo of message/utils.rs), their defaults and their wire format.
\<close>

record HostInfo =
  hi_lflist :: u32
  hi_rule :: Rule
  hi_mode :: Mode
  hi_duel_rule :: MasterRule
  hi_no_check_deck :: bool
  hi_no_shuffle_deck :: bool
  hi_start_lp :: u32
  hi_start_hand :: u8
  hi_draw_count :: u8
  hi_time_limit :: u16

definition HostInfo_default :: HostInfo where
  "HostInfo_default =
     \<lparr> hi_lflist = 0, hi_rule = Rule_OCG, hi_mode = Mode_Match, hi_duel_rule = MasterRule_MasterRule2020,
       hi_no_check_deck = False, hi_no_shuffle_deck = False, hi_start_lp = 8000, hi_start_hand = 5,
       hi_draw_count = 1, hi_time_limit = 180 \<rparr>"

definition wr_HostInfo :: "HostInfo writer" where
  "wr_HostInfo h =
     wr_u32 (hi_lflist h) @ wr_enum wr_u8 Rule_repr (hi_rule h) @ wr_enum wr_u8 Mode_repr (hi_mode h) @
     wr_enum wr_u8 MasterRule_repr (hi_duel_rule h) @ wr_bool (hi_no_check_deck h) @
     wr_bool (hi_no_shuffle_deck h) @ wr_pad 3 @ wr_u32 (hi_start_lp h) @ wr_u8 (hi_start_hand h) @
     wr_u8 (hi_draw_count h) @ wr_u16 (hi_time_limit h)"

definition rd_HostInfo :: "HostInfo reader" where
  "rd_HostInfo =
     rd_bind rd_u32 (\<lambda>lflist.
     rd_bind (rd_enum rd_u8 Rule_repr Rule_all) (\<lambda>rule.
     rd_bind (rd_enum rd_u8 Mode_repr Mode_all) (\<lambda>mode.
     rd_bind (rd_enum rd_u8 MasterRule_repr MasterRule_all) (\<lambda>duel_rule.
     rd_bind rd_bool (\<lambda>no_check_deck.
     rd_bind rd_bool (\<lambda>no_shuffle_deck.
     rd_skip 3 (
     rd_bind rd_u32 (\<lambda>start_lp.
     rd_bind rd_u8 (\<lambda>start_hand.
     rd_bind rd_u8 (\<lambda>draw_count.
     rd_bind rd_u16 (\<lambda>time_limit.
     rd_return \<lparr> hi_lflist = lflist, hi_rule = rule, hi_mode = mode, hi_duel_rule = duel_rule,
       hi_no_check_deck = no_check_deck, hi_no_shuffle_deck = no_shuffle_deck, hi_start_lp = start_lp,
       hi_start_hand = start_hand, hi_draw_count = draw_count, hi_time_limit = time_limit \<rparr>)))))))))))"

lemma rd_wr_HostInfo: "rd_HostInfo (wr_HostInfo h @ r) = Some (h, r)"
  by (simp add: rd_HostInfo_def wr_HostInfo_def u32.rd_bind_wr Rule.enum.rd_bind_wr Mode.enum.rd_bind_wr
      MasterRule.enum.rd_bind_wr bool.rd_bind_wr u8.rd_bind_wr u16.rd_bind_wr)

interpretation host_info: codec wr_HostInfo rd_HostInfo always
  by unfold_locales (rule rd_wr_HostInfo)

end
