(* ===== verification/Replay.thy ===== *)
theory Replay
  imports WireString PlayerResponse HostInfo Deck
begin

text \<open>
  Replay files (data/replay.rs): the header, the body with the decks and the answers of the players,
  the size of the body, and the format of the file.

  The body of a compressed replay goes through LZMA, which the crate lzma rs does: the parameter
  compress is what its encoder emits, five bytes of properties and the data, and the parameter
  decompress is what its decoder returns for a size and such an input. What is relied on is that
  the decoder inverts the encoder and that the encoder uses its documented properties.
\<close>

datatype ReplayHeaderFlags = RHF_Compressed | RHF_Tag | RHF_Decode | RHF_SingleMode | RHF_Uniform

fun RHF_bits :: "ReplayHeaderFlags \<Rightarrow> u32" where
    "RHF_bits RHF_Compressed = 1"
  | "RHF_bits RHF_Tag = 2"
  | "RHF_bits RHF_Decode = 4"
  | "RHF_bits RHF_SingleMode = 8"
  | "RHF_bits RHF_Uniform = 16"

datatype DuelOptions =
    DO_TestMode | DO_AttackFirstTurn | DO_OldReplay | DO_ObsoleteRuling | DO_PseudoShuffle | DO_TagMode
  | DO_SimpleAI | DO_ReturnDeckTop | DO_RevealDeckSequence

fun DO_bits :: "DuelOptions \<Rightarrow> u16" where
    "DO_bits DO_TestMode = 0x1"
  | "DO_bits DO_AttackFirstTurn = 0x2"
  | "DO_bits DO_OldReplay = 0x4"
  | "DO_bits DO_ObsoleteRuling = 0x8"
  | "DO_bits DO_PseudoShuffle = 0x10"
  | "DO_bits DO_TagMode = 0x20"
  | "DO_bits DO_SimpleAI = 0x40"
  | "DO_bits DO_ReturnDeckTop = 0x80"
  | "DO_bits DO_RevealDeckSequence = 0x100"

definition ReplayVersion_V1 :: u32 where
  "ReplayVersion_V1 = 0x31707279"

definition ReplayVersion_V2 :: u32 where
  "ReplayVersion_V2 = 0x32707279"

record ReplayHeader =
  rh_id :: u32
  rh_version :: u32
  rh_flag :: u32
  rh_seed :: u32
  rh_data_size :: u32
  rh_start_time :: u32
  rh_props :: bytes
  rh_seed_sequence :: "u32 list"
  rh_header_version :: u32
  rh_reserved :: "u32 list"

definition is_compressed :: "ReplayHeader \<Rightarrow> bool" where
  "is_compressed h \<longleftrightarrow> contains (rh_flag h) (RHF_bits RHF_Compressed)"

definition is_tag :: "ReplayHeader \<Rightarrow> bool" where
  "is_tag h \<longleftrightarrow> contains (rh_flag h) (RHF_bits RHF_Tag)"

definition wr_ReplayHeader :: "ReplayHeader writer" where
  "wr_ReplayHeader h =
     wr_u32 (rh_id h) @ wr_u32 (rh_version h) @ wr_u32 (rh_flag h) @ wr_u32 (rh_seed h) @
     wr_u32 (rh_data_size h) @ wr_u32 (rh_start_time h) @ wr_vec wr_u8 (rh_props h) @
     (if rh_id h = ReplayVersion_V2
      then wr_vec wr_u32 (rh_seed_sequence h) @ wr_u32 (rh_header_version h) @ wr_vec wr_u32 (rh_reserved h)
      else [])"

definition rd_ReplayHeader :: "ReplayHeader reader" where
  "rd_ReplayHeader =
     rd_bind rd_u32 (\<lambda>id.
     rd_bind rd_u32 (\<lambda>version.
     rd_bind rd_u32 (\<lambda>flag.
     rd_bind rd_u32 (\<lambda>seed.
     rd_bind rd_u32 (\<lambda>data_size.
     rd_bind rd_u32 (\<lambda>start_time.
     rd_bind (rd_count rd_u8 8) (\<lambda>props.
     rd_bind (rd_if (id = ReplayVersion_V2) (rd_count rd_u32 8) (replicate 8 0)) (\<lambda>seed_sequence.
     rd_bind (rd_if (id = ReplayVersion_V2) rd_u32 0) (\<lambda>header_version.
     rd_bind (rd_if (id = ReplayVersion_V2) (rd_count rd_u32 3) (replicate 3 0)) (\<lambda>reserved.
     rd_return \<lparr> rh_id = id, rh_version = version, rh_flag = flag, rh_seed = seed, rh_data_size = data_size,
       rh_start_time = start_time, rh_props = props, rh_seed_sequence = seed_sequence,
       rh_header_version = header_version, rh_reserved = reserved \<rparr>))))))))))"

record ReplayDeck =
  rdk_main :: "u32 list"
  rdk_extra :: "u32 list"

definition ReplayDeck_default :: ReplayDeck where
  "ReplayDeck_default = \<lparr> rdk_main = [], rdk_extra = [] \<rparr>"

definition ReplayDeck_from_Deck :: "Deck \<Rightarrow> ReplayDeck" where
  "ReplayDeck_from_Deck d = \<lparr> rdk_main = rev (dk_main d), rdk_extra = rev (dk_extra d) \<rparr>"

definition Deck_from_ReplayDeck :: "ReplayDeck \<Rightarrow> Deck" where
  "Deck_from_ReplayDeck d = \<lparr> dk_main = rev (rdk_main d), dk_side = [], dk_extra = rev (rdk_extra d) \<rparr>"

definition wr_ReplayDeck :: "ReplayDeck writer" where
  "wr_ReplayDeck d = wr_vec32 wr_u32 (rdk_main d) @ wr_vec32 wr_u32 (rdk_extra d)"

definition rd_ReplayDeck :: "ReplayDeck reader" where
  "rd_ReplayDeck =
     rd_bind (rd_vec32 rd_u32) (\<lambda>main. rd_bind (rd_vec32 rd_u32) (\<lambda>extra.
     rd_return \<lparr> rdk_main = main, rdk_extra = extra \<rparr>))"

type_synonym ReplayData = PlayerResponse

definition wr_ReplayData :: "ReplayData writer" where
  "wr_ReplayData d = wr_u8 (of_nat (PlayerResponse_len d)) @ wr_PlayerResponse d"

definition rd_ReplayData :: "ReplayData reader" where
  "rd_ReplayData = rd_bind rd_u8 (\<lambda>n. rd_bind (rd_count rd_u8 (unat n)) (\<lambda>bs. rd_return (R_Unknown bs)))"

record ReplayBody =
  rb_host_name :: FixedLengthString
  rb_tag_host_name :: "FixedLengthString option"
  rb_tag_client_name :: "FixedLengthString option"
  rb_client_name :: FixedLengthString
  rb_start_lp :: u32
  rb_start_hand :: u32
  rb_draw_count :: u32
  rb_duel_options :: u16
  rb_duel_rule :: u16
  rb_host_deck :: ReplayDeck
  rb_tag_host_deck :: "ReplayDeck option"
  rb_client_deck :: ReplayDeck
  rb_tag_client_deck :: "ReplayDeck option"
  rb_datas :: "ReplayData list"

fun wr_option :: "'a writer \<Rightarrow> 'a option writer" where
    "wr_option wr None = []"
  | "wr_option wr (Some x) = wr x"

definition wr_ReplayBody :: "ReplayHeader \<Rightarrow> ReplayBody writer" where
  "wr_ReplayBody h b =
     wr_FixedLengthString (rb_host_name b) @
     (if is_tag h then wr_option wr_FixedLengthString (rb_tag_host_name b) else []) @
     (if is_tag h then wr_option wr_FixedLengthString (rb_tag_client_name b) else []) @
     wr_FixedLengthString (rb_client_name b) @ wr_u32 (rb_start_lp b) @ wr_u32 (rb_start_hand b) @
     wr_u32 (rb_draw_count b) @ wr_u16 (rb_duel_options b) @ wr_u16 (rb_duel_rule b) @
     wr_ReplayDeck (rb_host_deck b) @
     (if is_tag h then wr_option wr_ReplayDeck (rb_tag_host_deck b) else []) @
     wr_ReplayDeck (rb_client_deck b) @
     (if is_tag h then wr_option wr_ReplayDeck (rb_tag_client_deck b) else []) @
     wr_vec wr_ReplayData (rb_datas b)"

definition rd_some :: "'a reader \<Rightarrow> 'a option reader" where
  "rd_some rd = rd_bind rd (\<lambda>x. rd_return (Some x))"

definition rd_ReplayBody :: "ReplayHeader \<Rightarrow> ReplayBody reader" where
  "rd_ReplayBody h =
     rd_bind (rd_FixedLengthString 20) (\<lambda>host_name.
     rd_bind (rd_if (is_tag h) (rd_some (rd_FixedLengthString 20)) None) (\<lambda>tag_host_name.
     rd_bind (rd_if (is_tag h) (rd_some (rd_FixedLengthString 20)) None) (\<lambda>tag_client_name.
     rd_bind (rd_FixedLengthString 20) (\<lambda>client_name.
     rd_bind rd_u32 (\<lambda>start_lp.
     rd_bind rd_u32 (\<lambda>start_hand.
     rd_bind rd_u32 (\<lambda>draw_count.
     rd_bind rd_u16 (\<lambda>duel_options.
     rd_bind rd_u16 (\<lambda>duel_rule.
     rd_bind rd_ReplayDeck (\<lambda>host_deck.
     rd_bind (rd_if (is_tag h) (rd_some rd_ReplayDeck) None) (\<lambda>tag_host_deck.
     rd_bind rd_ReplayDeck (\<lambda>client_deck.
     rd_bind (rd_if (is_tag h) (rd_some rd_ReplayDeck) None) (\<lambda>tag_client_deck.
     rd_bind (rd_until_eof rd_ReplayData) (\<lambda>datas.
     rd_return \<lparr> rb_host_name = host_name, rb_tag_host_name = tag_host_name,
       rb_tag_client_name = tag_client_name, rb_client_name = client_name, rb_start_lp = start_lp,
       rb_start_hand = start_hand, rb_draw_count = draw_count, rb_duel_options = duel_options,
       rb_duel_rule = duel_rule, rb_host_deck = host_deck, rb_tag_host_deck = tag_host_deck,
       rb_client_deck = client_deck, rb_tag_client_deck = tag_client_deck, rb_datas = datas \<rparr>))))))))))))))"

record Replay =
  rp_header :: ReplayHeader
  rp_body :: ReplayBody

section \<open>The size of the body\<close>

definition deck_size :: "ReplayDeck \<Rightarrow> u32" where
  "deck_size d = 4 + len32 (rdk_main d) * 4 + 4 + len32 (rdk_extra d) * 4"

definition body_size :: "ReplayHeader \<Rightarrow> ReplayBody \<Rightarrow> u32" where
  "body_size h b =
     (let size = 40 + 40 + 4 + 4 + 4 + 2 + 2 + deck_size (rb_host_deck b) + deck_size (rb_client_deck b) +
            sum_list (map (\<lambda>d. 1 + of_nat (PlayerResponse_len d)) (rb_datas b))
      in if is_tag h
         then size + 40 + 40 +
           (case rb_tag_host_deck b of None \<Rightarrow> 0 | Some d \<Rightarrow> deck_size d) +
           (case rb_tag_client_deck b of None \<Rightarrow> 0 | Some d \<Rightarrow> deck_size d)
         else size)"

definition Replay_fill_data_size :: "Replay \<Rightarrow> Replay" where
  "Replay_fill_data_size r =
     r \<lparr> rp_header := rp_header r \<lparr> rh_data_size := body_size (rp_header r) (rp_body r) \<rparr> \<rparr>"

section \<open>The settings of a replay\<close>

definition Replay_duel_rule :: "Replay \<Rightarrow> MasterRule" where
  "Replay_duel_rule r =
     (if contains (rb_duel_options (rp_body r)) (DO_bits DO_ObsoleteRuling) then MasterRule_MasterRule1
      else case try_from MasterRule_repr MasterRule_all (ucast (rb_duel_rule (rp_body r))) of
             Some m \<Rightarrow> m | None \<Rightarrow> MasterRule_MasterRule1)"

definition Replay_is_tag :: "Replay \<Rightarrow> bool" where
  "Replay_is_tag r \<longleftrightarrow> contains (rb_duel_options (rp_body r)) (DO_bits DO_TagMode)"

definition Replay_mode :: "Replay \<Rightarrow> Mode" where
  "Replay_mode r = (if Replay_is_tag r then Mode_Tag else Mode_Single)"

definition Replay_no_shuffle_deck :: "Replay \<Rightarrow> bool" where
  "Replay_no_shuffle_deck r \<longleftrightarrow> contains (rb_duel_options (rp_body r)) (DO_bits DO_PseudoShuffle)"

definition Replay_host_info :: "Replay \<Rightarrow> HostInfo" where
  "Replay_host_info r =
     \<lparr> hi_lflist = 999, hi_rule = Rule_OCG, hi_mode = Replay_mode r, hi_duel_rule = Replay_duel_rule r,
       hi_no_check_deck = True, hi_no_shuffle_deck = Replay_no_shuffle_deck r,
       hi_start_lp = rb_start_lp (rp_body r), hi_start_hand = ucast (rb_start_hand (rp_body r)),
       hi_draw_count = ucast (rb_draw_count (rp_body r)), hi_time_limit = 0 \<rparr>"

section \<open>The file\<close>

definition wr_Replay :: "(bytes \<Rightarrow> bytes) \<Rightarrow> Replay writer" where
  "wr_Replay compress r =
     (let body = wr_ReplayBody (rp_header r) (rp_body r)
      in wr_ReplayHeader (rp_header r) @
         (if is_compressed (rp_header r) then drop 5 (compress body) else body))"

definition rd_Replay :: "(nat \<Rightarrow> bytes \<Rightarrow> bytes option) \<Rightarrow> Replay reader" where
  "rd_Replay decompress =
     rd_bind rd_ReplayHeader (\<lambda>h content.
       case (if is_compressed h then decompress (unat (rh_data_size h)) (take 5 (rh_props h) @ content)
             else Some content) of
         None \<Rightarrow> None
       | Some body \<Rightarrow> rd_bind (rd_ReplayBody h) (\<lambda>b _. Some (\<lparr> rp_header = h, rp_body = b \<rparr>, [])) body)"

section \<open>Lemmas\<close>

definition valid_ReplayHeader :: "ReplayHeader \<Rightarrow> bool" where
  "valid_ReplayHeader h \<longleftrightarrow>
     length (rh_props h) = 8 \<and>
     (if rh_id h = ReplayVersion_V2 then length (rh_seed_sequence h) = 8 \<and> length (rh_reserved h) = 3
      else rh_seed_sequence h = replicate 8 0 \<and> rh_header_version h = 0 \<and> rh_reserved h = replicate 3 0)"

definition valid_ReplayDeck :: "ReplayDeck \<Rightarrow> bool" where
  "valid_ReplayDeck d \<longleftrightarrow> length (rdk_main d) < 2 ^ 32 \<and> length (rdk_extra d) < 2 ^ 32"

fun valid_option :: "bool \<Rightarrow> ('a \<Rightarrow> bool) \<Rightarrow> 'a option \<Rightarrow> bool" where
    "valid_option b v None \<longleftrightarrow> \<not> b"
  | "valid_option b v (Some x) \<longleftrightarrow> b \<and> v x"

definition fits_name :: "FixedLengthString \<Rightarrow> bool" where
  "fits_name s \<longleftrightarrow> length (fls_data s) = 20"

definition valid_ReplayBody :: "ReplayHeader \<Rightarrow> ReplayBody \<Rightarrow> bool" where
  "valid_ReplayBody h b \<longleftrightarrow>
     fits_name (rb_host_name b) \<and> fits_name (rb_client_name b) \<and>
     valid_option (is_tag h) fits_name (rb_tag_host_name b) \<and>
     valid_option (is_tag h) fits_name (rb_tag_client_name b) \<and>
     valid_ReplayDeck (rb_host_deck b) \<and> valid_ReplayDeck (rb_client_deck b) \<and>
     valid_option (is_tag h) valid_ReplayDeck (rb_tag_host_deck b) \<and>
     valid_option (is_tag h) valid_ReplayDeck (rb_tag_client_deck b) \<and>
     (\<forall>d \<in> set (rb_datas b). PlayerResponse_len d < 256)"

text \<open>What a body is after it has been written and read: the names without their cached text, the
  responses as raw bytes.\<close>

definition raw_body :: "ReplayBody \<Rightarrow> ReplayBody" where
  "raw_body b = b
     \<lparr> rb_host_name := forget_str (rb_host_name b), rb_client_name := forget_str (rb_client_name b),
       rb_tag_host_name := map_option forget_str (rb_tag_host_name b),
       rb_tag_client_name := map_option forget_str (rb_tag_client_name b),
       rb_datas := map (\<lambda>d. R_Unknown (wr_PlayerResponse d)) (rb_datas b) \<rparr>"

lemma rd_bind_name:
  "fits_name s \<Longrightarrow> rd_bind (rd_FixedLengthString 20) f (wr_FixedLengthString s @ r) = f (forget_str s) r"
  by (simp add: rd_bind_def rd_wr_FixedLengthString fits_name_def)

lemma rd_bind_tag_name:
  "valid_option t fits_name s \<Longrightarrow>
   rd_bind (rd_if t (rd_some (rd_FixedLengthString 20)) None) f
     ((if t then wr_option wr_FixedLengthString s else []) @ r) = f (map_option forget_str s) r"
  by (cases s) (simp_all add: rd_bind_def rd_if_def rd_some_def rd_wr_FixedLengthString fits_name_def)

interpretation ReplayDeck: codec wr_ReplayDeck rd_ReplayDeck valid_ReplayDeck
proof
  fix d r assume v: "valid_ReplayDeck d"
  note b = codec.rd_bind_wr [OF codec_vec32 [OF u32.codec_axioms]]
  show "rd_ReplayDeck (wr_ReplayDeck d @ r) = Some (d, r)"
    using v by (simp add: wr_ReplayDeck_def rd_ReplayDeck_def valid_ReplayDeck_def b)
qed

lemma rd_bind_tag_deck:
  "valid_option t valid_ReplayDeck d \<Longrightarrow>
   rd_bind (rd_if t (rd_some rd_ReplayDeck) None) f
     ((if t then wr_option wr_ReplayDeck d else []) @ r) = f d r"
  by (cases d) (simp_all add: rd_bind_def rd_if_def rd_some_def ReplayDeck.rd_wr)

lemma wr_vec_u8 [simp]: "wr_vec wr_u8 bs = bs"
  by (induction bs) (simp_all add: wr_u8_def)

lemma rd_count_u8: "n = length bs \<Longrightarrow> rd_count rd_u8 n (bs @ r) = Some (bs, r)"
  using u8.rd_count_wr_vec [of bs r] by simp

lemma rd_bind_count_u8: "n = length bs \<Longrightarrow> rd_bind (rd_count rd_u8 n) f (bs @ r) = f bs r"
  by (simp add: rd_bind_def rd_count_u8)

lemma rd_wr_ReplayData:
  assumes "PlayerResponse_len d < 256"
  shows "rd_ReplayData (wr_ReplayData d @ r) = Some (R_Unknown (wr_PlayerResponse d), r)"
proof -
  have "unat (of_nat (PlayerResponse_len d) :: u8) = length (wr_PlayerResponse d)"
    using assms of_nat_word_id [where 'a = 8, of "PlayerResponse_len d"] by (simp add: PlayerResponse_len_wr)
  then show ?thesis
    by (simp add: rd_ReplayData_def wr_ReplayData_def u8.rd_bind_wr rd_bind_count_u8)
qed

lemma rd_datas:
  assumes "\<forall>d \<in> set ds. PlayerResponse_len d < 256"
  shows "rd_until_eof rd_ReplayData (wr_vec wr_ReplayData ds) = Some (map (\<lambda>d. R_Unknown (wr_PlayerResponse d)) ds, [])"
proof -
  let ?raw = "\<lambda>d. R_Unknown (wr_PlayerResponse d)"
  have w: "wr_ReplayData (?raw d) = wr_ReplayData d" for d
    by (simp add: wr_ReplayData_def PlayerResponse_len_wr)
  then have "wr_vec wr_ReplayData ds = wr_vec wr_ReplayData (map ?raw ds)" by (induction ds) simp_all
  moreover have "codec wr_ReplayData rd_ReplayData (\<lambda>d. \<exists>bs. d = R_Unknown bs \<and> length bs < 256)"
    by unfold_locales (use rd_wr_ReplayData in force)
  then have "rd_until_eof rd_ReplayData (wr_vec wr_ReplayData (map ?raw ds)) = Some (map ?raw ds, [])"
    using assms by (intro codec.rd_until_eof_whole)
      (auto simp: PlayerResponse_len_wr wr_ReplayData_def rd_ReplayData_def rd_bind_def wr_u8_def)
  ultimately show ?thesis by simp
qed

lemma rd_wr_ReplayHeader:
  "valid_ReplayHeader h \<Longrightarrow> rd_ReplayHeader (wr_ReplayHeader h @ r) = Some (h, r)"
  by (cases "rh_id h = ReplayVersion_V2")
     (simp_all add: rd_ReplayHeader_def wr_ReplayHeader_def valid_ReplayHeader_def u32.rd_bind_wr
        rd_if_def rd_bind_count_u8 u32.rd_bind_count del: replicate.simps)

lemma rd_wr_ReplayBody:
  assumes "valid_ReplayBody h b"
  shows "rd_ReplayBody h (wr_ReplayBody h b) = Some (raw_body b, [])"
  using assms unfolding valid_ReplayBody_def
  by (simp add: rd_ReplayBody_def wr_ReplayBody_def rd_bind_name rd_bind_tag_name rd_bind_tag_deck
      u32.rd_bind_wr u16.rd_bind_wr ReplayDeck.rd_bind_wr)
     (simp add: rd_bind_def rd_datas raw_body_def)

lemma length_wr_ReplayDeck: "of_nat (length (wr_ReplayDeck d)) = deck_size d"
  by (simp add: wr_ReplayDeck_def wr_vec32_def deck_size_def len32_def)

lemma length_wr_vec_datas:
  "of_nat (length (wr_vec wr_ReplayData ds)) = (sum_list (map (\<lambda>d. 1 + of_nat (PlayerResponse_len d)) ds) :: u32)"
  by (induction ds) (simp_all add: wr_ReplayData_def PlayerResponse_len_wr)

lemma length_wr_option:
  "of_nat (length (wr_option wr_ReplayDeck d)) = (case d of None \<Rightarrow> 0 | Some d \<Rightarrow> deck_size d)"
  by (cases d) (simp_all add: length_wr_ReplayDeck)

lemma length_wr_name: "fits_name s \<Longrightarrow> length (wr_FixedLengthString s) = 40"
  by (simp add: wr_FixedLengthString_def fits_name_def)

lemma length_wr_tag_name:
  "valid_option True fits_name s \<Longrightarrow> length (wr_option wr_FixedLengthString s) = 40"
  by (cases s) (simp_all add: length_wr_name)

lemma body_size_correct:
  assumes "valid_ReplayBody h b"
  shows "body_size h b = of_nat (length (wr_ReplayBody h b))"
  using assms unfolding valid_ReplayBody_def
  by (cases "is_tag h") (simp_all add: body_size_def Let_def wr_ReplayBody_def length_wr_name length_wr_tag_name
      length_wr_ReplayDeck length_wr_vec_datas length_wr_option)

lemma is_tag_data_size [simp]:
  "is_tag (h \<lparr> rh_data_size := n \<rparr>) = is_tag h" "is_compressed (h \<lparr> rh_data_size := n \<rparr>) = is_compressed h"
  "valid_ReplayHeader (h \<lparr> rh_data_size := n \<rparr>) = valid_ReplayHeader h"
  "wr_ReplayBody (h \<lparr> rh_data_size := n \<rparr>) b = wr_ReplayBody h b"
  "valid_ReplayBody (h \<lparr> rh_data_size := n \<rparr>) b = valid_ReplayBody h b"
  by (simp_all add: is_tag_def is_compressed_def valid_ReplayHeader_def wr_ReplayBody_def valid_ReplayBody_def)

text \<open>The encoder and the decoder as they are documented: the encoder starts with the properties of
  its default settings, and the decoder, told the size, inverts it.\<close>

definition lzma :: "(bytes \<Rightarrow> bytes) \<Rightarrow> (nat \<Rightarrow> bytes \<Rightarrow> bytes option) \<Rightarrow> bool" where
  "lzma compress decompress \<longleftrightarrow>
     (\<forall>bs. take 5 (compress bs) = [93, 0, 0, 128, 0] \<and> decompress (length bs) (compress bs) = Some bs)"

section \<open>Properties\<close>

text \<open>C25: The size filled into the header is the number of bytes of the uncompressed body, and a replay
  file, compressed or not, is read back as the replay that was written: the header, the decks and
  the settings are the same, the names lose nothing but their cached text, and the answers come
  back as their raw bytes. An answer of 256 bytes or more is excluded: its length does not fit.\<close>

theorem Replay_file_roundtrip:
  assumes "valid_ReplayHeader (rp_header r)" and "valid_ReplayBody (rp_header r) (rp_body r)"
    and "length (wr_ReplayBody (rp_header r) (rp_body r)) < 2 ^ 32"
    and "take 5 (rh_props (rp_header r)) = [93, 0, 0, 128, 0]" and "lzma compress decompress"
  defines "f \<equiv> Replay_fill_data_size r"
  shows "unat (rh_data_size (rp_header f)) = length (wr_ReplayBody (rp_header r) (rp_body r)) \<and>
    rd_Replay decompress (wr_Replay compress f) = Some (f \<lparr> rp_body := raw_body (rp_body r) \<rparr>, [])"
proof -
  let ?h = "rp_header f" and ?b = "wr_ReplayBody (rp_header r) (rp_body r)"
  have h: "?h = rp_header r \<lparr> rh_data_size := body_size (rp_header r) (rp_body r) \<rparr>" and b: "rp_body f = rp_body r"
    by (simp_all add: f_def Replay_fill_data_size_def)
  have size: "unat (rh_data_size ?h) = length ?b"
    using assms(3) of_nat_word_id [where 'a = 32, of "length ?b"] by (simp add: h body_size_correct [OF assms(2)])
  have hdr: "rd_bind rd_ReplayHeader g (wr_ReplayHeader ?h @ c) = g ?h c" for g :: "ReplayHeader \<Rightarrow> 'a reader" and c
    using assms(1) by (simp add: rd_bind_def rd_wr_ReplayHeader h)
  have lz: "decompress (length ?b) ([93, 0, 0, 128, 0] @ drop 5 (compress ?b)) = Some ?b"
    using assms(5) append_take_drop_id [of 5 "compress ?b"] unfolding lzma_def by metis
  have "rd_ReplayBody ?h ?b = Some (raw_body (rp_body r), [])"
    using rd_wr_ReplayBody [of ?h "rp_body r"] assms(2) by (simp add: h)
  then have body: "rd_bind (rd_ReplayBody ?h) (\<lambda>b _. Some (\<lparr> rp_header = ?h, rp_body = b \<rparr>, [])) ?b =
      Some (f \<lparr> rp_body := raw_body (rp_body r) \<rparr>, [])"
    by (simp add: rd_bind_def Replay.equality)
  have w: "wr_Replay compress f = wr_ReplayHeader ?h @ (if is_compressed ?h then drop 5 (compress ?b) else ?b)"
    by (simp add: wr_Replay_def Let_def b) (simp add: h)
  have "rd_Replay decompress (wr_Replay compress f) = Some (f \<lparr> rp_body := raw_body (rp_body r) \<rparr>, [])"
    unfolding w rd_Replay_def hdr
    using lz body assms(4) size by (cases "is_compressed ?h") (simp_all add: h)
  with size show ?thesis by blast
qed

section \<open>Witness\<close>

definition sample_replay :: Replay where
  "sample_replay =
     \<lparr> rp_header = \<lparr> rh_id = ReplayVersion_V2, rh_version = 0x1362, rh_flag = 17, rh_seed = 0, rh_data_size = 0,
         rh_start_time = 1234567890, rh_props = [93, 0, 0, 128, 0, 0, 0, 0],
         rh_seed_sequence = [1, 2, 3, 4, 5, 6, 7, 8], rh_header_version = 1, rh_reserved = [0, 0, 0] \<rparr>,
       rp_body = \<lparr> rb_host_name = FixedLengthString_allocate 20, rb_tag_host_name = None, rb_tag_client_name = None,
         rb_client_name = FixedLengthString_allocate 20, rb_start_lp = 8000, rb_start_hand = 5,
         rb_draw_count = 1, rb_duel_options = 0, rb_duel_rule = 5, rb_host_deck = \<lparr> rdk_main = [7], rdk_extra = [] \<rparr>,
         rb_tag_host_deck = None, rb_client_deck = ReplayDeck_default, rb_tag_client_deck = None,
         rb_datas = [R_SelectYesNo True, R_Unknown [1, 2, 3]] \<rparr> \<rparr>"

definition sample_compress :: "bytes \<Rightarrow> bytes" where
  "sample_compress bs = [93, 0, 0, 128, 0] @ bs"

definition sample_decompress :: "nat \<Rightarrow> bytes \<Rightarrow> bytes option" where
  "sample_decompress n bs = (if length bs = n + 5 then Some (drop 5 bs) else None)"

theorem Replay_file_roundtrip_witness:
  "unat (rh_data_size (rp_header (Replay_fill_data_size sample_replay))) = 122 \<and>
   rd_Replay sample_decompress (wr_Replay sample_compress (Replay_fill_data_size sample_replay)) =
     Some (Replay_fill_data_size sample_replay \<lparr> rp_body := raw_body (rp_body sample_replay) \<rparr>, [])"
proof -
  let ?h = "rp_header sample_replay" and ?b = "rp_body sample_replay"
  have v: "valid_ReplayBody ?h ?b" and l: "length (wr_ReplayBody ?h ?b) = 122"
    by (simp_all add: valid_ReplayBody_def wr_ReplayBody_def sample_replay_def fits_name_def valid_ReplayDeck_def
        FixedLengthString_allocate_def ReplayDeck_default_def wr_FixedLengthString_def wr_ReplayDeck_def
        wr_vec32_def wr_ReplayData_def wr_bool_def is_tag_def contains_def)
  have "valid_ReplayHeader ?h" and "take 5 (rh_props ?h) = [93, 0, 0, 128, 0]"
    by (simp_all add: valid_ReplayHeader_def sample_replay_def)
  moreover have "lzma sample_compress sample_decompress"
    by (simp add: lzma_def sample_compress_def sample_decompress_def)
  ultimately show ?thesis
    using Replay_file_roundtrip [of sample_replay sample_compress sample_decompress] v l by simp
qed

end
