(* ===== verification/GameMessage.thy ===== *)
theory GameMessage
  imports CardQuery Replay
begin

text \<open>
  The messages of the core (game\_message.rs): a record for every struct, the enumeration that
  joins them, and the trait GameMessage, which says what of a message a player must not see
  (should mask), how the copy for such a player is made (mask), and whose answer a prompt waits for.

  The fields of a record are those of the struct, prefixed with its name, without the sizes that
  are computed when the message is written. A Rust string that is sent as UTF-8 is the list of its
  bytes.
\<close>

section \<open>Structs\<close>

text \<open>The player in the low four bits, the observer flag in bit 4.\<close>

type_synonym PlayerType = u8

definition PlayerType_new :: PlayerType where
  "PlayerType_new = 0"

definition PlayerType_with_player :: "CorePlayer \<Rightarrow> PlayerType \<Rightarrow> PlayerType" where
  "PlayerType_with_player p b = push_bit 4 (drop_bit 4 b) OR CorePlayer_repr p"

definition PlayerType_with_is_observer :: "bool \<Rightarrow> PlayerType \<Rightarrow> PlayerType" where
  "PlayerType_with_is_observer o' b = (if o' then set_bit 4 b else unset_bit 4 b)"

definition PlayerType_player :: "PlayerType \<Rightarrow> CorePlayer res" where
  "PlayerType_player b = get_field (try_from CorePlayer_repr CorePlayer_all (take_bit 4 b))"

definition PlayerType_is_observer :: "PlayerType \<Rightarrow> bool" where
  "PlayerType_is_observer b \<longleftrightarrow> bit b 4"

record gm_Chain =
  gm_Chain_flag :: u8
  gm_Chain_forced :: bool
  gm_Chain_code :: CardCode
  gm_Chain_location :: InfoLocation
  gm_Chain_description :: i32

record gm_ChainLink =
  gm_ChainLink_code :: u32
  gm_ChainLink_card_position :: CardPosition
  gm_ChainLink_controller :: CorePlayer
  gm_ChainLink_location :: u8
  gm_ChainLink_sequence :: i8
  gm_ChainLink_description :: u32

record MzoneSlot =
  mz_occupied :: u8
  mz_position :: u8
  mz_xyz_count :: u8

record SzonaSlot =
  sz_occupied :: u8
  sz_position :: u8

record gm_PlayerField =
  gm_PlayerField_lp :: i32
  gm_PlayerField_mzone :: "MzoneSlot list"
  gm_PlayerField_szone :: "SzonaSlot list"
  gm_PlayerField_main_count :: u8
  gm_PlayerField_hand_count :: u8
  gm_PlayerField_grave_count :: u8
  gm_PlayerField_remove_count :: u8
  gm_PlayerField_extra_count :: u8
  gm_PlayerField_extra_p_count :: u8

record gm_Hint =
  gm_Hint_type :: Hint
  gm_Hint_player :: CorePlayer
  gm_Hint_data :: i32

record gm_Start =
  gm_Start_player_type :: PlayerType
  gm_Start_rule :: MasterRule
  gm_Start_player1_lp :: i32
  gm_Start_player2_lp :: i32
  gm_Start_player1_deck_count :: u16
  gm_Start_player1_extra_count :: u16
  gm_Start_player2_deck_count :: u16
  gm_Start_player2_extra_count :: u16

record gm_Win =
  gm_Win_winner :: CorePlayer
  gm_Win_reason :: WinReason

record gm_UpdateData =
  gm_UpdateData_player :: CorePlayer
  gm_UpdateData_location :: u8
  gm_UpdateData_data :: "UpdateCardInfo list"

record gm_UpdateCard =
  gm_UpdateCard_position :: CardPosition
  gm_UpdateCard_data :: UpdateCardInfo

record gm_SelectBattleCommand =
  gm_SelectBattleCommand_selecting_player :: CorePlayer
  gm_SelectBattleCommand_activatable_cards :: "CardPosition list"
  gm_SelectBattleCommand_attackable_cards :: "(CardPosition \<times> i8) list"
  gm_SelectBattleCommand_can_enter_m2 :: bool
  gm_SelectBattleCommand_can_enter_ep :: bool

record gm_SelectIdleCommand =
  gm_SelectIdleCommand_selecting_player :: CorePlayer
  gm_SelectIdleCommand_summonable_cards :: "CardPosition list"
  gm_SelectIdleCommand_special_summonable_cards :: "CardPosition list"
  gm_SelectIdleCommand_repositionable_cards :: "CardPosition list"
  gm_SelectIdleCommand_m_setable_cards :: "CardPosition list"
  gm_SelectIdleCommand_s_setable_cards :: "CardPosition list"
  gm_SelectIdleCommand_activatable_cards :: "CardPosition list"
  gm_SelectIdleCommand_can_enter_bp :: bool
  gm_SelectIdleCommand_can_enter_ep :: bool
  gm_SelectIdleCommand_can_shuffle_hand :: bool

record gm_SelectEffectYesNo =
  gm_SelectEffectYesNo_selecting_player :: CorePlayer
  gm_SelectEffectYesNo_code :: CardCode
  gm_SelectEffectYesNo_card_position :: InfoLocation
  gm_SelectEffectYesNo_description :: i32

record gm_SelectYesNo =
  gm_SelectYesNo_selecting_player :: CorePlayer
  gm_SelectYesNo_description :: i32

record gm_SelectOption =
  gm_SelectOption_selecting_player :: CorePlayer
  gm_SelectOption_options :: "i32 list"

record gm_SelectCard =
  gm_SelectCard_selecting_player :: CorePlayer
  gm_SelectCard_select_cancelable :: bool
  gm_SelectCard_select_min :: u8
  gm_SelectCard_select_max :: u8
  gm_SelectCard_positions :: "(CardCode \<times> InfoLocation) list"

record gm_SelectChain =
  gm_SelectChain_selecting_player :: CorePlayer
  gm_SelectChain_special_count :: u8
  gm_SelectChain_hint0 :: i32
  gm_SelectChain_hint1 :: i32
  gm_SelectChain_activatable_cards :: "gm_Chain list"

record gm_SelectPlace =
  gm_SelectPlace_selecting_player :: CorePlayer
  gm_SelectPlace_count :: u8
  gm_SelectPlace_unselectable_field :: i32

record gm_SelectPosition =
  gm_SelectPosition_selecting_player :: CorePlayer
  gm_SelectPosition_code :: u32
  gm_SelectPosition_positions :: u8

record gm_SelectTribute =
  gm_SelectTribute_selecting_player :: CorePlayer
  gm_SelectTribute_cancelable :: bool
  gm_SelectTribute_select_min :: u8
  gm_SelectTribute_select_max :: u8
  gm_SelectTribute_tributes :: "(CardPosition \<times> i8) list"

record gm_SelectCounter =
  gm_SelectCounter_selecting_player :: CorePlayer
  gm_SelectCounter_select_counter_type :: u16
  gm_SelectCounter_select_counter_count :: u16
  gm_SelectCounter_selectable_cards :: "(CardPosition \<times> i16) list"

record gm_SelectSum =
  gm_SelectSum_select_mode :: SelectSumMode
  gm_SelectSum_selecting_player :: CorePlayer
  gm_SelectSum_select_sum_value :: i32
  gm_SelectSum_select_min :: u8
  gm_SelectSum_select_max :: u8
  gm_SelectSum_must_select_cards :: "(CardPosition \<times> i32) list"
  gm_SelectSum_select_cards :: "(CardPosition \<times> i32) list"

record gm_SelectDisableField =
  gm_SelectDisableField_selecting_player :: CorePlayer
  gm_SelectDisableField_count :: u8
  gm_SelectDisableField_unselectable_field :: i32

record gm_SortCard =
  gm_SortCard_player :: CorePlayer
  gm_SortCard_cards :: "CardPosition list"

record gm_SelectUnselectCard =
  gm_SelectUnselectCard_selecting_player :: CorePlayer
  gm_SelectUnselectCard_able :: bool
  gm_SelectUnselectCard_cancelable :: bool
  gm_SelectUnselectCard_select_min :: u8
  gm_SelectUnselectCard_select_max :: u8
  gm_SelectUnselectCard_positions1 :: "(CardCode \<times> InfoLocation) list"
  gm_SelectUnselectCard_positions2 :: "(CardCode \<times> InfoLocation) list"

record gm_ConfirmDecktop =
  gm_ConfirmDecktop_controller :: CorePlayer
  gm_ConfirmDecktop_codes :: "CardPosition list"

record gm_ConfirmCards =
  gm_ConfirmCards_player :: CorePlayer
  gm_ConfirmCards_skip_panel :: bool
  gm_ConfirmCards_cards :: "CardPosition list"

record gm_ShuffleDeck =
  gm_ShuffleDeck_player :: CorePlayer

record gm_ShuffleHand =
  gm_ShuffleHand_player :: CorePlayer
  gm_ShuffleHand_codes :: "u32 list"

record gm_RefreshDeck =
  gm_RefreshDeck_player :: CorePlayer

record gm_SwapGraveDeck =
  gm_SwapGraveDeck_player :: CorePlayer

record gm_ShuffleSetCard =
  gm_ShuffleSetCard_location :: u8
  gm_ShuffleSetCard_old_locations :: "InfoLocation list"
  gm_ShuffleSetCard_new_locations :: "InfoLocation list"

record gm_DeckTop =
  gm_DeckTop_player :: CorePlayer
  gm_DeckTop_sequence :: u8
  gm_DeckTop_code :: CardCode

record gm_ShuffleExtra =
  gm_ShuffleExtra_player :: CorePlayer
  gm_ShuffleExtra_codes :: "u32 list"

record gm_NewTurn =
  gm_NewTurn_player :: CorePlayer

record gm_NewPhase =
  gm_NewPhase_phase :: Phase

record gm_ConfirmExtraTop =
  gm_ConfirmExtraTop_player :: CorePlayer
  gm_ConfirmExtraTop_selectable_cards :: "CardPosition list"

record gm_Move =
  gm_Move_code :: i32
  gm_Move_previous :: InfoLocation
  gm_Move_current :: InfoLocation
  gm_Move_reason :: u32

record gm_PositionChange =
  gm_PositionChange_card :: u32
  gm_PositionChange_controller :: CorePlayer
  gm_PositionChange_location :: u8
  gm_PositionChange_sequence :: u8
  gm_PositionChange_previous_position :: u8
  gm_PositionChange_current_position :: u8

record gm_Set =
  gm_Set_code :: i32
  gm_Set_position :: InfoLocation

record gm_Swap =
  gm_Swap_code1 :: CardCode
  gm_Swap_position1 :: InfoLocation
  gm_Swap_code2 :: CardCode
  gm_Swap_position2 :: InfoLocation

record gm_FieldDisabled =
  gm_FieldDisabled_disabled :: i32

record gm_Summoning =
  gm_Summoning_code :: u32
  gm_Summoning_position :: InfoLocation

record gm_SpecialSummoning =
  gm_SpecialSummoning_code :: u32
  gm_SpecialSummoning_position :: InfoLocation

record gm_FlipSummoning =
  gm_FlipSummoning_code :: u32
  gm_FlipSummoning_position :: InfoLocation

record gm_Chaining =
  gm_Chaining_card :: u32
  gm_Chaining_previous :: CardPosition
  gm_Chaining_current :: CardPosition
  gm_Chaining_chain_count :: u8

record gm_Chained =
  gm_Chained_chain_index :: u8

record gm_ChainSolving =
  gm_ChainSolving_chain_index :: u8

record gm_ChainSolved =
  gm_ChainSolved_chain_index :: u8

record gm_ChainNegated =
  gm_ChainNegated_chain_index :: u8

record gm_ChainDisabled =
  gm_ChainDisabled_chain_index :: u8

record gm_CardSelected =
  gm_CardSelected_player :: CorePlayer
  gm_CardSelected_pcards :: "InfoLocation list"

record gm_RandomSelected =
  gm_RandomSelected_player :: CorePlayer
  gm_RandomSelected_pcards :: "InfoLocation list"

record gm_BecomeTarget =
  gm_BecomeTarget_pcards :: "InfoLocation list"

record gm_Draw =
  gm_Draw_player :: CorePlayer
  gm_Draw_codes :: "CardCode list"

record gm_Damage =
  gm_Damage_player :: CorePlayer
  gm_Damage_value :: i32

record gm_Recover =
  gm_Recover_player :: CorePlayer
  gm_Recover_value :: i32

record gm_Equip =
  gm_Equip_position1 :: InfoLocation
  gm_Equip_position2 :: InfoLocation

record gm_LPUpdate =
  gm_LPUpdate_player :: CorePlayer
  gm_LPUpdate_lp :: i32

record gm_Unequip =
  gm_Unequip_position :: InfoLocation

record gm_CardTarget =
  gm_CardTarget_position1 :: InfoLocation
  gm_CardTarget_position2 :: InfoLocation

record gm_CancelTarget =
  gm_CancelTarget_position1 :: InfoLocation
  gm_CancelTarget_position2 :: InfoLocation

record gm_PayLPCost =
  gm_PayLPCost_player :: CorePlayer
  gm_PayLPCost_cost :: i32

record gm_AddCounter =
  gm_AddCounter_counter_type :: u16
  gm_AddCounter_position :: CardPosition
  gm_AddCounter_count :: u16

record gm_RemoveCounter =
  gm_RemoveCounter_counter_type :: u16
  gm_RemoveCounter_position :: CardPosition
  gm_RemoveCounter_count :: u16

record gm_Attack =
  gm_Attack_attacker :: InfoLocation
  gm_Attack_defenser :: InfoLocation

record gm_Battle =
  gm_Battle_attacker :: InfoLocation
  gm_Battle_attacker_attack :: i32
  gm_Battle_attacker_defense :: i32
  gm_Battle_attacker_destroyed :: bool
  gm_Battle_defenser :: InfoLocation
  gm_Battle_defenser_attack :: i32
  gm_Battle_defenser_defense :: i32
  gm_Battle_defender_destroyed :: bool

record gm_MissedEffect =
  gm_MissedEffect_location :: InfoLocation
  gm_MissedEffect_code :: i32

record gm_TossCoin =
  gm_TossCoin_player :: CorePlayer
  gm_TossCoin_result :: "i8 list"

record gm_TossDice =
  gm_TossDice_player :: CorePlayer
  gm_TossDice_result :: "i8 list"

record gm_RockPaperScissors =
  gm_RockPaperScissors_player :: CorePlayer

record gm_HandResult =
  gm_HandResult_hand0 :: Hand
  gm_HandResult_hand1 :: Hand

record gm_AnnounceRace =
  gm_AnnounceRace_player :: CorePlayer
  gm_AnnounceRace_announce_count :: u8
  gm_AnnounceRace_available :: u32

record gm_AnnounceAttribute =
  gm_AnnounceAttribute_player :: CorePlayer
  gm_AnnounceAttribute_announce_count :: u8
  gm_AnnounceAttribute_available :: u32

record gm_AnnounceCard =
  gm_AnnounceCard_player :: CorePlayer
  gm_AnnounceCard_value :: "Operation list"

record gm_AnnounceNumber =
  gm_AnnounceNumber_player :: CorePlayer
  gm_AnnounceNumber_value :: "i32 list"

record gm_CardHint =
  gm_CardHint_position :: InfoLocation
  gm_CardHint_card_hint_type :: CardHint
  gm_CardHint_value :: i32

record gm_TagSwap =
  gm_TagSwap_player :: CorePlayer
  gm_TagSwap_main_count :: u8
  gm_TagSwap_extra_p_count :: u8
  gm_TagSwap_top_code :: i32
  gm_TagSwap_hand_codes :: "CardCode list"
  gm_TagSwap_extra_codes :: "CardCode list"

record gm_ReloadField =
  gm_ReloadField_duel_rule :: MasterRule
  gm_ReloadField_player1 :: gm_PlayerField
  gm_ReloadField_player2 :: gm_PlayerField
  gm_ReloadField_chains :: "gm_ChainLink list"

record gm_AIName =
  gm_AIName_name :: bytes

record gm_ShowHint =
  gm_ShowHint_name :: bytes

record gm_PlayerHint =
  gm_PlayerHint_player :: CorePlayer
  gm_PlayerHint_player_hint_type :: PlayerHint
  gm_PlayerHint_value :: i32

record gm_MatchKill =
  gm_MatchKill_card_code :: u32

record gm_CustomMsg =
  gm_CustomMsg_data :: bytes

record gm_SibylChat =
  gm_SibylChat_msg :: U16String

record gm_SibylReplay =
  gm_SibylReplay_replay :: Replay

record gm_SibylName =
  gm_SibylName_host_name :: FixedLengthString
  gm_SibylName_host_tag_name :: FixedLengthString
  gm_SibylName_host_current_name :: FixedLengthString
  gm_SibylName_client_name :: FixedLengthString
  gm_SibylName_client_tag_name :: FixedLengthString
  gm_SibylName_client_current_name :: FixedLengthString
  gm_SibylName_master_rule :: MasterRule

section \<open>The enumeration\<close>

text \<open>The enumeration is split in four datatypes by ranges of the flags, since a datatype of 99
  constructors is out of reach; the abbreviations give its variants.\<close>

datatype (plugins only: code) gm_GroupA =
    GMA_Retry
  | GMA_Hint gm_Hint
  | GMA_Waiting
  | GMA_Start gm_Start
  | GMA_Win gm_Win
  | GMA_UpdateData gm_UpdateData
  | GMA_UpdateCard gm_UpdateCard
  | GMA_RequestDeck
  | GMA_SelectBattleCommand gm_SelectBattleCommand
  | GMA_SelectIdleCommand gm_SelectIdleCommand
  | GMA_SelectEffectYesNo gm_SelectEffectYesNo
  | GMA_SelectYesNo gm_SelectYesNo
  | GMA_SelectOption gm_SelectOption
  | GMA_SelectCard gm_SelectCard
  | GMA_SelectChain gm_SelectChain
  | GMA_SelectPlace gm_SelectPlace
  | GMA_SelectPosition gm_SelectPosition
  | GMA_SelectTribute gm_SelectTribute
  | GMA_SortChain
  | GMA_SelectCounter gm_SelectCounter
  | GMA_SelectSum gm_SelectSum
  | GMA_SelectDisableField gm_SelectDisableField
  | GMA_SortCard gm_SortCard
  | GMA_SelectUnselectCard gm_SelectUnselectCard

datatype (plugins only: code) gm_GroupB =
    GMB_ConfirmDecktop gm_ConfirmDecktop
  | GMB_ConfirmCards gm_ConfirmCards
  | GMB_ShuffleDeck gm_ShuffleDeck
  | GMB_ShuffleHand gm_ShuffleHand
  | GMB_RefreshDeck gm_RefreshDeck
  | GMB_SwapGraveDeck gm_SwapGraveDeck
  | GMB_ShuffleSetCard gm_ShuffleSetCard
  | GMB_ReverseDeck
  | GMB_DeckTop gm_DeckTop
  | GMB_ShuffleExtra gm_ShuffleExtra
  | GMB_NewTurn gm_NewTurn
  | GMB_NewPhase gm_NewPhase
  | GMB_ConfirmExtraTop gm_ConfirmExtraTop
  | GMB_Move gm_Move
  | GMB_PositionChange gm_PositionChange
  | GMB_Set gm_Set
  | GMB_Swap gm_Swap
  | GMB_FieldDisabled gm_FieldDisabled
  | GMB_Summoning gm_Summoning
  | GMB_Summoned
  | GMB_SpecialSummoning gm_SpecialSummoning
  | GMB_SpecialSummoned
  | GMB_FlipSummoning gm_FlipSummoning
  | GMB_FlipSummoned

datatype (plugins only: code) gm_GroupC =
    GMC_Chaining gm_Chaining
  | GMC_Chained gm_Chained
  | GMC_ChainSolving gm_ChainSolving
  | GMC_ChainSolved gm_ChainSolved
  | GMC_ChainEnd
  | GMC_ChainNegated gm_ChainNegated
  | GMC_ChainDisabled gm_ChainDisabled
  | GMC_CardSelected gm_CardSelected
  | GMC_RandomSelected gm_RandomSelected
  | GMC_BecomeTarget gm_BecomeTarget
  | GMC_Draw gm_Draw
  | GMC_Damage gm_Damage
  | GMC_Recover gm_Recover
  | GMC_Equip gm_Equip
  | GMC_LPUpdate gm_LPUpdate
  | GMC_Unequip gm_Unequip
  | GMC_CardTarget gm_CardTarget
  | GMC_CancelTarget gm_CancelTarget
  | GMC_PayLPCost gm_PayLPCost
  | GMC_AddCounter gm_AddCounter
  | GMC_RemoveCounter gm_RemoveCounter
  | GMC_Attack gm_Attack
  | GMC_Battle gm_Battle
  | GMC_AttackDisabled
  | GMC_DamageStepStart
  | GMC_DamageStepEnd
  | GMC_MissedEffect gm_MissedEffect
  | GMC_BeChainTarget
  | GMC_CreateRelation
  | GMC_ReleaseRelation

datatype (plugins only: code) gm_GroupD =
    GMD_TossCoin gm_TossCoin
  | GMD_TossDice gm_TossDice
  | GMD_RockPaperScissors gm_RockPaperScissors
  | GMD_HandResult gm_HandResult
  | GMD_AnnounceRace gm_AnnounceRace
  | GMD_AnnounceAttribute gm_AnnounceAttribute
  | GMD_AnnounceCard gm_AnnounceCard
  | GMD_AnnounceNumber gm_AnnounceNumber
  | GMD_CardHint gm_CardHint
  | GMD_TagSwap gm_TagSwap
  | GMD_ReloadField gm_ReloadField
  | GMD_AIName gm_AIName
  | GMD_ShowHint gm_ShowHint
  | GMD_PlayerHint gm_PlayerHint
  | GMD_MatchKill gm_MatchKill
  | GMD_CustomMsg gm_CustomMsg
  | GMD_SibylChat gm_SibylChat
  | GMD_SibylReplay gm_SibylReplay
  | GMD_SibylName gm_SibylName
  | GMD_SibylQuit

datatype gm_Message =
    GM_GroupA gm_GroupA
  | GM_GroupB gm_GroupB
  | GM_GroupC gm_GroupC
  | GM_GroupD gm_GroupD
  | GM_Unknown bytes

abbreviation (input) "GM_Retry \<equiv> GM_GroupA GMA_Retry"
abbreviation (input) "GM_Hint x \<equiv> GM_GroupA (GMA_Hint x)"
abbreviation (input) "GM_Waiting \<equiv> GM_GroupA GMA_Waiting"
abbreviation (input) "GM_Start x \<equiv> GM_GroupA (GMA_Start x)"
abbreviation (input) "GM_Win x \<equiv> GM_GroupA (GMA_Win x)"
abbreviation (input) "GM_UpdateData x \<equiv> GM_GroupA (GMA_UpdateData x)"
abbreviation (input) "GM_UpdateCard x \<equiv> GM_GroupA (GMA_UpdateCard x)"
abbreviation (input) "GM_RequestDeck \<equiv> GM_GroupA GMA_RequestDeck"
abbreviation (input) "GM_SelectBattleCommand x \<equiv> GM_GroupA (GMA_SelectBattleCommand x)"
abbreviation (input) "GM_SelectIdleCommand x \<equiv> GM_GroupA (GMA_SelectIdleCommand x)"
abbreviation (input) "GM_SelectEffectYesNo x \<equiv> GM_GroupA (GMA_SelectEffectYesNo x)"
abbreviation (input) "GM_SelectYesNo x \<equiv> GM_GroupA (GMA_SelectYesNo x)"
abbreviation (input) "GM_SelectOption x \<equiv> GM_GroupA (GMA_SelectOption x)"
abbreviation (input) "GM_SelectCard x \<equiv> GM_GroupA (GMA_SelectCard x)"
abbreviation (input) "GM_SelectChain x \<equiv> GM_GroupA (GMA_SelectChain x)"
abbreviation (input) "GM_SelectPlace x \<equiv> GM_GroupA (GMA_SelectPlace x)"
abbreviation (input) "GM_SelectPosition x \<equiv> GM_GroupA (GMA_SelectPosition x)"
abbreviation (input) "GM_SelectTribute x \<equiv> GM_GroupA (GMA_SelectTribute x)"
abbreviation (input) "GM_SortChain \<equiv> GM_GroupA GMA_SortChain"
abbreviation (input) "GM_SelectCounter x \<equiv> GM_GroupA (GMA_SelectCounter x)"
abbreviation (input) "GM_SelectSum x \<equiv> GM_GroupA (GMA_SelectSum x)"
abbreviation (input) "GM_SelectDisableField x \<equiv> GM_GroupA (GMA_SelectDisableField x)"
abbreviation (input) "GM_SortCard x \<equiv> GM_GroupA (GMA_SortCard x)"
abbreviation (input) "GM_SelectUnselectCard x \<equiv> GM_GroupA (GMA_SelectUnselectCard x)"
abbreviation (input) "GM_ConfirmDecktop x \<equiv> GM_GroupB (GMB_ConfirmDecktop x)"
abbreviation (input) "GM_ConfirmCards x \<equiv> GM_GroupB (GMB_ConfirmCards x)"
abbreviation (input) "GM_ShuffleDeck x \<equiv> GM_GroupB (GMB_ShuffleDeck x)"
abbreviation (input) "GM_ShuffleHand x \<equiv> GM_GroupB (GMB_ShuffleHand x)"
abbreviation (input) "GM_RefreshDeck x \<equiv> GM_GroupB (GMB_RefreshDeck x)"
abbreviation (input) "GM_SwapGraveDeck x \<equiv> GM_GroupB (GMB_SwapGraveDeck x)"
abbreviation (input) "GM_ShuffleSetCard x \<equiv> GM_GroupB (GMB_ShuffleSetCard x)"
abbreviation (input) "GM_ReverseDeck \<equiv> GM_GroupB GMB_ReverseDeck"
abbreviation (input) "GM_DeckTop x \<equiv> GM_GroupB (GMB_DeckTop x)"
abbreviation (input) "GM_ShuffleExtra x \<equiv> GM_GroupB (GMB_ShuffleExtra x)"
abbreviation (input) "GM_NewTurn x \<equiv> GM_GroupB (GMB_NewTurn x)"
abbreviation (input) "GM_NewPhase x \<equiv> GM_GroupB (GMB_NewPhase x)"
abbreviation (input) "GM_ConfirmExtraTop x \<equiv> GM_GroupB (GMB_ConfirmExtraTop x)"
abbreviation (input) "GM_Move x \<equiv> GM_GroupB (GMB_Move x)"
abbreviation (input) "GM_PositionChange x \<equiv> GM_GroupB (GMB_PositionChange x)"
abbreviation (input) "GM_Set x \<equiv> GM_GroupB (GMB_Set x)"
abbreviation (input) "GM_Swap x \<equiv> GM_GroupB (GMB_Swap x)"
abbreviation (input) "GM_FieldDisabled x \<equiv> GM_GroupB (GMB_FieldDisabled x)"
abbreviation (input) "GM_Summoning x \<equiv> GM_GroupB (GMB_Summoning x)"
abbreviation (input) "GM_Summoned \<equiv> GM_GroupB GMB_Summoned"
abbreviation (input) "GM_SpecialSummoning x \<equiv> GM_GroupB (GMB_SpecialSummoning x)"
abbreviation (input) "GM_SpecialSummoned \<equiv> GM_GroupB GMB_SpecialSummoned"
abbreviation (input) "GM_FlipSummoning x \<equiv> GM_GroupB (GMB_FlipSummoning x)"
abbreviation (input) "GM_FlipSummoned \<equiv> GM_GroupB GMB_FlipSummoned"
abbreviation (input) "GM_Chaining x \<equiv> GM_GroupC (GMC_Chaining x)"
abbreviation (input) "GM_Chained x \<equiv> GM_GroupC (GMC_Chained x)"
abbreviation (input) "GM_ChainSolving x \<equiv> GM_GroupC (GMC_ChainSolving x)"
abbreviation (input) "GM_ChainSolved x \<equiv> GM_GroupC (GMC_ChainSolved x)"
abbreviation (input) "GM_ChainEnd \<equiv> GM_GroupC GMC_ChainEnd"
abbreviation (input) "GM_ChainNegated x \<equiv> GM_GroupC (GMC_ChainNegated x)"
abbreviation (input) "GM_ChainDisabled x \<equiv> GM_GroupC (GMC_ChainDisabled x)"
abbreviation (input) "GM_CardSelected x \<equiv> GM_GroupC (GMC_CardSelected x)"
abbreviation (input) "GM_RandomSelected x \<equiv> GM_GroupC (GMC_RandomSelected x)"
abbreviation (input) "GM_BecomeTarget x \<equiv> GM_GroupC (GMC_BecomeTarget x)"
abbreviation (input) "GM_Draw x \<equiv> GM_GroupC (GMC_Draw x)"
abbreviation (input) "GM_Damage x \<equiv> GM_GroupC (GMC_Damage x)"
abbreviation (input) "GM_Recover x \<equiv> GM_GroupC (GMC_Recover x)"
abbreviation (input) "GM_Equip x \<equiv> GM_GroupC (GMC_Equip x)"
abbreviation (input) "GM_LPUpdate x \<equiv> GM_GroupC (GMC_LPUpdate x)"
abbreviation (input) "GM_Unequip x \<equiv> GM_GroupC (GMC_Unequip x)"
abbreviation (input) "GM_CardTarget x \<equiv> GM_GroupC (GMC_CardTarget x)"
abbreviation (input) "GM_CancelTarget x \<equiv> GM_GroupC (GMC_CancelTarget x)"
abbreviation (input) "GM_PayLPCost x \<equiv> GM_GroupC (GMC_PayLPCost x)"
abbreviation (input) "GM_AddCounter x \<equiv> GM_GroupC (GMC_AddCounter x)"
abbreviation (input) "GM_RemoveCounter x \<equiv> GM_GroupC (GMC_RemoveCounter x)"
abbreviation (input) "GM_Attack x \<equiv> GM_GroupC (GMC_Attack x)"
abbreviation (input) "GM_Battle x \<equiv> GM_GroupC (GMC_Battle x)"
abbreviation (input) "GM_AttackDisabled \<equiv> GM_GroupC GMC_AttackDisabled"
abbreviation (input) "GM_DamageStepStart \<equiv> GM_GroupC GMC_DamageStepStart"
abbreviation (input) "GM_DamageStepEnd \<equiv> GM_GroupC GMC_DamageStepEnd"
abbreviation (input) "GM_MissedEffect x \<equiv> GM_GroupC (GMC_MissedEffect x)"
abbreviation (input) "GM_BeChainTarget \<equiv> GM_GroupC GMC_BeChainTarget"
abbreviation (input) "GM_CreateRelation \<equiv> GM_GroupC GMC_CreateRelation"
abbreviation (input) "GM_ReleaseRelation \<equiv> GM_GroupC GMC_ReleaseRelation"
abbreviation (input) "GM_TossCoin x \<equiv> GM_GroupD (GMD_TossCoin x)"
abbreviation (input) "GM_TossDice x \<equiv> GM_GroupD (GMD_TossDice x)"
abbreviation (input) "GM_RockPaperScissors x \<equiv> GM_GroupD (GMD_RockPaperScissors x)"
abbreviation (input) "GM_HandResult x \<equiv> GM_GroupD (GMD_HandResult x)"
abbreviation (input) "GM_AnnounceRace x \<equiv> GM_GroupD (GMD_AnnounceRace x)"
abbreviation (input) "GM_AnnounceAttribute x \<equiv> GM_GroupD (GMD_AnnounceAttribute x)"
abbreviation (input) "GM_AnnounceCard x \<equiv> GM_GroupD (GMD_AnnounceCard x)"
abbreviation (input) "GM_AnnounceNumber x \<equiv> GM_GroupD (GMD_AnnounceNumber x)"
abbreviation (input) "GM_CardHint x \<equiv> GM_GroupD (GMD_CardHint x)"
abbreviation (input) "GM_TagSwap x \<equiv> GM_GroupD (GMD_TagSwap x)"
abbreviation (input) "GM_ReloadField x \<equiv> GM_GroupD (GMD_ReloadField x)"
abbreviation (input) "GM_AIName x \<equiv> GM_GroupD (GMD_AIName x)"
abbreviation (input) "GM_ShowHint x \<equiv> GM_GroupD (GMD_ShowHint x)"
abbreviation (input) "GM_PlayerHint x \<equiv> GM_GroupD (GMD_PlayerHint x)"
abbreviation (input) "GM_MatchKill x \<equiv> GM_GroupD (GMD_MatchKill x)"
abbreviation (input) "GM_CustomMsg x \<equiv> GM_GroupD (GMD_CustomMsg x)"
abbreviation (input) "GM_SibylChat x \<equiv> GM_GroupD (GMD_SibylChat x)"
abbreviation (input) "GM_SibylReplay x \<equiv> GM_GroupD (GMD_SibylReplay x)"
abbreviation (input) "GM_SibylName x \<equiv> GM_GroupD (GMD_SibylName x)"
abbreviation (input) "GM_SibylQuit \<equiv> GM_GroupD GMD_SibylQuit"

fun gm_type_A :: "gm_GroupA \<Rightarrow> gm_MessageType" where
    "gm_type_A GMA_Retry = gm_T_Retry"
  | "gm_type_A (GMA_Hint _) = gm_T_Hint"
  | "gm_type_A GMA_Waiting = gm_T_Waiting"
  | "gm_type_A (GMA_Start _) = gm_T_Start"
  | "gm_type_A (GMA_Win _) = gm_T_Win"
  | "gm_type_A (GMA_UpdateData _) = gm_T_UpdateData"
  | "gm_type_A (GMA_UpdateCard _) = gm_T_UpdateCard"
  | "gm_type_A GMA_RequestDeck = gm_T_RequestDeck"
  | "gm_type_A (GMA_SelectBattleCommand _) = gm_T_SelectBattleCommand"
  | "gm_type_A (GMA_SelectIdleCommand _) = gm_T_SelectIdleCommand"
  | "gm_type_A (GMA_SelectEffectYesNo _) = gm_T_SelectEffectYesNo"
  | "gm_type_A (GMA_SelectYesNo _) = gm_T_SelectYesNo"
  | "gm_type_A (GMA_SelectOption _) = gm_T_SelectOption"
  | "gm_type_A (GMA_SelectCard _) = gm_T_SelectCard"
  | "gm_type_A (GMA_SelectChain _) = gm_T_SelectChain"
  | "gm_type_A (GMA_SelectPlace _) = gm_T_SelectPlace"
  | "gm_type_A (GMA_SelectPosition _) = gm_T_SelectPosition"
  | "gm_type_A (GMA_SelectTribute _) = gm_T_SelectTribute"
  | "gm_type_A GMA_SortChain = gm_T_SortChain"
  | "gm_type_A (GMA_SelectCounter _) = gm_T_SelectCounter"
  | "gm_type_A (GMA_SelectSum _) = gm_T_SelectSum"
  | "gm_type_A (GMA_SelectDisableField _) = gm_T_SelectDisableField"
  | "gm_type_A (GMA_SortCard _) = gm_T_SortCard"
  | "gm_type_A (GMA_SelectUnselectCard _) = gm_T_SelectUnselectCard"

fun gm_type_B :: "gm_GroupB \<Rightarrow> gm_MessageType" where
    "gm_type_B (GMB_ConfirmDecktop _) = gm_T_ConfirmDecktop"
  | "gm_type_B (GMB_ConfirmCards _) = gm_T_ConfirmCards"
  | "gm_type_B (GMB_ShuffleDeck _) = gm_T_ShuffleDeck"
  | "gm_type_B (GMB_ShuffleHand _) = gm_T_ShuffleHand"
  | "gm_type_B (GMB_RefreshDeck _) = gm_T_RefreshDeck"
  | "gm_type_B (GMB_SwapGraveDeck _) = gm_T_SwapGraveDeck"
  | "gm_type_B (GMB_ShuffleSetCard _) = gm_T_ShuffleSetCard"
  | "gm_type_B GMB_ReverseDeck = gm_T_ReverseDeck"
  | "gm_type_B (GMB_DeckTop _) = gm_T_DeckTop"
  | "gm_type_B (GMB_ShuffleExtra _) = gm_T_ShuffleExtra"
  | "gm_type_B (GMB_NewTurn _) = gm_T_NewTurn"
  | "gm_type_B (GMB_NewPhase _) = gm_T_NewPhase"
  | "gm_type_B (GMB_ConfirmExtraTop _) = gm_T_ConfirmExtraTop"
  | "gm_type_B (GMB_Move _) = gm_T_Move"
  | "gm_type_B (GMB_PositionChange _) = gm_T_PositionChange"
  | "gm_type_B (GMB_Set _) = gm_T_Set"
  | "gm_type_B (GMB_Swap _) = gm_T_Swap"
  | "gm_type_B (GMB_FieldDisabled _) = gm_T_FieldDisabled"
  | "gm_type_B (GMB_Summoning _) = gm_T_Summoning"
  | "gm_type_B GMB_Summoned = gm_T_Summoned"
  | "gm_type_B (GMB_SpecialSummoning _) = gm_T_SpecialSummoning"
  | "gm_type_B GMB_SpecialSummoned = gm_T_SpecialSummoned"
  | "gm_type_B (GMB_FlipSummoning _) = gm_T_FlipSummoning"
  | "gm_type_B GMB_FlipSummoned = gm_T_FlipSummoned"

fun gm_type_C :: "gm_GroupC \<Rightarrow> gm_MessageType" where
    "gm_type_C (GMC_Chaining _) = gm_T_Chaining"
  | "gm_type_C (GMC_Chained _) = gm_T_Chained"
  | "gm_type_C (GMC_ChainSolving _) = gm_T_ChainSolving"
  | "gm_type_C (GMC_ChainSolved _) = gm_T_ChainSolved"
  | "gm_type_C GMC_ChainEnd = gm_T_ChainEnd"
  | "gm_type_C (GMC_ChainNegated _) = gm_T_ChainNegated"
  | "gm_type_C (GMC_ChainDisabled _) = gm_T_ChainDisabled"
  | "gm_type_C (GMC_CardSelected _) = gm_T_CardSelected"
  | "gm_type_C (GMC_RandomSelected _) = gm_T_RandomSelected"
  | "gm_type_C (GMC_BecomeTarget _) = gm_T_BecomeTarget"
  | "gm_type_C (GMC_Draw _) = gm_T_Draw"
  | "gm_type_C (GMC_Damage _) = gm_T_Damage"
  | "gm_type_C (GMC_Recover _) = gm_T_Recover"
  | "gm_type_C (GMC_Equip _) = gm_T_Equip"
  | "gm_type_C (GMC_LPUpdate _) = gm_T_LPUpdate"
  | "gm_type_C (GMC_Unequip _) = gm_T_Unequip"
  | "gm_type_C (GMC_CardTarget _) = gm_T_CardTarget"
  | "gm_type_C (GMC_CancelTarget _) = gm_T_CancelTarget"
  | "gm_type_C (GMC_PayLPCost _) = gm_T_PayLPCost"
  | "gm_type_C (GMC_AddCounter _) = gm_T_AddCounter"
  | "gm_type_C (GMC_RemoveCounter _) = gm_T_RemoveCounter"
  | "gm_type_C (GMC_Attack _) = gm_T_Attack"
  | "gm_type_C (GMC_Battle _) = gm_T_Battle"
  | "gm_type_C GMC_AttackDisabled = gm_T_AttackDisabled"
  | "gm_type_C GMC_DamageStepStart = gm_T_DamageStepStart"
  | "gm_type_C GMC_DamageStepEnd = gm_T_DamageStepEnd"
  | "gm_type_C (GMC_MissedEffect _) = gm_T_MissedEffect"
  | "gm_type_C GMC_BeChainTarget = gm_T_BeChainTarget"
  | "gm_type_C GMC_CreateRelation = gm_T_CreateRelation"
  | "gm_type_C GMC_ReleaseRelation = gm_T_ReleaseRelation"

fun gm_type_D :: "gm_GroupD \<Rightarrow> gm_MessageType" where
    "gm_type_D (GMD_TossCoin _) = gm_T_TossCoin"
  | "gm_type_D (GMD_TossDice _) = gm_T_TossDice"
  | "gm_type_D (GMD_RockPaperScissors _) = gm_T_RockPaperScissors"
  | "gm_type_D (GMD_HandResult _) = gm_T_HandResult"
  | "gm_type_D (GMD_AnnounceRace _) = gm_T_AnnounceRace"
  | "gm_type_D (GMD_AnnounceAttribute _) = gm_T_AnnounceAttribute"
  | "gm_type_D (GMD_AnnounceCard _) = gm_T_AnnounceCard"
  | "gm_type_D (GMD_AnnounceNumber _) = gm_T_AnnounceNumber"
  | "gm_type_D (GMD_CardHint _) = gm_T_CardHint"
  | "gm_type_D (GMD_TagSwap _) = gm_T_TagSwap"
  | "gm_type_D (GMD_ReloadField _) = gm_T_ReloadField"
  | "gm_type_D (GMD_AIName _) = gm_T_AIName"
  | "gm_type_D (GMD_ShowHint _) = gm_T_ShowHint"
  | "gm_type_D (GMD_PlayerHint _) = gm_T_PlayerHint"
  | "gm_type_D (GMD_MatchKill _) = gm_T_MatchKill"
  | "gm_type_D (GMD_CustomMsg _) = gm_T_CustomMsg"
  | "gm_type_D (GMD_SibylChat _) = gm_T_SibylChat"
  | "gm_type_D (GMD_SibylReplay _) = gm_T_SibylReplay"
  | "gm_type_D (GMD_SibylName _) = gm_T_SibylName"
  | "gm_type_D GMD_SibylQuit = gm_T_SibylQuit"

fun gm_type :: "gm_Message \<Rightarrow> gm_MessageType" where
    "gm_type (GM_GroupA m) = gm_type_A m"
  | "gm_type (GM_GroupB m) = gm_type_B m"
  | "gm_type (GM_GroupC m) = gm_type_C m"
  | "gm_type (GM_GroupD m) = gm_type_D m"
  | "gm_type (GM_Unknown data) = (case data of [] \<Rightarrow> 0 | b # _ \<Rightarrow> b)"

section \<open>Masking\<close>

text \<open>A struct without the attribute mask is not changed by masking, and is masked for every player.\<close>

definition gm_UpdateData_mask :: "gm_UpdateData \<Rightarrow> gm_UpdateData" where
  "gm_UpdateData_mask m = m \<lparr> gm_UpdateData_data := map UpdateCardInfo_mask (gm_UpdateData_data m) \<rparr>"

definition gm_UpdateData_should_mask :: "gm_UpdateData \<Rightarrow> CorePlayer \<Rightarrow> bool" where
  "gm_UpdateData_should_mask m player \<longleftrightarrow>
     gm_UpdateData_player m \<noteq> player \<and> list_ex (\<lambda>u. UpdateCardInfo_should_mask u player) (gm_UpdateData_data m)"

definition gm_UpdateCard_mask :: "gm_UpdateCard \<Rightarrow> gm_UpdateCard" where
  "gm_UpdateCard_mask m = m \<lparr> gm_UpdateCard_data := UpdateCardInfo_mask (gm_UpdateCard_data m) \<rparr>"

definition gm_UpdateCard_should_mask :: "gm_UpdateCard \<Rightarrow> CorePlayer \<Rightarrow> bool" where
  "gm_UpdateCard_should_mask m player \<longleftrightarrow>
     cp_controller (gm_UpdateCard_position m) \<noteq> player \<and> UpdateCardInfo_should_mask (gm_UpdateCard_data m) player"

definition mask_foreign_code :: "CorePlayer \<Rightarrow> CardCode \<times> InfoLocation \<Rightarrow> CardCode \<times> InfoLocation" where
  "mask_foreign_code player = (\<lambda>(code, position).
     (if il_controller position \<noteq> player then CardCode_mask code else code, position))"

definition gm_SelectCard_mask :: "gm_SelectCard \<Rightarrow> gm_SelectCard" where
  "gm_SelectCard_mask m =
     m \<lparr> gm_SelectCard_positions :=
           map (mask_foreign_code (gm_SelectCard_selecting_player m)) (gm_SelectCard_positions m) \<rparr>"

definition mask_foreign_tribute :: "CorePlayer \<Rightarrow> CardPosition \<times> i8 \<Rightarrow> CardPosition \<times> i8" where
  "mask_foreign_tribute player = (\<lambda>(p, n).
     (if cp_controller p \<noteq> player then p \<lparr> cp_code := CardCode_mask (cp_code p) \<rparr> else p, n))"

definition gm_SelectTribute_mask :: "gm_SelectTribute \<Rightarrow> gm_SelectTribute" where
  "gm_SelectTribute_mask m =
     m \<lparr> gm_SelectTribute_tributes :=
           map (mask_foreign_tribute (gm_SelectTribute_selecting_player m)) (gm_SelectTribute_tributes m) \<rparr>"

definition gm_SelectUnselectCard_mask :: "gm_SelectUnselectCard \<Rightarrow> gm_SelectUnselectCard" where
  "gm_SelectUnselectCard_mask m =
     m \<lparr> gm_SelectUnselectCard_positions1 :=
           map (mask_foreign_code (gm_SelectUnselectCard_selecting_player m)) (gm_SelectUnselectCard_positions1 m),
         gm_SelectUnselectCard_positions2 :=
           map (mask_foreign_code (gm_SelectUnselectCard_selecting_player m)) (gm_SelectUnselectCard_positions2 m) \<rparr>"

definition gm_ShuffleHand_mask :: "gm_ShuffleHand \<Rightarrow> gm_ShuffleHand" where
  "gm_ShuffleHand_mask m = m \<lparr> gm_ShuffleHand_codes := map (\<lambda>_. 0) (gm_ShuffleHand_codes m) \<rparr>"

definition gm_ShuffleExtra_mask :: "gm_ShuffleExtra \<Rightarrow> gm_ShuffleExtra" where
  "gm_ShuffleExtra_mask m = m \<lparr> gm_ShuffleExtra_codes := map (\<lambda>_. 0) (gm_ShuffleExtra_codes m) \<rparr>"

definition gm_Move_should_mask :: "gm_Move \<Rightarrow> CorePlayer \<Rightarrow> bool" where
  "gm_Move_should_mask m player \<longleftrightarrow>
     (let cur = gm_Move_current m in
      il_controller cur \<noteq> player \<and>
      \<not> intersects (il_location cur) (Location_bits Location_Grave OR Location_bits Location_Overlay) \<and>
      (intersects (il_location cur) (Location_bits Location_Deck OR Location_bits Location_Hand) \<or>
       Position_is_face_down (il_position cur)))"

definition gm_Move_mask :: "gm_Move \<Rightarrow> gm_Move" where
  "gm_Move_mask m = m \<lparr> gm_Move_code := (if gm_Move_should_mask m NoPlayer then 0 else gm_Move_code m) \<rparr>"

definition gm_Set_mask :: "gm_Set \<Rightarrow> gm_Set" where
  "gm_Set_mask m = m \<lparr> gm_Set_code := 0 \<rparr>"

definition gm_SpecialSummoning_mask :: "gm_SpecialSummoning \<Rightarrow> gm_SpecialSummoning" where
  "gm_SpecialSummoning_mask m = m \<lparr> gm_SpecialSummoning_code := 0 \<rparr>"

definition gm_SpecialSummoning_should_mask :: "gm_SpecialSummoning \<Rightarrow> CorePlayer \<Rightarrow> bool" where
  "gm_SpecialSummoning_should_mask m player \<longleftrightarrow>
     Position_is_face_down (il_position (gm_SpecialSummoning_position m)) \<and>
     il_controller (gm_SpecialSummoning_position m) \<noteq> player"

definition gm_Draw_mask :: "gm_Draw \<Rightarrow> gm_Draw" where
  "gm_Draw_mask m = m \<lparr> gm_Draw_codes := map CardCode_mask (gm_Draw_codes m) \<rparr>"

definition gm_TagSwap_mask :: "gm_TagSwap \<Rightarrow> gm_TagSwap" where
  "gm_TagSwap_mask m =
     m \<lparr> gm_TagSwap_hand_codes := map CardCode_mask (gm_TagSwap_hand_codes m),
         gm_TagSwap_extra_codes := map CardCode_mask (gm_TagSwap_extra_codes m) \<rparr>"

fun gm_mask_A :: "gm_GroupA \<Rightarrow> gm_GroupA" where
    "gm_mask_A (GMA_UpdateData m) = GMA_UpdateData (gm_UpdateData_mask m)"
  | "gm_mask_A (GMA_UpdateCard m) = GMA_UpdateCard (gm_UpdateCard_mask m)"
  | "gm_mask_A (GMA_SelectCard m) = GMA_SelectCard (gm_SelectCard_mask m)"
  | "gm_mask_A (GMA_SelectTribute m) = GMA_SelectTribute (gm_SelectTribute_mask m)"
  | "gm_mask_A (GMA_SelectUnselectCard m) = GMA_SelectUnselectCard (gm_SelectUnselectCard_mask m)"
  | "gm_mask_A m = m"

fun gm_mask_B :: "gm_GroupB \<Rightarrow> gm_GroupB" where
    "gm_mask_B (GMB_ShuffleHand m) = GMB_ShuffleHand (gm_ShuffleHand_mask m)"
  | "gm_mask_B (GMB_ShuffleExtra m) = GMB_ShuffleExtra (gm_ShuffleExtra_mask m)"
  | "gm_mask_B (GMB_Move m) = GMB_Move (gm_Move_mask m)"
  | "gm_mask_B (GMB_Set m) = GMB_Set (gm_Set_mask m)"
  | "gm_mask_B (GMB_SpecialSummoning m) = GMB_SpecialSummoning (gm_SpecialSummoning_mask m)"
  | "gm_mask_B m = m"

fun gm_mask_C :: "gm_GroupC \<Rightarrow> gm_GroupC" where
    "gm_mask_C (GMC_Draw m) = GMC_Draw (gm_Draw_mask m)"
  | "gm_mask_C m = m"

fun gm_mask_D :: "gm_GroupD \<Rightarrow> gm_GroupD" where
    "gm_mask_D (GMD_TagSwap m) = GMD_TagSwap (gm_TagSwap_mask m)"
  | "gm_mask_D m = m"

fun gm_mask :: "gm_Message \<Rightarrow> gm_Message" where
    "gm_mask (GM_GroupA m) = GM_GroupA (gm_mask_A m)"
  | "gm_mask (GM_GroupB m) = GM_GroupB (gm_mask_B m)"
  | "gm_mask (GM_GroupC m) = GM_GroupC (gm_mask_C m)"
  | "gm_mask (GM_GroupD m) = GM_GroupD (gm_mask_D m)"
  | "gm_mask (GM_Unknown data) = GM_Unknown data"

fun gm_should_mask_A :: "gm_GroupA \<Rightarrow> CorePlayer \<Rightarrow> bool" where
    "gm_should_mask_A (GMA_UpdateData m) player = gm_UpdateData_should_mask m player"
  | "gm_should_mask_A (GMA_UpdateCard m) player = gm_UpdateCard_should_mask m player"
  | "gm_should_mask_A m player = True"

fun gm_should_mask_B :: "gm_GroupB \<Rightarrow> CorePlayer \<Rightarrow> bool" where
    "gm_should_mask_B (GMB_ShuffleHand m) player \<longleftrightarrow> gm_ShuffleHand_player m \<noteq> player"
  | "gm_should_mask_B (GMB_ShuffleExtra m) player \<longleftrightarrow> gm_ShuffleExtra_player m \<noteq> player"
  | "gm_should_mask_B (GMB_Move m) player = gm_Move_should_mask m player"
  | "gm_should_mask_B (GMB_SpecialSummoning m) player = gm_SpecialSummoning_should_mask m player"
  | "gm_should_mask_B m player = True"

fun gm_should_mask_C :: "gm_GroupC \<Rightarrow> CorePlayer \<Rightarrow> bool" where
    "gm_should_mask_C (GMC_Draw m) player \<longleftrightarrow> gm_Draw_player m \<noteq> player"
  | "gm_should_mask_C m player = True"

fun gm_should_mask_D :: "gm_GroupD \<Rightarrow> CorePlayer \<Rightarrow> bool" where
    "gm_should_mask_D (GMD_TagSwap m) player \<longleftrightarrow> gm_TagSwap_player m \<noteq> player"
  | "gm_should_mask_D m player = True"

fun gm_should_mask :: "gm_Message \<Rightarrow> CorePlayer \<Rightarrow> bool" where
    "gm_should_mask (GM_GroupA m) player = gm_should_mask_A m player"
  | "gm_should_mask (GM_GroupB m) player = gm_should_mask_B m player"
  | "gm_should_mask (GM_GroupC m) player = gm_should_mask_C m player"
  | "gm_should_mask (GM_GroupD m) player = gm_should_mask_D m player"
  | "gm_should_mask (GM_Unknown data) player = False"

fun gm_waiting_for_A :: "gm_GroupA \<Rightarrow> CorePlayer option" where
    "gm_waiting_for_A (GMA_SelectBattleCommand m) = Some (gm_SelectBattleCommand_selecting_player m)"
  | "gm_waiting_for_A (GMA_SelectIdleCommand m) = Some (gm_SelectIdleCommand_selecting_player m)"
  | "gm_waiting_for_A (GMA_SelectEffectYesNo m) = Some (gm_SelectEffectYesNo_selecting_player m)"
  | "gm_waiting_for_A (GMA_SelectYesNo m) = Some (gm_SelectYesNo_selecting_player m)"
  | "gm_waiting_for_A (GMA_SelectOption m) = Some (gm_SelectOption_selecting_player m)"
  | "gm_waiting_for_A (GMA_SelectCard m) = Some (gm_SelectCard_selecting_player m)"
  | "gm_waiting_for_A (GMA_SelectChain m) = Some (gm_SelectChain_selecting_player m)"
  | "gm_waiting_for_A (GMA_SelectPlace m) = Some (gm_SelectPlace_selecting_player m)"
  | "gm_waiting_for_A (GMA_SelectPosition m) = Some (gm_SelectPosition_selecting_player m)"
  | "gm_waiting_for_A (GMA_SelectTribute m) = Some (gm_SelectTribute_selecting_player m)"
  | "gm_waiting_for_A (GMA_SelectCounter m) = Some (gm_SelectCounter_selecting_player m)"
  | "gm_waiting_for_A (GMA_SelectSum m) = Some (gm_SelectSum_selecting_player m)"
  | "gm_waiting_for_A (GMA_SelectDisableField m) = Some (gm_SelectDisableField_selecting_player m)"
  | "gm_waiting_for_A (GMA_SortCard m) = Some (gm_SortCard_player m)"
  | "gm_waiting_for_A (GMA_SelectUnselectCard m) = Some (gm_SelectUnselectCard_selecting_player m)"
  | "gm_waiting_for_A _ = None"

fun gm_waiting_for_D :: "gm_GroupD \<Rightarrow> CorePlayer option" where
    "gm_waiting_for_D (GMD_RockPaperScissors m) = Some (gm_RockPaperScissors_player m)"
  | "gm_waiting_for_D (GMD_AnnounceRace m) = Some (gm_AnnounceRace_player m)"
  | "gm_waiting_for_D (GMD_AnnounceAttribute m) = Some (gm_AnnounceAttribute_player m)"
  | "gm_waiting_for_D (GMD_AnnounceCard m) = Some (gm_AnnounceCard_player m)"
  | "gm_waiting_for_D (GMD_AnnounceNumber m) = Some (gm_AnnounceNumber_player m)"
  | "gm_waiting_for_D _ = None"

fun gm_waiting_for :: "gm_Message \<Rightarrow> CorePlayer option" where
    "gm_waiting_for (GM_GroupA m) = gm_waiting_for_A m"
  | "gm_waiting_for (GM_GroupD m) = gm_waiting_for_D m"
  | "gm_waiting_for _ = None"

section \<open>Lemmas\<close>

lemma mask_foreign_idem [simp]:
  "mask_foreign_code p (mask_foreign_code p x) = mask_foreign_code p x"
  "mask_foreign_tribute p (mask_foreign_tribute p y) = mask_foreign_tribute p y"
  by (cases x; simp add: mask_foreign_code_def CardCode.mask_mask)
     (cases y; simp add: mask_foreign_tribute_def CardCode.mask_mask)

lemmas gm_mask_defs = gm_UpdateData_mask_def gm_UpdateCard_mask_def gm_SelectCard_mask_def
  gm_SelectTribute_mask_def gm_SelectUnselectCard_mask_def gm_ShuffleHand_mask_def gm_ShuffleExtra_mask_def
  gm_Move_mask_def gm_Set_mask_def gm_SpecialSummoning_mask_def gm_Draw_mask_def gm_TagSwap_mask_def

lemma gm_Move_should_mask_code [simp]:
  "gm_Move_should_mask (m \<lparr> gm_Move_code := c \<rparr>) p = gm_Move_should_mask m p"
  by (simp add: gm_Move_should_mask_def)

interpretation gm: maskable gm_mask
proof
  fix m show "gm_mask (gm_mask m) = gm_mask m"
  proof (cases m)
    case (GM_GroupA a)
    then show ?thesis
      by (cases a) (simp_all add: gm_mask_defs comp_def UpdateCardInfo.mask_mask)
  next
    case (GM_GroupB a)
    then show ?thesis by (cases a) (simp_all add: gm_mask_defs comp_def)
  next
    case (GM_GroupC a)
    then show ?thesis by (cases a) (simp_all add: gm_mask_defs comp_def CardCode.mask_mask)
  next
    case (GM_GroupD a)
    then show ?thesis by (cases a) (simp_all add: gm_mask_defs comp_def CardCode.mask_mask)
  qed simp
qed

lemma gm_type_mask [simp]: "gm_type (gm_mask m) = gm_type m"
proof (cases m)
  case (GM_GroupA a) then show ?thesis by (cases a) simp_all
next
  case (GM_GroupB a) then show ?thesis by (cases a) simp_all
next
  case (GM_GroupC a) then show ?thesis by (cases a) simp_all
next
  case (GM_GroupD a) then show ?thesis by (cases a) simp_all
qed simp

lemma gm_waiting_for_mask [simp]: "gm_waiting_for (gm_mask m) = gm_waiting_for m"
proof (cases m)
  case (GM_GroupA a) then show ?thesis by (cases a) (simp_all add: gm_mask_defs)
next
  case (GM_GroupD a) then show ?thesis by (cases a) (simp_all add: gm_mask_defs)
qed simp_all

section \<open>What a player sees\<close>

definition gm_view :: "CorePlayer \<Rightarrow> gm_Message \<Rightarrow> gm_Message" where
  "gm_view player m = (if gm_should_mask m player then gm_mask m else m)"

definition secret_ids :: "CardCode list \<Rightarrow> u32 list" where
  "secret_ids codes = map CardCode_id (filter (\<lambda>c. \<not> CardCode_is_public c) codes)"

text \<open>The codes in a message that the rules of the game hide from a player: cards the other side draws
  or has in hand or extra deck, cards that move face down or into its hand or deck, cards that are set
  or summoned face down, and, in a prompt to choose cards, those the choosing player does not
  control.\<close>

fun hidden_codes :: "CorePlayer \<Rightarrow> gm_Message \<Rightarrow> u32 list" where
    "hidden_codes p (GM_GroupC (GMC_Draw m)) = (if gm_Draw_player m = p then [] else secret_ids (gm_Draw_codes m))"
  | "hidden_codes p (GM_GroupB (GMB_ShuffleHand m)) = (if gm_ShuffleHand_player m = p then [] else gm_ShuffleHand_codes m)"
  | "hidden_codes p (GM_GroupB (GMB_ShuffleExtra m)) = (if gm_ShuffleExtra_player m = p then [] else gm_ShuffleExtra_codes m)"
  | "hidden_codes p (GM_GroupB (GMB_Move m)) =
       (if gm_Move_should_mask m p then [gm_Move_code m] else [])"
  | "hidden_codes p (GM_GroupB (GMB_Set m)) = [gm_Set_code m]"
  | "hidden_codes p (GM_GroupB (GMB_SpecialSummoning m)) =
       (if Position_is_face_down (il_position (gm_SpecialSummoning_position m))
           \<and> il_controller (gm_SpecialSummoning_position m) \<noteq> p
        then [gm_SpecialSummoning_code m] else [])"
  | "hidden_codes p (GM_GroupD (GMD_TagSwap m)) =
       (if gm_TagSwap_player m = p then [] else secret_ids (gm_TagSwap_hand_codes m @ gm_TagSwap_extra_codes m))"
  | "hidden_codes p (GM_GroupA (GMA_SelectCard m)) =
       secret_ids (map fst (filter (\<lambda>(_, l). il_controller l \<noteq> gm_SelectCard_selecting_player m) (gm_SelectCard_positions m)))"
  | "hidden_codes p (GM_GroupA (GMA_SelectTribute m)) =
       secret_ids (map (cp_code \<circ> fst) (filter (\<lambda>(c, _). cp_controller c \<noteq> gm_SelectTribute_selecting_player m)
         (gm_SelectTribute_tributes m)))"
  | "hidden_codes p (GM_GroupA (GMA_SelectUnselectCard m)) =
       secret_ids (map fst (filter (\<lambda>(_, l). il_controller l \<noteq> gm_SelectUnselectCard_selecting_player m)
         (gm_SelectUnselectCard_positions1 m @ gm_SelectUnselectCard_positions2 m)))"
  | "hidden_codes p _ = []"

lemma secret_ids_mask: "c \<in> set (secret_ids (map CardCode_mask cs)) \<Longrightarrow> c = 0"
  by (auto simp: secret_ids_def)

lemma secret_ids_zero: "(\<And>c. c \<in> set cs \<Longrightarrow> c \<in> range CardCode_mask) \<Longrightarrow> \<forall>c \<in> set (secret_ids cs). c = 0"
  by (auto simp: secret_ids_def) (metis CardCode_id_mask CardCode_public_mask image_iff)

lemma gm_Move_should_mask_NoPlayer:
  "gm_Move_should_mask m p \<Longrightarrow> il_controller (gm_Move_current m) \<noteq> NoPlayer \<Longrightarrow> gm_Move_should_mask m NoPlayer"
  by (auto simp: gm_Move_should_mask_def Let_def)

fun moving_side :: "gm_Message \<Rightarrow> CorePlayer" where
    "moving_side (GM_GroupB (GMB_Move m)) = il_controller (gm_Move_current m)"
  | "moving_side _ = AllPlayers"

section \<open>Properties\<close>

text \<open>Masking a message of the core is a projection that keeps the type of the message and the player
  it waits for: a masked copy answers to the same handlers and prompts.\<close>

theorem gm_mask_projection:
  "gm_mask (gm_mask m) = gm_mask m \<and> gm_type (gm_mask m) = gm_type m \<and> gm_waiting_for (gm_mask m) = gm_waiting_for m"
  by (simp add: gm.mask_mask)


section \<open>Witness\<close>

definition sample_draw :: gm_Message where
  "sample_draw = GM_Draw \<lparr> gm_Draw_player = FirstAttackPlayer, gm_Draw_codes = [89631139, 0x80000000 + 46986414] \<rparr>"


end
