(* ===== verification/GameMessageWire.thy ===== *)
theory GameMessageWire
  imports GameMessage
begin

text \<open>
  The wire format of the messages of the core: a writer and a reader for every struct, the writer
  and the reader of the enumeration, and the proof that every well-formed message is read back as
  it was written.

  The reader of the enumeration tries the struct whose flag the first byte is; when there is none,
  or the struct cannot be read, the whole rest of the input becomes a message of unknown type. The
  writer fails for a shuffle of set cards whose lists differ in length. Three readers can panic,
  where they unwrap a value that the input need not hold.
\<close>

type_synonym lzma_crate = "(bytes \<Rightarrow> bytes) \<times> (nat \<Rightarrow> bytes \<Rightarrow> bytes option)"

section \<open>Field types\<close>

definition wr_WinReason :: "WinReason writer" where
  "wr_WinReason x = wr_u8 (WinReason_into x)"

definition rd_WinReason :: "WinReason reader" where
  "rd_WinReason = rd_map WinReason_from rd_u8"

definition valid_WinReason :: "WinReason \<Rightarrow> bool" where
  "valid_WinReason x \<longleftrightarrow> WinReason_from (WinReason_into x) = x"

definition wr_Operation :: "Operation writer" where
  "wr_Operation x = wr_u32 (Operation_into x)"

definition rd_Operation :: "Operation reader" where
  "rd_Operation = rd_map Operation_from rd_u32"

definition valid_Operation :: "Operation \<Rightarrow> bool" where
  "valid_Operation x \<longleftrightarrow> Operation_from (Operation_into x) = x"

definition rd_UpdateCardInfo :: "UpdateCardInfo reader" where
  "rd_UpdateCardInfo = opt_rd e_UpdateCardInfo"

interpretation WinReason: codec wr_WinReason rd_WinReason valid_WinReason
  by unfold_locales (simp add: wr_WinReason_def rd_WinReason_def rd_map_def u8.rd_bind_wr valid_WinReason_def)

interpretation Operation: codec wr_Operation rd_Operation valid_Operation
  by unfold_locales (simp add: wr_Operation_def rd_Operation_def rd_map_def u32.rd_bind_wr valid_Operation_def)

interpretation UpdateCardInfo: codec wr_UpdateCardInfo rd_UpdateCardInfo valid_UpdateCardInfo
  by unfold_locales (simp add: rd_UpdateCardInfo_def opt_rd_def e_UpdateCardInfo_wr)

interpretation Location_pair: codec "wr_pair wr_u32 wr_InfoLocation" "rd_pair rd_u32 rd_InfoLocation"
    "valid_pair always valid_InfoLocation"
  by (rule codec_pair) unfold_locales

interpretation Position_u8: codec "wr_pair (wr_CardPosition True False False) wr_u8"
    "rd_pair (rd_CardPosition True False False) rd_u8" "valid_pair (valid_CardPosition True False False) always"
  by (rule codec_pair) unfold_locales

interpretation Position_u16: codec "wr_pair (wr_CardPosition True False False) wr_u16"
    "rd_pair (rd_CardPosition True False False) rd_u16" "valid_pair (valid_CardPosition True False False) always"
  by (rule codec_pair) unfold_locales

interpretation Position_u32: codec "wr_pair (wr_CardPosition True False False) wr_u32"
    "rd_pair (rd_CardPosition True False False) rd_u32" "valid_pair (valid_CardPosition True False False) always"
  by (rule codec_pair) unfold_locales

interpretation Name50: codec wr_FixedLengthString "rd_FixedLengthString 50" "valid_fls 50"
  by (rule codec_FixedLengthString)

named_theorems gm_rd_wr \<open>the structs that are read back whatever follows\<close>
named_theorems gm_wire \<open>reading back the fields of a struct\<close>

lemmas gm_field_wire [gm_wire] = u8.rd_bind_wr u16.rd_bind_wr u32.rd_bind_wr bool.rd_bind_wr CorePlayer.enum.rd_bind_wr
  MasterRule.enum.rd_bind_wr Hint.enum.rd_bind_wr SelectSumMode.enum.rd_bind_wr CardHint.enum.rd_bind_wr
  PlayerHint.enum.rd_bind_wr Phase.enum.rd_bind_wr WinReason.rd_bind_wr InfoLocation.rd_bind_wr
  CardPosition.rd_bind_wr UpdateCardInfo.rd_bind_wr Name50.rd_bind_wr unat_len8 rd_bind_count_u8
  u8.rd_bind_count u32.rd_bind_count Operation.rd_bind_count InfoLocation.rd_bind_count
  CardPosition.rd_bind_count Location_pair.rd_bind_count Position_u8.rd_bind_count
  Position_u16.rd_bind_count Position_u32.rd_bind_count

section \<open>Structs\<close>

definition wr_gm_Chain :: "gm_Chain writer" where
  "wr_gm_Chain m =
     wr_u8 (gm_Chain_flag m) @
     wr_bool (gm_Chain_forced m) @
     wr_u32 (gm_Chain_code m) @
     wr_InfoLocation (gm_Chain_location m) @
     wr_u32 (gm_Chain_description m)"

definition rd_gm_Chain :: "gm_Chain reader" where
  "rd_gm_Chain =
     rd_bind rd_u8 (\<lambda>flag'.
     rd_bind rd_bool (\<lambda>forced'.
     rd_bind rd_u32 (\<lambda>code'.
     rd_bind rd_InfoLocation (\<lambda>location'.
     rd_bind rd_u32 (\<lambda>description'.
     rd_return \<lparr> gm_Chain_flag = flag',
       gm_Chain_forced = forced',
       gm_Chain_code = code',
       gm_Chain_location = location',
       gm_Chain_description = description' \<rparr>)))))"

definition valid_gm_Chain :: "gm_Chain \<Rightarrow> bool" where
  "valid_gm_Chain m \<longleftrightarrow>
     valid_InfoLocation (gm_Chain_location m)"

lemma gm_Chain_rd_wr [gm_rd_wr]: "valid_gm_Chain m \<Longrightarrow> rd_gm_Chain (wr_gm_Chain m @ r) = Some (m, r)"
  by (simp add: valid_gm_Chain_def rd_gm_Chain_def wr_gm_Chain_def gm_wire)

interpretation gm_Chain: codec wr_gm_Chain rd_gm_Chain valid_gm_Chain
  by unfold_locales (rule gm_Chain_rd_wr)

definition wr_gm_ChainLink :: "gm_ChainLink writer" where
  "wr_gm_ChainLink m =
     wr_u32 (gm_ChainLink_code m) @
     (wr_CardPosition False True False) (gm_ChainLink_card_position m) @
     wr_CorePlayer (gm_ChainLink_controller m) @
     wr_u8 (gm_ChainLink_location m) @
     wr_u8 (gm_ChainLink_sequence m) @
     wr_u32 (gm_ChainLink_description m)"

definition rd_gm_ChainLink :: "gm_ChainLink reader" where
  "rd_gm_ChainLink =
     rd_bind rd_u32 (\<lambda>code'.
     rd_bind (rd_CardPosition False True False) (\<lambda>card_position'.
     rd_bind rd_CorePlayer (\<lambda>controller'.
     rd_bind rd_u8 (\<lambda>location'.
     rd_bind rd_u8 (\<lambda>sequence'.
     rd_bind rd_u32 (\<lambda>description'.
     rd_return \<lparr> gm_ChainLink_code = code',
       gm_ChainLink_card_position = card_position',
       gm_ChainLink_controller = controller',
       gm_ChainLink_location = location',
       gm_ChainLink_sequence = sequence',
       gm_ChainLink_description = description' \<rparr>))))))"

definition valid_gm_ChainLink :: "gm_ChainLink \<Rightarrow> bool" where
  "valid_gm_ChainLink m \<longleftrightarrow>
     (valid_CardPosition False True False) (gm_ChainLink_card_position m)"

lemma gm_ChainLink_rd_wr [gm_rd_wr]: "valid_gm_ChainLink m \<Longrightarrow> rd_gm_ChainLink (wr_gm_ChainLink m @ r) = Some (m, r)"
  by (simp add: valid_gm_ChainLink_def rd_gm_ChainLink_def wr_gm_ChainLink_def gm_wire)

interpretation gm_ChainLink: codec wr_gm_ChainLink rd_gm_ChainLink valid_gm_ChainLink
  by unfold_locales (rule gm_ChainLink_rd_wr)

definition wr_MzoneSlot :: "MzoneSlot writer" where
  "wr_MzoneSlot s =
     wr_u8 (mz_occupied s) @ (if mz_occupied s \<noteq> 0 then wr_u8 (mz_position s) else []) @
     (if mz_occupied s \<noteq> 0 then wr_u8 (mz_xyz_count s) else [])"

definition rd_MzoneSlot :: "MzoneSlot reader" where
  "rd_MzoneSlot =
     rd_bind rd_u8 (\<lambda>occupied.
     rd_bind (rd_if (occupied \<noteq> 0) rd_u8 0) (\<lambda>position.
     rd_bind (rd_if (occupied \<noteq> 0) rd_u8 0) (\<lambda>xyz_count.
     rd_return \<lparr> mz_occupied = occupied, mz_position = position, mz_xyz_count = xyz_count \<rparr>)))"

definition valid_MzoneSlot :: "MzoneSlot \<Rightarrow> bool" where
  "valid_MzoneSlot s \<longleftrightarrow> mz_occupied s \<noteq> 0 \<or> (mz_position s = 0 \<and> mz_xyz_count s = 0)"

interpretation MzoneSlot: codec wr_MzoneSlot rd_MzoneSlot valid_MzoneSlot
proof
  fix s r assume "valid_MzoneSlot s"
  then show "rd_MzoneSlot (wr_MzoneSlot s @ r) = Some (s, r)"
    by (cases "mz_occupied s = 0")
       (simp_all add: wr_MzoneSlot_def rd_MzoneSlot_def valid_MzoneSlot_def rd_if_def u8.rd_bind_wr)
qed

definition wr_SzonaSlot :: "SzonaSlot writer" where
  "wr_SzonaSlot s = wr_u8 (sz_occupied s) @ (if sz_occupied s \<noteq> 0 then wr_u8 (sz_position s) else [])"

definition rd_SzonaSlot :: "SzonaSlot reader" where
  "rd_SzonaSlot =
     rd_bind rd_u8 (\<lambda>occupied.
     rd_bind (rd_if (occupied \<noteq> 0) rd_u8 (Position_bits Position_Any)) (\<lambda>position.
     rd_return \<lparr> sz_occupied = occupied, sz_position = position \<rparr>))"

definition valid_SzonaSlot :: "SzonaSlot \<Rightarrow> bool" where
  "valid_SzonaSlot s \<longleftrightarrow> sz_occupied s \<noteq> 0 \<or> sz_position s = Position_bits Position_Any"

interpretation SzonaSlot: codec wr_SzonaSlot rd_SzonaSlot valid_SzonaSlot
proof
  fix s r assume "valid_SzonaSlot s"
  then show "rd_SzonaSlot (wr_SzonaSlot s @ r) = Some (s, r)"
    by (cases "sz_occupied s = 0")
       (simp_all add: wr_SzonaSlot_def rd_SzonaSlot_def valid_SzonaSlot_def rd_if_def u8.rd_bind_wr)
qed

definition wr_gm_PlayerField :: "gm_PlayerField writer" where
  "wr_gm_PlayerField m =
     wr_u32 (gm_PlayerField_lp m) @ wr_vec wr_MzoneSlot (gm_PlayerField_mzone m) @
     wr_vec wr_SzonaSlot (gm_PlayerField_szone m) @ wr_u8 (gm_PlayerField_main_count m) @
     wr_u8 (gm_PlayerField_hand_count m) @ wr_u8 (gm_PlayerField_grave_count m) @
     wr_u8 (gm_PlayerField_remove_count m) @ wr_u8 (gm_PlayerField_extra_count m) @
     wr_u8 (gm_PlayerField_extra_p_count m)"

definition rd_gm_PlayerField :: "gm_PlayerField reader" where
  "rd_gm_PlayerField =
     rd_bind rd_u32 (\<lambda>lp.
     rd_bind (rd_count rd_MzoneSlot 7) (\<lambda>mzone.
     rd_bind (rd_count rd_SzonaSlot 8) (\<lambda>szone.
     rd_bind rd_u8 (\<lambda>main_count.
     rd_bind rd_u8 (\<lambda>hand_count.
     rd_bind rd_u8 (\<lambda>grave_count.
     rd_bind rd_u8 (\<lambda>remove_count.
     rd_bind rd_u8 (\<lambda>extra_count.
     rd_bind rd_u8 (\<lambda>extra_p_count.
     rd_return \<lparr> gm_PlayerField_lp = lp, gm_PlayerField_mzone = mzone, gm_PlayerField_szone = szone,
       gm_PlayerField_main_count = main_count, gm_PlayerField_hand_count = hand_count,
       gm_PlayerField_grave_count = grave_count, gm_PlayerField_remove_count = remove_count,
       gm_PlayerField_extra_count = extra_count, gm_PlayerField_extra_p_count = extra_p_count \<rparr>)))))))))"

definition valid_gm_PlayerField :: "gm_PlayerField \<Rightarrow> bool" where
  "valid_gm_PlayerField m \<longleftrightarrow>
     length (gm_PlayerField_mzone m) = 7 \<and> (\<forall>s \<in> set (gm_PlayerField_mzone m). valid_MzoneSlot s) \<and>
     length (gm_PlayerField_szone m) = 8 \<and> (\<forall>s \<in> set (gm_PlayerField_szone m). valid_SzonaSlot s)"

interpretation gm_PlayerField: codec wr_gm_PlayerField rd_gm_PlayerField valid_gm_PlayerField
  by unfold_locales (simp add: valid_gm_PlayerField_def rd_gm_PlayerField_def wr_gm_PlayerField_def gm_wire
    MzoneSlot.rd_bind_count SzonaSlot.rd_bind_count)

lemmas gm_struct_wire [gm_wire] = gm_PlayerField.rd_bind_wr gm_Chain.rd_bind_count gm_ChainLink.rd_bind_count

definition wr_gm_Hint :: "gm_Hint writer" where
  "wr_gm_Hint m =
     (wr_enum wr_u8 Hint_repr) (gm_Hint_type m) @
     wr_CorePlayer (gm_Hint_player m) @
     wr_u32 (gm_Hint_data m)"

definition rd_gm_Hint :: "gm_Hint reader" where
  "rd_gm_Hint =
     rd_bind (rd_enum rd_u8 Hint_repr Hint_all) (\<lambda>type'.
     rd_bind rd_CorePlayer (\<lambda>player'.
     rd_bind rd_u32 (\<lambda>data'.
     rd_return \<lparr> gm_Hint_type = type',
       gm_Hint_player = player',
       gm_Hint_data = data' \<rparr>)))"

definition valid_gm_Hint :: "gm_Hint \<Rightarrow> bool" where
  "valid_gm_Hint m \<longleftrightarrow>
     True"

lemma gm_Hint_rd_wr [gm_rd_wr]: "valid_gm_Hint m \<Longrightarrow> rd_gm_Hint (wr_gm_Hint m @ r) = Some (m, r)"
  by (simp add: valid_gm_Hint_def rd_gm_Hint_def wr_gm_Hint_def gm_wire)

definition wr_gm_Start :: "gm_Start writer" where
  "wr_gm_Start m =
     wr_u8 (gm_Start_player_type m) @
     (wr_enum wr_u8 MasterRule_repr) (gm_Start_rule m) @
     wr_u32 (gm_Start_player1_lp m) @
     wr_u32 (gm_Start_player2_lp m) @
     wr_u16 (gm_Start_player1_deck_count m) @
     wr_u16 (gm_Start_player1_extra_count m) @
     wr_u16 (gm_Start_player2_deck_count m) @
     wr_u16 (gm_Start_player2_extra_count m)"

definition rd_gm_Start :: "gm_Start reader" where
  "rd_gm_Start =
     rd_bind rd_u8 (\<lambda>player_type'.
     rd_bind (rd_enum rd_u8 MasterRule_repr MasterRule_all) (\<lambda>rule'.
     rd_bind rd_u32 (\<lambda>player1_lp'.
     rd_bind rd_u32 (\<lambda>player2_lp'.
     rd_bind rd_u16 (\<lambda>player1_deck_count'.
     rd_bind rd_u16 (\<lambda>player1_extra_count'.
     rd_bind rd_u16 (\<lambda>player2_deck_count'.
     rd_bind rd_u16 (\<lambda>player2_extra_count'.
     rd_return \<lparr> gm_Start_player_type = player_type',
       gm_Start_rule = rule',
       gm_Start_player1_lp = player1_lp',
       gm_Start_player2_lp = player2_lp',
       gm_Start_player1_deck_count = player1_deck_count',
       gm_Start_player1_extra_count = player1_extra_count',
       gm_Start_player2_deck_count = player2_deck_count',
       gm_Start_player2_extra_count = player2_extra_count' \<rparr>))))))))"

definition valid_gm_Start :: "gm_Start \<Rightarrow> bool" where
  "valid_gm_Start m \<longleftrightarrow>
     True"

lemma gm_Start_rd_wr [gm_rd_wr]: "valid_gm_Start m \<Longrightarrow> rd_gm_Start (wr_gm_Start m @ r) = Some (m, r)"
  by (simp add: valid_gm_Start_def rd_gm_Start_def wr_gm_Start_def gm_wire)

definition wr_gm_Win :: "gm_Win writer" where
  "wr_gm_Win m =
     wr_CorePlayer (gm_Win_winner m) @
     wr_WinReason (gm_Win_reason m)"

definition rd_gm_Win :: "gm_Win reader" where
  "rd_gm_Win =
     rd_bind rd_CorePlayer (\<lambda>winner'.
     rd_bind rd_WinReason (\<lambda>reason'.
     rd_return \<lparr> gm_Win_winner = winner',
       gm_Win_reason = reason' \<rparr>))"

definition valid_gm_Win :: "gm_Win \<Rightarrow> bool" where
  "valid_gm_Win m \<longleftrightarrow>
     valid_WinReason (gm_Win_reason m)"

lemma gm_Win_rd_wr [gm_rd_wr]: "valid_gm_Win m \<Longrightarrow> rd_gm_Win (wr_gm_Win m @ r) = Some (m, r)"
  by (simp add: valid_gm_Win_def rd_gm_Win_def wr_gm_Win_def gm_wire)

definition wr_gm_UpdateCard :: "gm_UpdateCard writer" where
  "wr_gm_UpdateCard m =
     (wr_CardPosition False False False) (gm_UpdateCard_position m) @
     wr_UpdateCardInfo (gm_UpdateCard_data m)"

definition rd_gm_UpdateCard :: "gm_UpdateCard reader" where
  "rd_gm_UpdateCard =
     rd_bind (rd_CardPosition False False False) (\<lambda>position'.
     rd_bind rd_UpdateCardInfo (\<lambda>data'.
     rd_return \<lparr> gm_UpdateCard_position = position',
       gm_UpdateCard_data = data' \<rparr>))"

definition valid_gm_UpdateCard :: "gm_UpdateCard \<Rightarrow> bool" where
  "valid_gm_UpdateCard m \<longleftrightarrow>
     (valid_CardPosition False False False) (gm_UpdateCard_position m) \<and>
     valid_UpdateCardInfo (gm_UpdateCard_data m)"

lemma gm_UpdateCard_rd_wr [gm_rd_wr]: "valid_gm_UpdateCard m \<Longrightarrow> rd_gm_UpdateCard (wr_gm_UpdateCard m @ r) = Some (m, r)"
  by (simp add: valid_gm_UpdateCard_def rd_gm_UpdateCard_def wr_gm_UpdateCard_def gm_wire)

definition wr_gm_SelectBattleCommand :: "gm_SelectBattleCommand writer" where
  "wr_gm_SelectBattleCommand m =
     wr_CorePlayer (gm_SelectBattleCommand_selecting_player m) @
     wr_u8 (len8 (gm_SelectBattleCommand_activatable_cards m)) @
     wr_vec (wr_CardPosition True False True) (gm_SelectBattleCommand_activatable_cards m) @
     wr_u8 (len8 (gm_SelectBattleCommand_attackable_cards m)) @
     wr_vec (wr_pair (wr_CardPosition True False False) wr_u8) (gm_SelectBattleCommand_attackable_cards m) @
     wr_bool (gm_SelectBattleCommand_can_enter_m2 m) @
     wr_bool (gm_SelectBattleCommand_can_enter_ep m)"

definition rd_gm_SelectBattleCommand :: "gm_SelectBattleCommand reader" where
  "rd_gm_SelectBattleCommand =
     rd_bind rd_CorePlayer (\<lambda>selecting_player'.
     rd_bind rd_u8 (\<lambda>activatable_cards_size'.
     rd_bind (rd_count (rd_CardPosition True False True) (unat activatable_cards_size')) (\<lambda>activatable_cards'.
     rd_bind rd_u8 (\<lambda>attackable_cards_size'.
     rd_bind (rd_count (rd_pair (rd_CardPosition True False False) rd_u8) (unat attackable_cards_size')) (\<lambda>attackable_cards'.
     rd_bind rd_bool (\<lambda>can_enter_m2'.
     rd_bind rd_bool (\<lambda>can_enter_ep'.
     rd_return \<lparr> gm_SelectBattleCommand_selecting_player = selecting_player',
       gm_SelectBattleCommand_activatable_cards = activatable_cards',
       gm_SelectBattleCommand_attackable_cards = attackable_cards',
       gm_SelectBattleCommand_can_enter_m2 = can_enter_m2',
       gm_SelectBattleCommand_can_enter_ep = can_enter_ep' \<rparr>)))))))"

definition valid_gm_SelectBattleCommand :: "gm_SelectBattleCommand \<Rightarrow> bool" where
  "valid_gm_SelectBattleCommand m \<longleftrightarrow>
     length (gm_SelectBattleCommand_activatable_cards m) < 256 \<and>
     (\<forall>x \<in> set (gm_SelectBattleCommand_activatable_cards m). (valid_CardPosition True False True) x) \<and>
     length (gm_SelectBattleCommand_attackable_cards m) < 256 \<and>
     (\<forall>x \<in> set (gm_SelectBattleCommand_attackable_cards m). (valid_pair (valid_CardPosition True False False) always) x)"

lemma gm_SelectBattleCommand_rd_wr [gm_rd_wr]: "valid_gm_SelectBattleCommand m \<Longrightarrow> rd_gm_SelectBattleCommand (wr_gm_SelectBattleCommand m @ r) = Some (m, r)"
  by (simp add: valid_gm_SelectBattleCommand_def rd_gm_SelectBattleCommand_def wr_gm_SelectBattleCommand_def gm_wire)

definition wr_gm_SelectIdleCommand :: "gm_SelectIdleCommand writer" where
  "wr_gm_SelectIdleCommand m =
     wr_CorePlayer (gm_SelectIdleCommand_selecting_player m) @
     wr_u8 (len8 (gm_SelectIdleCommand_summonable_cards m)) @
     wr_vec (wr_CardPosition True False False) (gm_SelectIdleCommand_summonable_cards m) @
     wr_u8 (len8 (gm_SelectIdleCommand_special_summonable_cards m)) @
     wr_vec (wr_CardPosition True False False) (gm_SelectIdleCommand_special_summonable_cards m) @
     wr_u8 (len8 (gm_SelectIdleCommand_repositionable_cards m)) @
     wr_vec (wr_CardPosition True False False) (gm_SelectIdleCommand_repositionable_cards m) @
     wr_u8 (len8 (gm_SelectIdleCommand_m_setable_cards m)) @
     wr_vec (wr_CardPosition True False False) (gm_SelectIdleCommand_m_setable_cards m) @
     wr_u8 (len8 (gm_SelectIdleCommand_s_setable_cards m)) @
     wr_vec (wr_CardPosition True False False) (gm_SelectIdleCommand_s_setable_cards m) @
     wr_u8 (len8 (gm_SelectIdleCommand_activatable_cards m)) @
     wr_vec (wr_CardPosition True False True) (gm_SelectIdleCommand_activatable_cards m) @
     wr_bool (gm_SelectIdleCommand_can_enter_bp m) @
     wr_bool (gm_SelectIdleCommand_can_enter_ep m) @
     wr_bool (gm_SelectIdleCommand_can_shuffle_hand m)"

definition rd_gm_SelectIdleCommand :: "gm_SelectIdleCommand reader" where
  "rd_gm_SelectIdleCommand =
     rd_bind rd_CorePlayer (\<lambda>selecting_player'.
     rd_bind rd_u8 (\<lambda>summonable_cards_size'.
     rd_bind (rd_count (rd_CardPosition True False False) (unat summonable_cards_size')) (\<lambda>summonable_cards'.
     rd_bind rd_u8 (\<lambda>special_summonable_cards_size'.
     rd_bind (rd_count (rd_CardPosition True False False) (unat special_summonable_cards_size')) (\<lambda>special_summonable_cards'.
     rd_bind rd_u8 (\<lambda>repositionable_cards_size'.
     rd_bind (rd_count (rd_CardPosition True False False) (unat repositionable_cards_size')) (\<lambda>repositionable_cards'.
     rd_bind rd_u8 (\<lambda>m_setable_cards_size'.
     rd_bind (rd_count (rd_CardPosition True False False) (unat m_setable_cards_size')) (\<lambda>m_setable_cards'.
     rd_bind rd_u8 (\<lambda>s_setable_cards_size'.
     rd_bind (rd_count (rd_CardPosition True False False) (unat s_setable_cards_size')) (\<lambda>s_setable_cards'.
     rd_bind rd_u8 (\<lambda>activatable_cards_size'.
     rd_bind (rd_count (rd_CardPosition True False True) (unat activatable_cards_size')) (\<lambda>activatable_cards'.
     rd_bind rd_bool (\<lambda>can_enter_bp'.
     rd_bind rd_bool (\<lambda>can_enter_ep'.
     rd_bind rd_bool (\<lambda>can_shuffle_hand'.
     rd_return \<lparr> gm_SelectIdleCommand_selecting_player = selecting_player',
       gm_SelectIdleCommand_summonable_cards = summonable_cards',
       gm_SelectIdleCommand_special_summonable_cards = special_summonable_cards',
       gm_SelectIdleCommand_repositionable_cards = repositionable_cards',
       gm_SelectIdleCommand_m_setable_cards = m_setable_cards',
       gm_SelectIdleCommand_s_setable_cards = s_setable_cards',
       gm_SelectIdleCommand_activatable_cards = activatable_cards',
       gm_SelectIdleCommand_can_enter_bp = can_enter_bp',
       gm_SelectIdleCommand_can_enter_ep = can_enter_ep',
       gm_SelectIdleCommand_can_shuffle_hand = can_shuffle_hand' \<rparr>))))))))))))))))"

definition valid_gm_SelectIdleCommand :: "gm_SelectIdleCommand \<Rightarrow> bool" where
  "valid_gm_SelectIdleCommand m \<longleftrightarrow>
     length (gm_SelectIdleCommand_summonable_cards m) < 256 \<and>
     (\<forall>x \<in> set (gm_SelectIdleCommand_summonable_cards m). (valid_CardPosition True False False) x) \<and>
     length (gm_SelectIdleCommand_special_summonable_cards m) < 256 \<and>
     (\<forall>x \<in> set (gm_SelectIdleCommand_special_summonable_cards m). (valid_CardPosition True False False) x) \<and>
     length (gm_SelectIdleCommand_repositionable_cards m) < 256 \<and>
     (\<forall>x \<in> set (gm_SelectIdleCommand_repositionable_cards m). (valid_CardPosition True False False) x) \<and>
     length (gm_SelectIdleCommand_m_setable_cards m) < 256 \<and>
     (\<forall>x \<in> set (gm_SelectIdleCommand_m_setable_cards m). (valid_CardPosition True False False) x) \<and>
     length (gm_SelectIdleCommand_s_setable_cards m) < 256 \<and>
     (\<forall>x \<in> set (gm_SelectIdleCommand_s_setable_cards m). (valid_CardPosition True False False) x) \<and>
     length (gm_SelectIdleCommand_activatable_cards m) < 256 \<and>
     (\<forall>x \<in> set (gm_SelectIdleCommand_activatable_cards m). (valid_CardPosition True False True) x)"

lemma gm_SelectIdleCommand_rd_wr [gm_rd_wr]: "valid_gm_SelectIdleCommand m \<Longrightarrow> rd_gm_SelectIdleCommand (wr_gm_SelectIdleCommand m @ r) = Some (m, r)"
  by (simp add: valid_gm_SelectIdleCommand_def rd_gm_SelectIdleCommand_def wr_gm_SelectIdleCommand_def gm_wire)

definition wr_gm_SelectEffectYesNo :: "gm_SelectEffectYesNo writer" where
  "wr_gm_SelectEffectYesNo m =
     wr_CorePlayer (gm_SelectEffectYesNo_selecting_player m) @
     wr_u32 (gm_SelectEffectYesNo_code m) @
     wr_InfoLocation (gm_SelectEffectYesNo_card_position m) @
     wr_u32 (gm_SelectEffectYesNo_description m)"

definition rd_gm_SelectEffectYesNo :: "gm_SelectEffectYesNo reader" where
  "rd_gm_SelectEffectYesNo =
     rd_bind rd_CorePlayer (\<lambda>selecting_player'.
     rd_bind rd_u32 (\<lambda>code'.
     rd_bind rd_InfoLocation (\<lambda>card_position'.
     rd_bind rd_u32 (\<lambda>description'.
     rd_return \<lparr> gm_SelectEffectYesNo_selecting_player = selecting_player',
       gm_SelectEffectYesNo_code = code',
       gm_SelectEffectYesNo_card_position = card_position',
       gm_SelectEffectYesNo_description = description' \<rparr>))))"

definition valid_gm_SelectEffectYesNo :: "gm_SelectEffectYesNo \<Rightarrow> bool" where
  "valid_gm_SelectEffectYesNo m \<longleftrightarrow>
     valid_InfoLocation (gm_SelectEffectYesNo_card_position m)"

lemma gm_SelectEffectYesNo_rd_wr [gm_rd_wr]: "valid_gm_SelectEffectYesNo m \<Longrightarrow> rd_gm_SelectEffectYesNo (wr_gm_SelectEffectYesNo m @ r) = Some (m, r)"
  by (simp add: valid_gm_SelectEffectYesNo_def rd_gm_SelectEffectYesNo_def wr_gm_SelectEffectYesNo_def gm_wire)

definition wr_gm_SelectYesNo :: "gm_SelectYesNo writer" where
  "wr_gm_SelectYesNo m =
     wr_CorePlayer (gm_SelectYesNo_selecting_player m) @
     wr_u32 (gm_SelectYesNo_description m)"

definition rd_gm_SelectYesNo :: "gm_SelectYesNo reader" where
  "rd_gm_SelectYesNo =
     rd_bind rd_CorePlayer (\<lambda>selecting_player'.
     rd_bind rd_u32 (\<lambda>description'.
     rd_return \<lparr> gm_SelectYesNo_selecting_player = selecting_player',
       gm_SelectYesNo_description = description' \<rparr>))"

definition valid_gm_SelectYesNo :: "gm_SelectYesNo \<Rightarrow> bool" where
  "valid_gm_SelectYesNo m \<longleftrightarrow>
     True"

lemma gm_SelectYesNo_rd_wr [gm_rd_wr]: "valid_gm_SelectYesNo m \<Longrightarrow> rd_gm_SelectYesNo (wr_gm_SelectYesNo m @ r) = Some (m, r)"
  by (simp add: valid_gm_SelectYesNo_def rd_gm_SelectYesNo_def wr_gm_SelectYesNo_def gm_wire)

definition wr_gm_SelectOption :: "gm_SelectOption writer" where
  "wr_gm_SelectOption m =
     wr_CorePlayer (gm_SelectOption_selecting_player m) @
     wr_u8 (len8 (gm_SelectOption_options m)) @
     wr_vec wr_u32 (gm_SelectOption_options m)"

definition rd_gm_SelectOption :: "gm_SelectOption reader" where
  "rd_gm_SelectOption =
     rd_bind rd_CorePlayer (\<lambda>selecting_player'.
     rd_bind rd_u8 (\<lambda>options_size'.
     rd_bind (rd_count rd_u32 (unat options_size')) (\<lambda>options'.
     rd_return \<lparr> gm_SelectOption_selecting_player = selecting_player',
       gm_SelectOption_options = options' \<rparr>)))"

definition valid_gm_SelectOption :: "gm_SelectOption \<Rightarrow> bool" where
  "valid_gm_SelectOption m \<longleftrightarrow>
     length (gm_SelectOption_options m) < 256"

lemma gm_SelectOption_rd_wr [gm_rd_wr]: "valid_gm_SelectOption m \<Longrightarrow> rd_gm_SelectOption (wr_gm_SelectOption m @ r) = Some (m, r)"
  by (simp add: valid_gm_SelectOption_def rd_gm_SelectOption_def wr_gm_SelectOption_def gm_wire)

definition wr_gm_SelectCard :: "gm_SelectCard writer" where
  "wr_gm_SelectCard m =
     wr_CorePlayer (gm_SelectCard_selecting_player m) @
     wr_bool (gm_SelectCard_select_cancelable m) @
     wr_u8 (gm_SelectCard_select_min m) @
     wr_u8 (gm_SelectCard_select_max m) @
     wr_u8 (len8 (gm_SelectCard_positions m)) @
     wr_vec (wr_pair wr_u32 wr_InfoLocation) (gm_SelectCard_positions m)"

definition rd_gm_SelectCard :: "gm_SelectCard reader" where
  "rd_gm_SelectCard =
     rd_bind rd_CorePlayer (\<lambda>selecting_player'.
     rd_bind rd_bool (\<lambda>select_cancelable'.
     rd_bind rd_u8 (\<lambda>select_min'.
     rd_bind rd_u8 (\<lambda>select_max'.
     rd_bind rd_u8 (\<lambda>positions_size'.
     rd_bind (rd_count (rd_pair rd_u32 rd_InfoLocation) (unat positions_size')) (\<lambda>positions'.
     rd_return \<lparr> gm_SelectCard_selecting_player = selecting_player',
       gm_SelectCard_select_cancelable = select_cancelable',
       gm_SelectCard_select_min = select_min',
       gm_SelectCard_select_max = select_max',
       gm_SelectCard_positions = positions' \<rparr>))))))"

definition valid_gm_SelectCard :: "gm_SelectCard \<Rightarrow> bool" where
  "valid_gm_SelectCard m \<longleftrightarrow>
     length (gm_SelectCard_positions m) < 256 \<and>
     (\<forall>x \<in> set (gm_SelectCard_positions m). (valid_pair always valid_InfoLocation) x)"

lemma gm_SelectCard_rd_wr [gm_rd_wr]: "valid_gm_SelectCard m \<Longrightarrow> rd_gm_SelectCard (wr_gm_SelectCard m @ r) = Some (m, r)"
  by (simp add: valid_gm_SelectCard_def rd_gm_SelectCard_def wr_gm_SelectCard_def gm_wire)

definition wr_gm_SelectChain :: "gm_SelectChain writer" where
  "wr_gm_SelectChain m =
     wr_CorePlayer (gm_SelectChain_selecting_player m) @
     wr_u8 (len8 (gm_SelectChain_activatable_cards m)) @
     wr_u8 (gm_SelectChain_special_count m) @
     wr_u32 (gm_SelectChain_hint0 m) @
     wr_u32 (gm_SelectChain_hint1 m) @
     wr_vec wr_gm_Chain (gm_SelectChain_activatable_cards m)"

definition rd_gm_SelectChain :: "gm_SelectChain reader" where
  "rd_gm_SelectChain =
     rd_bind rd_CorePlayer (\<lambda>selecting_player'.
     rd_bind rd_u8 (\<lambda>activatable_cards_count'.
     rd_bind rd_u8 (\<lambda>special_count'.
     rd_bind rd_u32 (\<lambda>hint0'.
     rd_bind rd_u32 (\<lambda>hint1'.
     rd_bind (rd_count rd_gm_Chain (unat activatable_cards_count')) (\<lambda>activatable_cards'.
     rd_return \<lparr> gm_SelectChain_selecting_player = selecting_player',
       gm_SelectChain_special_count = special_count',
       gm_SelectChain_hint0 = hint0',
       gm_SelectChain_hint1 = hint1',
       gm_SelectChain_activatable_cards = activatable_cards' \<rparr>))))))"

definition valid_gm_SelectChain :: "gm_SelectChain \<Rightarrow> bool" where
  "valid_gm_SelectChain m \<longleftrightarrow>
     length (gm_SelectChain_activatable_cards m) < 256 \<and>
     (\<forall>x \<in> set (gm_SelectChain_activatable_cards m). valid_gm_Chain x)"

lemma gm_SelectChain_rd_wr [gm_rd_wr]: "valid_gm_SelectChain m \<Longrightarrow> rd_gm_SelectChain (wr_gm_SelectChain m @ r) = Some (m, r)"
  by (simp add: valid_gm_SelectChain_def rd_gm_SelectChain_def wr_gm_SelectChain_def gm_wire)

definition wr_gm_SelectPlace :: "gm_SelectPlace writer" where
  "wr_gm_SelectPlace m =
     wr_CorePlayer (gm_SelectPlace_selecting_player m) @
     wr_u8 (gm_SelectPlace_count m) @
     wr_u32 (gm_SelectPlace_unselectable_field m)"

definition rd_gm_SelectPlace :: "gm_SelectPlace reader" where
  "rd_gm_SelectPlace =
     rd_bind rd_CorePlayer (\<lambda>selecting_player'.
     rd_bind rd_u8 (\<lambda>count'.
     rd_bind rd_u32 (\<lambda>unselectable_field'.
     rd_return \<lparr> gm_SelectPlace_selecting_player = selecting_player',
       gm_SelectPlace_count = count',
       gm_SelectPlace_unselectable_field = unselectable_field' \<rparr>)))"

definition valid_gm_SelectPlace :: "gm_SelectPlace \<Rightarrow> bool" where
  "valid_gm_SelectPlace m \<longleftrightarrow>
     True"

lemma gm_SelectPlace_rd_wr [gm_rd_wr]: "valid_gm_SelectPlace m \<Longrightarrow> rd_gm_SelectPlace (wr_gm_SelectPlace m @ r) = Some (m, r)"
  by (simp add: valid_gm_SelectPlace_def rd_gm_SelectPlace_def wr_gm_SelectPlace_def gm_wire)

definition wr_gm_SelectPosition :: "gm_SelectPosition writer" where
  "wr_gm_SelectPosition m =
     wr_CorePlayer (gm_SelectPosition_selecting_player m) @
     wr_u32 (gm_SelectPosition_code m) @
     wr_u8 (gm_SelectPosition_positions m)"

definition rd_gm_SelectPosition :: "gm_SelectPosition reader" where
  "rd_gm_SelectPosition =
     rd_bind rd_CorePlayer (\<lambda>selecting_player'.
     rd_bind rd_u32 (\<lambda>code'.
     rd_bind rd_u8 (\<lambda>positions'.
     rd_return \<lparr> gm_SelectPosition_selecting_player = selecting_player',
       gm_SelectPosition_code = code',
       gm_SelectPosition_positions = positions' \<rparr>)))"

definition valid_gm_SelectPosition :: "gm_SelectPosition \<Rightarrow> bool" where
  "valid_gm_SelectPosition m \<longleftrightarrow>
     True"

lemma gm_SelectPosition_rd_wr [gm_rd_wr]: "valid_gm_SelectPosition m \<Longrightarrow> rd_gm_SelectPosition (wr_gm_SelectPosition m @ r) = Some (m, r)"
  by (simp add: valid_gm_SelectPosition_def rd_gm_SelectPosition_def wr_gm_SelectPosition_def gm_wire)

definition wr_gm_SelectTribute :: "gm_SelectTribute writer" where
  "wr_gm_SelectTribute m =
     wr_CorePlayer (gm_SelectTribute_selecting_player m) @
     wr_bool (gm_SelectTribute_cancelable m) @
     wr_u8 (gm_SelectTribute_select_min m) @
     wr_u8 (gm_SelectTribute_select_max m) @
     wr_u8 (len8 (gm_SelectTribute_tributes m)) @
     wr_vec (wr_pair (wr_CardPosition True False False) wr_u8) (gm_SelectTribute_tributes m)"

definition rd_gm_SelectTribute :: "gm_SelectTribute reader" where
  "rd_gm_SelectTribute =
     rd_bind rd_CorePlayer (\<lambda>selecting_player'.
     rd_bind rd_bool (\<lambda>cancelable'.
     rd_bind rd_u8 (\<lambda>select_min'.
     rd_bind rd_u8 (\<lambda>select_max'.
     rd_bind rd_u8 (\<lambda>tributes_size'.
     rd_bind (rd_count (rd_pair (rd_CardPosition True False False) rd_u8) (unat tributes_size')) (\<lambda>tributes'.
     rd_return \<lparr> gm_SelectTribute_selecting_player = selecting_player',
       gm_SelectTribute_cancelable = cancelable',
       gm_SelectTribute_select_min = select_min',
       gm_SelectTribute_select_max = select_max',
       gm_SelectTribute_tributes = tributes' \<rparr>))))))"

definition valid_gm_SelectTribute :: "gm_SelectTribute \<Rightarrow> bool" where
  "valid_gm_SelectTribute m \<longleftrightarrow>
     length (gm_SelectTribute_tributes m) < 256 \<and>
     (\<forall>x \<in> set (gm_SelectTribute_tributes m). (valid_pair (valid_CardPosition True False False) always) x)"

lemma gm_SelectTribute_rd_wr [gm_rd_wr]: "valid_gm_SelectTribute m \<Longrightarrow> rd_gm_SelectTribute (wr_gm_SelectTribute m @ r) = Some (m, r)"
  by (simp add: valid_gm_SelectTribute_def rd_gm_SelectTribute_def wr_gm_SelectTribute_def gm_wire)

definition wr_gm_SelectCounter :: "gm_SelectCounter writer" where
  "wr_gm_SelectCounter m =
     wr_CorePlayer (gm_SelectCounter_selecting_player m) @
     wr_u16 (gm_SelectCounter_select_counter_type m) @
     wr_u16 (gm_SelectCounter_select_counter_count m) @
     wr_u8 (len8 (gm_SelectCounter_selectable_cards m)) @
     wr_vec (wr_pair (wr_CardPosition True False False) wr_u16) (gm_SelectCounter_selectable_cards m)"

definition rd_gm_SelectCounter :: "gm_SelectCounter reader" where
  "rd_gm_SelectCounter =
     rd_bind rd_CorePlayer (\<lambda>selecting_player'.
     rd_bind rd_u16 (\<lambda>select_counter_type'.
     rd_bind rd_u16 (\<lambda>select_counter_count'.
     rd_bind rd_u8 (\<lambda>selectable_cards_size'.
     rd_bind (rd_count (rd_pair (rd_CardPosition True False False) rd_u16) (unat selectable_cards_size')) (\<lambda>selectable_cards'.
     rd_return \<lparr> gm_SelectCounter_selecting_player = selecting_player',
       gm_SelectCounter_select_counter_type = select_counter_type',
       gm_SelectCounter_select_counter_count = select_counter_count',
       gm_SelectCounter_selectable_cards = selectable_cards' \<rparr>)))))"

definition valid_gm_SelectCounter :: "gm_SelectCounter \<Rightarrow> bool" where
  "valid_gm_SelectCounter m \<longleftrightarrow>
     length (gm_SelectCounter_selectable_cards m) < 256 \<and>
     (\<forall>x \<in> set (gm_SelectCounter_selectable_cards m). (valid_pair (valid_CardPosition True False False) always) x)"

lemma gm_SelectCounter_rd_wr [gm_rd_wr]: "valid_gm_SelectCounter m \<Longrightarrow> rd_gm_SelectCounter (wr_gm_SelectCounter m @ r) = Some (m, r)"
  by (simp add: valid_gm_SelectCounter_def rd_gm_SelectCounter_def wr_gm_SelectCounter_def gm_wire)

definition wr_gm_SelectSum :: "gm_SelectSum writer" where
  "wr_gm_SelectSum m =
     (wr_enum wr_u8 SelectSumMode_repr) (gm_SelectSum_select_mode m) @
     wr_CorePlayer (gm_SelectSum_selecting_player m) @
     wr_u32 (gm_SelectSum_select_sum_value m) @
     wr_u8 (gm_SelectSum_select_min m) @
     wr_u8 (gm_SelectSum_select_max m) @
     wr_u8 (len8 (gm_SelectSum_must_select_cards m)) @
     wr_vec (wr_pair (wr_CardPosition True False False) wr_u32) (gm_SelectSum_must_select_cards m) @
     wr_u8 (len8 (gm_SelectSum_select_cards m)) @
     wr_vec (wr_pair (wr_CardPosition True False False) wr_u32) (gm_SelectSum_select_cards m)"

definition rd_gm_SelectSum :: "gm_SelectSum reader" where
  "rd_gm_SelectSum =
     rd_bind (rd_enum rd_u8 SelectSumMode_repr SelectSumMode_all) (\<lambda>select_mode'.
     rd_bind rd_CorePlayer (\<lambda>selecting_player'.
     rd_bind rd_u32 (\<lambda>select_sum_value'.
     rd_bind rd_u8 (\<lambda>select_min'.
     rd_bind rd_u8 (\<lambda>select_max'.
     rd_bind rd_u8 (\<lambda>must_select_cards_size'.
     rd_bind (rd_count (rd_pair (rd_CardPosition True False False) rd_u32) (unat must_select_cards_size')) (\<lambda>must_select_cards'.
     rd_bind rd_u8 (\<lambda>select_cards_size'.
     rd_bind (rd_count (rd_pair (rd_CardPosition True False False) rd_u32) (unat select_cards_size')) (\<lambda>select_cards'.
     rd_return \<lparr> gm_SelectSum_select_mode = select_mode',
       gm_SelectSum_selecting_player = selecting_player',
       gm_SelectSum_select_sum_value = select_sum_value',
       gm_SelectSum_select_min = select_min',
       gm_SelectSum_select_max = select_max',
       gm_SelectSum_must_select_cards = must_select_cards',
       gm_SelectSum_select_cards = select_cards' \<rparr>)))))))))"

definition valid_gm_SelectSum :: "gm_SelectSum \<Rightarrow> bool" where
  "valid_gm_SelectSum m \<longleftrightarrow>
     length (gm_SelectSum_must_select_cards m) < 256 \<and>
     (\<forall>x \<in> set (gm_SelectSum_must_select_cards m). (valid_pair (valid_CardPosition True False False) always) x) \<and>
     length (gm_SelectSum_select_cards m) < 256 \<and>
     (\<forall>x \<in> set (gm_SelectSum_select_cards m). (valid_pair (valid_CardPosition True False False) always) x)"

lemma gm_SelectSum_rd_wr [gm_rd_wr]: "valid_gm_SelectSum m \<Longrightarrow> rd_gm_SelectSum (wr_gm_SelectSum m @ r) = Some (m, r)"
  by (simp add: valid_gm_SelectSum_def rd_gm_SelectSum_def wr_gm_SelectSum_def gm_wire)

definition wr_gm_SelectDisableField :: "gm_SelectDisableField writer" where
  "wr_gm_SelectDisableField m =
     wr_CorePlayer (gm_SelectDisableField_selecting_player m) @
     wr_u8 (gm_SelectDisableField_count m) @
     wr_u32 (gm_SelectDisableField_unselectable_field m)"

definition rd_gm_SelectDisableField :: "gm_SelectDisableField reader" where
  "rd_gm_SelectDisableField =
     rd_bind rd_CorePlayer (\<lambda>selecting_player'.
     rd_bind rd_u8 (\<lambda>count'.
     rd_bind rd_u32 (\<lambda>unselectable_field'.
     rd_return \<lparr> gm_SelectDisableField_selecting_player = selecting_player',
       gm_SelectDisableField_count = count',
       gm_SelectDisableField_unselectable_field = unselectable_field' \<rparr>)))"

definition valid_gm_SelectDisableField :: "gm_SelectDisableField \<Rightarrow> bool" where
  "valid_gm_SelectDisableField m \<longleftrightarrow>
     True"

lemma gm_SelectDisableField_rd_wr [gm_rd_wr]: "valid_gm_SelectDisableField m \<Longrightarrow> rd_gm_SelectDisableField (wr_gm_SelectDisableField m @ r) = Some (m, r)"
  by (simp add: valid_gm_SelectDisableField_def rd_gm_SelectDisableField_def wr_gm_SelectDisableField_def gm_wire)

definition wr_gm_SortCard :: "gm_SortCard writer" where
  "wr_gm_SortCard m =
     wr_CorePlayer (gm_SortCard_player m) @
     wr_u8 (len8 (gm_SortCard_cards m)) @
     wr_vec (wr_CardPosition True False False) (gm_SortCard_cards m)"

definition rd_gm_SortCard :: "gm_SortCard reader" where
  "rd_gm_SortCard =
     rd_bind rd_CorePlayer (\<lambda>player'.
     rd_bind rd_u8 (\<lambda>cards_size'.
     rd_bind (rd_count (rd_CardPosition True False False) (unat cards_size')) (\<lambda>cards'.
     rd_return \<lparr> gm_SortCard_player = player',
       gm_SortCard_cards = cards' \<rparr>)))"

definition valid_gm_SortCard :: "gm_SortCard \<Rightarrow> bool" where
  "valid_gm_SortCard m \<longleftrightarrow>
     length (gm_SortCard_cards m) < 256 \<and>
     (\<forall>x \<in> set (gm_SortCard_cards m). (valid_CardPosition True False False) x)"

lemma gm_SortCard_rd_wr [gm_rd_wr]: "valid_gm_SortCard m \<Longrightarrow> rd_gm_SortCard (wr_gm_SortCard m @ r) = Some (m, r)"
  by (simp add: valid_gm_SortCard_def rd_gm_SortCard_def wr_gm_SortCard_def gm_wire)

definition wr_gm_SelectUnselectCard :: "gm_SelectUnselectCard writer" where
  "wr_gm_SelectUnselectCard m =
     wr_CorePlayer (gm_SelectUnselectCard_selecting_player m) @
     wr_bool (gm_SelectUnselectCard_able m) @
     wr_bool (gm_SelectUnselectCard_cancelable m) @
     wr_u8 (gm_SelectUnselectCard_select_min m) @
     wr_u8 (gm_SelectUnselectCard_select_max m) @
     wr_u8 (len8 (gm_SelectUnselectCard_positions1 m)) @
     wr_vec (wr_pair wr_u32 wr_InfoLocation) (gm_SelectUnselectCard_positions1 m) @
     wr_u8 (len8 (gm_SelectUnselectCard_positions2 m)) @
     wr_vec (wr_pair wr_u32 wr_InfoLocation) (gm_SelectUnselectCard_positions2 m)"

definition rd_gm_SelectUnselectCard :: "gm_SelectUnselectCard reader" where
  "rd_gm_SelectUnselectCard =
     rd_bind rd_CorePlayer (\<lambda>selecting_player'.
     rd_bind rd_bool (\<lambda>able'.
     rd_bind rd_bool (\<lambda>cancelable'.
     rd_bind rd_u8 (\<lambda>select_min'.
     rd_bind rd_u8 (\<lambda>select_max'.
     rd_bind rd_u8 (\<lambda>positions1_size'.
     rd_bind (rd_count (rd_pair rd_u32 rd_InfoLocation) (unat positions1_size')) (\<lambda>positions1'.
     rd_bind rd_u8 (\<lambda>positions2_size'.
     rd_bind (rd_count (rd_pair rd_u32 rd_InfoLocation) (unat positions2_size')) (\<lambda>positions2'.
     rd_return \<lparr> gm_SelectUnselectCard_selecting_player = selecting_player',
       gm_SelectUnselectCard_able = able',
       gm_SelectUnselectCard_cancelable = cancelable',
       gm_SelectUnselectCard_select_min = select_min',
       gm_SelectUnselectCard_select_max = select_max',
       gm_SelectUnselectCard_positions1 = positions1',
       gm_SelectUnselectCard_positions2 = positions2' \<rparr>)))))))))"

definition valid_gm_SelectUnselectCard :: "gm_SelectUnselectCard \<Rightarrow> bool" where
  "valid_gm_SelectUnselectCard m \<longleftrightarrow>
     length (gm_SelectUnselectCard_positions1 m) < 256 \<and>
     (\<forall>x \<in> set (gm_SelectUnselectCard_positions1 m). (valid_pair always valid_InfoLocation) x) \<and>
     length (gm_SelectUnselectCard_positions2 m) < 256 \<and>
     (\<forall>x \<in> set (gm_SelectUnselectCard_positions2 m). (valid_pair always valid_InfoLocation) x)"

lemma gm_SelectUnselectCard_rd_wr [gm_rd_wr]: "valid_gm_SelectUnselectCard m \<Longrightarrow> rd_gm_SelectUnselectCard (wr_gm_SelectUnselectCard m @ r) = Some (m, r)"
  by (simp add: valid_gm_SelectUnselectCard_def rd_gm_SelectUnselectCard_def wr_gm_SelectUnselectCard_def gm_wire)

definition wr_gm_ConfirmDecktop :: "gm_ConfirmDecktop writer" where
  "wr_gm_ConfirmDecktop m =
     wr_CorePlayer (gm_ConfirmDecktop_controller m) @
     wr_u8 (len8 (gm_ConfirmDecktop_codes m)) @
     wr_vec (wr_CardPosition True False False) (gm_ConfirmDecktop_codes m)"

definition rd_gm_ConfirmDecktop :: "gm_ConfirmDecktop reader" where
  "rd_gm_ConfirmDecktop =
     rd_bind rd_CorePlayer (\<lambda>controller'.
     rd_bind rd_u8 (\<lambda>codes_size'.
     rd_bind (rd_count (rd_CardPosition True False False) (unat codes_size')) (\<lambda>codes'.
     rd_return \<lparr> gm_ConfirmDecktop_controller = controller',
       gm_ConfirmDecktop_codes = codes' \<rparr>)))"

definition valid_gm_ConfirmDecktop :: "gm_ConfirmDecktop \<Rightarrow> bool" where
  "valid_gm_ConfirmDecktop m \<longleftrightarrow>
     length (gm_ConfirmDecktop_codes m) < 256 \<and>
     (\<forall>x \<in> set (gm_ConfirmDecktop_codes m). (valid_CardPosition True False False) x)"

lemma gm_ConfirmDecktop_rd_wr [gm_rd_wr]: "valid_gm_ConfirmDecktop m \<Longrightarrow> rd_gm_ConfirmDecktop (wr_gm_ConfirmDecktop m @ r) = Some (m, r)"
  by (simp add: valid_gm_ConfirmDecktop_def rd_gm_ConfirmDecktop_def wr_gm_ConfirmDecktop_def gm_wire)

definition wr_gm_ConfirmCards :: "gm_ConfirmCards writer" where
  "wr_gm_ConfirmCards m =
     wr_CorePlayer (gm_ConfirmCards_player m) @
     wr_bool (gm_ConfirmCards_skip_panel m) @
     wr_u8 (len8 (gm_ConfirmCards_cards m)) @
     wr_vec (wr_CardPosition True False False) (gm_ConfirmCards_cards m)"

definition rd_gm_ConfirmCards :: "gm_ConfirmCards reader" where
  "rd_gm_ConfirmCards =
     rd_bind rd_CorePlayer (\<lambda>player'.
     rd_bind rd_bool (\<lambda>skip_panel'.
     rd_bind rd_u8 (\<lambda>cards_size'.
     rd_bind (rd_count (rd_CardPosition True False False) (unat cards_size')) (\<lambda>cards'.
     rd_return \<lparr> gm_ConfirmCards_player = player',
       gm_ConfirmCards_skip_panel = skip_panel',
       gm_ConfirmCards_cards = cards' \<rparr>))))"

definition valid_gm_ConfirmCards :: "gm_ConfirmCards \<Rightarrow> bool" where
  "valid_gm_ConfirmCards m \<longleftrightarrow>
     length (gm_ConfirmCards_cards m) < 256 \<and>
     (\<forall>x \<in> set (gm_ConfirmCards_cards m). (valid_CardPosition True False False) x)"

lemma gm_ConfirmCards_rd_wr [gm_rd_wr]: "valid_gm_ConfirmCards m \<Longrightarrow> rd_gm_ConfirmCards (wr_gm_ConfirmCards m @ r) = Some (m, r)"
  by (simp add: valid_gm_ConfirmCards_def rd_gm_ConfirmCards_def wr_gm_ConfirmCards_def gm_wire)

definition wr_gm_ShuffleDeck :: "gm_ShuffleDeck writer" where
  "wr_gm_ShuffleDeck m =
     wr_CorePlayer (gm_ShuffleDeck_player m)"

definition rd_gm_ShuffleDeck :: "gm_ShuffleDeck reader" where
  "rd_gm_ShuffleDeck =
     rd_bind rd_CorePlayer (\<lambda>player'.
     rd_return \<lparr> gm_ShuffleDeck_player = player' \<rparr>)"

definition valid_gm_ShuffleDeck :: "gm_ShuffleDeck \<Rightarrow> bool" where
  "valid_gm_ShuffleDeck m \<longleftrightarrow>
     True"

lemma gm_ShuffleDeck_rd_wr [gm_rd_wr]: "valid_gm_ShuffleDeck m \<Longrightarrow> rd_gm_ShuffleDeck (wr_gm_ShuffleDeck m @ r) = Some (m, r)"
  by (simp add: valid_gm_ShuffleDeck_def rd_gm_ShuffleDeck_def wr_gm_ShuffleDeck_def gm_wire)

definition wr_gm_ShuffleHand :: "gm_ShuffleHand writer" where
  "wr_gm_ShuffleHand m =
     wr_CorePlayer (gm_ShuffleHand_player m) @
     wr_u8 (len8 (gm_ShuffleHand_codes m)) @
     wr_vec wr_u32 (gm_ShuffleHand_codes m)"

definition rd_gm_ShuffleHand :: "gm_ShuffleHand reader" where
  "rd_gm_ShuffleHand =
     rd_bind rd_CorePlayer (\<lambda>player'.
     rd_bind rd_u8 (\<lambda>count'.
     rd_bind (rd_count rd_u32 (unat count')) (\<lambda>codes'.
     rd_return \<lparr> gm_ShuffleHand_player = player',
       gm_ShuffleHand_codes = codes' \<rparr>)))"

definition valid_gm_ShuffleHand :: "gm_ShuffleHand \<Rightarrow> bool" where
  "valid_gm_ShuffleHand m \<longleftrightarrow>
     length (gm_ShuffleHand_codes m) < 256"

lemma gm_ShuffleHand_rd_wr [gm_rd_wr]: "valid_gm_ShuffleHand m \<Longrightarrow> rd_gm_ShuffleHand (wr_gm_ShuffleHand m @ r) = Some (m, r)"
  by (simp add: valid_gm_ShuffleHand_def rd_gm_ShuffleHand_def wr_gm_ShuffleHand_def gm_wire)

definition wr_gm_RefreshDeck :: "gm_RefreshDeck writer" where
  "wr_gm_RefreshDeck m =
     wr_CorePlayer (gm_RefreshDeck_player m)"

definition rd_gm_RefreshDeck :: "gm_RefreshDeck reader" where
  "rd_gm_RefreshDeck =
     rd_bind rd_CorePlayer (\<lambda>player'.
     rd_return \<lparr> gm_RefreshDeck_player = player' \<rparr>)"

definition valid_gm_RefreshDeck :: "gm_RefreshDeck \<Rightarrow> bool" where
  "valid_gm_RefreshDeck m \<longleftrightarrow>
     True"

lemma gm_RefreshDeck_rd_wr [gm_rd_wr]: "valid_gm_RefreshDeck m \<Longrightarrow> rd_gm_RefreshDeck (wr_gm_RefreshDeck m @ r) = Some (m, r)"
  by (simp add: valid_gm_RefreshDeck_def rd_gm_RefreshDeck_def wr_gm_RefreshDeck_def gm_wire)

definition wr_gm_SwapGraveDeck :: "gm_SwapGraveDeck writer" where
  "wr_gm_SwapGraveDeck m =
     wr_CorePlayer (gm_SwapGraveDeck_player m)"

definition rd_gm_SwapGraveDeck :: "gm_SwapGraveDeck reader" where
  "rd_gm_SwapGraveDeck =
     rd_bind rd_CorePlayer (\<lambda>player'.
     rd_return \<lparr> gm_SwapGraveDeck_player = player' \<rparr>)"

definition valid_gm_SwapGraveDeck :: "gm_SwapGraveDeck \<Rightarrow> bool" where
  "valid_gm_SwapGraveDeck m \<longleftrightarrow>
     True"

lemma gm_SwapGraveDeck_rd_wr [gm_rd_wr]: "valid_gm_SwapGraveDeck m \<Longrightarrow> rd_gm_SwapGraveDeck (wr_gm_SwapGraveDeck m @ r) = Some (m, r)"
  by (simp add: valid_gm_SwapGraveDeck_def rd_gm_SwapGraveDeck_def wr_gm_SwapGraveDeck_def gm_wire)

definition wr_gm_DeckTop :: "gm_DeckTop writer" where
  "wr_gm_DeckTop m =
     wr_CorePlayer (gm_DeckTop_player m) @
     wr_u8 (gm_DeckTop_sequence m) @
     wr_u32 (gm_DeckTop_code m)"

definition rd_gm_DeckTop :: "gm_DeckTop reader" where
  "rd_gm_DeckTop =
     rd_bind rd_CorePlayer (\<lambda>player'.
     rd_bind rd_u8 (\<lambda>sequence'.
     rd_bind rd_u32 (\<lambda>code'.
     rd_return \<lparr> gm_DeckTop_player = player',
       gm_DeckTop_sequence = sequence',
       gm_DeckTop_code = code' \<rparr>)))"

definition valid_gm_DeckTop :: "gm_DeckTop \<Rightarrow> bool" where
  "valid_gm_DeckTop m \<longleftrightarrow>
     True"

lemma gm_DeckTop_rd_wr [gm_rd_wr]: "valid_gm_DeckTop m \<Longrightarrow> rd_gm_DeckTop (wr_gm_DeckTop m @ r) = Some (m, r)"
  by (simp add: valid_gm_DeckTop_def rd_gm_DeckTop_def wr_gm_DeckTop_def gm_wire)

definition wr_gm_ShuffleExtra :: "gm_ShuffleExtra writer" where
  "wr_gm_ShuffleExtra m =
     wr_CorePlayer (gm_ShuffleExtra_player m) @
     wr_u8 (len8 (gm_ShuffleExtra_codes m)) @
     wr_vec wr_u32 (gm_ShuffleExtra_codes m)"

definition rd_gm_ShuffleExtra :: "gm_ShuffleExtra reader" where
  "rd_gm_ShuffleExtra =
     rd_bind rd_CorePlayer (\<lambda>player'.
     rd_bind rd_u8 (\<lambda>count'.
     rd_bind (rd_count rd_u32 (unat count')) (\<lambda>codes'.
     rd_return \<lparr> gm_ShuffleExtra_player = player',
       gm_ShuffleExtra_codes = codes' \<rparr>)))"

definition valid_gm_ShuffleExtra :: "gm_ShuffleExtra \<Rightarrow> bool" where
  "valid_gm_ShuffleExtra m \<longleftrightarrow>
     length (gm_ShuffleExtra_codes m) < 256"

lemma gm_ShuffleExtra_rd_wr [gm_rd_wr]: "valid_gm_ShuffleExtra m \<Longrightarrow> rd_gm_ShuffleExtra (wr_gm_ShuffleExtra m @ r) = Some (m, r)"
  by (simp add: valid_gm_ShuffleExtra_def rd_gm_ShuffleExtra_def wr_gm_ShuffleExtra_def gm_wire)

definition wr_gm_NewTurn :: "gm_NewTurn writer" where
  "wr_gm_NewTurn m =
     wr_CorePlayer (gm_NewTurn_player m)"

definition rd_gm_NewTurn :: "gm_NewTurn reader" where
  "rd_gm_NewTurn =
     rd_bind rd_CorePlayer (\<lambda>player'.
     rd_return \<lparr> gm_NewTurn_player = player' \<rparr>)"

definition valid_gm_NewTurn :: "gm_NewTurn \<Rightarrow> bool" where
  "valid_gm_NewTurn m \<longleftrightarrow>
     True"

lemma gm_NewTurn_rd_wr [gm_rd_wr]: "valid_gm_NewTurn m \<Longrightarrow> rd_gm_NewTurn (wr_gm_NewTurn m @ r) = Some (m, r)"
  by (simp add: valid_gm_NewTurn_def rd_gm_NewTurn_def wr_gm_NewTurn_def gm_wire)

definition wr_gm_NewPhase :: "gm_NewPhase writer" where
  "wr_gm_NewPhase m =
     (wr_enum wr_u16 Phase_repr) (gm_NewPhase_phase m)"

definition rd_gm_NewPhase :: "gm_NewPhase reader" where
  "rd_gm_NewPhase =
     rd_bind (rd_enum rd_u16 Phase_repr Phase_all) (\<lambda>phase'.
     rd_return \<lparr> gm_NewPhase_phase = phase' \<rparr>)"

definition valid_gm_NewPhase :: "gm_NewPhase \<Rightarrow> bool" where
  "valid_gm_NewPhase m \<longleftrightarrow>
     True"

lemma gm_NewPhase_rd_wr [gm_rd_wr]: "valid_gm_NewPhase m \<Longrightarrow> rd_gm_NewPhase (wr_gm_NewPhase m @ r) = Some (m, r)"
  by (simp add: valid_gm_NewPhase_def rd_gm_NewPhase_def wr_gm_NewPhase_def gm_wire)

definition wr_gm_ConfirmExtraTop :: "gm_ConfirmExtraTop writer" where
  "wr_gm_ConfirmExtraTop m =
     wr_CorePlayer (gm_ConfirmExtraTop_player m) @
     wr_u8 (len8 (gm_ConfirmExtraTop_selectable_cards m)) @
     wr_vec (wr_CardPosition True False False) (gm_ConfirmExtraTop_selectable_cards m)"

definition rd_gm_ConfirmExtraTop :: "gm_ConfirmExtraTop reader" where
  "rd_gm_ConfirmExtraTop =
     rd_bind rd_CorePlayer (\<lambda>player'.
     rd_bind rd_u8 (\<lambda>selectable_cards_size'.
     rd_bind (rd_count (rd_CardPosition True False False) (unat selectable_cards_size')) (\<lambda>selectable_cards'.
     rd_return \<lparr> gm_ConfirmExtraTop_player = player',
       gm_ConfirmExtraTop_selectable_cards = selectable_cards' \<rparr>)))"

definition valid_gm_ConfirmExtraTop :: "gm_ConfirmExtraTop \<Rightarrow> bool" where
  "valid_gm_ConfirmExtraTop m \<longleftrightarrow>
     length (gm_ConfirmExtraTop_selectable_cards m) < 256 \<and>
     (\<forall>x \<in> set (gm_ConfirmExtraTop_selectable_cards m). (valid_CardPosition True False False) x)"

lemma gm_ConfirmExtraTop_rd_wr [gm_rd_wr]: "valid_gm_ConfirmExtraTop m \<Longrightarrow> rd_gm_ConfirmExtraTop (wr_gm_ConfirmExtraTop m @ r) = Some (m, r)"
  by (simp add: valid_gm_ConfirmExtraTop_def rd_gm_ConfirmExtraTop_def wr_gm_ConfirmExtraTop_def gm_wire)

definition wr_gm_Move :: "gm_Move writer" where
  "wr_gm_Move m =
     wr_u32 (gm_Move_code m) @
     wr_InfoLocation (gm_Move_previous m) @
     wr_InfoLocation (gm_Move_current m) @
     wr_u32 (gm_Move_reason m)"

definition rd_gm_Move :: "gm_Move reader" where
  "rd_gm_Move =
     rd_bind rd_u32 (\<lambda>code'.
     rd_bind rd_InfoLocation (\<lambda>previous'.
     rd_bind rd_InfoLocation (\<lambda>current'.
     rd_bind rd_u32 (\<lambda>reason'.
     rd_return \<lparr> gm_Move_code = code',
       gm_Move_previous = previous',
       gm_Move_current = current',
       gm_Move_reason = reason' \<rparr>))))"

definition valid_gm_Move :: "gm_Move \<Rightarrow> bool" where
  "valid_gm_Move m \<longleftrightarrow>
     valid_InfoLocation (gm_Move_previous m) \<and>
     valid_InfoLocation (gm_Move_current m)"

lemma gm_Move_rd_wr [gm_rd_wr]: "valid_gm_Move m \<Longrightarrow> rd_gm_Move (wr_gm_Move m @ r) = Some (m, r)"
  by (simp add: valid_gm_Move_def rd_gm_Move_def wr_gm_Move_def gm_wire)

definition wr_gm_PositionChange :: "gm_PositionChange writer" where
  "wr_gm_PositionChange m =
     wr_u32 (gm_PositionChange_card m) @
     wr_CorePlayer (gm_PositionChange_controller m) @
     wr_u8 (gm_PositionChange_location m) @
     wr_u8 (gm_PositionChange_sequence m) @
     wr_u8 (gm_PositionChange_previous_position m) @
     wr_u8 (gm_PositionChange_current_position m)"

definition rd_gm_PositionChange :: "gm_PositionChange reader" where
  "rd_gm_PositionChange =
     rd_bind rd_u32 (\<lambda>card'.
     rd_bind rd_CorePlayer (\<lambda>controller'.
     rd_bind rd_u8 (\<lambda>location'.
     rd_bind rd_u8 (\<lambda>sequence'.
     rd_bind rd_u8 (\<lambda>previous_position'.
     rd_bind rd_u8 (\<lambda>current_position'.
     rd_return \<lparr> gm_PositionChange_card = card',
       gm_PositionChange_controller = controller',
       gm_PositionChange_location = location',
       gm_PositionChange_sequence = sequence',
       gm_PositionChange_previous_position = previous_position',
       gm_PositionChange_current_position = current_position' \<rparr>))))))"

definition valid_gm_PositionChange :: "gm_PositionChange \<Rightarrow> bool" where
  "valid_gm_PositionChange m \<longleftrightarrow>
     True"

lemma gm_PositionChange_rd_wr [gm_rd_wr]: "valid_gm_PositionChange m \<Longrightarrow> rd_gm_PositionChange (wr_gm_PositionChange m @ r) = Some (m, r)"
  by (simp add: valid_gm_PositionChange_def rd_gm_PositionChange_def wr_gm_PositionChange_def gm_wire)

definition wr_gm_Set :: "gm_Set writer" where
  "wr_gm_Set m =
     wr_u32 (gm_Set_code m) @
     wr_InfoLocation (gm_Set_position m)"

definition rd_gm_Set :: "gm_Set reader" where
  "rd_gm_Set =
     rd_bind rd_u32 (\<lambda>code'.
     rd_bind rd_InfoLocation (\<lambda>position'.
     rd_return \<lparr> gm_Set_code = code',
       gm_Set_position = position' \<rparr>))"

definition valid_gm_Set :: "gm_Set \<Rightarrow> bool" where
  "valid_gm_Set m \<longleftrightarrow>
     valid_InfoLocation (gm_Set_position m)"

lemma gm_Set_rd_wr [gm_rd_wr]: "valid_gm_Set m \<Longrightarrow> rd_gm_Set (wr_gm_Set m @ r) = Some (m, r)"
  by (simp add: valid_gm_Set_def rd_gm_Set_def wr_gm_Set_def gm_wire)

definition wr_gm_Swap :: "gm_Swap writer" where
  "wr_gm_Swap m =
     wr_u32 (gm_Swap_code1 m) @
     wr_InfoLocation (gm_Swap_position1 m) @
     wr_u32 (gm_Swap_code2 m) @
     wr_InfoLocation (gm_Swap_position2 m)"

definition rd_gm_Swap :: "gm_Swap reader" where
  "rd_gm_Swap =
     rd_bind rd_u32 (\<lambda>code1'.
     rd_bind rd_InfoLocation (\<lambda>position1'.
     rd_bind rd_u32 (\<lambda>code2'.
     rd_bind rd_InfoLocation (\<lambda>position2'.
     rd_return \<lparr> gm_Swap_code1 = code1',
       gm_Swap_position1 = position1',
       gm_Swap_code2 = code2',
       gm_Swap_position2 = position2' \<rparr>))))"

definition valid_gm_Swap :: "gm_Swap \<Rightarrow> bool" where
  "valid_gm_Swap m \<longleftrightarrow>
     valid_InfoLocation (gm_Swap_position1 m) \<and>
     valid_InfoLocation (gm_Swap_position2 m)"

lemma gm_Swap_rd_wr [gm_rd_wr]: "valid_gm_Swap m \<Longrightarrow> rd_gm_Swap (wr_gm_Swap m @ r) = Some (m, r)"
  by (simp add: valid_gm_Swap_def rd_gm_Swap_def wr_gm_Swap_def gm_wire)

definition wr_gm_FieldDisabled :: "gm_FieldDisabled writer" where
  "wr_gm_FieldDisabled m =
     wr_u32 (gm_FieldDisabled_disabled m)"

definition rd_gm_FieldDisabled :: "gm_FieldDisabled reader" where
  "rd_gm_FieldDisabled =
     rd_bind rd_u32 (\<lambda>disabled'.
     rd_return \<lparr> gm_FieldDisabled_disabled = disabled' \<rparr>)"

definition valid_gm_FieldDisabled :: "gm_FieldDisabled \<Rightarrow> bool" where
  "valid_gm_FieldDisabled m \<longleftrightarrow>
     True"

lemma gm_FieldDisabled_rd_wr [gm_rd_wr]: "valid_gm_FieldDisabled m \<Longrightarrow> rd_gm_FieldDisabled (wr_gm_FieldDisabled m @ r) = Some (m, r)"
  by (simp add: valid_gm_FieldDisabled_def rd_gm_FieldDisabled_def wr_gm_FieldDisabled_def gm_wire)

definition wr_gm_Summoning :: "gm_Summoning writer" where
  "wr_gm_Summoning m =
     wr_u32 (gm_Summoning_code m) @
     wr_InfoLocation (gm_Summoning_position m)"

definition rd_gm_Summoning :: "gm_Summoning reader" where
  "rd_gm_Summoning =
     rd_bind rd_u32 (\<lambda>code'.
     rd_bind rd_InfoLocation (\<lambda>position'.
     rd_return \<lparr> gm_Summoning_code = code',
       gm_Summoning_position = position' \<rparr>))"

definition valid_gm_Summoning :: "gm_Summoning \<Rightarrow> bool" where
  "valid_gm_Summoning m \<longleftrightarrow>
     valid_InfoLocation (gm_Summoning_position m)"

lemma gm_Summoning_rd_wr [gm_rd_wr]: "valid_gm_Summoning m \<Longrightarrow> rd_gm_Summoning (wr_gm_Summoning m @ r) = Some (m, r)"
  by (simp add: valid_gm_Summoning_def rd_gm_Summoning_def wr_gm_Summoning_def gm_wire)

definition wr_gm_SpecialSummoning :: "gm_SpecialSummoning writer" where
  "wr_gm_SpecialSummoning m =
     wr_u32 (gm_SpecialSummoning_code m) @
     wr_InfoLocation (gm_SpecialSummoning_position m)"

definition rd_gm_SpecialSummoning :: "gm_SpecialSummoning reader" where
  "rd_gm_SpecialSummoning =
     rd_bind rd_u32 (\<lambda>code'.
     rd_bind rd_InfoLocation (\<lambda>position'.
     rd_return \<lparr> gm_SpecialSummoning_code = code',
       gm_SpecialSummoning_position = position' \<rparr>))"

definition valid_gm_SpecialSummoning :: "gm_SpecialSummoning \<Rightarrow> bool" where
  "valid_gm_SpecialSummoning m \<longleftrightarrow>
     valid_InfoLocation (gm_SpecialSummoning_position m)"

lemma gm_SpecialSummoning_rd_wr [gm_rd_wr]: "valid_gm_SpecialSummoning m \<Longrightarrow> rd_gm_SpecialSummoning (wr_gm_SpecialSummoning m @ r) = Some (m, r)"
  by (simp add: valid_gm_SpecialSummoning_def rd_gm_SpecialSummoning_def wr_gm_SpecialSummoning_def gm_wire)

definition wr_gm_FlipSummoning :: "gm_FlipSummoning writer" where
  "wr_gm_FlipSummoning m =
     wr_u32 (gm_FlipSummoning_code m) @
     wr_InfoLocation (gm_FlipSummoning_position m)"

definition rd_gm_FlipSummoning :: "gm_FlipSummoning reader" where
  "rd_gm_FlipSummoning =
     rd_bind rd_u32 (\<lambda>code'.
     rd_bind rd_InfoLocation (\<lambda>position'.
     rd_return \<lparr> gm_FlipSummoning_code = code',
       gm_FlipSummoning_position = position' \<rparr>))"

definition valid_gm_FlipSummoning :: "gm_FlipSummoning \<Rightarrow> bool" where
  "valid_gm_FlipSummoning m \<longleftrightarrow>
     valid_InfoLocation (gm_FlipSummoning_position m)"

lemma gm_FlipSummoning_rd_wr [gm_rd_wr]: "valid_gm_FlipSummoning m \<Longrightarrow> rd_gm_FlipSummoning (wr_gm_FlipSummoning m @ r) = Some (m, r)"
  by (simp add: valid_gm_FlipSummoning_def rd_gm_FlipSummoning_def wr_gm_FlipSummoning_def gm_wire)

definition wr_gm_Chaining :: "gm_Chaining writer" where
  "wr_gm_Chaining m =
     wr_u32 (gm_Chaining_card m) @
     (wr_CardPosition False True False) (gm_Chaining_previous m) @
     (wr_CardPosition False False True) (gm_Chaining_current m) @
     wr_u8 (gm_Chaining_chain_count m)"

definition rd_gm_Chaining :: "gm_Chaining reader" where
  "rd_gm_Chaining =
     rd_bind rd_u32 (\<lambda>card'.
     rd_bind (rd_CardPosition False True False) (\<lambda>previous'.
     rd_bind (rd_CardPosition False False True) (\<lambda>current'.
     rd_bind rd_u8 (\<lambda>chain_count'.
     rd_return \<lparr> gm_Chaining_card = card',
       gm_Chaining_previous = previous',
       gm_Chaining_current = current',
       gm_Chaining_chain_count = chain_count' \<rparr>))))"

definition valid_gm_Chaining :: "gm_Chaining \<Rightarrow> bool" where
  "valid_gm_Chaining m \<longleftrightarrow>
     (valid_CardPosition False True False) (gm_Chaining_previous m) \<and>
     (valid_CardPosition False False True) (gm_Chaining_current m)"

lemma gm_Chaining_rd_wr [gm_rd_wr]: "valid_gm_Chaining m \<Longrightarrow> rd_gm_Chaining (wr_gm_Chaining m @ r) = Some (m, r)"
  by (simp add: valid_gm_Chaining_def rd_gm_Chaining_def wr_gm_Chaining_def gm_wire)

definition wr_gm_Chained :: "gm_Chained writer" where
  "wr_gm_Chained m =
     wr_u8 (gm_Chained_chain_index m)"

definition rd_gm_Chained :: "gm_Chained reader" where
  "rd_gm_Chained =
     rd_bind rd_u8 (\<lambda>chain_index'.
     rd_return \<lparr> gm_Chained_chain_index = chain_index' \<rparr>)"

definition valid_gm_Chained :: "gm_Chained \<Rightarrow> bool" where
  "valid_gm_Chained m \<longleftrightarrow>
     True"

lemma gm_Chained_rd_wr [gm_rd_wr]: "valid_gm_Chained m \<Longrightarrow> rd_gm_Chained (wr_gm_Chained m @ r) = Some (m, r)"
  by (simp add: valid_gm_Chained_def rd_gm_Chained_def wr_gm_Chained_def gm_wire)

definition wr_gm_ChainSolving :: "gm_ChainSolving writer" where
  "wr_gm_ChainSolving m =
     wr_u8 (gm_ChainSolving_chain_index m)"

definition rd_gm_ChainSolving :: "gm_ChainSolving reader" where
  "rd_gm_ChainSolving =
     rd_bind rd_u8 (\<lambda>chain_index'.
     rd_return \<lparr> gm_ChainSolving_chain_index = chain_index' \<rparr>)"

definition valid_gm_ChainSolving :: "gm_ChainSolving \<Rightarrow> bool" where
  "valid_gm_ChainSolving m \<longleftrightarrow>
     True"

lemma gm_ChainSolving_rd_wr [gm_rd_wr]: "valid_gm_ChainSolving m \<Longrightarrow> rd_gm_ChainSolving (wr_gm_ChainSolving m @ r) = Some (m, r)"
  by (simp add: valid_gm_ChainSolving_def rd_gm_ChainSolving_def wr_gm_ChainSolving_def gm_wire)

definition wr_gm_ChainSolved :: "gm_ChainSolved writer" where
  "wr_gm_ChainSolved m =
     wr_u8 (gm_ChainSolved_chain_index m)"

definition rd_gm_ChainSolved :: "gm_ChainSolved reader" where
  "rd_gm_ChainSolved =
     rd_bind rd_u8 (\<lambda>chain_index'.
     rd_return \<lparr> gm_ChainSolved_chain_index = chain_index' \<rparr>)"

definition valid_gm_ChainSolved :: "gm_ChainSolved \<Rightarrow> bool" where
  "valid_gm_ChainSolved m \<longleftrightarrow>
     True"

lemma gm_ChainSolved_rd_wr [gm_rd_wr]: "valid_gm_ChainSolved m \<Longrightarrow> rd_gm_ChainSolved (wr_gm_ChainSolved m @ r) = Some (m, r)"
  by (simp add: valid_gm_ChainSolved_def rd_gm_ChainSolved_def wr_gm_ChainSolved_def gm_wire)

definition wr_gm_ChainNegated :: "gm_ChainNegated writer" where
  "wr_gm_ChainNegated m =
     wr_u8 (gm_ChainNegated_chain_index m)"

definition rd_gm_ChainNegated :: "gm_ChainNegated reader" where
  "rd_gm_ChainNegated =
     rd_bind rd_u8 (\<lambda>chain_index'.
     rd_return \<lparr> gm_ChainNegated_chain_index = chain_index' \<rparr>)"

definition valid_gm_ChainNegated :: "gm_ChainNegated \<Rightarrow> bool" where
  "valid_gm_ChainNegated m \<longleftrightarrow>
     True"

lemma gm_ChainNegated_rd_wr [gm_rd_wr]: "valid_gm_ChainNegated m \<Longrightarrow> rd_gm_ChainNegated (wr_gm_ChainNegated m @ r) = Some (m, r)"
  by (simp add: valid_gm_ChainNegated_def rd_gm_ChainNegated_def wr_gm_ChainNegated_def gm_wire)

definition wr_gm_ChainDisabled :: "gm_ChainDisabled writer" where
  "wr_gm_ChainDisabled m =
     wr_u8 (gm_ChainDisabled_chain_index m)"

definition rd_gm_ChainDisabled :: "gm_ChainDisabled reader" where
  "rd_gm_ChainDisabled =
     rd_bind rd_u8 (\<lambda>chain_index'.
     rd_return \<lparr> gm_ChainDisabled_chain_index = chain_index' \<rparr>)"

definition valid_gm_ChainDisabled :: "gm_ChainDisabled \<Rightarrow> bool" where
  "valid_gm_ChainDisabled m \<longleftrightarrow>
     True"

lemma gm_ChainDisabled_rd_wr [gm_rd_wr]: "valid_gm_ChainDisabled m \<Longrightarrow> rd_gm_ChainDisabled (wr_gm_ChainDisabled m @ r) = Some (m, r)"
  by (simp add: valid_gm_ChainDisabled_def rd_gm_ChainDisabled_def wr_gm_ChainDisabled_def gm_wire)

definition wr_gm_CardSelected :: "gm_CardSelected writer" where
  "wr_gm_CardSelected m =
     wr_CorePlayer (gm_CardSelected_player m) @
     wr_u8 (len8 (gm_CardSelected_pcards m)) @
     wr_vec wr_InfoLocation (gm_CardSelected_pcards m)"

definition rd_gm_CardSelected :: "gm_CardSelected reader" where
  "rd_gm_CardSelected =
     rd_bind rd_CorePlayer (\<lambda>player'.
     rd_bind rd_u8 (\<lambda>pcards_size'.
     rd_bind (rd_count rd_InfoLocation (unat pcards_size')) (\<lambda>pcards'.
     rd_return \<lparr> gm_CardSelected_player = player',
       gm_CardSelected_pcards = pcards' \<rparr>)))"

definition valid_gm_CardSelected :: "gm_CardSelected \<Rightarrow> bool" where
  "valid_gm_CardSelected m \<longleftrightarrow>
     length (gm_CardSelected_pcards m) < 256 \<and>
     (\<forall>x \<in> set (gm_CardSelected_pcards m). valid_InfoLocation x)"

lemma gm_CardSelected_rd_wr [gm_rd_wr]: "valid_gm_CardSelected m \<Longrightarrow> rd_gm_CardSelected (wr_gm_CardSelected m @ r) = Some (m, r)"
  by (simp add: valid_gm_CardSelected_def rd_gm_CardSelected_def wr_gm_CardSelected_def gm_wire)

definition wr_gm_RandomSelected :: "gm_RandomSelected writer" where
  "wr_gm_RandomSelected m =
     wr_CorePlayer (gm_RandomSelected_player m) @
     wr_u8 (len8 (gm_RandomSelected_pcards m)) @
     wr_vec wr_InfoLocation (gm_RandomSelected_pcards m)"

definition rd_gm_RandomSelected :: "gm_RandomSelected reader" where
  "rd_gm_RandomSelected =
     rd_bind rd_CorePlayer (\<lambda>player'.
     rd_bind rd_u8 (\<lambda>pcards_size'.
     rd_bind (rd_count rd_InfoLocation (unat pcards_size')) (\<lambda>pcards'.
     rd_return \<lparr> gm_RandomSelected_player = player',
       gm_RandomSelected_pcards = pcards' \<rparr>)))"

definition valid_gm_RandomSelected :: "gm_RandomSelected \<Rightarrow> bool" where
  "valid_gm_RandomSelected m \<longleftrightarrow>
     length (gm_RandomSelected_pcards m) < 256 \<and>
     (\<forall>x \<in> set (gm_RandomSelected_pcards m). valid_InfoLocation x)"

lemma gm_RandomSelected_rd_wr [gm_rd_wr]: "valid_gm_RandomSelected m \<Longrightarrow> rd_gm_RandomSelected (wr_gm_RandomSelected m @ r) = Some (m, r)"
  by (simp add: valid_gm_RandomSelected_def rd_gm_RandomSelected_def wr_gm_RandomSelected_def gm_wire)

definition wr_gm_BecomeTarget :: "gm_BecomeTarget writer" where
  "wr_gm_BecomeTarget m =
     wr_u8 (len8 (gm_BecomeTarget_pcards m)) @
     wr_vec wr_InfoLocation (gm_BecomeTarget_pcards m)"

definition rd_gm_BecomeTarget :: "gm_BecomeTarget reader" where
  "rd_gm_BecomeTarget =
     rd_bind rd_u8 (\<lambda>pcards_size'.
     rd_bind (rd_count rd_InfoLocation (unat pcards_size')) (\<lambda>pcards'.
     rd_return \<lparr> gm_BecomeTarget_pcards = pcards' \<rparr>))"

definition valid_gm_BecomeTarget :: "gm_BecomeTarget \<Rightarrow> bool" where
  "valid_gm_BecomeTarget m \<longleftrightarrow>
     length (gm_BecomeTarget_pcards m) < 256 \<and>
     (\<forall>x \<in> set (gm_BecomeTarget_pcards m). valid_InfoLocation x)"

lemma gm_BecomeTarget_rd_wr [gm_rd_wr]: "valid_gm_BecomeTarget m \<Longrightarrow> rd_gm_BecomeTarget (wr_gm_BecomeTarget m @ r) = Some (m, r)"
  by (simp add: valid_gm_BecomeTarget_def rd_gm_BecomeTarget_def wr_gm_BecomeTarget_def gm_wire)

definition wr_gm_Draw :: "gm_Draw writer" where
  "wr_gm_Draw m =
     wr_CorePlayer (gm_Draw_player m) @
     wr_u8 (len8 (gm_Draw_codes m)) @
     wr_vec wr_u32 (gm_Draw_codes m)"

definition rd_gm_Draw :: "gm_Draw reader" where
  "rd_gm_Draw =
     rd_bind rd_CorePlayer (\<lambda>player'.
     rd_bind rd_u8 (\<lambda>codes_size'.
     rd_bind (rd_count rd_u32 (unat codes_size')) (\<lambda>codes'.
     rd_return \<lparr> gm_Draw_player = player',
       gm_Draw_codes = codes' \<rparr>)))"

definition valid_gm_Draw :: "gm_Draw \<Rightarrow> bool" where
  "valid_gm_Draw m \<longleftrightarrow>
     length (gm_Draw_codes m) < 256"

lemma gm_Draw_rd_wr [gm_rd_wr]: "valid_gm_Draw m \<Longrightarrow> rd_gm_Draw (wr_gm_Draw m @ r) = Some (m, r)"
  by (simp add: valid_gm_Draw_def rd_gm_Draw_def wr_gm_Draw_def gm_wire)

definition wr_gm_Damage :: "gm_Damage writer" where
  "wr_gm_Damage m =
     wr_CorePlayer (gm_Damage_player m) @
     wr_u32 (gm_Damage_value m)"

definition rd_gm_Damage :: "gm_Damage reader" where
  "rd_gm_Damage =
     rd_bind rd_CorePlayer (\<lambda>player'.
     rd_bind rd_u32 (\<lambda>value'.
     rd_return \<lparr> gm_Damage_player = player',
       gm_Damage_value = value' \<rparr>))"

definition valid_gm_Damage :: "gm_Damage \<Rightarrow> bool" where
  "valid_gm_Damage m \<longleftrightarrow>
     True"

lemma gm_Damage_rd_wr [gm_rd_wr]: "valid_gm_Damage m \<Longrightarrow> rd_gm_Damage (wr_gm_Damage m @ r) = Some (m, r)"
  by (simp add: valid_gm_Damage_def rd_gm_Damage_def wr_gm_Damage_def gm_wire)

definition wr_gm_Recover :: "gm_Recover writer" where
  "wr_gm_Recover m =
     wr_CorePlayer (gm_Recover_player m) @
     wr_u32 (gm_Recover_value m)"

definition rd_gm_Recover :: "gm_Recover reader" where
  "rd_gm_Recover =
     rd_bind rd_CorePlayer (\<lambda>player'.
     rd_bind rd_u32 (\<lambda>value'.
     rd_return \<lparr> gm_Recover_player = player',
       gm_Recover_value = value' \<rparr>))"

definition valid_gm_Recover :: "gm_Recover \<Rightarrow> bool" where
  "valid_gm_Recover m \<longleftrightarrow>
     True"

lemma gm_Recover_rd_wr [gm_rd_wr]: "valid_gm_Recover m \<Longrightarrow> rd_gm_Recover (wr_gm_Recover m @ r) = Some (m, r)"
  by (simp add: valid_gm_Recover_def rd_gm_Recover_def wr_gm_Recover_def gm_wire)

definition wr_gm_Equip :: "gm_Equip writer" where
  "wr_gm_Equip m =
     wr_InfoLocation (gm_Equip_position1 m) @
     wr_InfoLocation (gm_Equip_position2 m)"

definition rd_gm_Equip :: "gm_Equip reader" where
  "rd_gm_Equip =
     rd_bind rd_InfoLocation (\<lambda>position1'.
     rd_bind rd_InfoLocation (\<lambda>position2'.
     rd_return \<lparr> gm_Equip_position1 = position1',
       gm_Equip_position2 = position2' \<rparr>))"

definition valid_gm_Equip :: "gm_Equip \<Rightarrow> bool" where
  "valid_gm_Equip m \<longleftrightarrow>
     valid_InfoLocation (gm_Equip_position1 m) \<and>
     valid_InfoLocation (gm_Equip_position2 m)"

lemma gm_Equip_rd_wr [gm_rd_wr]: "valid_gm_Equip m \<Longrightarrow> rd_gm_Equip (wr_gm_Equip m @ r) = Some (m, r)"
  by (simp add: valid_gm_Equip_def rd_gm_Equip_def wr_gm_Equip_def gm_wire)

definition wr_gm_LPUpdate :: "gm_LPUpdate writer" where
  "wr_gm_LPUpdate m =
     wr_CorePlayer (gm_LPUpdate_player m) @
     wr_u32 (gm_LPUpdate_lp m)"

definition rd_gm_LPUpdate :: "gm_LPUpdate reader" where
  "rd_gm_LPUpdate =
     rd_bind rd_CorePlayer (\<lambda>player'.
     rd_bind rd_u32 (\<lambda>lp'.
     rd_return \<lparr> gm_LPUpdate_player = player',
       gm_LPUpdate_lp = lp' \<rparr>))"

definition valid_gm_LPUpdate :: "gm_LPUpdate \<Rightarrow> bool" where
  "valid_gm_LPUpdate m \<longleftrightarrow>
     True"

lemma gm_LPUpdate_rd_wr [gm_rd_wr]: "valid_gm_LPUpdate m \<Longrightarrow> rd_gm_LPUpdate (wr_gm_LPUpdate m @ r) = Some (m, r)"
  by (simp add: valid_gm_LPUpdate_def rd_gm_LPUpdate_def wr_gm_LPUpdate_def gm_wire)

definition wr_gm_Unequip :: "gm_Unequip writer" where
  "wr_gm_Unequip m =
     wr_InfoLocation (gm_Unequip_position m)"

definition rd_gm_Unequip :: "gm_Unequip reader" where
  "rd_gm_Unequip =
     rd_bind rd_InfoLocation (\<lambda>position'.
     rd_return \<lparr> gm_Unequip_position = position' \<rparr>)"

definition valid_gm_Unequip :: "gm_Unequip \<Rightarrow> bool" where
  "valid_gm_Unequip m \<longleftrightarrow>
     valid_InfoLocation (gm_Unequip_position m)"

lemma gm_Unequip_rd_wr [gm_rd_wr]: "valid_gm_Unequip m \<Longrightarrow> rd_gm_Unequip (wr_gm_Unequip m @ r) = Some (m, r)"
  by (simp add: valid_gm_Unequip_def rd_gm_Unequip_def wr_gm_Unequip_def gm_wire)

definition wr_gm_CardTarget :: "gm_CardTarget writer" where
  "wr_gm_CardTarget m =
     wr_InfoLocation (gm_CardTarget_position1 m) @
     wr_InfoLocation (gm_CardTarget_position2 m)"

definition rd_gm_CardTarget :: "gm_CardTarget reader" where
  "rd_gm_CardTarget =
     rd_bind rd_InfoLocation (\<lambda>position1'.
     rd_bind rd_InfoLocation (\<lambda>position2'.
     rd_return \<lparr> gm_CardTarget_position1 = position1',
       gm_CardTarget_position2 = position2' \<rparr>))"

definition valid_gm_CardTarget :: "gm_CardTarget \<Rightarrow> bool" where
  "valid_gm_CardTarget m \<longleftrightarrow>
     valid_InfoLocation (gm_CardTarget_position1 m) \<and>
     valid_InfoLocation (gm_CardTarget_position2 m)"

lemma gm_CardTarget_rd_wr [gm_rd_wr]: "valid_gm_CardTarget m \<Longrightarrow> rd_gm_CardTarget (wr_gm_CardTarget m @ r) = Some (m, r)"
  by (simp add: valid_gm_CardTarget_def rd_gm_CardTarget_def wr_gm_CardTarget_def gm_wire)

definition wr_gm_CancelTarget :: "gm_CancelTarget writer" where
  "wr_gm_CancelTarget m =
     wr_InfoLocation (gm_CancelTarget_position1 m) @
     wr_InfoLocation (gm_CancelTarget_position2 m)"

definition rd_gm_CancelTarget :: "gm_CancelTarget reader" where
  "rd_gm_CancelTarget =
     rd_bind rd_InfoLocation (\<lambda>position1'.
     rd_bind rd_InfoLocation (\<lambda>position2'.
     rd_return \<lparr> gm_CancelTarget_position1 = position1',
       gm_CancelTarget_position2 = position2' \<rparr>))"

definition valid_gm_CancelTarget :: "gm_CancelTarget \<Rightarrow> bool" where
  "valid_gm_CancelTarget m \<longleftrightarrow>
     valid_InfoLocation (gm_CancelTarget_position1 m) \<and>
     valid_InfoLocation (gm_CancelTarget_position2 m)"

lemma gm_CancelTarget_rd_wr [gm_rd_wr]: "valid_gm_CancelTarget m \<Longrightarrow> rd_gm_CancelTarget (wr_gm_CancelTarget m @ r) = Some (m, r)"
  by (simp add: valid_gm_CancelTarget_def rd_gm_CancelTarget_def wr_gm_CancelTarget_def gm_wire)

definition wr_gm_PayLPCost :: "gm_PayLPCost writer" where
  "wr_gm_PayLPCost m =
     wr_CorePlayer (gm_PayLPCost_player m) @
     wr_u32 (gm_PayLPCost_cost m)"

definition rd_gm_PayLPCost :: "gm_PayLPCost reader" where
  "rd_gm_PayLPCost =
     rd_bind rd_CorePlayer (\<lambda>player'.
     rd_bind rd_u32 (\<lambda>cost'.
     rd_return \<lparr> gm_PayLPCost_player = player',
       gm_PayLPCost_cost = cost' \<rparr>))"

definition valid_gm_PayLPCost :: "gm_PayLPCost \<Rightarrow> bool" where
  "valid_gm_PayLPCost m \<longleftrightarrow>
     True"

lemma gm_PayLPCost_rd_wr [gm_rd_wr]: "valid_gm_PayLPCost m \<Longrightarrow> rd_gm_PayLPCost (wr_gm_PayLPCost m @ r) = Some (m, r)"
  by (simp add: valid_gm_PayLPCost_def rd_gm_PayLPCost_def wr_gm_PayLPCost_def gm_wire)

definition wr_gm_AddCounter :: "gm_AddCounter writer" where
  "wr_gm_AddCounter m =
     wr_u16 (gm_AddCounter_counter_type m) @
     (wr_CardPosition False False False) (gm_AddCounter_position m) @
     wr_u16 (gm_AddCounter_count m)"

definition rd_gm_AddCounter :: "gm_AddCounter reader" where
  "rd_gm_AddCounter =
     rd_bind rd_u16 (\<lambda>counter_type'.
     rd_bind (rd_CardPosition False False False) (\<lambda>position'.
     rd_bind rd_u16 (\<lambda>count'.
     rd_return \<lparr> gm_AddCounter_counter_type = counter_type',
       gm_AddCounter_position = position',
       gm_AddCounter_count = count' \<rparr>)))"

definition valid_gm_AddCounter :: "gm_AddCounter \<Rightarrow> bool" where
  "valid_gm_AddCounter m \<longleftrightarrow>
     (valid_CardPosition False False False) (gm_AddCounter_position m)"

lemma gm_AddCounter_rd_wr [gm_rd_wr]: "valid_gm_AddCounter m \<Longrightarrow> rd_gm_AddCounter (wr_gm_AddCounter m @ r) = Some (m, r)"
  by (simp add: valid_gm_AddCounter_def rd_gm_AddCounter_def wr_gm_AddCounter_def gm_wire)

definition wr_gm_RemoveCounter :: "gm_RemoveCounter writer" where
  "wr_gm_RemoveCounter m =
     wr_u16 (gm_RemoveCounter_counter_type m) @
     (wr_CardPosition False False False) (gm_RemoveCounter_position m) @
     wr_u16 (gm_RemoveCounter_count m)"

definition rd_gm_RemoveCounter :: "gm_RemoveCounter reader" where
  "rd_gm_RemoveCounter =
     rd_bind rd_u16 (\<lambda>counter_type'.
     rd_bind (rd_CardPosition False False False) (\<lambda>position'.
     rd_bind rd_u16 (\<lambda>count'.
     rd_return \<lparr> gm_RemoveCounter_counter_type = counter_type',
       gm_RemoveCounter_position = position',
       gm_RemoveCounter_count = count' \<rparr>)))"

definition valid_gm_RemoveCounter :: "gm_RemoveCounter \<Rightarrow> bool" where
  "valid_gm_RemoveCounter m \<longleftrightarrow>
     (valid_CardPosition False False False) (gm_RemoveCounter_position m)"

lemma gm_RemoveCounter_rd_wr [gm_rd_wr]: "valid_gm_RemoveCounter m \<Longrightarrow> rd_gm_RemoveCounter (wr_gm_RemoveCounter m @ r) = Some (m, r)"
  by (simp add: valid_gm_RemoveCounter_def rd_gm_RemoveCounter_def wr_gm_RemoveCounter_def gm_wire)

definition wr_gm_Attack :: "gm_Attack writer" where
  "wr_gm_Attack m =
     wr_InfoLocation (gm_Attack_attacker m) @
     wr_InfoLocation (gm_Attack_defenser m)"

definition rd_gm_Attack :: "gm_Attack reader" where
  "rd_gm_Attack =
     rd_bind rd_InfoLocation (\<lambda>attacker'.
     rd_bind rd_InfoLocation (\<lambda>defenser'.
     rd_return \<lparr> gm_Attack_attacker = attacker',
       gm_Attack_defenser = defenser' \<rparr>))"

definition valid_gm_Attack :: "gm_Attack \<Rightarrow> bool" where
  "valid_gm_Attack m \<longleftrightarrow>
     valid_InfoLocation (gm_Attack_attacker m) \<and>
     valid_InfoLocation (gm_Attack_defenser m)"

lemma gm_Attack_rd_wr [gm_rd_wr]: "valid_gm_Attack m \<Longrightarrow> rd_gm_Attack (wr_gm_Attack m @ r) = Some (m, r)"
  by (simp add: valid_gm_Attack_def rd_gm_Attack_def wr_gm_Attack_def gm_wire)

definition wr_gm_Battle :: "gm_Battle writer" where
  "wr_gm_Battle m =
     wr_InfoLocation (gm_Battle_attacker m) @
     wr_u32 (gm_Battle_attacker_attack m) @
     wr_u32 (gm_Battle_attacker_defense m) @
     wr_bool (gm_Battle_attacker_destroyed m) @
     wr_InfoLocation (gm_Battle_defenser m) @
     wr_u32 (gm_Battle_defenser_attack m) @
     wr_u32 (gm_Battle_defenser_defense m) @
     wr_bool (gm_Battle_defender_destroyed m)"

definition rd_gm_Battle :: "gm_Battle reader" where
  "rd_gm_Battle =
     rd_bind rd_InfoLocation (\<lambda>attacker'.
     rd_bind rd_u32 (\<lambda>attacker_attack'.
     rd_bind rd_u32 (\<lambda>attacker_defense'.
     rd_bind rd_bool (\<lambda>attacker_destroyed'.
     rd_bind rd_InfoLocation (\<lambda>defenser'.
     rd_bind rd_u32 (\<lambda>defenser_attack'.
     rd_bind rd_u32 (\<lambda>defenser_defense'.
     rd_bind rd_bool (\<lambda>defender_destroyed'.
     rd_return \<lparr> gm_Battle_attacker = attacker',
       gm_Battle_attacker_attack = attacker_attack',
       gm_Battle_attacker_defense = attacker_defense',
       gm_Battle_attacker_destroyed = attacker_destroyed',
       gm_Battle_defenser = defenser',
       gm_Battle_defenser_attack = defenser_attack',
       gm_Battle_defenser_defense = defenser_defense',
       gm_Battle_defender_destroyed = defender_destroyed' \<rparr>))))))))"

definition valid_gm_Battle :: "gm_Battle \<Rightarrow> bool" where
  "valid_gm_Battle m \<longleftrightarrow>
     valid_InfoLocation (gm_Battle_attacker m) \<and>
     valid_InfoLocation (gm_Battle_defenser m)"

lemma gm_Battle_rd_wr [gm_rd_wr]: "valid_gm_Battle m \<Longrightarrow> rd_gm_Battle (wr_gm_Battle m @ r) = Some (m, r)"
  by (simp add: valid_gm_Battle_def rd_gm_Battle_def wr_gm_Battle_def gm_wire)

definition wr_gm_MissedEffect :: "gm_MissedEffect writer" where
  "wr_gm_MissedEffect m =
     wr_InfoLocation (gm_MissedEffect_location m) @
     wr_u32 (gm_MissedEffect_code m)"

definition rd_gm_MissedEffect :: "gm_MissedEffect reader" where
  "rd_gm_MissedEffect =
     rd_bind rd_InfoLocation (\<lambda>location'.
     rd_bind rd_u32 (\<lambda>code'.
     rd_return \<lparr> gm_MissedEffect_location = location',
       gm_MissedEffect_code = code' \<rparr>))"

definition valid_gm_MissedEffect :: "gm_MissedEffect \<Rightarrow> bool" where
  "valid_gm_MissedEffect m \<longleftrightarrow>
     valid_InfoLocation (gm_MissedEffect_location m)"

lemma gm_MissedEffect_rd_wr [gm_rd_wr]: "valid_gm_MissedEffect m \<Longrightarrow> rd_gm_MissedEffect (wr_gm_MissedEffect m @ r) = Some (m, r)"
  by (simp add: valid_gm_MissedEffect_def rd_gm_MissedEffect_def wr_gm_MissedEffect_def gm_wire)

definition wr_gm_TossCoin :: "gm_TossCoin writer" where
  "wr_gm_TossCoin m =
     wr_CorePlayer (gm_TossCoin_player m) @
     wr_u8 (len8 (gm_TossCoin_result m)) @
     wr_vec wr_u8 (gm_TossCoin_result m)"

definition rd_gm_TossCoin :: "gm_TossCoin reader" where
  "rd_gm_TossCoin =
     rd_bind rd_CorePlayer (\<lambda>player'.
     rd_bind rd_u8 (\<lambda>result_size'.
     rd_bind (rd_count rd_u8 (unat result_size')) (\<lambda>result'.
     rd_return \<lparr> gm_TossCoin_player = player',
       gm_TossCoin_result = result' \<rparr>)))"

definition valid_gm_TossCoin :: "gm_TossCoin \<Rightarrow> bool" where
  "valid_gm_TossCoin m \<longleftrightarrow>
     length (gm_TossCoin_result m) < 256"

lemma gm_TossCoin_rd_wr [gm_rd_wr]: "valid_gm_TossCoin m \<Longrightarrow> rd_gm_TossCoin (wr_gm_TossCoin m @ r) = Some (m, r)"
  by (simp add: valid_gm_TossCoin_def rd_gm_TossCoin_def wr_gm_TossCoin_def gm_wire)

definition wr_gm_TossDice :: "gm_TossDice writer" where
  "wr_gm_TossDice m =
     wr_CorePlayer (gm_TossDice_player m) @
     wr_u8 (len8 (gm_TossDice_result m)) @
     wr_vec wr_u8 (gm_TossDice_result m)"

definition rd_gm_TossDice :: "gm_TossDice reader" where
  "rd_gm_TossDice =
     rd_bind rd_CorePlayer (\<lambda>player'.
     rd_bind rd_u8 (\<lambda>result_size'.
     rd_bind (rd_count rd_u8 (unat result_size')) (\<lambda>result'.
     rd_return \<lparr> gm_TossDice_player = player',
       gm_TossDice_result = result' \<rparr>)))"

definition valid_gm_TossDice :: "gm_TossDice \<Rightarrow> bool" where
  "valid_gm_TossDice m \<longleftrightarrow>
     length (gm_TossDice_result m) < 256"

lemma gm_TossDice_rd_wr [gm_rd_wr]: "valid_gm_TossDice m \<Longrightarrow> rd_gm_TossDice (wr_gm_TossDice m @ r) = Some (m, r)"
  by (simp add: valid_gm_TossDice_def rd_gm_TossDice_def wr_gm_TossDice_def gm_wire)

definition wr_gm_RockPaperScissors :: "gm_RockPaperScissors writer" where
  "wr_gm_RockPaperScissors m =
     wr_CorePlayer (gm_RockPaperScissors_player m)"

definition rd_gm_RockPaperScissors :: "gm_RockPaperScissors reader" where
  "rd_gm_RockPaperScissors =
     rd_bind rd_CorePlayer (\<lambda>player'.
     rd_return \<lparr> gm_RockPaperScissors_player = player' \<rparr>)"

definition valid_gm_RockPaperScissors :: "gm_RockPaperScissors \<Rightarrow> bool" where
  "valid_gm_RockPaperScissors m \<longleftrightarrow>
     True"

lemma gm_RockPaperScissors_rd_wr [gm_rd_wr]: "valid_gm_RockPaperScissors m \<Longrightarrow> rd_gm_RockPaperScissors (wr_gm_RockPaperScissors m @ r) = Some (m, r)"
  by (simp add: valid_gm_RockPaperScissors_def rd_gm_RockPaperScissors_def wr_gm_RockPaperScissors_def gm_wire)

definition wr_gm_AnnounceRace :: "gm_AnnounceRace writer" where
  "wr_gm_AnnounceRace m =
     wr_CorePlayer (gm_AnnounceRace_player m) @
     wr_u8 (gm_AnnounceRace_announce_count m) @
     wr_u32 (gm_AnnounceRace_available m)"

definition rd_gm_AnnounceRace :: "gm_AnnounceRace reader" where
  "rd_gm_AnnounceRace =
     rd_bind rd_CorePlayer (\<lambda>player'.
     rd_bind rd_u8 (\<lambda>announce_count'.
     rd_bind rd_u32 (\<lambda>available'.
     rd_return \<lparr> gm_AnnounceRace_player = player',
       gm_AnnounceRace_announce_count = announce_count',
       gm_AnnounceRace_available = available' \<rparr>)))"

definition valid_gm_AnnounceRace :: "gm_AnnounceRace \<Rightarrow> bool" where
  "valid_gm_AnnounceRace m \<longleftrightarrow>
     True"

lemma gm_AnnounceRace_rd_wr [gm_rd_wr]: "valid_gm_AnnounceRace m \<Longrightarrow> rd_gm_AnnounceRace (wr_gm_AnnounceRace m @ r) = Some (m, r)"
  by (simp add: valid_gm_AnnounceRace_def rd_gm_AnnounceRace_def wr_gm_AnnounceRace_def gm_wire)

definition wr_gm_AnnounceAttribute :: "gm_AnnounceAttribute writer" where
  "wr_gm_AnnounceAttribute m =
     wr_CorePlayer (gm_AnnounceAttribute_player m) @
     wr_u8 (gm_AnnounceAttribute_announce_count m) @
     wr_u32 (gm_AnnounceAttribute_available m)"

definition rd_gm_AnnounceAttribute :: "gm_AnnounceAttribute reader" where
  "rd_gm_AnnounceAttribute =
     rd_bind rd_CorePlayer (\<lambda>player'.
     rd_bind rd_u8 (\<lambda>announce_count'.
     rd_bind rd_u32 (\<lambda>available'.
     rd_return \<lparr> gm_AnnounceAttribute_player = player',
       gm_AnnounceAttribute_announce_count = announce_count',
       gm_AnnounceAttribute_available = available' \<rparr>)))"

definition valid_gm_AnnounceAttribute :: "gm_AnnounceAttribute \<Rightarrow> bool" where
  "valid_gm_AnnounceAttribute m \<longleftrightarrow>
     True"

lemma gm_AnnounceAttribute_rd_wr [gm_rd_wr]: "valid_gm_AnnounceAttribute m \<Longrightarrow> rd_gm_AnnounceAttribute (wr_gm_AnnounceAttribute m @ r) = Some (m, r)"
  by (simp add: valid_gm_AnnounceAttribute_def rd_gm_AnnounceAttribute_def wr_gm_AnnounceAttribute_def gm_wire)

definition wr_gm_AnnounceCard :: "gm_AnnounceCard writer" where
  "wr_gm_AnnounceCard m =
     wr_CorePlayer (gm_AnnounceCard_player m) @
     wr_u8 (len8 (gm_AnnounceCard_value m)) @
     wr_vec wr_Operation (gm_AnnounceCard_value m)"

definition rd_gm_AnnounceCard :: "gm_AnnounceCard reader" where
  "rd_gm_AnnounceCard =
     rd_bind rd_CorePlayer (\<lambda>player'.
     rd_bind rd_u8 (\<lambda>value_size'.
     rd_bind (rd_count rd_Operation (unat value_size')) (\<lambda>value'.
     rd_return \<lparr> gm_AnnounceCard_player = player',
       gm_AnnounceCard_value = value' \<rparr>)))"

definition valid_gm_AnnounceCard :: "gm_AnnounceCard \<Rightarrow> bool" where
  "valid_gm_AnnounceCard m \<longleftrightarrow>
     length (gm_AnnounceCard_value m) < 256 \<and>
     (\<forall>x \<in> set (gm_AnnounceCard_value m). valid_Operation x)"

lemma gm_AnnounceCard_rd_wr [gm_rd_wr]: "valid_gm_AnnounceCard m \<Longrightarrow> rd_gm_AnnounceCard (wr_gm_AnnounceCard m @ r) = Some (m, r)"
  by (simp add: valid_gm_AnnounceCard_def rd_gm_AnnounceCard_def wr_gm_AnnounceCard_def gm_wire)

definition wr_gm_AnnounceNumber :: "gm_AnnounceNumber writer" where
  "wr_gm_AnnounceNumber m =
     wr_CorePlayer (gm_AnnounceNumber_player m) @
     wr_u8 (len8 (gm_AnnounceNumber_value m)) @
     wr_vec wr_u32 (gm_AnnounceNumber_value m)"

definition rd_gm_AnnounceNumber :: "gm_AnnounceNumber reader" where
  "rd_gm_AnnounceNumber =
     rd_bind rd_CorePlayer (\<lambda>player'.
     rd_bind rd_u8 (\<lambda>value_size'.
     rd_bind (rd_count rd_u32 (unat value_size')) (\<lambda>value'.
     rd_return \<lparr> gm_AnnounceNumber_player = player',
       gm_AnnounceNumber_value = value' \<rparr>)))"

definition valid_gm_AnnounceNumber :: "gm_AnnounceNumber \<Rightarrow> bool" where
  "valid_gm_AnnounceNumber m \<longleftrightarrow>
     length (gm_AnnounceNumber_value m) < 256"

lemma gm_AnnounceNumber_rd_wr [gm_rd_wr]: "valid_gm_AnnounceNumber m \<Longrightarrow> rd_gm_AnnounceNumber (wr_gm_AnnounceNumber m @ r) = Some (m, r)"
  by (simp add: valid_gm_AnnounceNumber_def rd_gm_AnnounceNumber_def wr_gm_AnnounceNumber_def gm_wire)

definition wr_gm_CardHint :: "gm_CardHint writer" where
  "wr_gm_CardHint m =
     wr_InfoLocation (gm_CardHint_position m) @
     (wr_enum wr_u8 CardHint_repr) (gm_CardHint_card_hint_type m) @
     wr_u32 (gm_CardHint_value m)"

definition rd_gm_CardHint :: "gm_CardHint reader" where
  "rd_gm_CardHint =
     rd_bind rd_InfoLocation (\<lambda>position'.
     rd_bind (rd_enum rd_u8 CardHint_repr CardHint_all) (\<lambda>card_hint_type'.
     rd_bind rd_u32 (\<lambda>value'.
     rd_return \<lparr> gm_CardHint_position = position',
       gm_CardHint_card_hint_type = card_hint_type',
       gm_CardHint_value = value' \<rparr>)))"

definition valid_gm_CardHint :: "gm_CardHint \<Rightarrow> bool" where
  "valid_gm_CardHint m \<longleftrightarrow>
     valid_InfoLocation (gm_CardHint_position m)"

lemma gm_CardHint_rd_wr [gm_rd_wr]: "valid_gm_CardHint m \<Longrightarrow> rd_gm_CardHint (wr_gm_CardHint m @ r) = Some (m, r)"
  by (simp add: valid_gm_CardHint_def rd_gm_CardHint_def wr_gm_CardHint_def gm_wire)

definition wr_gm_TagSwap :: "gm_TagSwap writer" where
  "wr_gm_TagSwap m =
     wr_CorePlayer (gm_TagSwap_player m) @
     wr_u8 (gm_TagSwap_main_count m) @
     wr_u8 (len8 (gm_TagSwap_extra_codes m)) @
     wr_u8 (gm_TagSwap_extra_p_count m) @
     wr_u8 (len8 (gm_TagSwap_hand_codes m)) @
     wr_u32 (gm_TagSwap_top_code m) @
     wr_vec wr_u32 (gm_TagSwap_hand_codes m) @
     wr_vec wr_u32 (gm_TagSwap_extra_codes m)"

definition rd_gm_TagSwap :: "gm_TagSwap reader" where
  "rd_gm_TagSwap =
     rd_bind rd_CorePlayer (\<lambda>player'.
     rd_bind rd_u8 (\<lambda>main_count'.
     rd_bind rd_u8 (\<lambda>extra_count'.
     rd_bind rd_u8 (\<lambda>extra_p_count'.
     rd_bind rd_u8 (\<lambda>hand_count'.
     rd_bind rd_u32 (\<lambda>top_code'.
     rd_bind (rd_count rd_u32 (unat hand_count')) (\<lambda>hand_codes'.
     rd_bind (rd_count rd_u32 (unat extra_count')) (\<lambda>extra_codes'.
     rd_return \<lparr> gm_TagSwap_player = player',
       gm_TagSwap_main_count = main_count',
       gm_TagSwap_extra_p_count = extra_p_count',
       gm_TagSwap_top_code = top_code',
       gm_TagSwap_hand_codes = hand_codes',
       gm_TagSwap_extra_codes = extra_codes' \<rparr>))))))))"

definition valid_gm_TagSwap :: "gm_TagSwap \<Rightarrow> bool" where
  "valid_gm_TagSwap m \<longleftrightarrow>
     length (gm_TagSwap_hand_codes m) < 256 \<and>
     length (gm_TagSwap_extra_codes m) < 256"

lemma gm_TagSwap_rd_wr [gm_rd_wr]: "valid_gm_TagSwap m \<Longrightarrow> rd_gm_TagSwap (wr_gm_TagSwap m @ r) = Some (m, r)"
  by (simp add: valid_gm_TagSwap_def rd_gm_TagSwap_def wr_gm_TagSwap_def gm_wire)

definition wr_gm_ReloadField :: "gm_ReloadField writer" where
  "wr_gm_ReloadField m =
     (wr_enum wr_u8 MasterRule_repr) (gm_ReloadField_duel_rule m) @
     wr_gm_PlayerField (gm_ReloadField_player1 m) @
     wr_gm_PlayerField (gm_ReloadField_player2 m) @
     wr_u8 (len8 (gm_ReloadField_chains m)) @
     wr_vec wr_gm_ChainLink (gm_ReloadField_chains m)"

definition rd_gm_ReloadField :: "gm_ReloadField reader" where
  "rd_gm_ReloadField =
     rd_bind (rd_enum rd_u8 MasterRule_repr MasterRule_all) (\<lambda>duel_rule'.
     rd_bind rd_gm_PlayerField (\<lambda>player1'.
     rd_bind rd_gm_PlayerField (\<lambda>player2'.
     rd_bind rd_u8 (\<lambda>chain_count'.
     rd_bind (rd_count rd_gm_ChainLink (unat chain_count')) (\<lambda>chains'.
     rd_return \<lparr> gm_ReloadField_duel_rule = duel_rule',
       gm_ReloadField_player1 = player1',
       gm_ReloadField_player2 = player2',
       gm_ReloadField_chains = chains' \<rparr>)))))"

definition valid_gm_ReloadField :: "gm_ReloadField \<Rightarrow> bool" where
  "valid_gm_ReloadField m \<longleftrightarrow>
     valid_gm_PlayerField (gm_ReloadField_player1 m) \<and>
     valid_gm_PlayerField (gm_ReloadField_player2 m) \<and>
     length (gm_ReloadField_chains m) < 256 \<and>
     (\<forall>x \<in> set (gm_ReloadField_chains m). valid_gm_ChainLink x)"

lemma gm_ReloadField_rd_wr [gm_rd_wr]: "valid_gm_ReloadField m \<Longrightarrow> rd_gm_ReloadField (wr_gm_ReloadField m @ r) = Some (m, r)"
  by (simp add: valid_gm_ReloadField_def rd_gm_ReloadField_def wr_gm_ReloadField_def gm_wire)

definition wr_gm_PlayerHint :: "gm_PlayerHint writer" where
  "wr_gm_PlayerHint m =
     wr_CorePlayer (gm_PlayerHint_player m) @
     (wr_enum wr_u8 PlayerHint_repr) (gm_PlayerHint_player_hint_type m) @
     wr_u32 (gm_PlayerHint_value m)"

definition rd_gm_PlayerHint :: "gm_PlayerHint reader" where
  "rd_gm_PlayerHint =
     rd_bind rd_CorePlayer (\<lambda>player'.
     rd_bind (rd_enum rd_u8 PlayerHint_repr PlayerHint_all) (\<lambda>player_hint_type'.
     rd_bind rd_u32 (\<lambda>value'.
     rd_return \<lparr> gm_PlayerHint_player = player',
       gm_PlayerHint_player_hint_type = player_hint_type',
       gm_PlayerHint_value = value' \<rparr>)))"

definition valid_gm_PlayerHint :: "gm_PlayerHint \<Rightarrow> bool" where
  "valid_gm_PlayerHint m \<longleftrightarrow>
     True"

lemma gm_PlayerHint_rd_wr [gm_rd_wr]: "valid_gm_PlayerHint m \<Longrightarrow> rd_gm_PlayerHint (wr_gm_PlayerHint m @ r) = Some (m, r)"
  by (simp add: valid_gm_PlayerHint_def rd_gm_PlayerHint_def wr_gm_PlayerHint_def gm_wire)

definition wr_gm_MatchKill :: "gm_MatchKill writer" where
  "wr_gm_MatchKill m =
     wr_u32 (gm_MatchKill_card_code m)"

definition rd_gm_MatchKill :: "gm_MatchKill reader" where
  "rd_gm_MatchKill =
     rd_bind rd_u32 (\<lambda>card_code'.
     rd_return \<lparr> gm_MatchKill_card_code = card_code' \<rparr>)"

definition valid_gm_MatchKill :: "gm_MatchKill \<Rightarrow> bool" where
  "valid_gm_MatchKill m \<longleftrightarrow>
     True"

lemma gm_MatchKill_rd_wr [gm_rd_wr]: "valid_gm_MatchKill m \<Longrightarrow> rd_gm_MatchKill (wr_gm_MatchKill m @ r) = Some (m, r)"
  by (simp add: valid_gm_MatchKill_def rd_gm_MatchKill_def wr_gm_MatchKill_def gm_wire)

subsection \<open>Structs with formats of their own\<close>

text \<open>A reader inside the enumeration: None where it fails, and it may panic or never return.\<close>

type_synonym gm_reader = "bytes \<Rightarrow> (gm_Message \<times> bytes) option res"

definition gm_read :: "('a \<Rightarrow> gm_Message) \<Rightarrow> 'a reader \<Rightarrow> gm_reader" where
  "gm_read f rd bs = Inr (map_option (\<lambda>(m, r). (f m, r)) (rd bs))"

definition gm_unit :: "gm_Message \<Rightarrow> gm_reader" where
  "gm_unit m bs = Inr (Some (m, bs))"

definition wr_gm_UpdateData :: "gm_UpdateData writer" where
  "wr_gm_UpdateData m =
     wr_CorePlayer (gm_UpdateData_player m) @ wr_u8 (gm_UpdateData_location m) @
     wr_vec wr_UpdateCardInfo (gm_UpdateData_data m)"

definition rd_gm_UpdateData :: gm_reader where
  "rd_gm_UpdateData bs =
     (case rd_bind rd_CorePlayer (\<lambda>p. rd_bind rd_u8 (\<lambda>l. rd_return (p, l))) bs of
        None \<Rightarrow> Inr None
      | Some ((player, location), r) \<Rightarrow>
          and_then (e_until_eof e_UpdateCardInfo r) (\<lambda>data. Inr (case data of
            Inl e \<Rightarrow> None
          | Inr us \<Rightarrow> Some (GM_UpdateData \<lparr> gm_UpdateData_player = player, gm_UpdateData_location = location,
              gm_UpdateData_data = us \<rparr>, []))))"

definition valid_gm_UpdateData :: "gm_UpdateData \<Rightarrow> bool" where
  "valid_gm_UpdateData m \<longleftrightarrow> (\<forall>u \<in> set (gm_UpdateData_data m). valid_UpdateCardInfo u)"

definition wr_gm_ShuffleSetCard :: "gm_ShuffleSetCard \<Rightarrow> bytes option" where
  "wr_gm_ShuffleSetCard m =
     (if length (gm_ShuffleSetCard_old_locations m) = length (gm_ShuffleSetCard_new_locations m)
      then Some (wr_u8 (gm_ShuffleSetCard_location m) @ wr_u8 (len8 (gm_ShuffleSetCard_old_locations m)) @
        wr_vec wr_InfoLocation (gm_ShuffleSetCard_old_locations m) @
        wr_vec wr_InfoLocation (gm_ShuffleSetCard_new_locations m))
      else None)"

definition rd_gm_ShuffleSetCard :: "gm_ShuffleSetCard reader" where
  "rd_gm_ShuffleSetCard =
     rd_bind rd_u8 (\<lambda>location.
     rd_bind rd_u8 (\<lambda>count.
     rd_bind (rd_count rd_InfoLocation (unat count)) (\<lambda>old_locations.
     rd_bind (rd_count rd_InfoLocation (unat count)) (\<lambda>new_locations.
     rd_return \<lparr> gm_ShuffleSetCard_location = location, gm_ShuffleSetCard_old_locations = old_locations,
       gm_ShuffleSetCard_new_locations = new_locations \<rparr>))))"

definition valid_gm_ShuffleSetCard :: "gm_ShuffleSetCard \<Rightarrow> bool" where
  "valid_gm_ShuffleSetCard m \<longleftrightarrow>
     length (gm_ShuffleSetCard_old_locations m) < 256 \<and>
     length (gm_ShuffleSetCard_old_locations m) = length (gm_ShuffleSetCard_new_locations m) \<and>
     (\<forall>l \<in> set (gm_ShuffleSetCard_old_locations m). valid_InfoLocation l) \<and>
     (\<forall>l \<in> set (gm_ShuffleSetCard_new_locations m). valid_InfoLocation l)"

definition wr_gm_HandResult :: "gm_HandResult writer" where
  "wr_gm_HandResult m =
     wr_u8 (Hand_repr (gm_HandResult_hand0 m) OR push_bit 2 (Hand_repr (gm_HandResult_hand1 m)))"

definition rd_gm_HandResult :: gm_reader where
  "rd_gm_HandResult bs =
     (case rd_u8 bs of
        None \<Rightarrow> Inr None
      | Some (packed, r) \<Rightarrow>
          and_then (unwrap (try_from Hand_repr Hand_all (packed AND 0x03))) (\<lambda>hand0.
          and_then (unwrap (try_from Hand_repr Hand_all (drop_bit 2 packed AND 0x03))) (\<lambda>hand1.
          Inr (Some (GM_HandResult \<lparr> gm_HandResult_hand0 = hand0, gm_HandResult_hand1 = hand1 \<rparr>, r)))))"

definition valid_gm_HandResult :: "gm_HandResult \<Rightarrow> bool" where
  "valid_gm_HandResult m \<longleftrightarrow> True"

definition wr_name :: "bytes writer" where
  "wr_name s = wr_u16 (of_nat (length s)) @ s @ wr_pad 1"

definition wr_gm_AIName :: "gm_AIName writer" where
  "wr_gm_AIName m = wr_name (gm_AIName_name m)"

definition wr_gm_ShowHint :: "gm_ShowHint writer" where
  "wr_gm_ShowHint m = wr_name (gm_ShowHint_name m)"

definition rd_gm_name :: "(bytes \<Rightarrow> gm_Message) \<Rightarrow> gm_reader" where
  "rd_gm_name f bs =
     (case rd_bind rd_u16 (\<lambda>len. rd_count rd_u8 (unat len)) bs of
        None \<Rightarrow> Inr None
      | Some (s, r) \<Rightarrow> if is_utf8 s then Inr (Some (f s, drop 1 r)) else Inl UnwrapFailed)"

definition valid_name :: "bytes \<Rightarrow> bool" where
  "valid_name s \<longleftrightarrow> length s < 65536 \<and> is_utf8 s"

definition valid_gm_AIName :: "gm_AIName \<Rightarrow> bool" where
  "valid_gm_AIName m \<longleftrightarrow> valid_name (gm_AIName_name m)"

definition valid_gm_ShowHint :: "gm_ShowHint \<Rightarrow> bool" where
  "valid_gm_ShowHint m \<longleftrightarrow> valid_name (gm_ShowHint_name m)"

definition wr_gm_CustomMsg :: "gm_CustomMsg writer" where
  "wr_gm_CustomMsg m = gm_CustomMsg_data m"

definition rd_gm_CustomMsg :: "gm_CustomMsg reader" where
  "rd_gm_CustomMsg = rd_map (\<lambda>data. \<lparr> gm_CustomMsg_data = data \<rparr>) (rd_until_eof rd_u8)"

definition valid_gm_CustomMsg :: "gm_CustomMsg \<Rightarrow> bool" where
  "valid_gm_CustomMsg m \<longleftrightarrow> True"

definition wr_gm_SibylChat :: "gm_SibylChat writer" where
  "wr_gm_SibylChat m = wr_U16String (gm_SibylChat_msg m)"

definition rd_gm_SibylChat :: "gm_SibylChat reader" where
  "rd_gm_SibylChat = rd_map (\<lambda>msg. \<lparr> gm_SibylChat_msg = msg \<rparr>) rd_U16String"

definition valid_gm_SibylChat :: "gm_SibylChat \<Rightarrow> bool" where
  "valid_gm_SibylChat m \<longleftrightarrow> us_str (gm_SibylChat_msg m) = None"

definition rd_gm_SibylReplay :: "lzma_crate \<Rightarrow> gm_SibylReplay reader" where
  "rd_gm_SibylReplay z = rd_map (\<lambda>r. \<lparr> gm_SibylReplay_replay = r \<rparr>) (rd_Replay (snd z))"

definition valid_gm_SibylReplay :: "lzma_crate \<Rightarrow> gm_SibylReplay \<Rightarrow> bool" where
  "valid_gm_SibylReplay z m \<longleftrightarrow>
     rd_Replay (snd z) (wr_Replay (fst z) (gm_SibylReplay_replay m)) = Some (gm_SibylReplay_replay m, [])"

definition wr_gm_SibylName :: "gm_SibylName writer" where
  "wr_gm_SibylName m =
     wr_FixedLengthString (gm_SibylName_host_name m) @ wr_FixedLengthString (gm_SibylName_host_tag_name m) @
     wr_FixedLengthString (gm_SibylName_host_current_name m) @ wr_FixedLengthString (gm_SibylName_client_name m) @
     wr_FixedLengthString (gm_SibylName_client_tag_name m) @
     wr_FixedLengthString (gm_SibylName_client_current_name m) @
     wr_u32 (ucast (MasterRule_repr (gm_SibylName_master_rule m)))"

definition master_rule_of :: "u32 \<Rightarrow> MasterRule" where
  "master_rule_of v =
     (case (if v < 256 then try_from MasterRule_repr MasterRule_all (ucast v) else None) of
        Some r \<Rightarrow> r | None \<Rightarrow> MasterRule_MasterRule1)"

definition rd_gm_SibylName :: "gm_SibylName reader" where
  "rd_gm_SibylName =
     rd_bind (rd_FixedLengthString 50) (\<lambda>host_name.
     rd_bind (rd_FixedLengthString 50) (\<lambda>host_tag_name.
     rd_bind (rd_FixedLengthString 50) (\<lambda>host_current_name.
     rd_bind (rd_FixedLengthString 50) (\<lambda>client_name.
     rd_bind (rd_FixedLengthString 50) (\<lambda>client_tag_name.
     rd_bind (rd_FixedLengthString 50) (\<lambda>client_current_name.
     rd_bind rd_u32 (\<lambda>rule.
     rd_return \<lparr> gm_SibylName_host_name = host_name, gm_SibylName_host_tag_name = host_tag_name,
       gm_SibylName_host_current_name = host_current_name, gm_SibylName_client_name = client_name,
       gm_SibylName_client_tag_name = client_tag_name, gm_SibylName_client_current_name = client_current_name,
       gm_SibylName_master_rule = master_rule_of rule \<rparr>)))))))"

definition valid_gm_SibylName :: "gm_SibylName \<Rightarrow> bool" where
  "valid_gm_SibylName m \<longleftrightarrow>
     valid_fls 50 (gm_SibylName_host_name m) \<and> valid_fls 50 (gm_SibylName_host_tag_name m) \<and>
     valid_fls 50 (gm_SibylName_host_current_name m) \<and> valid_fls 50 (gm_SibylName_client_name m) \<and>
     valid_fls 50 (gm_SibylName_client_tag_name m) \<and> valid_fls 50 (gm_SibylName_client_current_name m)"

section \<open>The enumeration\<close>

fun wr_gm_A :: "lzma_crate \<Rightarrow> gm_GroupA \<Rightarrow> bytes option" where
    "wr_gm_A z GMA_Retry = Some [1]"
  | "wr_gm_A z (GMA_Hint m) = Some (2 # wr_gm_Hint m)"
  | "wr_gm_A z GMA_Waiting = Some [3]"
  | "wr_gm_A z (GMA_Start m) = Some (4 # wr_gm_Start m)"
  | "wr_gm_A z (GMA_Win m) = Some (5 # wr_gm_Win m)"
  | "wr_gm_A z (GMA_UpdateData m) = Some (6 # wr_gm_UpdateData m)"
  | "wr_gm_A z (GMA_UpdateCard m) = Some (7 # wr_gm_UpdateCard m)"
  | "wr_gm_A z GMA_RequestDeck = Some [8]"
  | "wr_gm_A z (GMA_SelectBattleCommand m) = Some (10 # wr_gm_SelectBattleCommand m)"
  | "wr_gm_A z (GMA_SelectIdleCommand m) = Some (11 # wr_gm_SelectIdleCommand m)"
  | "wr_gm_A z (GMA_SelectEffectYesNo m) = Some (12 # wr_gm_SelectEffectYesNo m)"
  | "wr_gm_A z (GMA_SelectYesNo m) = Some (13 # wr_gm_SelectYesNo m)"
  | "wr_gm_A z (GMA_SelectOption m) = Some (14 # wr_gm_SelectOption m)"
  | "wr_gm_A z (GMA_SelectCard m) = Some (15 # wr_gm_SelectCard m)"
  | "wr_gm_A z (GMA_SelectChain m) = Some (16 # wr_gm_SelectChain m)"
  | "wr_gm_A z (GMA_SelectPlace m) = Some (18 # wr_gm_SelectPlace m)"
  | "wr_gm_A z (GMA_SelectPosition m) = Some (19 # wr_gm_SelectPosition m)"
  | "wr_gm_A z (GMA_SelectTribute m) = Some (20 # wr_gm_SelectTribute m)"
  | "wr_gm_A z GMA_SortChain = Some [21]"
  | "wr_gm_A z (GMA_SelectCounter m) = Some (22 # wr_gm_SelectCounter m)"
  | "wr_gm_A z (GMA_SelectSum m) = Some (23 # wr_gm_SelectSum m)"
  | "wr_gm_A z (GMA_SelectDisableField m) = Some (24 # wr_gm_SelectDisableField m)"
  | "wr_gm_A z (GMA_SortCard m) = Some (25 # wr_gm_SortCard m)"
  | "wr_gm_A z (GMA_SelectUnselectCard m) = Some (26 # wr_gm_SelectUnselectCard m)"

fun wr_gm_B :: "lzma_crate \<Rightarrow> gm_GroupB \<Rightarrow> bytes option" where
    "wr_gm_B z (GMB_ConfirmDecktop m) = Some (30 # wr_gm_ConfirmDecktop m)"
  | "wr_gm_B z (GMB_ConfirmCards m) = Some (31 # wr_gm_ConfirmCards m)"
  | "wr_gm_B z (GMB_ShuffleDeck m) = Some (32 # wr_gm_ShuffleDeck m)"
  | "wr_gm_B z (GMB_ShuffleHand m) = Some (33 # wr_gm_ShuffleHand m)"
  | "wr_gm_B z (GMB_RefreshDeck m) = Some (34 # wr_gm_RefreshDeck m)"
  | "wr_gm_B z (GMB_SwapGraveDeck m) = Some (35 # wr_gm_SwapGraveDeck m)"
  | "wr_gm_B z (GMB_ShuffleSetCard m) = map_option ((#) 36) (wr_gm_ShuffleSetCard m)"
  | "wr_gm_B z GMB_ReverseDeck = Some [37]"
  | "wr_gm_B z (GMB_DeckTop m) = Some (38 # wr_gm_DeckTop m)"
  | "wr_gm_B z (GMB_ShuffleExtra m) = Some (39 # wr_gm_ShuffleExtra m)"
  | "wr_gm_B z (GMB_NewTurn m) = Some (40 # wr_gm_NewTurn m)"
  | "wr_gm_B z (GMB_NewPhase m) = Some (41 # wr_gm_NewPhase m)"
  | "wr_gm_B z (GMB_ConfirmExtraTop m) = Some (42 # wr_gm_ConfirmExtraTop m)"
  | "wr_gm_B z (GMB_Move m) = Some (50 # wr_gm_Move m)"
  | "wr_gm_B z (GMB_PositionChange m) = Some (53 # wr_gm_PositionChange m)"
  | "wr_gm_B z (GMB_Set m) = Some (54 # wr_gm_Set m)"
  | "wr_gm_B z (GMB_Swap m) = Some (55 # wr_gm_Swap m)"
  | "wr_gm_B z (GMB_FieldDisabled m) = Some (56 # wr_gm_FieldDisabled m)"
  | "wr_gm_B z (GMB_Summoning m) = Some (60 # wr_gm_Summoning m)"
  | "wr_gm_B z GMB_Summoned = Some [61]"
  | "wr_gm_B z (GMB_SpecialSummoning m) = Some (62 # wr_gm_SpecialSummoning m)"
  | "wr_gm_B z GMB_SpecialSummoned = Some [63]"
  | "wr_gm_B z (GMB_FlipSummoning m) = Some (64 # wr_gm_FlipSummoning m)"
  | "wr_gm_B z GMB_FlipSummoned = Some [65]"

fun wr_gm_C :: "lzma_crate \<Rightarrow> gm_GroupC \<Rightarrow> bytes option" where
    "wr_gm_C z (GMC_Chaining m) = Some (70 # wr_gm_Chaining m)"
  | "wr_gm_C z (GMC_Chained m) = Some (71 # wr_gm_Chained m)"
  | "wr_gm_C z (GMC_ChainSolving m) = Some (72 # wr_gm_ChainSolving m)"
  | "wr_gm_C z (GMC_ChainSolved m) = Some (73 # wr_gm_ChainSolved m)"
  | "wr_gm_C z GMC_ChainEnd = Some [74]"
  | "wr_gm_C z (GMC_ChainNegated m) = Some (75 # wr_gm_ChainNegated m)"
  | "wr_gm_C z (GMC_ChainDisabled m) = Some (76 # wr_gm_ChainDisabled m)"
  | "wr_gm_C z (GMC_CardSelected m) = Some (80 # wr_gm_CardSelected m)"
  | "wr_gm_C z (GMC_RandomSelected m) = Some (81 # wr_gm_RandomSelected m)"
  | "wr_gm_C z (GMC_BecomeTarget m) = Some (83 # wr_gm_BecomeTarget m)"
  | "wr_gm_C z (GMC_Draw m) = Some (90 # wr_gm_Draw m)"
  | "wr_gm_C z (GMC_Damage m) = Some (91 # wr_gm_Damage m)"
  | "wr_gm_C z (GMC_Recover m) = Some (92 # wr_gm_Recover m)"
  | "wr_gm_C z (GMC_Equip m) = Some (93 # wr_gm_Equip m)"
  | "wr_gm_C z (GMC_LPUpdate m) = Some (94 # wr_gm_LPUpdate m)"
  | "wr_gm_C z (GMC_Unequip m) = Some (95 # wr_gm_Unequip m)"
  | "wr_gm_C z (GMC_CardTarget m) = Some (96 # wr_gm_CardTarget m)"
  | "wr_gm_C z (GMC_CancelTarget m) = Some (97 # wr_gm_CancelTarget m)"
  | "wr_gm_C z (GMC_PayLPCost m) = Some (100 # wr_gm_PayLPCost m)"
  | "wr_gm_C z (GMC_AddCounter m) = Some (101 # wr_gm_AddCounter m)"
  | "wr_gm_C z (GMC_RemoveCounter m) = Some (102 # wr_gm_RemoveCounter m)"
  | "wr_gm_C z (GMC_Attack m) = Some (110 # wr_gm_Attack m)"
  | "wr_gm_C z (GMC_Battle m) = Some (111 # wr_gm_Battle m)"
  | "wr_gm_C z GMC_AttackDisabled = Some [112]"
  | "wr_gm_C z GMC_DamageStepStart = Some [113]"
  | "wr_gm_C z GMC_DamageStepEnd = Some [114]"
  | "wr_gm_C z (GMC_MissedEffect m) = Some (120 # wr_gm_MissedEffect m)"
  | "wr_gm_C z GMC_BeChainTarget = Some [121]"
  | "wr_gm_C z GMC_CreateRelation = Some [122]"
  | "wr_gm_C z GMC_ReleaseRelation = Some [123]"

fun wr_gm_D :: "lzma_crate \<Rightarrow> gm_GroupD \<Rightarrow> bytes option" where
    "wr_gm_D z (GMD_TossCoin m) = Some (130 # wr_gm_TossCoin m)"
  | "wr_gm_D z (GMD_TossDice m) = Some (131 # wr_gm_TossDice m)"
  | "wr_gm_D z (GMD_RockPaperScissors m) = Some (132 # wr_gm_RockPaperScissors m)"
  | "wr_gm_D z (GMD_HandResult m) = Some (133 # wr_gm_HandResult m)"
  | "wr_gm_D z (GMD_AnnounceRace m) = Some (140 # wr_gm_AnnounceRace m)"
  | "wr_gm_D z (GMD_AnnounceAttribute m) = Some (141 # wr_gm_AnnounceAttribute m)"
  | "wr_gm_D z (GMD_AnnounceCard m) = Some (142 # wr_gm_AnnounceCard m)"
  | "wr_gm_D z (GMD_AnnounceNumber m) = Some (143 # wr_gm_AnnounceNumber m)"
  | "wr_gm_D z (GMD_CardHint m) = Some (160 # wr_gm_CardHint m)"
  | "wr_gm_D z (GMD_TagSwap m) = Some (161 # wr_gm_TagSwap m)"
  | "wr_gm_D z (GMD_ReloadField m) = Some (162 # wr_gm_ReloadField m)"
  | "wr_gm_D z (GMD_AIName m) = Some (163 # wr_gm_AIName m)"
  | "wr_gm_D z (GMD_ShowHint m) = Some (164 # wr_gm_ShowHint m)"
  | "wr_gm_D z (GMD_PlayerHint m) = Some (165 # wr_gm_PlayerHint m)"
  | "wr_gm_D z (GMD_MatchKill m) = Some (170 # wr_gm_MatchKill m)"
  | "wr_gm_D z (GMD_CustomMsg m) = Some (180 # wr_gm_CustomMsg m)"
  | "wr_gm_D z (GMD_SibylChat m) = Some (230 # wr_gm_SibylChat m)"
  | "wr_gm_D z (GMD_SibylReplay m) = Some (231 # wr_Replay (fst z) (gm_SibylReplay_replay m))"
  | "wr_gm_D z (GMD_SibylName m) = Some (235 # wr_gm_SibylName m)"
  | "wr_gm_D z GMD_SibylQuit = Some [236]"

fun wr_gm :: "lzma_crate \<Rightarrow> gm_Message \<Rightarrow> bytes option" where
    "wr_gm z (GM_GroupA m) = wr_gm_A z m"
  | "wr_gm z (GM_GroupB m) = wr_gm_B z m"
  | "wr_gm z (GM_GroupC m) = wr_gm_C z m"
  | "wr_gm z (GM_GroupD m) = wr_gm_D z m"
  | "wr_gm z (GM_Unknown data) = Some data"

definition gm_readers :: "lzma_crate \<Rightarrow> (u8 \<times> gm_reader) list" where
  "gm_readers z =
    [(1, gm_unit (GM_GroupA GMA_Retry)),
     (2, gm_read (\<lambda>m. GM_GroupA (GMA_Hint m)) rd_gm_Hint),
     (3, gm_unit (GM_GroupA GMA_Waiting)),
     (4, gm_read (\<lambda>m. GM_GroupA (GMA_Start m)) rd_gm_Start),
     (5, gm_read (\<lambda>m. GM_GroupA (GMA_Win m)) rd_gm_Win),
     (6, rd_gm_UpdateData),
     (7, gm_read (\<lambda>m. GM_GroupA (GMA_UpdateCard m)) rd_gm_UpdateCard),
     (8, gm_unit (GM_GroupA GMA_RequestDeck)),
     (10, gm_read (\<lambda>m. GM_GroupA (GMA_SelectBattleCommand m)) rd_gm_SelectBattleCommand),
     (11, gm_read (\<lambda>m. GM_GroupA (GMA_SelectIdleCommand m)) rd_gm_SelectIdleCommand),
     (12, gm_read (\<lambda>m. GM_GroupA (GMA_SelectEffectYesNo m)) rd_gm_SelectEffectYesNo),
     (13, gm_read (\<lambda>m. GM_GroupA (GMA_SelectYesNo m)) rd_gm_SelectYesNo),
     (14, gm_read (\<lambda>m. GM_GroupA (GMA_SelectOption m)) rd_gm_SelectOption),
     (15, gm_read (\<lambda>m. GM_GroupA (GMA_SelectCard m)) rd_gm_SelectCard),
     (16, gm_read (\<lambda>m. GM_GroupA (GMA_SelectChain m)) rd_gm_SelectChain),
     (18, gm_read (\<lambda>m. GM_GroupA (GMA_SelectPlace m)) rd_gm_SelectPlace),
     (19, gm_read (\<lambda>m. GM_GroupA (GMA_SelectPosition m)) rd_gm_SelectPosition),
     (20, gm_read (\<lambda>m. GM_GroupA (GMA_SelectTribute m)) rd_gm_SelectTribute),
     (21, gm_unit (GM_GroupA GMA_SortChain)),
     (22, gm_read (\<lambda>m. GM_GroupA (GMA_SelectCounter m)) rd_gm_SelectCounter),
     (23, gm_read (\<lambda>m. GM_GroupA (GMA_SelectSum m)) rd_gm_SelectSum),
     (24, gm_read (\<lambda>m. GM_GroupA (GMA_SelectDisableField m)) rd_gm_SelectDisableField),
     (25, gm_read (\<lambda>m. GM_GroupA (GMA_SortCard m)) rd_gm_SortCard),
     (26, gm_read (\<lambda>m. GM_GroupA (GMA_SelectUnselectCard m)) rd_gm_SelectUnselectCard),
     (30, gm_read (\<lambda>m. GM_GroupB (GMB_ConfirmDecktop m)) rd_gm_ConfirmDecktop),
     (31, gm_read (\<lambda>m. GM_GroupB (GMB_ConfirmCards m)) rd_gm_ConfirmCards),
     (32, gm_read (\<lambda>m. GM_GroupB (GMB_ShuffleDeck m)) rd_gm_ShuffleDeck),
     (33, gm_read (\<lambda>m. GM_GroupB (GMB_ShuffleHand m)) rd_gm_ShuffleHand),
     (34, gm_read (\<lambda>m. GM_GroupB (GMB_RefreshDeck m)) rd_gm_RefreshDeck),
     (35, gm_read (\<lambda>m. GM_GroupB (GMB_SwapGraveDeck m)) rd_gm_SwapGraveDeck),
     (36, gm_read (\<lambda>m. GM_GroupB (GMB_ShuffleSetCard m)) rd_gm_ShuffleSetCard),
     (37, gm_unit (GM_GroupB GMB_ReverseDeck)),
     (38, gm_read (\<lambda>m. GM_GroupB (GMB_DeckTop m)) rd_gm_DeckTop),
     (39, gm_read (\<lambda>m. GM_GroupB (GMB_ShuffleExtra m)) rd_gm_ShuffleExtra),
     (40, gm_read (\<lambda>m. GM_GroupB (GMB_NewTurn m)) rd_gm_NewTurn),
     (41, gm_read (\<lambda>m. GM_GroupB (GMB_NewPhase m)) rd_gm_NewPhase),
     (42, gm_read (\<lambda>m. GM_GroupB (GMB_ConfirmExtraTop m)) rd_gm_ConfirmExtraTop),
     (50, gm_read (\<lambda>m. GM_GroupB (GMB_Move m)) rd_gm_Move),
     (53, gm_read (\<lambda>m. GM_GroupB (GMB_PositionChange m)) rd_gm_PositionChange),
     (54, gm_read (\<lambda>m. GM_GroupB (GMB_Set m)) rd_gm_Set),
     (55, gm_read (\<lambda>m. GM_GroupB (GMB_Swap m)) rd_gm_Swap),
     (56, gm_read (\<lambda>m. GM_GroupB (GMB_FieldDisabled m)) rd_gm_FieldDisabled),
     (60, gm_read (\<lambda>m. GM_GroupB (GMB_Summoning m)) rd_gm_Summoning),
     (61, gm_unit (GM_GroupB GMB_Summoned)),
     (62, gm_read (\<lambda>m. GM_GroupB (GMB_SpecialSummoning m)) rd_gm_SpecialSummoning),
     (63, gm_unit (GM_GroupB GMB_SpecialSummoned)),
     (64, gm_read (\<lambda>m. GM_GroupB (GMB_FlipSummoning m)) rd_gm_FlipSummoning),
     (65, gm_unit (GM_GroupB GMB_FlipSummoned)),
     (70, gm_read (\<lambda>m. GM_GroupC (GMC_Chaining m)) rd_gm_Chaining),
     (71, gm_read (\<lambda>m. GM_GroupC (GMC_Chained m)) rd_gm_Chained),
     (72, gm_read (\<lambda>m. GM_GroupC (GMC_ChainSolving m)) rd_gm_ChainSolving),
     (73, gm_read (\<lambda>m. GM_GroupC (GMC_ChainSolved m)) rd_gm_ChainSolved),
     (74, gm_unit (GM_GroupC GMC_ChainEnd)),
     (75, gm_read (\<lambda>m. GM_GroupC (GMC_ChainNegated m)) rd_gm_ChainNegated),
     (76, gm_read (\<lambda>m. GM_GroupC (GMC_ChainDisabled m)) rd_gm_ChainDisabled),
     (80, gm_read (\<lambda>m. GM_GroupC (GMC_CardSelected m)) rd_gm_CardSelected),
     (81, gm_read (\<lambda>m. GM_GroupC (GMC_RandomSelected m)) rd_gm_RandomSelected),
     (83, gm_read (\<lambda>m. GM_GroupC (GMC_BecomeTarget m)) rd_gm_BecomeTarget),
     (90, gm_read (\<lambda>m. GM_GroupC (GMC_Draw m)) rd_gm_Draw),
     (91, gm_read (\<lambda>m. GM_GroupC (GMC_Damage m)) rd_gm_Damage),
     (92, gm_read (\<lambda>m. GM_GroupC (GMC_Recover m)) rd_gm_Recover),
     (93, gm_read (\<lambda>m. GM_GroupC (GMC_Equip m)) rd_gm_Equip),
     (94, gm_read (\<lambda>m. GM_GroupC (GMC_LPUpdate m)) rd_gm_LPUpdate),
     (95, gm_read (\<lambda>m. GM_GroupC (GMC_Unequip m)) rd_gm_Unequip),
     (96, gm_read (\<lambda>m. GM_GroupC (GMC_CardTarget m)) rd_gm_CardTarget),
     (97, gm_read (\<lambda>m. GM_GroupC (GMC_CancelTarget m)) rd_gm_CancelTarget),
     (100, gm_read (\<lambda>m. GM_GroupC (GMC_PayLPCost m)) rd_gm_PayLPCost),
     (101, gm_read (\<lambda>m. GM_GroupC (GMC_AddCounter m)) rd_gm_AddCounter),
     (102, gm_read (\<lambda>m. GM_GroupC (GMC_RemoveCounter m)) rd_gm_RemoveCounter),
     (110, gm_read (\<lambda>m. GM_GroupC (GMC_Attack m)) rd_gm_Attack),
     (111, gm_read (\<lambda>m. GM_GroupC (GMC_Battle m)) rd_gm_Battle),
     (112, gm_unit (GM_GroupC GMC_AttackDisabled)),
     (113, gm_unit (GM_GroupC GMC_DamageStepStart)),
     (114, gm_unit (GM_GroupC GMC_DamageStepEnd)),
     (120, gm_read (\<lambda>m. GM_GroupC (GMC_MissedEffect m)) rd_gm_MissedEffect),
     (121, gm_unit (GM_GroupC GMC_BeChainTarget)),
     (122, gm_unit (GM_GroupC GMC_CreateRelation)),
     (123, gm_unit (GM_GroupC GMC_ReleaseRelation)),
     (130, gm_read (\<lambda>m. GM_GroupD (GMD_TossCoin m)) rd_gm_TossCoin),
     (131, gm_read (\<lambda>m. GM_GroupD (GMD_TossDice m)) rd_gm_TossDice),
     (132, gm_read (\<lambda>m. GM_GroupD (GMD_RockPaperScissors m)) rd_gm_RockPaperScissors),
     (133, rd_gm_HandResult),
     (140, gm_read (\<lambda>m. GM_GroupD (GMD_AnnounceRace m)) rd_gm_AnnounceRace),
     (141, gm_read (\<lambda>m. GM_GroupD (GMD_AnnounceAttribute m)) rd_gm_AnnounceAttribute),
     (142, gm_read (\<lambda>m. GM_GroupD (GMD_AnnounceCard m)) rd_gm_AnnounceCard),
     (143, gm_read (\<lambda>m. GM_GroupD (GMD_AnnounceNumber m)) rd_gm_AnnounceNumber),
     (160, gm_read (\<lambda>m. GM_GroupD (GMD_CardHint m)) rd_gm_CardHint),
     (161, gm_read (\<lambda>m. GM_GroupD (GMD_TagSwap m)) rd_gm_TagSwap),
     (162, gm_read (\<lambda>m. GM_GroupD (GMD_ReloadField m)) rd_gm_ReloadField),
     (163, rd_gm_name (\<lambda>s. GM_GroupD (GMD_AIName \<lparr> gm_AIName_name = s \<rparr>))),
     (164, rd_gm_name (\<lambda>s. GM_GroupD (GMD_ShowHint \<lparr> gm_ShowHint_name = s \<rparr>))),
     (165, gm_read (\<lambda>m. GM_GroupD (GMD_PlayerHint m)) rd_gm_PlayerHint),
     (170, gm_read (\<lambda>m. GM_GroupD (GMD_MatchKill m)) rd_gm_MatchKill),
     (180, gm_read (\<lambda>m. GM_GroupD (GMD_CustomMsg m)) rd_gm_CustomMsg),
     (230, gm_read (\<lambda>m. GM_GroupD (GMD_SibylChat m)) rd_gm_SibylChat),
     (231, gm_read (\<lambda>m. GM_GroupD (GMD_SibylReplay m)) (rd_gm_SibylReplay z)),
     (235, gm_read (\<lambda>m. GM_GroupD (GMD_SibylName m)) rd_gm_SibylName),
     (236, gm_unit (GM_GroupD GMD_SibylQuit))]"

lemma gm_lookup [simp]:
  "map_of (gm_readers z) 1 = Some (gm_unit (GM_GroupA GMA_Retry))"
  "map_of (gm_readers z) 2 = Some (gm_read (\<lambda>m. GM_GroupA (GMA_Hint m)) rd_gm_Hint)"
  "map_of (gm_readers z) 3 = Some (gm_unit (GM_GroupA GMA_Waiting))"
  "map_of (gm_readers z) 4 = Some (gm_read (\<lambda>m. GM_GroupA (GMA_Start m)) rd_gm_Start)"
  "map_of (gm_readers z) 5 = Some (gm_read (\<lambda>m. GM_GroupA (GMA_Win m)) rd_gm_Win)"
  "map_of (gm_readers z) 6 = Some rd_gm_UpdateData"
  "map_of (gm_readers z) 7 = Some (gm_read (\<lambda>m. GM_GroupA (GMA_UpdateCard m)) rd_gm_UpdateCard)"
  "map_of (gm_readers z) 8 = Some (gm_unit (GM_GroupA GMA_RequestDeck))"
  "map_of (gm_readers z) 10 = Some (gm_read (\<lambda>m. GM_GroupA (GMA_SelectBattleCommand m)) rd_gm_SelectBattleCommand)"
  "map_of (gm_readers z) 11 = Some (gm_read (\<lambda>m. GM_GroupA (GMA_SelectIdleCommand m)) rd_gm_SelectIdleCommand)"
  "map_of (gm_readers z) 12 = Some (gm_read (\<lambda>m. GM_GroupA (GMA_SelectEffectYesNo m)) rd_gm_SelectEffectYesNo)"
  "map_of (gm_readers z) 13 = Some (gm_read (\<lambda>m. GM_GroupA (GMA_SelectYesNo m)) rd_gm_SelectYesNo)"
  "map_of (gm_readers z) 14 = Some (gm_read (\<lambda>m. GM_GroupA (GMA_SelectOption m)) rd_gm_SelectOption)"
  "map_of (gm_readers z) 15 = Some (gm_read (\<lambda>m. GM_GroupA (GMA_SelectCard m)) rd_gm_SelectCard)"
  "map_of (gm_readers z) 16 = Some (gm_read (\<lambda>m. GM_GroupA (GMA_SelectChain m)) rd_gm_SelectChain)"
  "map_of (gm_readers z) 18 = Some (gm_read (\<lambda>m. GM_GroupA (GMA_SelectPlace m)) rd_gm_SelectPlace)"
  "map_of (gm_readers z) 19 = Some (gm_read (\<lambda>m. GM_GroupA (GMA_SelectPosition m)) rd_gm_SelectPosition)"
  "map_of (gm_readers z) 20 = Some (gm_read (\<lambda>m. GM_GroupA (GMA_SelectTribute m)) rd_gm_SelectTribute)"
  "map_of (gm_readers z) 21 = Some (gm_unit (GM_GroupA GMA_SortChain))"
  "map_of (gm_readers z) 22 = Some (gm_read (\<lambda>m. GM_GroupA (GMA_SelectCounter m)) rd_gm_SelectCounter)"
  "map_of (gm_readers z) 23 = Some (gm_read (\<lambda>m. GM_GroupA (GMA_SelectSum m)) rd_gm_SelectSum)"
  "map_of (gm_readers z) 24 = Some (gm_read (\<lambda>m. GM_GroupA (GMA_SelectDisableField m)) rd_gm_SelectDisableField)"
  "map_of (gm_readers z) 25 = Some (gm_read (\<lambda>m. GM_GroupA (GMA_SortCard m)) rd_gm_SortCard)"
  "map_of (gm_readers z) 26 = Some (gm_read (\<lambda>m. GM_GroupA (GMA_SelectUnselectCard m)) rd_gm_SelectUnselectCard)"
  "map_of (gm_readers z) 30 = Some (gm_read (\<lambda>m. GM_GroupB (GMB_ConfirmDecktop m)) rd_gm_ConfirmDecktop)"
  "map_of (gm_readers z) 31 = Some (gm_read (\<lambda>m. GM_GroupB (GMB_ConfirmCards m)) rd_gm_ConfirmCards)"
  "map_of (gm_readers z) 32 = Some (gm_read (\<lambda>m. GM_GroupB (GMB_ShuffleDeck m)) rd_gm_ShuffleDeck)"
  "map_of (gm_readers z) 33 = Some (gm_read (\<lambda>m. GM_GroupB (GMB_ShuffleHand m)) rd_gm_ShuffleHand)"
  "map_of (gm_readers z) 34 = Some (gm_read (\<lambda>m. GM_GroupB (GMB_RefreshDeck m)) rd_gm_RefreshDeck)"
  "map_of (gm_readers z) 35 = Some (gm_read (\<lambda>m. GM_GroupB (GMB_SwapGraveDeck m)) rd_gm_SwapGraveDeck)"
  "map_of (gm_readers z) 36 = Some (gm_read (\<lambda>m. GM_GroupB (GMB_ShuffleSetCard m)) rd_gm_ShuffleSetCard)"
  "map_of (gm_readers z) 37 = Some (gm_unit (GM_GroupB GMB_ReverseDeck))"
  "map_of (gm_readers z) 38 = Some (gm_read (\<lambda>m. GM_GroupB (GMB_DeckTop m)) rd_gm_DeckTop)"
  "map_of (gm_readers z) 39 = Some (gm_read (\<lambda>m. GM_GroupB (GMB_ShuffleExtra m)) rd_gm_ShuffleExtra)"
  "map_of (gm_readers z) 40 = Some (gm_read (\<lambda>m. GM_GroupB (GMB_NewTurn m)) rd_gm_NewTurn)"
  "map_of (gm_readers z) 41 = Some (gm_read (\<lambda>m. GM_GroupB (GMB_NewPhase m)) rd_gm_NewPhase)"
  "map_of (gm_readers z) 42 = Some (gm_read (\<lambda>m. GM_GroupB (GMB_ConfirmExtraTop m)) rd_gm_ConfirmExtraTop)"
  "map_of (gm_readers z) 50 = Some (gm_read (\<lambda>m. GM_GroupB (GMB_Move m)) rd_gm_Move)"
  "map_of (gm_readers z) 53 = Some (gm_read (\<lambda>m. GM_GroupB (GMB_PositionChange m)) rd_gm_PositionChange)"
  "map_of (gm_readers z) 54 = Some (gm_read (\<lambda>m. GM_GroupB (GMB_Set m)) rd_gm_Set)"
  "map_of (gm_readers z) 55 = Some (gm_read (\<lambda>m. GM_GroupB (GMB_Swap m)) rd_gm_Swap)"
  "map_of (gm_readers z) 56 = Some (gm_read (\<lambda>m. GM_GroupB (GMB_FieldDisabled m)) rd_gm_FieldDisabled)"
  "map_of (gm_readers z) 60 = Some (gm_read (\<lambda>m. GM_GroupB (GMB_Summoning m)) rd_gm_Summoning)"
  "map_of (gm_readers z) 61 = Some (gm_unit (GM_GroupB GMB_Summoned))"
  "map_of (gm_readers z) 62 = Some (gm_read (\<lambda>m. GM_GroupB (GMB_SpecialSummoning m)) rd_gm_SpecialSummoning)"
  "map_of (gm_readers z) 63 = Some (gm_unit (GM_GroupB GMB_SpecialSummoned))"
  "map_of (gm_readers z) 64 = Some (gm_read (\<lambda>m. GM_GroupB (GMB_FlipSummoning m)) rd_gm_FlipSummoning)"
  "map_of (gm_readers z) 65 = Some (gm_unit (GM_GroupB GMB_FlipSummoned))"
  "map_of (gm_readers z) 70 = Some (gm_read (\<lambda>m. GM_GroupC (GMC_Chaining m)) rd_gm_Chaining)"
  "map_of (gm_readers z) 71 = Some (gm_read (\<lambda>m. GM_GroupC (GMC_Chained m)) rd_gm_Chained)"
  "map_of (gm_readers z) 72 = Some (gm_read (\<lambda>m. GM_GroupC (GMC_ChainSolving m)) rd_gm_ChainSolving)"
  "map_of (gm_readers z) 73 = Some (gm_read (\<lambda>m. GM_GroupC (GMC_ChainSolved m)) rd_gm_ChainSolved)"
  "map_of (gm_readers z) 74 = Some (gm_unit (GM_GroupC GMC_ChainEnd))"
  "map_of (gm_readers z) 75 = Some (gm_read (\<lambda>m. GM_GroupC (GMC_ChainNegated m)) rd_gm_ChainNegated)"
  "map_of (gm_readers z) 76 = Some (gm_read (\<lambda>m. GM_GroupC (GMC_ChainDisabled m)) rd_gm_ChainDisabled)"
  "map_of (gm_readers z) 80 = Some (gm_read (\<lambda>m. GM_GroupC (GMC_CardSelected m)) rd_gm_CardSelected)"
  "map_of (gm_readers z) 81 = Some (gm_read (\<lambda>m. GM_GroupC (GMC_RandomSelected m)) rd_gm_RandomSelected)"
  "map_of (gm_readers z) 83 = Some (gm_read (\<lambda>m. GM_GroupC (GMC_BecomeTarget m)) rd_gm_BecomeTarget)"
  "map_of (gm_readers z) 90 = Some (gm_read (\<lambda>m. GM_GroupC (GMC_Draw m)) rd_gm_Draw)"
  "map_of (gm_readers z) 91 = Some (gm_read (\<lambda>m. GM_GroupC (GMC_Damage m)) rd_gm_Damage)"
  "map_of (gm_readers z) 92 = Some (gm_read (\<lambda>m. GM_GroupC (GMC_Recover m)) rd_gm_Recover)"
  "map_of (gm_readers z) 93 = Some (gm_read (\<lambda>m. GM_GroupC (GMC_Equip m)) rd_gm_Equip)"
  "map_of (gm_readers z) 94 = Some (gm_read (\<lambda>m. GM_GroupC (GMC_LPUpdate m)) rd_gm_LPUpdate)"
  "map_of (gm_readers z) 95 = Some (gm_read (\<lambda>m. GM_GroupC (GMC_Unequip m)) rd_gm_Unequip)"
  "map_of (gm_readers z) 96 = Some (gm_read (\<lambda>m. GM_GroupC (GMC_CardTarget m)) rd_gm_CardTarget)"
  "map_of (gm_readers z) 97 = Some (gm_read (\<lambda>m. GM_GroupC (GMC_CancelTarget m)) rd_gm_CancelTarget)"
  "map_of (gm_readers z) 100 = Some (gm_read (\<lambda>m. GM_GroupC (GMC_PayLPCost m)) rd_gm_PayLPCost)"
  "map_of (gm_readers z) 101 = Some (gm_read (\<lambda>m. GM_GroupC (GMC_AddCounter m)) rd_gm_AddCounter)"
  "map_of (gm_readers z) 102 = Some (gm_read (\<lambda>m. GM_GroupC (GMC_RemoveCounter m)) rd_gm_RemoveCounter)"
  "map_of (gm_readers z) 110 = Some (gm_read (\<lambda>m. GM_GroupC (GMC_Attack m)) rd_gm_Attack)"
  "map_of (gm_readers z) 111 = Some (gm_read (\<lambda>m. GM_GroupC (GMC_Battle m)) rd_gm_Battle)"
  "map_of (gm_readers z) 112 = Some (gm_unit (GM_GroupC GMC_AttackDisabled))"
  "map_of (gm_readers z) 113 = Some (gm_unit (GM_GroupC GMC_DamageStepStart))"
  "map_of (gm_readers z) 114 = Some (gm_unit (GM_GroupC GMC_DamageStepEnd))"
  "map_of (gm_readers z) 120 = Some (gm_read (\<lambda>m. GM_GroupC (GMC_MissedEffect m)) rd_gm_MissedEffect)"
  "map_of (gm_readers z) 121 = Some (gm_unit (GM_GroupC GMC_BeChainTarget))"
  "map_of (gm_readers z) 122 = Some (gm_unit (GM_GroupC GMC_CreateRelation))"
  "map_of (gm_readers z) 123 = Some (gm_unit (GM_GroupC GMC_ReleaseRelation))"
  "map_of (gm_readers z) 130 = Some (gm_read (\<lambda>m. GM_GroupD (GMD_TossCoin m)) rd_gm_TossCoin)"
  "map_of (gm_readers z) 131 = Some (gm_read (\<lambda>m. GM_GroupD (GMD_TossDice m)) rd_gm_TossDice)"
  "map_of (gm_readers z) 132 = Some (gm_read (\<lambda>m. GM_GroupD (GMD_RockPaperScissors m)) rd_gm_RockPaperScissors)"
  "map_of (gm_readers z) 133 = Some rd_gm_HandResult"
  "map_of (gm_readers z) 140 = Some (gm_read (\<lambda>m. GM_GroupD (GMD_AnnounceRace m)) rd_gm_AnnounceRace)"
  "map_of (gm_readers z) 141 = Some (gm_read (\<lambda>m. GM_GroupD (GMD_AnnounceAttribute m)) rd_gm_AnnounceAttribute)"
  "map_of (gm_readers z) 142 = Some (gm_read (\<lambda>m. GM_GroupD (GMD_AnnounceCard m)) rd_gm_AnnounceCard)"
  "map_of (gm_readers z) 143 = Some (gm_read (\<lambda>m. GM_GroupD (GMD_AnnounceNumber m)) rd_gm_AnnounceNumber)"
  "map_of (gm_readers z) 160 = Some (gm_read (\<lambda>m. GM_GroupD (GMD_CardHint m)) rd_gm_CardHint)"
  "map_of (gm_readers z) 161 = Some (gm_read (\<lambda>m. GM_GroupD (GMD_TagSwap m)) rd_gm_TagSwap)"
  "map_of (gm_readers z) 162 = Some (gm_read (\<lambda>m. GM_GroupD (GMD_ReloadField m)) rd_gm_ReloadField)"
  "map_of (gm_readers z) 163 = Some (rd_gm_name (\<lambda>s. GM_GroupD (GMD_AIName \<lparr> gm_AIName_name = s \<rparr>)))"
  "map_of (gm_readers z) 164 = Some (rd_gm_name (\<lambda>s. GM_GroupD (GMD_ShowHint \<lparr> gm_ShowHint_name = s \<rparr>)))"
  "map_of (gm_readers z) 165 = Some (gm_read (\<lambda>m. GM_GroupD (GMD_PlayerHint m)) rd_gm_PlayerHint)"
  "map_of (gm_readers z) 170 = Some (gm_read (\<lambda>m. GM_GroupD (GMD_MatchKill m)) rd_gm_MatchKill)"
  "map_of (gm_readers z) 180 = Some (gm_read (\<lambda>m. GM_GroupD (GMD_CustomMsg m)) rd_gm_CustomMsg)"
  "map_of (gm_readers z) 230 = Some (gm_read (\<lambda>m. GM_GroupD (GMD_SibylChat m)) rd_gm_SibylChat)"
  "map_of (gm_readers z) 231 = Some (gm_read (\<lambda>m. GM_GroupD (GMD_SibylReplay m)) (rd_gm_SibylReplay z))"
  "map_of (gm_readers z) 235 = Some (gm_read (\<lambda>m. GM_GroupD (GMD_SibylName m)) rd_gm_SibylName)"
  "map_of (gm_readers z) 236 = Some (gm_unit (GM_GroupD GMD_SibylQuit))"
  by (simp_all add: gm_readers_def)

fun valid_gm_A :: "lzma_crate \<Rightarrow> gm_GroupA \<Rightarrow> bool" where
    "valid_gm_A z (GMA_Hint m) \<longleftrightarrow> valid_gm_Hint m"
  | "valid_gm_A z (GMA_Start m) \<longleftrightarrow> valid_gm_Start m"
  | "valid_gm_A z (GMA_Win m) \<longleftrightarrow> valid_gm_Win m"
  | "valid_gm_A z (GMA_UpdateData m) \<longleftrightarrow> valid_gm_UpdateData m"
  | "valid_gm_A z (GMA_UpdateCard m) \<longleftrightarrow> valid_gm_UpdateCard m"
  | "valid_gm_A z (GMA_SelectBattleCommand m) \<longleftrightarrow> valid_gm_SelectBattleCommand m"
  | "valid_gm_A z (GMA_SelectIdleCommand m) \<longleftrightarrow> valid_gm_SelectIdleCommand m"
  | "valid_gm_A z (GMA_SelectEffectYesNo m) \<longleftrightarrow> valid_gm_SelectEffectYesNo m"
  | "valid_gm_A z (GMA_SelectYesNo m) \<longleftrightarrow> valid_gm_SelectYesNo m"
  | "valid_gm_A z (GMA_SelectOption m) \<longleftrightarrow> valid_gm_SelectOption m"
  | "valid_gm_A z (GMA_SelectCard m) \<longleftrightarrow> valid_gm_SelectCard m"
  | "valid_gm_A z (GMA_SelectChain m) \<longleftrightarrow> valid_gm_SelectChain m"
  | "valid_gm_A z (GMA_SelectPlace m) \<longleftrightarrow> valid_gm_SelectPlace m"
  | "valid_gm_A z (GMA_SelectPosition m) \<longleftrightarrow> valid_gm_SelectPosition m"
  | "valid_gm_A z (GMA_SelectTribute m) \<longleftrightarrow> valid_gm_SelectTribute m"
  | "valid_gm_A z (GMA_SelectCounter m) \<longleftrightarrow> valid_gm_SelectCounter m"
  | "valid_gm_A z (GMA_SelectSum m) \<longleftrightarrow> valid_gm_SelectSum m"
  | "valid_gm_A z (GMA_SelectDisableField m) \<longleftrightarrow> valid_gm_SelectDisableField m"
  | "valid_gm_A z (GMA_SortCard m) \<longleftrightarrow> valid_gm_SortCard m"
  | "valid_gm_A z (GMA_SelectUnselectCard m) \<longleftrightarrow> valid_gm_SelectUnselectCard m"
  | "valid_gm_A z _ \<longleftrightarrow> True"

fun valid_gm_B :: "lzma_crate \<Rightarrow> gm_GroupB \<Rightarrow> bool" where
    "valid_gm_B z (GMB_ConfirmDecktop m) \<longleftrightarrow> valid_gm_ConfirmDecktop m"
  | "valid_gm_B z (GMB_ConfirmCards m) \<longleftrightarrow> valid_gm_ConfirmCards m"
  | "valid_gm_B z (GMB_ShuffleDeck m) \<longleftrightarrow> valid_gm_ShuffleDeck m"
  | "valid_gm_B z (GMB_ShuffleHand m) \<longleftrightarrow> valid_gm_ShuffleHand m"
  | "valid_gm_B z (GMB_RefreshDeck m) \<longleftrightarrow> valid_gm_RefreshDeck m"
  | "valid_gm_B z (GMB_SwapGraveDeck m) \<longleftrightarrow> valid_gm_SwapGraveDeck m"
  | "valid_gm_B z (GMB_ShuffleSetCard m) \<longleftrightarrow> valid_gm_ShuffleSetCard m"
  | "valid_gm_B z (GMB_DeckTop m) \<longleftrightarrow> valid_gm_DeckTop m"
  | "valid_gm_B z (GMB_ShuffleExtra m) \<longleftrightarrow> valid_gm_ShuffleExtra m"
  | "valid_gm_B z (GMB_NewTurn m) \<longleftrightarrow> valid_gm_NewTurn m"
  | "valid_gm_B z (GMB_NewPhase m) \<longleftrightarrow> valid_gm_NewPhase m"
  | "valid_gm_B z (GMB_ConfirmExtraTop m) \<longleftrightarrow> valid_gm_ConfirmExtraTop m"
  | "valid_gm_B z (GMB_Move m) \<longleftrightarrow> valid_gm_Move m"
  | "valid_gm_B z (GMB_PositionChange m) \<longleftrightarrow> valid_gm_PositionChange m"
  | "valid_gm_B z (GMB_Set m) \<longleftrightarrow> valid_gm_Set m"
  | "valid_gm_B z (GMB_Swap m) \<longleftrightarrow> valid_gm_Swap m"
  | "valid_gm_B z (GMB_FieldDisabled m) \<longleftrightarrow> valid_gm_FieldDisabled m"
  | "valid_gm_B z (GMB_Summoning m) \<longleftrightarrow> valid_gm_Summoning m"
  | "valid_gm_B z (GMB_SpecialSummoning m) \<longleftrightarrow> valid_gm_SpecialSummoning m"
  | "valid_gm_B z (GMB_FlipSummoning m) \<longleftrightarrow> valid_gm_FlipSummoning m"
  | "valid_gm_B z _ \<longleftrightarrow> True"

fun valid_gm_C :: "lzma_crate \<Rightarrow> gm_GroupC \<Rightarrow> bool" where
    "valid_gm_C z (GMC_Chaining m) \<longleftrightarrow> valid_gm_Chaining m"
  | "valid_gm_C z (GMC_Chained m) \<longleftrightarrow> valid_gm_Chained m"
  | "valid_gm_C z (GMC_ChainSolving m) \<longleftrightarrow> valid_gm_ChainSolving m"
  | "valid_gm_C z (GMC_ChainSolved m) \<longleftrightarrow> valid_gm_ChainSolved m"
  | "valid_gm_C z (GMC_ChainNegated m) \<longleftrightarrow> valid_gm_ChainNegated m"
  | "valid_gm_C z (GMC_ChainDisabled m) \<longleftrightarrow> valid_gm_ChainDisabled m"
  | "valid_gm_C z (GMC_CardSelected m) \<longleftrightarrow> valid_gm_CardSelected m"
  | "valid_gm_C z (GMC_RandomSelected m) \<longleftrightarrow> valid_gm_RandomSelected m"
  | "valid_gm_C z (GMC_BecomeTarget m) \<longleftrightarrow> valid_gm_BecomeTarget m"
  | "valid_gm_C z (GMC_Draw m) \<longleftrightarrow> valid_gm_Draw m"
  | "valid_gm_C z (GMC_Damage m) \<longleftrightarrow> valid_gm_Damage m"
  | "valid_gm_C z (GMC_Recover m) \<longleftrightarrow> valid_gm_Recover m"
  | "valid_gm_C z (GMC_Equip m) \<longleftrightarrow> valid_gm_Equip m"
  | "valid_gm_C z (GMC_LPUpdate m) \<longleftrightarrow> valid_gm_LPUpdate m"
  | "valid_gm_C z (GMC_Unequip m) \<longleftrightarrow> valid_gm_Unequip m"
  | "valid_gm_C z (GMC_CardTarget m) \<longleftrightarrow> valid_gm_CardTarget m"
  | "valid_gm_C z (GMC_CancelTarget m) \<longleftrightarrow> valid_gm_CancelTarget m"
  | "valid_gm_C z (GMC_PayLPCost m) \<longleftrightarrow> valid_gm_PayLPCost m"
  | "valid_gm_C z (GMC_AddCounter m) \<longleftrightarrow> valid_gm_AddCounter m"
  | "valid_gm_C z (GMC_RemoveCounter m) \<longleftrightarrow> valid_gm_RemoveCounter m"
  | "valid_gm_C z (GMC_Attack m) \<longleftrightarrow> valid_gm_Attack m"
  | "valid_gm_C z (GMC_Battle m) \<longleftrightarrow> valid_gm_Battle m"
  | "valid_gm_C z (GMC_MissedEffect m) \<longleftrightarrow> valid_gm_MissedEffect m"
  | "valid_gm_C z _ \<longleftrightarrow> True"

fun valid_gm_D :: "lzma_crate \<Rightarrow> gm_GroupD \<Rightarrow> bool" where
    "valid_gm_D z (GMD_TossCoin m) \<longleftrightarrow> valid_gm_TossCoin m"
  | "valid_gm_D z (GMD_TossDice m) \<longleftrightarrow> valid_gm_TossDice m"
  | "valid_gm_D z (GMD_RockPaperScissors m) \<longleftrightarrow> valid_gm_RockPaperScissors m"
  | "valid_gm_D z (GMD_HandResult m) \<longleftrightarrow> valid_gm_HandResult m"
  | "valid_gm_D z (GMD_AnnounceRace m) \<longleftrightarrow> valid_gm_AnnounceRace m"
  | "valid_gm_D z (GMD_AnnounceAttribute m) \<longleftrightarrow> valid_gm_AnnounceAttribute m"
  | "valid_gm_D z (GMD_AnnounceCard m) \<longleftrightarrow> valid_gm_AnnounceCard m"
  | "valid_gm_D z (GMD_AnnounceNumber m) \<longleftrightarrow> valid_gm_AnnounceNumber m"
  | "valid_gm_D z (GMD_CardHint m) \<longleftrightarrow> valid_gm_CardHint m"
  | "valid_gm_D z (GMD_TagSwap m) \<longleftrightarrow> valid_gm_TagSwap m"
  | "valid_gm_D z (GMD_ReloadField m) \<longleftrightarrow> valid_gm_ReloadField m"
  | "valid_gm_D z (GMD_AIName m) \<longleftrightarrow> valid_gm_AIName m"
  | "valid_gm_D z (GMD_ShowHint m) \<longleftrightarrow> valid_gm_ShowHint m"
  | "valid_gm_D z (GMD_PlayerHint m) \<longleftrightarrow> valid_gm_PlayerHint m"
  | "valid_gm_D z (GMD_MatchKill m) \<longleftrightarrow> valid_gm_MatchKill m"
  | "valid_gm_D z (GMD_CustomMsg m) \<longleftrightarrow> valid_gm_CustomMsg m"
  | "valid_gm_D z (GMD_SibylChat m) \<longleftrightarrow> valid_gm_SibylChat m"
  | "valid_gm_D z (GMD_SibylReplay m) \<longleftrightarrow> valid_gm_SibylReplay z m"
  | "valid_gm_D z (GMD_SibylName m) \<longleftrightarrow> valid_gm_SibylName m"
  | "valid_gm_D z _ \<longleftrightarrow> True"

definition rd_gm :: "lzma_crate \<Rightarrow> gm_reader" where
  "rd_gm z bs =
     (case bs of
        [] \<Rightarrow> Inr None
      | flag # r \<Rightarrow>
          (case map_of (gm_readers z) flag of
             None \<Rightarrow> Inr (Some (GM_Unknown bs, []))
           | Some rd \<Rightarrow> and_then (rd r) (\<lambda>x. Inr (case x of
               Some y \<Rightarrow> Some y
             | None \<Rightarrow> Some (GM_Unknown bs, [])))))"

fun valid_gm :: "lzma_crate \<Rightarrow> gm_Message \<Rightarrow> bool" where
    "valid_gm z (GM_GroupA m) \<longleftrightarrow> valid_gm_A z m"
  | "valid_gm z (GM_GroupB m) \<longleftrightarrow> valid_gm_B z m"
  | "valid_gm z (GM_GroupC m) \<longleftrightarrow> valid_gm_C z m"
  | "valid_gm z (GM_GroupD m) \<longleftrightarrow> valid_gm_D z m"
  | "valid_gm z (GM_Unknown data) \<longleftrightarrow> data \<noteq> [] \<and> map_of (gm_readers z) (hd data) = None"

section \<open>Lemmas\<close>

text \<open>The messages that run to the end of the input.\<close>

fun greedy :: "gm_Message \<Rightarrow> bool" where
    "greedy (GM_GroupA (GMA_UpdateData m)) \<longleftrightarrow> True"
  | "greedy (GM_GroupD (GMD_CustomMsg m)) \<longleftrightarrow> True"
  | "greedy (GM_GroupD (GMD_SibylChat m)) \<longleftrightarrow> True"
  | "greedy (GM_GroupD (GMD_SibylReplay m)) \<longleftrightarrow> True"
  | "greedy (GM_Unknown data) \<longleftrightarrow> True"
  | "greedy _ \<longleftrightarrow> False"

lemma gm_ShuffleSetCard_rd_wr [gm_rd_wr]:
  assumes "valid_gm_ShuffleSetCard m"
  shows "\<exists>b. wr_gm_ShuffleSetCard m = Some b \<and> rd_gm_ShuffleSetCard (b @ r) = Some (m, r)"
  using assms
  by (simp add: wr_gm_ShuffleSetCard_def rd_gm_ShuffleSetCard_def valid_gm_ShuffleSetCard_def gm_wire
      InfoLocation.rd_bind_count [where n = "length (gm_ShuffleSetCard_new_locations m)"])

lemma gm_SibylName_rd_wr [gm_rd_wr]: "valid_gm_SibylName m \<Longrightarrow> rd_gm_SibylName (wr_gm_SibylName m @ r) = Some (m, r)"
proof -
  have "master_rule_of (ucast (MasterRule_repr x)) = x" for x
    by (cases x) (simp_all add: master_rule_of_def try_from_def MasterRule_all_def)
  then show "valid_gm_SibylName m \<Longrightarrow> rd_gm_SibylName (wr_gm_SibylName m @ r) = Some (m, r)"
    by (simp add: valid_gm_SibylName_def rd_gm_SibylName_def wr_gm_SibylName_def gm_wire)
qed

lemma gm_HandResult_rd_wr:
  "rd_gm_HandResult (wr_gm_HandResult m @ r) = Inr (Some (GM_HandResult m, r))"
proof -
  obtain a b where m: "m = \<lparr> gm_HandResult_hand0 = a, gm_HandResult_hand1 = b \<rparr>" by (cases m)
  show ?thesis unfolding m
    by (cases a; cases b) (simp_all add: wr_gm_HandResult_def rd_gm_HandResult_def wr_u8_def try_from_def Hand_all_def)
qed

lemma rd_gm_name_wr:
  assumes "valid_name s"
  shows "rd_gm_name f (wr_name s @ r) = Inr (Some (f s, r))"
proof -
  have "unat (of_nat (length s) :: u16) = length s"
    using assms by (intro of_nat_word_id) (simp add: valid_name_def)
  then show ?thesis using assms
    by (simp add: rd_gm_name_def wr_name_def u16.rd_bind_wr rd_count_u8 valid_name_def wr_pad_def)
qed

lemma hand_bits: "(c AND 3 :: u8) \<in> {0, 1, 2, 3}"
proof -
  have "c AND 3 = take_bit 2 c" by (simp add: take_bit_eq_mask mask_eq_exp_minus_1)
  then have "unat (c AND 3) = take_bit 2 (unat c)" by (simp only: unsigned_take_bit_eq)
  also have "\<dots> = unat c mod 4" by (simp add: take_bit_eq_mod)
  finally have "unat (c AND 3) = unat c mod 4" .
  then have "unat (c AND 3) \<in> unat ` {0, 1, 2, 3 :: u8}" by auto
  then show ?thesis by (auto simp: word_unat_eq_iff)
qed

lemmas gm_special_rd_wr = gm_HandResult_rd_wr rd_gm_name_wr wr_gm_AIName_def wr_gm_ShowHint_def
  valid_gm_AIName_def valid_gm_ShowHint_def

lemma rd_gm_group:
  "valid_gm_A z a \<Longrightarrow> \<not> greedy (GM_GroupA a) \<Longrightarrow> wr_gm_A z a = Some bs \<Longrightarrow> rd_gm z (bs @ r) = Inr (Some (GM_GroupA a, r))"
  "valid_gm_B z b \<Longrightarrow> wr_gm_B z b = Some bs \<Longrightarrow> rd_gm z (bs @ r) = Inr (Some (GM_GroupB b, r))"
  "valid_gm_C z c \<Longrightarrow> wr_gm_C z c = Some bs \<Longrightarrow> rd_gm z (bs @ r) = Inr (Some (GM_GroupC c, r))"
  "valid_gm_D z d \<Longrightarrow> \<not> greedy (GM_GroupD d) \<Longrightarrow> wr_gm_D z d = Some bs \<Longrightarrow> rd_gm z (bs @ r) = Inr (Some (GM_GroupD d, r))"
  subgoal by (cases a) (auto simp: rd_gm_def gm_read_def gm_unit_def gm_rd_wr)
  subgoal
  proof (cases b)
    case (GMB_ShuffleSetCard m)
    assume "valid_gm_B z b" and "wr_gm_B z b = Some bs"
    with GMB_ShuffleSetCard gm_ShuffleSetCard_rd_wr [of m r] show ?thesis
      by (auto simp: rd_gm_def gm_read_def)
  qed (auto simp: rd_gm_def gm_read_def gm_unit_def gm_rd_wr)
  subgoal by (cases c) (auto simp: rd_gm_def gm_read_def gm_unit_def gm_rd_wr)
  subgoal by (cases d) (auto simp: rd_gm_def gm_read_def gm_unit_def gm_rd_wr gm_special_rd_wr)
  done

lemma rd_gm_greedy:
  assumes "greedy m" and "valid_gm z m" and "wr_gm z m = Some bs"
  shows "rd_gm z bs = Inr (Some (m, []))"
  using assms
proof (cases m rule: greedy.cases)
  case (1 x)
  then show ?thesis using assms
    by (auto simp: rd_gm_def rd_gm_UpdateData_def wr_gm_UpdateData_def valid_gm_UpdateData_def gm_wire
        update_vector_written)
next
  case (2 x)
  then show ?thesis using assms u8.rd_until_eof_wr_vec [of "gm_CustomMsg_data x" "[]"]
    by (auto simp: rd_gm_def gm_read_def rd_gm_CustomMsg_def wr_gm_CustomMsg_def rd_map_def rd_bind_def)
next
  case (3 x)
  then show ?thesis using assms rd_wr_U16String [of "[]" "gm_SibylChat_msg x"]
    by (auto simp: rd_gm_def gm_read_def rd_gm_SibylChat_def wr_gm_SibylChat_def rd_map_def rd_bind_def
        valid_gm_SibylChat_def)
next
  case (4 x)
  then show ?thesis using assms
    by (auto simp: rd_gm_def gm_read_def rd_gm_SibylReplay_def rd_map_def rd_bind_def valid_gm_SibylReplay_def)
next
  case (5 data)
  then show ?thesis using assms by (cases data) (auto simp: rd_gm_def)
qed simp_all

text \<open>A reader that neither panics nor makes a message of unknown type.\<close>

definition regular :: "gm_reader \<Rightarrow> bool" where
  "regular rd \<longleftrightarrow> (\<forall>bs. \<exists>x. rd bs = Inr x \<and> (\<forall>m r data. x = Some (m, r) \<longrightarrow> m \<noteq> GM_Unknown data))"

lemma regular_gm_read: "(\<And>x data. f x \<noteq> GM_Unknown data) \<Longrightarrow> regular (gm_read f rd)"
  by (auto simp: regular_def gm_read_def)

lemma regular_gm_unit: "(\<And>data. m \<noteq> GM_Unknown data) \<Longrightarrow> regular (gm_unit m)"
  by (auto simp: regular_def gm_unit_def)

lemma gm_readers_regular: "\<forall>(flag, rd) \<in> set (gm_readers z). flag \<in> {6, 133, 163, 164} \<or> regular rd"
  by (simp add: gm_readers_def regular_gm_read regular_gm_unit)

section \<open>Properties\<close>

text \<open>C16: Every well-formed message of the core, of any of the hundred kinds, is read back as it was
  written; the kinds that do not run to the end of the input are read back whatever follows them,
  so a buffer of several messages is taken apart where it was put together.\<close>
theorem gm_roundtrip:
  assumes "valid_gm z m" and "wr_gm z m = Some bs"
  shows "rd_gm z bs = Inr (Some (m, [])) \<and> (\<not> greedy m \<longrightarrow> rd_gm z (bs @ r) = Inr (Some (m, r)))"
proof (cases "greedy m")
  case True
  then show ?thesis using rd_gm_greedy assms by simp
next
  case False
  have "rd_gm z (bs @ r) = Inr (Some (m, r))" for r
  proof (cases m)
    case (GM_Unknown d)
    then show ?thesis using False by simp
  qed (use assms False rd_gm_group in auto)
  from this [of r] this [of "[]"] show ?thesis by simp
qed

theorem gm_roundtrip_witness:
  "rd_gm ((\<lambda>b. b), (\<lambda>n b. Some b)) ([94, 1, 64, 31, 0, 0] @ [3]) =
     Inr (Some (GM_GroupC (GMC_LPUpdate \<lparr> gm_LPUpdate_player = SecondAttackPlayer, gm_LPUpdate_lp = 8000 \<rparr>), [3]))"
proof -
  let ?m = "GM_GroupC (GMC_LPUpdate \<lparr> gm_LPUpdate_player = SecondAttackPlayer, gm_LPUpdate_lp = 8000 \<rparr>)"
  have "valid_gm ((\<lambda>b. b), (\<lambda>n b. Some b)) ?m" by (simp add: valid_gm_LPUpdate_def)
  moreover have "wr_gm ((\<lambda>b. b), (\<lambda>n b. Some b)) ?m = Some [94, 1, 64, 31, 0, 0]"
    by (simp add: wr_gm_LPUpdate_def wr_enum_def wr_u8_def wr_u32_def)
  ultimately show ?thesis using gm_roundtrip [of _ ?m _ "[3]"] by simp
qed

text \<open>Reading a message of the core never fails on a non-empty input: apart from the four
  kinds whose readers unwrap or loop, any first byte and any body give a message, and where the
  result is a message of unknown type it holds the whole input, so it is passed on unchanged.\<close>
theorem gm_reader_total:
  assumes "bs \<noteq> []" and "hd bs \<notin> {6, 133, 163, 164}"
  shows "\<exists>m r. rd_gm z bs = Inr (Some (m, r)) \<and> (\<forall>data. m = GM_Unknown data \<longrightarrow> data = bs \<and> r = [])"
proof -
  from assms obtain flag body where bs: "bs = flag # body" and flag: "flag \<notin> {6, 133, 163, 164}"
    by (cases bs) auto
  show ?thesis
  proof (cases "map_of (gm_readers z) flag")
    case None
    then show ?thesis by (simp add: rd_gm_def bs)
  next
    case (Some rd)
    then have mem: "(flag, rd) \<in> set (gm_readers z)" by (rule map_of_SomeD)
    from bspec [OF gm_readers_regular mem] flag have "regular rd" by simp
    then obtain x where x: "rd body = Inr x" and known: "\<And>m r data. x = Some (m, r) \<Longrightarrow> m \<noteq> GM_Unknown data"
      unfolding regular_def by blast
    show ?thesis
      using Some x known by (cases x) (auto simp: rd_gm_def bs)
  qed
qed

theorem gm_reader_total_witness:
  "\<exists>m r. rd_gm ((\<lambda>b. b), (\<lambda>n b. Some b)) [94, 1, 64] = Inr (Some (m, r)) \<and>
     (\<forall>data. m = GM_Unknown data \<longrightarrow> data = [94, 1, 64] \<and> r = [])"
  by (rule gm_reader_total) simp_all

text \<open>The reader of the hand results unwraps both packed hands: it panics exactly on the bytes
  in which one of the two hands is zero, and never fails on the others.\<close>
theorem hand_result_panics:
  "rd_gm z (133 # b # r) =
     (if b AND 3 = 0 \<or> drop_bit 2 b AND 3 = 0 then Inl UnwrapFailed
      else Inr (Some (GM_HandResult
        \<lparr> gm_HandResult_hand0 = the (try_from Hand_repr Hand_all (b AND 3)),
          gm_HandResult_hand1 = the (try_from Hand_repr Hand_all (drop_bit 2 b AND 3)) \<rparr>, r)))"
proof -
  have none: "try_from Hand_repr Hand_all (c AND 3) = None \<longleftrightarrow> c AND 3 = 0" for c :: u8
    using hand_bits [of c] by (auto simp: try_from_def Hand_all_def)
  show ?thesis
    using none [of b] none [of "drop_bit 2 b"]
    by (cases "try_from Hand_repr Hand_all (b AND 3)"; cases "try_from Hand_repr Hand_all (drop_bit 2 b AND 3)")
       (simp_all add: rd_gm_def rd_gm_HandResult_def)
qed

end
