(* ===== verification/Ctos.thy ===== *)
theory Ctos
  imports Deck WireString PlayerResponse HostInfo
begin

text \<open>
  The messages a client sends (client to server.rs): one constructor per struct, with the fields of
  the struct in their order, the enumeration's writer and reader, and its message type.

  The reader takes the struct whose flag the first byte is. When there is none, or the body cannot
  be read, the whole input becomes a message of unknown type; only the empty input is an error.
\<close>

section \<open>Messages\<close>

datatype (plugins only: code) ctos_Message =
    Ctos_Response PlayerResponse
  | Ctos_UpdateDeck Deck
  | Ctos_HandResult Hand
  | Ctos_TpResult CorePlayer
  | Ctos_PlayerInfo FixedLengthString
  | Ctos_CreateGame HostInfo FixedLengthString FixedLengthString
  | Ctos_JoinGame u16 u32 FixedLengthString
  | Ctos_LeaveGame
  | Ctos_Surrender
  | Ctos_TimeConfirm
  | Ctos_Chat U16String
  | Ctos_ExternalAddress u32 U16String
  | Ctos_HsToDuelist
  | Ctos_HsToObserver
  | Ctos_HsReady
  | Ctos_HsNotReady
  | Ctos_HsKick Netplayer
  | Ctos_HsStart
  | Ctos_RequestField
  | Ctos_Unknown bytes

fun ctos_type :: "ctos_Message \<Rightarrow> ctos_MessageType" where
    "ctos_type (Ctos_Response r) = ctos_T_Response"
  | "ctos_type (Ctos_UpdateDeck d) = ctos_T_UpdateDeck"
  | "ctos_type (Ctos_HandResult h) = ctos_T_HandResult"
  | "ctos_type (Ctos_TpResult p) = ctos_T_TpResult"
  | "ctos_type (Ctos_PlayerInfo n) = ctos_T_PlayerInfo"
  | "ctos_type (Ctos_CreateGame i n p) = ctos_T_CreateGame"
  | "ctos_type (Ctos_JoinGame v g p) = ctos_T_JoinGame"
  | "ctos_type Ctos_LeaveGame = ctos_T_LeaveGame"
  | "ctos_type Ctos_Surrender = ctos_T_Surrender"
  | "ctos_type Ctos_TimeConfirm = ctos_T_TimeConfirm"
  | "ctos_type (Ctos_Chat s) = ctos_T_Chat"
  | "ctos_type (Ctos_ExternalAddress ip h) = ctos_T_ExternalAddress"
  | "ctos_type Ctos_HsToDuelist = ctos_T_HsToDuelist"
  | "ctos_type Ctos_HsToObserver = ctos_T_HsToObserver"
  | "ctos_type Ctos_HsReady = ctos_T_HsReady"
  | "ctos_type Ctos_HsNotReady = ctos_T_HsNotReady"
  | "ctos_type (Ctos_HsKick p) = ctos_T_HsKick"
  | "ctos_type Ctos_HsStart = ctos_T_HsStart"
  | "ctos_type Ctos_RequestField = ctos_T_RequestField"
  | "ctos_type (Ctos_Unknown data) = ctos_T_Unknown (case data of [] \<Rightarrow> 0 | b # bs \<Rightarrow> b)"

section \<open>Writing\<close>

definition wr_ip :: "u32 writer" where
  "wr_ip ip = rev (wr_u32 ip)"

fun wr_ctos :: "ctos_Message writer" where
    "wr_ctos (Ctos_Response r) = 1 # wr_PlayerResponse r"
  | "wr_ctos (Ctos_UpdateDeck d) = 2 # wr_Deck d"
  | "wr_ctos (Ctos_HandResult h) = 3 # wr_enum wr_u8 Hand_repr h"
  | "wr_ctos (Ctos_TpResult p) = 4 # wr_enum wr_u8 CorePlayer_repr (CorePlayer_opponent p)"
  | "wr_ctos (Ctos_PlayerInfo n) = 16 # wr_FixedLengthString n"
  | "wr_ctos (Ctos_CreateGame i n p) = 17 # wr_HostInfo i @ wr_FixedLengthString n @ wr_FixedLengthString p"
  | "wr_ctos (Ctos_JoinGame v g p) = 18 # wr_u16 v @ wr_pad 2 @ wr_u32 g @ wr_FixedLengthString p"
  | "wr_ctos Ctos_LeaveGame = [19]"
  | "wr_ctos Ctos_Surrender = [20]"
  | "wr_ctos Ctos_TimeConfirm = [21]"
  | "wr_ctos (Ctos_Chat s) = 22 # wr_U16String s"
  | "wr_ctos (Ctos_ExternalAddress ip h) = 23 # wr_ip ip @ wr_U16String h"
  | "wr_ctos Ctos_HsToDuelist = [32]"
  | "wr_ctos Ctos_HsToObserver = [33]"
  | "wr_ctos Ctos_HsReady = [34]"
  | "wr_ctos Ctos_HsNotReady = [35]"
  | "wr_ctos (Ctos_HsKick p) = 36 # wr_Netplayer p"
  | "wr_ctos Ctos_HsStart = [37]"
  | "wr_ctos Ctos_RequestField = [48]"
  | "wr_ctos (Ctos_Unknown data) = data"

section \<open>Reading\<close>

definition rd_ip :: "u32 reader" where
  "rd_ip bs =
     (case rd_count rd_u8 4 bs of
        None \<Rightarrow> None
      | Some (ip, r) \<Rightarrow> map_option (\<lambda>(v, _). (v, r)) (rd_u32 (rev ip)))"

definition ctos_readers :: "(u8 \<times> ctos_Message reader) list" where
  "ctos_readers =
    [(1, rd_map Ctos_Response (rd_PlayerResponse None)),
     (2, rd_map Ctos_UpdateDeck rd_Deck),
     (3, rd_map Ctos_HandResult (rd_enum rd_u8 Hand_repr Hand_all)),
     (4, rd_map (\<lambda>p. Ctos_TpResult (CorePlayer_opponent p)) (rd_enum rd_u8 CorePlayer_repr CorePlayer_all)),
     (16, rd_map Ctos_PlayerInfo (rd_FixedLengthString 20)),
     (17, rd_bind rd_HostInfo (\<lambda>i. rd_bind (rd_FixedLengthString 20) (\<lambda>n.
        rd_bind (rd_FixedLengthString 20) (\<lambda>p. rd_return (Ctos_CreateGame i n p))))),
     (18, rd_bind rd_u16 (\<lambda>v. rd_skip 2 (rd_bind rd_u32 (\<lambda>g.
        rd_bind (rd_FixedLengthString 20) (\<lambda>p. rd_return (Ctos_JoinGame v g p)))))),
     (19, rd_return Ctos_LeaveGame),
     (20, rd_return Ctos_Surrender),
     (21, rd_return Ctos_TimeConfirm),
     (22, rd_map Ctos_Chat rd_U16String),
     (23, rd_bind rd_ip (\<lambda>ip. rd_map (Ctos_ExternalAddress ip) rd_U16String)),
     (32, rd_return Ctos_HsToDuelist),
     (33, rd_return Ctos_HsToObserver),
     (34, rd_return Ctos_HsReady),
     (35, rd_return Ctos_HsNotReady),
     (36, rd_map Ctos_HsKick rd_Netplayer),
     (37, rd_return Ctos_HsStart),
     (48, rd_return Ctos_RequestField)]"

fun rd_ctos :: "ctos_Message reader" where
    "rd_ctos [] = None"
  | "rd_ctos (flag # r) =
       (case map_of ctos_readers flag of
          None \<Rightarrow> Some (Ctos_Unknown (flag # r), [])
        | Some rd \<Rightarrow> (case rd r of Some x \<Rightarrow> Some x | None \<Rightarrow> Some (Ctos_Unknown (flag # r), [])))"

section \<open>Lemmas\<close>

text \<open>The messages that are read back whole: the texts are not cached, a response is raw, a deck has
  its extra deck among the main deck, as a client sends it.\<close>

fun valid_ctos :: "ctos_Message \<Rightarrow> bool" where
    "valid_ctos (Ctos_Response r) \<longleftrightarrow> (\<exists>data. r = R_Unknown data)"
  | "valid_ctos (Ctos_UpdateDeck d) \<longleftrightarrow>
       dk_extra d = [] \<and> length (dk_main d) < 2 ^ 32 \<and> length (dk_side d) < 2 ^ 32"
  | "valid_ctos (Ctos_PlayerInfo n) \<longleftrightarrow> valid_fls 20 n"
  | "valid_ctos (Ctos_CreateGame i n p) \<longleftrightarrow> valid_fls 20 n \<and> valid_fls 20 p"
  | "valid_ctos (Ctos_JoinGame v g p) \<longleftrightarrow> valid_fls 20 p"
  | "valid_ctos (Ctos_Chat s) \<longleftrightarrow> us_str s = None"
  | "valid_ctos (Ctos_ExternalAddress ip h) \<longleftrightarrow> us_str h = None"
  | "valid_ctos (Ctos_HsKick p) \<longleftrightarrow> canonical_netplayer p"
  | "valid_ctos (Ctos_Unknown data) \<longleftrightarrow> data \<noteq> [] \<and> map_of ctos_readers (hd data) = None"
  | "valid_ctos _ \<longleftrightarrow> True"

interpretation Name20: codec wr_FixedLengthString "rd_FixedLengthString 20" "valid_fls 20"
  by (rule codec_FixedLengthString)

lemma ctos_lookup [simp]:
  "map_of ctos_readers 1 = Some (rd_map Ctos_Response (rd_PlayerResponse None))"
  "map_of ctos_readers 2 = Some (rd_map Ctos_UpdateDeck rd_Deck)"
  "map_of ctos_readers 3 = Some (rd_map Ctos_HandResult (rd_enum rd_u8 Hand_repr Hand_all))"
  "map_of ctos_readers 4 =
     Some (rd_map (\<lambda>p. Ctos_TpResult (CorePlayer_opponent p)) (rd_enum rd_u8 CorePlayer_repr CorePlayer_all))"
  "map_of ctos_readers 16 = Some (rd_map Ctos_PlayerInfo (rd_FixedLengthString 20))"
  "map_of ctos_readers 17 =
     Some (rd_bind rd_HostInfo (\<lambda>i. rd_bind (rd_FixedLengthString 20) (\<lambda>n.
       rd_bind (rd_FixedLengthString 20) (\<lambda>p. rd_return (Ctos_CreateGame i n p)))))"
  "map_of ctos_readers 18 =
     Some (rd_bind rd_u16 (\<lambda>v. rd_skip 2 (rd_bind rd_u32 (\<lambda>g.
       rd_bind (rd_FixedLengthString 20) (\<lambda>p. rd_return (Ctos_JoinGame v g p))))))"
  "map_of ctos_readers 19 = Some (rd_return Ctos_LeaveGame)"
  "map_of ctos_readers 20 = Some (rd_return Ctos_Surrender)"
  "map_of ctos_readers 21 = Some (rd_return Ctos_TimeConfirm)"
  "map_of ctos_readers 22 = Some (rd_map Ctos_Chat rd_U16String)"
  "map_of ctos_readers 23 = Some (rd_bind rd_ip (\<lambda>ip. rd_map (Ctos_ExternalAddress ip) rd_U16String))"
  "map_of ctos_readers 32 = Some (rd_return Ctos_HsToDuelist)"
  "map_of ctos_readers 33 = Some (rd_return Ctos_HsToObserver)"
  "map_of ctos_readers 34 = Some (rd_return Ctos_HsReady)"
  "map_of ctos_readers 35 = Some (rd_return Ctos_HsNotReady)"
  "map_of ctos_readers 36 = Some (rd_map Ctos_HsKick rd_Netplayer)"
  "map_of ctos_readers 37 = Some (rd_return Ctos_HsStart)"
  "map_of ctos_readers 48 = Some (rd_return Ctos_RequestField)"
  by (simp_all add: ctos_readers_def)

lemma rd_map_apply: "rd_map f rd bs = map_option (\<lambda>(x, r). (f x, r)) (rd bs)"
  by (simp add: rd_map_def rd_bind_def rd_return_def split: option.splits)

lemma rd_wr_ip: "rd_ip (wr_ip ip @ r) = Some (ip, r)"
proof -
  have "rd_count rd_u8 4 (wr_ip ip @ r) = Some (wr_ip ip, r)"
    by (simp add: wr_ip_def wr_u32_def numeral_eq_Suc)
  then show ?thesis using u32.rd_wr [of ip "[]"] by (simp add: rd_ip_def wr_ip_def)
qed

lemma rd_wr_Netplayer:
  "canonical_netplayer p \<Longrightarrow> rd_Netplayer (wr_Netplayer p @ r) = Some (p, r)"
  by (cases p) (auto simp: wr_Netplayer_def wr_u8_def Netplayer_from_primitive_def)

lemma rd_skip_2: "rd_skip 2 rd (wr_pad 2 @ r) = rd r"
  by simp

lemmas ctos_wire = u8.rd_bind_wr u16.rd_bind_wr u32.rd_bind_wr host_info.rd_bind_wr Name20.rd_bind_wr
  Name20.rd_bind_wr [where r = "[]", simplified] Name20.rd_wr_whole Hand.enum.rd_wr_whole
  CorePlayer.enum.rd_wr_whole 
  rd_wr_U16String [where r = "[]", simplified] u8.rd_until_eof_wr_vec [where s = "[]", simplified]

lemma rd_until_eof_bytes: "rd_until_eof rd_u8 data = Some (data, [])"
proof -
  have "wr_vec wr_u8 data = data" by (induction data) (simp_all add: wr_u8_def)
  then show ?thesis using u8.rd_until_eof_wr_vec [of data "[]"] by simp
qed

text \<open>No reader of a body gives a message of unknown type.\<close>

definition knows :: "ctos_Message reader \<Rightarrow> bool" where
  "knows rd \<longleftrightarrow> (\<forall>bs m r data. rd bs = Some (m, r) \<longrightarrow> m \<noteq> Ctos_Unknown data)"

lemma knows_simps:
  "(\<And>x data. f x \<noteq> Ctos_Unknown data) \<Longrightarrow> knows (rd_map f rd)"
  "(\<And>data. m \<noteq> Ctos_Unknown data) \<Longrightarrow> knows (rd_return m)"
  "(\<And>x. knows (g x)) \<Longrightarrow> knows (rd_bind rd' g)"
  "knows k \<Longrightarrow> knows (rd_skip n k)"
  by (auto simp: knows_def rd_map_def rd_bind_def rd_return_def rd_skip_def split: option.splits)

lemma ctos_readers_know: "\<forall>(flag, rd) \<in> set ctos_readers. knows rd"
  by (simp add: ctos_readers_def knows_simps)

lemma ctos_read_written:
  assumes "valid_ctos m"
  shows "rd_ctos (wr_ctos m) = Some (m, [])"
proof (cases m)
  case (Ctos_Response r)
  with assms show ?thesis
    by (auto simp: rd_map_apply rd_PlayerResponse_def rd_until_eof_bytes)
next
  case (Ctos_UpdateDeck d)
  with assms rd_wr_Deck [of d "[]"] show ?thesis by (simp add: rd_map_apply)
next
  case (Ctos_ExternalAddress ip h)
  with assms show ?thesis
    by (simp add: rd_bind_def [of rd_ip] rd_wr_ip rd_map_apply ctos_wire)
next
  case (Ctos_Unknown data)
  with assms show ?thesis by (cases data) auto
next
  case (Ctos_HsKick p)
  with assms have "rd_Netplayer (wr_Netplayer p) = Some (p, [])"
    using rd_wr_Netplayer [of p "[]"] by simp
  with Ctos_HsKick show ?thesis by (simp add: rd_map_apply del: rd_Netplayer.simps)
qed (use assms in \<open>auto simp: rd_map_apply ctos_wire\<close>)

section \<open>Properties\<close>

text \<open>C27: Every byte sequence a client can send is read as a message, except the empty one: a body that
  does not fit its flag, like a flag the protocol does not have, gives a message of unknown type
  that holds the whole input. And every message a client builds is read back as it was built.\<close>
theorem ctos_total_and_faithful:
  assumes "valid_ctos m"
  shows "rd_ctos (wr_ctos m) = Some (m, []) \<and>
    (\<exists>m' r. rd_ctos (b # bs) = Some (m', r) \<and> (\<forall>data. m' = Ctos_Unknown data \<longrightarrow> data = b # bs \<and> r = []))"
proof
  show "rd_ctos (wr_ctos m) = Some (m, [])" using assms by (rule ctos_read_written)
  show "\<exists>m' r. rd_ctos (b # bs) = Some (m', r) \<and> (\<forall>data. m' = Ctos_Unknown data \<longrightarrow> data = b # bs \<and> r = [])"
  proof (cases "map_of ctos_readers b")
    case (Some rd)
    then have "knows rd" using ctos_readers_know by (auto dest: map_of_SomeD)
    then have "rd bs = Some (m', r) \<Longrightarrow> m' \<noteq> Ctos_Unknown data" for m' r data by (auto simp: knows_def)
    then show ?thesis using Some by (cases "rd bs") fastforce+
  qed simp
qed

theorem ctos_total_and_faithful_witness:
  "rd_ctos (wr_ctos (Ctos_TpResult FirstAttackPlayer)) = Some (Ctos_TpResult FirstAttackPlayer, [])"
  using ctos_total_and_faithful [of "Ctos_TpResult FirstAttackPlayer"] by simp

end
