(* ===== verification/Stoc.thy ===== *)
theory Stoc
  imports Ctos GameMessageWire
begin

text \<open>
  The messages the server sends (server to client.rs): one constructor per struct, the speaker of a
  chat, the enumeration's writer and reader.

  The writer can panic, since the position of a change of type is packed into four bits, and can fail
  where the message of the core it carries fails. The reader can panic where the reader of a message
  of the core can, and on a change of type whose packed position is none.
\<close>

section \<open>Messages\<close>

datatype ChatSource = ChatSource_Player Netplayer | ChatSource_System Color

definition ChatSource_try_from :: "u8 \<Rightarrow> ChatSource option" where
  "ChatSource_try_from v =
     (if v \<le> 7 then Some (ChatSource_Player (Netplayer_from_primitive v))
      else map_option ChatSource_System (try_from Color_repr Color_all v))"

fun ChatSource_into :: "ChatSource \<Rightarrow> u8" where
    "ChatSource_into (ChatSource_Player p) = Netplayer_to_u8 p"
  | "ChatSource_into (ChatSource_System c) = Color_repr c"

fun ChatSource_netplayer :: "ChatSource \<Rightarrow> Netplayer option" where
    "ChatSource_netplayer (ChatSource_Player p) = Some p"
  | "ChatSource_netplayer (ChatSource_System c) = None"

record DeckCount =
  dc_mainc_s :: u16
  dc_extrac_s :: u16
  dc_sidec_s :: u16
  dc_mainc_o :: u16
  dc_extrac_o :: u16
  dc_sidec_o :: u16

datatype (plugins only: code) stoc_Message =
    Stoc_GameMessage gm_Message
  | Stoc_ErrorMessage ErrorMessage
  | Stoc_SelectHand
  | Stoc_SelectTp
  | Stoc_HandResult Hand Hand
  | Stoc_TpResult u8
  | Stoc_ChangeSide
  | Stoc_WaitingSide
  | Stoc_DeckCount DeckCount
  | Stoc_CreateGame u32
  | Stoc_JoinGame HostInfo
  | Stoc_TypeChange Netplayer bool
  | Stoc_LeaveGame Netplayer
  | Stoc_DuelStart
  | Stoc_DuelEnd
  | Stoc_Replay Replay
  | Stoc_TimeLimit CorePlayer u16
  | Stoc_Chat ChatSource U16String
  | Stoc_HsPlayerEnter FixedLengthString Netplayer
  | Stoc_HsPlayerChange PlayerChange
  | Stoc_HsWatchChange u16
  | Stoc_TeammateSurrender
  | Stoc_FieldFinish
  | Stoc_Unknown bytes

fun stoc_type :: "stoc_Message \<Rightarrow> stoc_MessageType" where
    "stoc_type (Stoc_GameMessage m) = stoc_T_GameMessage"
  | "stoc_type (Stoc_ErrorMessage e) = stoc_T_ErrorMessage"
  | "stoc_type Stoc_SelectHand = stoc_T_SelectHand"
  | "stoc_type Stoc_SelectTp = stoc_T_SelectTp"
  | "stoc_type (Stoc_HandResult a b) = stoc_T_HandResult"
  | "stoc_type (Stoc_TpResult r) = stoc_T_TpResult"
  | "stoc_type Stoc_ChangeSide = stoc_T_ChangeSide"
  | "stoc_type Stoc_WaitingSide = stoc_T_WaitingSide"
  | "stoc_type (Stoc_DeckCount c) = stoc_T_DeckCount"
  | "stoc_type (Stoc_CreateGame g) = stoc_T_CreateGame"
  | "stoc_type (Stoc_JoinGame i) = stoc_T_JoinGame"
  | "stoc_type (Stoc_TypeChange p h) = stoc_T_TypeChange"
  | "stoc_type (Stoc_LeaveGame p) = stoc_T_LeaveGame"
  | "stoc_type Stoc_DuelStart = stoc_T_DuelStart"
  | "stoc_type Stoc_DuelEnd = stoc_T_DuelEnd"
  | "stoc_type (Stoc_Replay r) = stoc_T_Replay"
  | "stoc_type (Stoc_TimeLimit p t) = stoc_T_TimeLimit"
  | "stoc_type (Stoc_Chat s m) = stoc_T_Chat"
  | "stoc_type (Stoc_HsPlayerEnter n p) = stoc_T_HsPlayerEnter"
  | "stoc_type (Stoc_HsPlayerChange s) = stoc_T_HsPlayerChange"
  | "stoc_type (Stoc_HsWatchChange n) = stoc_T_HsWatchChange"
  | "stoc_type Stoc_TeammateSurrender = stoc_T_TeammateSurrender"
  | "stoc_type Stoc_FieldFinish = stoc_T_FieldFinish"
  | "stoc_type (Stoc_Unknown data) = stoc_T_Unknown (case data of [] \<Rightarrow> 0 | b # bs \<Rightarrow> b)"

text \<open>The struct HandResult: the two hands seen from the other side, and who won.\<close>

definition HandResult_swap :: "Hand \<times> Hand \<Rightarrow> Hand \<times> Hand" where
  "HandResult_swap = (\<lambda>(hand1, hand2). (hand2, hand1))"

definition HandResult_judge :: "Hand \<times> Hand \<Rightarrow> HandResult" where
  "HandResult_judge = (\<lambda>(hand1, hand2). Hand_judge hand1 hand2)"

section \<open>Writing\<close>

definition wr_DeckCount :: "DeckCount writer" where
  "wr_DeckCount c =
     wr_u16 (dc_mainc_s c) @ wr_u16 (dc_extrac_s c) @ wr_u16 (dc_sidec_s c) @
     wr_u16 (dc_mainc_o c) @ wr_u16 (dc_extrac_o c) @ wr_u16 (dc_sidec_o c)"

definition pack_TypeChange :: "Netplayer \<Rightarrow> bool \<Rightarrow> TypeChange res" where
  "pack_TypeChange p h = TypeChange_with_player p (TypeChange_with_host h TypeChange_new)"

fun wr_stoc :: "lzma_crate \<Rightarrow> stoc_Message \<Rightarrow> bytes option res" where
    "wr_stoc z (Stoc_GameMessage m) = Inr (map_option ((#) 1) (wr_gm z m))"
  | "wr_stoc z (Stoc_ErrorMessage e) = Inr (Some (2 # wr_ErrorMessage e))"
  | "wr_stoc z Stoc_SelectHand = Inr (Some [3])"
  | "wr_stoc z Stoc_SelectTp = Inr (Some [4])"
  | "wr_stoc z (Stoc_HandResult a b) = Inr (Some (5 # wr_enum wr_u8 Hand_repr a @ wr_enum wr_u8 Hand_repr b))"
  | "wr_stoc z (Stoc_TpResult r) = Inr (Some (6 # wr_u8 r))"
  | "wr_stoc z Stoc_ChangeSide = Inr (Some [7])"
  | "wr_stoc z Stoc_WaitingSide = Inr (Some [8])"
  | "wr_stoc z (Stoc_DeckCount c) = Inr (Some (9 # wr_DeckCount c))"
  | "wr_stoc z (Stoc_CreateGame g) = Inr (Some (17 # wr_u32 g))"
  | "wr_stoc z (Stoc_JoinGame i) = Inr (Some (18 # wr_HostInfo i))"
  | "wr_stoc z (Stoc_TypeChange p h) = and_then (pack_TypeChange p h) (\<lambda>t. Inr (Some (19 # wr_u8 t)))"
  | "wr_stoc z (Stoc_LeaveGame p) = Inr (Some (20 # wr_Netplayer p))"
  | "wr_stoc z Stoc_DuelStart = Inr (Some [21])"
  | "wr_stoc z Stoc_DuelEnd = Inr (Some [22])"
  | "wr_stoc z (Stoc_Replay r) = Inr (Some (23 # wr_Replay (fst z) r))"
  | "wr_stoc z (Stoc_TimeLimit p t) = Inr (Some (24 # wr_CorePlayer p @ wr_pad 1 @ wr_u16 t))"
  | "wr_stoc z (Stoc_Chat s m) = Inr (Some (25 # wr_u8 (ChatSource_into s) @ wr_pad 1 @ wr_U16String m))"
  | "wr_stoc z (Stoc_HsPlayerEnter n p) = Inr (Some (32 # wr_FixedLengthString n @ wr_Netplayer p))"
  | "wr_stoc z (Stoc_HsPlayerChange s) = Inr (Some (33 # wr_u8 s))"
  | "wr_stoc z (Stoc_HsWatchChange n) = Inr (Some (34 # wr_u16 n))"
  | "wr_stoc z Stoc_TeammateSurrender = Inr (Some [35])"
  | "wr_stoc z Stoc_FieldFinish = Inr (Some [48])"
  | "wr_stoc z (Stoc_Unknown data) = Inr (Some data)"

section \<open>Reading\<close>

type_synonym stoc_reader = "bytes \<Rightarrow> (stoc_Message \<times> bytes) option res"

definition rd_DeckCount :: "DeckCount reader" where
  "rd_DeckCount =
     rd_bind rd_u16 (\<lambda>mainc_s. rd_bind rd_u16 (\<lambda>extrac_s. rd_bind rd_u16 (\<lambda>sidec_s.
     rd_bind rd_u16 (\<lambda>mainc_o. rd_bind rd_u16 (\<lambda>extrac_o. rd_bind rd_u16 (\<lambda>sidec_o.
     rd_return \<lparr> dc_mainc_s = mainc_s, dc_extrac_s = extrac_s, dc_sidec_s = sidec_s,
       dc_mainc_o = mainc_o, dc_extrac_o = extrac_o, dc_sidec_o = sidec_o \<rparr>))))))"

definition stoc_read :: "stoc_Message reader \<Rightarrow> stoc_reader" where
  "stoc_read rd bs = Inr (rd bs)"

definition rd_stoc_GameMessage :: "lzma_crate \<Rightarrow> stoc_reader" where
  "rd_stoc_GameMessage z bs =
     and_then (rd_gm z bs) (\<lambda>x. Inr (map_option (\<lambda>(m, r). (Stoc_GameMessage m, r)) x))"

definition rd_stoc_TypeChange :: stoc_reader where
  "rd_stoc_TypeChange bs =
     (case rd_u8 bs of
        None \<Rightarrow> Inr None
      | Some (t, r) \<Rightarrow> and_then (TypeChange_player t) (\<lambda>p. Inr (Some (Stoc_TypeChange p (TypeChange_host t), r))))"

definition rd_stoc_Chat :: "stoc_Message reader" where
  "rd_stoc_Chat =
     rd_bind rd_u8 (\<lambda>raw bs. case ChatSource_try_from raw of
        None \<Rightarrow> None
      | Some s \<Rightarrow> rd_skip 1 (rd_map (Stoc_Chat s) rd_U16String) bs)"

definition stoc_readers :: "lzma_crate \<Rightarrow> (u8 \<times> stoc_reader) list" where
  "stoc_readers z =
    [(1, rd_stoc_GameMessage z),
     (2, stoc_read (rd_map Stoc_ErrorMessage rd_ErrorMessage)),
     (3, stoc_read (rd_return Stoc_SelectHand)),
     (4, stoc_read (rd_return Stoc_SelectTp)),
     (5, stoc_read (rd_bind (rd_enum rd_u8 Hand_repr Hand_all) (\<lambda>a. rd_map (Stoc_HandResult a) (rd_enum rd_u8 Hand_repr Hand_all)))),
     (6, stoc_read (rd_map Stoc_TpResult rd_u8)),
     (7, stoc_read (rd_return Stoc_ChangeSide)),
     (8, stoc_read (rd_return Stoc_WaitingSide)),
     (9, stoc_read (rd_map Stoc_DeckCount rd_DeckCount)),
     (17, stoc_read (rd_map Stoc_CreateGame rd_u32)),
     (18, stoc_read (rd_map Stoc_JoinGame rd_HostInfo)),
     (19, rd_stoc_TypeChange),
     (20, stoc_read (rd_map Stoc_LeaveGame rd_Netplayer)),
     (21, stoc_read (rd_return Stoc_DuelStart)),
     (22, stoc_read (rd_return Stoc_DuelEnd)),
     (23, stoc_read (rd_map Stoc_Replay (rd_Replay (snd z)))),
     (24, stoc_read (rd_bind rd_CorePlayer (\<lambda>p. rd_skip 1 (rd_map (Stoc_TimeLimit p) rd_u16)))),
     (25, stoc_read rd_stoc_Chat),
     (32, stoc_read (rd_bind (rd_FixedLengthString 20) (\<lambda>n. rd_map (Stoc_HsPlayerEnter n) rd_Netplayer))),
     (33, stoc_read (rd_map Stoc_HsPlayerChange rd_u8)),
     (34, stoc_read (rd_map Stoc_HsWatchChange rd_u16)),
     (35, stoc_read (rd_return Stoc_TeammateSurrender)),
     (48, stoc_read (rd_return Stoc_FieldFinish))]"

fun rd_stoc :: "lzma_crate \<Rightarrow> stoc_reader" where
    "rd_stoc z [] = Inr None"
  | "rd_stoc z (flag # r) =
       (case map_of (stoc_readers z) flag of
          None \<Rightarrow> Inr (Some (Stoc_Unknown (flag # r), []))
        | Some rd \<Rightarrow> and_then (rd r) (\<lambda>x. Inr (case x of
            Some y \<Rightarrow> Some y
          | None \<Rightarrow> Some (Stoc_Unknown (flag # r), []))))"

section \<open>Lemmas\<close>

fun valid_stoc :: "lzma_crate \<Rightarrow> stoc_Message \<Rightarrow> bool" where
    "valid_stoc z (Stoc_GameMessage m) \<longleftrightarrow> valid_gm z m"
  | "valid_stoc z (Stoc_TypeChange p h) \<longleftrightarrow> canonical_netplayer p \<and> p \<noteq> UnknownPlayer"
  | "valid_stoc z (Stoc_LeaveGame p) \<longleftrightarrow> canonical_netplayer p"
  | "valid_stoc z (Stoc_ErrorMessage e) \<longleftrightarrow> rd_ErrorMessage (wr_ErrorMessage e) = Some (e, [])"
  | "valid_stoc z (Stoc_Replay r) \<longleftrightarrow> rd_Replay (snd z) (wr_Replay (fst z) r) = Some (r, [])"
  | "valid_stoc z (Stoc_Chat s m) \<longleftrightarrow> ChatSource_try_from (ChatSource_into s) = Some s \<and> us_str m = None"
  | "valid_stoc z (Stoc_HsPlayerEnter n p) \<longleftrightarrow> valid_fls 20 n \<and> canonical_netplayer p"
  | "valid_stoc z (Stoc_Unknown data) \<longleftrightarrow> data \<noteq> [] \<and> map_of (stoc_readers z) (hd data) = None"
  | "valid_stoc z _ \<longleftrightarrow> True"

lemma wr_gm_written:
  assumes "valid_gm z m" and "wr_gm z m = Some bs"
  shows "rd_gm z bs = Inr (Some (m, []))"
proof (cases "greedy m")
  case True
  then show ?thesis using rd_gm_greedy assms by simp
next
  case False
  show ?thesis
  proof (cases m)
    case (GM_Unknown d)
    then show ?thesis using False by simp
  qed (use assms False rd_gm_group [where r = "[]"] in auto)
qed

lemma stoc_lookup [simp]:
  "map_of (stoc_readers z) 1 = Some (rd_stoc_GameMessage z)"
  "map_of (stoc_readers z) 2 = Some (stoc_read (rd_map Stoc_ErrorMessage rd_ErrorMessage))"
  "map_of (stoc_readers z) 3 = Some (stoc_read (rd_return Stoc_SelectHand))"
  "map_of (stoc_readers z) 4 = Some (stoc_read (rd_return Stoc_SelectTp))"
  "map_of (stoc_readers z) 5 = Some (stoc_read (rd_bind (rd_enum rd_u8 Hand_repr Hand_all) (\<lambda>a. rd_map (Stoc_HandResult a) (rd_enum rd_u8 Hand_repr Hand_all))))"
  "map_of (stoc_readers z) 6 = Some (stoc_read (rd_map Stoc_TpResult rd_u8))"
  "map_of (stoc_readers z) 7 = Some (stoc_read (rd_return Stoc_ChangeSide))"
  "map_of (stoc_readers z) 8 = Some (stoc_read (rd_return Stoc_WaitingSide))"
  "map_of (stoc_readers z) 9 = Some (stoc_read (rd_map Stoc_DeckCount rd_DeckCount))"
  "map_of (stoc_readers z) 17 = Some (stoc_read (rd_map Stoc_CreateGame rd_u32))"
  "map_of (stoc_readers z) 18 = Some (stoc_read (rd_map Stoc_JoinGame rd_HostInfo))"
  "map_of (stoc_readers z) 19 = Some rd_stoc_TypeChange"
  "map_of (stoc_readers z) 20 = Some (stoc_read (rd_map Stoc_LeaveGame rd_Netplayer))"
  "map_of (stoc_readers z) 21 = Some (stoc_read (rd_return Stoc_DuelStart))"
  "map_of (stoc_readers z) 22 = Some (stoc_read (rd_return Stoc_DuelEnd))"
  "map_of (stoc_readers z) 23 = Some (stoc_read (rd_map Stoc_Replay (rd_Replay (snd z))))"
  "map_of (stoc_readers z) 24 = Some (stoc_read (rd_bind rd_CorePlayer (\<lambda>p. rd_skip 1 (rd_map (Stoc_TimeLimit p) rd_u16))))"
  "map_of (stoc_readers z) 25 = Some (stoc_read rd_stoc_Chat)"
  "map_of (stoc_readers z) 32 = Some (stoc_read (rd_bind (rd_FixedLengthString 20) (\<lambda>n. rd_map (Stoc_HsPlayerEnter n) rd_Netplayer)))"
  "map_of (stoc_readers z) 33 = Some (stoc_read (rd_map Stoc_HsPlayerChange rd_u8))"
  "map_of (stoc_readers z) 34 = Some (stoc_read (rd_map Stoc_HsWatchChange rd_u16))"
  "map_of (stoc_readers z) 35 = Some (stoc_read (rd_return Stoc_TeammateSurrender))"
  "map_of (stoc_readers z) 48 = Some (stoc_read (rd_return Stoc_FieldFinish))"
  by (simp_all add: stoc_readers_def)

lemma TypeChange_reads_back:
  assumes "canonical_netplayer p" and "p \<noteq> UnknownPlayer"
  shows "\<exists>t. pack_TypeChange p h = Inr t \<and> TypeChange_player t = Inr p \<and> TypeChange_host t = h"
proof -
  have f: "Netplayer_from_bytes (Netplayer_to_u8 p) = Some p"
    using assms by (rule Netplayer_from_bytes_to_u8)
  have "Netplayer_into_bytes p = Some (Netplayer_to_u8 p)"
    using assms by (cases p) (auto simp: Netplayer_into_bytes_iff word_le_nat_alt word_less_nat_alt)
  then obtain t where t: "pack_TypeChange p h = Inr t"
    by (simp add: pack_TypeChange_def TypeChange_with_player_def)
  from TypeChange_with_player_ok [OF t [unfolded pack_TypeChange_def]] f
  show ?thesis by (simp add: t TypeChange_player_def)
qed

lemmas stoc_wire = ctos_wire rd_map_apply stoc_read_def Hand.enum.rd_bind_wr CorePlayer.enum.rd_bind_wr
  u8.rd_wr_whole u16.rd_wr_whole u32.rd_wr_whole host_info.rd_wr_whole u16.rd_bind_wr [where r = "[]", simplified]

lemma rd_skip_1: "rd_skip 1 rd (wr_pad 1 @ r) = rd r"
  by (rule rd_skip_pad)

lemma stoc_read_written:
  assumes "valid_stoc z m" and "wr_stoc z m = Inr (Some bs)"
  shows "rd_stoc z bs = Inr (Some (m, []))"
proof (cases m)
  case (Stoc_GameMessage g)
  with assms wr_gm_written [of z g] show ?thesis by (auto simp: rd_stoc_GameMessage_def)
next
  case (Stoc_TypeChange p h)
  with assms TypeChange_reads_back [of p h] show ?thesis by (auto simp: rd_stoc_TypeChange_def wr_u8_def)
next
  case (Stoc_LeaveGame p)
  with assms rd_wr_Netplayer [of p "[]"] show ?thesis by (auto simp: stoc_wire simp del: rd_Netplayer.simps)
next
  case (Stoc_HsPlayerEnter n p)
  with assms rd_wr_Netplayer [of p "[]"] show ?thesis by (auto simp: stoc_wire simp del: rd_Netplayer.simps)
next
  case (Stoc_Chat s m)
  have "rd_stoc_Chat (wr_u8 (ChatSource_into s) @ wr_pad 1 @ wr_U16String m) = Some (Stoc_Chat s m, [])"
    using assms Stoc_Chat by (simp only: rd_stoc_Chat_def u8.rd_bind_wr) (simp add: stoc_wire rd_skip_1)
  with assms Stoc_Chat show ?thesis by (auto simp: stoc_read_def)
next
  case (Stoc_TimeLimit p t)
  have "rd_bind rd_CorePlayer (\<lambda>p. rd_skip 1 (rd_map (Stoc_TimeLimit p) rd_u16)) (wr_CorePlayer p @ wr_pad 1 @ wr_u16 t)
      = Some (Stoc_TimeLimit p t, [])"
    by (simp only: CorePlayer.enum.rd_bind_wr rd_skip_1) (simp add: stoc_wire)
  with assms Stoc_TimeLimit show ?thesis by (auto simp: stoc_read_def)
next
  case (Stoc_DeckCount c)
  with assms show ?thesis by (auto simp: stoc_wire rd_DeckCount_def wr_DeckCount_def)
next
  case (Stoc_Unknown data)
  with assms show ?thesis by (cases data) auto
qed (use assms in \<open>auto simp: stoc_wire\<close>)

section \<open>Properties\<close>



end
