(* ===== verification/Slab.thy ===== *)
theory Slab
  imports Prelude
begin

text \<open>
  The crate slab as the server uses it: a store that hands out keys. Which key an insertion gets is
  the crate's decision; it depends on nothing but the insertions and removals the slab has seen, so
  the model keeps these operations (the last one first), and the choice is the parameter fresh of
  the operations that insert. What the crate documents is the law of the locale: a new key is not in
  use. Removing a key that is not in use panics, its checked variant returns none. Iterating visits
  the keys in ascending order.

  Two slabs that see the same operations use the same keys: the server relies on this where it keeps
  the players of a room and their channels in two slabs.
\<close>

datatype slab_op = SInsert | SRemove nat

record 'a Slab =
  slab_items :: "(nat \<times> 'a) list"
  slab_ops :: "slab_op list"

type_synonym slab_keys = "slab_op list \<Rightarrow> nat"

definition Slab_new :: "'a Slab" where
  "Slab_new = \<lparr> slab_items = [], slab_ops = [] \<rparr>"

definition slab_get :: "'a Slab \<Rightarrow> nat \<Rightarrow> 'a option" where
  "slab_get s k = map_of (slab_items s) k"

definition slab_contains :: "'a Slab \<Rightarrow> nat \<Rightarrow> bool" where
  "slab_contains s k \<longleftrightarrow> slab_get s k \<noteq> None"

definition slab_len :: "'a Slab \<Rightarrow> nat" where
  "slab_len s = length (slab_items s)"

definition slab_is_empty :: "'a Slab \<Rightarrow> bool" where
  "slab_is_empty s \<longleftrightarrow> slab_items s = []"

definition slab_vacant_key :: "slab_keys \<Rightarrow> 'a Slab \<Rightarrow> nat" where
  "slab_vacant_key fresh s = fresh (slab_ops s)"

definition slab_insert :: "slab_keys \<Rightarrow> 'a \<Rightarrow> 'a Slab \<Rightarrow> nat \<times> 'a Slab" where
  "slab_insert fresh x s =
     (let k = slab_vacant_key fresh s in
      (k, \<lparr> slab_items = insort_key fst (k, x) (slab_items s), slab_ops = SInsert # slab_ops s \<rparr>))"

definition slab_try_remove :: "nat \<Rightarrow> 'a Slab \<Rightarrow> ('a \<times> 'a Slab) option" where
  "slab_try_remove k s =
     (case slab_get s k of
        None \<Rightarrow> None
      | Some x \<Rightarrow> Some (x, \<lparr> slab_items = filter (\<lambda>(j, _). j \<noteq> k) (slab_items s),
                              slab_ops = SRemove k # slab_ops s \<rparr>))"

definition slab_remove :: "nat \<Rightarrow> 'a Slab \<Rightarrow> ('a \<times> 'a Slab) res" where
  "slab_remove k s = unwrap (slab_try_remove k s)"

definition slab_update :: "nat \<Rightarrow> ('a \<Rightarrow> 'a) \<Rightarrow> 'a Slab \<Rightarrow> 'a Slab" where
  "slab_update k f s = s \<lparr> slab_items := map (\<lambda>(j, x). (j, if j = k then f x else x)) (slab_items s) \<rparr>"

definition slab_map :: "('a \<Rightarrow> 'a) \<Rightarrow> 'a Slab \<Rightarrow> 'a Slab" where
  "slab_map f s = s \<lparr> slab_items := map (\<lambda>(j, x). (j, f x)) (slab_items s) \<rparr>"

definition slab_keys_of :: "'a Slab \<Rightarrow> nat list" where
  "slab_keys_of s = map fst (slab_items s)"

section \<open>The keys in use\<close>

fun live :: "slab_keys \<Rightarrow> slab_op list \<Rightarrow> nat list" where
    "live fresh [] = []"
  | "live fresh (SInsert # h) = fresh h # live fresh h"
  | "live fresh (SRemove k # h) = filter (\<lambda>j. j \<noteq> k) (live fresh h)"

fun possible :: "slab_keys \<Rightarrow> slab_op list \<Rightarrow> bool" where
    "possible fresh [] = True"
  | "possible fresh (SInsert # h) = possible fresh h"
  | "possible fresh (SRemove k # h) \<longleftrightarrow> possible fresh h \<and> k \<in> set (live fresh h)"

definition wf_slab :: "slab_keys \<Rightarrow> 'a Slab \<Rightarrow> bool" where
  "wf_slab fresh s \<longleftrightarrow>
     possible fresh (slab_ops s) \<and> sorted (slab_keys_of s) \<and> distinct (slab_keys_of s) \<and>
     set (slab_keys_of s) = set (live fresh (slab_ops s))"

locale slab_crate =
  fixes fresh :: slab_keys
  assumes fresh_new: "possible fresh h \<Longrightarrow> fresh h \<notin> set (live fresh h)"
begin

lemma keys_insort: "slab_keys_of \<lparr> slab_items = insort_key fst (k, x) xs, slab_ops = h \<rparr> = insort k (map fst xs)"
  by (induction xs) (auto simp: slab_keys_of_def)

lemma wf_new [simp]: "wf_slab fresh Slab_new"
  by (simp add: wf_slab_def Slab_new_def slab_keys_of_def)

lemma wf_insert:
  assumes "wf_slab fresh s" and "slab_insert fresh x s = (k, t)"
  shows "wf_slab fresh t"
proof -
  have t: "t = \<lparr> slab_items = insort_key fst (fresh (slab_ops s), x) (slab_items s), slab_ops = SInsert # slab_ops s \<rparr>"
    using assms(2) by (auto simp: slab_insert_def slab_vacant_key_def Let_def)
  show ?thesis
    using assms(1) fresh_new [of "slab_ops s"]
    unfolding wf_slab_def t keys_insort
    by (simp add: slab_keys_of_def sorted_insort distinct_insort set_insort_key)
qed

lemma insert_fresh: "wf_slab fresh s \<Longrightarrow> slab_insert fresh x s = (k, t) \<Longrightarrow> k \<notin> set (slab_keys_of s)"
  using fresh_new [of "slab_ops s"] by (auto simp: wf_slab_def slab_insert_def slab_vacant_key_def Let_def)

end

lemma slab_get_iff: "wf_slab fresh s \<Longrightarrow> slab_get s k = Some x \<longleftrightarrow> (k, x) \<in> set (slab_items s)"
  by (auto simp: wf_slab_def slab_keys_of_def slab_get_def dest: map_of_SomeD intro: map_of_is_SomeI)

lemma slab_get_None: "slab_get s k = None \<longleftrightarrow> k \<notin> set (slab_keys_of s)"
  by (simp add: slab_get_def slab_keys_of_def map_of_eq_None_iff)

lemma map_fst_filter: "map fst (filter (\<lambda>(j, _). P j) xs) = filter P (map fst xs)"
  by (induction xs) auto

lemma wf_try_remove:
  assumes "wf_slab fresh s" and "slab_try_remove k s = Some (x, t)"
  shows "wf_slab fresh t" and "slab_keys_of t = filter (\<lambda>j. j \<noteq> k) (slab_keys_of s)"
proof -
  from assms(2) have g: "slab_get s k \<noteq> None"
    and t: "t = \<lparr> slab_items = filter (\<lambda>(j, _). j \<noteq> k) (slab_items s), slab_ops = SRemove k # slab_ops s \<rparr>"
    by (auto simp: slab_try_remove_def split: option.splits)
  show keys: "slab_keys_of t = filter (\<lambda>j. j \<noteq> k) (slab_keys_of s)"
    by (simp add: t slab_keys_of_def map_fst_filter)
  have "slab_ops t = SRemove k # slab_ops s" by (simp add: t)
  moreover have "k \<in> set (slab_keys_of s)" using g by (simp add: slab_get_None)
  ultimately show "wf_slab fresh t"
    using assms(1) sorted_filter [of "\<lambda>x. x" "slab_keys_of s" "\<lambda>j. j \<noteq> k"]
    by (simp add: wf_slab_def keys)
qed

lemma slab_update_keys [simp]: "slab_keys_of (slab_update k f s) = slab_keys_of s"
  by (simp add: slab_update_def slab_keys_of_def comp_def case_prod_beta)

lemma slab_map_keys [simp]: "slab_keys_of (slab_map f s) = slab_keys_of s"
  by (simp add: slab_map_def slab_keys_of_def comp_def case_prod_beta)

lemma slab_update_ops [simp]: "slab_ops (slab_update k f s) = slab_ops s" "slab_ops (slab_map f s) = slab_ops s"
  by (simp_all add: slab_update_def slab_map_def)

lemma wf_update [simp]:
  "wf_slab fresh (slab_update k f s) = wf_slab fresh s" "wf_slab fresh (slab_map f s) = wf_slab fresh s"
  by (simp_all add: wf_slab_def)

text \<open>Slabs that have seen the same operations use the same keys.\<close>

lemma same_ops_same_keys:
  assumes "wf_slab fresh s" and "wf_slab fresh t" and "slab_ops s = slab_ops t"
  shows "slab_keys_of s = slab_keys_of t"
  using assms by (intro sorted_distinct_set_unique) (auto simp: wf_slab_def)

lemma same_ops_insert:
  assumes "slab_ops s = slab_ops t" and "slab_insert fresh x s = (j, s')" and "slab_insert fresh y t = (k, t')"
  shows "j = k" and "slab_ops s' = slab_ops t'"
  using assms by (auto simp: slab_insert_def slab_vacant_key_def Let_def)

lemma same_ops_remove:
  assumes "wf_slab fresh s" and "wf_slab fresh t" and "slab_ops s = slab_ops t"
    and "slab_try_remove k s = Some (x, s')"
  shows "\<exists>y t'. slab_try_remove k t = Some (y, t') \<and> slab_ops s' = slab_ops t'"
proof -
  from assms(4) have "slab_get s k \<noteq> None" by (auto simp: slab_try_remove_def split: option.splits)
  then have "slab_get t k \<noteq> None" using same_ops_same_keys [OF assms(1-3)] by (simp add: slab_get_None)
  then show ?thesis using assms(3,4) by (auto simp: slab_try_remove_def split: option.splits)
qed

section \<open>The free list of the crate\<close>

text \<open>The crate reuses the key that was removed last; without one it takes the next number.\<close>

fun free_list :: "slab_op list \<Rightarrow> nat list \<times> nat" where
    "free_list [] = ([], 0)"
  | "free_list (SInsert # h) = (case free_list h of ([], n) \<Rightarrow> ([], Suc n) | (k # ks, n) \<Rightarrow> (ks, n))"
  | "free_list (SRemove k # h) = (case free_list h of (ks, n) \<Rightarrow> (k # ks, n))"

definition lifo_keys :: slab_keys where
  "lifo_keys h = (case free_list h of ([], n) \<Rightarrow> n | (k # ks, n) \<Rightarrow> k)"

lemma free_list_sound:
  assumes "possible lifo_keys h" and "free_list h = (ks, n)"
  shows "distinct ks \<and> distinct (live lifo_keys h) \<and> set ks \<inter> set (live lifo_keys h) = {} \<and>
    set ks \<union> set (live lifo_keys h) = {..<n}"
  using assms
proof (induction h arbitrary: ks n)
  case (Cons e h)
  obtain ks' n' where f: "free_list h = (ks', n')" by fastforce
  have "possible lifo_keys h" using Cons.prems(1) by (cases e) simp_all
  note IH = Cons.IH [OF this f]
  show ?case
  proof (cases e)
    case SInsert
    show ?thesis
    proof (cases ks')
      case Nil
      then have "lifo_keys h = n'" "ks = []" "n = Suc n'"
        using Cons.prems(2) f SInsert by (simp_all add: lifo_keys_def)
      then show ?thesis using IH Nil SInsert by (auto simp: lessThan_Suc)
    next
      case (Cons k rest)
      then have "lifo_keys h = k" "ks = rest" "n = n'"
        using Cons.prems(2) f SInsert by (simp_all add: lifo_keys_def)
      then show ?thesis using IH Cons SInsert by auto
    qed
  next
    case (SRemove k)
    then have "ks = k # ks'" "n = n'" using Cons.prems(2) f by simp_all
    then show ?thesis using IH SRemove Cons.prems(1) by auto
  qed
qed auto

interpretation lifo: slab_crate lifo_keys
proof
  fix h assume p: "possible lifo_keys h"
  obtain ks n where f: "free_list h = (ks, n)" by fastforce
  show "lifo_keys h \<notin> set (live lifo_keys h)"
    using free_list_sound [OF p f] by (cases ks) (auto simp: lifo_keys_def f)
qed

end
