(* ===== verification/Player.thy ===== *)
theory Player
  imports Stoc Slab
begin

text \<open>
  The players of a room (player.rs): the filter on the messages a player may send, and the records of
  a connected client and of a duelist. A channel to a client is its number; a dummy channel is one
  whose receiver was dropped when it was made.
\<close>

datatype chan = Chan nat | DummyChan

datatype AllowMessage = Allow_None | Allow_Any | Allow_Some ctos_MessageType

definition AllowMessage_allowed :: "AllowMessage \<Rightarrow> ctos_Message \<Rightarrow> bool" where
  "AllowMessage_allowed a m =
     (if ctos_type m \<in> {ctos_T_Chat, ctos_T_Surrender, ctos_T_LeaveGame, ctos_T_RequestField} then True
      else case a of
        Allow_None \<Rightarrow> False
      | Allow_Any \<Rightarrow> True
      | Allow_Some t \<Rightarrow> t = ctos_type m)"

fun AllowMessage_to_u8 :: "AllowMessage \<Rightarrow> u8" where
    "AllowMessage_to_u8 Allow_None = 0xff"
  | "AllowMessage_to_u8 Allow_Any = 0"
  | "AllowMessage_to_u8 (Allow_Some t) = ctos_MessageType_into t"

definition AllowMessage_from_u8 :: "u8 \<Rightarrow> AllowMessage" where
  "AllowMessage_from_u8 v =
     (if v = 0xff then Allow_None else if v = 0 then Allow_Any else Allow_Some (ctos_MessageType_from v))"

record BaseDuelPlayer =
  bp_name :: FixedLengthString
  bp_stoc_sender :: chan
  bp_state :: AllowMessage

definition BaseDuelPlayer_new :: "chan \<Rightarrow> BaseDuelPlayer" where
  "BaseDuelPlayer_new c =
     \<lparr> bp_name = \<lparr> fls_data = replicate 20 0, fls_str = Some [] \<rparr>, bp_stoc_sender = c, bp_state = Allow_Any \<rparr>"

record DuelPlayer =
  dp_player :: BaseDuelPlayer
  dp_ready :: bool
  dp_deck :: Deck
  dp_hand :: "Hand option"
  dp_deck_error :: "DeckError option"
  dp_time_limit :: u16
  dp_time_compensator :: u16
  dp_time_backed :: u16

definition DuelPlayer_from :: "BaseDuelPlayer \<Rightarrow> DuelPlayer" where
  "DuelPlayer_from p =
     \<lparr> dp_player = p, dp_ready = False, dp_deck = Deck_new, dp_hand = None, dp_deck_error = None,
       dp_time_limit = 0, dp_time_compensator = 0, dp_time_backed = 0 \<rparr>"

text \<open>The fields a duelist has through its client.\<close>

definition dp_name :: "DuelPlayer \<Rightarrow> FixedLengthString" where
  "dp_name p = bp_name (dp_player p)"

definition dp_state :: "DuelPlayer \<Rightarrow> AllowMessage" where
  "dp_state p = bp_state (dp_player p)"

definition set_state :: "AllowMessage \<Rightarrow> DuelPlayer \<Rightarrow> DuelPlayer" where
  "set_state a p = p \<lparr> dp_player := dp_player p \<lparr> bp_state := a \<rparr> \<rparr>"

lemma dp_state_set [simp]: "dp_state (set_state a p) = a"
  by (simp add: dp_state_def set_state_def)

lemma set_state_fields [simp]:
  "dp_ready (set_state a p) = dp_ready p" "dp_deck (set_state a p) = dp_deck p"
  "dp_hand (set_state a p) = dp_hand p" "dp_name (set_state a p) = dp_name p"
  "dp_deck_error (set_state a p) = dp_deck_error p" "dp_time_limit (set_state a p) = dp_time_limit p"
  by (simp_all add: set_state_def dp_name_def)

lemma new_name_is_empty: "FixedLengthString_new 20 [] = Inr (bp_name (BaseDuelPlayer_new c))"
  by (simp add: FixedLengthString_new_def cast_to_fix_length_array_def BaseDuelPlayer_new_def encode_utf16_def)

end
