(* ===== verification/Core.thy ===== *)
theory Core
  imports Stoc
begin

text \<open>
  The wrapper around the duel engine (ygopro-core-wrapper). The engine is a C++ library that the
  repository builds from elsewhere: its functions are the parameter, a record over an abstract state
  of the engine, which includes the shuffler of the wrapper. What the wrapper adds is here: a duel
  that has ended is ended only once, the options of a duel are packed into one number, and the result
  of a step is unpacked from one, where an unknown state of the engine panics.
\<close>

record 'c core_api =
  api_start_duel :: "u32 \<Rightarrow> 'c \<Rightarrow> 'c"
  api_end_duel :: "'c \<Rightarrow> 'c"
  api_set_player_info :: "CorePlayer \<Rightarrow> i32 \<Rightarrow> i32 \<Rightarrow> i32 \<Rightarrow> 'c \<Rightarrow> 'c"
  api_get_message :: "bytes \<Rightarrow> 'c \<Rightarrow> bytes \<times> 'c"
  api_process :: "'c \<Rightarrow> u32 \<times> 'c"
  api_new_card :: "u32 \<Rightarrow> CorePlayer \<Rightarrow> CorePlayer \<Rightarrow> u8 \<Rightarrow> u8 \<Rightarrow> u8 \<Rightarrow> 'c \<Rightarrow> 'c"
  api_new_tag_card :: "u32 \<Rightarrow> CorePlayer \<Rightarrow> u8 \<Rightarrow> 'c \<Rightarrow> 'c"
  api_query_card :: "CorePlayer \<Rightarrow> u8 \<Rightarrow> u8 \<Rightarrow> u32 \<Rightarrow> bytes \<Rightarrow> 'c \<Rightarrow> i32 \<times> bytes \<times> 'c"
  api_query_field_count :: "CorePlayer \<Rightarrow> u8 \<Rightarrow> 'c \<Rightarrow> i32"
  api_query_field_card :: "CorePlayer \<Rightarrow> u8 \<Rightarrow> u32 \<Rightarrow> bytes \<Rightarrow> 'c \<Rightarrow> i32 \<times> bytes \<times> 'c"
  api_query_field_info :: "bytes \<Rightarrow> 'c \<Rightarrow> i32 \<times> bytes \<times> 'c"
  api_preload_script :: "str \<Rightarrow> 'c \<Rightarrow> i32 \<times> 'c"
  api_set_responseb :: "bytes \<Rightarrow> 'c \<Rightarrow> 'c"
  api_shuffle :: "u32 list \<Rightarrow> 'c \<Rightarrow> u32 list \<times> 'c"

record 'c Core =
  core_engine :: 'c
  core_seed :: "u32 list"
  core_ended :: bool

definition SIZE_RETURN_VALUE :: nat where
  "SIZE_RETURN_VALUE = 512"

definition SIZE_QUERY_BUFFER :: nat where
  "SIZE_QUERY_BUFFER = 0x40000"

definition on_engine :: "('c \<Rightarrow> 'c) \<Rightarrow> 'c Core \<Rightarrow> 'c Core" where
  "on_engine f c = c \<lparr> core_engine := f (core_engine c) \<rparr>"

definition Core_start :: "'c core_api \<Rightarrow> u16 \<Rightarrow> MasterRule \<Rightarrow> 'c Core \<Rightarrow> 'c Core" where
  "Core_start api options rule =
     on_engine (api_start_duel api (push_bit 16 (ucast (MasterRule_repr rule)) OR ucast options))"

definition Core_end :: "'c core_api \<Rightarrow> 'c Core \<Rightarrow> 'c Core" where
  "Core_end api c = (if core_ended c then c else on_engine (api_end_duel api) c \<lparr> core_ended := True \<rparr>)"

definition Core_set_player_info :: "'c core_api \<Rightarrow> CorePlayer \<Rightarrow> i32 \<Rightarrow> i32 \<Rightarrow> i32 \<Rightarrow> 'c Core \<Rightarrow> 'c Core" where
  "Core_set_player_info api p lp start_count draw_count = on_engine (api_set_player_info api p lp start_count draw_count)"

definition Core_new_card ::
  "'c core_api \<Rightarrow> u32 \<Rightarrow> CorePlayer \<Rightarrow> CorePlayer \<Rightarrow> u8 \<Rightarrow> u8 \<Rightarrow> u8 \<Rightarrow> 'c Core \<Rightarrow> 'c Core" where
  "Core_new_card api code owner player location sequence position =
     on_engine (api_new_card api code owner player location sequence position)"

definition Core_new_tag_card :: "'c core_api \<Rightarrow> u32 \<Rightarrow> CorePlayer \<Rightarrow> u8 \<Rightarrow> 'c Core \<Rightarrow> 'c Core" where
  "Core_new_tag_card api code owner location = on_engine (api_new_tag_card api code owner location)"

definition Core_query_field_count :: "'c core_api \<Rightarrow> CorePlayer \<Rightarrow> u8 \<Rightarrow> 'c Core \<Rightarrow> i32" where
  "Core_query_field_count api p location c = api_query_field_count api p location (core_engine c)"

definition Core_query_card ::
  "'c core_api \<Rightarrow> CorePlayer \<Rightarrow> u8 \<Rightarrow> u8 \<Rightarrow> u32 \<Rightarrow> bytes \<Rightarrow> 'c Core \<Rightarrow> i32 \<times> bytes \<times> 'c Core" where
  "Core_query_card api p location sequence query buf c =
     (case api_query_card api p location sequence query buf (core_engine c) of
        (n, buf', e) \<Rightarrow> (n, buf', c \<lparr> core_engine := e \<rparr>))"

definition Core_query_field_card ::
  "'c core_api \<Rightarrow> CorePlayer \<Rightarrow> u8 \<Rightarrow> u32 \<Rightarrow> bytes \<Rightarrow> 'c Core \<Rightarrow> i32 \<times> bytes \<times> 'c Core" where
  "Core_query_field_card api p location query buf c =
     (case api_query_field_card api p location query buf (core_engine c) of
        (n, buf', e) \<Rightarrow> (n, buf', c \<lparr> core_engine := e \<rparr>))"

definition Core_query_field_info :: "'c core_api \<Rightarrow> bytes \<Rightarrow> 'c Core \<Rightarrow> i32 \<times> bytes \<times> 'c Core" where
  "Core_query_field_info api buf c =
     (case api_query_field_info api buf (core_engine c) of (n, buf', e) \<Rightarrow> (n, buf', c \<lparr> core_engine := e \<rparr>))"

text \<open>The name of a script becomes a string of C, which cannot hold a zero.\<close>

definition Core_preload_script :: "'c core_api \<Rightarrow> str \<Rightarrow> 'c Core \<Rightarrow> (i32 \<times> 'c Core) res" where
  "Core_preload_script api name c =
     (if 0 \<in> set name then Inl UnwrapFailed
      else case api_preload_script api name (core_engine c) of (n, e) \<Rightarrow> Inr (n, c \<lparr> core_engine := e \<rparr>))"

definition Core_set_responseb :: "'c core_api \<Rightarrow> bytes \<Rightarrow> 'c Core \<Rightarrow> 'c Core" where
  "Core_set_responseb api buf = on_engine (api_set_responseb api buf)"

definition Core_shuffle_deck :: "'c core_api \<Rightarrow> u32 list \<Rightarrow> 'c Core \<Rightarrow> u32 list \<times> 'c Core" where
  "Core_shuffle_deck api deck c =
     (case api_shuffle api deck (core_engine c) of (deck', e) \<Rightarrow> (deck', c \<lparr> core_engine := e \<rparr>))"

definition Core_get_message :: "'c core_api \<Rightarrow> bytes \<Rightarrow> 'c Core \<Rightarrow> bytes \<times> 'c Core" where
  "Core_get_message api buf c =
     (case api_get_message api buf (core_engine c) of (buf', e) \<Rightarrow> (buf', c \<lparr> core_engine := e \<rparr>))"

section \<open>The result of a step\<close>

datatype ProcessResultFlags = PR_None | PR_Waiting | PR_End

fun ProcessResultFlags_repr :: "ProcessResultFlags \<Rightarrow> u8" where
    "ProcessResultFlags_repr PR_None = 0"
  | "ProcessResultFlags_repr PR_Waiting = 1"
  | "ProcessResultFlags_repr PR_End = 2"

definition ProcessResultFlags_all :: "ProcessResultFlags list" where
  "ProcessResultFlags_all = [PR_None, PR_Waiting, PR_End]"

type_synonym ProcessResult = u32

definition ProcessResult_data_length :: "ProcessResult \<Rightarrow> u32" where
  "ProcessResult_data_length r = take_bit 28 r"

definition ProcessResult_flags :: "ProcessResult \<Rightarrow> ProcessResultFlags res" where
  "ProcessResult_flags r =
     get_field (try_from ProcessResultFlags_repr ProcessResultFlags_all (ucast (drop_bit 28 r)))"

definition Core_process :: "'c core_api \<Rightarrow> 'c Core \<Rightarrow> ProcessResult \<times> 'c Core" where
  "Core_process api c = (case api_process api (core_engine c) of (raw, e) \<Rightarrow> (raw, c \<lparr> core_engine := e \<rparr>))"

section \<open>Lemmas\<close>

lemma on_engine_ended [simp]: "core_ended (on_engine f c) = core_ended c" "core_seed (on_engine f c) = core_seed c"
  by (simp_all add: on_engine_def)

lemma Core_end_ended [simp]: "core_ended (Core_end api c)" "core_seed (Core_end api c) = core_seed c"
  by (simp_all add: Core_end_def)

lemma Core_end_idempotent [simp]: "Core_end api (Core_end api c) = Core_end api c"
  by (simp add: Core_end_def)

lemma Core_ended [simp]:
  "core_ended (Core_start api opt rule c) = core_ended c"
  "core_ended (Core_set_player_info api p lp sc dc c) = core_ended c"
  "core_ended (Core_new_card api code ow pl loc sq pos c) = core_ended c"
  "core_ended (Core_new_tag_card api code ow loc c) = core_ended c"
  "core_ended (Core_set_responseb api buf c) = core_ended c"
  by (simp_all add: Core_start_def Core_set_player_info_def Core_new_card_def Core_new_tag_card_def Core_set_responseb_def)

end
