(* ===== verification/Duel.thy ===== *)
theory Duel
  imports Player Core LFList DataManager
begin

text \<open>
  The room (duel.rs and message.rs): who a message is sent to and what is delivered, the internal
  messages, the requests a room takes, the state of a room and the operations every kind of room
  shares. The queues the clients read from stand in one list of deliveries, the number of the channel
  with the message, in the order they are sent; what is sent to a dummy channel is lost. A type of
  room adds its fields to the record.
\<close>

section \<open>Targets\<close>

type_synonym PlayerIndex = u8

datatype SendTarget =
    To_Single Netplayer | To_Except Netplayer | To_Core CorePlayer | To_All | To_AllPlayer
  | To_AllObserver | To_None

definition SendTarget_of_index :: "PlayerIndex \<Rightarrow> SendTarget" where
  "SendTarget_of_index i = To_Single (Player i)"

fun PlayerIndex_try_from :: "Netplayer \<Rightarrow> PlayerIndex option" where
    "PlayerIndex_try_from (Player i) = Some i"
  | "PlayerIndex_try_from _ = None"

text \<open>How a kind of room maps the players of the engine to positions at the table.\<close>

record Transformer =
  tr_transform :: "CorePlayer \<Rightarrow> SendTarget"
  tr_to_net :: "CorePlayer \<Rightarrow> Netplayer"
  tr_to_core :: "Netplayer \<Rightarrow> CorePlayer"

section \<open>The sender\<close>

type_synonym deliveries = "(nat \<times> stoc_Message) list"

record Sender =
  s_players :: "chan list"
  s_observers :: "chan Slab"
  s_undecided :: "chan Slab"
  s_messages :: "stoc_Message list"
  s_masked_messages :: "stoc_Message list"
  s_out :: deliveries

definition Sender_new :: Sender where
  "Sender_new = \<lparr> s_players = [], s_observers = Slab_new, s_undecided = Slab_new, s_messages = [],
     s_masked_messages = [], s_out = [] \<rparr>"

fun channel_send :: "chan option \<Rightarrow> stoc_Message \<Rightarrow> deliveries" where
    "channel_send (Some (Chan n)) m = [(n, m)]"
  | "channel_send _ m = []"

text \<open>Who a message goes to: the position, and its channel if there is one.\<close>

type_synonym recipients = "(Netplayer \<times> chan option) list"

definition player_senders :: "Sender \<Rightarrow> recipients" where
  "player_senders s = map (\<lambda>(i, c). (Player (of_nat i), Some c)) (enumerate 0 (s_players s))"

definition observer_senders :: "Sender \<Rightarrow> recipients" where
  "observer_senders s = map (\<lambda>(i, c). (Observer (of_nat i), Some c)) (slab_items (s_observers s))"

fun recipients_of :: "SendTarget \<Rightarrow> Sender \<Rightarrow> recipients" where
    "recipients_of (To_Single (Player i)) s = [(Player i, get (s_players s) (unat i))]"
  | "recipients_of (To_Single (Observer i)) s = [(Observer i, slab_get (s_observers s) (unat i))]"
  | "recipients_of (To_Single (Undecided i)) s = [(Undecided i, slab_get (s_undecided s) (unat i))]"
  | "recipients_of (To_Single UnknownPlayer) s = []"
  | "recipients_of (To_Except p) s =
       map (\<lambda>(i, c). (Player (of_nat i), Some c))
         (filter (\<lambda>(i, c). \<not> (case p of Player j \<Rightarrow> unat j = i | _ \<Rightarrow> False)) (enumerate 0 (s_players s))) @
       map (\<lambda>(i, c). (Observer (of_nat i), Some c))
         (filter (\<lambda>(i, c). \<not> (case p of Observer j \<Rightarrow> unat j = i | _ \<Rightarrow> False)) (slab_items (s_observers s)))"
  | "recipients_of (To_Core p) s = []"
  | "recipients_of To_All s = player_senders s @ observer_senders s"
  | "recipients_of To_AllPlayer s = player_senders s"
  | "recipients_of To_AllObserver s = observer_senders s"
  | "recipients_of To_None s = []"

text \<open>A message that is the same for everybody, and one that is chosen for each recipient.\<close>

definition deliver :: "stoc_Message \<Rightarrow> recipients \<Rightarrow> deliveries" where
  "deliver m rs = concat (map (\<lambda>(p, c). channel_send c m) rs)"

fun deliver_each :: "(Netplayer \<Rightarrow> stoc_Message res) \<Rightarrow> recipients \<Rightarrow> deliveries res" where
    "deliver_each resolve [] = Inr []"
  | "deliver_each resolve ((p, c) # rs) =
       and_then (resolve p) (\<lambda>m. and_then (deliver_each resolve rs) (\<lambda>out. Inr (channel_send c m @ out)))"

definition send_without_record :: "stoc_Message \<Rightarrow> SendTarget \<Rightarrow> Sender \<Rightarrow> Sender" where
  "send_without_record m target s = s \<lparr> s_out := s_out s @ deliver m (recipients_of target s) \<rparr>"

definition Sender_send :: "stoc_Message \<Rightarrow> SendTarget \<Rightarrow> Sender \<Rightarrow> Sender" where
  "Sender_send m target s =
     send_without_record m target
       (s \<lparr> s_messages := s_messages s @ [m], s_masked_messages := s_masked_messages s @ [m] \<rparr>)"

definition MaymaskedMessage_resolve :: "gm_Message \<Rightarrow> (Netplayer \<Rightarrow> bool res) \<Rightarrow> Netplayer \<Rightarrow> stoc_Message res" where
  "MaymaskedMessage_resolve m judge p =
     and_then (judge p) (\<lambda>b. Inr (Stoc_GameMessage (if b then m else gm_mask m)))"

definition Sender_send_game_message ::
  "gm_Message \<Rightarrow> SendTarget \<Rightarrow> (Netplayer \<Rightarrow> bool res) \<Rightarrow> Transformer \<Rightarrow> Sender \<Rightarrow> Sender res" where
  "Sender_send_game_message m target judge tr s =
     (let target' = (case target of To_Core p \<Rightarrow> tr_transform tr p | _ \<Rightarrow> target);
          s' = s \<lparr> s_messages := s_messages s @ [Stoc_GameMessage m],
                   s_masked_messages := s_masked_messages s @
                     (if gm_waiting_for m = None then [Stoc_GameMessage (gm_mask m)] else []) \<rparr>
      in and_then (deliver_each (MaymaskedMessage_resolve m judge) (recipients_of target' s'))
           (\<lambda>out. Inr (s' \<lparr> s_out := s_out s' @ out \<rparr>)))"

definition pad_players :: "nat \<Rightarrow> chan list \<Rightarrow> chan list" where
  "pad_players i cs = (if length cs \<le> i then cs @ replicate (i + 1 - length cs) DummyChan else cs)"

definition Sender_set_player :: "nat \<Rightarrow> chan \<Rightarrow> Sender \<Rightarrow> Sender" where
  "Sender_set_player i c s = s \<lparr> s_players := (pad_players i (s_players s))[i := c] \<rparr>"

definition Sender_clear_player :: "nat \<Rightarrow> Sender \<Rightarrow> Sender" where
  "Sender_clear_player i s = s \<lparr> s_players := (pad_players i (s_players s))[i := DummyChan] \<rparr>"

section \<open>Internal messages\<close>

text \<open>The message of a client that joins holds its channel and the reply it waits for, until a
  handler takes it; the reply is a number here.\<close>

datatype ygopro_Message =
    Y_ClientJoin chan "nat option"
  | Y_FirstShuffle
  | Y_DuelInit
  | Y_DuelStart
  | Y_ValidateDeck PlayerIndex Deck
  | Y_SendDeckValidation PlayerIndex
  | Y_DuelEnd CorePlayer WinReason
  | Y_GenerateReplay
  | Y_JudgeContinueMatch
  | Y_RecreateDuel
  | Y_MatchEnd
  | Y_Timeout PlayerIndex
  | Y_Terminate

fun ygopro_message_key :: "ygopro_Message \<Rightarrow> u8" where
    "ygopro_message_key (Y_ClientJoin c r) = 1"
  | "ygopro_message_key Y_FirstShuffle = 2"
  | "ygopro_message_key Y_DuelInit = 3"
  | "ygopro_message_key Y_DuelStart = 4"
  | "ygopro_message_key (Y_ValidateDeck p d) = 5"
  | "ygopro_message_key (Y_SendDeckValidation p) = 6"
  | "ygopro_message_key (Y_DuelEnd w r) = 10"
  | "ygopro_message_key Y_GenerateReplay = 11"
  | "ygopro_message_key Y_JudgeContinueMatch = 12"
  | "ygopro_message_key Y_RecreateDuel = 13"
  | "ygopro_message_key Y_MatchEnd = 20"
  | "ygopro_message_key (Y_Timeout p) = 21"
  | "ygopro_message_key Y_Terminate = 255"

text \<open>The arguments of a command are a boxed value of any type: those the commands look for, or
  another one.\<close>

datatype Argument = Arg_Netplayer Netplayer | Arg_Response PlayerResponse | Arg_Other

datatype RoomRequest =
    Req_Message ctos_Message Netplayer
  | Req_MessageEx ygopro_Message SendTarget
  | Req_Evolve
  | Req_Command str Argument

text \<open>What follows a message when its handlers continue, or terminate.\<close>

fun process_continue :: "ygopro_Message \<Rightarrow> RoomRequest list" where
    "process_continue Y_DuelInit = [Req_MessageEx Y_DuelStart To_All]"
  | "process_continue (Y_ValidateDeck p d) = [Req_MessageEx (Y_SendDeckValidation p) To_All]"
  | "process_continue (Y_DuelEnd w r) =
       [Req_MessageEx Y_GenerateReplay To_All, Req_MessageEx Y_JudgeContinueMatch To_All]"
  | "process_continue Y_JudgeContinueMatch = [Req_MessageEx Y_RecreateDuel To_All]"
  | "process_continue _ = []"

fun process_terminate :: "ygopro_Message \<Rightarrow> RoomRequest list" where
    "process_terminate Y_MatchEnd = [Req_Command (lit ''terminate'') Arg_Other]"
  | "process_terminate Y_Terminate = []"
  | "process_terminate _ = [Req_MessageEx Y_MatchEnd To_All]"

section \<open>The state of a room\<close>

record 'c Duel =
  d_core :: "'c Core"
  d_name :: FixedLengthString
  d_pass :: FixedLengthString
  d_host_player :: Netplayer
  d_host_info :: HostInfo
  d_stage :: DuelStage
  d_sender :: Sender
  d_response_buffer :: bytes
  d_core_request_buffer :: bytes
  d_players :: "DuelPlayer option list"
  d_max_player_count :: nat
  d_observers :: "BaseDuelPlayer Slab"
  d_match_kill_card_code :: i32
  d_duel_count :: u8
  d_first_attack_decider :: "PlayerIndex option"
  d_last_select_message :: "gm_Message option"
  d_last_response :: "PlayerIndex option"
  d_no_mask :: bool
  d_uninit_players :: "BaseDuelPlayer Slab"
  d_start_time :: u32
  d_client_responses :: "PlayerResponse list"
  d_requests :: "RoomRequest list"
  d_positions :: "(nat \<times> Netplayer) list"

text \<open>The configurations of the plugins.\<close>

record TimeBackedConfig =
  tb_add_time_after_operation :: u16
  tb_max_add_time_each_turn :: u16

record TimeCompensatorConfig =
  tc_add_small_time_deposit_after_operation :: u16
  tc_ignore_small_time_under_this_duration :: u16
  tc_initial_time_balance :: i16

text \<open>What a room gets from outside: the engine, the compressor, the decoder of UTF-16, the keys of
  the slabs, the cards and the limit lists loaded, the clock, the engine made for a duel of the match,
  the version the server announces, the plugins enabled and their configurations.\<close>

record 'c env =
  env_api :: "'c core_api"
  env_lzma :: lzma_crate
  env_decode :: decoder
  env_fresh :: slab_keys
  env_data :: DataManager
  env_lflists :: "LFList list"
  env_now :: u32
  env_new_core :: "u8 \<Rightarrow> 'c Core"
  env_version :: u16
  env_plugins :: "str list"
  env_terminate_when :: SendTarget
  env_terminate_when_match_end :: bool
  env_time_backed :: TimeBackedConfig
  env_time_compensator :: TimeCompensatorConfig
  env_preloaded_scripts :: "str list"
  env_override_best_of :: u8
  env_replay_mode :: u32

definition card_of :: "'c env \<Rightarrow> u32 \<Rightarrow> Card option" where
  "card_of env = get_card (env_data env)"

definition Duel_new :: "'c env \<Rightarrow> HostInfo \<Rightarrow> bool \<Rightarrow> 'c Duel" where
  "Duel_new env host_info no_mask =
     \<lparr> d_core = env_new_core env 0, d_name = FixedLengthString_allocate 20, d_pass = FixedLengthString_allocate 20,
       d_host_player = UnknownPlayer, d_host_info = host_info, d_stage = DuelStage_Begin, d_sender = Sender_new,
       d_response_buffer = replicate SIZE_RETURN_VALUE 0, d_core_request_buffer = replicate SIZE_QUERY_BUFFER 0,
       d_players = [], d_max_player_count = 0, d_observers = Slab_new, d_match_kill_card_code = - 1,
       d_duel_count = 0, d_first_attack_decider = None, d_last_select_message = None, d_last_response = None,
       d_no_mask = no_mask, d_uninit_players = Slab_new, d_start_time = 0, d_client_responses = [],
       d_requests = [], d_positions = [] \<rparr>"

section \<open>Small operations\<close>

definition send :: "stoc_Message \<Rightarrow> SendTarget \<Rightarrow> ('c, 'a) Duel_scheme \<Rightarrow> ('c, 'a) Duel_scheme" where
  "send m target d = d \<lparr> d_sender := Sender_send m target (d_sender d) \<rparr>"

definition queue :: "RoomRequest \<Rightarrow> ('c, 'a) Duel_scheme \<Rightarrow> ('c, 'a) Duel_scheme" where
  "queue r d = d \<lparr> d_requests := d_requests d @ [r] \<rparr>"

definition queue_request :: "ctos_Message \<Rightarrow> Netplayer \<Rightarrow> ('c, 'a) Duel_scheme \<Rightarrow> ('c, 'a) Duel_scheme" where
  "queue_request m p = queue (Req_Message m p)"

definition queue_request_ex :: "ygopro_Message \<Rightarrow> ('c, 'a) Duel_scheme \<Rightarrow> ('c, 'a) Duel_scheme" where
  "queue_request_ex m = queue (Req_MessageEx m To_All)"

definition queue_command :: "str \<Rightarrow> Argument \<Rightarrow> ('c, 'a) Duel_scheme \<Rightarrow> ('c, 'a) Duel_scheme" where
  "queue_command name arg = queue (Req_Command name arg)"

definition get_player :: "('c, 'a) Duel_scheme \<Rightarrow> PlayerIndex \<Rightarrow> DuelPlayer option" where
  "get_player d i = (case get (d_players d) (unat i) of None \<Rightarrow> None | Some p \<Rightarrow> p)"

fun get_net :: "('c, 'a) Duel_scheme \<Rightarrow> Netplayer \<Rightarrow> DuelPlayer option" where
    "get_net d (Player i) = get_player d i"
  | "get_net d _ = None"

text \<open>A change to a player made through get mut, which happens only where there is one.\<close>

definition map_player :: "PlayerIndex \<Rightarrow> (DuelPlayer \<Rightarrow> DuelPlayer) \<Rightarrow> ('c, 'a) Duel_scheme \<Rightarrow> ('c, 'a) Duel_scheme" where
  "map_player i f d =
     (if unat i < length (d_players d)
      then d \<lparr> d_players := (d_players d)[unat i := map_option f (d_players d ! unat i)] \<rparr> else d)"

text \<open>Writing a slot of the players by index, which panics out of bounds.\<close>

definition set_slot :: "nat \<Rightarrow> DuelPlayer option \<Rightarrow> ('c, 'a) Duel_scheme \<Rightarrow> ('c, 'a) Duel_scheme res" where
  "set_slot i p d =
     (if i < length (d_players d) then Inr (d \<lparr> d_players := (d_players d)[i := p] \<rparr>) else Inl IndexOutOfBounds)"

definition map_sender :: "(Sender \<Rightarrow> Sender) \<Rightarrow> ('c, 'a) Duel_scheme \<Rightarrow> ('c, 'a) Duel_scheme" where
  "map_sender f d = d \<lparr> d_sender := f (d_sender d) \<rparr>"

definition map_core :: "('c Core \<Rightarrow> 'c Core) \<Rightarrow> ('c, 'a) Duel_scheme \<Rightarrow> ('c, 'a) Duel_scheme" where
  "map_core f d = d \<lparr> d_core := f (d_core d) \<rparr>"

definition get_lflist_by_hash :: "LFList list \<Rightarrow> u32 \<Rightarrow> LFList option" where
  "get_lflist_by_hash ls h = find (\<lambda>l. lf_hash l = h) ls"

definition EMPTY_LFLIST :: LFList where
  "EMPTY_LFLIST = LFList_new []"

definition room_lflist :: "'c env \<Rightarrow> ('c, 'a) Duel_scheme \<Rightarrow> LFList" where
  "room_lflist env d =
     (case get_lflist_by_hash (env_lflists env) (hi_lflist (d_host_info d)) of
        Some l \<Rightarrow> l
      | None \<Rightarrow> EMPTY_LFLIST)"

section \<open>The replay\<close>

definition create_replay :: "'c env \<Rightarrow> ('c, 'a) Duel_scheme \<Rightarrow> Replay option" where
  "create_replay env d =
     (let info = d_host_info d; tag = (hi_mode info = Mode_Tag) in
      case (get_player d 0, get_player d (if tag then 3 else 1),
            if tag then get_player d 1 else None, if tag then get_player d 2 else None) of
        (Some host, Some client, tag_host, tag_client) \<Rightarrow>
          if tag \<and> (tag_host = None \<or> tag_client = None) then None
          else Some (Replay_fill_data_size
            \<lparr> rp_header =
                \<lparr> rh_id = ReplayVersion_V2, rh_version = ucast (env_version env),
                  rh_flag = RHF_bits RHF_Uniform OR RHF_bits RHF_Compressed OR (if tag then RHF_bits RHF_Tag else 0),
                  rh_seed = 0, rh_data_size = 0, rh_start_time = d_start_time d,
                  rh_props = [93, 0, 0, 128, 0, 0, 0, 0], rh_seed_sequence = core_seed (d_core d),
                  rh_header_version = 1, rh_reserved = replicate 3 0 \<rparr>,
              rp_body =
                \<lparr> rb_host_name = dp_name host, rb_tag_host_name = map_option dp_name tag_host,
                  rb_tag_client_name = map_option dp_name tag_client, rb_client_name = dp_name client,
                  rb_start_lp = hi_start_lp info, rb_start_hand = ucast (hi_start_hand info),
                  rb_draw_count = ucast (hi_draw_count info),
                  rb_duel_options = (if hi_no_shuffle_deck info then DO_bits DO_PseudoShuffle else 0) OR
                    (if tag then DO_bits DO_TagMode else 0),
                  rb_duel_rule = ucast (MasterRule_repr (hi_duel_rule info)),
                  rb_host_deck = ReplayDeck_from_Deck (dp_deck host),
                  rb_tag_host_deck = map_option (ReplayDeck_from_Deck \<circ> dp_deck) tag_host,
                  rb_client_deck = ReplayDeck_from_Deck (dp_deck client),
                  rb_tag_client_deck = map_option (ReplayDeck_from_Deck \<circ> dp_deck) tag_client,
                  rb_datas = d_client_responses d \<rparr> \<rparr>)
      | _ \<Rightarrow> None)"

section \<open>Queries\<close>

definition Query_all :: u32 where
  "Query_all = foldr (\<lambda>q s. Query_bits q OR s) query_order 0"

definition every_one_want_this_query :: u32 where
  "every_one_want_this_query =
     foldr (\<lambda>q s. Query_bits q OR s)
       [Query_Code, Query_Position, Query_Alias, Query_Type, Query_Level, Query_Rank, Query_Attribute, Query_Race,
        Query_Attack, Query_Defense, Query_BaseAttack, Query_BaseDefense, Query_Reason] 0"

definition default_query :: "u8 \<Rightarrow> u32" where
  "default_query location =
     (if location = Location_bits Location_Extra
      then Query_bits Query_Link OR Query_bits Query_LeftScale OR Query_bits Query_RightScale OR
        Query_bits Query_Status OR every_one_want_this_query
      else if location = Location_bits Location_Grave \<or> location = Location_bits Location_Removed
      then Query_bits Query_Status OR every_one_want_this_query
      else if location = Location_bits Location_Hand \<or> location = Location_bits Location_SZone
      then Query_bits Query_LeftScale OR Query_bits Query_RightScale OR Query_bits Query_Status OR every_one_want_this_query
      else if location = Location_bits Location_MZone
      then Query_bits Query_Link OR Query_bits Query_Status OR every_one_want_this_query
      else Query_all)"

text \<open>The length the engine returns is a signed number that is cast to an index.\<close>

definition usize_of_i32 :: "i32 \<Rightarrow> nat" where
  "usize_of_i32 n = unat (scast n :: u64)"

definition slice_to :: "bytes \<Rightarrow> nat \<Rightarrow> bytes res" where
  "slice_to buf n = (if n \<le> length buf then Inr (take n buf) else Inl IndexOutOfBounds)"

text \<open>The cards of a location are read until reading fails, for whatever reason. A card that does not
  advance the cursor is read forever.\<close>

function read_cards :: "bytes \<Rightarrow> UpdateCardInfo list res" where
  "read_cards bs =
     (case e_UpdateCardInfo bs of
        Inl e \<Rightarrow> Inr []
      | Inr (x, r) \<Rightarrow>
          if length bs \<le> length r then Inl Diverges
          else and_then (read_cards r) (\<lambda>xs. Inr (x # xs)))"
  by pat_completeness auto
termination by (relation "measure length") auto

declare read_cards.simps [simp del]

definition query_location_cards ::
  "'c env \<Rightarrow> CorePlayer \<Rightarrow> u8 \<Rightarrow> u32 \<Rightarrow> ('c, 'a) Duel_scheme \<Rightarrow> (gm_Message \<times> ('c, 'a) Duel_scheme) res" where
  "query_location_cards env p location query d =
     (case Core_query_field_card (env_api env) p location query (d_core_request_buffer d) (d_core d) of
        (n, buf, core) \<Rightarrow>
          and_then (slice_to buf (usize_of_i32 n)) (\<lambda>bs.
          and_then (read_cards bs) (\<lambda>cards. Inr
            (GM_UpdateData \<lparr> gm_UpdateData_player = p, gm_UpdateData_location = location,
               gm_UpdateData_data = cards \<rparr>,
             d \<lparr> d_core := core, d_core_request_buffer := buf \<rparr>))))"

text \<open>Iterating over a bit set visits its named constants that add a bit not seen yet, in their order,
  and then what is left. The eight locations cover every bit, and the constant of two bits adds none.\<close>

definition Location_iter :: "u8 \<Rightarrow> u8 list" where
  "Location_iter ls =
     filter (\<lambda>b. contains ls b)
       (map Location_bits [Location_Deck, Location_Hand, Location_MZone, Location_SZone, Location_Grave,
          Location_Removed, Location_Extra, Location_Overlay])"

fun refresh_locations ::
  "'c env \<Rightarrow> u32 \<Rightarrow> (CorePlayer \<times> u8) list \<Rightarrow> ('c, 'a) Duel_scheme \<Rightarrow> (gm_Message list \<times> ('c, 'a) Duel_scheme) res" where
    "refresh_locations env query [] d = Inr ([], d)"
  | "refresh_locations env query ((p, l) # pls) d =
       and_then (query_location_cards env p l (if query = 0 then default_query l else query) d) (\<lambda>(m, d').
       and_then (refresh_locations env query pls d') (\<lambda>(ms, d''). Inr (m # ms, d'')))"

definition refresh_location ::
  "'c env \<Rightarrow> CorePlayer \<Rightarrow> u8 \<Rightarrow> u32 \<Rightarrow> ('c, 'a) Duel_scheme \<Rightarrow> (gm_Message list \<times> ('c, 'a) Duel_scheme) res" where
  "refresh_location env p locations query =
     refresh_locations env query
       (List.product (if p = AllPlayers then [FirstAttackPlayer, SecondAttackPlayer] else [p]) (Location_iter locations))"

definition refresh_card ::
  "'c env \<Rightarrow> CorePlayer \<Rightarrow> u8 \<Rightarrow> i8 \<Rightarrow> u32 \<Rightarrow> ('c, 'a) Duel_scheme \<Rightarrow> (gm_Message \<times> ('c, 'a) Duel_scheme) res" where
  "refresh_card env p location sequence query d =
     (case Core_query_card (env_api env) p location sequence (if query = 0 then 0xf81fff else query)
             (d_core_request_buffer d) (d_core d) of
        (n, buf, core) \<Rightarrow>
          and_then (slice_to buf (usize_of_i32 n)) (\<lambda>bs. Inr
            (GM_UpdateCard \<lparr> gm_UpdateCard_position =
                \<lparr> cp_code = CardCode_new, cp_controller = p, cp_location = location, cp_sequence = sequence,
                  cp_sub_sequence = 0, cp_description = 0 \<rparr>,
              gm_UpdateCard_data = (case e_UpdateCardInfo bs of Inl e \<Rightarrow> UC_Empty | Inr (x, r) \<Rightarrow> x) \<rparr>,
             d \<lparr> d_core := core, d_core_request_buffer := buf \<rparr>)))"

section \<open>Messages of the engine\<close>

text \<open>Who sees the message as it is: one answer for each position at the table; the judge looks the
  position of a recipient up, which panics for a position beyond the table, and denies everybody
  else.\<close>

definition can_see :: "Transformer \<Rightarrow> gm_Message \<Rightarrow> nat \<Rightarrow> bool list" where
  "can_see tr m n = map (\<lambda>i. \<not> gm_should_mask m (tr_to_core tr (Player (of_nat i)))) [0 ..< n mod 256]"

fun mask_judger :: "bool list \<Rightarrow> Netplayer \<Rightarrow> bool res" where
    "mask_judger sees (Player i) = index sees (unat i)"
  | "mask_judger sees _ = Inr False"

definition send_game_message ::
  "gm_Message \<Rightarrow> SendTarget \<Rightarrow> Transformer \<Rightarrow> ('c, 'a) Duel_scheme \<Rightarrow> ('c, 'a) Duel_scheme res" where
  "send_game_message m target tr d =
     (let d' = (if gm_waiting_for m \<noteq> None then d \<lparr> d_last_select_message := Some m \<rparr> else d) in
      if d_no_mask d'
      then Inr (send (Stoc_GameMessage m) (case target of To_Core p \<Rightarrow> tr_transform tr p | _ \<Rightarrow> target) d')
      else and_then
        (Sender_send_game_message m target (mask_judger (can_see tr m (d_max_player_count d'))) tr (d_sender d'))
        (\<lambda>s. Inr (d' \<lparr> d_sender := s \<rparr>)))"

fun send_all :: "gm_Message list \<Rightarrow> Transformer \<Rightarrow> ('c, 'a) Duel_scheme \<Rightarrow> ('c, 'a) Duel_scheme res" where
    "send_all [] tr d = Inr d"
  | "send_all (m # ms) tr d = and_then (send_game_message m To_All tr d) (send_all ms tr)"

definition refresh ::
  "'c env \<Rightarrow> CorePlayer \<Rightarrow> u8 \<Rightarrow> i8 \<Rightarrow> u32 \<Rightarrow> Transformer \<Rightarrow> ('c, 'a) Duel_scheme \<Rightarrow> ('c, 'a) Duel_scheme res" where
  "refresh env p locations sequence query tr d =
     (if 0 \<le> sint sequence
      then and_then (refresh_card env p locations sequence query d) (\<lambda>(m, d'). send_game_message m To_All tr d')
      else and_then (refresh_location env p locations query d) (\<lambda>(ms, d'). send_all ms tr d'))"

text \<open>Whether an answer of a player is one to the prompt it was last given.\<close>

definition response_is_meaningful :: "PlayerResponse \<Rightarrow> gm_Message \<Rightarrow> bool" where
  "response_is_meaningful r select =
     (let t = gm_type select in
      if t = gm_T_Retry then False
      else case (case r of
                   R_Unknown data \<Rightarrow> (case PlayerResponse_resolve t r of None \<Rightarrow> r | Some r' \<Rightarrow> r')
                 | _ \<Rightarrow> r) of
             R_Cancel \<Rightarrow> t \<noteq> gm_T_SelectUnselectCard
           | R_DeclineChain \<Rightarrow> False
           | R_SelectUnselectCards i \<Rightarrow> False
           | R_SelectIdleCommand c i \<Rightarrow> IdleCommand_repr c \<le> IdleCommand_repr IdleCommand_Activate
           | R_SelectBattleCommand c i \<Rightarrow> BattleCommand_repr c \<le> BattleCommand_repr BattleCommand_Attack
           | _ \<Rightarrow> True)"

end
