(* ===== verification/Handler.thy ===== *)
theory Handler
  imports Prelude
begin

text \<open>
  The handler framework (ygopro-handler): the response a handler returns and how responses combine,
  the bundle handed along a chain of handlers, the chain itself, and the processor that registers
  handlers by message key, merges the global handlers into every list and dispatches a message.

  A handler is the function its wrapper calls: it gets the bundle, may change it, and returns a
  response, or none when one of its parameters cannot be extracted. It may panic. The processor
  sorts with an unstable sort, whose result is any list that is sorted by priority and holds the
  same handlers; the sort is a parameter.
\<close>

section \<open>Responses\<close>

datatype 'm Response =
    Continue | Replace 'm | ReplaceMultiple "'m list" | Swallow | Terminate | Kick

fun Response_mul :: "'m Response \<Rightarrow> 'm Response \<Rightarrow> 'm Response" where
    "Response_mul Continue other = other"
  | "Response_mul other Continue = other"
  | "Response_mul Kick _ = Kick"
  | "Response_mul _ Kick = Kick"
  | "Response_mul Terminate _ = Terminate"
  | "Response_mul _ Terminate = Terminate"
  | "Response_mul Swallow _ = Swallow"
  | "Response_mul _ Swallow = Swallow"
  | "Response_mul (Replace a) (Replace b) = ReplaceMultiple [a, b]"
  | "Response_mul (Replace a) (ReplaceMultiple bs) = ReplaceMultiple (a # bs)"
  | "Response_mul (ReplaceMultiple as) (Replace b) = ReplaceMultiple (as @ [b])"
  | "Response_mul (ReplaceMultiple as) (ReplaceMultiple bs) = ReplaceMultiple (as @ bs)"

definition Response_default :: "'m Response" where
  "Response_default = Continue"

fun Response_map :: "('m \<Rightarrow> 'n) \<Rightarrow> 'm Response \<Rightarrow> 'n Response" where
    "Response_map f Continue = Continue"
  | "Response_map f (Replace m) = Replace (f m)"
  | "Response_map f (ReplaceMultiple ms) = ReplaceMultiple (map f ms)"
  | "Response_map f Swallow = Swallow"
  | "Response_map f Terminate = Terminate"
  | "Response_map f Kick = Kick"

text \<open>The values a handler may return instead of a response.\<close>

definition into_response_message :: "'m \<Rightarrow> 'm Response" where
  "into_response_message m = Replace m"

definition into_response_unit :: "unit \<Rightarrow> 'm Response" where
  "into_response_unit u = Continue"

definition into_response_vec :: "'m list \<Rightarrow> 'm Response" where
  "into_response_vec ms = ReplaceMultiple ms"

definition into_response_bool :: "bool \<Rightarrow> 'm Response" where
  "into_response_bool b = (if b then Terminate else Continue)"

definition into_response_str :: "str \<Rightarrow> 'm Response" where
  "into_response_str s =
     (if s = lit ''continue'' then Continue
      else if s = lit ''terminate'' then Terminate
      else if s = lit ''kick'' then Kick
      else if s = lit ''cancel'' \<or> s = lit ''_cancel'' then Swallow
      else Continue)"

fun into_response_option :: "('a \<Rightarrow> 'm Response) \<Rightarrow> 'a option \<Rightarrow> 'm Response" where
    "into_response_option f (Some v) = f v"
  | "into_response_option f None = Continue"

fun into_response_result :: "('a \<Rightarrow> 'm Response) \<Rightarrow> ('b \<Rightarrow> 'm Response) \<Rightarrow> 'b + 'a \<Rightarrow> 'm Response" where
    "into_response_result f g (Inr v) = f v"
  | "into_response_result f g (Inl e) = g e"

section \<open>Handlers and chains\<close>

record ('req, 'st, 'r) Bundle =
  request :: 'req
  response :: 'r
  stop_flag :: bool
  state :: 'st

definition Bundle_new :: "'req \<Rightarrow> 'st \<Rightarrow> 'r \<Rightarrow> ('req, 'st, 'r) Bundle" where
  "Bundle_new req st res = \<lparr> request = req, response = res, stop_flag = False, state = st \<rparr>"

record ('req, 'st, 'r) Handler =
  h_priority :: u8
  h_name :: str
  h_module :: str
  h_run :: "('req, 'st, 'r) Bundle \<Rightarrow> (('req, 'st, 'r) Bundle \<times> 'r option) res"

definition call ::
  "('r \<Rightarrow> 'r \<Rightarrow> 'r) \<Rightarrow> ('req, 'st, 'r) Handler \<Rightarrow> ('req, 'st, 'r) Bundle \<Rightarrow> ('req, 'st, 'r) Bundle res" where
  "call mul h b = and_then (h_run h b) (\<lambda>(b', r). Inr
     (case r of None \<Rightarrow> b' | Some res \<Rightarrow> b' \<lparr> response := mul (response b') res \<rparr>))"

fun run_chain ::
  "('r \<Rightarrow> 'r \<Rightarrow> 'r) \<Rightarrow> ('req, 'st, 'r) Handler list \<Rightarrow> ('req, 'st, 'r) Bundle \<Rightarrow> ('req, 'st, 'r) Bundle res" where
    "run_chain mul [] b = Inr b"
  | "run_chain mul (h # hs) b =
       and_then (call mul h b) (\<lambda>b'. if stop_flag b' then Inr b' else run_chain mul hs b')"

section \<open>The processor\<close>

record ('k, 'h) Processor =
  p_handlers :: "('k, 'h list) hmap"
  p_globals :: "'h list"

definition Processor_new :: "('k, 'h) Processor" where
  "Processor_new = \<lparr> p_handlers = [], p_globals = [] \<rparr>"

definition register :: "'k \<Rightarrow> 'h \<Rightarrow> ('k, 'h) Processor \<Rightarrow> ('k, 'h) Processor" where
  "register k h p = p \<lparr> p_handlers := hmap_insert k (get_or [] (p_handlers p) k @ [h]) (p_handlers p) \<rparr>"

definition register_global :: "'h \<Rightarrow> ('k, 'h) Processor \<Rightarrow> ('k, 'h) Processor" where
  "register_global h p = p \<lparr> p_globals := p_globals p @ [h] \<rparr>"

definition resolve_globals :: "('h list \<Rightarrow> 'h list) \<Rightarrow> 'h list \<Rightarrow> ('k, 'h list) hmap \<Rightarrow> ('k, 'h list) hmap" where
  "resolve_globals srt globals = map (\<lambda>(k, hs). (k, srt (hs @ globals)))"

definition resolve :: "('h list \<Rightarrow> 'h list) \<Rightarrow> ('k, 'h) Processor \<Rightarrow> ('k, 'h) Processor" where
  "resolve srt p = p \<lparr> p_handlers := resolve_globals srt (p_globals p) (p_handlers p) \<rparr>"

text \<open>The builders of a processor give a key and a handler each; an empty set of groups admits every
  handler.\<close>

definition admitted :: "str list \<Rightarrow> ('h \<Rightarrow> str) \<Rightarrow> 'h \<Rightarrow> bool" where
  "admitted groups group_of h \<longleftrightarrow> groups = [] \<or> group_of h \<in> set groups"

definition add_builder ::
  "str list \<Rightarrow> ('h \<Rightarrow> str) \<Rightarrow> ('k \<Rightarrow> bool) \<Rightarrow> 'k \<times> 'h \<Rightarrow> ('k, 'h) Processor \<Rightarrow> ('k, 'h) Processor" where
  "add_builder groups group_of is_all = (\<lambda>(k, h) p.
     if \<not> admitted groups group_of h then p
     else if is_all k then register_global h p else register k h p)"

definition new_with_groups ::
  "('h list \<Rightarrow> 'h list) \<Rightarrow> ('k \<times> 'h) list \<Rightarrow> str list \<Rightarrow> ('h \<Rightarrow> str) \<Rightarrow> ('k \<Rightarrow> bool) \<Rightarrow> ('k, 'h) Processor" where
  "new_with_groups srt builders groups group_of is_all =
     resolve srt (fold (add_builder groups group_of is_all) builders Processor_new)"

definition extend_entry :: "'k \<times> 'h list \<Rightarrow> ('k, 'h list) hmap \<Rightarrow> ('k, 'h list) hmap" where
  "extend_entry = (\<lambda>(k, hs) m. hmap_insert k (get_or [] m k @ hs) m)"

definition extend :: "('k, 'h) Processor \<Rightarrow> ('k, 'h) Processor \<Rightarrow> ('k, 'h) Processor" where
  "extend source p =
     \<lparr> p_handlers = fold extend_entry (p_handlers source) (p_handlers p),
       p_globals = p_globals p @ p_globals source \<rparr>"

definition new_with_dual_group ::
  "('h list \<Rightarrow> 'h list) \<Rightarrow> ('k \<times> 'h) list \<Rightarrow> ('k \<times> 'h) list \<Rightarrow> str list \<Rightarrow> ('h \<Rightarrow> str) \<Rightarrow> ('h \<Rightarrow> str)
   \<Rightarrow> ('k \<Rightarrow> bool) \<Rightarrow> ('k, 'h) Processor" where
  "new_with_dual_group srt target_builders source_builders groups target_group_of source_group_of is_all =
     resolve srt (extend (fold (add_builder groups source_group_of is_all) source_builders Processor_new)
                    (fold (add_builder groups target_group_of is_all) target_builders Processor_new))"

definition handlers_for :: "('k, 'h) Processor \<Rightarrow> 'k \<Rightarrow> 'h list" where
  "handlers_for p k = (case hmap_get (p_handlers p) k of None \<Rightarrow> p_globals p | Some hs \<Rightarrow> hs)"

definition process_bundle ::
  "('r \<Rightarrow> 'r \<Rightarrow> 'r) \<Rightarrow> ('k, ('req, 'st, 'r) Handler) Processor \<Rightarrow> ('req, 'st, 'r) Bundle \<Rightarrow> 'k
   \<Rightarrow> ('req, 'st, 'r) Bundle res" where
  "process_bundle mul p b k = run_chain mul (handlers_for p k) b"

definition handler_count :: "('k, 'h) Processor \<Rightarrow> nat" where
  "handler_count p = sum_list (map (length \<circ> snd) (p_handlers p)) + length (p_globals p)"

text \<open>The statistics by module. The subtraction is on unsigned integers and cannot underflow: a
  module's handlers in the lists include a copy of each of its globals per list.\<close>

definition drop_copies :: "nat \<Rightarrow> str \<times> nat \<Rightarrow> (str, nat) hmap \<Rightarrow> (str, nat) hmap" where
  "drop_copies lists' = (\<lambda>(m, n) counts.
     case hmap_get counts m of
       None \<Rightarrow> counts
     | Some c \<Rightarrow> hmap_insert m (c - n * (lists' - 1)) counts)"

definition handler_statistics :: "('h \<Rightarrow> str) \<Rightarrow> ('k, 'h) Processor \<Rightarrow> (str, nat) hmap" where
  "handler_statistics module_of p =
     (let counts = fold bump (concat (map (map module_of \<circ> snd) (p_handlers p))) [];
          globals = fold bump (map module_of (p_globals p)) []
      in fold (drop_copies (length (p_handlers p))) globals counts)"

section \<open>Lemmas\<close>

lemma Response_mul_Continue [simp]: "Response_mul r Continue = r"
  by (cases r) auto

lemma Response_mul_assoc:
  "Response_mul (Response_mul a b) c = Response_mul a (Response_mul b c)"
  by (cases a; cases b; cases c) simp_all

lemma Response_map_mul: "Response_map f (Response_mul a b) = Response_mul (Response_map f a) (Response_map f b)"
  by (cases a; cases b) simp_all

fun severity :: "'m Response \<Rightarrow> nat" where
    "severity Continue = 0"
  | "severity (Replace m) = 1"
  | "severity (ReplaceMultiple ms) = 1"
  | "severity Swallow = 2"
  | "severity Terminate = 3"
  | "severity Kick = 4"

lemma severity_mul: "severity (Response_mul a b) = max (severity a) (severity b)"
  by (cases a; cases b) simp_all

lemma run_chain_append:
  "\<not> stop_flag b \<Longrightarrow> run_chain mul (xs @ ys) b =
     and_then (run_chain mul xs b) (\<lambda>b'. if stop_flag b' then Inr b' else run_chain mul ys b')"
proof (induction xs arbitrary: b)
  case (Cons h xs)
  show ?case
  proof (cases "call mul h b")
    case (Inr b')
    then show ?thesis using Cons.IH by simp
  qed simp
qed simp

section \<open>The sort by priority\<close>

locale priority_sort =
  fixes srt :: "'h list \<Rightarrow> 'h list" and prio :: "'h \<Rightarrow> u8"
  assumes mset_srt: "mset (srt hs) = mset hs" and sorted_srt: "sorted (map prio (srt hs))"
begin

lemma set_srt [simp]: "set (srt hs) = set hs"
  by (rule mset_eq_setD [OF mset_srt])

lemma length_srt [simp]: "length (srt hs) = length hs"
  by (rule mset_eq_length [OF mset_srt])

lemma srt_Nil [simp]: "srt [] = []"
  using mset_srt [of "[]"] by simp

lemma lower_first:
  assumes "prio a < prio b" and "a \<in> set hs" and "b \<in> set hs"
  shows "\<exists>xs ys. srt hs = xs @ ys \<and> a \<in> set xs \<and> b \<in> set ys \<and> (\<forall>x \<in> set xs. prio x \<le> prio a)"
proof -
  define xs where "xs = takeWhile (\<lambda>h. prio h \<le> prio a) (srt hs)"
  define ys where "ys = dropWhile (\<lambda>h. prio h \<le> prio a) (srt hs)"
  have split: "srt hs = xs @ ys" by (simp add: xs_def ys_def)
  have ys: "\<forall>y \<in> set ys. \<not> prio y \<le> prio a"
  proof (cases ys)
    case (Cons y rest)
    then have "\<not> prio y \<le> prio a" by (metis hd_dropWhile list.discI list.sel(1) ys_def)
    moreover have "sorted (map prio ys)" using sorted_srt [of hs] by (simp add: split sorted_append)
    ultimately show ?thesis using Cons by fastforce
  qed simp
  have "a \<in> set xs" using assms(2) ys split by (metis Un_iff order_refl set_append set_srt)
  moreover have xs: "\<forall>x \<in> set xs. prio x \<le> prio a" by (auto simp: xs_def dest: set_takeWhileD)
  moreover have "b \<in> set ys" using assms(1,3) xs split by (metis Un_iff not_less set_append set_srt)
  ultimately show ?thesis using split by blast
qed

end

interpretation stable_sort: priority_sort "sort_key h_priority" "h_priority :: ('req, 'st, 'r) Handler \<Rightarrow> u8"
  by unfold_locales simp_all

section \<open>What a processor dispatches to\<close>

definition keyed :: "str list \<Rightarrow> ('h \<Rightarrow> str) \<Rightarrow> ('k \<Rightarrow> bool) \<Rightarrow> ('k \<times> 'h) list \<Rightarrow> 'k \<Rightarrow> 'h list" where
  "keyed groups group_of is_all builders k =
     map snd (filter (\<lambda>(k', h). admitted groups group_of h \<and> \<not> is_all k' \<and> k' = k) builders)"

definition unkeyed :: "str list \<Rightarrow> ('h \<Rightarrow> str) \<Rightarrow> ('k \<Rightarrow> bool) \<Rightarrow> ('k \<times> 'h) list \<Rightarrow> 'h list" where
  "unkeyed groups group_of is_all builders =
     map snd (filter (\<lambda>(k', h). admitted groups group_of h \<and> is_all k') builders)"

definition proper :: "('k, 'h) Processor \<Rightarrow> bool" where
  "proper p \<longleftrightarrow> wf_hmap (p_handlers p) \<and> (\<forall>(k, hs) \<in> set (p_handlers p). hs \<noteq> [])"

lemma hmap_get_iff_get_or:
  "proper p \<Longrightarrow> hmap_get (p_handlers p) k =
     (if get_or [] (p_handlers p) k = [] then None else Some (get_or [] (p_handlers p) k))"
  by (fastforce simp: get_or.simps proper_def split: option.splits dest: map_of_SomeD)

lemma proper_insert: "proper p \<Longrightarrow> hs \<noteq> [] \<Longrightarrow> proper (p \<lparr> p_handlers := hmap_insert k hs (p_handlers p) \<rparr>)"
  unfolding proper_def by (auto dest!: set_hmap_insert)

lemma proper_new [simp]: "proper Processor_new"
  by (simp add: proper_def Processor_new_def)

lemma proper_add_builder: "proper p \<Longrightarrow> proper (add_builder groups group_of is_all b p)"
  using proper_insert [of p "get_or [] (p_handlers p) (fst b) @ [snd b]" "fst b"]
  by (cases b) (simp add: add_builder_def register_def register_global_def proper_def)

lemma add_builders:
  assumes "proper p"
  shows "proper (fold (add_builder groups group_of is_all) bs p) \<and>
     get_or [] (p_handlers (fold (add_builder groups group_of is_all) bs p)) k
       = get_or [] (p_handlers p) k @ keyed groups group_of is_all bs k \<and>
     p_globals (fold (add_builder groups group_of is_all) bs p) = p_globals p @ unkeyed groups group_of is_all bs"
  using assms
proof (induction bs arbitrary: p)
  case (Cons b bs)
  from Cons.IH [OF proper_add_builder [OF Cons.prems, of groups group_of is_all b]] show ?case
    by (cases b) (simp add: keyed_def unkeyed_def add_builder_def register_def register_global_def)
qed (simp add: keyed_def unkeyed_def)

lemma extend_entries:
  assumes "wf_hmap src"
  shows "get_or [] (fold extend_entry src m) k = get_or [] m k @ get_or [] src k"
  using assms
proof (induction src arbitrary: m)
  case (Cons e src)
  then show ?case
    by (cases e) (auto simp: extend_entry_def wf_hmap_def get_or.simps [of "[]" "_ # _"]
        get_or.simps [of "[]" src] map_of_eq_None_iff split: option.split dest: map_of_SomeD intro: rev_image_eqI)
qed simp

lemma proper_extend_entries:
  "wf_hmap m \<Longrightarrow> \<forall>(k, hs) \<in> set m. hs \<noteq> [] \<Longrightarrow> \<forall>(k, hs) \<in> set es. hs \<noteq> [] \<Longrightarrow>
   wf_hmap (fold extend_entry es m) \<and> (\<forall>(k, hs) \<in> set (fold extend_entry es m). hs \<noteq> [])"
proof (induction es arbitrary: m)
  case (Cons e es)
  obtain k hs where e: "e = (k, hs)" by (cases e)
  let ?m = "extend_entry e m"
  have "wf_hmap ?m" using Cons.prems(1) by (simp add: e extend_entry_def)
  moreover have "\<forall>(k, hs) \<in> set ?m. hs \<noteq> []"
    using Cons.prems(2,3) by (auto simp: e extend_entry_def dest!: set_hmap_insert)
  ultimately show ?case using Cons.IH [of ?m] Cons.prems(3) by simp
qed simp

lemma proper_extend: "proper p \<Longrightarrow> proper src \<Longrightarrow> proper (extend src p)"
  using proper_extend_entries [of "p_handlers p" "p_handlers src"] by (simp add: proper_def extend_def)

lemma resolve_get:
  "hmap_get (p_handlers (resolve srt p)) k = map_option (\<lambda>hs. srt (hs @ p_globals p)) (hmap_get (p_handlers p) k)"
  by (simp add: resolve_def resolve_globals_def map_of_map comp_def)

lemma handlers_for_resolve:
  assumes "proper p"
  shows "handlers_for (resolve srt p) k =
    (let hs = get_or [] (p_handlers p) k in if hs = [] then p_globals p else srt (hs @ p_globals p))"
  using hmap_get_iff_get_or [OF assms, of k]
  by (simp add: handlers_for_def resolve_get Let_def) (simp add: resolve_def)

lemma new_with_groups_handlers_for:
  "handlers_for (new_with_groups srt bs groups group_of is_all) k =
     (let hs = keyed groups group_of is_all bs k; gs = unkeyed groups group_of is_all bs in
      if hs = [] then gs else srt (hs @ gs))"
  using add_builders [OF proper_new, of groups group_of is_all bs k]
  by (auto simp: new_with_groups_def handlers_for_resolve Processor_new_def Let_def)

lemma new_with_dual_group_handlers_for:
  "handlers_for (new_with_dual_group srt ts ss groups tg sg is_all) k =
     (let hs = keyed groups tg is_all ts k @ keyed groups sg is_all ss k;
          gs = unkeyed groups tg is_all ts @ unkeyed groups sg is_all ss in
      if hs = [] then gs else srt (hs @ gs))"
proof -
  let ?t = "fold (add_builder groups tg is_all) ts Processor_new"
  let ?s = "fold (add_builder groups sg is_all) ss Processor_new"
  note t = add_builders [OF proper_new, of groups tg is_all ts k]
  note s = add_builders [OF proper_new, of groups sg is_all ss k]
  have "get_or [] (p_handlers (extend ?s ?t)) k = keyed groups tg is_all ts k @ keyed groups sg is_all ss k"
    using t s by (simp add: extend_def extend_entries proper_def Processor_new_def)
  moreover have "p_globals (extend ?s ?t) = unkeyed groups tg is_all ts @ unkeyed groups sg is_all ss"
    using t s by (simp add: extend_def Processor_new_def)
  moreover have "proper (extend ?s ?t)" using t s proper_extend by blast
  ultimately show ?thesis
    by (simp add: new_with_dual_group_def handlers_for_resolve Let_def)
qed

text \<open>A handler that leaves the response to its return value.\<close>

definition returns_only :: "('req, 'st, 'r) Handler \<Rightarrow> bool" where
  "returns_only h \<longleftrightarrow> (\<forall>b b' r. h_run h b = Inr (b', r) \<longrightarrow> response b' = response b)"

lemma call_severity:
  "returns_only h \<Longrightarrow> call Response_mul h b = Inr b' \<Longrightarrow> severity (response b) \<le> severity (response b')"
proof -
  assume h: "returns_only h" and "call Response_mul h b = Inr b'"
  then obtain c r where r: "h_run h b = Inr (c, r)"
    and b': "b' = (case r of None \<Rightarrow> c | Some res \<Rightarrow> c \<lparr> response := Response_mul (response c) res \<rparr>)"
    by (auto simp: call_def)
  have "response c = response b" using h r unfolding returns_only_def by blast
  then show "severity (response b) \<le> severity (response b')"
    by (cases r) (simp_all add: b' severity_mul)
qed

lemma run_chain_severity:
  "\<forall>h \<in> set hs. returns_only h \<Longrightarrow> run_chain Response_mul hs b = Inr b' \<Longrightarrow> severity (response b) \<le> severity (response b')"
proof (induction hs arbitrary: b)
  case (Cons h hs)
  from Cons.prems(2) obtain c where c: "call Response_mul h b = Inr c"
    and rest: "(if stop_flag c then Inr c else run_chain Response_mul hs c) = Inr b'" by auto
  have "severity (response b) \<le> severity (response c)" using c Cons.prems(1) by (intro call_severity) simp_all
  moreover have "severity (response c) \<le> severity (response b')"
    using Cons.IH [of c] Cons.prems(1) rest by (auto split: if_splits)
  ultimately show ?case by simp
qed simp

subsection \<open>Statistics\<close>

lemma count_fold_bump:
  "get_or 0 (fold bump ks (m :: ('k, nat) hmap)) k = get_or 0 m k + count_list ks k"
  by (induction ks arbitrary: m) (auto simp: bump_def)

lemma keys_fold_bump:
  "hmap_get (fold bump ks (m :: ('k, nat) hmap)) k = None \<longleftrightarrow> hmap_get m k = None \<and> k \<notin> set ks"
  by (induction ks arbitrary: m) (auto simp: bump_def hmap_get_insert)

lemma wf_fold_bump: "wf_hmap m \<Longrightarrow> wf_hmap (fold bump ks m)"
  by (induction ks arbitrary: m) (auto simp: bump_def)

lemma drop_copies_get:
  "hmap_get (drop_copies n (m, g) counts) k =
     (if k = m then map_option (\<lambda>c. c - g * (n - 1)) (hmap_get counts k) else hmap_get counts k)"
  by (auto simp: drop_copies_def hmap_get_insert split: option.split)

lemma fold_drop_copies_get:
  "wf_hmap gs \<Longrightarrow> hmap_get (fold (drop_copies n) gs counts) k =
     map_option (\<lambda>c. c - get_or 0 gs k * (n - 1)) (hmap_get counts k)"
proof (induction gs arbitrary: counts)
  case (Cons e gs)
  obtain m g where e: "e = (m, g)" by (cases e)
  have wf: "wf_hmap gs" and fresh: "map_of gs m = None"
    using Cons.prems by (auto simp: wf_hmap_def e map_of_eq_None_iff)
  show ?case
    using Cons.IH [OF wf, of "drop_copies n e counts"] fresh
    by (auto simp: e drop_copies_get get_or.simps option.map_comp comp_def split: option.split)
qed (simp add: get_or.simps option.map_ident)

lemma count_list_concat: "count_list (concat xss) k = sum_list (map (\<lambda>xs. count_list xs k) xss)"
  by (induction xss) auto

lemma sum_list_add_const: "sum_list (map (\<lambda>x. f x + c) xs) = sum_list (map f xs) + length xs * (c :: nat)"
  by (induction xs) auto

section \<open>Properties\<close>

text \<open>Responses combine like the elements of a monoid graded by severity: the product is
  associative, Continue is its unit on both sides, the more severe of two responses wins (Kick over
  Terminate over Swallow over a replacement), and two replacements are concatenated in order.\<close>

theorem Response_monoid:
  "Response_mul (Response_mul a b) c = Response_mul a (Response_mul b c) \<and>
   Response_mul Continue a = a \<and> Response_mul a Continue = a \<and>
   severity (Response_mul a b) = max (severity a) (severity b) \<and>
   Response_mul (ReplaceMultiple ms) (ReplaceMultiple ns) = ReplaceMultiple (ms @ ns)"
  by (simp add: Response_mul_assoc severity_mul)


text \<open>A chain cannot lower the severity of a response: when its handlers leave the response to
  their return values, what an earlier handler or the caller decided (to kick, to terminate, to
  swallow the message) is never undone by a later handler.\<close>

theorem process_bundle_severity:
  assumes "\<forall>h \<in> set (handlers_for p k). returns_only h" and "process_bundle Response_mul p b k = Inr b'"
  shows "severity (response b) \<le> severity (response b')"
  using run_chain_severity assms unfolding process_bundle_def by blast

text \<open>A handler that sets the stop flag ends the chain: the handlers after it do not run,
  whatever they are.\<close>

theorem stop_flag_ends_chain:
  assumes "\<not> stop_flag b" and "run_chain mul xs b = Inr b'" and "stop_flag b'"
  shows "run_chain mul (xs @ ys) b = Inr b'"
  using assms by (simp add: run_chain_append)

text \<open>The statistics of a resolved processor count, for every module with a handler in it, the
  handlers the module registered: those under a key and its global handlers, each once.\<close>

theorem handler_statistics_counts:
  fixes p :: "('k, 'h) Processor"
  assumes "priority_sort srt prio" and "p_handlers p \<noteq> []"
  defines "registered \<equiv> concat (map snd (p_handlers p)) @ p_globals p"
  shows "hmap_get (handler_statistics module_of (resolve srt p)) m =
    (if m \<in> module_of ` set registered then Some (count_list (map module_of registered) m) else None)"
proof -
  let ?ks = "concat (map (map module_of \<circ> snd) (p_handlers (resolve srt p)))"
  let ?gs = "map module_of (p_globals p)"
  let ?L = "length (p_handlers p)"
  have list: "count_list (map module_of (srt hs)) m = count_list (map module_of hs) m" for hs
    using arg_cong [OF priority_sort.mset_srt [OF assms(1), of hs], of "image_mset module_of"]
    by (simp add: count_list_mset)
  have ks: "count_list ?ks m = count_list (map module_of (concat (map snd (p_handlers p)))) m + ?L * count_list ?gs m"
    by (simp add: resolve_def resolve_globals_def count_list_concat comp_def case_prod_beta list
        sum_list_add_const map_concat)
  have set: "set ?ks = module_of ` set registered"
    using assms(2) priority_sort.set_srt [OF assms(1)]
    by (cases "p_handlers p") (force simp: resolve_def resolve_globals_def registered_def)+
  have "hmap_get (handler_statistics module_of (resolve srt p)) m =
      map_option (\<lambda>c. c - count_list ?gs m * (?L - 1)) (hmap_get (fold bump ?ks []) m)"
    by (simp add: handler_statistics_def Let_def fold_drop_copies_get wf_fold_bump count_fold_bump)
       (simp add: resolve_def resolve_globals_def)
  moreover have "hmap_get (fold bump ?ks []) m = (if m \<in> set ?ks then Some (count_list ?ks m) else None)"
    using count_fold_bump [of ?ks "[]" m] keys_fold_bump [of ?ks "[]" m]
    by (auto simp: get_or.simps split: option.splits)
  moreover have "count_list ?ks m - count_list ?gs m * (?L - 1) = count_list (map module_of registered) m"
  proof -
    obtain n where "?L = Suc n" using assms(2) by (cases "p_handlers p") auto
    then show ?thesis by (simp add: ks registered_def)
  qed
  ultimately show ?thesis unfolding set by simp
qed

section \<open>Witnesses\<close>

definition sample_handler :: "u8 \<Rightarrow> str \<Rightarrow> bool \<Rightarrow> nat Response option \<Rightarrow> (nat, nat, nat Response) Handler" where
  "sample_handler prio m stop r =
     \<lparr> h_priority = prio, h_name = [], h_module = m,
       h_run = (\<lambda>b. Inr (b \<lparr> stop_flag := stop, state := state b + 1 \<rparr>, r)) \<rparr>"

definition sample_bundle :: "(nat, nat, nat Response) Bundle" where
  "sample_bundle = Bundle_new 0 0 Swallow"

definition sample_builders :: "(nat \<times> (nat, nat, nat Response) Handler) list" where
  "sample_builders = [(1, sample_handler 129 [1] False None), (0, sample_handler 7 [1] False (Some Kick)),
     (1, sample_handler 127 [2] True (Some (Replace 5)))]"


theorem process_bundle_severity_witness:
  "\<exists>b'. process_bundle Response_mul (register 1 (sample_handler 1 [] False (Some (Replace 5))) Processor_new) sample_bundle (1::nat) = Inr b'
    \<and> severity (response sample_bundle) \<le> severity (response b')"
proof -
  let ?p = "register 1 (sample_handler 1 [] False (Some (Replace 5))) Processor_new"
  have r: "\<forall>h \<in> set (handlers_for ?p (1::nat)). returns_only h"
    by (simp add: handlers_for_def register_def Processor_new_def returns_only_def sample_handler_def)
  obtain b' where b': "process_bundle Response_mul ?p sample_bundle (1::nat) = Inr b'"
    by (simp add: process_bundle_def handlers_for_def register_def Processor_new_def sample_handler_def call_def)
  from process_bundle_severity [OF r b'] b' show ?thesis by blast
qed

theorem stop_flag_ends_chain_witness:
  "run_chain Response_mul ([sample_handler 1 [] True None] @ [sample_handler 2 [] False (Some Kick)]) sample_bundle =
   Inr (sample_bundle \<lparr> stop_flag := True, state := 1 \<rparr>)"
  by (rule stop_flag_ends_chain) (simp_all add: sample_bundle_def Bundle_new_def sample_handler_def call_def)

theorem handler_statistics_counts_witness:
  "hmap_get (handler_statistics h_module (resolve (sort_key h_priority)
     (fold (add_builder [] h_module (\<lambda>k. k = 0)) sample_builders Processor_new))) [1] = Some 2"
  by (subst handler_statistics_counts [OF stable_sort.priority_sort_axioms])
     (simp_all add: sample_builders_def sample_handler_def add_builder_def admitted_def register_def
        register_global_def Processor_new_def get_or.simps)

end
