(* ===== verification/RoomHandlers.thy ===== *)
theory RoomHandlers
  imports Duel Handler
begin

text \<open>
  The handlers every kind of room shares (ygopro\_handlers.rs).
  Each function of the source is one definition on the room; what its wrapper does, extracting the parameters from the request and converting the result
  into a response, is the definition with the prefix run. A handler whose parameters cannot be
  extracted is skipped.
\<close>

section \<open>Requests, states and wrappers\<close>

record ('m, 'e) Request =
  rq_message :: 'm
  rq_extra :: 'e

type_synonym ctos_request = "(ctos_Message, Netplayer) Request"
type_synonym ex_request = "(ygopro_Message, SendTarget) Request"
type_synonym room_response = "stoc_Message Response"

record TimeLimit =
  tl_time_elapsed :: u32
  tl_timer_task :: bool

definition TimeLimit_default :: TimeLimit where
  "TimeLimit_default = \<lparr> tl_time_elapsed = 0, tl_timer_task = False \<rparr>"

record Reconnect =
  rc_phase :: Phase
  rc_deck_reversed :: bool
  rc_turn_player :: CorePlayer

definition Reconnect_default :: Reconnect where
  "Reconnect_default = \<lparr> rc_phase = Phase_Draw, rc_deck_reversed = False, rc_turn_player = NoPlayer \<rparr>"

text \<open>The map of the handlers' own values holds those the modelled handlers use.\<close>

record 'd State =
  st_duel :: 'd
  st_replay :: "Replay option"
  st_time_limit :: "TimeLimit option"
  st_reconnect :: "Reconnect option"

type_synonym ('q, 'd, 'r) body = "('q, 'd State, 'r) Bundle \<Rightarrow> (('q, 'd State, 'r) Bundle \<times> 'r option) res"

text \<open>A handler that takes the request and the room: the request and the room it leaves, and its
  response, if its parameters could be extracted.\<close>

definition on_state :: "('q \<Rightarrow> 'd State \<Rightarrow> ('q \<times> 'd State \<times> 'r option) res) \<Rightarrow> ('q, 'd, 'r) body" where
  "on_state f b =
     and_then (f (request b) (state b)) (\<lambda>(q, st, r). Inr (b \<lparr> request := q, state := st \<rparr>, r))"

definition on_duel :: "('q \<Rightarrow> 'd \<Rightarrow> ('q \<times> 'd \<times> 'r option) res) \<Rightarrow> ('q, 'd, 'r) body" where
  "on_duel f =
     on_state (\<lambda>q st. and_then (f q (st_duel st)) (\<lambda>(q', d, r). Inr (q', st \<lparr> st_duel := d \<rparr>, r)))"

definition skipped :: "'q \<Rightarrow> 'd \<Rightarrow> ('q \<times> 'd \<times> 'r option) res" where
  "skipped q d = Inr (q, d, None)"

definition done_with :: "'q \<Rightarrow> 'd \<Rightarrow> ('q \<times> 'd \<times> 'm Response option) res" where
  "done_with q d = Inr (q, d, Some (into_response_unit ()))"

definition extract_player :: "ctos_request \<Rightarrow> ('c, 'a) Duel_scheme \<Rightarrow> PlayerIndex option" where
  "extract_player q d =
     (case PlayerIndex_try_from (rq_extra q) of
        None \<Rightarrow> None
      | Some i \<Rightarrow> if d_max_player_count d \<le> unat i then None else Some i)"

section \<open>The duel\<close>

definition fill_buffer :: "bytes \<Rightarrow> nat \<Rightarrow> bytes" where
  "fill_buffer bs n = take n bs @ replicate (n - length bs) 0"

definition on_response ::
  "'c env \<Rightarrow> PlayerIndex \<Rightarrow> PlayerResponse \<Rightarrow> ('c, 'a) Duel_scheme \<Rightarrow> ('c, 'a) Duel_scheme" where
  "on_response env player answer d =
     (if core_ended (d_core d) then d
      else let buf = fill_buffer (wr_PlayerResponse answer) (length (d_response_buffer d)) in
        queue Req_Evolve
          (map_player player (set_state Allow_None)
            (map_core (Core_set_responseb (env_api env) buf)
              (d \<lparr> d_client_responses := d_client_responses d @ [answer], d_response_buffer := buf \<rparr>))))"

definition hand_result_states :: "Hand \<Rightarrow> Hand \<Rightarrow> DuelPlayer \<Rightarrow> DuelPlayer \<Rightarrow> DuelPlayer \<times> DuelPlayer" where
  "hand_result_states hand1 hand2 p1 p2 =
     (case HandResult_judge (hand1, hand2) of
        HandResult_Draw \<Rightarrow>
          (set_state (Allow_Some ctos_T_HandResult) (p1 \<lparr> dp_hand := None \<rparr>),
           set_state (Allow_Some ctos_T_HandResult) (p2 \<lparr> dp_hand := None \<rparr>))
      | HandResult_Win \<Rightarrow> (set_state (Allow_Some ctos_T_TpResult) p1, set_state Allow_None p2)
      | HandResult_Lose \<Rightarrow> (set_state Allow_None p1, set_state (Allow_Some ctos_T_TpResult) p2))"

definition hand_winner :: "Hand \<Rightarrow> Hand \<Rightarrow> PlayerIndex option" where
  "hand_winner hand1 hand2 =
     (case HandResult_judge (hand1, hand2) of
        HandResult_Draw \<Rightarrow> None
      | HandResult_Win \<Rightarrow> Some 0
      | HandResult_Lose \<Rightarrow> Some 1)"

definition hand_result_decided :: "Hand \<Rightarrow> Hand \<Rightarrow> ('c, 'a) Duel_scheme \<Rightarrow> ('c, 'a) Duel_scheme" where
  "hand_result_decided hand1 hand2 d =
     (let d1 = (if HandResult_judge (hand1, hand2) = HandResult_Draw then send Stoc_SelectHand To_AllPlayer d else d);
          d2 = send (Stoc_HandResult hand1 hand2) (To_Except (Player 1))
                 (send (case HandResult_swap (hand1, hand2) of (a, b) \<Rightarrow> Stoc_HandResult a b) (To_Single (Player 1)) d1)
      in case hand_winner hand1 hand2 of
           None \<Rightarrow> d2
         | Some winner \<Rightarrow>
             send Stoc_SelectTp (SendTarget_of_index winner) (d2 \<lparr> d_first_attack_decider := Some winner \<rparr>)
               \<lparr> d_stage := DuelStage_Firstgo \<rparr>)"

definition on_hand_result :: "PlayerIndex \<Rightarrow> Hand \<Rightarrow> ('c, 'a) Duel_scheme \<Rightarrow> ('c, 'a) Duel_scheme res" where
  "on_hand_result player hand d =
     (let d1 = map_player player (\<lambda>p. p \<lparr> dp_hand := Some hand \<rparr>) d in
      case d_players d1 of
        [] \<Rightarrow> Inl IndexOutOfBounds
      | None # _ \<Rightarrow> Inr d1
      | [Some p1] \<Rightarrow> Inl IndexOutOfBounds
      | Some p1 # None # _ \<Rightarrow> Inr d1
      | Some p1 # Some p2 # ps \<Rightarrow>
          (case (dp_hand p1, dp_hand p2) of
             (Some hand1, Some hand2) \<Rightarrow>
               (case hand_result_states hand1 hand2 p1 p2 of (p1', p2') \<Rightarrow>
                  Inr (hand_result_decided hand1 hand2 (d1 \<lparr> d_players := Some p1' # Some p2' # ps \<rparr>)))
           | _ \<Rightarrow> Inr d1))"

definition on_tp_result :: "'c env \<Rightarrow> ('c, 'a) Duel_scheme \<Rightarrow> ('c, 'a) Duel_scheme" where
  "on_tp_result env d =
     (let info = d_host_info d;
          set = (\<lambda>p. Core_set_player_info (env_api env) p (hi_start_lp info) (ucast (hi_start_hand info))
                  (ucast (hi_draw_count info)))
      in queue_request_ex Y_DuelInit (queue_request_ex Y_FirstShuffle
           (map_core (set SecondAttackPlayer) (map_core (set FirstAttackPlayer)
             (d \<lparr> d_stage := DuelStage_Dueling, d_start_time := env_now env \<rparr>)))))"

definition duel_options :: "HostInfo \<Rightarrow> u16" where
  "duel_options info =
     (if hi_no_shuffle_deck info then DO_bits DO_PseudoShuffle else 0) OR
     (if hi_mode info = Mode_Tag then DO_bits DO_TagMode else 0)"

definition on_duel_start :: "'c env \<Rightarrow> ('c, 'a) Duel_scheme \<Rightarrow> ('c, 'a) Duel_scheme" where
  "on_duel_start env d =
     queue Req_Evolve
       (map_core (Core_start (env_api env) (duel_options (d_host_info d)) (hi_duel_rule (d_host_info d))) d)"

definition everybody_ready :: "DuelPlayer option list \<Rightarrow> bool" where
  "everybody_ready ps = list_all (\<lambda>p. map_option dp_ready p = Some True) ps"

definition give_turn :: "nat \<Rightarrow> DuelPlayer option list \<Rightarrow> DuelPlayer option list" where
  "give_turn decider ps =
     map (\<lambda>(i, p). map_option (set_state (if i = decider then Allow_Some ctos_T_TpResult else Allow_None)) p)
       (enumerate 0 ps)"

definition side_deck_accepted :: "PlayerIndex \<Rightarrow> Deck \<Rightarrow> ('c, 'a) Duel_scheme \<Rightarrow> ('c, 'a) Duel_scheme" where
  "side_deck_accepted player deck d =
     (let d1 = send Stoc_DuelStart (SendTarget_of_index player)
                 (map_player player (\<lambda>p. p \<lparr> dp_deck := deck, dp_ready := True \<rparr>) d)
      in if everybody_ready (d_players d1)
         then let decider = (case d_first_attack_decider d1 of None \<Rightarrow> 0 | Some i \<Rightarrow> i);
                  d2 = send Stoc_SelectTp (SendTarget_of_index decider) d1
              in d2 \<lparr> d_players := give_turn (unat decider) (d_players d2), d_stage := DuelStage_Firstgo \<rparr>
         else d1)"

definition on_update_deck ::
  "'c env \<Rightarrow> PlayerIndex \<Rightarrow> Deck \<Rightarrow> ('c, 'a) Duel_scheme \<Rightarrow> (('c, 'a) Duel_scheme \<times> stoc_Message option) res" where
  "on_update_deck env player deck d =
     (case get_player d player of
        None \<Rightarrow> Inr (d, None)
      | Some p \<Rightarrow>
          if dp_ready p then Inr (d, None)
          else if d_duel_count d = 0
          then and_then (Deck_load (card_of env) deck) (\<lambda>(deck', e).
                 Inr (map_player player (\<lambda>p. p \<lparr> dp_deck_error := e, dp_deck := deck' \<rparr>) d, None))
          else (case check_after_replacing_side (card_of env) (dp_deck p) deck of
                  (deck', Some e) \<Rightarrow> Inr (d, Some (Stoc_ErrorMessage ErrorMessage_SideError))
                | (deck', None) \<Rightarrow> Inr (side_deck_accepted player deck' d, None)))"

section \<open>The room before the duel\<close>

definition on_create_game ::
  "HostInfo \<Rightarrow> FixedLengthString \<Rightarrow> FixedLengthString \<Rightarrow> ('c, 'a) Duel_scheme \<Rightarrow> ('c, 'a) Duel_scheme" where
  "on_create_game info name pass d = d \<lparr> d_host_info := info, d_name := name, d_pass := pass \<rparr>"

fun first_free :: "'p option list \<Rightarrow> nat \<Rightarrow> nat option" where
    "first_free [] i = None"
  | "first_free (None # ps) i = Some i"
  | "first_free (Some p # ps) i = first_free ps (Suc i)"

definition nobody_seated :: "('c, 'a) Duel_scheme \<Rightarrow> bool" where
  "nobody_seated d \<longleftrightarrow> list_all (\<lambda>p. p = None) (d_players d)"

definition player_change :: "PlayerChangeState \<Rightarrow> Netplayer \<Rightarrow> stoc_Message res" where
  "player_change st p =
     and_then (PlayerChange_with_player p (PlayerChange_with_state st PlayerChange_new)) (\<lambda>c. Inr (Stoc_HsPlayerChange c))"

definition ready_change :: "Netplayer \<Rightarrow> stoc_Message res" where
  "ready_change p =
     and_then (PlayerChange_with_player p PlayerChange_new)
       (\<lambda>c. Inr (Stoc_HsPlayerChange (PlayerChange_with_state PlayerChangeState_Ready c)))"

fun seated_messages :: "nat \<Rightarrow> DuelPlayer option list \<Rightarrow> stoc_Message list res" where
    "seated_messages i [] = Inr []"
  | "seated_messages i (None # ps) = seated_messages (Suc i) ps"
  | "seated_messages i (Some p # ps) =
       and_then (if dp_ready p then and_then (ready_change (Player (of_nat i))) (\<lambda>m. Inr [m]) else Inr [])
         (\<lambda>r. and_then (seated_messages (Suc i) ps)
           (\<lambda>ms. Inr (Stoc_HsPlayerEnter (dp_name p) (Player (of_nat i)) # r @ ms)))"

definition insert_observer :: "'c env \<Rightarrow> BaseDuelPlayer \<Rightarrow> ('c, 'a) Duel_scheme \<Rightarrow> nat \<times> ('c, 'a) Duel_scheme" where
  "insert_observer env p d =
     (case slab_insert (env_fresh env) p (d_observers d) of (k, obs) \<Rightarrow>
        (k, map_sender (\<lambda>s. s \<lparr> s_observers := snd (slab_insert (env_fresh env) (bp_stoc_sender p) (s_observers s)) \<rparr>)
              (d \<lparr> d_observers := obs \<rparr>)))"

definition remove_sender_observer :: "nat \<Rightarrow> ('c, 'a) Duel_scheme \<Rightarrow> ('c, 'a) Duel_scheme res" where
  "remove_sender_observer k d =
     and_then (slab_remove k (s_observers (d_sender d)))
       (\<lambda>(c, obs). Inr (map_sender (\<lambda>s. s \<lparr> s_observers := obs \<rparr>) d))"

definition remove_sender_undecided :: "nat \<Rightarrow> ('c, 'a) Duel_scheme \<Rightarrow> ('c, 'a) Duel_scheme res" where
  "remove_sender_undecided k d =
     and_then (slab_remove k (s_undecided (d_sender d)))
       (\<lambda>(c, und). Inr (map_sender (\<lambda>s. s \<lparr> s_undecided := und \<rparr>) d))"

text \<open>The seat a new client gets: the first free one at the table, or a place among the observers.
  The result of joining is the position, what is sent to the client, and the room.\<close>

definition join_position :: "'c env \<Rightarrow> ('c, 'a) Duel_scheme \<Rightarrow> Netplayer" where
  "join_position env d =
     (case first_free (d_players d) 0 of
        Some i \<Rightarrow> Player (of_nat i)
      | None \<Rightarrow> Observer (of_nat (slab_vacant_key (env_fresh env) (d_observers d))))"

fun take_seat ::
  "'c env \<Rightarrow> Netplayer \<Rightarrow> BaseDuelPlayer \<Rightarrow> ('c, 'a) Duel_scheme \<Rightarrow> ('c, 'a) Duel_scheme res" where
    "take_seat env (Observer k) p d = Inr (snd (insert_observer env p d))"
  | "take_seat env (Player i) p d =
       and_then (set_slot (unat i) (Some (DuelPlayer_from p)) d)
         (\<lambda>d'. Inr (map_sender (Sender_set_player (unat i) (bp_stoc_sender p)) d'))"
  | "take_seat env pos p d = Inr d"

definition seat_client ::
  "'c env \<Rightarrow> BaseDuelPlayer \<Rightarrow> ('c, 'a) Duel_scheme \<Rightarrow> (Netplayer \<times> stoc_Message list \<times> ('c, 'a) Duel_scheme) res" where
  "seat_client env p d =
     (let is_creator = (nobody_seated d \<and> slab_is_empty (d_observers d));
          pos = join_position env d;
          observes = (case pos of Observer k \<Rightarrow> True | _ \<Rightarrow> False);
          observer_count = (of_nat (slab_len (d_observers d)) :: u16) + (if observes then 1 else 0);
          d1 = (if is_creator then d \<lparr> d_host_player := pos \<rparr> else d);
          d2 = send (if observes then Stoc_HsWatchChange observer_count else Stoc_HsPlayerEnter (bp_name p) pos) To_All d1
      in and_then (take_seat env pos p d2) (\<lambda>d3.
         and_then (seated_messages 0 (d_players d3)) (\<lambda>ms. Inr
           (pos,
            [Stoc_JoinGame (d_host_info d), Stoc_TypeChange pos is_creator] @ ms @
              (if 0 < observer_count then [Stoc_HsWatchChange observer_count] else []),
            d3))))"

definition join_refused :: "JoinError \<Rightarrow> stoc_Message" where
  "join_refused e = Stoc_ErrorMessage (ErrorMessage_JoinError e)"

definition on_join_game ::
  "'c env \<Rightarrow> Netplayer \<Rightarrow> FixedLengthString \<Rightarrow> ('c, 'a) Duel_scheme
   \<Rightarrow> (Netplayer \<times> ('c, 'a) Duel_scheme \<times> (stoc_Message + stoc_Message list)) res" where
  "on_join_game env player pass d =
     (if \<not> FixedLengthString_is_empty (d_pass d) \<and> \<not> FixedLengthString_eq (env_decode env) pass (d_pass d)
      then Inr (player, d, Inl (join_refused JoinError_WrongPassword))
      else case player of
        Undecided i \<Rightarrow>
          (case slab_try_remove (unat i) (d_uninit_players d) of
             None \<Rightarrow> Inr (player, d, Inl (join_refused JoinError_HostRefused))
           | Some (p, uninit) \<Rightarrow>
               and_then (remove_sender_undecided (unat i) (d \<lparr> d_uninit_players := uninit \<rparr>)) (\<lambda>d1.
               and_then (seat_client env p d1) (\<lambda>(pos, ms, d2). Inr (pos, d2, Inr ms))))
      | _ \<Rightarrow> Inr (player, d, Inl (join_refused JoinError_HostRefused)))"

definition on_hs_to_duelist ::
  "Netplayer \<Rightarrow> ('c, 'a) Duel_scheme \<Rightarrow> (Netplayer \<times> ('c, 'a) Duel_scheme \<times> stoc_Message option) res" where
  "on_hs_to_duelist player d =
     (case player of
        Observer k \<Rightarrow>
          (case first_free (d_players d) 0 of
             None \<Rightarrow> Inr (player, d, None)
           | Some i \<Rightarrow>
               (case slab_try_remove (unat k) (d_observers d) of
                  None \<Rightarrow> Inr (player, d, None)
                | Some (observer, obs) \<Rightarrow>
                    and_then (remove_sender_observer (unat k) (d \<lparr> d_observers := obs \<rparr>)) (\<lambda>d1.
                    let i_am_host = (d_host_player d1 = player);
                        pos = Player (of_nat i);
                        d2 = (if i_am_host then d1 \<lparr> d_host_player := pos \<rparr> else d1)
                    in and_then (set_slot i (Some (DuelPlayer_from observer)) d2) (\<lambda>d3.
                       Inr (pos,
                         send (Stoc_HsWatchChange (of_nat (slab_len (d_observers d3)))) To_All
                           (send (Stoc_HsPlayerEnter (bp_name observer) pos) To_All
                             (map_sender (Sender_set_player i (bp_stoc_sender observer)) d3)),
                         Some (Stoc_TypeChange pos i_am_host))))))
      | _ \<Rightarrow> Inr (player, d, None))"

definition on_hs_to_observer ::
  "'c env \<Rightarrow> Netplayer \<Rightarrow> PlayerIndex \<Rightarrow> ('c, 'a) Duel_scheme
   \<Rightarrow> (Netplayer \<times> ('c, 'a) Duel_scheme \<times> stoc_Message option) res" where
  "on_hs_to_observer env extra player d =
     and_then (index (d_players d) (unat player)) (\<lambda>slot.
       case slot of
         None \<Rightarrow> Inr (extra, d, None)
       | Some p \<Rightarrow>
           (let d1 = map_sender (Sender_clear_player (unat player)) (d \<lparr> d_players := (d_players d)[unat player := None] \<rparr>)
            in case insert_observer env (dp_player p) d1 of (k, d2) \<Rightarrow>
                 let current = Observer (of_nat k);
                     i_am_host = (d_host_player d2 = Player player);
                     d3 = (if i_am_host then d2 \<lparr> d_host_player := current \<rparr> else d2)
                 in and_then (player_change PlayerChangeState_Observe (Player player)) (\<lambda>m.
                      Inr (current, send m To_All d3, Some (Stoc_TypeChange current i_am_host)))))"

text \<open>Leaving: the next host is the first other player at the table. Without one the duel is
  ended and the room terminates.\<close>

fun next_host :: "Netplayer \<Rightarrow> nat \<Rightarrow> 'p option list \<Rightarrow> Netplayer option" where
    "next_host leaver i [] = None"
  | "next_host leaver i (p # ps) =
       (if p \<noteq> None \<and> Player (of_nat i) \<noteq> leaver then Some (Player (of_nat i)) else next_host leaver (Suc i) ps)"

definition hand_over :: "Netplayer \<Rightarrow> ('c, 'a) Duel_scheme \<Rightarrow> ('c, 'a) Duel_scheme" where
  "hand_over new_host d =
     (let d1 = d \<lparr> d_host_player := new_host \<rparr> in
      if d_stage d = DuelStage_Begin
      then send (Stoc_TypeChange new_host True) (To_Single new_host)
             (case new_host of Player i \<Rightarrow> map_player i (\<lambda>p. p \<lparr> dp_ready := False \<rparr>) d1 | _ \<Rightarrow> d1)
      else d1)"

definition free_seat :: "nat \<Rightarrow> ('c, 'a) Duel_scheme \<Rightarrow> ('c, 'a) Duel_scheme res" where
  "free_seat i d = and_then (set_slot i None d) (\<lambda>d'. Inr (map_sender (Sender_clear_player i) d'))"

definition leave_player :: "PlayerIndex \<Rightarrow> ('c, 'a) Duel_scheme \<Rightarrow> ('c, 'a) Duel_scheme res" where
  "leave_player i d =
     and_then
       (if d_stage d = DuelStage_Begin
        then and_then (free_seat (unat i) d) (\<lambda>d'.
             and_then (player_change PlayerChangeState_Leave (Player i)) (\<lambda>m. Inr (send m To_All d')))
        else Inr d)
       (free_seat (unat i))"

definition leave_observer :: "u8 \<Rightarrow> ('c, 'a) Duel_scheme \<Rightarrow> ('c, 'a) Duel_scheme res" where
  "leave_observer k d =
     (case slab_try_remove (unat k) (d_observers d) of
        None \<Rightarrow> Inr d
      | Some (p, obs) \<Rightarrow>
          and_then (remove_sender_observer (unat k) (d \<lparr> d_observers := obs \<rparr>)) (\<lambda>d'. Inr
            (if d_stage d' = DuelStage_Begin
             then send (Stoc_HsWatchChange (of_nat (slab_len (d_observers d')))) To_All d' else d')))"

definition leave_undecided :: "u8 \<Rightarrow> ('c, 'a) Duel_scheme \<Rightarrow> ('c, 'a) Duel_scheme res" where
  "leave_undecided k d =
     (case slab_try_remove (unat k) (d_uninit_players d) of
        None \<Rightarrow> Inr d
      | Some (p, uninit) \<Rightarrow> remove_sender_undecided (unat k) (d \<lparr> d_uninit_players := uninit \<rparr>))"

fun leave_position :: "Netplayer \<Rightarrow> ('c, 'a) Duel_scheme \<Rightarrow> ('c, 'a) Duel_scheme res" where
    "leave_position (Observer k) d = leave_observer k d"
  | "leave_position (Player i) d = leave_player i d"
  | "leave_position (Undecided k) d = leave_undecided k d"
  | "leave_position UnknownPlayer d = Inr d"

definition on_leave_game :: "'c env \<Rightarrow> Netplayer \<Rightarrow> ('c, 'a) Duel_scheme \<Rightarrow> (('c, 'a) Duel_scheme \<times> bool) res" where
  "on_leave_game env player d =
     (let heir = (if player = d_host_player d then next_host player 0 (d_players d) else None) in
      if player = d_host_player d \<and> heir = None then Inr (map_core (Core_end (env_api env)) d, True)
      else and_then (leave_position player (case heir of None \<Rightarrow> d | Some h \<Rightarrow> hand_over h d))
             (\<lambda>d'. Inr (d', nobody_seated d' \<and> slab_is_empty (d_observers d'))))"

definition deck_count :: "Deck \<Rightarrow> Deck \<Rightarrow> stoc_Message" where
  "deck_count mine theirs = Stoc_DeckCount
     \<lparr> dc_mainc_s = of_nat (length (dk_main mine)), dc_extrac_s = of_nat (length (dk_extra mine)), dc_sidec_s = 0,
       dc_mainc_o = of_nat (length (dk_main theirs)), dc_extrac_o = of_nat (length (dk_extra theirs)), dc_sidec_o = 0 \<rparr>"

definition ask_hand :: "DuelPlayer \<Rightarrow> DuelPlayer" where
  "ask_hand p = set_state (Allow_Some ctos_T_HandResult) (p \<lparr> dp_hand := None \<rparr>)"

definition begin_duel :: "DuelPlayer \<Rightarrow> DuelPlayer \<Rightarrow> DuelPlayer option list \<Rightarrow> ('c, 'a) Duel_scheme \<Rightarrow> ('c, 'a) Duel_scheme" where
  "begin_duel p1 p2 ps d =
     (let d1 = send Stoc_DuelStart To_All (d \<lparr> d_stage := DuelStage_Finger \<rparr>);
          d2 = d1 \<lparr> d_observers := slab_map (\<lambda>o'. o' \<lparr> bp_state := Allow_None \<rparr>) (d_observers d1) \<rparr>;
          d3 = send (deck_count (dp_deck p1) (dp_deck p2)) (To_Single (Player 0)) d2;
          d4 = send (deck_count (dp_deck p2) (dp_deck p1)) (To_Single (Player 1)) d3
      in send Stoc_SelectHand To_AllPlayer d4 \<lparr> d_players := Some (ask_hand p1) # Some (ask_hand p2) # ps \<rparr>)"

definition on_hs_start :: "Netplayer \<Rightarrow> ('c, 'a) Duel_scheme \<Rightarrow> ('c, 'a) Duel_scheme res" where
  "on_hs_start player d =
     (if player \<noteq> d_host_player d then Inr d
      else case d_players d of
        [] \<Rightarrow> Inl IndexOutOfBounds
      | None # _ \<Rightarrow> Inr d
      | [Some p1] \<Rightarrow> Inl IndexOutOfBounds
      | Some p1 # None # _ \<Rightarrow> Inr d
      | Some p1 # Some p2 # ps \<Rightarrow>
          Inr (if \<not> dp_ready p1 \<or> \<not> dp_ready p2 then d else begin_duel p1 p2 ps d))"

definition on_player_info :: "Netplayer \<Rightarrow> FixedLengthString \<Rightarrow> ('c, 'a) Duel_scheme \<Rightarrow> ('c, 'a) Duel_scheme" where
  "on_player_info player name d =
     (case player of
        Undecided i \<Rightarrow> d \<lparr> d_uninit_players := slab_update (unat i) (\<lambda>p. p \<lparr> bp_name := name \<rparr>) (d_uninit_players d) \<rparr>
      | _ \<Rightarrow> d)"

definition on_hs_ready :: "PlayerIndex \<Rightarrow> ('c, 'a) Duel_scheme \<Rightarrow> ('c, 'a) Duel_scheme res" where
  "on_hs_ready i d =
     (if d_stage d \<noteq> DuelStage_Begin then Inr d
      else case get_player d i of
        None \<Rightarrow> Inr d
      | Some p \<Rightarrow>
          if dp_ready p then Inr d
          else if hi_no_check_deck (d_host_info d)
          then and_then (player_change PlayerChangeState_Ready (Player i))
                 (\<lambda>m. Inr (send m To_All (map_player i (\<lambda>p. p \<lparr> dp_ready := True \<rparr>) d)))
          else if dp_deck_error p \<noteq> None then Inr (queue_request_ex (Y_SendDeckValidation i) d)
          else Inr (queue_request_ex (Y_ValidateDeck i (dp_deck p)) d))"

definition on_validate_deck :: "'c env \<Rightarrow> PlayerIndex \<Rightarrow> Deck \<Rightarrow> ('c, 'a) Duel_scheme \<Rightarrow> ('c, 'a) Duel_scheme res" where
  "on_validate_deck env i deck d =
     and_then (Deck_prepare (room_lflist env d) (hi_rule (d_host_info d)) (card_of env) deck)
       (\<lambda>e. Inr (map_player i (\<lambda>p. p \<lparr> dp_deck_error := e \<rparr>) d))"

text \<open>The handler also says whom its messages go to, if it sends any.\<close>

definition on_send_deck_validation ::
  "PlayerIndex \<Rightarrow> ('c, 'a) Duel_scheme \<Rightarrow> (('c, 'a) Duel_scheme \<times> stoc_Message list \<times> SendTarget option) res" where
  "on_send_deck_validation i d =
     (case get_player d i of
        None \<Rightarrow> Inr (d, [], None)
      | Some p \<Rightarrow>
          if dp_ready p then Inr (d, [], None)
          else case dp_deck_error p of
            Some e \<Rightarrow>
              and_then (player_change PlayerChangeState_Notready (Player i)) (\<lambda>m.
                Inr (d, [m, Stoc_ErrorMessage (ErrorMessage_DeckError e)], Some (To_Single (Player i))))
          | None \<Rightarrow>
              and_then (player_change PlayerChangeState_Ready (Player i)) (\<lambda>m.
                Inr (map_player i (\<lambda>p. p \<lparr> dp_ready := True \<rparr>) d, [m], Some To_All)))"

definition on_hs_not_ready :: "PlayerIndex \<Rightarrow> ('c, 'a) Duel_scheme \<Rightarrow> ('c, 'a) Duel_scheme res" where
  "on_hs_not_ready i d =
     (if d_stage d \<noteq> DuelStage_Begin then Inr d
      else case get_player d i of
        None \<Rightarrow> Inr d
      | Some p \<Rightarrow>
          if \<not> dp_ready p then Inr d
          else and_then (player_change PlayerChangeState_Notready (Player i))
                 (\<lambda>m. Inr (send m To_All (map_player i (\<lambda>p. p \<lparr> dp_ready := False \<rparr>) d))))"

definition on_hs_kick :: "Netplayer \<Rightarrow> Netplayer \<Rightarrow> ('c, 'a) Duel_scheme \<Rightarrow> ('c, 'a) Duel_scheme res" where
  "on_hs_kick kicker target d =
     (if kicker \<noteq> d_host_player d \<or> d_stage d \<noteq> DuelStage_Begin then Inr d
      else case target of
        Player i \<Rightarrow>
          if kicker = target then Inr d
          else and_then (index (d_players d) (unat i)) (\<lambda>slot.
            if slot = None then Inr d
            else let d1 = send (Stoc_LeaveGame target) (To_Single target) (map_sender (Sender_clear_player (unat i)) d);
                     d2 = d1 \<lparr> d_players := (d_players d1)[unat i := None] \<rparr>
                 in and_then (player_change PlayerChangeState_Leave target)
                      (\<lambda>m. Inr (send m (To_Except target) d2)))
      | _ \<Rightarrow> Inr d)"

definition on_client_join ::
  "'c env \<Rightarrow> chan \<Rightarrow> nat option \<Rightarrow> ('c, 'a) Duel_scheme \<Rightarrow> nat option \<times> ('c, 'a) Duel_scheme" where
  "on_client_join env c reply d =
     (if DuelStage_Begin < d_stage d then (reply, d)
      else case reply of
        None \<Rightarrow> (None, d)
      | Some r \<Rightarrow>
          (case slab_insert (env_fresh env) (BaseDuelPlayer_new c) (d_uninit_players d) of (k, uninit) \<Rightarrow>
             (None,
              map_sender (\<lambda>s. s \<lparr> s_undecided := snd (slab_insert (env_fresh env) c (s_undecided s)) \<rparr>)
                (d \<lparr> d_uninit_players := uninit, d_positions := d_positions d @ [(r, Undecided (of_nat k))] \<rparr>))))"

definition on_client_join_final :: "chan \<Rightarrow> nat option \<Rightarrow> ('c, 'a) Duel_scheme \<Rightarrow> ('c, 'a) Duel_scheme" where
  "on_client_join_final c reply d =
     (if reply = None then d
      else map_sender (\<lambda>s. s \<lparr> s_out := s_out s @ channel_send (Some c) (join_refused JoinError_HostRefused) \<rparr>) d)"

section \<open>The end of a duel\<close>

definition on_generate_replay :: "'c env \<Rightarrow> ('c, 'a) Duel_scheme State \<Rightarrow> ('c, 'a) Duel_scheme State" where
  "on_generate_replay env st =
     (case create_replay env (st_duel st) of None \<Rightarrow> st | Some r \<Rightarrow> st \<lparr> st_replay := Some r \<rparr>)"

definition on_generate_replay_final :: "'d State \<Rightarrow> 'd State \<times> stoc_Message option" where
  "on_generate_replay_final st = (st \<lparr> st_replay := None \<rparr>, map_option Stoc_Replay (st_replay st))"

definition on_duel_end :: "'c env \<Rightarrow> ('c, 'a) Duel_scheme \<Rightarrow> ('c, 'a) Duel_scheme" where
  "on_duel_end env d = map_core (Core_end (env_api env)) d \<lparr> d_duel_count := d_duel_count d + 1 \<rparr>"

definition on_judge_continue_match_kill :: "('c, 'a) Duel_scheme \<Rightarrow> str" where
  "on_judge_continue_match_kill d = lit (if 0 < sint (d_match_kill_card_code d) then ''terminate'' else ''continue'')"

definition on_judge_continue_somebody_leave :: "('c, 'a) Duel_scheme \<Rightarrow> str" where
  "on_judge_continue_somebody_leave d = lit (if list_ex (\<lambda>p. p = None) (d_players d) then ''terminate'' else ''continue'')"

definition on_match_end :: "('c, 'a) Duel_scheme \<Rightarrow> ('c, 'a) Duel_scheme" where
  "on_match_end d = send Stoc_DuelEnd To_All d"

definition on_recreate_duel :: "'c env \<Rightarrow> ('c, 'a) Duel_scheme \<Rightarrow> ('c, 'a) Duel_scheme" where
  "on_recreate_duel env d =
     (let d1 = d \<lparr> d_players := map (map_option (\<lambda>p. set_state (Allow_Some ctos_T_UpdateDeck) p \<lparr> dp_ready := False \<rparr>)) (d_players d),
                   d_stage := DuelStage_Siding \<rparr>;
          d2 = send Stoc_WaitingSide To_AllObserver (send Stoc_ChangeSide To_AllPlayer d1)
      in d2 \<lparr> d_core := env_new_core env (d_duel_count d2), d_client_responses := [] \<rparr>)"

section \<open>The wrappers\<close>

type_synonym ('c, 'a) ctos_body = "(ctos_request, ('c, 'a) Duel_scheme, room_response) body"
type_synonym ('c, 'a) ex_body = "(ex_request, ('c, 'a) Duel_scheme, room_response) body"

text \<open>A handler that returns nothing, on a message of one kind, by a player or by anybody.\<close>

definition by_player ::
  "(ctos_Message \<Rightarrow> 'x option) \<Rightarrow> (PlayerIndex \<Rightarrow> 'x \<Rightarrow> ('c, 'a) Duel_scheme \<Rightarrow> ('c, 'a) Duel_scheme res) \<Rightarrow> ('c, 'a) ctos_body" where
  "by_player pick f =
     on_duel (\<lambda>q d. case (extract_player q d, pick (rq_message q)) of
        (Some i, Some x) \<Rightarrow> and_then (f i x d) (done_with q)
      | _ \<Rightarrow> skipped q d)"

definition by_anybody ::
  "(ctos_Message \<Rightarrow> 'x option) \<Rightarrow> (Netplayer \<Rightarrow> 'x \<Rightarrow> ('c, 'a) Duel_scheme \<Rightarrow> ('c, 'a) Duel_scheme res) \<Rightarrow> ('c, 'a) ctos_body" where
  "by_anybody pick f =
     on_duel (\<lambda>q d. case pick (rq_message q) of
        Some x \<Rightarrow> and_then (f (rq_extra q) x d) (done_with q)
      | None \<Rightarrow> skipped q d)"

definition on_any :: "('d \<Rightarrow> 'd res) \<Rightarrow> ('q, 'd, 'm Response) body" where
  "on_any f = on_duel (\<lambda>q d. and_then (f d) (done_with q))"

definition on_ex :: "(ygopro_Message \<Rightarrow> 'x option) \<Rightarrow> ('x \<Rightarrow> 'd \<Rightarrow> 'd res) \<Rightarrow> (ex_request, 'd, 'm Response) body" where
  "on_ex pick f =
     on_duel (\<lambda>q d. case pick (rq_message q) of
        Some x \<Rightarrow> and_then (f x d) (done_with q)
      | None \<Rightarrow> skipped q d)"

definition judging :: "('d \<Rightarrow> str) \<Rightarrow> ('q, 'd, 'm Response) body" where
  "judging f = on_duel (\<lambda>q d. Inr (q, d, Some (into_response_str (f d))))"

definition run_on_response :: "'c env \<Rightarrow> ('c, 'a) ctos_body" where
  "run_on_response env =
     by_player (\<lambda>m. case m of Ctos_Response r \<Rightarrow> Some r | _ \<Rightarrow> None) (\<lambda>i r d. Inr (on_response env i r d))"

definition run_on_hand_result :: "('c, 'a) ctos_body" where
  "run_on_hand_result = by_player (\<lambda>m. case m of Ctos_HandResult h \<Rightarrow> Some h | _ \<Rightarrow> None) on_hand_result"

definition run_on_tp_result :: "'c env \<Rightarrow> ('c, 'a) ctos_body" where
  "run_on_tp_result env = on_any (\<lambda>d. Inr (on_tp_result env d))"

definition run_on_update_deck :: "'c env \<Rightarrow> ('c, 'a) ctos_body" where
  "run_on_update_deck env =
     on_duel (\<lambda>q d. case (extract_player q d, rq_message q) of
        (Some i, Ctos_UpdateDeck deck) \<Rightarrow>
          and_then (on_update_deck env i deck d)
            (\<lambda>(d', r). Inr (q, d', Some (into_response_option into_response_message r)))
      | _ \<Rightarrow> skipped q d)"

definition run_on_create_game :: "('c, 'a) ctos_body" where
  "run_on_create_game =
     by_anybody (\<lambda>m. case m of Ctos_CreateGame i n p \<Rightarrow> Some (i, n, p) | _ \<Rightarrow> None)
       (\<lambda>_ (i, n, p) d. Inr (on_create_game i n p d))"

definition run_on_join_game :: "'c env \<Rightarrow> ('c, 'a) ctos_body" where
  "run_on_join_game env =
     on_duel (\<lambda>q d. case rq_message q of
        Ctos_JoinGame version gameid pass \<Rightarrow>
          and_then (on_join_game env (rq_extra q) pass d) (\<lambda>(pos, d', r). Inr
            (q \<lparr> rq_extra := pos \<rparr>, d', Some (into_response_result into_response_vec into_response_message r)))
      | _ \<Rightarrow> skipped q d)"

definition run_on_hs_to_duelist :: "('c, 'a) ctos_body" where
  "run_on_hs_to_duelist =
     on_duel (\<lambda>q d. and_then (on_hs_to_duelist (rq_extra q) d) (\<lambda>(pos, d', r). Inr
       (q \<lparr> rq_extra := pos \<rparr>, d', Some (into_response_option into_response_message r))))"

definition run_on_hs_to_observer :: "'c env \<Rightarrow> ('c, 'a) ctos_body" where
  "run_on_hs_to_observer env =
     on_duel (\<lambda>q d. case extract_player q d of
        Some i \<Rightarrow> and_then (on_hs_to_observer env (rq_extra q) i d) (\<lambda>(pos, d', r). Inr
          (q \<lparr> rq_extra := pos \<rparr>, d', Some (into_response_option into_response_message r)))
      | None \<Rightarrow> skipped q d)"

definition run_on_leave_game :: "'c env \<Rightarrow> ('c, 'a) ctos_body" where
  "run_on_leave_game env =
     on_duel (\<lambda>q d. and_then (on_leave_game env (rq_extra q) d)
       (\<lambda>(d', b). Inr (q, d', Some (into_response_bool b))))"

definition run_on_hs_start :: "('c, 'a) ctos_body" where
  "run_on_hs_start = by_anybody Some (\<lambda>p m d. on_hs_start p d)"

definition run_on_player_info :: "('c, 'a) ctos_body" where
  "run_on_player_info =
     by_anybody (\<lambda>m. case m of Ctos_PlayerInfo n \<Rightarrow> Some n | _ \<Rightarrow> None) (\<lambda>p n d. Inr (on_player_info p n d))"

definition run_on_hs_ready :: "('c, 'a) ctos_body" where
  "run_on_hs_ready = by_player Some (\<lambda>i m d. on_hs_ready i d)"

definition run_on_hs_not_ready :: "('c, 'a) ctos_body" where
  "run_on_hs_not_ready = by_player Some (\<lambda>i m d. on_hs_not_ready i d)"

definition run_on_hs_kick :: "('c, 'a) ctos_body" where
  "run_on_hs_kick = by_anybody (\<lambda>m. case m of Ctos_HsKick p \<Rightarrow> Some p | _ \<Rightarrow> None) on_hs_kick"

definition run_on_duel_start :: "'c env \<Rightarrow> ('c, 'a) ex_body" where
  "run_on_duel_start env = on_any (\<lambda>d. Inr (on_duel_start env d))"

definition run_on_validate_deck :: "'c env \<Rightarrow> ('c, 'a) ex_body" where
  "run_on_validate_deck env =
     on_ex (\<lambda>m. case m of Y_ValidateDeck i deck \<Rightarrow> Some (i, deck) | _ \<Rightarrow> None)
       (\<lambda>(i, deck). on_validate_deck env i deck)"

definition run_on_send_deck_validation :: "('c, 'a) ex_body" where
  "run_on_send_deck_validation =
     on_duel (\<lambda>q d. case rq_message q of
        Y_SendDeckValidation i \<Rightarrow>
          and_then (on_send_deck_validation i d) (\<lambda>(d', ms, target). Inr
            (case target of None \<Rightarrow> q | Some t \<Rightarrow> q \<lparr> rq_extra := t \<rparr>, d', Some (into_response_vec ms)))
      | _ \<Rightarrow> skipped q d)"

definition run_on_client_join :: "'c env \<Rightarrow> ('c, 'a) ex_body" where
  "run_on_client_join env =
     on_duel (\<lambda>q d. case rq_message q of
        Y_ClientJoin c reply \<Rightarrow>
          (case on_client_join env c reply d of (reply', d') \<Rightarrow>
             done_with (q \<lparr> rq_message := Y_ClientJoin c reply' \<rparr>) d')
      | _ \<Rightarrow> skipped q d)"

definition run_on_client_join_final :: "('c, 'a) ex_body" where
  "run_on_client_join_final =
     on_ex (\<lambda>m. case m of Y_ClientJoin c reply \<Rightarrow> Some (c, reply) | _ \<Rightarrow> None)
       (\<lambda>(c, reply) d. Inr (on_client_join_final c reply d))"

definition run_on_generate_replay :: "'c env \<Rightarrow> ('c, 'a) ex_body" where
  "run_on_generate_replay env = on_state (\<lambda>q st. done_with q (on_generate_replay env st))"

definition run_on_generate_replay_final :: "('c, 'a) ex_body" where
  "run_on_generate_replay_final =
     on_state (\<lambda>q st. case on_generate_replay_final st of (st', r) \<Rightarrow>
       Inr (q, st', Some (into_response_option into_response_message r)))"

definition run_on_duel_end :: "'c env \<Rightarrow> ('c, 'a) ex_body" where
  "run_on_duel_end env = on_any (\<lambda>d. Inr (on_duel_end env d))"

definition run_on_judge_match_kill :: "('c, 'a) ex_body" where
  "run_on_judge_match_kill = judging on_judge_continue_match_kill"

definition run_on_judge_somebody_leave :: "('c, 'a) ex_body" where
  "run_on_judge_somebody_leave = judging on_judge_continue_somebody_leave"

definition run_on_match_end :: "('c, 'a) ex_body" where
  "run_on_match_end = on_any (\<lambda>d. Inr (on_match_end d))"

definition run_on_recreate_duel :: "'c env \<Rightarrow> ('c, 'a) ex_body" where
  "run_on_recreate_duel env = on_any (\<lambda>d. Inr (on_recreate_duel env d))"

section \<open>Registration\<close>

definition handler ::
  "u8 \<Rightarrow> string \<Rightarrow> string \<Rightarrow> ('q, 'd, 'r) body \<Rightarrow> ('q, 'd State, 'r) Handler" where
  "handler prio m n run = \<lparr> h_priority = prio, h_name = lit n, h_module = lit m, h_run = run \<rparr>"

type_synonym ('c, 'a) ctos_handler = "(ctos_request, ('c, 'a) Duel_scheme State, room_response) Handler"
type_synonym ('c, 'a) ex_handler = "(ex_request, ('c, 'a) Duel_scheme State, room_response) Handler"

definition YGOPRO_HANDLERS :: "'c env \<Rightarrow> (u8 \<times> ('c, 'a) ctos_handler) list" where
  "YGOPRO_HANDLERS env =
     (let reg = handler 128 ''ygopro::ygopro_handlers'' in
      [(1, reg ''on_response'' (run_on_response env)),
       (3, reg ''on_hand_result'' run_on_hand_result),
       (4, reg ''on_tp_result'' (run_on_tp_result env)),
       (2, reg ''on_update_deck'' (run_on_update_deck env)),
       (17, reg ''on_create_game'' run_on_create_game),
       (18, reg ''on_join_game'' (run_on_join_game env)),
       (32, reg ''on_hs_to_duelist'' run_on_hs_to_duelist),
       (33, reg ''on_hs_to_observer'' (run_on_hs_to_observer env)),
       (19, reg ''on_leave_game'' (run_on_leave_game env)),
       (37, reg ''on_hs_start'' run_on_hs_start),
       (16, reg ''on_player_info'' run_on_player_info),
       (34, reg ''on_hs_ready'' run_on_hs_ready),
       (35, reg ''on_hs_not_ready'' run_on_hs_not_ready),
       (36, reg ''on_hs_kick'' run_on_hs_kick)])"

definition YGOPRO_HANDLERS_EX :: "'c env \<Rightarrow> (u8 \<times> ('c, 'a) ex_handler) list" where
  "YGOPRO_HANDLERS_EX env =
     (let reg = (\<lambda>prio. handler prio ''ygopro::ygopro_handlers'') in
      [(4, reg 128 ''on_duel_start'' (run_on_duel_start env)),
       (5, reg 128 ''on_validate_deck'' (run_on_validate_deck env)),
       (6, reg 128 ''on_send_deck_validation'' run_on_send_deck_validation),
       (1, reg 128 ''on_client_join'' (run_on_client_join env)),
       (1, reg 250 ''on_client_join_final'' run_on_client_join_final),
       (11, reg 128 ''on_generate_replay'' (run_on_generate_replay env)),
       (11, reg 255 ''on_generate_replay_final'' run_on_generate_replay_final),
       (10, reg 128 ''on_duel_end'' (run_on_duel_end env)),
       (12, reg 250 ''on_judge_continue_match_kill'' run_on_judge_match_kill),
       (12, reg 251 ''on_judge_continue_somebody_leave'' run_on_judge_somebody_leave),
       (20, reg 128 ''on_match_end'' run_on_match_end),
       (13, reg 128 ''on_recreate_duel'' (run_on_recreate_duel env))])"

end
