(* ===== verification/CoreHandlers.thy ===== *)
theory CoreHandlers
  imports RoomHandlers
begin

text \<open>
  The handlers of the engine's messages every kind of room shares (ygocore handlers.rs): running the
  engine until it waits for a player, who a message is sent to and what is refreshed around it.
\<close>

section \<open>The response of a handler\<close>

record CoreResponse =
  cr_target :: SendTarget
  cr_player :: CorePlayer
  cr_locations :: u8
  cr_sequence :: i8
  cr_query :: u32

definition CoreResponse_default :: CoreResponse where
  "CoreResponse_default =
     \<lparr> cr_target = To_All, cr_player = NoPlayer, cr_locations = 0, cr_sequence = - 1, cr_query = 0 \<rparr>"

definition CoreResponse_mul :: "CoreResponse \<Rightarrow> CoreResponse \<Rightarrow> CoreResponse" where
  "CoreResponse_mul a b =
     \<lparr> cr_target =
         (if cr_target a = To_All then cr_target b else if cr_target b = To_All then cr_target a else cr_target b),
       cr_player = CorePlayer_mul (cr_player a) (cr_player b),
       cr_locations = cr_locations a OR cr_locations b,
       cr_sequence = (if sint (cr_sequence b) < sint (cr_sequence a) then cr_sequence a else cr_sequence b),
       cr_query = cr_query a OR cr_query b \<rparr>"

definition core_nothing :: "unit \<Rightarrow> CoreResponse" where
  "core_nothing u = CoreResponse_default"

definition core_to_core :: "CorePlayer \<Rightarrow> CoreResponse" where
  "core_to_core p = CoreResponse_default \<lparr> cr_target := To_Core p \<rparr>"

definition core_to :: "SendTarget \<Rightarrow> CoreResponse" where
  "core_to t = CoreResponse_default \<lparr> cr_target := t \<rparr>"

definition core_refresh :: "CorePlayer \<Rightarrow> u8 \<Rightarrow> CoreResponse" where
  "core_refresh p ls = CoreResponse_default \<lparr> cr_player := p, cr_locations := ls \<rparr>"

definition core_refresh_card :: "CorePlayer \<times> u8 \<times> i8 \<Rightarrow> CoreResponse" where
  "core_refresh_card = (\<lambda>(p, ls, i). CoreResponse_default \<lparr> cr_player := p, cr_locations := ls, cr_sequence := i \<rparr>)"

definition core_refresh_query :: "CorePlayer \<Rightarrow> u8 \<Rightarrow> i8 \<Rightarrow> u32 \<Rightarrow> CoreResponse" where
  "core_refresh_query p ls i q =
     \<lparr> cr_target = To_All, cr_player = p, cr_locations = ls, cr_sequence = i, cr_query = q \<rparr>"

section \<open>Running the engine\<close>

function read_messages :: "lzma_crate \<Rightarrow> bytes \<Rightarrow> gm_Message list res" where
  "read_messages z bs =
     (case rd_gm z bs of
        Inl p \<Rightarrow> Inl p
      | Inr None \<Rightarrow> Inr []
      | Inr (Some (m, r)) \<Rightarrow>
          if length bs \<le> length r then Inl Diverges
          else and_then (read_messages z r) (\<lambda>ms. Inr (m # ms)))"
  by pat_completeness auto
termination by (relation "measure (length \<circ> snd)") auto

declare read_messages.simps [simp del]

definition evolve_round ::
  "'c env \<Rightarrow> ('c, 'a) Duel_scheme \<Rightarrow> (gm_Message list \<times> ProcessResultFlags \<times> ('c, 'a) Duel_scheme) res" where
  "evolve_round env d =
     (case Core_process (env_api env) (d_core d) of (result, core) \<Rightarrow>
        and_then (ProcessResult_flags result) (\<lambda>flag.
        let n = unat (ProcessResult_data_length result) in
        if n = 0 then Inr ([], flag, d \<lparr> d_core := core \<rparr>)
        else case Core_get_message (env_api env) (d_core_request_buffer d) core of (buf, core') \<Rightarrow>
          and_then (slice_to buf n) (\<lambda>bs.
          and_then (read_messages (env_lzma env) bs) (\<lambda>ms.
            Inr (ms, flag, d \<lparr> d_core := core', d_core_request_buffer := buf \<rparr>)))))"

definition stops_evolving :: "gm_Message \<Rightarrow> bool" where
  "stops_evolving m \<longleftrightarrow> gm_waiting_for m \<noteq> None \<or> gm_type m = gm_T_Retry \<or> gm_type m = gm_T_Win"

definition evolve_done :: "ProcessResultFlags \<Rightarrow> gm_Message list \<Rightarrow> bool" where
  "evolve_done flag messages \<longleftrightarrow> flag = PR_End \<or> (messages \<noteq> [] \<and> stops_evolving (last messages))"

text \<open>The loop ends only when the engine lets it: without a value, it runs forever.\<close>

partial_function (option) evolve_loop ::
  "'c env \<Rightarrow> gm_Message list \<Rightarrow> ('c, 'a) Duel_scheme \<Rightarrow> (gm_Message list \<times> ('c, 'a) Duel_scheme) res option" where
  "evolve_loop env messages d =
     (case evolve_round env d of
        Inl p \<Rightarrow> Some (Inl p)
      | Inr (ms, flag, d') \<Rightarrow>
          if evolve_done flag (messages @ ms) then Some (Inr (messages @ ms, d'))
          else evolve_loop env (messages @ ms) d')"

definition evolve :: "'c env \<Rightarrow> ('c, 'a) Duel_scheme \<Rightarrow> (gm_Message list \<times> ('c, 'a) Duel_scheme) res" where
  "evolve env d =
     (if core_ended (d_core d) then Inr ([], d)
      else case evolve_loop env [] d of None \<Rightarrow> Inl Diverges | Some r \<Rightarrow> r)"

section \<open>The handlers\<close>

type_synonym core_request = "(gm_Message, Netplayer) Request"
type_synonym ('c, 'a) core_body = "(core_request, ('c, 'a) Duel_scheme, CoreResponse) body"

text \<open>Most handlers look at the message and decide; the others change the room.\<close>

definition deciding :: "(gm_Message \<Rightarrow> CoreResponse option) \<Rightarrow> ('c, 'a) core_body" where
  "deciding f = on_duel (\<lambda>q d. Inr (q, d, f (rq_message q)))"

definition on_all_message :: "gm_Message \<Rightarrow> SendTarget" where
  "on_all_message m = (case gm_waiting_for m of Some p \<Rightarrow> To_Core p | None \<Rightarrow> To_All)"

definition on_win :: "gm_Win \<Rightarrow> ('c, 'a) Duel_scheme \<Rightarrow> ('c, 'a) Duel_scheme" where
  "on_win m = queue_request_ex (Y_DuelEnd (gm_Win_winner m) (gm_Win_reason m))"

definition field_and_hand :: u8 where
  "field_and_hand = Location_bits Location_MZone OR Location_bits Location_SZone OR Location_bits Location_Hand"

definition both_zones :: u8 where
  "both_zones = Location_bits Location_MZone OR Location_bits Location_SZone"

definition on_select_command :: CoreResponse where
  "on_select_command = core_refresh_query AllPlayers field_and_hand (- 1) 0"

definition on_confirm_cards :: "gm_ConfirmCards \<Rightarrow> SendTarget" where
  "on_confirm_cards m =
     (case gm_ConfirmCards_cards m of
        c # cs \<Rightarrow> if cp_location c = Location_bits Location_Deck then To_Core (gm_ConfirmCards_player m) else To_All
      | [] \<Rightarrow> To_All)"

definition on_shuffle_hand :: "gm_ShuffleHand \<Rightarrow> CoreResponse" where
  "on_shuffle_hand m = core_refresh_query (gm_ShuffleHand_player m) (Location_bits Location_Hand) (- 1) 0x781fff"

definition on_swap_grave_deck :: "gm_SwapGraveDeck \<Rightarrow> CoreResponse" where
  "on_swap_grave_deck m = core_refresh (gm_SwapGraveDeck_player m) (Location_bits Location_Grave)"

definition on_shuffle_set_card :: "gm_ShuffleSetCard \<Rightarrow> CoreResponse" where
  "on_shuffle_set_card m = core_refresh_query AllPlayers (gm_ShuffleSetCard_location m) (- 1) 0x181fff"

definition on_shuffle_extra :: "gm_ShuffleExtra \<Rightarrow> CoreResponse" where
  "on_shuffle_extra m = core_refresh (gm_ShuffleExtra_player m) (Location_bits Location_Extra)"

definition on_new_turn :: CoreResponse where
  "on_new_turn = core_refresh AllPlayers field_and_hand"

definition on_new_phase :: CoreResponse where
  "on_new_phase = core_refresh AllPlayers field_and_hand"

definition on_move :: "gm_Move \<Rightarrow> CorePlayer \<times> u8 \<times> i8" where
  "on_move m =
     (let cur = gm_Move_current m; prev = gm_Move_previous m in
      if il_location cur \<noteq> 0 \<and> \<not> intersects (il_location cur) (Location_bits Location_Overlay) \<and>
         (il_location cur \<noteq> il_location prev \<or> il_controller cur \<noteq> il_controller prev)
      then (il_controller cur, il_location cur, il_sequence cur) else (NoPlayer, 0, - 1))"

definition on_position_change :: "gm_PositionChange \<Rightarrow> CorePlayer \<times> u8 \<times> i8" where
  "on_position_change m =
     (if Position_is_face_down (gm_PositionChange_previous_position m) \<and>
         \<not> Position_is_face_down (gm_PositionChange_current_position m)
      then (gm_PositionChange_controller m, gm_PositionChange_location m, gm_PositionChange_sequence m)
      else (NoPlayer, 0, - 1))"

definition on_flip_summoning :: "gm_FlipSummoning \<Rightarrow> CorePlayer \<times> u8 \<times> i8" where
  "on_flip_summoning m =
     (let p = gm_FlipSummoning_position m in (il_controller p, il_location p, il_sequence p))"

definition on_summoned :: CoreResponse where
  "on_summoned = core_refresh AllPlayers both_zones"

definition on_chain :: CoreResponse where
  "on_chain = core_refresh AllPlayers field_and_hand"

definition on_card_selected :: SendTarget where
  "on_card_selected = To_None"

definition on_damage_step :: CoreResponse where
  "on_damage_step = core_refresh AllPlayers (Location_bits Location_MZone)"

definition on_missed_effect :: "gm_MissedEffect \<Rightarrow> CorePlayer" where
  "on_missed_effect m = il_controller (gm_MissedEffect_location m)"

definition on_match_kill :: "gm_MatchKill \<Rightarrow> ('c, 'a) Duel_scheme \<Rightarrow> ('c, 'a) Duel_scheme" where
  "on_match_kill m d = d \<lparr> d_match_kill_card_code := gm_MatchKill_card_code m \<rparr>"

definition run_on_win :: "('c, 'a) core_body" where
  "run_on_win =
     on_duel (\<lambda>q d. case rq_message q of
        GM_GroupA (GMA_Win m) \<Rightarrow> Inr (q, on_win m d, Some (core_nothing ()))
      | _ \<Rightarrow> skipped q d)"

definition run_on_match_kill :: "('c, 'a) core_body" where
  "run_on_match_kill =
     on_duel (\<lambda>q d. case rq_message q of
        GM_GroupD (GMD_MatchKill m) \<Rightarrow> Inr (q, on_match_kill m d, Some (core_nothing ()))
      | _ \<Rightarrow> skipped q d)"

text \<open>The decision of the handler registered for the kind of a message; a message of unknown
  kind fits no handler.\<close>

fun decide_A :: "gm_GroupA \<Rightarrow> CoreResponse option" where
    "decide_A (GMA_SelectBattleCommand m) = Some on_select_command"
  | "decide_A (GMA_SelectIdleCommand m) = Some on_select_command"
  | "decide_A m = None"

fun decide_B :: "gm_GroupB \<Rightarrow> CoreResponse option" where
    "decide_B (GMB_ConfirmCards m) = Some (core_to (on_confirm_cards m))"
  | "decide_B (GMB_ShuffleHand m) = Some (on_shuffle_hand m)"
  | "decide_B (GMB_SwapGraveDeck m) = Some (on_swap_grave_deck m)"
  | "decide_B (GMB_ShuffleSetCard m) = Some (on_shuffle_set_card m)"
  | "decide_B (GMB_ShuffleExtra m) = Some (on_shuffle_extra m)"
  | "decide_B (GMB_Move m) = Some (core_refresh_card (on_move m))"
  | "decide_B (GMB_PositionChange m) = Some (core_refresh_card (on_position_change m))"
  | "decide_B (GMB_FlipSummoning m) = Some (core_refresh_card (on_flip_summoning m))"
  | "decide_B m = None"

fun decide :: "gm_Message \<Rightarrow> CoreResponse option" where
    "decide (GM_GroupA m) = decide_A m"
  | "decide (GM_GroupB m) = decide_B m"
  | "decide (GM_GroupC (GMC_MissedEffect m)) = Some (core_to_core (on_missed_effect m))"
  | "decide m = None"

type_synonym ('c, 'a) core_handler = "(core_request, ('c, 'a) Duel_scheme State, CoreResponse) Handler"

text \<open>The handlers that take no message run for whatever has their key.\<close>

definition YGOCORE_HANDLERS :: "(u8 \<times> ('c, 'a) core_handler) list" where
  "YGOCORE_HANDLERS =
     (let reg = (\<lambda>prio. handler prio ''ygopro::ygocore_handlers''); always' = (\<lambda>r. deciding (\<lambda>m. Some r)) in
      [(0, reg 127 ''on_all_message'' (deciding (\<lambda>m. Some (core_to (on_all_message m))))),
       (5, reg 128 ''on_win'' run_on_win),
       (10, reg 128 ''on_select_battle_command'' (deciding decide)),
       (11, reg 128 ''on_select_idle_command'' (deciding decide)),
       (31, reg 128 ''on_confirm_cards'' (deciding decide)),
       (33, reg 128 ''on_shuffle_hand'' (deciding decide)),
       (35, reg 128 ''on_swap_grave_deck'' (deciding decide)),
       (36, reg 128 ''on_shuffle_set_card'' (deciding decide)),
       (39, reg 128 ''on_shuffle_extra'' (deciding decide)),
       (40, reg 128 ''on_new_turn'' (always' on_new_turn)),
       (41, reg 128 ''on_new_phase'' (always' on_new_phase)),
       (50, reg 128 ''on_move'' (deciding decide)),
       (53, reg 128 ''on_position_change'' (deciding decide)),
       (61, reg 128 ''on_summoned'' (always' on_summoned)),
       (63, reg 128 ''on_special_summoned'' (always' on_summoned)),
       (64, reg 128 ''on_flip_summoning'' (deciding decide)),
       (65, reg 128 ''on_flip_summoned'' (always' on_summoned)),
       (71, reg 128 ''on_chained'' (always' on_chain)),
       (73, reg 128 ''on_chain_solved'' (always' on_chain)),
       (74, reg 128 ''on_chain_end'' (always' on_chain)),
       (80, reg 128 ''on_card_selected'' (always' (core_to on_card_selected))),
       (113, reg 128 ''on_damage_step_start'' (always' on_damage_step)),
       (114, reg 128 ''on_damage_step_end'' (always' on_damage_step)),
       (120, reg 128 ''on_missed_effect'' (deciding decide)),
       (170, reg 128 ''on_match_kill'' run_on_match_kill)])"

end
