(* ===== verification/Plugins.thy ===== *)
theory Plugins
  imports CoreHandlers
begin

text \<open>
  Plugins every room runs by default: the termination policy (terminate.rs), the version check
  (version check.rs) and the time limit of the players (time limit.rs). A plugin registers handlers
  beside those of the room; here are their functions and their wrappers, the registrations are in
  PluginSet. The timer of the time limit is a task that sends a command every second, so its ticks are requests
  from outside.
\<close>

section \<open>Termination\<close>

definition everybody_left :: "('c, 'a) Duel_scheme \<Rightarrow> bool" where
  "everybody_left d \<longleftrightarrow> nobody_seated d \<and> slab_is_empty (d_observers d)"

fun is_player_left :: "('c, 'a) Duel_scheme \<Rightarrow> SendTarget \<Rightarrow> bool" where
    "is_player_left d (To_Single (Player i)) \<longleftrightarrow> get_player d i = None"
  | "is_player_left d (To_Single (Observer i)) \<longleftrightarrow> \<not> slab_contains (d_observers d) (unat i)"
  | "is_player_left d (To_Single (Undecided i)) \<longleftrightarrow> \<not> slab_contains (d_uninit_players d) (unat i)"
  | "is_player_left d (To_Single UnknownPlayer) \<longleftrightarrow> everybody_left d"
  | "is_player_left d (To_Except p) \<longleftrightarrow> everybody_left d"
  | "is_player_left d (To_Core p) \<longleftrightarrow> False"
  | "is_player_left d To_All \<longleftrightarrow> everybody_left d"
  | "is_player_left d To_AllPlayer \<longleftrightarrow> nobody_seated d"
  | "is_player_left d To_AllObserver \<longleftrightarrow> slab_is_empty (d_observers d)"
  | "is_player_left d To_None \<longleftrightarrow> False"

definition terminate_on_leave_game :: "'c env \<Rightarrow> ('c, 'a) ctos_body" where
  "terminate_on_leave_game env =
     on_duel (\<lambda>q d. Inr (q, d, Some (into_response_bool (is_player_left d (env_terminate_when env)))))"

definition terminate_on_match_end :: "'c env \<Rightarrow> ('c, 'a) ex_body" where
  "terminate_on_match_end env =
     judging (\<lambda>d. lit (if env_terminate_when_match_end env then ''terminate'' else ''continue''))"

section \<open>Version check\<close>

definition before_join_game :: "'c env \<Rightarrow> ('c, 'a) ctos_body" where
  "before_join_game env b =
     (case rq_message (request b) of
        Ctos_JoinGame version gameid pass \<Rightarrow>
          if version \<noteq> env_version env
          then Inr (b \<lparr> stop_flag := True \<rparr>,
                    Some (into_response_message (Stoc_ErrorMessage (ErrorMessage_VersionError (env_version env)))))
          else Inr (b, Some (into_response_unit ()))
      | _ \<Rightarrow> Inr (b, None))"

section \<open>Time limit\<close>

definition time_limit_of :: "'d State \<Rightarrow> TimeLimit" where
  "time_limit_of st = (case st_time_limit st of None \<Rightarrow> TimeLimit_default | Some t \<Rightarrow> t)"

text \<open>A handler with the attachment, which is made when it is looked up first.\<close>

definition with_time_limit ::
  "(TimeLimit \<Rightarrow> 'd \<Rightarrow> TimeLimit \<times> 'd) \<Rightarrow> 'd State \<Rightarrow> 'd State" where
  "with_time_limit f st =
     (case f (time_limit_of st) (st_duel st) of (t, d) \<Rightarrow> st \<lparr> st_time_limit := Some t, st_duel := d \<rparr>)"

definition reset_elapsed :: "TimeLimit \<Rightarrow> TimeLimit" where
  "reset_elapsed t = t \<lparr> tl_time_elapsed := 0 \<rparr>"

definition refill_time :: "u16 \<Rightarrow> ('c, 'a) Duel_scheme \<Rightarrow> ('c, 'a) Duel_scheme" where
  "refill_time limit d = d \<lparr> d_players := map (map_option (\<lambda>p. p \<lparr> dp_time_limit := limit \<rparr>)) (d_players d) \<rparr>"

definition saturating_sub :: "u16 \<Rightarrow> u16 \<Rightarrow> u16" where
  "saturating_sub a b = (if a < b then 0 else a - b)"

definition spend_time :: "u32 \<Rightarrow> DuelPlayer \<Rightarrow> DuelPlayer" where
  "spend_time elapsed p = p \<lparr> dp_time_limit := saturating_sub (dp_time_limit p) (ucast elapsed) \<rparr>"

definition time_on_create_game :: "TimeLimit \<Rightarrow> ('c, 'a) Duel_scheme \<Rightarrow> TimeLimit \<times> ('c, 'a) Duel_scheme" where
  "time_on_create_game t d = (reset_elapsed t, d \<lparr> d_last_response := None \<rparr>)"

definition time_on_duel_start :: "TimeLimit \<Rightarrow> ('c, 'a) Duel_scheme \<Rightarrow> TimeLimit \<times> ('c, 'a) Duel_scheme" where
  "time_on_duel_start t d =
     (let limit = hi_time_limit (d_host_info d) in
      if 0 < limit then ((reset_elapsed t) \<lparr> tl_timer_task := True \<rparr>, refill_time limit d) else (t, d))"

definition time_on_new_turn :: "TimeLimit \<Rightarrow> ('c, 'a) Duel_scheme \<Rightarrow> TimeLimit \<times> ('c, 'a) Duel_scheme" where
  "time_on_new_turn t d = (reset_elapsed t, refill_time (hi_time_limit (d_host_info d)) d)"

definition timer_tick :: "TimeLimit \<Rightarrow> ('c, 'a) Duel_scheme \<Rightarrow> TimeLimit \<times> ('c, 'a) Duel_scheme" where
  "timer_tick t d =
     (case d_last_response d of
        None \<Rightarrow> (t, d)
      | Some i \<Rightarrow>
          if hi_time_limit (d_host_info d) = 0 then (t, d)
          else let t' = t \<lparr> tl_time_elapsed := if tl_time_elapsed t = - 1 then - 1 else tl_time_elapsed t + 1 \<rparr>;
                   timed_out = (case get_player d i of
                     None \<Rightarrow> False | Some p \<Rightarrow> ucast (dp_time_limit p) \<le> tl_time_elapsed t')
               in (t', if timed_out then queue_request_ex (Y_Timeout i) d else d))"

definition time_on_time_confirm ::
  "PlayerIndex \<Rightarrow> TimeLimit \<Rightarrow> ('c, 'a) Duel_scheme \<Rightarrow> TimeLimit \<times> ('c, 'a) Duel_scheme" where
  "time_on_time_confirm i t d =
     (if hi_time_limit (d_host_info d) = 0 \<or> d_last_response d \<noteq> Some i \<or> get_player d i = None then (t, d)
      else (reset_elapsed t,
            map_player i (\<lambda>p. spend_time (tl_time_elapsed t) (set_state (Allow_Some ctos_T_Response) p)) d))"

definition time_on_response ::
  "PlayerIndex \<Rightarrow> TimeLimit \<Rightarrow> ('c, 'a) Duel_scheme \<Rightarrow> TimeLimit \<times> ('c, 'a) Duel_scheme" where
  "time_on_response i t d =
     (if hi_time_limit (d_host_info d) = 0 then (t, d)
      else (reset_elapsed t, map_player i (spend_time (tl_time_elapsed t)) d))"

definition time_on_duel_end :: "TimeLimit \<Rightarrow> 'd \<Rightarrow> TimeLimit \<times> 'd" where
  "time_on_duel_end t d = (t \<lparr> tl_timer_task := False \<rparr>, d)"

definition timed :: "(TimeLimit \<Rightarrow> 'd \<Rightarrow> TimeLimit \<times> 'd) \<Rightarrow> 'r \<Rightarrow> ('q, 'd, 'r) body" where
  "timed f r = on_state (\<lambda>q st. Inr (q, with_time_limit f st, Some r))"

definition timed_by_player ::
  "(PlayerIndex \<Rightarrow> TimeLimit \<Rightarrow> ('c, 'a) Duel_scheme \<Rightarrow> TimeLimit \<times> ('c, 'a) Duel_scheme) \<Rightarrow> ('c, 'a) ctos_body" where
  "timed_by_player f =
     on_state (\<lambda>q st. case extract_player q (st_duel st) of
        None \<Rightarrow> skipped q st
      | Some i \<Rightarrow> done_with q (with_time_limit (f i) st))"

end
