(* ===== verification/ClockPlugins.thy ===== *)
theory ClockPlugins
  imports Plugins
begin

text \<open>
  The two plugins that give time back to the players: time\_backed.rs, which refills the clock of a player
  after a meaningful answer from a budget for the turn, and time\_compensator.rs, which charges quick
  answers to a second wallet. Both work beside the time limit.
\<close>

definition saturating_add :: "u16 \<Rightarrow> u16 \<Rightarrow> u16" where
  "saturating_add a b = (if unat a + unat b < 2 ^ 16 then a + b else - 1)"

lemma unat_saturating_add: "unat (saturating_add a b) = min (unat a + unat b) (2 ^ 16 - 1)"
  by (auto simp: saturating_add_def unat_word_ariths unsigned_minus_1_eq_mask mask_eq_exp_minus_1)

lemma unat_saturating_sub: "unat (saturating_sub a b) = unat a - unat b"
  by (auto simp: saturating_sub_def word_less_nat_alt unat_sub_if')

section \<open>Time given back\<close>

definition may_recover :: "u16 \<Rightarrow> DuelPlayer \<Rightarrow> bool" where
  "may_recover limit p \<longleftrightarrow> 0 < dp_time_backed p \<and> dp_time_limit p < limit"

definition time_back :: "u16 \<Rightarrow> u16 \<Rightarrow> DuelPlayer \<Rightarrow> DuelPlayer" where
  "time_back add limit p =
     (if may_recover limit p
      then p \<lparr> dp_time_limit := saturating_add (dp_time_limit p) add,
               dp_time_backed := saturating_sub (dp_time_backed p) add \<rparr>
      else p)"

text \<open>What a player does after an answer that counts.\<close>

definition after_meaningful ::
  "(u16 \<Rightarrow> DuelPlayer \<Rightarrow> DuelPlayer) \<Rightarrow> PlayerIndex \<Rightarrow> PlayerResponse \<Rightarrow> ('c, 'a) Duel_scheme \<Rightarrow> ('c, 'a) Duel_scheme" where
  "after_meaningful f i answer d =
     (case d_last_select_message d of
        None \<Rightarrow> d
      | Some m \<Rightarrow> if response_is_meaningful answer m then map_player i (f (hi_time_limit (d_host_info d))) d else d)"

definition backed_on_response ::
  "TimeBackedConfig \<Rightarrow> PlayerIndex \<Rightarrow> PlayerResponse \<Rightarrow> ('c, 'a) Duel_scheme \<Rightarrow> ('c, 'a) Duel_scheme" where
  "backed_on_response cfg = after_meaningful (time_back (tb_add_time_after_operation cfg))"

definition time_backed_budget :: "TimeBackedConfig \<Rightarrow> u16 \<Rightarrow> u16" where
  "time_backed_budget cfg limit =
     (if tb_max_add_time_each_turn cfg = 0 then (if 0 < tb_add_time_after_operation cfg then limit else 0)
      else tb_max_add_time_each_turn cfg)"

definition reset_time_backed :: "TimeBackedConfig \<Rightarrow> ('c, 'a) Duel_scheme \<Rightarrow> ('c, 'a) Duel_scheme" where
  "reset_time_backed cfg d =
     (let limit = hi_time_limit (d_host_info d) in
      if 0 < limit
      then d \<lparr> d_players := map (map_option (\<lambda>p. p \<lparr> dp_time_backed := time_backed_budget cfg limit \<rparr>)) (d_players d) \<rparr>
      else d)"

section \<open>Time compensated\<close>

definition compensator_on_time_confirm ::
  "TimeCompensatorConfig \<Rightarrow> PlayerIndex \<Rightarrow> TimeLimit \<Rightarrow> ('c, 'a) Duel_scheme \<Rightarrow> TimeLimit \<times> ('c, 'a) Duel_scheme" where
  "compensator_on_time_confirm cfg i t d =
     (if hi_time_limit (d_host_info d) = 0 \<or> d_last_response d \<noteq> Some i then (t, d)
      else let elapsed = (ucast (tl_time_elapsed t) :: u16) in
        case get_player d i of
          None \<Rightarrow> (t, d)
        | Some p \<Rightarrow>
            if elapsed < tc_ignore_small_time_under_this_duration cfg \<and> elapsed \<le> dp_time_compensator p
            then (reset_elapsed t, map_player i (\<lambda>p. p \<lparr> dp_time_compensator := dp_time_compensator p - elapsed \<rparr>) d)
            else (t, d))"

definition deposit :: "u16 \<Rightarrow> u16 \<Rightarrow> DuelPlayer \<Rightarrow> DuelPlayer" where
  "deposit add limit p =
     (if may_recover limit p then p \<lparr> dp_time_compensator := saturating_add (dp_time_compensator p) add \<rparr> else p)"

definition compensator_on_response ::
  "TimeCompensatorConfig \<Rightarrow> PlayerIndex \<Rightarrow> PlayerResponse \<Rightarrow> ('c, 'a) Duel_scheme \<Rightarrow> ('c, 'a) Duel_scheme" where
  "compensator_on_response cfg = after_meaningful (deposit (tc_add_small_time_deposit_after_operation cfg))"

definition compensator_on_new_turn :: "TimeCompensatorConfig \<Rightarrow> ('c, 'a) Duel_scheme \<Rightarrow> ('c, 'a) Duel_scheme" where
  "compensator_on_new_turn cfg d =
     (let balance = (if tc_initial_time_balance cfg <s 0 then hi_time_limit (d_host_info d)
                     else ucast (tc_initial_time_balance cfg))
      in d \<lparr> d_players := map (map_option (\<lambda>p. p \<lparr> dp_time_compensator := balance \<rparr>)) (d_players d) \<rparr>)"

section \<open>The wrappers\<close>

definition answering ::
  "(PlayerIndex \<Rightarrow> PlayerResponse \<Rightarrow> ('c, 'a) Duel_scheme \<Rightarrow> ('c, 'a) Duel_scheme) \<Rightarrow> ('c, 'a) ctos_body" where
  "answering f = by_player (\<lambda>m. case m of Ctos_Response r \<Rightarrow> Some r | _ \<Rightarrow> None) (\<lambda>i r d. Inr (f i r d))"

definition run_backed_on_response :: "'c env \<Rightarrow> ('c, 'a) ctos_body" where
  "run_backed_on_response env = answering (backed_on_response (env_time_backed env))"

definition run_backed_on_tp_result :: "'c env \<Rightarrow> ('c, 'a) ctos_body" where
  "run_backed_on_tp_result env = on_any (\<lambda>d. Inr (reset_time_backed (env_time_backed env) d))"

definition run_backed_on_new_turn :: "'c env \<Rightarrow> ('c, 'a) core_body" where
  "run_backed_on_new_turn env =
     on_duel (\<lambda>q d. Inr (q, reset_time_backed (env_time_backed env) d, Some (core_nothing ())))"

text \<open>The attachment is looked up, and made, before the player is.\<close>

definition run_compensator_on_time_confirm :: "'c env \<Rightarrow> ('c, 'a) ctos_body" where
  "run_compensator_on_time_confirm env =
     on_state (\<lambda>q st. let st' = st \<lparr> st_time_limit := Some (time_limit_of st) \<rparr> in
       case extract_player q (st_duel st') of
         None \<Rightarrow> skipped q st'
       | Some i \<Rightarrow> done_with q (with_time_limit (compensator_on_time_confirm (env_time_compensator env) i) st'))"

definition run_compensator_on_response :: "'c env \<Rightarrow> ('c, 'a) ctos_body" where
  "run_compensator_on_response env = answering (compensator_on_response (env_time_compensator env))"

definition run_compensator_on_new_turn :: "'c env \<Rightarrow> ('c, 'a) core_body" where
  "run_compensator_on_new_turn env =
     on_duel (\<lambda>q d. Inr (q, compensator_on_new_turn (env_time_compensator env) d, Some (core_nothing ())))"

section \<open>How much time a turn can give back\<close>

text \<open>A turn as one player's clock sees it: time is spent, and given back after meaningful answers.\<close>

datatype clock_event = Spend u32 | Answered

fun clock_step :: "u16 \<Rightarrow> u16 \<Rightarrow> clock_event \<Rightarrow> DuelPlayer \<Rightarrow> DuelPlayer" where
    "clock_step add limit (Spend elapsed) p = spend_time elapsed p"
  | "clock_step add limit Answered p = time_back add limit p"

definition clock_run :: "u16 \<Rightarrow> u16 \<Rightarrow> clock_event list \<Rightarrow> DuelPlayer \<Rightarrow> DuelPlayer" where
  "clock_run add limit es p = fold (clock_step add limit) es p"

text \<open>The seconds the clock lost to spending, counted as they were taken off.\<close>

fun time_used :: "u16 \<Rightarrow> u16 \<Rightarrow> clock_event list \<Rightarrow> DuelPlayer \<Rightarrow> nat" where
    "time_used add limit [] p = 0"
  | "time_used add limit (Spend elapsed # es) p =
       min (unat (dp_time_limit p)) (unat (ucast elapsed :: u16)) + time_used add limit es (spend_time elapsed p)"
  | "time_used add limit (Answered # es) p = time_used add limit es (time_back add limit p)"

text \<open>What a run gives back is paid from the budget of the turn; the last payment may exceed what was
  left of it.\<close>

lemma time_backed_spend [simp]:
  "dp_time_backed (spend_time elapsed p) = dp_time_backed p"
  by (simp add: spend_time_def)

lemma time_limit_spend [simp]:
  "unat (dp_time_limit (spend_time elapsed p)) = unat (dp_time_limit p) - unat (ucast elapsed :: u16)"
  by (simp add: spend_time_def unat_saturating_sub)

lemma no_recovery: "dp_time_backed p = 0 \<Longrightarrow> clock_step add limit Answered p = p"
  by (simp add: time_back_def may_recover_def)

text \<open>The bound, while there is a budget, counts one payment that may exceed it.\<close>

definition overdraft :: "u16 \<Rightarrow> DuelPlayer \<Rightarrow> nat" where
  "overdraft add p = (if dp_time_backed p = 0 then 0 else unat add - 1)"

lemma time_back_bound:
  "unat (dp_time_limit (time_back add limit p)) + unat (dp_time_backed (time_back add limit p))
     + overdraft add (time_back add limit p)
   \<le> unat (dp_time_limit p) + unat (dp_time_backed p) + overdraft add p"
proof (cases "may_recover limit p")
  case True
  then have pos: "0 < unat (dp_time_backed p)" by (simp add: may_recover_def word_less_nat_alt)
  have backed: "unat (dp_time_backed (time_back add limit p)) = unat (dp_time_backed p) - unat add"
    using True by (simp add: time_back_def unat_saturating_sub)
  have "unat (dp_time_limit (time_back add limit p)) \<le> unat (dp_time_limit p) + unat add"
    using True by (simp add: time_back_def unat_saturating_add)
  moreover have "dp_time_backed (time_back add limit p) = 0 \<longleftrightarrow> unat (dp_time_backed p) \<le> unat add"
    using backed by (metis diff_is_0_eq unat_eq_zero)
  ultimately show ?thesis using pos backed by (auto simp: overdraft_def)
qed (simp add: time_back_def overdraft_def)

lemma clock_run_bound:
  "unat (dp_time_limit (clock_run add limit es p)) + time_used add limit es p
     + unat (dp_time_backed (clock_run add limit es p)) + overdraft add (clock_run add limit es p)
   \<le> unat (dp_time_limit p) + unat (dp_time_backed p) + overdraft add p"
proof (induction add limit es p rule: time_used.induct)
  case (2 add limit elapsed es p)
  then show ?case by (simp add: clock_run_def overdraft_def)
next
  case (3 add limit es p)
  then show ?case using time_back_bound [of add limit p] by (simp add: clock_run_def)
qed (simp add: clock_run_def)


end
