(* ===== verification/WatchPlugins.thy ===== *)
theory WatchPlugins
  imports ClockPlugins "HOL-Library.Sublist"
begin

text \<open>
  Three small plugins: no\_init\_shuffle\_deck.rs keeps the decks in the order they were sent,
  preload\_script.rs loads scripts into the engine before a duel, and soumatou.rs lets a client join
  in the middle of a duel, as an observer who is sent what the observers have seen so far.
\<close>

section \<open>No shuffling\<close>

definition stop_first_shuffle :: "('c, 'a) ex_body" where
  "stop_first_shuffle b = Inr (b \<lparr> stop_flag := True \<rparr>, Some (into_response_unit ()))"

section \<open>Scripts loaded ahead\<close>

fun preload_scripts :: "'c core_api \<Rightarrow> str list \<Rightarrow> 'c Core \<Rightarrow> 'c Core res" where
    "preload_scripts api [] c = Inr c"
  | "preload_scripts api (s # ss) c = and_then (Core_preload_script api s c) (\<lambda>(n, c'). preload_scripts api ss c')"

definition preload_on_tp_result :: "'c env \<Rightarrow> ('c, 'a) Duel_scheme \<Rightarrow> ('c, 'a) Duel_scheme res" where
  "preload_on_tp_result env d =
     and_then (preload_scripts (env_api env) (env_preloaded_scripts env) (d_core d)) (\<lambda>c. Inr (d \<lparr> d_core := c \<rparr>))"

definition run_preload_on_tp_result :: "'c env \<Rightarrow> ('c, 'a) ctos_body" where
  "run_preload_on_tp_result env = on_any (preload_on_tp_result env)"

section \<open>Joining in the middle of a duel\<close>

text \<open>The messages that are for one client and say nothing of the duel.\<close>

definition directed_keys :: "stoc_MessageType list" where
  "directed_keys =
     [stoc_T_SelectHand, stoc_T_SelectTp, stoc_T_HandResult, stoc_T_ChangeSide, stoc_T_DeckCount, stoc_T_JoinGame,
      stoc_T_TypeChange, stoc_T_LeaveGame, stoc_T_TimeLimit, stoc_T_TeammateSurrender]"

definition starts_for_a_player :: "gm_Message \<Rightarrow> bool" where
  "starts_for_a_player m =
     (case m of
        GM_GroupA (GMA_Start s) \<Rightarrow> \<not> PlayerType_is_observer (gm_Start_player_type s)
      | _ \<Rightarrow> False)"

definition told_again :: "stoc_Message \<Rightarrow> bool" where
  "told_again m \<longleftrightarrow>
     stoc_type m \<notin> set directed_keys \<and>
     (case m of Stoc_GameMessage g \<Rightarrow> gm_waiting_for g = None \<and> \<not> starts_for_a_player g | _ \<Rightarrow> True)"

definition history :: "stoc_Message list \<Rightarrow> stoc_Message list" where
  "history ms = filter told_again (dropWhile (\<lambda>m. stoc_type m \<noteq> stoc_T_DuelStart) ms)"

definition tell_all :: "stoc_Message list \<Rightarrow> SendTarget \<Rightarrow> Sender \<Rightarrow> Sender" where
  "tell_all ms t s = fold (\<lambda>m. send_without_record m t) ms s"

definition soumatou :: "Argument \<Rightarrow> ('c, 'a) Duel_scheme \<Rightarrow> ('c, 'a) Duel_scheme" where
  "soumatou arg d =
     (case arg of
        Arg_Netplayer p \<Rightarrow> map_sender (\<lambda>s. tell_all (history (s_masked_messages s)) (To_Single p) s) d
      | _ \<Rightarrow> d)"

definition soumatou_on_join :: "Netplayer \<Rightarrow> ('c, 'a) Duel_scheme \<Rightarrow> ('c, 'a) Duel_scheme" where
  "soumatou_on_join player d =
     (if DuelStage_Begin < d_stage d
      then (case player of
              Observer i \<Rightarrow> queue_command (lit ''soumatou'') (Arg_Netplayer (Observer i)) d
            | _ \<Rightarrow> d)
      else d)"

text \<open>A client that connects is kept among those without a position, and told so.\<close>

definition connect_client :: "'c env \<Rightarrow> chan \<Rightarrow> nat \<Rightarrow> ('c, 'a) Duel_scheme \<Rightarrow> ('c, 'a) Duel_scheme" where
  "connect_client env c r d =
     (case slab_insert (env_fresh env) (BaseDuelPlayer_new c) (d_uninit_players d) of (k, uninit) \<Rightarrow>
        map_sender (\<lambda>s. s \<lparr> s_undecided := snd (slab_insert (env_fresh env) c (s_undecided s)) \<rparr>)
          (d \<lparr> d_uninit_players := uninit, d_positions := d_positions d @ [(r, Undecided (of_nat k))] \<rparr>))"

definition run_soumatou_on_join :: "('c, 'a) ctos_body" where
  "run_soumatou_on_join = by_anybody Some (\<lambda>p m d. Inr (soumatou_on_join p d))"

text \<open>This handler looks at the response so far, and makes it one that continues when it takes the client.\<close>

definition run_soumatou_on_client_join :: "'c env \<Rightarrow> ('c, 'a) ex_body" where
  "run_soumatou_on_client_join env b =
     (case rq_message (request b) of
        Y_ClientJoin c reply \<Rightarrow>
          (case (DuelStage_Begin < d_stage (st_duel (state b)), reply) of
             (True, Some r) \<Rightarrow>
               Inr (b \<lparr> request := request b \<lparr> rq_message := Y_ClientJoin c None \<rparr>,
                        state := state b \<lparr> st_duel := connect_client env c r (st_duel (state b)) \<rparr>,
                        response := Continue \<rparr>,
                    Some (into_response_unit ()))
           | _ \<Rightarrow> Inr (b, Some (into_response_unit ())))
      | _ \<Rightarrow> Inr (b, None))"

lemma on_client_join_connects:
  "on_client_join env c (Some r) d =
     (if DuelStage_Begin < d_stage d then (Some r, d) else (None, connect_client env c r d))"
  by (simp add: on_client_join_def connect_client_def split: prod.split)

section \<open>What a late observer is told\<close>

lemma tell_all_out:
  "tell_all ms t s = s \<lparr> s_out := s_out s @ concat (map (\<lambda>m. deliver m (recipients_of t s)) ms) \<rparr>"
proof (induction ms arbitrary: s)
  case (Cons m ms)
  have same: "recipients_of t (s \<lparr> s_out := out \<rparr>) = recipients_of t s" for out
    by (cases "(t, s)" rule: recipients_of.cases) (simp_all add: player_senders_def observer_senders_def)
  show ?case using Cons.IH [of "send_without_record m t s"] by (simp add: tell_all_def send_without_record_def same)
qed (simp add: tell_all_def)

end
