(* ===== verification/Reconnect.thy ===== *)
theory Reconnect
  imports WatchPlugins
begin

text \<open>
  The plugin that shows a player the field again (reconnect.rs): what it remembers of the duel, the
  handler that rebuilds the field from the engine, and the plugin that replaces the length of a match
  (bo.rs). The two rooms share the handler of the request up to their transformer and the number of seats.
\<close>

section \<open>What is remembered\<close>

definition reconnect_of :: "'d State \<Rightarrow> Reconnect" where
  "reconnect_of st = (case st_reconnect st of None \<Rightarrow> Reconnect_default | Some r \<Rightarrow> r)"

definition with_reconnect :: "(Reconnect \<Rightarrow> Reconnect) \<Rightarrow> 'd State \<Rightarrow> 'd State" where
  "with_reconnect f st = st \<lparr> st_reconnect := Some (f (reconnect_of st)) \<rparr>"

definition reconnect_on_new_phase :: "gm_NewPhase \<Rightarrow> Reconnect \<Rightarrow> Reconnect" where
  "reconnect_on_new_phase m r = r \<lparr> rc_phase := gm_NewPhase_phase m \<rparr>"

definition reconnect_on_new_turn :: "gm_NewTurn \<Rightarrow> Reconnect \<Rightarrow> Reconnect" where
  "reconnect_on_new_turn m r = r \<lparr> rc_turn_player := gm_NewTurn_player m \<rparr>"

definition reconnect_on_reverse_deck :: "Reconnect \<Rightarrow> Reconnect" where
  "reconnect_on_reverse_deck r = r \<lparr> rc_deck_reversed := \<not> rc_deck_reversed r \<rparr>"

definition reconnect_on_recreate_duel :: "Reconnect \<Rightarrow> Reconnect" where
  "reconnect_on_recreate_duel r =
     r \<lparr> rc_phase := Phase_Standby, rc_turn_player := FirstAttackPlayer, rc_deck_reversed := False \<rparr>"

text \<open>The attachment is looked up before the message.\<close>

definition remembering :: "(gm_Message \<Rightarrow> (Reconnect \<Rightarrow> Reconnect) option) \<Rightarrow> ('c, 'a) core_body" where
  "remembering f =
     on_state (\<lambda>q st. case f (rq_message q) of
        None \<Rightarrow> skipped q (with_reconnect (\<lambda>r. r) st)
      | Some g \<Rightarrow> Inr (q, with_reconnect g st, Some (core_nothing ())))"

definition run_reconnect_on_new_phase :: "('c, 'a) core_body" where
  "run_reconnect_on_new_phase =
     remembering (\<lambda>m. case m of GM_GroupB (GMB_NewPhase p) \<Rightarrow> Some (reconnect_on_new_phase p) | _ \<Rightarrow> None)"

definition run_reconnect_on_new_turn :: "('c, 'a) core_body" where
  "run_reconnect_on_new_turn =
     remembering (\<lambda>m. case m of GM_GroupB (GMB_NewTurn t) \<Rightarrow> Some (reconnect_on_new_turn t) | _ \<Rightarrow> None)"

definition run_reconnect_on_reverse_deck :: "('c, 'a) core_body" where
  "run_reconnect_on_reverse_deck = remembering (\<lambda>m. Some reconnect_on_reverse_deck)"

definition run_reconnect_on_recreate_duel :: "('c, 'a) ex_body" where
  "run_reconnect_on_recreate_duel = on_state (\<lambda>q st. done_with q (with_reconnect reconnect_on_recreate_duel st))"

section \<open>The field of a player\<close>

definition turn_messages :: "Reconnect \<Rightarrow> gm_Message list" where
  "turn_messages r =
     GM_NewTurn \<lparr> gm_NewTurn_player = FirstAttackPlayer \<rparr> #
     (if rc_turn_player r = SecondAttackPlayer then [GM_NewTurn \<lparr> gm_NewTurn_player = SecondAttackPlayer \<rparr>] else []) @
     [GM_NewPhase \<lparr> gm_NewPhase_phase = rc_phase r \<rparr>]"

definition restart_message :: "HostInfo \<Rightarrow> CorePlayer \<Rightarrow> gm_Message" where
  "restart_message info p =
     GM_Start
       \<lparr> gm_Start_player_type = PlayerType_with_player p PlayerType_new, gm_Start_rule = hi_duel_rule info,
         gm_Start_player1_lp = hi_start_lp info, gm_Start_player2_lp = hi_start_lp info,
         gm_Start_player1_deck_count = 0, gm_Start_player1_extra_count = 0,
         gm_Start_player2_deck_count = 0, gm_Start_player2_extra_count = 0 \<rparr>"

definition field_info :: "'c env \<Rightarrow> ('c, 'a) Duel_scheme \<Rightarrow> (gm_Message \<times> ('c, 'a) Duel_scheme) res" where
  "field_info env d =
     (case Core_query_field_info (env_api env) (d_core_request_buffer d) (d_core d) of (n, buf, core) \<Rightarrow>
        and_then (slice_to buf (usize_of_i32 n)) (\<lambda>bs.
        and_then (rd_gm (env_lzma env) bs) (\<lambda>r.
          case r of
            None \<Rightarrow> Inl UnwrapFailed
          | Some (m, rest) \<Rightarrow> Inr (m, d \<lparr> d_core := core, d_core_request_buffer := buf \<rparr>))))"

text \<open>The cards of the other side are masked, those of one's own are not.\<close>

definition hide_from :: "bool \<Rightarrow> gm_Message list \<Rightarrow> gm_Message list" where
  "hide_from no_mask ms = (if no_mask then ms else map gm_mask ms)"

fun field_cards ::
  "'c env \<Rightarrow> CorePlayer \<Rightarrow> u8 list \<Rightarrow> ('c, 'a) Duel_scheme \<Rightarrow> (gm_Message list \<times> ('c, 'a) Duel_scheme) res" where
    "field_cards env me [] d = Inr ([], d)"
  | "field_cards env me (l # ls) d =
       and_then (refresh_location env (CorePlayer_opponent me) l Query_all d) (\<lambda>(theirs, d1).
       and_then (refresh_location env me l Query_all d1) (\<lambda>(mine, d2).
       and_then (field_cards env me ls d2) (\<lambda>(ms, d3).
         Inr (hide_from (d_no_mask d) theirs @ mine @ ms, d3))))"

definition shown_locations :: "u8 list" where
  "shown_locations =
     map Location_bits [Location_MZone, Location_SZone, Location_Hand, Location_Grave, Location_Extra, Location_Removed]"

text \<open>The card on top of a deck is shown when it lies face up, or the decks are reversed. Its data are
  indexed, and its code is one that fits.\<close>

definition top_card :: "QueryData list \<Rightarrow> (u32 \<times> u8) option res" where
  "top_card ds =
     and_then (index ds 0) (\<lambda>c.
       case c of
         QD_Code code \<Rightarrow> and_then (index ds 1) (\<lambda>p. Inr
           (case p of QD_Position l \<Rightarrow> Some (code, il_position l) | _ \<Rightarrow> None))
       | _ \<Rightarrow> Inr None)"

definition CardCode_with_is_public :: "bool \<Rightarrow> CardCode \<Rightarrow> CardCode" where
  "CardCode_with_is_public b c = (if b then set_bit 31 c else unset_bit 31 c)"

definition top_message :: "bool \<Rightarrow> CorePlayer \<Rightarrow> u32 \<times> u8 \<Rightarrow> gm_Message option res" where
  "top_message reversed p = (\<lambda>(code, position).
     let faceup = \<not> Position_is_face_down position in
     if \<not> reversed \<and> \<not> faceup then Inr None
     else and_then (CardCode_set_id code CardCode_new) (\<lambda>c. Inr
       (Some (GM_DeckTop
          \<lparr> gm_DeckTop_player = p, gm_DeckTop_sequence = 0, gm_DeckTop_code = CardCode_with_is_public faceup c \<rparr>))))"

fun last_data :: "gm_Message \<Rightarrow> QueryData list option" where
    "last_data (GM_GroupA (GMA_UpdateData m)) =
       (if gm_UpdateData_data m = [] then None
        else case last (gm_UpdateData_data m) of UC_Data ds \<Rightarrow> Some ds | UC_Empty \<Rightarrow> None)"
  | "last_data _ = None"

definition top_of_deck ::
  "'c env \<Rightarrow> bool \<Rightarrow> CorePlayer \<Rightarrow> ('c, 'a) Duel_scheme \<Rightarrow> (gm_Message list \<times> ('c, 'a) Duel_scheme) res" where
  "top_of_deck env reversed p d =
     and_then (query_location_cards env p (Location_bits Location_Deck) (Query_bits Query_Code OR Query_bits Query_Position) d)
       (\<lambda>(m, d'). and_then (case last_data m of None \<Rightarrow> Inr None | Some ds \<Rightarrow> top_card ds) (\<lambda>top.
         case top of
           None \<Rightarrow> Inr ([], d')
         | Some t \<Rightarrow> and_then (top_message reversed p t) (\<lambda>r. Inr (case r of None \<Rightarrow> [] | Some g \<Rightarrow> [g], d'))))"

section \<open>The request\<close>

text \<open>How a kind of room answers: its transformer, the player who attacks first, and its seats.\<close>

record Seats =
  sts_transformer :: Transformer
  sts_first :: "PlayerIndex option"
  sts_players :: "PlayerIndex list"

definition left_time :: "TimeLimit \<Rightarrow> PlayerIndex \<Rightarrow> ('c, 'a) Duel_scheme \<Rightarrow> u16" where
  "left_time t i d =
     (let base = (case get_player d i of None \<Rightarrow> 0 | Some p \<Rightarrow> dp_time_limit p) in
      if d_last_response d = Some i then saturating_sub base (ucast (tl_time_elapsed t)) else base)"

definition time_messages :: "Seats \<Rightarrow> TimeLimit option \<Rightarrow> ('c, 'a) Duel_scheme \<Rightarrow> stoc_Message list" where
  "time_messages seats t d =
     (case t of
        None \<Rightarrow> []
      | Some t' \<Rightarrow> map (\<lambda>i. Stoc_TimeLimit (tr_to_core (sts_transformer seats) (Player i)) (left_time t' i d)) (sts_players seats))"

definition prompt_messages :: "Seats \<Rightarrow> PlayerIndex \<Rightarrow> ('c, 'a) Duel_scheme \<Rightarrow> stoc_Message list" where
  "prompt_messages seats i d =
     (let waiting = (case d_last_response d of Some j \<Rightarrow> j | None \<Rightarrow> (case sts_first seats of Some j \<Rightarrow> j | None \<Rightarrow> 0)) in
      case d_last_select_message d of
        Some m \<Rightarrow> if waiting = i then [Stoc_GameMessage m] else []
      | None \<Rightarrow> [])"

definition field_messages ::
  "'c env \<Rightarrow> Seats \<Rightarrow> Reconnect \<Rightarrow> TimeLimit option \<Rightarrow> PlayerIndex \<Rightarrow> ('c, 'a) Duel_scheme
   \<Rightarrow> (stoc_Message list \<times> ('c, 'a) Duel_scheme) res" where
  "field_messages env seats r t i d =
     (let me = tr_to_core (sts_transformer seats) (Player i); reversed = rc_deck_reversed r in
      and_then (field_info env d) (\<lambda>(info, d1).
      and_then (field_cards env me shown_locations d1) (\<lambda>(cards, d2).
      and_then (top_of_deck env reversed FirstAttackPlayer d2) (\<lambda>(top1, d3).
      and_then (top_of_deck env reversed SecondAttackPlayer d3) (\<lambda>(top2, d4). Inr
        (Stoc_DuelStart #
         map Stoc_GameMessage (restart_message (d_host_info d) me # turn_messages r @ [info] @ cards @
           (if reversed then [GM_ReverseDeck] else []) @ top1 @ top2) @
         time_messages seats t d4 @ [Stoc_FieldFinish] @ prompt_messages seats i d4,
         d4))))))"

definition on_request_field ::
  "'c env \<Rightarrow> Seats \<Rightarrow> Reconnect option \<Rightarrow> TimeLimit option \<Rightarrow> PlayerIndex \<Rightarrow> ('c, 'a) Duel_scheme
   \<Rightarrow> ('c, 'a) Duel_scheme res" where
  "on_request_field env seats r t i d =
     (case r of
        None \<Rightarrow> Inr d
      | Some r' \<Rightarrow> and_then (field_messages env seats r' t i d)
          (\<lambda>(ms, d'). Inr (map_sender (tell_all ms (SendTarget_of_index i)) d')))"

definition requesting_field :: "'c env \<Rightarrow> (('c, 'a) Duel_scheme \<Rightarrow> Seats) \<Rightarrow> ('c, 'a) ctos_body" where
  "requesting_field env seats =
     on_state (\<lambda>q st. case extract_player q (st_duel st) of
        None \<Rightarrow> skipped q st
      | Some i \<Rightarrow> and_then (on_request_field env (seats (st_duel st)) (st_reconnect st) (st_time_limit st) i (st_duel st))
          (\<lambda>d. done_with q (st \<lparr> st_duel := d \<rparr>)))"

end
