(* ===== verification/Complex.thy ===== *)
theory Complex
  imports Stoc Ctos
begin

text \<open>
  Messages that are parsed when they are first looked at (the module complex of utils.rs): the bytes of
  a message and the message, once it was parsed. How a message is written and read is a parameter; the
  rooms use it at the messages of the server and of the client. A clone holds only the bytes, so it is
  parsed again: what does not survive writing and reading is lost there.
\<close>

record 'm Complex =
  cx_data :: bytes
  cx_message :: "'m option"

definition Complex_new :: "bytes \<Rightarrow> 'm Complex" where
  "Complex_new bs = \<lparr> cx_data = bs, cx_message = None \<rparr>"

definition Complex_clone :: "'m Complex \<Rightarrow> 'm Complex" where
  "Complex_clone c = \<lparr> cx_data = cx_data c, cx_message = None \<rparr>"

definition Complex_super_clone :: "'m Complex \<Rightarrow> 'm Complex" where
  "Complex_super_clone c = \<lparr> cx_data = cx_data c, cx_message = cx_message c \<rparr>"

definition Complex_message_flag :: "'m Complex \<Rightarrow> u8" where
  "Complex_message_flag c = (case cx_data c of [] \<Rightarrow> - 1 | b # bs \<Rightarrow> b)"

definition Complex_from_message :: "('m \<Rightarrow> bytes option res) \<Rightarrow> 'm \<Rightarrow> 'm Complex res" where
  "Complex_from_message wr m =
     and_then (wr m) (\<lambda>r. case r of
        None \<Rightarrow> Inl UnwrapFailed
      | Some bs \<Rightarrow> Inr \<lparr> cx_data = bs, cx_message = Some m \<rparr>)"

text \<open>Looking at a message: what is found, and the message that remembers it.\<close>

definition Complex_try_get ::
  "(bytes \<Rightarrow> ('m \<times> bytes) option res) \<Rightarrow> 'm Complex \<Rightarrow> ('m option \<times> 'm Complex) res" where
  "Complex_try_get rd c =
     (case cx_message c of
        Some m \<Rightarrow> Inr (Some m, c)
      | None \<Rightarrow> and_then (rd (cx_data c)) (\<lambda>r. Inr (case r of
            None \<Rightarrow> (None, c)
          | Some (m, rest) \<Rightarrow> (Some m, c \<lparr> cx_message := Some m \<rparr>))))"

definition Complex_into_inner :: "(bytes \<Rightarrow> ('m \<times> bytes) option res) \<Rightarrow> 'm Complex \<Rightarrow> 'm option res" where
  "Complex_into_inner rd c = and_then (Complex_try_get rd c) (\<lambda>(r, c'). Inr (cx_message c'))"

definition Complex_deref :: "(bytes \<Rightarrow> ('m \<times> bytes) option res) \<Rightarrow> 'm Complex \<Rightarrow> ('m \<times> 'm Complex) res" where
  "Complex_deref rd c =
     and_then (Complex_try_get rd c) (\<lambda>(r, c'). case r of None \<Rightarrow> Inl UnwrapFailed | Some m \<Rightarrow> Inr (m, c'))"

definition wr_Complex :: "'m Complex \<Rightarrow> bytes" where
  "wr_Complex c = cx_data c"

section \<open>Looking and cloning\<close>

lemma try_get_data: "Complex_try_get rd c = Inr (r, c') \<Longrightarrow> cx_data c' = cx_data c \<and> cx_message c' = r"
  by (auto simp: Complex_try_get_def split: option.splits)

lemma try_get_again: "Complex_try_get rd c = Inr (Some m, c') \<Longrightarrow> Complex_try_get rd c' = Inr (Some m, c')"
  using try_get_data [of rd c "Some m" c'] by (simp add: Complex_try_get_def)

lemma into_inner_try_get: "Complex_into_inner rd c = map_sum id fst (Complex_try_get rd c)"
  by (cases "Complex_try_get rd c") (auto simp: Complex_into_inner_def dest: try_get_data)

lemma clone_reads_back:
  assumes "valid_stoc z m" and "Complex_from_message (wr_stoc z) m = Inr c"
  shows "Complex_into_inner (rd_stoc z) (Complex_clone c) = Inr (Some m)"
proof -
  from assms(2) obtain bs where bs: "wr_stoc z m = Inr (Some bs)" and c: "c = \<lparr> cx_data = bs, cx_message = Some m \<rparr>"
    by (auto simp: Complex_from_message_def split: option.splits)
  have "rd_stoc z bs = Inr (Some (m, []))" using assms(1) bs by (rule stoc_read_written)
  then show ?thesis by (simp add: Complex_into_inner_def Complex_try_get_def Complex_clone_def c)
qed

end
