(* ===== verification/ReplayPlugin.thy ===== *)
theory ReplayPlugin
  imports Reconnect Complex
begin

text \<open>
  The plugin that distributes and stores replays (plugin/replay.rs): who is sent a replay, the ids of
  stored replays, the names of the players in a file name, and the recording in the format of srvpro,
  which is the list of the messages sent, each with its length. The clock and the sequence number are
  parameters; writing files and telling the listeners is left out.
\<close>

section \<open>Who is sent a replay\<close>

datatype ReplayMode = RM_SaveInServer | RM_WatcherNoSend | RM_IncludeChat

fun ReplayMode_bits :: "ReplayMode \<Rightarrow> u32" where
    "ReplayMode_bits RM_SaveInServer = 1"
  | "ReplayMode_bits RM_WatcherNoSend = 2"
  | "ReplayMode_bits RM_IncludeChat = 4"

definition replay_target :: "u32 \<Rightarrow> SendTarget \<Rightarrow> SendTarget" where
  "replay_target mode t = (if contains mode (ReplayMode_bits RM_WatcherNoSend) then To_AllPlayer else t)"

definition run_replay_on_generate_replay :: "'c env \<Rightarrow> ('c, 'a) ex_body" where
  "run_replay_on_generate_replay env =
     on_state (\<lambda>q st. done_with (q \<lparr> rq_extra := replay_target (env_replay_mode env) (rq_extra q) \<rparr>) st)"

section \<open>Formats\<close>

datatype Format = Format_Ygopro | Format_YgoproForge | Format_Srvpro

definition Format_from_str :: "str \<Rightarrow> Format option" where
  "Format_from_str s =
     (let t = map (\<lambda>c. if 65 \<le> c \<and> c \<le> 90 then c + 32 else c) s in
      if t = lit ''ygopro'' then Some Format_Ygopro
      else if t = lit ''forge'' then Some Format_YgoproForge
      else if t = lit ''srvpro'' then Some Format_Srvpro else None)"

section \<open>Ids\<close>

definition snowflake :: "u64 \<Rightarrow> u16 \<Rightarrow> u64 \<Rightarrow> u64" where
  "snowflake timestamp machine counter =
     push_bit 22 timestamp OR push_bit 12 (ucast machine AND mask 10) OR (counter AND mask 12)"

text \<open>The digits, the least significant first; the loop runs at least once.\<close>

definition digit_char :: "nat \<Rightarrow> nat" where
  "digit_char n = (if n < 10 then 48 + n else 87 + n)"

function digits36 :: "nat \<Rightarrow> str" where
  "digits36 n = digit_char (n mod 36) # (if n div 36 = 0 then [] else digits36 (n div 36))"
  by pat_completeness auto
termination by (relation "measure id") auto

declare digits36.simps [simp del]

definition digest :: "u64 \<Rightarrow> str" where
  "digest n = rev (digits36 (unat n))"

section \<open>Names\<close>

fun join_with :: "str \<Rightarrow> str list \<Rightarrow> str" where
    "join_with sep [] = []"
  | "join_with sep [s] = s"
  | "join_with sep (s # ss) = s @ sep @ join_with sep ss"

definition present_players :: "('c, 'a) Duel_scheme \<Rightarrow> DuelPlayer list" where
  "present_players d = concat (map (\<lambda>p. case p of None \<Rightarrow> [] | Some q \<Rightarrow> [q]) (d_players d))"

definition render_players_string :: "'c env \<Rightarrow> ('c, 'a) Duel_scheme \<Rightarrow> str" where
  "render_players_string env d =
     (let names = map (\<lambda>p. FixedLengthString_deref (env_decode env) (dp_name p)) (present_players d) in
      if hi_mode (d_host_info d) = Mode_Tag \<and> length names = 4
      then names ! 0 @ lit '' & '' @ names ! 1 @ lit '' VS '' @ names ! 2 @ lit '' & '' @ names ! 3
      else join_with (lit '' VS '') names)"

section \<open>The recording\<close>

definition srvpro_directed :: "stoc_MessageType list" where
  "srvpro_directed =
     [stoc_T_JoinGame, stoc_T_SelectTp, stoc_T_SelectHand, stoc_T_TimeLimit, stoc_T_ChangeSide, stoc_T_HandResult,
      stoc_T_TeammateSurrender]"

definition recorded :: "bool \<Rightarrow> stoc_Message \<Rightarrow> stoc_Message option" where
  "recorded include_chat m =
     (if stoc_type m \<in> set srvpro_directed then None
      else case m of
        Stoc_GameMessage g \<Rightarrow> if starts_for_a_player g then None else Some (Stoc_GameMessage (gm_mask g))
      | Stoc_Chat s t \<Rightarrow> if include_chat then Some m else None
      | _ \<Rightarrow> Some m)"

definition recording :: "bool \<Rightarrow> stoc_Message list \<Rightarrow> stoc_Message list" where
  "recording include_chat ms = List.map_filter (recorded include_chat) ms"

text \<open>Every message with its length; a message that is too long gives no recording at all.\<close>

fun framed :: "bytes list \<Rightarrow> bytes option" where
    "framed [] = Some []"
  | "framed (bs # bss) =
       (if length bs < 2 ^ 16
        then map_option (\<lambda>rest. wr_u16 (of_nat (length bs)) @ bs @ rest) (framed bss) else None)"

fun written :: "(stoc_Message \<Rightarrow> bytes option res) \<Rightarrow> stoc_Message list \<Rightarrow> bytes list res" where
    "written wr [] = Inr []"
  | "written wr (m # ms) =
       and_then (Complex_from_message wr m) (\<lambda>c. and_then (written wr ms) (\<lambda>bss. Inr (wr_Complex c # bss)))"

definition srvpro_binary :: "lzma_crate \<Rightarrow> bool \<Rightarrow> stoc_Message list \<Rightarrow> bytes option res" where
  "srvpro_binary z include_chat ms =
     and_then (written (wr_stoc z) (recording include_chat ms)) (\<lambda>bss. Inr (framed bss))"

section \<open>Reading a recording\<close>

text \<open>The reference: cutting a recording at the lengths it holds.\<close>

function cut :: "bytes \<Rightarrow> bytes list option" where
  "cut bs =
     (if bs = [] then Some []
      else case rd_u16 bs of
        None \<Rightarrow> None
      | Some (n, r) \<Rightarrow>
          if unat n \<le> length r \<and> length r < length bs then map_option ((#) (take (unat n) r)) (cut (drop (unat n) r)) else None)"
  by pat_completeness auto
termination by (relation "measure length") auto

declare cut.simps [simp del]

lemma cut_framed: "framed bss = Some bs \<Longrightarrow> cut bs = Some bss"
proof (induction bss arbitrary: bs)
  case Nil
  then show ?case by (simp add: cut.simps)
next
  case (Cons x bss)
  then obtain rest where fits: "length x < 2 ^ 16" and rest: "framed bss = Some rest"
    and bs: "bs = wr_u16 (of_nat (length x)) @ x @ rest" by (auto split: if_splits)
  have n: "unat (of_nat (length x) :: u16) = length x" using fits by (simp add: unat_of_nat)
  have "rd_u16 bs = Some (of_nat (length x), x @ rest)" by (simp add: bs u16.rd_wr)
  moreover have "bs \<noteq> []" and "length (x @ rest) < length bs" by (simp_all add: bs wr_u16_def)
  ultimately show ?case using Cons.IH [OF rest] n by (subst cut.simps) simp
qed

lemma written_bytes: "written wr ms = Inr bss \<Longrightarrow> list_all2 (\<lambda>m b. wr m = Inr (Some b)) ms bss"
  by (induction ms arbitrary: bss) (auto simp: Complex_from_message_def wr_Complex_def split: option.splits)

lemma recorded_member:
  assumes "recorded include_chat m = Some m'"
  shows "stoc_type m' \<notin> set srvpro_directed \<and> (\<forall>g. m' = Stoc_GameMessage g \<longrightarrow> gm_mask g = g) \<and>
    (stoc_type m' = stoc_T_Chat \<longrightarrow> include_chat)"
  using assms
  by (cases m) (auto simp: recorded_def srvpro_directed_def gm.mask_mask
      simp del: gm_mask.simps split: if_splits)

lemma recording_members:
  "\<forall>m \<in> set (recording include_chat ms). stoc_type m \<notin> set srvpro_directed \<and>
     (\<forall>g. m = Stoc_GameMessage g \<longrightarrow> gm_mask g = g) \<and> (stoc_type m = stoc_T_Chat \<longrightarrow> include_chat)"
  using recorded_member by (fastforce simp: recording_def List.map_filter_def)



section \<open>Ids are different\<close>

fun value36 :: "str \<Rightarrow> nat" where
    "value36 [] = 0"
  | "value36 (c # cs) = (if c < 58 then c - 48 else c - 87) + 36 * value36 cs"

lemma value_digits: "value36 (digits36 n) = n"
proof (induction n rule: digits36.induct)
  case (1 n)
  then show ?case by (subst digits36.simps) (auto simp: digit_char_def)
qed

lemma digest_inj: "digest a = digest b \<Longrightarrow> a = b"
  by (metis digest_def rev_rev_ident value_digits word_unat_eq_iff)

lemma unat_small: "unat (w :: 'a::len word) < 2 ^ n \<Longrightarrow> take_bit n w = w"
  by (simp add: word_unat_eq_iff unsigned_take_bit_eq take_bit_nat_eq_self)

lemma snowflake_fields:
  assumes "unat t < 2 ^ 42" and "unat m < 2 ^ 10" and "unat n < 2 ^ 12"
  shows "t = drop_bit 22 (snowflake t m n)" and "m = ucast (take_bit 10 (drop_bit 12 (snowflake t m n)))"
    and "n = take_bit 12 (snowflake t m n)"
proof -
  have t: "bit t k \<Longrightarrow> k < 42" for k using unat_small [OF assms(1)] by (metis bit_take_bit_iff)
  have m: "bit m k \<Longrightarrow> k < 10" for k using unat_small [OF assms(2)] by (metis bit_take_bit_iff)
  have n: "bit n k \<Longrightarrow> k < 12" for k using unat_small [OF assms(3)] by (metis bit_take_bit_iff)
  show "t = drop_bit 22 (snowflake t m n)"
    by (rule bit_word_eqI) (use t m n in \<open>auto simp: snowflake_def bit_simps\<close>)
  show "m = ucast (take_bit 10 (drop_bit 12 (snowflake t m n)))"
    by (rule bit_word_eqI) (use t m n in \<open>auto simp: snowflake_def bit_simps\<close>)
  show "n = take_bit 12 (snowflake t m n)"
    by (rule bit_word_eqI) (use t m n in \<open>auto simp: snowflake_def bit_simps\<close>)
qed

text \<open>Stored replays have different ids: two ids are the same only for the same millisecond, the same
  machine and the same number in the sequence, as long as the clock has not run out of its 42 bits.\<close>

theorem replay_ids_differ:
  assumes "unat t < 2 ^ 42" and "unat t' < 2 ^ 42" and "unat m < 2 ^ 10" and "unat m' < 2 ^ 10"
    and "unat n < 2 ^ 12" and "unat n' < 2 ^ 12"
    and "digest (snowflake t m n) = digest (snowflake t' m' n')"
  shows "t = t' \<and> m = m' \<and> n = n'"
  using digest_inj [OF assms(7)] snowflake_fields assms(1-6) by metis

lemma replay_ids_differ_witness: "digest (snowflake 1 2 3) \<noteq> digest (snowflake 1 2 4)"
  using replay_ids_differ [of 1 1 2 2 3 4] by auto

end
