(* ===== verification/PluginSet.thy ===== *)
theory PluginSet
  imports ReplayPlugin
begin

text \<open>
  The registrations of the plugins both kinds of room run, and the commands. A handler belongs to the
  module that registers it and takes part only in the rooms where that module is enabled. The
  registrations that only one kind of room has are with that room.
\<close>

section \<open>Handlers\<close>

definition plugin_handlers :: "'c env \<Rightarrow> (u8 \<times> ('c, 'a) ctos_handler) list" where
  "plugin_handlers env =
     [(19, handler 129 ''ygopro::plugin::terminate'' ''on_leave_game'' (terminate_on_leave_game env)),
      (18, handler 127 ''ygopro::plugin::version_check'' ''before_join_game'' (before_join_game env)),
      (17, handler 129 ''ygopro::plugin::time_limit'' ''on_create_game'' (timed time_on_create_game Continue)),
      (21, handler 127 ''ygopro::plugin::time_limit'' ''on_time_confirm'' (timed_by_player time_on_time_confirm)),
      (1, handler 129 ''ygopro::plugin::time_limit'' ''on_response'' (timed_by_player time_on_response)),
      (1, handler 129 ''ygopro::plugin::time_backed'' ''on_response'' (run_backed_on_response env)),
      (4, handler 129 ''ygopro::plugin::time_backed'' ''on_tp_result'' (run_backed_on_tp_result env)),
      (21, handler 126 ''ygopro::plugin::time_compensator'' ''on_time_confirm'' (run_compensator_on_time_confirm env)),
      (1, handler 129 ''ygopro::plugin::time_compensator'' ''on_response'' (run_compensator_on_response env)),
      (4, handler 127 ''ygopro::plugin::preload_script'' ''on_tp_result'' (run_preload_on_tp_result env)),
      (18, handler 129 ''ygopro::plugin::soumatou'' ''on_join'' run_soumatou_on_join)]"

definition plugin_handlers_ex :: "'c env \<Rightarrow> (u8 \<times> ('c, 'a) ex_handler) list" where
  "plugin_handlers_ex env =
     [(20, handler 129 ''ygopro::plugin::terminate'' ''on_match_end'' (terminate_on_match_end env)),
      (4, handler 129 ''ygopro::plugin::time_limit'' ''on_duel_start'' (timed time_on_duel_start Continue)),
      (10, handler 129 ''ygopro::plugin::time_limit'' ''on_duel_end'' (timed time_on_duel_end Continue)),
      (2, handler 127 ''ygopro::plugin::no_init_shuffle_deck'' ''on_first_shuffle'' stop_first_shuffle),
      (1, handler 129 ''ygopro::plugin::soumatou'' ''on_client_join'' (run_soumatou_on_client_join env)),
      (11, handler 129 ''ygopro::plugin::replay'' ''on_generate_replay'' (run_replay_on_generate_replay env))]"

definition plugin_core_handlers :: "'c env \<Rightarrow> (u8 \<times> ('c, 'a) core_handler) list" where
  "plugin_core_handlers env =
     [(40, handler 129 ''ygopro::plugin::time_limit'' ''on_new_turn'' (timed time_on_new_turn (core_nothing ()))),
      (40, handler 129 ''ygopro::plugin::time_backed'' ''on_new_turn'' (run_backed_on_new_turn env)),
      (40, handler 129 ''ygopro::plugin::time_compensator'' ''on_new_turn'' (run_compensator_on_new_turn env)),
      (41, handler 129 ''ygopro::plugin::reconnect'' ''on_new_phase'' run_reconnect_on_new_phase),
      (40, handler 129 ''ygopro::plugin::reconnect'' ''on_new_turn'' run_reconnect_on_new_turn),
      (37, handler 129 ''ygopro::plugin::reconnect'' ''on_reverse_deck'' run_reconnect_on_reverse_deck)]"

section \<open>Commands\<close>

text \<open>Feeding the answer of a replay to whoever the engine waits for.\<close>

definition send_response :: "Argument \<Rightarrow> ('c, 'a) Duel_scheme \<Rightarrow> ('c, 'a) Duel_scheme" where
  "send_response arg d =
     (case arg of
        Arg_Response r \<Rightarrow>
          (case d_last_select_message d of
             None \<Rightarrow> d
           | Some select \<Rightarrow>
               (case gm_waiting_for select of
                  None \<Rightarrow> d
                | Some p \<Rightarrow> queue_request (Ctos_Response r) (CorePlayer_to_net p) d))
      | _ \<Rightarrow> d)"

text \<open>A command is looked up by its name among those whose plugin is enabled; an unknown one is
  ignored. The result says whether the room ends.\<close>

definition run_command ::
  "'c env \<Rightarrow> str \<Rightarrow> Argument \<Rightarrow> ('c, 'a) Duel_scheme State \<Rightarrow> bool \<times> ('c, 'a) Duel_scheme State" where
  "run_command env name arg st =
     (let enabled = (\<lambda>m. lit m \<in> set (env_plugins env)); on = (\<lambda>f. st \<lparr> st_duel := f (st_duel st) \<rparr>) in
      if name = lit ''terminate'' \<and> enabled ''ygopro::plugin::terminate'' then (True, st)
      else if name = lit ''timer_tick'' \<and> enabled ''ygopro::plugin::time_limit'' then (False, with_time_limit timer_tick st)
      else if name = lit ''soumatou'' \<and> enabled ''ygopro::plugin::soumatou'' then (False, on (soumatou arg))
      else if name = lit ''send_response'' \<and> enabled ''ygopro::replay'' then (False, on (send_response arg))
      else (False, st))"

end
