(* ===== verification/Chains.thy ===== *)
theory Chains
  imports PluginSet
begin

text \<open>
  What a chain of handlers keeps: a relation between the request and the state that every handler of
  the chain keeps is kept by the whole chain. The rules below reduce the claim for the wrapper of a
  handler to one about the function it wraps.
\<close>

definition keeps :: "('q \<Rightarrow> 'd State \<Rightarrow> bool) \<Rightarrow> ('q, 'd, 'r) body \<Rightarrow> bool" where
  "keeps P run \<longleftrightarrow>
     (\<forall>b b' r. run b = Inr (b', r) \<longrightarrow> P (request b) (state b) \<longrightarrow> P (request b') (state b'))"

text \<open>The same for the room alone.\<close>

abbreviation keeps_room :: "('d \<Rightarrow> bool) \<Rightarrow> ('q, 'd, 'r) body \<Rightarrow> bool" where
  "keeps_room I \<equiv> keeps (\<lambda>q st. I (st_duel st))"

lemma keepsI:
  "(\<And>b b' r. run b = Inr (b', r) \<Longrightarrow> P (request b) (state b) \<Longrightarrow> P (request b') (state b')) \<Longrightarrow> keeps P run"
  by (auto simp: keeps_def)

lemma keepsD: "keeps P run \<Longrightarrow> run b = Inr (b', r) \<Longrightarrow> P (request b) (state b) \<Longrightarrow> P (request b') (state b')"
  unfolding keeps_def by blast

lemma run_chain_keeps:
  assumes "\<forall>h \<in> set hs. keeps P (h_run h)" and "run_chain mul hs b = Inr b'" and "P (request b) (state b)"
  shows "P (request b') (state b')"
  using assms
proof (induction hs arbitrary: b)
  case (Cons h hs)
  from Cons.prems(2) obtain c where c: "call mul h b = Inr c"
    and rest: "(if stop_flag c then Inr c else run_chain mul hs c) = Inr b'" by auto
  from c obtain d r where d: "h_run h b = Inr (d, r)" and cd: "request c = request d" "state c = state d"
    by (auto simp: call_def split: option.splits)
  have "P (request c) (state c)"
    using keepsD [where P = P and run = "h_run h", OF _ d] Cons.prems(1,3) cd by simp
  then show ?case using Cons.IH [of c] Cons.prems(1) rest by (auto split: if_splits)
qed simp

lemma handlers_for_registered:
  assumes "\<And>xs. set (srt xs) = set xs"
    and "h \<in> set (handlers_for (new_with_dual_group srt ts ss groups tg sg is_all) k)"
  shows "\<exists>k'. (k' = k \<or> is_all k') \<and> (k', h) \<in> set ts \<union> set ss"
  using assms(2)
  by (auto simp: new_with_dual_group_handlers_for Let_def keyed_def unkeyed_def assms(1) split: if_splits)

lemma process_bundle_keeps:
  assumes "\<And>xs. set (srt xs) = set xs"
    and "\<And>k' h. (k' = k \<or> is_all k') \<Longrightarrow> (k', h) \<in> set ts \<union> set ss \<Longrightarrow> keeps P (h_run h)"
    and "process_bundle mul (new_with_dual_group srt ts ss groups tg sg is_all) b k = Inr b'"
    and "P (request b) (state b)"
  shows "P (request b') (state b')"
proof (rule run_chain_keeps [where P = P, OF _ assms(3) [unfolded process_bundle_def] assms(4)])
  show "\<forall>h \<in> set (handlers_for (new_with_dual_group srt ts ss groups tg sg is_all) k). keeps P (h_run h)"
  proof
    fix h assume "h \<in> set (handlers_for (new_with_dual_group srt ts ss groups tg sg is_all) k)"
    from handlers_for_registered [OF assms(1) this] obtain k'
      where "k' = k \<or> is_all k'" and "(k', h) \<in> set ts \<union> set ss" by blast
    then show "keeps P (h_run h)" by (rule assms(2))
  qed
qed

section \<open>The wrappers\<close>

named_theorems keeps_intros \<open>reduction of a wrapper to the function it wraps\<close>

lemma keeps_on_state [keeps_intros]:
  assumes "\<And>q st q' st' r. f q st = Inr (q', st', r) \<Longrightarrow> P q st \<Longrightarrow> P q' st'"
  shows "keeps P (on_state f)"
  using assms by (fastforce simp: keeps_def on_state_def)

lemma keeps_on_duel [keeps_intros]:
  assumes "\<And>q st q' d r. f q (st_duel st) = Inr (q', d, r) \<Longrightarrow> P q st \<Longrightarrow> P q' (st \<lparr> st_duel := d \<rparr>)"
  shows "keeps P (on_duel f)"
  unfolding on_duel_def by (rule keeps_on_state) (use assms in auto)

lemma keeps_by_player [keeps_intros]:
  assumes "\<And>i x q st d. extract_player q (st_duel st) = Some i \<Longrightarrow> pick (rq_message q) = Some x \<Longrightarrow>
    f i x (st_duel st) = Inr d \<Longrightarrow> P q st \<Longrightarrow> P q (st \<lparr> st_duel := d \<rparr>)"
  shows "keeps P (by_player pick f)"
  unfolding by_player_def
  by (rule keeps_on_duel) (use assms in \<open>auto simp: skipped_def done_with_def split: option.splits\<close>)

lemma keeps_by_anybody [keeps_intros]:
  assumes "\<And>x q st d. pick (rq_message q) = Some x \<Longrightarrow> f (rq_extra q) x (st_duel st) = Inr d \<Longrightarrow>
    P q st \<Longrightarrow> P q (st \<lparr> st_duel := d \<rparr>)"
  shows "keeps P (by_anybody pick f)"
  unfolding by_anybody_def
  by (rule keeps_on_duel) (use assms in \<open>auto simp: skipped_def done_with_def split: option.splits\<close>)

lemma keeps_on_any [keeps_intros]:
  assumes "\<And>q st d. f (st_duel st) = Inr d \<Longrightarrow> P q st \<Longrightarrow> P q (st \<lparr> st_duel := d \<rparr>)"
  shows "keeps P (on_any f)"
  unfolding on_any_def by (rule keeps_on_duel) (use assms in \<open>auto simp: done_with_def\<close>)

lemma keeps_on_ex [keeps_intros]:
  assumes "\<And>x q st d. pick (rq_message q) = Some x \<Longrightarrow> f x (st_duel st) = Inr d \<Longrightarrow>
    P q st \<Longrightarrow> P q (st \<lparr> st_duel := d \<rparr>)"
  shows "keeps P (on_ex pick f)"
  unfolding on_ex_def
  by (rule keeps_on_duel) (use assms in \<open>auto simp: skipped_def done_with_def split: option.splits\<close>)

lemma keeps_judging [keeps_intros]: "keeps P (judging f)"
  unfolding judging_def by (rule keeps_on_duel) auto

lemma keeps_deciding [keeps_intros]: "keeps P (deciding f)"
  unfolding deciding_def by (rule keeps_on_duel) auto

lemma keeps_timed [keeps_intros]:
  assumes "\<And>q st. P q st \<Longrightarrow> P q (with_time_limit f st)"
  shows "keeps P (timed f r)"
  unfolding timed_def by (rule keeps_on_state) (use assms in auto)

lemma keeps_timed_by_player [keeps_intros]:
  assumes "\<And>i q st. extract_player q (st_duel st) = Some i \<Longrightarrow> P q st \<Longrightarrow> P q (with_time_limit (f i) st)"
  shows "keeps P (timed_by_player f)"
  unfolding timed_by_player_def
  by (rule keeps_on_state) (use assms in \<open>auto simp: skipped_def done_with_def split: option.splits\<close>)

lemma keeps_before_join_game [keeps_intros]: "keeps P (before_join_game env)"
  by (rule keepsI) (auto simp: before_join_game_def split: ctos_Message.splits if_splits)

lemma keeps_terminate_on_leave_game [keeps_intros]: "keeps P (terminate_on_leave_game env)"
  unfolding terminate_on_leave_game_def by (rule keeps_on_duel) auto

lemma st_duel_with_time_limit [simp]:
  "st_duel (with_time_limit f st) = snd (f (time_limit_of st) (st_duel st))"
  by (simp add: with_time_limit_def split: prod.split)

section \<open>The plugins\<close>

lemma keeps_answering [keeps_intros]:
  assumes "\<And>i r q st. P q st \<Longrightarrow> P q (st \<lparr> st_duel := f i r (st_duel st) \<rparr>)"
  shows "keeps P (answering f)"
  unfolding answering_def by (rule keeps_by_player) (use assms in auto)

lemma keeps_remembering [keeps_intros]:
  assumes "\<And>g q st. P q st \<Longrightarrow> P q (with_reconnect g st)"
  shows "keeps P (remembering f)"
  unfolding remembering_def
  by (rule keeps_on_state) (use assms in \<open>auto simp: skipped_def split: option.splits\<close>)

lemma keeps_stop_first_shuffle [keeps_intros]: "keeps P stop_first_shuffle"
  by (rule keepsI) (auto simp: stop_first_shuffle_def)

lemma keeps_run_compensator_on_time_confirm [keeps_intros]:
  assumes "\<And>t q st. P q st \<Longrightarrow> P q (st \<lparr> st_time_limit := t \<rparr>)"
    and "\<And>i q st. P q st \<Longrightarrow> P q (with_time_limit (compensator_on_time_confirm (env_time_compensator env) i) st)"
  shows "keeps P (run_compensator_on_time_confirm env)"
  unfolding run_compensator_on_time_confirm_def
  by (rule keeps_on_state) (use assms in \<open>auto simp: skipped_def done_with_def Let_def split: option.splits\<close>)

lemma keeps_soumatou_on_client_join [keeps_intros]:
  assumes "\<And>c r r' q st. rq_message q = Y_ClientJoin c r \<Longrightarrow> P q st \<Longrightarrow>
    P (q \<lparr> rq_message := Y_ClientJoin c None \<rparr>) (st \<lparr> st_duel := connect_client env c r' (st_duel st) \<rparr>)"
  shows "keeps P (run_soumatou_on_client_join env)"
  by (rule keepsI)
    (use assms in \<open>auto simp: run_soumatou_on_client_join_def split: ygopro_Message.splits option.splits bool.splits\<close>)

lemma keeps_replay_on_generate_replay [keeps_intros]:
  assumes "\<And>t q st. P q st \<Longrightarrow> P (q \<lparr> rq_extra := t \<rparr>) st"
  shows "keeps P (run_replay_on_generate_replay env)"
  unfolding run_replay_on_generate_replay_def
  by (rule keeps_on_state) (use assms in \<open>auto simp: done_with_def\<close>)

lemma keeps_requesting_field [keeps_intros]:
  assumes "\<And>i q st d. on_request_field env (seats (st_duel st)) (st_reconnect st) (st_time_limit st) i (st_duel st) = Inr d \<Longrightarrow>
    P q st \<Longrightarrow> P q (st \<lparr> st_duel := d \<rparr>)"
  shows "keeps P (requesting_field env seats)"
  unfolding requesting_field_def
  by (rule keeps_on_state) (use assms in \<open>auto simp: skipped_def done_with_def split: option.splits\<close>)

lemma st_duel_with_reconnect [simp]: "st_duel (with_reconnect f st) = st_duel st"
  by (simp add: with_reconnect_def)

end
