(* ===== verification/RoomInvariants.thy ===== *)
theory RoomInvariants
  imports Chains
begin

text \<open>
  What every handler the rooms share keeps: the channel of everybody in the room stands where messages
  for that position are sent (routed), there are as many seats as the room says, and the number of seats
  and the fields a kind of room adds are left alone. From it follows that the slabs of channels never panic when
  somebody leaves.
\<close>

lemma and_then_E:
  assumes "and_then m f = Inr y"
  obtains x where "m = Inr x" and "f x = Inr y"
  using assms by (cases m) auto

section \<open>Channels and positions\<close>

definition slabs_match :: "BaseDuelPlayer Slab \<Rightarrow> chan Slab \<Rightarrow> bool" where
  "slabs_match ps cs \<longleftrightarrow>
     slab_ops cs = slab_ops ps \<and> slab_items cs = map (\<lambda>(k, p). (k, bp_stoc_sender p)) (slab_items ps)"

definition dp_channel :: "DuelPlayer \<Rightarrow> chan" where
  "dp_channel p = bp_stoc_sender (dp_player p)"

definition seats_match :: "DuelPlayer option list \<Rightarrow> chan list \<Rightarrow> bool" where
  "seats_match ps cs \<longleftrightarrow> length cs \<le> length ps \<and>
     (\<forall>i q. i < length ps \<longrightarrow> ps ! i = Some q \<longrightarrow> i < length cs \<and> cs ! i = dp_channel q)"

definition routed :: "('c, 'a) Duel_scheme \<Rightarrow> bool" where
  "routed d \<longleftrightarrow>
     slabs_match (d_observers d) (s_observers (d_sender d)) \<and>
     slabs_match (d_uninit_players d) (s_undecided (d_sender d)) \<and>
     seats_match (d_players d) (s_players (d_sender d))"

definition base_inv :: "nat \<times> 'a \<Rightarrow> ('c, 'a) Duel_scheme \<Rightarrow> bool" where
  "base_inv x d \<longleftrightarrow>
     routed d \<and> length (d_players d) = d_max_player_count d \<and> (d_max_player_count d, Duel.Duel.more d) = x"

subsection \<open>Slabs\<close>

lemma slabs_match_new [simp]: "slabs_match Slab_new Slab_new"
  by (simp add: slabs_match_def Slab_new_def)

lemma slabs_match_get: "slabs_match ps cs \<Longrightarrow> slab_get cs k = map_option bp_stoc_sender (slab_get ps k)"
  by (simp add: slabs_match_def slab_get_def map_of_map comp_def)

lemma insort_map: "insort_key fst (k, f x) (map (\<lambda>(k, p). (k, f p)) xs) = map (\<lambda>(k, p). (k, f p)) (insort_key fst (k, x) xs)"
  by (induction xs) auto

lemma slabs_match_insert:
  assumes "slabs_match ps cs" and "slab_insert fresh p ps = (k, ps')"
  shows "slabs_match ps' (snd (slab_insert fresh (bp_stoc_sender p) cs))"
  using assms by (auto simp: slabs_match_def slab_insert_def slab_vacant_key_def Let_def insort_map)

lemma slabs_match_remove:
  assumes "slabs_match ps cs" and "slab_try_remove k ps = Some (p, ps')"
  shows "\<exists>cs'. slab_remove k cs = Inr (bp_stoc_sender p, cs') \<and> slabs_match ps' cs'"
proof -
  from assms(2) have g: "slab_get ps k = Some p" by (auto simp: slab_try_remove_def split: option.splits)
  then have "slab_get cs k = Some (bp_stoc_sender p)" using slabs_match_get [OF assms(1)] by simp
  then show ?thesis
    using assms g
    by (auto simp: slab_remove_def slab_try_remove_def slabs_match_def filter_map comp_def case_prod_unfold)
qed

lemma slabs_match_update: "slabs_match ps cs \<Longrightarrow> (\<And>p. bp_stoc_sender (f p) = bp_stoc_sender p) \<Longrightarrow> slabs_match (slab_update k f ps) cs"
  by (simp add: slabs_match_def slab_update_def comp_def case_prod_beta if_distrib cong: if_cong) 

lemma slabs_match_map: "slabs_match ps cs \<Longrightarrow> (\<And>p. bp_stoc_sender (f p) = bp_stoc_sender p) \<Longrightarrow> slabs_match (slab_map f ps) cs"
  by (simp add: slabs_match_def slab_map_def comp_def case_prod_beta)

subsection \<open>Seats\<close>

lemma seats_match_Nil [simp]: "seats_match [] cs = (cs = [])"
  by (simp add: seats_match_def)

lemma seats_match_empty [simp]: "seats_match (replicate n None) cs = (length cs \<le> n)"
  by (simp add: seats_match_def)

lemma seats_matchD: "seats_match ps cs \<Longrightarrow> i < length ps \<Longrightarrow> ps ! i = Some q \<Longrightarrow> i < length cs \<and> cs ! i = dp_channel q"
  by (auto simp: seats_match_def)

lemma seats_match_map:
  "seats_match ps cs \<Longrightarrow> (\<And>p. dp_channel (f p) = dp_channel p) \<Longrightarrow> seats_match (map (map_option f) ps) cs"
  by (fastforce simp: seats_match_def)

lemma seats_match_update:
  assumes "seats_match ps cs" and "\<And>q. p = Some q \<Longrightarrow> i < length ps \<Longrightarrow> i < length cs \<and> cs ! i = dp_channel q"
  shows "seats_match (ps[i := p]) cs"
  unfolding seats_match_def
proof (rule conjI; (intro allI impI)?)
  show "length cs \<le> length (ps[i := p])" using assms(1) by (simp add: seats_match_def)
next
  fix j q assume "j < length (ps[i := p])" and "ps[i := p] ! j = Some q"
  then show "j < length cs \<and> cs ! j = dp_channel q"
    using assms by (cases "j = i") (auto simp: seats_match_def)
qed

lemma seats_match_modify:
  assumes "seats_match ps cs" and "\<And>p. dp_channel (f p) = dp_channel p"
  shows "seats_match (ps[i := map_option f (ps ! i)]) cs"
  by (rule seats_match_update [OF assms(1)]) (use assms seats_matchD in fastforce)

lemma seats_match_free: "seats_match ps cs \<Longrightarrow> seats_match (ps[i := None]) cs"
  by (rule seats_match_update) simp_all

lemma seats_match_two:
  "seats_match (Some p # Some q # ps) cs \<Longrightarrow> dp_channel p' = dp_channel p \<Longrightarrow> dp_channel q' = dp_channel q \<Longrightarrow>
   seats_match (Some p' # Some q' # ps) cs"
  using seats_match_update [of "(Some p # Some q # ps)[0 := Some p']" cs "Some q'" 1]
    seats_match_update [of "Some p # Some q # ps" cs "Some p'" 0]
    seats_matchD [of "Some p # Some q # ps" cs 0 p] seats_matchD [of "Some p # Some q # ps" cs 1 q]
  by simp

lemma length_pad [simp]: "length (pad_players i cs) = max (length cs) (Suc i)"
  by (simp add: pad_players_def)

lemma nth_pad: "j < length cs \<Longrightarrow> pad_players i cs ! j = cs ! j"
  by (simp add: pad_players_def nth_append)

lemma seats_match_bind:
  assumes "seats_match ps cs" and "i < length ps" and "\<And>q. p = Some q \<Longrightarrow> c = dp_channel q"
  shows "seats_match (ps[i := p]) ((pad_players i cs)[i := c])"
  unfolding seats_match_def
proof (rule conjI; (intro allI impI)?)
  show "length ((pad_players i cs)[i := c]) \<le> length (ps[i := p])"
    using assms(1,2) by (simp add: seats_match_def)
next
  fix j q assume j: "j < length (ps[i := p])" and q: "ps[i := p] ! j = Some q"
  show "j < length ((pad_players i cs)[i := c]) \<and> (pad_players i cs)[i := c] ! j = dp_channel q"
  proof (cases "j = i")
    case False
    then have "j < length cs \<and> cs ! j = dp_channel q" using assms(1) j q by (auto simp: seats_match_def)
    then show ?thesis using False by (auto simp: nth_pad)
  qed (use assms(3) j q in auto)
qed

lemma dp_channel_simps [simp]:
  "dp_channel (set_state a p) = dp_channel p" "dp_channel (DuelPlayer_from b) = bp_stoc_sender b"
  "dp_channel (p \<lparr> dp_hand := h \<rparr>) = dp_channel p" "dp_channel (p \<lparr> dp_ready := r \<rparr>) = dp_channel p"
  "dp_channel (p \<lparr> dp_deck := k \<rparr>) = dp_channel p" "dp_channel (p \<lparr> dp_deck_error := e \<rparr>) = dp_channel p"
  "dp_channel (p \<lparr> dp_time_limit := t \<rparr>) = dp_channel p" "dp_channel (spend_time n p) = dp_channel p"
  "dp_channel (p \<lparr> dp_time_backed := t \<rparr>) = dp_channel p" "dp_channel (p \<lparr> dp_time_compensator := t \<rparr>) = dp_channel p"
  "dp_channel (time_back n1 n2 p) = dp_channel p" "dp_channel (deposit n1 n2 p) = dp_channel p"
  by (simp_all add: dp_channel_def set_state_def DuelPlayer_from_def spend_time_def time_back_def deposit_def)

section \<open>What leaves the channels alone\<close>

lemma Sender_send_fields [simp]:
  "s_players (Sender_send m t s) = s_players s" "s_observers (Sender_send m t s) = s_observers s"
  "s_undecided (Sender_send m t s) = s_undecided s"
  by (simp_all add: Sender_send_def send_without_record_def)

lemma Sender_bind_fields [simp]:
  "s_observers (Sender_set_player i c s) = s_observers s" "s_undecided (Sender_set_player i c s) = s_undecided s"
  "s_observers (Sender_clear_player i s) = s_observers s" "s_undecided (Sender_clear_player i s) = s_undecided s"
  "s_players (Sender_set_player i c s) = (pad_players i (s_players s))[i := c]"
  "s_players (Sender_clear_player i s) = (pad_players i (s_players s))[i := DummyChan]"
  by (simp_all add: Sender_set_player_def Sender_clear_player_def)

lemma base_inv_fields [simp]:
  "base_inv x (d \<lparr> d_core := a1 \<rparr>) = base_inv x d" "base_inv x (d \<lparr> d_name := a2 \<rparr>) = base_inv x d"
  "base_inv x (d \<lparr> d_pass := a2 \<rparr>) = base_inv x d" "base_inv x (d \<lparr> d_host_player := a3 \<rparr>) = base_inv x d"
  "base_inv x (d \<lparr> d_host_info := a4 \<rparr>) = base_inv x d" "base_inv x (d \<lparr> d_stage := a5 \<rparr>) = base_inv x d"
  "base_inv x (d \<lparr> d_response_buffer := a6 \<rparr>) = base_inv x d"
  "base_inv x (d \<lparr> d_core_request_buffer := a6 \<rparr>) = base_inv x d"
  "base_inv x (d \<lparr> d_match_kill_card_code := a7 \<rparr>) = base_inv x d"
  "base_inv x (d \<lparr> d_duel_count := a8 \<rparr>) = base_inv x d"
  "base_inv x (d \<lparr> d_first_attack_decider := a9 \<rparr>) = base_inv x d"
  "base_inv x (d \<lparr> d_last_select_message := b1 \<rparr>) = base_inv x d"
  "base_inv x (d \<lparr> d_last_response := a9 \<rparr>) = base_inv x d"
  "base_inv x (d \<lparr> d_start_time := b2 \<rparr>) = base_inv x d"
  "base_inv x (d \<lparr> d_client_responses := b3 \<rparr>) = base_inv x d"
  "base_inv x (d \<lparr> d_requests := b4 \<rparr>) = base_inv x d" "base_inv x (d \<lparr> d_positions := b5 \<rparr>) = base_inv x d"
  by (simp_all add: base_inv_def routed_def)

lemma base_inv_ops [simp]:
  "base_inv x (send m t d) = base_inv x d" "base_inv x (queue r d) = base_inv x d"
  "base_inv x (queue_request_ex y d) = base_inv x d" "base_inv x (map_core f d) = base_inv x d"
  by (simp_all add: send_def queue_def queue_request_ex_def map_core_def base_inv_def routed_def)

lemma d_players_send [simp]: "d_players (send m t d) = d_players d"
  by (simp add: send_def)

lemma base_inv_map_player [simp]:
  "base_inv x d \<Longrightarrow> (\<And>p. dp_channel (f p) = dp_channel p) \<Longrightarrow> base_inv x (map_player i f d)"
  by (auto simp: map_player_def base_inv_def routed_def intro!: seats_match_modify)

lemma base_inv_map_players:
  "base_inv x d \<Longrightarrow> (\<And>p. dp_channel (f p) = dp_channel p) \<Longrightarrow>
   base_inv x (d \<lparr> d_players := map (map_option f) (d_players d) \<rparr>)"
  by (auto simp: base_inv_def routed_def intro!: seats_match_map)

lemma base_inv_give_turn:
  "base_inv x d \<Longrightarrow> d_players d = ps \<Longrightarrow> base_inv x (d \<lparr> d_players := give_turn k ps \<rparr>)"
  by (auto simp: base_inv_def routed_def give_turn_def seats_match_def nth_enumerate_eq)

lemma base_inv_two:
  assumes "base_inv x d" and "d_players d = Some p # Some q # ps"
    and "dp_channel p' = dp_channel p" and "dp_channel q' = dp_channel q"
  shows "base_inv x (d \<lparr> d_players := Some p' # Some q' # ps \<rparr>)"
  using assms by (auto simp: base_inv_def routed_def intro: seats_match_two)

lemma base_inv_free_seat: "base_inv x d \<Longrightarrow> free_seat i d = Inr d' \<Longrightarrow> base_inv x d'"
  by (auto simp: free_seat_def set_slot_def base_inv_def routed_def map_sender_def split: if_splits
      intro!: seats_match_bind)

lemma base_inv_update_observer:
  "base_inv x d \<Longrightarrow> (\<And>p. bp_stoc_sender (f p) = bp_stoc_sender p) \<Longrightarrow>
   base_inv x (d \<lparr> d_observers := slab_map f (d_observers d) \<rparr>)"
  by (auto simp: base_inv_def routed_def intro!: slabs_match_map)

lemma base_inv_insert_observer:
  "base_inv x d \<Longrightarrow> base_inv x (snd (insert_observer env p d))"
  by (auto simp: insert_observer_def base_inv_def routed_def map_sender_def split: prod.split
      intro!: slabs_match_insert)

lemma base_inv_remove_observer:
  assumes "base_inv x d" and "slab_try_remove k (d_observers d) = Some (p, obs)"
  shows "\<exists>d'. remove_sender_observer k (d \<lparr> d_observers := obs \<rparr>) = Inr d' \<and> base_inv x d'"
  using slabs_match_remove [of "d_observers d" "s_observers (d_sender d)"] assms
  by (fastforce simp: base_inv_def routed_def remove_sender_observer_def map_sender_def)

lemma base_inv_remove_undecided:
  assumes "base_inv x d" and "slab_try_remove k (d_uninit_players d) = Some (p, uninit)"
  shows "\<exists>d'. remove_sender_undecided k (d \<lparr> d_uninit_players := uninit \<rparr>) = Inr d' \<and> base_inv x d'"
  using slabs_match_remove [of "d_uninit_players d" "s_undecided (d_sender d)"] assms
  by (fastforce simp: base_inv_def routed_def remove_sender_undecided_def map_sender_def)

lemmas base_inv_removed_observer = base_inv_remove_observer [THEN exE]
lemmas base_inv_removed_undecided = base_inv_remove_undecided [THEN exE]

lemma base_inv_set_slot:
  assumes "base_inv x d" and "set_slot i (Some p) d = Inr d'"
  shows "base_inv x (map_sender (Sender_set_player i (dp_channel p)) d')"
  using assms by (auto simp: set_slot_def map_sender_def base_inv_def routed_def split: if_splits
      intro!: seats_match_bind)

lemma base_inv_take_seat:
  assumes "base_inv x d" and "take_seat env pos p d = Inr d'"
  shows "base_inv x d'"
  using assms(2) base_inv_set_slot [OF assms(1), of _ "DuelPlayer_from p"]
  by (cases pos) (use assms(1) in \<open>auto simp: base_inv_insert_observer\<close>)

section \<open>The handlers\<close>

lemma base_inv_on_response [simp, intro]: "base_inv x d \<Longrightarrow> base_inv x (on_response env i r d)"
  by (simp add: on_response_def Let_def base_inv_map_player)

lemma base_inv_hand_result_decided [simp]: "base_inv x (hand_result_decided a b d) = base_inv x d"
  by (simp add: hand_result_decided_def Let_def split: option.split)

lemma hand_result_states_channel:
  "hand_result_states a b p q = (p', q') \<Longrightarrow> dp_channel p' = dp_channel p \<and> dp_channel q' = dp_channel q"
  by (auto simp: hand_result_states_def split: HandResult.splits)

lemma base_inv_on_hand_result:
  assumes "base_inv x d" and "on_hand_result i h d = Inr d'"
  shows "base_inv x d'"
proof -
  let ?d = "map_player i (\<lambda>p. p \<lparr> dp_hand := Some h \<rparr>) d"
  have inv: "base_inv x ?d" using assms(1) by simp
  show ?thesis
  proof (cases "\<exists>p q ps. d_players ?d = Some p # Some q # ps")
    case True
    then obtain p q ps where two: "d_players ?d = Some p # Some q # ps" by blast
    show ?thesis
    proof (cases "dp_hand p = None \<or> dp_hand q = None")
      case True
      then show ?thesis using assms(2) inv by (auto simp: on_hand_result_def Let_def two split: option.splits)
    next
      case False
      then obtain a b where "dp_hand p = Some a" and "dp_hand q = Some b" by auto
      moreover obtain p' q' where "hand_result_states a b p q = (p', q')" by fastforce
      moreover note base_inv_two [OF inv two, of p' q']
      ultimately show ?thesis
        using assms(2) hand_result_states_channel by (fastforce simp: on_hand_result_def Let_def two)
    qed
  next
    case False
    then show ?thesis
      using assms(2) inv by (auto simp: on_hand_result_def Let_def split: list.splits option.splits)
  qed
qed

lemma base_inv_on_tp_result [simp]: "base_inv x (on_tp_result env d) = base_inv x d"
  by (simp add: on_tp_result_def Let_def)

lemma base_inv_on_duel_start [simp]: "base_inv x (on_duel_start env d) = base_inv x d"
  by (simp add: on_duel_start_def)

lemma base_inv_side_deck_accepted: "base_inv x d \<Longrightarrow> base_inv x (side_deck_accepted i k d)"
  by (simp add: side_deck_accepted_def Let_def base_inv_give_turn)

lemma base_inv_on_update_deck: "base_inv x d \<Longrightarrow> on_update_deck env i k d = Inr (d', r) \<Longrightarrow> base_inv x d'"
  by (auto simp: on_update_deck_def base_inv_side_deck_accepted split: option.splits if_splits prod.splits)

lemma base_inv_on_create_game [simp]: "base_inv x (on_create_game i n p d) = base_inv x d"
  by (simp add: on_create_game_def)

lemma base_inv_seat_client:
  assumes "base_inv x d" and "seat_client env p d = Inr (pos, ms, d')"
  shows "base_inv x d'"
  using assms(2) unfolding seat_client_def Let_def
  by - (erule and_then_E, erule and_then_E, drule base_inv_take_seat [rotated], simp_all add: assms(1))

lemma base_inv_on_join_game:
  assumes "base_inv x d" and "on_join_game env p w d = Inr (pos, d', r)"
  shows "base_inv x d'"
proof (cases "d' = d")
  case False
  then obtain i where p: "p = Undecided i"
    using assms(2) by (cases p) (auto simp: on_join_game_def split: if_splits)
  with False obtain b uninit where rem: "slab_try_remove (unat i) (d_uninit_players d) = Some (b, uninit)"
    using assms(2) by (cases "slab_try_remove (unat i) (d_uninit_players d)") (auto simp: on_join_game_def split: if_splits)
  obtain d1 where d1: "remove_sender_undecided (unat i) (d \<lparr> d_uninit_players := uninit \<rparr>) = Inr d1" and "base_inv x d1"
    using base_inv_remove_undecided [OF assms(1) rem] by blast
  moreover have "\<exists>ms. seat_client env b d1 = Inr (pos, ms, d')"
    using assms(2) False by (auto simp: on_join_game_def p rem d1 split: if_splits)
  ultimately show ?thesis by (auto intro: base_inv_seat_client)
qed (simp add: assms(1))

lemma base_inv_on_hs_to_duelist:
  assumes "base_inv x d" and "on_hs_to_duelist p d = Inr (pos, d', r)"
  shows "base_inv x d'"
proof (cases "d' = d")
  case False
  then obtain k where p: "p = Observer k"
    using assms(2) by (cases p) (auto simp: on_hs_to_duelist_def)
  with False obtain i where i: "first_free (d_players d) 0 = Some i"
    using assms(2) by (cases "first_free (d_players d) 0") (auto simp: on_hs_to_duelist_def)
  with p False obtain b obs where rem: "slab_try_remove (unat k) (d_observers d) = Some (b, obs)"
    using assms(2) by (cases "slab_try_remove (unat k) (d_observers d)") (auto simp: on_hs_to_duelist_def)
  obtain d1 where d1: "remove_sender_observer (unat k) (d \<lparr> d_observers := obs \<rparr>) = Inr d1" and inv: "base_inv x d1"
    using base_inv_remove_observer [OF assms(1) rem] by blast
  let ?d2 = "if d_host_player d1 = Observer k then d1 \<lparr> d_host_player := Player (of_nat i) \<rparr> else d1"
  have "base_inv x ?d2" using inv by simp
  from base_inv_set_slot [OF this, of i "DuelPlayer_from b"] show ?thesis
    using assms(2) by (auto simp: on_hs_to_duelist_def Let_def p i rem d1)
qed (simp add: assms(1))

lemma base_inv_clear: "base_inv x d \<Longrightarrow> i < length (d_players d) \<Longrightarrow>
  base_inv x (map_sender (Sender_clear_player i) (d \<lparr> d_players := (d_players d)[i := None] \<rparr>))"
  by (auto simp: map_sender_def base_inv_def routed_def intro!: seats_match_bind)

lemma base_inv_on_hs_to_observer:
  assumes "base_inv x d" and "on_hs_to_observer env e i d = Inr (pos, d', r)"
  shows "base_inv x d'"
proof (cases "d' = d")
  case False
  then obtain p where p: "unat i < length (d_players d)" "d_players d ! unat i = Some p"
    using assms(2) by (auto simp: on_hs_to_observer_def split: option.splits if_splits)
  let ?d1 = "map_sender (Sender_clear_player (unat i)) (d \<lparr> d_players := (d_players d)[unat i := None] \<rparr>)"
  obtain k d2 where ins: "insert_observer env (dp_player p) ?d1 = (k, d2)" by fastforce
  have "base_inv x d2" using base_inv_insert_observer [OF base_inv_clear [OF assms(1) p(1)], of env "dp_player p"] ins by simp
  then show ?thesis using assms(2) p ins by (auto simp: on_hs_to_observer_def Let_def split: if_splits)
qed (simp add: assms(1))

lemma base_inv_hand_over: "base_inv x d \<Longrightarrow> base_inv x (hand_over h d)"
  by (auto simp: hand_over_def Let_def split: Netplayer.split)

lemma base_inv_leave_player:
  assumes "base_inv x d" and "leave_player i d = Inr d'"
  shows "base_inv x d'"
proof (cases "d_stage d = DuelStage_Begin")
  case True
  then obtain d1 m where "free_seat (unat i) d = Inr d1" and "free_seat (unat i) (send m To_All d1) = Inr d'"
    using assms(2) by (auto simp: leave_player_def)
  then show ?thesis using base_inv_free_seat [of x d] base_inv_free_seat [of x "send m To_All d1"] assms(1) by simp
qed (use assms in \<open>auto simp: leave_player_def intro: base_inv_free_seat\<close>)

lemma base_inv_leave_observer:
  assumes "base_inv x d" and "leave_observer k d = Inr d'"
  shows "base_inv x d'"
proof (cases "slab_try_remove (unat k) (d_observers d)")
  case (Some e)
  obtain p obs where e: "e = (p, obs)" by (cases e)
  obtain d1 where "remove_sender_observer (unat k) (d \<lparr> d_observers := obs \<rparr>) = Inr d1" and "base_inv x d1"
    using base_inv_remove_observer [OF assms(1) Some [unfolded e]] by blast
  then show ?thesis using assms(2) by (auto simp: leave_observer_def Some e)
qed (use assms in \<open>simp add: leave_observer_def\<close>)

lemma base_inv_leave_undecided:
  assumes "base_inv x d" and "leave_undecided k d = Inr d'"
  shows "base_inv x d'"
proof (cases "slab_try_remove (unat k) (d_uninit_players d)")
  case (Some e)
  obtain p obs where e: "e = (p, obs)" by (cases e)
  obtain d1 where "remove_sender_undecided (unat k) (d \<lparr> d_uninit_players := obs \<rparr>) = Inr d1" and "base_inv x d1"
    using base_inv_remove_undecided [OF assms(1) Some [unfolded e]] by blast
  then show ?thesis using assms(2) by (auto simp: leave_undecided_def Some e)
qed (use assms in \<open>simp add: leave_undecided_def\<close>)

lemma base_inv_leave_position: "base_inv x d \<Longrightarrow> leave_position p d = Inr d' \<Longrightarrow> base_inv x d'"
  by (cases p) (auto intro: base_inv_leave_player base_inv_leave_observer base_inv_leave_undecided)

lemma base_inv_on_leave_game:
  assumes "base_inv x d" and "on_leave_game env p d = Inr (d', b)"
  shows "base_inv x d'"
  using assms(2) base_inv_hand_over [OF assms(1)]
  by (auto simp: on_leave_game_def Let_def assms(1) split: if_splits option.splits
      intro: base_inv_leave_position [rotated])

lemma base_inv_begin_duel:
  "base_inv x d \<Longrightarrow> d_players d = Some p # Some q # ps \<Longrightarrow> base_inv x (begin_duel p q ps d)"
  unfolding begin_duel_def Let_def
  by (rule base_inv_two) (simp_all add: base_inv_update_observer ask_hand_def)

lemma base_inv_on_hs_start: "base_inv x d \<Longrightarrow> on_hs_start p d = Inr d' \<Longrightarrow> base_inv x d'"
  by (auto simp: on_hs_start_def base_inv_begin_duel split: if_splits list.splits option.splits)

lemma base_inv_on_player_info: "base_inv x d \<Longrightarrow> base_inv x (on_player_info p n d)"
  by (cases p) (auto simp: on_player_info_def base_inv_def routed_def intro!: slabs_match_update)

lemma base_inv_on_hs_ready: "base_inv x d \<Longrightarrow> on_hs_ready i d = Inr d' \<Longrightarrow> base_inv x d'"
  by (auto simp: on_hs_ready_def split: if_splits option.splits)

lemma base_inv_on_validate_deck: "base_inv x d \<Longrightarrow> on_validate_deck env i k d = Inr d' \<Longrightarrow> base_inv x d'"
  by (auto simp: on_validate_deck_def)

lemma base_inv_on_send_deck_validation:
  "base_inv x d \<Longrightarrow> on_send_deck_validation i d = Inr (d', ms, t) \<Longrightarrow> base_inv x d'"
  by (auto simp: on_send_deck_validation_def split: if_splits option.splits)

lemma base_inv_on_hs_not_ready: "base_inv x d \<Longrightarrow> on_hs_not_ready i d = Inr d' \<Longrightarrow> base_inv x d'"
  by (auto simp: on_hs_not_ready_def split: if_splits option.splits)

lemma base_inv_on_hs_kick:
  assumes "base_inv x d" and "on_hs_kick k t d = Inr d'"
  shows "base_inv x d'"
proof (cases "d' = d")
  case False
  then obtain i where t: "t = Player i" using assms(2) by (cases t) (auto simp: on_hs_kick_def split: if_splits)
  with False have i: "unat i < length (d_players d)"
    using assms(2) by (auto simp: on_hs_kick_def split: if_splits elim!: and_then_E)
  have "base_inv x (send m To_None (map_sender (Sender_clear_player (unat i)) (d \<lparr> d_players := (d_players d)[unat i := None] \<rparr>)))" for m
    using base_inv_clear [OF assms(1) i] by simp
  then show ?thesis
    using assms(2) False
    by (auto simp: on_hs_kick_def t Let_def base_inv_def routed_def send_def map_sender_def split: if_splits
        intro!: seats_match_bind)
qed (simp add: assms(1))

lemma base_inv_connect_client: "base_inv x d \<Longrightarrow> base_inv x (connect_client env c r d)"
  using slabs_match_insert [of "d_uninit_players d" _ "env_fresh env" "BaseDuelPlayer_new c"]
  by (auto simp: connect_client_def base_inv_def routed_def map_sender_def BaseDuelPlayer_new_def split: prod.splits)

lemma base_inv_on_client_join: "base_inv x d \<Longrightarrow> on_client_join env c r d = (r', d') \<Longrightarrow> base_inv x d'"
proof (cases r)
  case None
  then show "base_inv x d \<Longrightarrow> on_client_join env c r d = (r', d') \<Longrightarrow> base_inv x d'"
    by (simp add: on_client_join_def split: if_splits)
next
  case (Some n)
  then show "base_inv x d \<Longrightarrow> on_client_join env c r d = (r', d') \<Longrightarrow> base_inv x d'"
    by (auto simp: on_client_join_connects base_inv_connect_client split: if_splits)
qed

lemma base_inv_on_client_join_final [simp]: "base_inv x (on_client_join_final c r d) = base_inv x d"
  by (simp add: on_client_join_final_def base_inv_def routed_def map_sender_def)

lemma base_inv_on_duel_end [simp]: "base_inv x (on_duel_end env d) = base_inv x d"
  by (simp add: on_duel_end_def)

lemma base_inv_on_match_end [simp]: "base_inv x (on_match_end d) = base_inv x d"
  by (simp add: on_match_end_def)

lemma base_inv_on_recreate_duel: "base_inv x d \<Longrightarrow> base_inv x (on_recreate_duel env d)"
  by (auto simp: on_recreate_duel_def Let_def dp_channel_def set_state_def intro!: base_inv_map_players)

section \<open>The engine's messages\<close>

lemma Sender_send_game_message_fields:
  assumes "Sender_send_game_message m t judge tr s = Inr s'"
  shows "s_players s' = s_players s \<and> s_observers s' = s_observers s \<and> s_undecided s' = s_undecided s"
  using assms by (auto simp: Sender_send_game_message_def Let_def)

lemma base_inv_set_sender:
  "s_players s = s_players (d_sender d) \<and> s_observers s = s_observers (d_sender d) \<and> s_undecided s = s_undecided (d_sender d) \<Longrightarrow>
   base_inv x (d \<lparr> d_sender := s \<rparr>) = base_inv x d"
  by (simp add: base_inv_def routed_def)

lemma base_inv_send_game_message: "base_inv x d \<Longrightarrow> send_game_message m t tr d = Inr d' \<Longrightarrow> base_inv x d'"
  by (auto simp: send_game_message_def Let_def base_inv_set_sender split: if_splits
      dest!: Sender_send_game_message_fields)

lemma base_inv_send_all: "base_inv x d \<Longrightarrow> send_all ms tr d = Inr d' \<Longrightarrow> base_inv x d'"
  by (induction ms arbitrary: d) (auto intro: base_inv_send_game_message)

lemma base_inv_query_location_cards:
  "base_inv x d \<Longrightarrow> query_location_cards env p l q d = Inr (m, d') \<Longrightarrow> base_inv x d'"
  by (auto simp: query_location_cards_def split: prod.splits)

lemma base_inv_refresh_locations:
  "base_inv x d \<Longrightarrow> refresh_locations env q pls d = Inr (ms, d') \<Longrightarrow> base_inv x d'"
proof (induction pls arbitrary: d ms)
  case (Cons pl pls)
  obtain p l where pl: "pl = (p, l)" by (cases pl)
  from Cons.prems(2) obtain m d1 ms' where
    first: "query_location_cards env p l (if q = 0 then default_query l else q) d = Inr (m, d1)"
    and rest: "refresh_locations env q pls d1 = Inr (ms', d')"
    by (auto simp: pl)
  show ?case using Cons.IH [OF base_inv_query_location_cards [OF Cons.prems(1) first] rest] .
qed simp

lemma base_inv_refresh:
  assumes "base_inv x d" and "refresh env p l i q tr d = Inr d'"
  shows "base_inv x d'"
proof (cases "0 \<le> sint i")
  case True
  then obtain m d1 where card: "refresh_card env p l i q d = Inr (m, d1)" and sent: "send_game_message m To_All tr d1 = Inr d'"
    using assms(2) by (auto simp: refresh_def)
  have "base_inv x d1" using card assms(1) by (auto simp: refresh_card_def split: prod.splits)
  then show ?thesis by (rule base_inv_send_game_message [OF _ sent])
next
  case False
  then obtain ms d1 where "refresh_location env p l q d = Inr (ms, d1)" and "send_all ms tr d1 = Inr d'"
    using assms(2) by (auto simp: refresh_def)
  then show ?thesis
    using base_inv_send_all [OF base_inv_refresh_locations [OF assms(1)]] unfolding refresh_location_def by simp
qed

lemma base_inv_evolve_round:
  assumes "base_inv x d" and "evolve_round env d = Inr (ms, flag, d')"
  shows "base_inv x d'"
proof -
  obtain result core where p: "Core_process (env_api env) (d_core d) = (result, core)" by fastforce
  obtain buf core' where g: "Core_get_message (env_api env) (d_core_request_buffer d) core = (buf, core')" by fastforce
  show ?thesis using assms by (auto simp: evolve_round_def p g Let_def split: if_splits)
qed

text \<open>What every round of the engine keeps is kept by the loop, when it ends.\<close>

lemma evolve_loop_inv:
  fixes env :: "'c env" and d d' :: "('c, 'a) Duel_scheme"
  assumes "evolve_loop env ms d = Some (Inr (ms', d'))" and "I d"
    and round: "\<And>d ms flag d'. I d \<Longrightarrow> evolve_round env d = Inr (ms, flag, d') \<Longrightarrow> I d'"
  shows "I d'"
proof -
  let ?P = "\<lambda>env' (ms :: gm_Message list) d (r :: (gm_Message list \<times> ('c, 'a) Duel_scheme) res).
    \<forall>ms' d'. r = Inr (ms', d') \<longrightarrow> env' = env \<longrightarrow> I d \<longrightarrow> I d'"
  have "?P env ms d (Inr (ms', d'))"
  proof (rule evolve_loop.raw_induct [where P = ?P, OF _ assms(1)], intro allI impI)
    fix loop env' ms d r ms' d'
    assume IH: "\<And>env' ms d r. loop env' ms d = Some r \<Longrightarrow> \<forall>ms' d'. r = Inr (ms', d') \<longrightarrow> env' = env \<longrightarrow> I d \<longrightarrow> I d'"
      and body: "(case evolve_round env' d of Inl p \<Rightarrow> Some (Inl p)
        | Inr (new, flag, d') \<Rightarrow> if evolve_done flag (ms @ new) then Some (Inr (ms @ new, d')) else loop env' (ms @ new) d') = Some r"
      and r: "r = Inr (ms', d')" and env: "env' = env" and inv: "I d"
    show "I d'"
    proof (cases "evolve_round env d")
      case (Inr y)
      obtain new flag d1 where y: "y = (new, flag, d1)" by (cases y) auto
      have "I d1" using round [OF inv Inr [unfolded y]] .
      then show ?thesis using IH [of env "ms @ new" d1] body r env by (auto simp: Inr y split: if_splits)
    qed (use body r env in auto)
  qed
  then show ?thesis using assms(1,2) by blast
qed

lemma base_inv_evolve: "base_inv x d \<Longrightarrow> evolve env d = Inr (ms, d') \<Longrightarrow> base_inv x d'"
  by (auto simp: evolve_def split: if_splits option.splits
      intro: evolve_loop_inv [where I = "base_inv x"] base_inv_evolve_round)

section \<open>The registrations\<close>

lemma h_run_handler [simp]: "h_run (handler prio m n run) = run"
  by (simp add: handler_def)

lemma YGOPRO_HANDLERS_keep:
  assumes "(k, h) \<in> set (YGOPRO_HANDLERS env)"
  shows "keeps_room (base_inv x) (h_run h)"
proof -
  have "keeps_room (base_inv x) (run_on_response env)" "keeps_room (base_inv x) (run_on_tp_result env)"
    "keeps_room (base_inv x) run_on_create_game"
    unfolding run_on_response_def run_on_tp_result_def run_on_create_game_def
    by (rule keeps_intros; auto)+
  moreover have "keeps_room (base_inv x) run_on_hand_result"
    unfolding run_on_hand_result_def by (rule keeps_intros) (auto intro: base_inv_on_hand_result)
  moreover have "keeps_room (base_inv x) (run_on_update_deck env)"
    unfolding run_on_update_deck_def
    by (rule keeps_on_duel) (auto simp: skipped_def split: option.splits ctos_Message.splits intro: base_inv_on_update_deck)
  moreover have "keeps_room (base_inv x) (run_on_join_game env)"
    unfolding run_on_join_game_def
    by (rule keeps_on_duel) (auto simp: skipped_def split: ctos_Message.splits intro: base_inv_on_join_game)
  moreover have "keeps_room (base_inv x) run_on_hs_to_duelist" "keeps_room (base_inv x) (run_on_leave_game env)"
    unfolding run_on_hs_to_duelist_def run_on_leave_game_def
    by (rule keeps_on_duel; auto intro: base_inv_on_hs_to_duelist base_inv_on_leave_game)+
  moreover have "keeps_room (base_inv x) (run_on_hs_to_observer env)"
    unfolding run_on_hs_to_observer_def
    by (rule keeps_on_duel) (auto simp: skipped_def split: option.splits intro: base_inv_on_hs_to_observer)
  moreover have "keeps_room (base_inv x) run_on_hs_start" "keeps_room (base_inv x) run_on_hs_kick"
    "keeps_room (base_inv x) run_on_player_info"
    unfolding run_on_hs_start_def run_on_hs_kick_def run_on_player_info_def
    by (rule keeps_intros; auto intro: base_inv_on_hs_start base_inv_on_hs_kick base_inv_on_player_info)+
  moreover have "keeps_room (base_inv x) run_on_hs_ready" "keeps_room (base_inv x) run_on_hs_not_ready"
    unfolding run_on_hs_ready_def run_on_hs_not_ready_def
    by (rule keeps_intros; auto intro: base_inv_on_hs_ready base_inv_on_hs_not_ready)+
  ultimately show ?thesis using assms by (auto simp: YGOPRO_HANDLERS_def Let_def)
qed

lemma YGOPRO_HANDLERS_EX_keep:
  fixes env :: "'c env" and x :: "nat \<times> 'a"
  assumes "(k, h) \<in> set (YGOPRO_HANDLERS_EX env)"
  shows "keeps_room (base_inv x) (h_run h)"
proof -
  have "keeps_room (base_inv x) (run_on_duel_start env)" "keeps_room (base_inv x) (run_on_duel_end env)"
    "keeps_room (base_inv x) run_on_match_end" "keeps_room (base_inv x) (run_on_recreate_duel env)"
    unfolding run_on_duel_start_def run_on_duel_end_def run_on_match_end_def run_on_recreate_duel_def
    by (rule keeps_intros; auto intro: base_inv_on_recreate_duel)+
  moreover have "keeps_room (base_inv x) (run_on_validate_deck env)"
    unfolding run_on_validate_deck_def
    by (rule keeps_on_ex) (auto split: ygopro_Message.splits intro: base_inv_on_validate_deck)
  moreover have "keeps_room (base_inv x) run_on_send_deck_validation"
    unfolding run_on_send_deck_validation_def
    by (rule keeps_on_duel)
      (auto simp: skipped_def split: ygopro_Message.splits intro: base_inv_on_send_deck_validation)
  moreover have "keeps_room (base_inv x) (run_on_client_join env)"
    unfolding run_on_client_join_def
    by (rule keeps_on_duel)
      (auto simp: skipped_def done_with_def split: ygopro_Message.splits prod.splits intro: base_inv_on_client_join)
  moreover have "keeps_room (base_inv x) run_on_client_join_final"
    unfolding run_on_client_join_final_def by (rule keeps_intros) auto
  moreover have "keeps_room (base_inv x) (run_on_generate_replay env)"
    "keeps_room (base_inv x) run_on_generate_replay_final"
    unfolding run_on_generate_replay_def run_on_generate_replay_final_def
    by (rule keeps_intros; auto simp: done_with_def on_generate_replay_def on_generate_replay_final_def split: option.splits)+
  ultimately show ?thesis using assms
    by (auto simp: YGOPRO_HANDLERS_EX_def Let_def run_on_judge_match_kill_def run_on_judge_somebody_leave_def
        intro: keeps_judging)
qed

lemma base_inv_refill_time: "base_inv x d \<Longrightarrow> base_inv x (refill_time t d)"
  by (simp add: refill_time_def base_inv_map_players)

text \<open>The plugins.\<close>

lemma base_inv_after_meaningful:
  "base_inv x d \<Longrightarrow> (\<And>l p. dp_channel (f l p) = dp_channel p) \<Longrightarrow> base_inv x (after_meaningful f i r d)"
  by (simp add: after_meaningful_def split: option.split)

lemma base_inv_reset_time_backed: "base_inv x d \<Longrightarrow> base_inv x (reset_time_backed cfg d)"
  by (simp add: reset_time_backed_def Let_def base_inv_map_players)

lemma base_inv_compensator_on_new_turn: "base_inv x d \<Longrightarrow> base_inv x (compensator_on_new_turn cfg d)"
  by (simp add: compensator_on_new_turn_def Let_def base_inv_map_players)

lemma base_inv_compensator_on_time_confirm:
  "base_inv x d \<Longrightarrow> base_inv x (snd (compensator_on_time_confirm cfg i t d))"
  by (auto simp: compensator_on_time_confirm_def Let_def split: option.split)

lemma base_inv_preload: "base_inv x d \<Longrightarrow> preload_on_tp_result env d = Inr d' \<Longrightarrow> base_inv x d'"
  by (auto simp: preload_on_tp_result_def)

lemma base_inv_soumatou_on_join [simp]: "base_inv x (soumatou_on_join p d) = base_inv x d"
  by (simp add: soumatou_on_join_def queue_command_def split: Netplayer.split)

lemma base_inv_tell_all [simp]: "base_inv x (map_sender (tell_all ms t) d) = base_inv x d"
  by (simp add: tell_all_out map_sender_def base_inv_def routed_def)

lemma base_inv_soumatou [simp]: "base_inv x (soumatou arg d) = base_inv x d"
  by (simp add: soumatou_def tell_all_out map_sender_def base_inv_def routed_def split: Argument.split)

lemma base_inv_send_response [simp]: "base_inv x (send_response arg d) = base_inv x d"
  by (simp add: send_response_def queue_request_def split: Argument.split option.split)

lemma base_inv_field_info: "base_inv x d \<Longrightarrow> field_info env d = Inr (m, d') \<Longrightarrow> base_inv x d'"
  by (auto simp: field_info_def split: prod.splits option.splits)

lemma base_inv_field_cards: "base_inv x d \<Longrightarrow> field_cards env me ls d = Inr (ms, d') \<Longrightarrow> base_inv x d'"
proof (induction env me ls d arbitrary: ms rule: field_cards.induct)
  case (2 env me l ls d)
  from 2(3) obtain theirs d1 mine d2 ms' where first: "refresh_location env (CorePlayer_opponent me) l Query_all d = Inr (theirs, d1)"
    and second: "refresh_location env me l Query_all d1 = Inr (mine, d2)" and rest: "field_cards env me ls d2 = Inr (ms', d')"
    by auto
  have "base_inv x d2"
    using 2(2) first second by (auto simp: refresh_location_def intro: base_inv_refresh_locations)
  then show ?case using 2(1) rest by blast
qed simp

lemma base_inv_top_of_deck:
  assumes "base_inv x d" and "top_of_deck env b p d = Inr (ms, d')"
  shows "base_inv x d'"
proof -
  from assms(2) obtain m where
    "query_location_cards env p (Location_bits Location_Deck) (Query_bits Query_Code OR Query_bits Query_Position) d = Inr (m, d')"
    unfolding top_of_deck_def by (auto split: option.splits)
  then show ?thesis by (rule base_inv_query_location_cards [OF assms(1)])
qed

lemma field_messages_steps:
  assumes "field_messages env seats r t i d = Inr (ms, d')"
  obtains info d1 cards d2 top1 d3 top2 where "field_info env d = Inr (info, d1)"
    and "field_cards env (tr_to_core (sts_transformer seats) (Player i)) shown_locations d1 = Inr (cards, d2)"
    and "top_of_deck env (rc_deck_reversed r) FirstAttackPlayer d2 = Inr (top1, d3)"
    and "top_of_deck env (rc_deck_reversed r) SecondAttackPlayer d3 = Inr (top2, d')"
    and "ms = Stoc_DuelStart #
         map Stoc_GameMessage (restart_message (d_host_info d) (tr_to_core (sts_transformer seats) (Player i)) #
           turn_messages r @ [info] @ cards @ (if rc_deck_reversed r then [GM_ReverseDeck] else []) @ top1 @ top2) @
         time_messages seats t d' @ [Stoc_FieldFinish] @ prompt_messages seats i d'"
  using assms unfolding field_messages_def Let_def by (auto elim!: and_then_E split: prod.splits)

lemma base_inv_on_request_field:
  assumes "base_inv x d" and "on_request_field env seats r t i d = Inr d'"
  shows "base_inv x d'"
proof (cases r)
  case (Some r')
  then obtain ms d1 where ms: "field_messages env seats r' t i d = Inr (ms, d1)"
    and d': "d' = map_sender (tell_all ms (SendTarget_of_index i)) d1"
    using assms(2) by (auto simp: on_request_field_def)
  from ms have "base_inv x d1"
    by (rule field_messages_steps)
      (blast intro: base_inv_field_info [OF assms(1)] dest: base_inv_field_cards [rotated] base_inv_top_of_deck [rotated])
  then show ?thesis by (simp add: d')
qed (use assms in \<open>simp add: on_request_field_def\<close>)

lemma plugin_handlers_keep:
  assumes "(k, h) \<in> set (plugin_handlers env)"
  shows "keeps_room (base_inv x) (h_run h)"
proof -
  have "keeps_room (base_inv x) (timed time_on_create_game r)" for r
    by (rule keeps_intros) (simp add: time_on_create_game_def)
  moreover have "keeps_room (base_inv x) (timed_by_player time_on_time_confirm)"
    "keeps_room (base_inv x) (timed_by_player time_on_response)"
    by (rule keeps_intros; auto simp: time_on_time_confirm_def time_on_response_def intro!: base_inv_map_player)+
  moreover have "keeps_room (base_inv x) (run_backed_on_response env)"
    "keeps_room (base_inv x) (run_compensator_on_response env)"
    unfolding run_backed_on_response_def run_compensator_on_response_def
    by (rule keeps_intros; simp add: backed_on_response_def compensator_on_response_def base_inv_after_meaningful)+
  moreover have "keeps_room (base_inv x) (run_backed_on_tp_result env)" "keeps_room (base_inv x) (run_preload_on_tp_result env)"
    unfolding run_backed_on_tp_result_def run_preload_on_tp_result_def
    by (rule keeps_intros; auto intro: base_inv_reset_time_backed base_inv_preload)+
  moreover have "keeps_room (base_inv x) (run_compensator_on_time_confirm env)"
    by (rule keeps_intros) (simp_all add: base_inv_compensator_on_time_confirm)
  moreover have "keeps_room (base_inv x) run_soumatou_on_join"
    unfolding run_soumatou_on_join_def by (rule keeps_intros) auto
  ultimately show ?thesis using assms
    by (auto simp: plugin_handlers_def intro: keeps_terminate_on_leave_game keeps_before_join_game)
qed

lemma plugin_handlers_ex_keep:
  assumes "(k, h) \<in> set (plugin_handlers_ex env)"
  shows "keeps_room (base_inv x) (h_run h)"
proof -
  have "keeps_room (base_inv x) (timed time_on_duel_start r)" "keeps_room (base_inv x) (timed time_on_duel_end r)" for r
    by (rule keeps_intros; simp add: time_on_duel_start_def time_on_duel_end_def Let_def base_inv_refill_time)+
  moreover have "keeps_room (base_inv x) (run_soumatou_on_client_join env)"
    by (rule keeps_intros) (simp add: base_inv_connect_client)
  moreover have "keeps_room (base_inv x) (run_replay_on_generate_replay env)"
    by (rule keeps_intros) simp
  ultimately show ?thesis using assms
    by (auto simp: plugin_handlers_ex_def terminate_on_match_end_def intro: keeps_judging keeps_stop_first_shuffle)
qed

lemma core_handlers_keep:
  assumes "(k, h) \<in> set (YGOCORE_HANDLERS @ plugin_core_handlers env)"
  shows "keeps_room (base_inv x) (h_run h)"
proof -
  have "keeps_room (base_inv x) (timed time_on_new_turn r)" for r
    by (rule keeps_intros) (simp add: time_on_new_turn_def base_inv_refill_time)
  moreover have "keeps_room (base_inv x) (run_backed_on_new_turn env)" "keeps_room (base_inv x) (run_compensator_on_new_turn env)"
    unfolding run_backed_on_new_turn_def run_compensator_on_new_turn_def
    by (rule keeps_on_duel; auto intro: base_inv_reset_time_backed base_inv_compensator_on_new_turn)+
  moreover have "keeps_room (base_inv x) (remembering f)" for f
    by (rule keeps_intros) simp
  moreover have "keeps_room (base_inv x) run_on_win" "keeps_room (base_inv x) run_on_match_kill"
    unfolding run_on_win_def run_on_match_kill_def
    by (rule keeps_on_duel; auto simp: skipped_def on_win_def on_match_kill_def
        split: gm_Message.splits gm_GroupA.splits gm_GroupD.splits)+
  ultimately show ?thesis using assms
    by (auto simp: YGOCORE_HANDLERS_def plugin_core_handlers_def Let_def run_reconnect_on_new_phase_def
        run_reconnect_on_new_turn_def run_reconnect_on_reverse_deck_def intro: keeps_deciding)
qed

lemma base_inv_run_command: "base_inv x (st_duel st) \<Longrightarrow> base_inv x (st_duel (snd (run_command env name arg st)))"
  by (auto simp: run_command_def timer_tick_def Let_def split: option.split)

end
