(* ===== verification/SingleDuel.thy ===== *)
theory SingleDuel
  imports PluginSet
begin

text \<open>
  The room for two players (single duel.rs): who attacks first, who won the duels of the match, the
  handlers that need the two, and the loop that takes the requests of the room one by one.
\<close>

record 'c SingleDuel = "'c Duel" +
  sd_first_attack_player :: "PlayerIndex option"
  sd_duel_winner :: "PlayerIndex option list"

definition SingleDuel_new :: "'c env \<Rightarrow> HostInfo \<Rightarrow> bool \<Rightarrow> 'c SingleDuel" where
  "SingleDuel_new env host_info no_mask =
     Duel.Duel.extend (Duel_new env host_info no_mask) (SingleDuel.SingleDuel.fields None [])"

section \<open>Players of the engine and positions at the table\<close>

definition turned :: "PlayerIndex \<Rightarrow> CorePlayer \<Rightarrow> CorePlayer" where
  "turned first p = (if first = 0 then p else CorePlayer_opponent p)"

fun seat_target :: "CorePlayer \<Rightarrow> SendTarget" where
    "seat_target FirstAttackPlayer = To_Single (Player 0)"
  | "seat_target SecondAttackPlayer = To_Single (Player 1)"
  | "seat_target AllPlayers = To_All"
  | "seat_target NoPlayer = To_None"
  | "seat_target RulePlayer = To_None"

fun seat_index :: "CorePlayer \<Rightarrow> PlayerIndex option" where
    "seat_index FirstAttackPlayer = Some 0"
  | "seat_index SecondAttackPlayer = Some 1"
  | "seat_index _ = None"

definition transform :: "PlayerIndex \<Rightarrow> CorePlayer \<Rightarrow> SendTarget" where
  "transform first p = seat_target (turned first p)"

definition to_net_player :: "PlayerIndex \<Rightarrow> CorePlayer \<Rightarrow> Netplayer" where
  "to_net_player first p = CorePlayer_to_net (turned first p)"

definition to_core_player :: "PlayerIndex \<Rightarrow> Netplayer \<Rightarrow> CorePlayer" where
  "to_core_player first p = (case p of Player i \<Rightarrow> turned first (Netplayer_to_core p) | _ \<Rightarrow> NoPlayer)"

definition to_player_index :: "PlayerIndex \<Rightarrow> CorePlayer \<Rightarrow> PlayerIndex option" where
  "to_player_index first p = seat_index (turned first p)"

definition PlayerTransformer :: "PlayerIndex \<Rightarrow> Transformer" where
  "PlayerTransformer first =
     \<lparr> tr_transform = transform first, tr_to_net = to_net_player first, tr_to_core = to_core_player first \<rparr>"

definition first_attacker :: "'c SingleDuel \<Rightarrow> PlayerIndex" where
  "first_attacker d = (case sd_first_attack_player d of None \<Rightarrow> 0 | Some i \<Rightarrow> i)"

section \<open>Waiting for a player\<close>

text \<open>The result is discarded by the callers; an early return leaves the room as far as it got.\<close>

definition set_waiting :: "CorePlayer \<Rightarrow> 'c SingleDuel \<Rightarrow> 'c SingleDuel" where
  "set_waiting player d =
     (case to_player_index (first_attacker d) player of
        None \<Rightarrow> d
      | Some i \<Rightarrow>
          let d1 = send (Stoc_GameMessage GM_Waiting) (SendTarget_of_index (i XOR 1)) (d \<lparr> d_last_response := Some i \<rparr>) in
          if 0 < hi_time_limit (d_host_info d1)
          then (case get_player d1 i of
                  None \<Rightarrow> d1
                | Some p \<Rightarrow>
                    let m = Stoc_TimeLimit player (dp_time_limit p) in
                    map_player i (set_state (Allow_Some ctos_T_TimeConfirm))
                      (send m (To_Single (Player 1)) (send m (To_Single (Player 0)) d1)))
          else map_player i (set_state (Allow_Some ctos_T_Response)) d1)"

section \<open>Handlers of client messages\<close>

definition single_on_create_game :: "'c SingleDuel \<Rightarrow> 'c SingleDuel" where
  "single_on_create_game d = d \<lparr> d_max_player_count := 2, d_players := [None, None] \<rparr>"

definition single_on_tp_result :: "PlayerIndex \<Rightarrow> CorePlayer \<Rightarrow> 'c SingleDuel \<Rightarrow> 'c SingleDuel" where
  "single_on_tp_result player result d =
     d \<lparr> sd_first_attack_player := Some (if result = FirstAttackPlayer then player else player XOR 1) \<rparr>"

definition send_win :: "CorePlayer \<Rightarrow> WinReason \<Rightarrow> ('c, 'a) Duel_scheme \<Rightarrow> ('c, 'a) Duel_scheme" where
  "send_win winner reason =
     send (Stoc_GameMessage (GM_Win \<lparr> gm_Win_winner = winner, gm_Win_reason = reason \<rparr>)) To_All"

definition single_on_leave_game :: "Netplayer \<Rightarrow> 'c SingleDuel \<Rightarrow> 'c SingleDuel" where
  "single_on_leave_game player d =
     (case player of
        Player i \<Rightarrow>
          let d1 = (if d_stage d = DuelStage_Siding then send Stoc_DuelStart To_AllPlayer d else d) in
          if DuelStage_Begin < d_stage d1 \<and> d_stage d1 \<noteq> DuelStage_End \<and> \<not> core_ended (d_core d1)
          then let winner = CorePlayer_opponent (to_core_player (first_attacker d) (Player i)) in
            queue_request_ex (Y_DuelEnd winner WinReason_OpponentLeave) (send_win winner WinReason_OpponentLeave d1)
          else d1
      | _ \<Rightarrow> d)"

definition single_on_surrender :: "Netplayer \<Rightarrow> 'c SingleDuel \<Rightarrow> 'c SingleDuel" where
  "single_on_surrender player d =
     (if core_ended (d_core d) then d
      else let winner = CorePlayer_opponent (to_core_player (first_attacker d) player) in
        queue_request_ex (Y_DuelEnd winner WinReason_OpponentSurrender) (send_win winner WinReason_OpponentSurrender d))"

definition single_on_chat :: "Netplayer \<Rightarrow> U16String \<Rightarrow> 'c SingleDuel \<Rightarrow> 'c SingleDuel" where
  "single_on_chat player msg d =
     send (Stoc_Chat (ChatSource_Player
             (case player of
                Player i \<Rightarrow> to_net_player (first_attacker d) (Netplayer_to_core player)
              | _ \<Rightarrow> player)) msg) To_All d"

section \<open>Handlers of internal messages\<close>

definition shuffle_seat :: "'c env \<Rightarrow> PlayerIndex \<Rightarrow> 'c SingleDuel \<Rightarrow> 'c SingleDuel res" where
  "shuffle_seat env i d =
     and_then (index (d_players d) (unat i)) (\<lambda>slot.
       case slot of
         None \<Rightarrow> Inr d
       | Some p \<Rightarrow>
           (case Core_shuffle_deck (env_api env) (dk_main (dp_deck p)) (d_core d) of (main, core) \<Rightarrow>
              Inr (map_player i (\<lambda>p. p \<lparr> dp_deck := dp_deck p \<lparr> dk_main := main \<rparr> \<rparr>) (d \<lparr> d_core := core \<rparr>))))"

definition on_first_shuffle :: "'c env \<Rightarrow> 'c SingleDuel \<Rightarrow> 'c SingleDuel res" where
  "on_first_shuffle env d =
     (if hi_no_shuffle_deck (d_host_info d) then Inr d
      else let first = first_attacker d in and_then (shuffle_seat env first d) (shuffle_seat env (1 - first)))"

definition add_cards :: "'c env \<Rightarrow> CorePlayer \<Rightarrow> u8 \<Rightarrow> u32 list \<Rightarrow> 'c Core \<Rightarrow> 'c Core" where
  "add_cards env p location codes core =
     fold (\<lambda>code. Core_new_card (env_api env) code p p location 0 (Position_bits Position_FacedownDefense)) (rev codes) core"

text \<open>The decks of the seats, in order; an empty seat returns at once.\<close>

fun init_seats :: "'c env \<Rightarrow> (PlayerIndex \<times> CorePlayer) list \<Rightarrow> 'c SingleDuel \<Rightarrow> 'c SingleDuel res" where
    "init_seats env [] d = Inr d"
  | "init_seats env ((i, p) # seats) d =
       and_then (index (d_players d) (unat i)) (\<lambda>slot.
         case slot of
           None \<Rightarrow> Inr d
         | Some player \<Rightarrow>
             init_seats env seats
               (map_core (add_cards env p (Location_bits Location_Extra) (dk_extra (dp_deck player)))
                 (map_core (add_cards env p (Location_bits Location_Deck) (dk_main (dp_deck player))) d)))"

definition on_duel_init :: "'c env \<Rightarrow> 'c SingleDuel \<Rightarrow> 'c SingleDuel res" where
  "on_duel_init env d =
     (let first = first_attacker d in
      init_seats env [(first, FirstAttackPlayer), (first XOR 1, SecondAttackPlayer)] d)"

definition start_message :: "'c env \<Rightarrow> 'c SingleDuel \<Rightarrow> PlayerType \<Rightarrow> stoc_Message" where
  "start_message env d player_type =
     (let info = d_host_info d; lp = hi_start_lp info;
          count = (\<lambda>p l. ucast (Core_query_field_count (env_api env) p (Location_bits l) (d_core d)) :: u16)
      in Stoc_GameMessage (GM_Start
           \<lparr> gm_Start_player_type = player_type, gm_Start_rule = hi_duel_rule info,
             gm_Start_player1_lp = lp, gm_Start_player2_lp = lp,
             gm_Start_player1_deck_count = count FirstAttackPlayer Location_Deck,
             gm_Start_player1_extra_count = count FirstAttackPlayer Location_Extra,
             gm_Start_player2_deck_count = count SecondAttackPlayer Location_Deck,
             gm_Start_player2_extra_count = count SecondAttackPlayer Location_Extra \<rparr>))"

definition observer_side :: "PlayerIndex option \<Rightarrow> CorePlayer res" where
  "observer_side first =
     (if first = Some 0 then Inr FirstAttackPlayer
      else if first = Some 1 then Inr SecondAttackPlayer
      else Inl Unreachable)"

definition single_on_duel_start :: "'c env \<Rightarrow> 'c SingleDuel \<Rightarrow> 'c SingleDuel res" where
  "single_on_duel_start env d =
     (let first = first_attacker d;
          start = start_message env d;
          d1 = send (start (PlayerType_with_player FirstAttackPlayer PlayerType_new))
                 (To_Single (to_net_player first FirstAttackPlayer)) d;
          d2 = send (start (PlayerType_with_player SecondAttackPlayer PlayerType_new))
                 (To_Single (to_net_player first SecondAttackPlayer)) d1
      in and_then (observer_side (sd_first_attack_player d)) (\<lambda>p.
           refresh env AllPlayers (Location_bits Location_Extra) (- 1) 0 (PlayerTransformer first)
             (send (start (PlayerType_with_is_observer True (PlayerType_with_player p PlayerType_new))) To_AllObserver d2)))"

definition swap_replay_sides :: "Replay \<Rightarrow> Replay" where
  "swap_replay_sides r =
     (let b = rp_body r in
      r \<lparr> rp_body := b \<lparr> rb_host_name := rb_client_name b, rb_client_name := rb_host_name b,
                          rb_host_deck := rb_client_deck b, rb_client_deck := rb_host_deck b \<rparr> \<rparr>)"

definition single_on_generate_replay :: "'c SingleDuel State \<Rightarrow> 'c SingleDuel State" where
  "single_on_generate_replay st =
     (if sd_first_attack_player (st_duel st) \<noteq> Some 1 then st
      else st \<lparr> st_replay := map_option swap_replay_sides (st_replay st) \<rparr>)"

definition single_on_duel_end :: "CorePlayer \<Rightarrow> 'c SingleDuel \<Rightarrow> 'c SingleDuel" where
  "single_on_duel_end winner d =
     d \<lparr> sd_duel_winner := sd_duel_winner d @ [to_player_index (first_attacker d) winner] \<rparr>"

fun count_wins :: "PlayerIndex option list \<Rightarrow> nat \<times> nat \<Rightarrow> (nat \<times> nat) res" where
    "count_wins [] wins = Inr wins"
  | "count_wins (None # ws) wins = count_wins ws wins"
  | "count_wins (Some i # ws) (a, b) =
       (if i = 0 then count_wins ws (a + 1, b)
        else if i = 1 then count_wins ws (a, b + 1)
        else Inl IndexOutOfBounds)"

definition match_over :: "Mode \<Rightarrow> PlayerIndex option list \<Rightarrow> bool res" where
  "match_over mode winners =
     (let end_count = (if mode = Mode_Match then 3 else 1); end_win_count = (end_count + 1) div 2 in
      and_then (count_wins winners (0, 0)) (\<lambda>(a, b). Inr
        (end_count \<le> length winners \<or> end_win_count \<le> a \<or> end_win_count \<le> b)))"

definition on_judge_continue_match :: "'c SingleDuel \<Rightarrow> str res" where
  "on_judge_continue_match d =
     and_then (match_over (hi_mode (d_host_info d)) (sd_duel_winner d))
       (\<lambda>over. Inr (lit (if over then ''terminate'' else ''continue'')))"

text \<open>The plugin bo replaces the length of a match. Its counts have eight bits.\<close>

fun count_wins8 :: "PlayerIndex option list \<Rightarrow> u8 \<times> u8 \<Rightarrow> (u8 \<times> u8) res" where
    "count_wins8 [] wins = Inr wins"
  | "count_wins8 (None # ws) wins = count_wins8 ws wins"
  | "count_wins8 (Some i # ws) (a, b) =
       (if i = 0 then count_wins8 ws (a + 1, b)
        else if i = 1 then count_wins8 ws (a, b + 1)
        else Inl IndexOutOfBounds)"

definition best_of_over :: "u8 \<Rightarrow> PlayerIndex option list \<Rightarrow> bool res" where
  "best_of_over best_of winners =
     (let end_count = unat best_of; end_win_count = (best_of + 1) div 2 in
      and_then (count_wins8 winners (0, 0)) (\<lambda>(a, b). Inr
        (end_count \<le> length winners \<or> end_win_count \<le> a \<or> end_win_count \<le> b)))"

definition judge_best_of :: "u8 \<Rightarrow> 'c SingleDuel \<Rightarrow> str option res" where
  "judge_best_of best_of d =
     (if best_of = 0 then Inr None
      else and_then (best_of_over best_of (sd_duel_winner d))
        (\<lambda>over. Inr (Some (lit (if over then ''terminate'' else ''continue'')))))"

definition last_winner :: "'c SingleDuel \<Rightarrow> PlayerIndex option" where
  "last_winner d = (if sd_duel_winner d = [] then None else last (sd_duel_winner d))"

definition single_on_recreate_duel :: "'c SingleDuel \<Rightarrow> 'c SingleDuel" where
  "single_on_recreate_duel d =
     (let decider = (case d_first_attack_decider d of None \<Rightarrow> 0 | Some i \<Rightarrow> i) in
      d \<lparr> sd_first_attack_player := None,
          d_first_attack_decider :=
            Some (case last_winner d of Some winner \<Rightarrow> winner XOR 1 | None \<Rightarrow> decider XOR 1) \<rparr>)"

definition single_on_timeout :: "PlayerIndex \<Rightarrow> 'c SingleDuel \<Rightarrow> 'c SingleDuel" where
  "single_on_timeout i d =
     (let winner = CorePlayer_opponent (to_core_player (first_attacker d) (Player i)) in
      queue_request_ex (Y_DuelEnd winner WinReason_Timeout)
        (send_win winner WinReason_Timeout (d \<lparr> d_last_response := None \<rparr>)))"

section \<open>Handlers of the engine's messages\<close>

definition on_retry :: "'c SingleDuel \<Rightarrow> SendTarget" where
  "on_retry d =
     (case d_last_response d of
        Some i \<Rightarrow> To_Core (to_core_player (first_attacker d) (Player i))
      | None \<Rightarrow> To_None)"

definition on_hint :: "PlayerIndex \<Rightarrow> gm_Hint \<Rightarrow> SendTarget" where
  "on_hint first m =
     (if gm_Hint_type m \<in> {Hint_Event, Hint_Message, Hint_SelectMessage, Hint_Effect} then To_Core (gm_Hint_player m)
      else if gm_Hint_type m = Hint_Card then To_All
      else To_Except (to_net_player first (gm_Hint_player m)))"

definition on_swap :: "'c env \<Rightarrow> gm_Swap \<Rightarrow> 'c SingleDuel \<Rightarrow> 'c SingleDuel res" where
  "on_swap env m d =
     (let tr = PlayerTransformer (first_attacker d); p1 = gm_Swap_position1 m; p2 = gm_Swap_position2 m in
      and_then (refresh env (il_controller p1) (il_location p1) (il_sequence p1) 0 tr d)
        (refresh env (il_controller p2) (il_location p2) (il_sequence p2) 0 tr))"

section \<open>The length of a match\<close>

definition wins :: "PlayerIndex \<Rightarrow> PlayerIndex option list \<Rightarrow> nat" where
  "wins i ws = length (filter (\<lambda>w. w = Some i) ws)"

lemma count_wins8_spec:
  assumes "\<forall>w \<in> set ws. w = None \<or> w = Some 0 \<or> w = Some 1"
  shows "count_wins8 ws (a, b) = Inr (a + of_nat (wins 0 ws), b + of_nat (wins 1 ws))"
  using assms
proof (induction ws "(a, b)" arbitrary: a b rule: count_wins8.induct)
  case (3 i ws a b)
  then show ?case by (auto simp: wins_def algebra_simps)
qed (auto simp: wins_def)

text \<open>A match of the best of n ends as soon as n duels were played or a player has won at least half of
  n: for an even n, that is one duel earlier than more than half. (For 255, the eight bits of the count
  wrap around and a match ends after its first duel.)\<close>

theorem best_of_ends_at_half:
  assumes "0 < n" and "n < 255" and "length ws < 256" and "\<forall>w \<in> set ws. w = None \<or> w = Some 0 \<or> w = Some 1"
  shows "best_of_over n ws = Inr (unat n \<le> length ws \<or> unat n \<le> 2 * wins 0 ws \<or> unat n \<le> 2 * wins 1 ws)"
proof -
  have half: "unat ((n + 1) div 2) = (unat n + 1) div 2"
  proof -
    have "unat n < 255" using assms(2) by (simp add: word_less_nat_alt)
    then have "unat (n + 1) = unat n + 1" by (simp add: unat_word_ariths)
    then show ?thesis by (simp add: unat_div)
  qed
  have few: "unat (of_nat (wins i ws) :: u8) = wins i ws" for i
  proof -
    have "wins i ws \<le> length ws" unfolding wins_def by (rule length_filter_le)
    then show ?thesis using assms(3) by (simp add: unat_of_nat)
  qed
  show ?thesis
    unfolding best_of_over_def Let_def count_wins8_spec [OF assms(4)]
    by (simp add: word_le_nat_alt half few) arith
qed

lemma best_of_ends_at_half_witness:
  "best_of_over 5 [Some 0, None, Some 0] = Inr False"
proof -
  have w: "\<forall>w \<in> set [Some 0, None, Some (0 :: u8)]. w = None \<or> w = Some 0 \<or> w = Some 1" by simp
  show ?thesis using best_of_ends_at_half [OF _ _ _ w, of 5] by (simp add: wins_def)
qed

end
