(* ===== verification/SingleRoom.thy ===== *)
theory SingleRoom
  imports SingleDuel
begin

text \<open>
  The loop of the room for two players (SingleDuel::run): the wrappers and registrations of its
  handlers, the processors built from all registrations, and the step that takes one request from the
  queue of the room. The order in which the processors sort handlers of equal priority is not
  specified, so the sorts are a parameter.
\<close>

section \<open>Wrappers and registrations\<close>

type_synonym 'c single_ctos_body = "(ctos_request, 'c SingleDuel, room_response) body"
type_synonym 'c single_ex_body = "(ex_request, 'c SingleDuel, room_response) body"
type_synonym 'c single_core_body = "(core_request, 'c SingleDuel, CoreResponse) body"
type_synonym 'c single_ctos_handler = "(ctos_request, 'c SingleDuel State, room_response) Handler"
type_synonym 'c single_ex_handler = "(ex_request, 'c SingleDuel State, room_response) Handler"
type_synonym 'c single_core_handler = "(core_request, 'c SingleDuel State, CoreResponse) Handler"

definition run_single_create_game :: "'c single_ctos_body" where
  "run_single_create_game = on_any (\<lambda>d. Inr (single_on_create_game d))"

definition run_single_tp_result :: "'c single_ctos_body" where
  "run_single_tp_result =
     by_player (\<lambda>m. case m of Ctos_TpResult r \<Rightarrow> Some r | _ \<Rightarrow> None) (\<lambda>i r d. Inr (single_on_tp_result i r d))"

definition run_single_leave_game :: "'c single_ctos_body" where
  "run_single_leave_game = by_anybody Some (\<lambda>p m d. Inr (single_on_leave_game p d))"

definition run_single_surrender :: "'c single_ctos_body" where
  "run_single_surrender = by_anybody Some (\<lambda>p m d. Inr (single_on_surrender p d))"

definition run_single_chat :: "'c single_ctos_body" where
  "run_single_chat =
     by_anybody (\<lambda>m. case m of Ctos_Chat msg \<Rightarrow> Some msg | _ \<Rightarrow> None) (\<lambda>p msg d. Inr (single_on_chat p msg d))"

definition run_first_shuffle :: "'c env \<Rightarrow> 'c single_ex_body" where
  "run_first_shuffle env = on_any (on_first_shuffle env)"

definition run_duel_init :: "'c env \<Rightarrow> 'c single_ex_body" where
  "run_duel_init env = on_any (on_duel_init env)"

definition run_single_duel_start :: "'c env \<Rightarrow> 'c single_ex_body" where
  "run_single_duel_start env = on_any (single_on_duel_start env)"

definition run_single_generate_replay :: "'c single_ex_body" where
  "run_single_generate_replay = on_state (\<lambda>q st. done_with q (single_on_generate_replay st))"

definition run_single_duel_end :: "'c single_ex_body" where
  "run_single_duel_end =
     on_ex (\<lambda>m. case m of Y_DuelEnd w r \<Rightarrow> Some w | _ \<Rightarrow> None) (\<lambda>w d. Inr (single_on_duel_end w d))"

definition run_judge_continue_match :: "'c single_ex_body" where
  "run_judge_continue_match =
     on_duel (\<lambda>q d. and_then (on_judge_continue_match d) (\<lambda>s. Inr (q, d, Some (into_response_str s))))"

definition run_single_recreate_duel :: "'c single_ex_body" where
  "run_single_recreate_duel = on_any (\<lambda>d. Inr (single_on_recreate_duel d))"

definition run_single_timeout :: "'c single_ex_body" where
  "run_single_timeout =
     on_ex (\<lambda>m. case m of Y_Timeout i \<Rightarrow> Some i | _ \<Rightarrow> None) (\<lambda>i d. Inr (single_on_timeout i d))"

definition run_judge_best_of :: "'c env \<Rightarrow> 'c single_ex_body" where
  "run_judge_best_of env b =
     and_then (judge_best_of (env_override_best_of env) (st_duel (state b))) (\<lambda>r. Inr
       (case r of None \<Rightarrow> b | Some s \<Rightarrow> b \<lparr> response := into_response_str s \<rparr>, Some (into_response_unit ())))"

definition single_seats :: "'c SingleDuel \<Rightarrow> Seats" where
  "single_seats d =
     \<lparr> sts_transformer = PlayerTransformer (first_attacker d),
       sts_first = to_player_index (first_attacker d) FirstAttackPlayer, sts_players = [0, 1] \<rparr>"

definition run_single_request_field :: "'c env \<Rightarrow> 'c single_ctos_body" where
  "run_single_request_field env = requesting_field env single_seats"

definition run_retry :: "'c single_core_body" where
  "run_retry = on_duel (\<lambda>q d. Inr (q, d, Some (core_to (on_retry d))))"

definition run_hint :: "'c single_core_body" where
  "run_hint =
     on_duel (\<lambda>q d. case rq_message q of
        GM_GroupA (GMA_Hint m) \<Rightarrow> Inr (q, d, Some (core_to (on_hint (first_attacker d) m)))
      | _ \<Rightarrow> skipped q d)"

definition run_swap :: "'c env \<Rightarrow> 'c single_core_body" where
  "run_swap env =
     on_duel (\<lambda>q d. case rq_message q of
        GM_GroupB (GMB_Swap m) \<Rightarrow> and_then (on_swap env m d) (\<lambda>d'. Inr (q, d', Some (core_nothing ())))
      | _ \<Rightarrow> skipped q d)"

definition SINGLE_DUEL_YGOPRO_HANDLERS :: "'c env \<Rightarrow> (u8 \<times> 'c single_ctos_handler) list" where
  "SINGLE_DUEL_YGOPRO_HANDLERS env =
     (let reg = handler 128 ''ygopro::single_duel::ygopro_handlers'' in
      [(17, reg ''on_create_game'' run_single_create_game),
       (4, reg ''on_tp_result'' run_single_tp_result),
       (19, reg ''on_leave_game'' run_single_leave_game),
       (20, reg ''on_surrender'' run_single_surrender),
       (22, reg ''on_chat'' run_single_chat),
       (48, handler 128 ''ygopro::plugin::reconnect'' ''on_request_field_single'' (run_single_request_field env))])"

definition SINGLE_DUEL_YGOPRO_HANDLERS_EX :: "'c env \<Rightarrow> (u8 \<times> 'c single_ex_handler) list" where
  "SINGLE_DUEL_YGOPRO_HANDLERS_EX env =
     (let reg = (\<lambda>prio. handler prio ''ygopro::single_duel::ygopro_handlers'') in
      [(2, reg 128 ''on_first_shuffle'' (run_first_shuffle env)),
       (3, reg 128 ''on_duel_init'' (run_duel_init env)),
       (4, reg 128 ''on_duel_start'' (run_single_duel_start env)),
       (11, reg 129 ''on_generate_replay'' run_single_generate_replay),
       (10, reg 128 ''on_duel_end'' run_single_duel_end),
       (12, reg 128 ''on_judge_continue_match'' run_judge_continue_match),
       (13, reg 128 ''on_recreate_duel'' run_single_recreate_duel),
       (21, handler 128 ''ygopro::plugin::time_limit'' ''on_timeout'' run_single_timeout),
       (13, handler 129 ''ygopro::plugin::reconnect'' ''on_recreate_duel'' run_reconnect_on_recreate_duel),
       (12, handler 129 ''ygopro::plugin::bo'' ''on_judge_continue_match'' (run_judge_best_of env))])"

definition SINGLE_DUEL_YGOCORE_HANDLERS :: "'c env \<Rightarrow> (u8 \<times> 'c single_core_handler) list" where
  "SINGLE_DUEL_YGOCORE_HANDLERS env =
     (let reg = handler 128 ''ygopro::single_duel::ygocore_handlers'' in
      [(1, reg ''on_retry'' run_retry),
       (2, reg ''on_hint'' run_hint),
       (55, reg ''on_swap'' (run_swap env)),
       (170, reg ''on_match_kill'' run_on_match_kill)])"

section \<open>The processors\<close>

record 'c sorts =
  srt_ctos :: "'c single_ctos_handler list \<Rightarrow> 'c single_ctos_handler list"
  srt_ex :: "'c single_ex_handler list \<Rightarrow> 'c single_ex_handler list"
  srt_core :: "'c single_core_handler list \<Rightarrow> 'c single_core_handler list"

definition ygopro_processor :: "'c sorts \<Rightarrow> 'c env \<Rightarrow> (u8, 'c single_ctos_handler) Processor" where
  "ygopro_processor srt env =
     new_with_dual_group (srt_ctos srt) (SINGLE_DUEL_YGOPRO_HANDLERS env) (YGOPRO_HANDLERS env @ plugin_handlers env)
       (env_plugins env) h_module h_module (\<lambda>k. k = 0)"

definition ygopro_ex_processor :: "'c sorts \<Rightarrow> 'c env \<Rightarrow> (u8, 'c single_ex_handler) Processor" where
  "ygopro_ex_processor srt env =
     new_with_dual_group (srt_ex srt) (SINGLE_DUEL_YGOPRO_HANDLERS_EX env)
       (YGOPRO_HANDLERS_EX env @ plugin_handlers_ex env) (env_plugins env) h_module h_module (\<lambda>k. k = 0)"

definition ygocore_processor :: "'c sorts \<Rightarrow> 'c env \<Rightarrow> (u8, 'c single_core_handler) Processor" where
  "ygocore_processor srt env =
     new_with_dual_group (srt_core srt) (SINGLE_DUEL_YGOCORE_HANDLERS env)
       (YGOCORE_HANDLERS @ plugin_core_handlers env) (env_plugins env) h_module h_module (\<lambda>k. k = 0)"

definition run_processor ::
  "('r \<Rightarrow> 'r \<Rightarrow> 'r) \<Rightarrow> 'r \<Rightarrow> (u8, ('q, 'd State, 'r) Handler) Processor \<Rightarrow> u8 \<Rightarrow> 'q \<Rightarrow> 'd State
   \<Rightarrow> ('q \<times> 'd State \<times> 'r) res" where
  "run_processor mul r p k q st =
     and_then (process_bundle mul p (Bundle_new q st r) k) (\<lambda>b. Inr (request b, state b, response b))"

section \<open>One request\<close>

definition map_duel :: "('d \<Rightarrow> 'd) \<Rightarrow> 'd State \<Rightarrow> 'd State" where
  "map_duel f st = st \<lparr> st_duel := f (st_duel st) \<rparr>"

definition send_list :: "stoc_Message list \<Rightarrow> SendTarget \<Rightarrow> ('c, 'a) Duel_scheme \<Rightarrow> ('c, 'a) Duel_scheme" where
  "send_list ms target d = fold (\<lambda>m. send m target) ms d"

fun queue_list :: "RoomRequest list \<Rightarrow> ('c, 'a) Duel_scheme \<Rightarrow> ('c, 'a) Duel_scheme" where
    "queue_list [] d = d"
  | "queue_list (r # rs) d = queue_list rs (queue r d)"

definition gated :: "ctos_Message \<Rightarrow> Netplayer \<Rightarrow> ('c, 'a) Duel_scheme \<Rightarrow> bool" where
  "gated m p d \<longleftrightarrow> (case get_net d p of None \<Rightarrow> False | Some player \<Rightarrow> \<not> AllowMessage_allowed (dp_state player) m)"

text \<open>The result of a step: the state, and whether the loop ends.\<close>

definition answer_client :: "Netplayer \<Rightarrow> room_response \<Rightarrow> 'c SingleDuel State \<Rightarrow> 'c SingleDuel State \<times> bool" where
  "answer_client position r st =
     (case r of
        Replace m \<Rightarrow> (map_duel (send m (To_Single position)) st, False)
      | ReplaceMultiple ms \<Rightarrow> (map_duel (send_list ms (To_Single position)) st, False)
      | Continue \<Rightarrow> (st, False)
      | Swallow \<Rightarrow> (st, False)
      | Terminate \<Rightarrow> (st, True)
      | Kick \<Rightarrow> (map_duel (send (Stoc_LeaveGame position) (To_Single position)) st, False))"

definition step_message ::
  "'c sorts \<Rightarrow> 'c env \<Rightarrow> ctos_Message \<Rightarrow> Netplayer \<Rightarrow> 'c SingleDuel State \<Rightarrow> ('c SingleDuel State \<times> bool) res" where
  "step_message srt env m p st =
     (if gated m p (st_duel st) then Inr (st, False)
      else and_then
        (run_processor Response_mul Response_default (ygopro_processor srt env) (ctos_MessageType_into (ctos_type m))
          \<lparr> rq_message = m, rq_extra = p \<rparr> st)
        (\<lambda>(q, st', r). Inr (answer_client (rq_extra q) r st')))"

definition answer_ex :: "ex_request \<Rightarrow> room_response \<Rightarrow> 'c SingleDuel State \<Rightarrow> 'c SingleDuel State" where
  "answer_ex q r st =
     (case r of
        Replace m \<Rightarrow> map_duel (send m (rq_extra q)) st
      | ReplaceMultiple ms \<Rightarrow> map_duel (send_list ms (rq_extra q)) st
      | Continue \<Rightarrow> map_duel (queue_list (process_continue (rq_message q))) st
      | Swallow \<Rightarrow> st
      | Terminate \<Rightarrow> map_duel (queue_list (process_terminate (rq_message q))) st
      | Kick \<Rightarrow> st)"

definition process_ex ::
  "'c sorts \<Rightarrow> 'c env \<Rightarrow> ygopro_Message \<Rightarrow> SendTarget \<Rightarrow> 'c SingleDuel State
   \<Rightarrow> (ex_request \<times> 'c SingleDuel State \<times> room_response) res" where
  "process_ex srt env m target =
     run_processor Response_mul Response_default (ygopro_ex_processor srt env) (ygopro_message_key m)
       \<lparr> rq_message = m, rq_extra = target \<rparr>"

definition step_ex ::
  "'c sorts \<Rightarrow> 'c env \<Rightarrow> ygopro_Message \<Rightarrow> SendTarget \<Rightarrow> 'c SingleDuel State \<Rightarrow> 'c SingleDuel State res" where
  "step_ex srt env m target st =
     and_then (process_ex srt env m target st) (\<lambda>(q, st', r). Inr (answer_ex q r st'))"

definition is_retry :: "gm_Message \<Rightarrow> bool" where
  "is_retry m \<longleftrightarrow> m = GM_Retry"

definition pop_response :: "('c, 'a) Duel_scheme \<Rightarrow> ('c, 'a) Duel_scheme" where
  "pop_response d = d \<lparr> d_client_responses := butlast (d_client_responses d) \<rparr>"

definition retry_waiting :: "'c SingleDuel \<Rightarrow> 'c SingleDuel" where
  "retry_waiting d =
     (case d_last_response d of
        None \<Rightarrow> d
      | Some i \<Rightarrow> set_waiting (to_core_player (first_attacker d) (Player i)) d)"

text \<open>What happens to one message of the engine after its handlers ran.\<close>

definition route_core_message ::
  "'c env \<Rightarrow> gm_Message \<Rightarrow> CoreResponse \<Rightarrow> 'c SingleDuel \<Rightarrow> 'c SingleDuel res" where
  "route_core_message env m r d =
     (let tr = PlayerTransformer (first_attacker d);
          refreshed = refresh env (cr_player r) (cr_locations r) (cr_sequence r) (cr_query r) tr
      in and_then
           (case gm_waiting_for m of
              Some p \<Rightarrow> refreshed (set_waiting p d)
            | None \<Rightarrow> Inr (if is_retry m then retry_waiting (pop_response d) else d))
         (\<lambda>d1. and_then (send_game_message m (cr_target r) tr d1)
         (\<lambda>d2. if gm_waiting_for m = None then refreshed d2 else Inr d2)))"

fun core_messages ::
  "'c sorts \<Rightarrow> 'c env \<Rightarrow> gm_Message list \<Rightarrow> 'c SingleDuel State \<Rightarrow> 'c SingleDuel State res" where
    "core_messages srt env [] st = Inr st"
  | "core_messages srt env (m # ms) st =
       and_then (run_processor CoreResponse_mul CoreResponse_default (ygocore_processor srt env) (gm_type m)
                   \<lparr> rq_message = m, rq_extra = UnknownPlayer \<rparr> st) (\<lambda>(q, st', r).
       and_then (route_core_message env (rq_message q) r (st_duel st')) (\<lambda>d.
         core_messages srt env ms (st' \<lparr> st_duel := d \<rparr>)))"

definition step_evolve :: "'c sorts \<Rightarrow> 'c env \<Rightarrow> 'c SingleDuel State \<Rightarrow> 'c SingleDuel State res" where
  "step_evolve srt env st =
     and_then (evolve env (st_duel st)) (\<lambda>(ms, d). core_messages srt env ms (st \<lparr> st_duel := d \<rparr>))"

fun step_request ::
  "'c sorts \<Rightarrow> 'c env \<Rightarrow> RoomRequest \<Rightarrow> 'c SingleDuel State \<Rightarrow> ('c SingleDuel State \<times> bool) res" where
    "step_request srt env (Req_Message m p) st = step_message srt env m p st"
  | "step_request srt env (Req_MessageEx m target) st = and_then (step_ex srt env m target st) (\<lambda>st'. Inr (st', False))"
  | "step_request srt env Req_Evolve st = and_then (step_evolve srt env st) (\<lambda>st'. Inr (st', False))"
  | "step_request srt env (Req_Command name arg) st = (case run_command env name arg st of (ends, st') \<Rightarrow> Inr (st', ends))"

section \<open>The loop\<close>

text \<open>A room is running, closed after it processed its termination, or crashed with its task.\<close>

datatype 'c Room = Running "'c SingleDuel State" | Closed "'c SingleDuel State" | Crashed panic

definition close_room :: "'c sorts \<Rightarrow> 'c env \<Rightarrow> 'c SingleDuel State \<Rightarrow> 'c Room" where
  "close_room srt env st =
     (case process_ex srt env Y_Terminate To_None st of
        Inl p \<Rightarrow> Crashed p
      | Inr (q, st', r) \<Rightarrow> Closed st')"

definition take_request :: "'c SingleDuel State \<Rightarrow> (RoomRequest \<times> 'c SingleDuel State) option" where
  "take_request st =
     (case d_requests (st_duel st) of
        [] \<Rightarrow> None
      | r # rs \<Rightarrow> Some (r, map_duel (d_requests_update (\<lambda>_. rs)) st))"

definition room_step :: "'c sorts \<Rightarrow> 'c env \<Rightarrow> 'c SingleDuel State \<Rightarrow> 'c Room option" where
  "room_step srt env st =
     (case take_request st of
        None \<Rightarrow> None
      | Some (r, st') \<Rightarrow> Some
          (case step_request srt env r st' of
             Inl p \<Rightarrow> Crashed p
           | Inr (st'', ends) \<Rightarrow> if ends then close_room srt env st'' else Running st''))"

definition room_start :: "'c env \<Rightarrow> HostInfo \<Rightarrow> bool \<Rightarrow> 'c SingleDuel State" where
  "room_start env host_info no_mask =
     \<lparr> st_duel = SingleDuel_new env host_info no_mask, st_replay = None, st_time_limit = None, st_reconnect = None \<rparr>"

definition arrive :: "RoomRequest \<Rightarrow> 'c SingleDuel State \<Rightarrow> 'c SingleDuel State" where
  "arrive r = map_duel (queue r)"

text \<open>The rooms that can be reached, whatever requests arrive and whenever they do.\<close>

inductive reachable :: "'c sorts \<Rightarrow> 'c env \<Rightarrow> 'c Room \<Rightarrow> bool" for srt env where
  start: "reachable srt env (Running (room_start env host_info no_mask))"
| arrival: "reachable srt env (Running st) \<Longrightarrow> reachable srt env (Running (arrive r st))"
| step: "reachable srt env (Running st) \<Longrightarrow> room_step srt env st = Some room \<Longrightarrow> reachable srt env room"

end
