(* ===== verification/RoomSamples.thy ===== *)
theory RoomSamples
  imports SingleRoom
begin

text \<open>
  Concrete values to run the model of a room on: an engine that does nothing, an environment with chosen
  plugins, processors that sort by priority, and the first steps of a room: a game is created, a client
  connects and joins.
\<close>

text \<open>An engine that does nothing.\<close>

definition idle_api :: "unit core_api" where
  "idle_api =
     \<lparr> api_start_duel = (\<lambda>options c. c), api_end_duel = (\<lambda>c. c), api_set_player_info = (\<lambda>p lp hand draw c. c),
       api_get_message = (\<lambda>buf c. (buf, c)), api_process = (\<lambda>c. (0, c)),
       api_new_card = (\<lambda>code owner p l i pos c. c), api_new_tag_card = (\<lambda>code owner l c. c),
       api_query_card = (\<lambda>p l i q buf c. (0, buf, c)), api_query_field_count = (\<lambda>p l c. 0),
       api_query_field_card = (\<lambda>p l q buf c. (0, buf, c)), api_query_field_info = (\<lambda>buf c. (0, buf, c)),
       api_preload_script = (\<lambda>name c. (1, c)), api_set_responseb = (\<lambda>bs c. c),
       api_shuffle = (\<lambda>codes c. (codes, c)) \<rparr>"

definition sample_env :: "str list \<Rightarrow> unit env" where
  "sample_env plugins =
     \<lparr> env_api = idle_api, env_lzma = (\<lambda>bs. bs, \<lambda>n bs. Some bs), env_decode = (\<lambda>bs. None), env_fresh = lifo_keys,
       env_data = DataManager_new, env_lflists = [], env_now = 0,
       env_new_core = (\<lambda>i. \<lparr> core_engine = (), core_seed = [], core_ended = False \<rparr>), env_version = 0x1361,
       env_plugins = plugins, env_terminate_when = To_All, env_terminate_when_match_end = True,
       env_time_backed = \<lparr> tb_add_time_after_operation = 1, tb_max_add_time_each_turn = 0 \<rparr>,
       env_time_compensator = \<lparr> tc_add_small_time_deposit_after_operation = 1,
         tc_ignore_small_time_under_this_duration = 10, tc_initial_time_balance = 0 \<rparr>,
       env_preloaded_scripts = [lit ''./script/special.lua''], env_override_best_of = 0, env_replay_mode = 0 \<rparr>"

definition sample_sorts :: "'c sorts" where
  "sample_sorts = \<lparr> srt_ctos = sort_key h_priority, srt_ex = sort_key h_priority, srt_core = sort_key h_priority \<rparr>"

definition room_modules :: "str list" where
  "room_modules = [lit ''ygopro::ygopro_handlers'', lit ''ygopro::single_duel::ygopro_handlers'']"

lemmas dispatch_defs =
  new_with_dual_group_handlers_for keyed_def unkeyed_def admitted_def sample_sorts_def sample_env_def room_modules_def
  SINGLE_DUEL_YGOPRO_HANDLERS_def SINGLE_DUEL_YGOPRO_HANDLERS_EX_def YGOPRO_HANDLERS_def YGOPRO_HANDLERS_EX_def
  plugin_handlers_def plugin_handlers_ex_def handler_def

lemma create_game_chain:
  "map h_run (handlers_for (ygopro_processor sample_sorts (sample_env room_modules)) 17) =
     [run_single_create_game, run_on_create_game]"
  by (simp add: ygopro_processor_def dispatch_defs)

lemma client_join_chain:
  "map h_run (handlers_for (ygopro_ex_processor sample_sorts (sample_env room_modules)) 1) =
     [run_on_client_join (sample_env room_modules), run_on_client_join_final]"
  by (simp add: ygopro_ex_processor_def dispatch_defs)

lemma join_game_chain:
  "map h_run (handlers_for (ygopro_processor sample_sorts (sample_env room_modules)) 18) =
     [run_on_join_game (sample_env room_modules)]"
  by (simp add: ygopro_processor_def dispatch_defs)


text \<open>A chain is the composition of the bodies of its handlers.\<close>

fun run_bodies :: "('r \<Rightarrow> 'r \<Rightarrow> 'r) \<Rightarrow> ('q, 'd, 'r) body list \<Rightarrow> ('q, 'd State, 'r) Bundle \<Rightarrow> ('q, 'd State, 'r) Bundle res" where
    "run_bodies mul [] b = Inr b"
  | "run_bodies mul (f # fs) b =
       and_then (f b) (\<lambda>(b', r).
         let b'' = (case r of None \<Rightarrow> b' | Some res \<Rightarrow> b' \<lparr> response := mul (response b') res \<rparr>)
         in if stop_flag b'' then Inr b'' else run_bodies mul fs b'')"

lemma run_chain_bodies: "run_chain mul hs b = run_bodies mul (map h_run hs) b"
proof (induction hs arbitrary: b)
  case (Cons h hs)
  show ?case
  proof (cases "h_run h b")
    case (Inr x)
    then show ?thesis by (cases x) (simp add: call_def Cons.IH Let_def)
  qed (simp add: call_def)
qed simp

lemma sample_create_game:
  "step_message sample_sorts (sample_env room_modules) (Ctos_CreateGame info name pass) UnknownPlayer st =
   Inr (map_duel (\<lambda>d. on_create_game info name pass (single_on_create_game d)) st, False)"
  by (simp add: step_message_def gated_def run_processor_def process_bundle_def run_chain_bodies create_game_chain
      Bundle_new_def run_single_create_game_def run_on_create_game_def on_any_def by_anybody_def on_duel_def on_state_def
      done_with_def answer_client_def map_duel_def Response_default_def into_response_unit_def)


lemma sample_client_join:
  assumes "d_stage (st_duel st) = DuelStage_Begin"
  shows "\<exists>st'. step_ex sample_sorts (sample_env room_modules) (Y_ClientJoin c (Some r)) t st = Inr st' \<and>
    st_duel st' = snd (on_client_join (sample_env room_modules) c (Some r) (st_duel st))"
proof -
  obtain d' where join: "on_client_join (sample_env room_modules) c (Some r) (st_duel st) = (None, d')"
    using assms by (auto simp: on_client_join_def slab_insert_def Let_def)
  show ?thesis
    by (simp add: step_ex_def process_ex_def run_processor_def process_bundle_def run_chain_bodies client_join_chain
        Bundle_new_def run_on_client_join_def run_on_client_join_final_def on_ex_def on_duel_def on_state_def
        done_with_def join on_client_join_final_def answer_ex_def map_duel_def Response_default_def
        into_response_unit_def)
qed

lemma sample_join_game:
  assumes "on_join_game (sample_env room_modules) (Undecided i) pass (st_duel st) = Inr (pos, d', Inr ms)"
  shows "step_message sample_sorts (sample_env room_modules) (Ctos_JoinGame v g pass) (Undecided i) st =
    Inr (map_duel (\<lambda>d. send_list ms (To_Single pos) d') st, False)"
  using assms
  by (simp add: step_message_def gated_def run_processor_def process_bundle_def run_chain_bodies join_game_chain
      Bundle_new_def run_on_join_game_def on_duel_def on_state_def answer_client_def map_duel_def
      Response_default_def into_response_vec_def)

end
