(* ===== verification/Seating.thy ===== *)
theory Seating
  imports RoomInvariants RoomSamples
begin

text \<open>
  An abstract view of a room: where each client is. The operations that move clients (joining, going to
  the table, going to the observers, leaving) refine moving one channel in this map.
\<close>

section \<open>Lookups in a slab\<close>

lemma map_of_insort_key: "k \<notin> fst ` set xs \<Longrightarrow> map_of (insort_key fst (k, x) xs) j = (if j = k then Some x else map_of xs j)"
  by (induction xs) auto

lemma slab_get_insert:
  assumes "slab_crate fresh" and "wf_slab fresh s" and "slab_insert fresh x s = (k, t)"
  shows "slab_get t j = (if j = k then Some x else slab_get s j)"
  using slab_crate.insert_fresh [OF assms] assms(3)
  by (auto simp: slab_insert_def slab_get_def slab_keys_of_def Let_def map_of_insort_key)

lemma slab_get_remove:
  "slab_try_remove k s = Some (x, t) \<Longrightarrow> slab_get t j = (if j = k then None else slab_get s j)"
proof -
  have "map_of (filter (\<lambda>(i, _). i \<noteq> k) xs) j = (if j = k then None else map_of xs j)" for xs :: "(nat \<times> 'a) list"
    by (induction xs) auto
  then show "slab_try_remove k s = Some (x, t) \<Longrightarrow> slab_get t j = (if j = k then None else slab_get s j)"
    by (auto simp: slab_try_remove_def slab_get_def split: option.splits)
qed

lemma slab_get_removed: "slab_try_remove k s = Some (x, t) \<Longrightarrow> slab_get s k = Some x"
  by (auto simp: slab_try_remove_def split: option.splits)

section \<open>Where the clients are\<close>

fun whereabouts :: "('c, 'a) Duel_scheme \<Rightarrow> Netplayer \<Rightarrow> chan option" where
    "whereabouts d (Player i) = map_option dp_channel (get_player d i)"
  | "whereabouts d (Observer k) = map_option bp_stoc_sender (slab_get (d_observers d) (unat k))"
  | "whereabouts d (Undecided k) = map_option bp_stoc_sender (slab_get (d_uninit_players d) (unat k))"
  | "whereabouts d UnknownPlayer = None"

definition moved :: "'p \<Rightarrow> 'p \<Rightarrow> ('p \<Rightarrow> 'v option) \<Rightarrow> 'p \<Rightarrow> 'v option" where
  "moved p q w = (w(p := None))(q := w p)"

lemma moved_same [simp]: "moved p p w = w"
  by (simp add: moved_def)

lemma whereabouts_cong:
  assumes "d_players d = d_players e" "d_observers d = d_observers e" "d_uninit_players d = d_uninit_players e"
  shows "whereabouts d = whereabouts e"
proof
  fix p show "whereabouts d p = whereabouts e p" using assms by (cases p) (simp_all add: get_player_def)
qed

lemma whereabouts_ops [simp]:
  "whereabouts (send m t d) = whereabouts d" "whereabouts (map_sender f d) = whereabouts d"
  "whereabouts (d \<lparr> d_host_player := h \<rparr>) = whereabouts d" "whereabouts (map_core g d) = whereabouts d"
  by (rule whereabouts_cong; simp add: send_def map_sender_def map_core_def)+

lemma map_sender_fields [simp]:
  "d_players (map_sender f d) = d_players d" "d_observers (map_sender f d) = d_observers d"
  "d_host_player (map_sender f d) = d_host_player d"
  by (simp_all add: map_sender_def)

lemma whereabouts_set_slot:
  assumes "set_slot (unat i) p d = Inr d'"
  shows "whereabouts d' = (whereabouts d)(Player i := map_option dp_channel p)"
proof
  fix q show "whereabouts d' q = ((whereabouts d)(Player i := map_option dp_channel p)) q"
    using assms by (cases q) (auto simp: set_slot_def get_player_def nth_list_update word_unat_eq_iff split: if_splits)
qed

lemma of_nat_u8: "k < 256 \<Longrightarrow> (of_nat k = (j :: u8)) = (unat j = k)"
  by (auto simp: word_unat_eq_iff unat_of_nat)

lemma whereabouts_insert_observer:
  assumes "slab_crate (env_fresh env)" and "wf_slab (env_fresh env) (d_observers d)"
    and "insert_observer env b d = (k, d')" and "k < 256"
  shows "whereabouts d' = (whereabouts d)(Observer (of_nat k) := Some (bp_stoc_sender b))"
proof
  fix q
  obtain obs where ins: "slab_insert (env_fresh env) b (d_observers d) = (k, obs)"
    and d': "whereabouts d' = whereabouts (d \<lparr> d_observers := obs \<rparr>)"
    using assms(3) by (auto simp: insert_observer_def split: prod.splits)
  show "whereabouts d' q = ((whereabouts d)(Observer (of_nat k) := Some (bp_stoc_sender b))) q"
    using slab_get_insert [OF assms(1,2) ins] of_nat_u8 [OF assms(4)]
    by (cases q) (auto simp: d' get_player_def)
qed

lemma whereabouts_remove_observer:
  assumes "slab_try_remove (unat k) (d_observers d) = Some (p, obs)"
  shows "whereabouts (d \<lparr> d_observers := obs \<rparr>) = (whereabouts d)(Observer k := None)"
proof
  fix q show "whereabouts (d \<lparr> d_observers := obs \<rparr>) q = ((whereabouts d)(Observer k := None)) q"
    using slab_get_remove [OF assms] by (cases q) (auto simp: get_player_def word_unat_eq_iff)
qed

lemma whereabouts_remove_undecided:
  assumes "slab_try_remove (unat k) (d_uninit_players d) = Some (p, uninit)"
  shows "whereabouts (d \<lparr> d_uninit_players := uninit \<rparr>) = (whereabouts d)(Undecided k := None)"
proof
  fix q show "whereabouts (d \<lparr> d_uninit_players := uninit \<rparr>) q = ((whereabouts d)(Undecided k := None)) q"
    using slab_get_remove [OF assms] by (cases q) (auto simp: get_player_def word_unat_eq_iff)
qed

lemma first_free_less: "first_free ps k = Some i \<Longrightarrow> k \<le> i \<and> i < k + length ps"
  by (induction ps k rule: first_free.induct) auto

lemma first_free_None: "first_free ps k = Some i \<Longrightarrow> ps ! (i - k) = None"
proof (induction ps k rule: first_free.induct)
  case (3 p ps k)
  then show ?case using first_free_less [of ps "Suc k" i] by (simp add: nth_Cons split: nat.split) (metis Suc_diff_Suc Suc_le_lessD diff_Suc_Suc diff_diff_left nat.inject plus_1_eq_Suc)
qed auto

text \<open>Positions are eight bits wide: the laws hold as long as the table and the keys fit.\<close>

definition fits :: "'c env \<Rightarrow> ('c, 'a) Duel_scheme \<Rightarrow> bool" where
  "fits env d \<longleftrightarrow>
     slab_crate (env_fresh env) \<and> wf_slab (env_fresh env) (d_observers d) \<and> length (d_players d) \<le> 256 \<and>
     slab_vacant_key (env_fresh env) (d_observers d) < 256"

lemma whereabouts_take_seat:
  assumes "fits env d" and "take_seat env (join_position env d) b d = Inr d'"
  shows "whereabouts d' = (whereabouts d)(join_position env d := Some (bp_stoc_sender b))"
proof (cases "first_free (d_players d) 0")
  case None
  obtain k d1 where ins: "insert_observer env b d = (k, d1)" by fastforce
  then have k: "k = slab_vacant_key (env_fresh env) (d_observers d)"
    by (auto simp: insert_observer_def slab_insert_def Let_def)
  show ?thesis
    using whereabouts_insert_observer [OF _ _ ins] assms None ins by (simp add: fits_def join_position_def k)
next
  case (Some i)
  then obtain d1 where s: "set_slot (unat (of_nat i :: u8)) (Some (DuelPlayer_from b)) d = Inr d1"
    and d': "whereabouts d' = whereabouts d1"
    using assms(2) by (auto simp: join_position_def)
  show ?thesis using whereabouts_set_slot [OF s] Some by (simp add: d' join_position_def)
qed


lemma fits_same:
  "d_players d = d_players e \<Longrightarrow> d_observers d = d_observers e \<Longrightarrow> fits env d = fits env e"
  by (simp add: fits_def)

lemma join_position_same:
  "d_players d = d_players e \<Longrightarrow> d_observers d = d_observers e \<Longrightarrow> join_position env d = join_position env e"
  by (simp add: join_position_def split: option.split)

lemma seat_client_takes:
  assumes "seat_client env b d = Inr (q, ms, d')"
  obtains d2 where "q = join_position env d" "take_seat env q b d2 = Inr d'" "d_players d2 = d_players d"
    "d_observers d2 = d_observers d" "whereabouts d2 = whereabouts d"
proof -
  define d1 where
    "d1 = (if nobody_seated d \<and> slab_is_empty (d_observers d) then d \<lparr> d_host_player := join_position env d \<rparr> else d)"
  from assms have q: "q = join_position env d" and t: "\<exists>m. take_seat env q b (send m To_All d1) = Inr d'"
    unfolding seat_client_def Let_def d1_def [symmetric] by (auto elim!: and_then_E)
  from t obtain m where "take_seat env q b (send m To_All d1) = Inr d'" ..
  then show thesis by (rule that [OF q]) (auto simp: d1_def send_def intro!: whereabouts_cong)
qed

lemma whereabouts_join:
  assumes "fits env d" and "on_join_game env p pass d = Inr (q, d', r)"
  shows "whereabouts d' = moved p q (whereabouts d)"
proof (cases "\<exists>i b uninit. p = Undecided i \<and> slab_try_remove (unat i) (d_uninit_players d) = Some (b, uninit) \<and>
    \<not> (\<not> FixedLengthString_is_empty (d_pass d) \<and> \<not> FixedLengthString_eq (env_decode env) pass (d_pass d))")
  case False
  then have "q = p \<and> d' = d" using assms(2) by (auto simp: on_join_game_def split: if_splits Netplayer.splits option.splits)
  then show ?thesis by simp
next
  case True
  then obtain i b uninit where p: "p = Undecided i"
    and rem: "slab_try_remove (unat i) (d_uninit_players d) = Some (b, uninit)"
    and pass: "\<not> (\<not> FixedLengthString_is_empty (d_pass d) \<and> \<not> FixedLengthString_eq (env_decode env) pass (d_pass d))"
    by blast
  let ?d0 = "d \<lparr> d_uninit_players := uninit \<rparr>"
  from assms(2) obtain d1 ms where d1: "remove_sender_undecided (unat i) ?d0 = Inr d1"
    and seat: "seat_client env b d1 = Inr (q, ms, d')"
    using p rem pass by (auto simp: on_join_game_def elim!: and_then_E)
  have same: "d_players d1 = d_players d" "d_observers d1 = d_observers d"
    and w1: "whereabouts d1 = (whereabouts d)(p := None)"
    using d1 whereabouts_remove_undecided [OF rem]
    by (auto simp: remove_sender_undecided_def p elim!: and_then_E)
  from seat obtain d2 d3 where q: "q = join_position env d1" and t: "take_seat env q b d2 = Inr d'"
    and d2: "d_players d2 = d_players d1" "d_observers d2 = d_observers d1" "whereabouts d2 = whereabouts d1"
    by (rule seat_client_takes)
  have jp: "q = join_position env d2" using q join_position_same [OF d2(1,2)] by simp
  have "whereabouts d' = (whereabouts d2)(q := Some (bp_stoc_sender b))"
    unfolding jp by (rule whereabouts_take_seat) (use assms(1) d2 same t jp fits_same [of d2 d env] in auto)
  moreover have "whereabouts d p = Some (bp_stoc_sender b)" using slab_get_removed [OF rem] by (simp add: p)
  ultimately show ?thesis by (simp add: moved_def d2(3) w1)
qed


lemma whereabouts_to_duelist:
  assumes "fits env d" and "on_hs_to_duelist p d = Inr (q, d', r)"
  shows "whereabouts d' = moved p q (whereabouts d)"
proof (cases "\<exists>k i b obs. p = Observer k \<and> first_free (d_players d) 0 = Some i \<and>
    slab_try_remove (unat k) (d_observers d) = Some (b, obs)")
  case False
  then have "q = p \<and> d' = d" using assms(2) by (auto simp: on_hs_to_duelist_def split: Netplayer.splits option.splits)
  then show ?thesis by simp
next
  case True
  then obtain k i b obs where p: "p = Observer k" and free: "first_free (d_players d) 0 = Some i"
    and rem: "slab_try_remove (unat k) (d_observers d) = Some (b, obs)" by blast
  from assms(2) obtain d1 d3 where d1: "remove_sender_observer (unat k) (d \<lparr> d_observers := obs \<rparr>) = Inr d1"
    and q: "q = Player (of_nat i)"
    and d3: "set_slot i (Some (DuelPlayer_from b)) (if d_host_player d1 = p then d1 \<lparr> d_host_player := q \<rparr> else d1) = Inr d3"
    and d': "whereabouts d' = whereabouts d3"
    unfolding p on_hs_to_duelist_def Let_def by (auto simp: free rem elim!: and_then_E)
  have w1: "whereabouts d1 = (whereabouts d)(p := None)"
    using d1 whereabouts_remove_observer [OF rem] by (auto simp: remove_sender_observer_def p elim!: and_then_E)
  have "i < 256" using first_free_less [OF free] assms(1) by (simp add: fits_def)
  then have i: "unat (of_nat i :: u8) = i" by (simp add: unat_of_nat)
  have "whereabouts d' = (whereabouts d1)(q := Some (bp_stoc_sender b))"
    using whereabouts_set_slot [of "of_nat i" "Some (DuelPlayer_from b)" _ d3] d3 d'
    unfolding i by (simp add: q split: if_splits)
  moreover have "whereabouts d p = Some (bp_stoc_sender b)" using slab_get_removed [OF rem] by (simp add: p)
  ultimately show ?thesis by (simp add: moved_def w1)
qed

lemma whereabouts_to_observer:
  assumes "fits env d" and "on_hs_to_observer env (Player i) i d = Inr (q, d', r)"
  shows "whereabouts d' = moved (Player i) q (whereabouts d)"
proof (cases "get_player d i")
  case None
  then have "q = Player i \<and> d' = d"
    using assms(2) by (auto simp: on_hs_to_observer_def get_player_def split: option.splits if_splits)
  then show ?thesis by simp
next
  case (Some p)
  then have s: "unat i < length (d_players d)" "d_players d ! unat i = Some p"
    by (auto simp: get_player_def split: if_splits)
  let ?d0 = "d \<lparr> d_players := (d_players d)[unat i := None] \<rparr>"
  have slot: "set_slot (unat i) None d = Inr ?d0" using s by (simp add: set_slot_def)
  obtain k d2 where ins: "insert_observer env (dp_player p) (map_sender (Sender_clear_player (unat i)) ?d0) = (k, d2)"
    by fastforce
  then have k: "k = slab_vacant_key (env_fresh env) (d_observers d)"
    by (auto simp: insert_observer_def slab_insert_def Let_def)
  have w2: "whereabouts d2 = (whereabouts ?d0)(Observer (of_nat k) := Some (dp_channel p))"
    using whereabouts_insert_observer [OF _ _ ins] assms(1) by (simp add: fits_def k dp_channel_def)
  have "q = Observer (of_nat k) \<and> whereabouts d' = whereabouts d2"
    using assms(2) s by (auto simp: on_hs_to_observer_def ins Let_def elim!: and_then_E)
  then show ?thesis using w2 whereabouts_set_slot [OF slot] Some by (simp add: moved_def)
qed


lemma vacant_position:
  assumes "fits env d"
  shows "whereabouts d (join_position env d) = None"
    and "whereabouts d (Observer (of_nat (slab_vacant_key (env_fresh env) (d_observers d)))) = None"
proof -
  obtain x t where "slab_insert (env_fresh env) x (d_observers d) = (slab_vacant_key (env_fresh env) (d_observers d), t)"
    by (simp add: slab_insert_def Let_def)
  from slab_crate.insert_fresh [OF _ _ this] assms
  show o': "whereabouts d (Observer (of_nat (slab_vacant_key (env_fresh env) (d_observers d)))) = None"
    by (simp add: fits_def unat_of_nat slab_get_None)
  show "whereabouts d (join_position env d) = None"
  proof (cases "first_free (d_players d) 0")
    case (Some i)
    have "i < length (d_players d)" "length (d_players d) \<le> 256"
      using first_free_less [OF Some] assms by (simp_all add: fits_def)
    then show ?thesis
      using first_free_None [OF Some] by (simp add: join_position_def Some get_player_def unat_of_nat)
  qed (use o' in \<open>simp add: join_position_def\<close>)
qed

lemma new_position:
  assumes "fits env d"
  shows "on_join_game env p pass d = Inr (q, d', r) \<Longrightarrow> q = p \<or> whereabouts d q = None"
    and "on_hs_to_duelist p d = Inr (q, d', r') \<Longrightarrow> q = p \<or> whereabouts d q = None"
    and "on_hs_to_observer env p i d = Inr (q, d', r') \<Longrightarrow> q = p \<or> whereabouts d q = None"
proof -
  show "q = p \<or> whereabouts d q = None" if "on_join_game env p pass d = Inr (q, d', r)"
  proof -
    have "q = p \<or> q = join_position env d"
    proof (cases p)
      case (Undecided i)
      show ?thesis
      proof (cases "slab_try_remove (unat i) (d_uninit_players d)")
        case (Some x)
        obtain b uninit where x: "x = (b, uninit)" by (cases x)
        {
          fix d1 ms assume d1: "remove_sender_undecided (unat i) (d \<lparr> d_uninit_players := uninit \<rparr>) = Inr d1"
            and seat: "seat_client env b d1 = Inr (q, ms, d')"
          have "join_position env d1 = join_position env d"
            by (rule join_position_same) (use d1 in \<open>auto simp: remove_sender_undecided_def elim!: and_then_E\<close>)
          then have "q = join_position env d" using seat_client_takes [OF seat] by metis
        }
        then show ?thesis using that by (auto simp: on_join_game_def Undecided Some x split: if_splits elim!: and_then_E)
      qed (use that in \<open>auto simp: on_join_game_def Undecided split: if_splits\<close>)
    qed (use that in \<open>auto simp: on_join_game_def split: if_splits\<close>)
    then show ?thesis using vacant_position(1) [OF assms] by auto
  qed
  show "q = p \<or> whereabouts d q = None" if "on_hs_to_duelist p d = Inr (q, d', r')"
  proof -
    have "q = p \<or> q = join_position env d"
      using that by (auto simp: on_hs_to_duelist_def join_position_def Let_def split: Netplayer.splits option.splits elim!: and_then_E)
    then show ?thesis using vacant_position(1) [OF assms] by auto
  qed
  show "q = p \<or> whereabouts d q = None" if "on_hs_to_observer env p i d = Inr (q, d', r')"
  proof -
    have "q = p \<or> q = Observer (of_nat (slab_vacant_key (env_fresh env) (d_observers d)))"
      using that by (auto simp: on_hs_to_observer_def insert_observer_def slab_insert_def Let_def
          split: option.splits if_splits elim!: and_then_E)
    then show ?thesis using vacant_position(2) [OF assms] by auto
  qed
qed

text \<open>C5: joining, going to the table and going to the observers refine one abstract operation on the
  map from positions to the channels of the clients: the client at the old position is moved to the
  new one, which was free, and nobody else is touched. When the room refuses, the new position is the
  old one and the map is unchanged. No client is ever lost, doubled or pushed off its place.\<close>

theorem moving_refines:
  assumes "fits env d"
    and "(\<exists>r. on_join_game env p pass d = Inr (q, d', r)) \<or> (\<exists>r. on_hs_to_duelist p d = Inr (q, d', r)) \<or>
      (\<exists>i r. p = Player i \<and> on_hs_to_observer env p i d = Inr (q, d', r))"
  shows "whereabouts d' = moved p q (whereabouts d) \<and> (q = p \<or> whereabouts d q = None)"
  using assms(2)
proof (elim disjE exE conjE)
  fix r assume "on_join_game env p pass d = Inr (q, d', r)"
  then show ?thesis using whereabouts_join [OF assms(1)] new_position(1) [OF assms(1)] by simp
next
  fix r assume "on_hs_to_duelist p d = Inr (q, d', r)"
  then show ?thesis using whereabouts_to_duelist [OF assms(1)] new_position(2) [OF assms(1)] by simp
next
  fix i r assume "p = Player i" and "on_hs_to_observer env p i d = Inr (q, d', r)"
  then show ?thesis using whereabouts_to_observer [OF assms(1)] new_position(3) [OF assms(1)] by simp
qed

section \<open>A sample room\<close>

definition sample_room :: "unit Duel" where
  "sample_room =
     Duel_new (sample_env []) HostInfo_default False
       \<lparr> d_max_player_count := 2, d_players := [Some (DuelPlayer_from (BaseDuelPlayer_new (Chan 7))), None] \<rparr>"

lemma fits_sample: "fits (sample_env plugins) sample_room"
  using lifo.slab_crate_axioms
  by (simp add: fits_def sample_env_def sample_room_def Duel_new_def lifo.wf_new slab_vacant_key_def lifo_keys_def
      Slab_new_def [symmetric]) (simp add: Slab_new_def)

lemma moving_refines_witness:
  "\<exists>q d' r. on_hs_to_observer (sample_env []) (Player 0) 0 sample_room = Inr (q, d', r) \<and> q = Observer 0 \<and>
     whereabouts d' = moved (Player 0) q (whereabouts sample_room) \<and>
     whereabouts sample_room (Player 0) = Some (Chan 7)"
proof -
  have run: "\<exists>d' r. on_hs_to_observer (sample_env []) (Player 0) 0 sample_room = Inr (Observer 0, d', r)"
    by (simp add: on_hs_to_observer_def sample_room_def Duel_new_def insert_observer_def slab_insert_def
        slab_vacant_key_def sample_env_def lifo_keys_def Slab_new_def Let_def player_change_def
        PlayerChange_with_player_def Netplayer_into_bytes_def)
  have "whereabouts sample_room (Player 0) = Some (Chan 7)"
    by (simp add: sample_room_def get_player_def BaseDuelPlayer_new_def)
  with run show ?thesis using moving_refines [OF fits_sample, where p = "Player 0"] by blast
qed

end
