(* ===== verification/SingleInvariants.thy ===== *)
theory SingleInvariants
  imports SingleRoom RoomInvariants
begin

text \<open>
  What holds in every room for two players that can be reached: the channels are where the positions
  say (routed), there are two seats or none yet, and whoever attacks first or won a duel is one of
  the two players.
\<close>

definition one_of_two :: "PlayerIndex option \<Rightarrow> bool" where
  "one_of_two i \<longleftrightarrow> i \<in> {None, Some 0, Some 1}"

definition two_player_ext :: "'c SingleDuel \<Rightarrow> bool" where
  "two_player_ext d \<longleftrightarrow>
     d_max_player_count d \<in> {0, 2} \<and> one_of_two (sd_first_attack_player d) \<and>
     list_all one_of_two (sd_duel_winner d)"

definition single_inv :: "'c SingleDuel \<Rightarrow> bool" where
  "single_inv d \<longleftrightarrow> base_inv (d_max_player_count d, Duel.Duel.more d) d \<and> two_player_ext d"

lemma base_inv_same:
  fixes d d' :: "'c SingleDuel"
  assumes "base_inv x d'" and "base_inv x d" and "two_player_ext d"
  shows "single_inv d'"
proof -
  have "Duel.Duel.more d' = Duel.Duel.more d" "d_max_player_count d' = d_max_player_count d"
    using assms(1,2) by (auto simp: base_inv_def)
  moreover from this have "sd_first_attack_player d' = sd_first_attack_player d" "sd_duel_winner d' = sd_duel_winner d"
    by (cases d; cases d'; simp)+
  ultimately show ?thesis using assms by (auto simp: single_inv_def two_player_ext_def base_inv_def)
qed

lemma single_inv_base: "single_inv d \<Longrightarrow> \<exists>x. base_inv x d \<and> two_player_ext d"
  by (auto simp: single_inv_def)

lemma keeps_single:
  fixes run :: "('q, 'c SingleDuel, 'r) body"
  assumes "\<And>x. keeps_room (base_inv x) run"
  shows "keeps_room single_inv run"
  using assms single_inv_base base_inv_same unfolding keeps_def by metis

lemma single_inv_fields [simp]:
  "base_inv x d \<Longrightarrow> two_player_ext d \<Longrightarrow> single_inv d"
  by (auto simp: single_inv_def base_inv_def)

lemma single_inv_by_base:
  fixes d d' :: "'c SingleDuel"
  assumes "single_inv d" and "\<And>x. base_inv x d \<Longrightarrow> base_inv x d'"
  shows "single_inv d'"
proof -
  from assms(1) have "base_inv (d_max_player_count d, Duel.Duel.more d) d" and "two_player_ext d"
    by (simp_all add: single_inv_def)
  from base_inv_same [OF assms(2) [OF this(1)] this] show ?thesis .
qed

lemma one_of_two_xor: "one_of_two (Some i) \<Longrightarrow> one_of_two (Some (i XOR 1))"
  by (auto simp: one_of_two_def)

lemma seat_index_one_of_two [simp]: "one_of_two (seat_index p)"
  by (cases p) (simp_all add: one_of_two_def)

lemma to_player_index_one_of_two [simp]: "one_of_two (to_player_index f p)"
  by (simp add: to_player_index_def)

lemma single_inv_send [simp]: "single_inv (send m t d) = single_inv d"
proof -
  have "two_player_ext (send m t d) = two_player_ext d" by (simp add: send_def two_player_ext_def)
  moreover have "Duel.Duel.more (send m t d) = Duel.Duel.more d" "d_max_player_count (send m t d) = d_max_player_count d"
    by (simp_all add: send_def)
  ultimately show ?thesis by (simp add: single_inv_def)
qed

section \<open>The handlers of the room\<close>

lemma single_inv_create_game:
  assumes "single_inv d"
  shows "single_inv (single_on_create_game d)"
proof -
  have "length (s_players (d_sender d)) \<le> 2"
    using assms by (auto simp: single_inv_def base_inv_def routed_def seats_match_def two_player_ext_def)
  then have "seats_match [None, None] (s_players (d_sender d))"
    using seats_match_empty [of 2] by (simp add: numeral_2_eq_2)
  then show ?thesis
    using assms by (simp add: single_on_create_game_def single_inv_def base_inv_def routed_def two_player_ext_def)
qed

lemma single_inv_tp_result:
  assumes "single_inv d" and "unat i < d_max_player_count d"
  shows "single_inv (single_on_tp_result i r d)"
proof -
  have "one_of_two (Some i)"
  proof -
    have "unat i < 2" using assms by (auto simp: single_inv_def two_player_ext_def)
    then have "i = 0 \<or> i = 1" by (auto simp: less_2_cases_iff word_unat_eq_iff)
    then show ?thesis by (auto simp: one_of_two_def)
  qed
  with assms(1) show ?thesis
    by (simp add: single_on_tp_result_def single_inv_def base_inv_def routed_def two_player_ext_def one_of_two_xor)
qed

lemma single_inv_queue [simp]: "single_inv (queue r d) = single_inv d"
  by (simp add: queue_def single_inv_def base_inv_def routed_def two_player_ext_def)

lemma single_inv_queue_ex [simp]: "single_inv (queue_request_ex y d) = single_inv d"
  by (simp add: queue_request_ex_def)

lemma single_inv_send_win [simp]: "single_inv (send_win w r d) = single_inv d"
  by (simp add: send_win_def)

lemma single_inv_leave_game: "single_inv d \<Longrightarrow> single_inv (single_on_leave_game p d)"
  by (cases p) (simp_all add: single_on_leave_game_def Let_def)

lemma single_inv_surrender: "single_inv d \<Longrightarrow> single_inv (single_on_surrender p d)"
  by (simp add: single_on_surrender_def Let_def)

lemma single_inv_duel_end: "single_inv d \<Longrightarrow> single_inv (single_on_duel_end w d)"
  by (simp add: single_on_duel_end_def single_inv_def base_inv_def routed_def two_player_ext_def)

lemma single_inv_recreate: "single_inv d \<Longrightarrow> single_inv (single_on_recreate_duel d)"
  by (simp add: single_on_recreate_duel_def Let_def single_inv_def base_inv_def routed_def two_player_ext_def
      one_of_two_def)

lemma base_inv_timeout [simp]: "base_inv x (single_on_timeout i d) = base_inv x d"
  by (simp add: single_on_timeout_def Let_def send_win_def)

lemma base_inv_shuffle_seat: "base_inv x d \<Longrightarrow> shuffle_seat env i d = Inr d' \<Longrightarrow> base_inv x d'"
  by (auto simp: shuffle_seat_def split: if_splits option.splits prod.splits intro!: base_inv_map_player)

lemma base_inv_first_shuffle:
  assumes "base_inv x d" and "on_first_shuffle env d = Inr d'"
  shows "base_inv x d'"
  using assms by (auto simp: on_first_shuffle_def Let_def split: if_splits intro: base_inv_shuffle_seat)

lemma base_inv_init_seats: "base_inv x d \<Longrightarrow> init_seats env seats d = Inr d' \<Longrightarrow> base_inv x d'"
  by (induction env seats d rule: init_seats.induct) (auto split: if_splits option.splits)

lemma base_inv_duel_init: "base_inv x d \<Longrightarrow> on_duel_init env d = Inr d' \<Longrightarrow> base_inv x d'"
  unfolding on_duel_init_def Let_def by (rule base_inv_init_seats)

lemma base_inv_single_duel_start: "base_inv x d \<Longrightarrow> single_on_duel_start env d = Inr d' \<Longrightarrow> base_inv x d'"
  by (auto simp: single_on_duel_start_def Let_def intro: base_inv_refresh [rotated])

lemma base_inv_on_swap: "base_inv x d \<Longrightarrow> on_swap env m d = Inr d' \<Longrightarrow> base_inv x d'"
  by (auto simp: on_swap_def Let_def intro: base_inv_refresh)

lemma base_inv_set_waiting: "base_inv x d \<Longrightarrow> base_inv x (set_waiting p d)"
  by (auto simp: set_waiting_def Let_def split: option.split intro!: base_inv_map_player)


section \<open>The registrations\<close>

lemma extract_player_seated: "extract_player q d = Some i \<Longrightarrow> unat i < d_max_player_count d"
  by (auto simp: extract_player_def split: if_splits option.splits)

lemma keeps_run_judge_best_of: "keeps P (run_judge_best_of env)"
  by (rule keepsI) (auto simp: run_judge_best_of_def split: option.splits)

lemma keeps_run_reconnect_on_recreate_duel:
  assumes "\<And>r q st. P q st \<Longrightarrow> P q (st \<lparr> st_reconnect := r \<rparr>)"
  shows "keeps P run_reconnect_on_recreate_duel"
  unfolding run_reconnect_on_recreate_duel_def
  by (rule keeps_on_state) (use assms in \<open>auto simp: done_with_def with_reconnect_def\<close>)

lemma SINGLE_DUEL_YGOPRO_HANDLERS_keep:
  assumes "(k, h) \<in> set (SINGLE_DUEL_YGOPRO_HANDLERS env)"
  shows "keeps_room single_inv (h_run h)"
proof -
  have "keeps_room single_inv run_single_create_game"
    unfolding run_single_create_game_def by (rule keeps_intros) (auto intro: single_inv_create_game)
  moreover have "keeps_room single_inv run_single_tp_result"
    unfolding run_single_tp_result_def
    by (rule keeps_intros)
      (auto split: ctos_Message.splits intro!: single_inv_tp_result dest!: extract_player_seated)
  moreover have "keeps_room single_inv run_single_leave_game" "keeps_room single_inv run_single_surrender"
    unfolding run_single_leave_game_def run_single_surrender_def
    by (rule keeps_intros; auto intro: single_inv_leave_game single_inv_surrender)+
  moreover have "keeps_room single_inv run_single_chat"
    unfolding run_single_chat_def by (rule keeps_intros) (auto simp: single_on_chat_def)
  moreover have "keeps_room single_inv (run_single_request_field env)"
    unfolding run_single_request_field_def
    by (rule keeps_single, rule keeps_requesting_field) (simp add: base_inv_on_request_field)
  ultimately show ?thesis using assms by (auto simp: SINGLE_DUEL_YGOPRO_HANDLERS_def Let_def)
qed

lemma SINGLE_DUEL_YGOPRO_HANDLERS_EX_keep:
  assumes "(k, h) \<in> set (SINGLE_DUEL_YGOPRO_HANDLERS_EX env)"
  shows "keeps_room single_inv (h_run h)"
proof -
  have "keeps_room single_inv (run_first_shuffle env)" "keeps_room single_inv (run_duel_init env)"
    "keeps_room single_inv (run_single_duel_start env)"
    unfolding run_first_shuffle_def run_duel_init_def run_single_duel_start_def
    by (rule keeps_single, rule keeps_on_any, simp,
        (rule base_inv_first_shuffle base_inv_duel_init base_inv_single_duel_start; assumption))+
  moreover have "keeps_room single_inv run_single_duel_end" "keeps_room single_inv run_single_recreate_duel"
    unfolding run_single_duel_end_def run_single_recreate_duel_def
    by (rule keeps_intros; auto intro: single_inv_duel_end single_inv_recreate)+
  moreover have "keeps_room single_inv run_single_generate_replay"
    unfolding run_single_generate_replay_def
    by (rule keeps_intros) (auto simp: done_with_def single_on_generate_replay_def split: if_splits)
  moreover have "keeps_room single_inv run_judge_continue_match"
    unfolding run_judge_continue_match_def by (rule keeps_on_duel) auto
  moreover have "keeps_room single_inv run_single_timeout"
    unfolding run_single_timeout_def by (rule keeps_single, rule keeps_on_ex) auto
  moreover have "keeps_room single_inv run_reconnect_on_recreate_duel"
    by (rule keeps_run_reconnect_on_recreate_duel) simp
  moreover have "keeps_room single_inv (run_judge_best_of env)"
    by (rule keeps_run_judge_best_of)
  ultimately show ?thesis using assms by (auto simp: SINGLE_DUEL_YGOPRO_HANDLERS_EX_def Let_def)
qed

lemma SINGLE_DUEL_YGOCORE_HANDLERS_keep:
  assumes "(k, h) \<in> set (SINGLE_DUEL_YGOCORE_HANDLERS env)"
  shows "keeps_room single_inv (h_run h)"
proof -
  have "keeps_room single_inv run_retry" unfolding run_retry_def by (rule keeps_on_duel) auto
  moreover have "keeps_room single_inv run_hint"
    unfolding run_hint_def
    by (rule keeps_on_duel) (auto simp: skipped_def split: gm_Message.splits gm_GroupA.splits)
  moreover have "keeps_room single_inv (run_swap env)"
    unfolding run_swap_def
    by (rule keeps_single, rule keeps_on_duel)
      (auto simp: skipped_def split: gm_Message.splits gm_GroupB.splits intro: base_inv_on_swap)
  moreover have "keeps_room single_inv run_on_match_kill"
    by (rule keeps_single) (use core_handlers_keep [of 170 "handler 128 [] [] run_on_match_kill"] in
      \<open>auto simp: run_on_match_kill_def on_match_kill_def skipped_def intro!: keeps_on_duel
        split: gm_Message.splits gm_GroupD.splits\<close>)
  ultimately show ?thesis using assms by (auto simp: SINGLE_DUEL_YGOCORE_HANDLERS_def Let_def)
qed


section \<open>Steps and reachable rooms\<close>

text \<open>The sort of a processor permutes the handlers.\<close>

definition permuting :: "'c sorts \<Rightarrow> bool" where
  "permuting srt \<longleftrightarrow> (\<forall>xs. set (srt_ctos srt xs) = set xs) \<and> (\<forall>xs. set (srt_ex srt xs) = set xs) \<and>
     (\<forall>xs. set (srt_core srt xs) = set xs)"

lemma permutingD [dest]:
  assumes "permuting srt"
  shows "set (srt_ctos srt xs) = set xs" "set (srt_ex srt ys) = set ys" "set (srt_core srt zs) = set zs"
  using assms by (simp_all add: permuting_def)

lemma run_processor_keeps:
  assumes "\<And>xs. set (srt xs) = set xs"
    and "\<And>k' h. (k', h) \<in> set ts \<union> set ss \<Longrightarrow> keeps_room I (h_run h)"
    and "run_processor mul r (new_with_dual_group srt ts ss groups tg sg is_all) k q st = Inr (q', st', r')"
    and "I (st_duel st)"
  shows "I (st_duel st')"
proof -
  from assms(3) obtain b where b: "process_bundle mul (new_with_dual_group srt ts ss groups tg sg is_all) (Bundle_new q st r) k = Inr b"
    and st': "st' = state b"
    unfolding run_processor_def by (auto elim: and_then_E)
  show ?thesis
    using process_bundle_keeps [where P = "\<lambda>q st. I (st_duel st)", OF assms(1) _ b] assms(2,4) st'
    by (auto simp: Bundle_new_def)
qed

lemma single_ctos_processor:
  assumes "permuting srt" and "run_processor mul r (ygopro_processor srt env) k q st = Inr (q', st', r')"
    and "single_inv (st_duel st)"
  shows "single_inv (st_duel st')"
  by (rule run_processor_keeps [where I = single_inv, OF permutingD(1) [OF assms(1)] _ assms(2) [unfolded ygopro_processor_def] assms(3)])
    (auto intro: SINGLE_DUEL_YGOPRO_HANDLERS_keep keeps_single YGOPRO_HANDLERS_keep plugin_handlers_keep)

lemma single_ex_processor:
  assumes "permuting srt" and "run_processor mul r (ygopro_ex_processor srt env) k q st = Inr (q', st', r')"
    and "single_inv (st_duel st)"
  shows "single_inv (st_duel st')"
  by (rule run_processor_keeps [where I = single_inv, OF permutingD(2) [OF assms(1)] _ assms(2) [unfolded ygopro_ex_processor_def] assms(3)])
    (auto intro: SINGLE_DUEL_YGOPRO_HANDLERS_EX_keep keeps_single YGOPRO_HANDLERS_EX_keep plugin_handlers_ex_keep)

lemma single_core_processor:
  assumes "permuting srt" and "run_processor mul r (ygocore_processor srt env) k q st = Inr (q', st', r')"
    and "single_inv (st_duel st)"
  shows "single_inv (st_duel st')"
  by (rule run_processor_keeps [where I = single_inv, OF permutingD(3) [OF assms(1)] _ assms(2) [unfolded ygocore_processor_def] assms(3)])
    (auto intro: SINGLE_DUEL_YGOCORE_HANDLERS_keep keeps_single core_handlers_keep [unfolded set_append Un_iff])

lemma single_inv_send_list [simp]: "single_inv (send_list ms t d) = single_inv d"
  by (induction ms arbitrary: d) (simp_all add: send_list_def)

lemma single_inv_queue_list [simp]: "single_inv (queue_list rs d) = single_inv d"
  by (induction rs d rule: queue_list.induct) simp_all

lemma st_duel_map_duel [simp]: "st_duel (map_duel f st) = f (st_duel st)"
  by (simp add: map_duel_def)

lemma single_inv_answer_client: "single_inv (st_duel st) \<Longrightarrow> single_inv (st_duel (fst (answer_client p r st)))"
  by (cases r) (simp_all add: answer_client_def)

lemma single_inv_answer_ex: "single_inv (st_duel st) \<Longrightarrow> single_inv (st_duel (answer_ex q r st))"
  by (cases r) (simp_all add: answer_ex_def)

lemma single_inv_step_message:
  assumes "permuting srt" and "step_message srt env m p st = Inr (st', ends)" and "single_inv (st_duel st)"
  shows "single_inv (st_duel st')"
proof (cases "gated m p (st_duel st)")
  case False
  with assms(2) obtain q st0 r where
    "run_processor Response_mul Response_default (ygopro_processor srt env) (ctos_MessageType_into (ctos_type m))
       \<lparr> rq_message = m, rq_extra = p \<rparr> st = Inr (q, st0, r)"
    and "st' = fst (answer_client (rq_extra q) r st0)"
    unfolding step_message_def by (auto elim!: and_then_E)
  with single_ctos_processor [OF assms(1) this(1) assms(3)] show ?thesis
    by (simp add: single_inv_answer_client)
qed (use assms in \<open>simp add: step_message_def\<close>)

lemma single_inv_process_ex:
  "permuting srt \<Longrightarrow> process_ex srt env m t st = Inr (q, st', r) \<Longrightarrow> single_inv (st_duel st) \<Longrightarrow> single_inv (st_duel st')"
  unfolding process_ex_def by (rule single_ex_processor)

lemma single_inv_step_ex:
  "permuting srt \<Longrightarrow> step_ex srt env m t st = Inr st' \<Longrightarrow> single_inv (st_duel st) \<Longrightarrow> single_inv (st_duel st')"
  unfolding step_ex_def by (auto elim!: and_then_E intro!: single_inv_answer_ex elim: single_inv_process_ex)


lemma base_inv_retry_waiting: "base_inv x d \<Longrightarrow> base_inv x (retry_waiting d)"
  by (simp add: retry_waiting_def base_inv_set_waiting split: option.split)

lemma base_inv_pop_response [simp]: "base_inv x (pop_response d) = base_inv x d"
  by (simp add: pop_response_def base_inv_def routed_def)

lemma base_inv_route_core_message:
  assumes "base_inv x d" and "route_core_message env m r d = Inr d'"
  shows "base_inv x d'"
proof -
  from assms(2) obtain d1 d2 where
    1: "(case gm_waiting_for m of
          Some p \<Rightarrow> refresh env (cr_player r) (cr_locations r) (cr_sequence r) (cr_query r)
            (PlayerTransformer (first_attacker d)) (set_waiting p d)
        | None \<Rightarrow> Inr (if is_retry m then retry_waiting (pop_response d) else d)) = Inr d1"
    and 2: "send_game_message m (cr_target r) (PlayerTransformer (first_attacker d)) d1 = Inr d2"
    and 3: "(if gm_waiting_for m = None then refresh env (cr_player r) (cr_locations r) (cr_sequence r) (cr_query r)
            (PlayerTransformer (first_attacker d)) d2 else Inr d2) = Inr d'"
    unfolding route_core_message_def Let_def by (elim and_then_E)
  have "base_inv x d1"
    using 1 assms(1)
    by (cases "gm_waiting_for m")
      (auto split: if_splits intro: base_inv_retry_waiting base_inv_refresh [OF base_inv_set_waiting])
  then have "base_inv x d2" by (rule base_inv_send_game_message [OF _ 2])
  then show ?thesis using 3 by (auto split: if_splits intro: base_inv_refresh)
qed

lemma single_inv_core_messages:
  assumes "permuting srt"
  shows "core_messages srt env ms st = Inr st' \<Longrightarrow> single_inv (st_duel st) \<Longrightarrow> single_inv (st_duel st')"
proof (induction ms arbitrary: st)
  case (Cons m ms)
  from Cons.prems(1) obtain q st0 r d where
    1: "run_processor CoreResponse_mul CoreResponse_default (ygocore_processor srt env) (gm_type m)
          \<lparr> rq_message = m, rq_extra = UnknownPlayer \<rparr> st = Inr (q, st0, r)"
    and 2: "route_core_message env (rq_message q) r (st_duel st0) = Inr d"
    and 3: "core_messages srt env ms (st0 \<lparr> st_duel := d \<rparr>) = Inr st'"
    by (auto elim!: and_then_E)
  have "single_inv d"
    using single_inv_by_base [OF single_core_processor [OF assms 1 Cons.prems(2)]] base_inv_route_core_message [OF _ 2]
    by blast
  then show ?case using Cons.IH [OF 3] by simp
qed simp

lemma single_inv_step_evolve:
  assumes "permuting srt" and "step_evolve srt env st = Inr st'" and "single_inv (st_duel st)"
  shows "single_inv (st_duel st')"
proof -
  from assms(2) obtain ms d where 1: "evolve env (st_duel st) = Inr (ms, d)"
    and 2: "core_messages srt env ms (st \<lparr> st_duel := d \<rparr>) = Inr st'"
    unfolding step_evolve_def by (auto elim!: and_then_E)
  have "single_inv d" using single_inv_by_base [OF assms(3)] base_inv_evolve [OF _ 1] by blast
  then show ?thesis using single_inv_core_messages [OF assms(1) 2] by simp
qed

lemma single_inv_run_command:
  assumes "single_inv (st_duel st)"
  shows "single_inv (st_duel (snd (run_command env name arg st)))"
  by (rule single_inv_by_base [OF assms]) (rule base_inv_run_command)

lemma single_inv_step_request:
  assumes "permuting srt" and "step_request srt env r st = Inr (st', ends)" and "single_inv (st_duel st)"
  shows "single_inv (st_duel st')"
proof (cases r)
  case (Req_Message m p)
  then show ?thesis using assms single_inv_step_message by simp
next
  case (Req_MessageEx m t)
  then show ?thesis using assms single_inv_step_ex by (auto elim!: and_then_E)
next
  case Req_Evolve
  then show ?thesis using assms single_inv_step_evolve by (auto elim!: and_then_E)
next
  case (Req_Command n a)
  then show ?thesis using assms single_inv_run_command [of st env n a] by (auto split: prod.splits)
qed

text \<open>The state of a room, unless its task has crashed.\<close>

fun room_state :: "'c Room \<Rightarrow> 'c SingleDuel State option" where
    "room_state (Running st) = Some st"
  | "room_state (Closed st) = Some st"
  | "room_state (Crashed p) = None"

definition room_inv :: "'c Room \<Rightarrow> bool" where
  "room_inv room \<longleftrightarrow> (case room_state room of None \<Rightarrow> True | Some st \<Rightarrow> single_inv (st_duel st))"

lemma single_inv_requests [simp]: "single_inv (d_requests_update f d) = single_inv d"
  by (simp add: single_inv_def base_inv_def routed_def two_player_ext_def)

lemma take_request_Some:
  "take_request st = Some (r, st') \<Longrightarrow> st' = map_duel (d_requests_update tl) st \<and> d_requests (st_duel st) = r # d_requests (st_duel st')"
  by (auto simp: take_request_def map_duel_def split: list.splits)

lemma room_inv_close:
  assumes "permuting srt" and "single_inv (st_duel st)"
  shows "room_inv (close_room srt env st)"
  using single_inv_process_ex [OF assms(1) _ assms(2)]
  by (auto simp: close_room_def room_inv_def split: sum.split)

lemma room_inv_step:
  assumes "permuting srt" and "single_inv (st_duel st)" and "room_step srt env st = Some room"
  shows "room_inv room"
proof -
  from assms(3) obtain r st0 where t: "take_request st = Some (r, st0)"
    by (auto simp: room_step_def split: option.splits)
  then have i: "single_inv (st_duel st0)" using take_request_Some [OF t] assms(2) by simp
  show ?thesis
  proof (cases "step_request srt env r st0")
    case (Inl p)
    then show ?thesis using assms(3) t by (auto simp: room_step_def room_inv_def)
  next
    case (Inr x)
    obtain st1 ends where x: "x = (st1, ends)" by (cases x)
    have "single_inv (st_duel st1)" using single_inv_step_request [OF assms(1) _ i] Inr x by simp
    then show ?thesis
      using assms(1,3) t Inr x room_inv_close by (auto simp: room_step_def room_inv_def split: if_splits)
  qed
qed

lemma single_inv_new: "single_inv (SingleDuel_new env info no_mask)"
  by (simp add: single_inv_def base_inv_def routed_def two_player_ext_def SingleDuel_new_def Duel_new_def
      Sender_new_def one_of_two_def Duel.Duel.extend_def SingleDuel.SingleDuel.fields_def)

lemma reachable_inv:
  assumes "permuting srt" and "reachable srt env room"
  shows "room_inv room"
  using assms(2)
proof (induction rule: reachable.induct)
  case (start info no_mask)
  then show ?case by (simp add: room_inv_def room_start_def single_inv_new)
next
  case (arrival st r)
  then show ?case by (simp add: room_inv_def arrive_def)
next
  case (step st room)
  then show ?case using room_inv_step [OF assms(1)] by (simp add: room_inv_def)
qed

end
