(* ===== verification/RoomProperties.thy ===== *)
theory RoomProperties
  imports SingleInvariants RoomSamples
begin

text \<open>
  What holds in every room for two players that can be reached, whatever its clients send: messages
  for a position go to the client at it, everybody gets the view of an engine message that is theirs,
  the judge of the match follows the rules for best of three, and leaving never panics at a table.
\<close>

section \<open>The facts the invariant gives\<close>

lemma reachable_single_inv:
  "permuting srt \<Longrightarrow> reachable srt env (Running st) \<Longrightarrow> single_inv (st_duel st)"
  using reachable_inv [of srt env "Running st"] by (simp add: room_inv_def)

lemma single_inv_seats:
  assumes "single_inv d"
  shows "d_max_player_count d \<in> {0, 2}" and "length (d_players d) = d_max_player_count d"
    and "length (s_players (d_sender d)) \<le> d_max_player_count d"
    and "one_of_two (sd_first_attack_player d)" and "list_all one_of_two (sd_duel_winner d)"
  using assms by (auto simp: single_inv_def base_inv_def routed_def two_player_ext_def seats_match_def)

lemma single_inv_routed: "single_inv d \<Longrightarrow> routed d"
  by (simp add: single_inv_def base_inv_def)

section \<open>Two seats\<close>

text \<open>C29: the types the code gives the fields of a room are wider than what a room can hold. In every
  room for two players that can be reached there are two seats or, before a game was created, none;
  the sender has no channel for a position beyond them; whoever attacks first, if that is known, is
  one of the two; and every recorded winner is one of the two, or none.\<close>

theorem reachable_two_seats:
  assumes "permuting srt" and "reachable srt env (Running st)"
  shows "d_max_player_count (st_duel st) \<in> {0, 2} \<and>
    length (d_players (st_duel st)) = d_max_player_count (st_duel st) \<and>
    length (s_players (d_sender (st_duel st))) \<le> d_max_player_count (st_duel st) \<and>
    sd_first_attack_player (st_duel st) \<in> {None, Some 0, Some 1} \<and>
    set (sd_duel_winner (st_duel st)) \<subseteq> {None, Some 0, Some 1}"
  using single_inv_seats [OF reachable_single_inv [OF assms]]
  by (auto simp: one_of_two_def list_all_iff)

section \<open>Routing\<close>

lemma routed_recipients:
  assumes "routed d"
  shows "get_player d i = Some p \<Longrightarrow>
      recipients_of (To_Single (Player i)) (d_sender d) = [(Player i, Some (dp_channel p))]"
    and "recipients_of (To_Single (Observer k)) (d_sender d) =
      [(Observer k, map_option bp_stoc_sender (slab_get (d_observers d) (unat k)))]"
    and "recipients_of (To_Single (Undecided k)) (d_sender d) =
      [(Undecided k, map_option bp_stoc_sender (slab_get (d_uninit_players d) (unat k)))]"
    and "observer_senders (d_sender d) =
      map (\<lambda>(j, o'). (Observer (of_nat j), Some (bp_stoc_sender o'))) (slab_items (d_observers d))"
  using assms seats_matchD [of "d_players d" "s_players (d_sender d)" "unat i" p]
  by (auto simp: routed_def slabs_match_get slabs_match_def observer_senders_def get_player_def
      split: option.splits if_splits)

text \<open>C6: in every room that can be reached, what is sent to a seat goes to the channel of the player
  who sits there, what is sent to an observer or to somebody who has not joined yet goes to that
  client's channel (or to nobody, when there is no such client), and a broadcast to the observers
  reaches every observer exactly once: the channels kept by the sender and the clients kept by the
  room never get out of step.\<close>

theorem reachable_routing:
  assumes "permuting srt" and "reachable srt env (Running st)" and "get_player (st_duel st) i = Some p"
  shows "recipients_of (To_Single (Player i)) (d_sender (st_duel st)) = [(Player i, Some (dp_channel p))] \<and>
    recipients_of (To_Single (Observer k)) (d_sender (st_duel st)) =
      [(Observer k, map_option bp_stoc_sender (slab_get (d_observers (st_duel st)) (unat k)))] \<and>
    recipients_of (To_Single (Undecided k)) (d_sender (st_duel st)) =
      [(Undecided k, map_option bp_stoc_sender (slab_get (d_uninit_players (st_duel st)) (unat k)))] \<and>
    observer_senders (d_sender (st_duel st)) =
      map (\<lambda>(j, o'). (Observer (of_nat j), Some (bp_stoc_sender o'))) (slab_items (d_observers (st_duel st)))"
  using routed_recipients [OF single_inv_routed [OF reachable_single_inv [OF assms(1,2)]]] assms(3) by blast

section \<open>The judge of the match\<close>

lemma count_wins_two:
  "list_all one_of_two ws \<Longrightarrow>
   count_wins ws (a, b) = Inr (a + count_list ws (Some 0), b + count_list ws (Some 1))"
proof (induction ws arbitrary: a b)
  case (Cons w ws)
  then consider "w = None" | "w = Some 0" | "w = Some 1" by (auto simp: one_of_two_def)
  then show ?case using Cons by cases auto
qed simp

lemma match_over_two:
  assumes "list_all one_of_two ws"
  shows "match_over mode ws = Inr
    (if mode = Mode_Match then 3 \<le> length ws \<or> 2 \<le> count_list ws (Some 0) \<or> 2 \<le> count_list ws (Some 1)
     else ws \<noteq> [])"
proof -
  have "Suc 0 \<le> length ws \<or> Suc 0 \<le> count_list ws (Some 0) \<or> Suc 0 \<le> count_list ws (Some 1) \<longleftrightarrow> ws \<noteq> []"
    by (cases ws) auto
  then show ?thesis using count_wins_two [OF assms, of 0 0] by (auto simp: match_over_def)
qed

text \<open>C9: in every room that can be reached the judge returns: the match is over exactly when, in a
  match, three duels were played or one player won two of them, and otherwise as soon as one duel was
  played.\<close>

theorem reachable_judge:
  assumes "permuting srt" and "reachable srt env (Running st)"
  shows "on_judge_continue_match (st_duel st) = Inr (lit
    (if (if hi_mode (d_host_info (st_duel st)) = Mode_Match
         then 3 \<le> length (sd_duel_winner (st_duel st)) \<or> 2 \<le> count_list (sd_duel_winner (st_duel st)) (Some 0) \<or>
              2 \<le> count_list (sd_duel_winner (st_duel st)) (Some 1)
         else sd_duel_winner (st_duel st) \<noteq> [])
     then ''terminate'' else ''continue''))"
  by (simp add: on_judge_continue_match_def match_over_two [OF single_inv_seats(5) [OF reachable_single_inv [OF assms]]]
      cong: if_cong)


section \<open>Views of an engine message\<close>

fun view_of :: "Transformer \<Rightarrow> gm_Message \<Rightarrow> Netplayer \<Rightarrow> gm_Message" where
    "view_of tr m (Player i) = (if gm_should_mask m (tr_to_core tr (Player i)) then gm_mask m else m)"
  | "view_of tr m p = gm_mask m"

definition aimed :: "PlayerIndex \<Rightarrow> SendTarget \<Rightarrow> SendTarget" where
  "aimed f target = (case target of To_Core p \<Rightarrow> transform f p | _ \<Rightarrow> target)"

lemma deliver_each_ok:
  "(\<And>p c. (p, c) \<in> set rs \<Longrightarrow> g p = Inr (f p)) \<Longrightarrow>
   deliver_each g rs = Inr (concat (map (\<lambda>(p, c). channel_send c (f p)) rs))"
proof (induction rs)
  case (Cons r rs)
  obtain p c where r: "r = (p, c)" by (cases r)
  from Cons.prems [of p c] have "g p = Inr (f p)" by (simp add: r)
  moreover have "deliver_each g rs = Inr (concat (map (\<lambda>(p, c). channel_send c (f p)) rs))"
    by (rule Cons.IH) (rule Cons.prems, erule list.set_intros(2))
  ultimately show ?case by (simp add: r)
qed simp

lemma recipients_of_messages [simp]:
  "recipients_of t (s \<lparr> s_messages := a, s_masked_messages := b \<rparr>) = recipients_of t s"
  by (cases "(t, s)" rule: recipients_of.cases) (simp_all add: player_senders_def observer_senders_def)

lemma recipients_seated:
  assumes "(Player i, c) \<in> set (recipients_of t s)" and "length (s_players s) \<le> n" and "n \<le> 256"
    and "\<And>j. t = To_Single (Player j) \<Longrightarrow> unat j < n"
  shows "unat i < n"
proof -
  have idx: "unat (of_nat k :: u8) < n" if "(k, x) \<in> set (enumerate 0 (s_players s))" for k x
  proof -
    have "k < n" using that assms(2) by (auto simp: in_set_enumerate_eq)
    then show ?thesis using assms(3) by (simp add: unat_of_nat)
  qed
  show ?thesis
    using assms(1,4) by (cases "(t, s)" rule: recipients_of.cases)
      (auto simp: player_senders_def observer_senders_def intro: idx)
qed

lemma can_see_seat:
  assumes "unat i < n" and "n \<le> 2"
  shows "index (can_see tr m n) (unat i) = Inr (\<not> gm_should_mask m (tr_to_core tr (Player i)))"
proof -
  have "n mod 256 = n" using assms(2) by simp
  then show ?thesis using assms(1) by (simp add: can_see_def)
qed

text \<open>C1: in every room that can be reached, once a game was created and unless masking is switched
  off, sending a message of the engine never panics, and everybody it goes to gets their own view of it:
  a player the message as it is unless its rules hide it from them, and then its masked form; an
  observer always the masked form. Nothing else is sent.\<close>

theorem reachable_views:
  assumes "permuting srt" and "reachable srt env (Running st)" and "d_players (st_duel st) \<noteq> []"
    and "\<not> d_no_mask (st_duel st)" and "\<forall>i. target \<noteq> To_Single (Player i)"
  shows "\<exists>d'. send_game_message m target (PlayerTransformer f) (st_duel st) = Inr d' \<and>
    s_out (d_sender d') = s_out (d_sender (st_duel st)) @
      concat (map (\<lambda>(p, c). channel_send c (Stoc_GameMessage (view_of (PlayerTransformer f) m p)))
        (recipients_of (aimed f target) (d_sender (st_duel st))))"
proof -
  define d where "d = st_duel st"
  define d1 where "d1 = (if gm_waiting_for m \<noteq> None then d \<lparr> d_last_select_message := Some m \<rparr> else d)"
  note inv = single_inv_seats [OF reachable_single_inv [OF assms(1,2)], folded d_def]
  have two: "d_max_player_count d = 2" using inv(1,2) assms(3) by (auto simp: d_def)
  have d1: "d_max_player_count d1 = 2" "d_sender d1 = d_sender d" "\<not> d_no_mask d1"
    using two assms(4) by (simp_all add: d1_def d_def)
  have aim: "unat j < 2" if "aimed f target = To_Single (Player j)" for j
    using that assms(5) by (auto simp: aimed_def transform_def split: SendTarget.splits elim: seat_target.elims)
  have "MaymaskedMessage_resolve m (mask_judger (can_see (PlayerTransformer f) m 2)) p =
      Inr (Stoc_GameMessage (view_of (PlayerTransformer f) m p))"
    if "(p, c) \<in> set (recipients_of (aimed f target) (d_sender d))" for p c
    using recipients_seated [of _ c "aimed f target" "d_sender d" 2] that inv(3) two aim
    by (cases p) (auto simp: MaymaskedMessage_resolve_def can_see_seat simp del: index.simps)
  note out = deliver_each_ok [OF this]
  have "send_game_message m target (PlayerTransformer f) d =
      and_then (Sender_send_game_message m target (mask_judger (can_see (PlayerTransformer f) m 2)) (PlayerTransformer f)
        (d_sender d)) (\<lambda>s. Inr (d1 \<lparr> d_sender := s \<rparr>))"
    using d1 unfolding send_game_message_def Let_def d1_def [symmetric] by simp
  moreover have "(case target of To_Core p \<Rightarrow> tr_transform (PlayerTransformer f) p | _ \<Rightarrow> target) = aimed f target"
    by (simp add: aimed_def PlayerTransformer_def cong: SendTarget.case_cong)
  ultimately show ?thesis
    by (simp add: Sender_send_game_message_def out d_def)
qed


section \<open>Leaving\<close>

lemma free_seat_returns: "(\<exists>d'. free_seat i d = Inr d') \<longleftrightarrow> i < length (d_players d)"
  by (simp add: free_seat_def set_slot_def)

lemma free_seat_length: "free_seat i d = Inr d' \<Longrightarrow> length (d_players d') = length (d_players d) \<and> d_stage d' = d_stage d"
  by (auto simp: free_seat_def set_slot_def map_sender_def split: if_splits)

lemma player_change_small: "i < 16 \<Longrightarrow> \<exists>m. player_change s (Player i) = Inr m"
  by (simp add: player_change_def PlayerChange_with_player_def Netplayer_into_bytes_def Let_def not_le [symmetric])

lemma leave_player_returns:
  assumes "length (d_players d) \<le> 16"
  shows "(\<exists>d'. leave_player i d = Inr d') \<longleftrightarrow> unat i < length (d_players d)"
proof (cases "unat i < length (d_players d)")
  case True
  then have "i < 16" using assms by (simp add: word_less_nat_alt)
  then obtain m where m: "player_change PlayerChangeState_Leave (Player i) = Inr m" using player_change_small by blast
  obtain d1 where d1: "free_seat (unat i) d = Inr d1" using free_seat_returns True by blast
  have "\<exists>d2. free_seat (unat i) (send m To_All d1) = Inr d2"
    using free_seat_returns [of "unat i" "send m To_All d1"] free_seat_length [OF d1] True by simp
  then show ?thesis using True m d1 by (auto simp: leave_player_def)
next
  case False
  then have "\<nexists>d'. free_seat (unat i) d = Inr d'" using free_seat_returns by blast
  then show ?thesis using False by (auto simp: leave_player_def split: if_splits)
qed

lemma leave_position_returns:
  assumes "base_inv x d" and "length (d_players d) \<le> 16"
  shows "(\<exists>d'. leave_position p d = Inr d') \<longleftrightarrow> (case p of Player i \<Rightarrow> unat i < length (d_players d) | _ \<Rightarrow> True)"
proof (cases p)
  case (Observer k)
  show ?thesis
  proof (cases "slab_try_remove (unat k) (d_observers d)")
    case (Some r)
    moreover obtain b rest where "r = (b, rest)" by (cases r)
    ultimately show ?thesis using base_inv_remove_observer [OF assms(1), of "unat k" b rest] Observer
      by (auto simp: leave_observer_def)
  qed (simp add: Observer leave_observer_def)
next
  case (Undecided k)
  show ?thesis
  proof (cases "slab_try_remove (unat k) (d_uninit_players d)")
    case (Some r)
    moreover obtain b rest where "r = (b, rest)" by (cases r)
    ultimately show ?thesis using base_inv_remove_undecided [OF assms(1), of "unat k" b rest] Undecided
      by (auto simp: leave_undecided_def)
  qed (simp add: Undecided leave_undecided_def)
qed (use leave_player_returns [OF assms(2)] in simp_all)

text \<open>In every room that can be reached, a leaving client crashes the room exactly when its position
  is a seat that the table does not have and the room does not end at once because the host left
  alone. In particular no observer and nobody who has not joined yet can crash it by leaving: the two
  slabs that hold an observer and its channel always agree on the keys in use.\<close>

theorem reachable_leaving:
  assumes "permuting srt" and "reachable srt env (Running st)"
  shows "(\<exists>r. on_leave_game env p (st_duel st) = Inr r) \<longleftrightarrow>
    (case p of
       Player i \<Rightarrow> unat i < d_max_player_count (st_duel st) \<or>
         p = d_host_player (st_duel st) \<and> next_host p 0 (d_players (st_duel st)) = None
     | _ \<Rightarrow> True)"
proof -
  define d where "d = st_duel st"
  have inv: "single_inv d" using reachable_single_inv [OF assms] by (simp add: d_def)
  then obtain x where base: "base_inv x d" by (auto simp: single_inv_def)
  note seats = single_inv_seats [OF inv]
  have keep: "length (d_players (hand_over h d)) = length (d_players d)" for h
    using base_inv_hand_over [OF base, of h] base by (auto simp: base_inv_def)
  have small: "length (d_players d) \<le> 16" using seats(1,2) by auto
  let ?d = "\<lambda>heir. case heir of None \<Rightarrow> d | Some h \<Rightarrow> hand_over h d"
  have "(\<exists>d'. leave_position p (?d heir) = Inr d') \<longleftrightarrow> (case p of Player i \<Rightarrow> unat i < length (d_players d) | _ \<Rightarrow> True)" for heir
    using leave_position_returns [of x "?d heir" p] base base_inv_hand_over [OF base] keep small by (cases heir; cases p; simp)
  then show ?thesis
    using seats(2) unfolding d_def [symmetric] on_leave_game_def Let_def by (cases p) auto
qed


section \<open>A room that can be reached\<close>

text \<open>The requests of a client that creates a game, connects and joins lead to a room with one player at
  the table: the hypotheses of the theorems above hold there.\<close>

lemma permuting_sample: "permuting sample_sorts"
  by (simp add: permuting_def sample_sorts_def)

lemma reach_by:
  assumes "reachable srt env (Running st)" and "d_requests (st_duel st) = []"
    and "step_request srt env r st = Inr (st', False)"
  shows "reachable srt env (Running st')"
proof -
  have "take_request (arrive r st) = Some (r, st)"
    using assms(2) by (simp add: take_request_def arrive_def map_duel_def queue_def)
  then have "room_step srt env (arrive r st) = Some (Running st')"
    using assms(3) by (simp add: room_step_def)
  then show ?thesis using reachable.step [OF reachable.arrival [OF assms(1)]] by blast
qed

definition created_room :: "unit SingleDuel" where
  "created_room =
     on_create_game HostInfo_default (FixedLengthString_allocate 20) (FixedLengthString_allocate 20)
       (single_on_create_game (SingleDuel_new (sample_env room_modules) HostInfo_default False))"

definition connected_room :: "unit SingleDuel" where
  "connected_room = snd (on_client_join (sample_env room_modules) (Chan 7) (Some 0) created_room)"

lemmas room_evaluation =
  connected_room_def created_room_def on_client_join_def on_create_game_def single_on_create_game_def SingleDuel_new_def
  Duel_new_def Duel.Duel.extend_def SingleDuel.SingleDuel.fields_def slab_insert_def Slab_new_def slab_vacant_key_def
  sample_env_def lifo_keys_def map_sender_def Sender_new_def

lemma created_room_fields: "d_requests created_room = []" "d_stage created_room = DuelStage_Begin"
  by (simp_all add: created_room_def on_create_game_def single_on_create_game_def SingleDuel_new_def Duel_new_def
      Duel.Duel.extend_def)

lemma sample_join:
  "\<exists>d ms. on_join_game (sample_env room_modules) (Undecided 0) (FixedLengthString_allocate 20) connected_room =
       Inr (Player 0, d, Inr ms) \<and>
     get_player d 0 = Some (DuelPlayer_from (BaseDuelPlayer_new (Chan 7))) \<and> \<not> d_no_mask d \<and> d_requests d = []"
proof -
  have empty: "FixedLengthString_is_empty (FixedLengthString_allocate 20)"
    by (simp add: FixedLengthString_is_empty_def FixedLengthString_allocate_def list_all_iff)
  show ?thesis
    by (simp add: on_join_game_def room_evaluation empty slab_try_remove_def slab_remove_def slab_get_def
        remove_sender_undecided_def seat_client_def join_position_def nobody_seated_def slab_is_empty_def slab_len_def
        set_slot_def send_def Sender_set_player_def pad_players_def get_player_def Let_def DuelPlayer_from_def)
qed


lemma get_player_send_list [simp]:
  "get_player (send_list ms t d) i = get_player d i" "d_no_mask (send_list ms t d) = d_no_mask d"
  by (induction ms arbitrary: d) (simp_all add: send_list_def send_def get_player_def)

lemma sample_reachable:
  "\<exists>st. reachable sample_sorts (sample_env room_modules) (Running st) \<and>
     get_player (st_duel st) 0 = Some (DuelPlayer_from (BaseDuelPlayer_new (Chan 7))) \<and> \<not> d_no_mask (st_duel st)"
proof -
  let ?srt = "sample_sorts :: unit sorts" and ?env = "sample_env room_modules"
  let ?st0 = "room_start ?env HostInfo_default False"
  let ?st1 = "map_duel (\<lambda>d. created_room) ?st0"
  let ?create = "Req_Message (Ctos_CreateGame HostInfo_default (FixedLengthString_allocate 20) (FixedLengthString_allocate 20)) UnknownPlayer"
  have "step_request ?srt ?env ?create ?st0 = Inr (?st1, False)"
    by (simp add: sample_create_game created_room_def room_start_def map_duel_def)
  from reach_by [OF reachable.start _ this]
  have 1: "reachable ?srt ?env (Running ?st1)"
    by (simp add: room_start_def SingleDuel_new_def Duel_new_def Duel.Duel.extend_def)
  obtain st2 where st2: "step_ex ?srt ?env (Y_ClientJoin (Chan 7) (Some 0)) To_All ?st1 = Inr st2"
    and d2: "st_duel st2 = connected_room"
    using sample_client_join [of ?st1 "Chan 7" 0 To_All] by (auto simp: connected_room_def created_room_fields)
  have 2: "reachable ?srt ?env (Running st2)"
    by (rule reach_by [OF 1, where r = "Req_MessageEx (Y_ClientJoin (Chan 7) (Some 0)) To_All"])
      (simp_all add: st2 created_room_fields)
  obtain d ms where
    join: "on_join_game ?env (Undecided 0) (FixedLengthString_allocate 20) (st_duel st2) = Inr (Player 0, d, Inr ms)"
    and d: "get_player d 0 = Some (DuelPlayer_from (BaseDuelPlayer_new (Chan 7)))" "\<not> d_no_mask d"
    using sample_join d2 by auto
  let ?st3 = "map_duel (\<lambda>d'. send_list ms (To_Single (Player 0)) d) st2"
  have "d_requests (st_duel st2) = []" by (simp add: d2 room_evaluation)
  moreover have "step_request ?srt ?env (Req_Message (Ctos_JoinGame 0 0 (FixedLengthString_allocate 20)) (Undecided 0)) st2 =
      Inr (?st3, False)"
    by (simp add: sample_join_game [OF join])
  ultimately have "reachable ?srt ?env (Running ?st3)" by (rule reach_by [OF 2])
  with d show ?thesis by (intro exI [of _ ?st3]) simp
qed

lemma reachable_two_seats_witness:
  "\<exists>st. reachable sample_sorts (sample_env room_modules) (Running st) \<and> d_max_player_count (st_duel st) \<in> {0, 2} \<and>
     length (d_players (st_duel st)) = d_max_player_count (st_duel st)"
  using sample_reachable reachable_two_seats [OF permuting_sample] by blast

lemma reachable_routing_witness:
  "\<exists>st. reachable sample_sorts (sample_env room_modules) (Running st) \<and>
     recipients_of (To_Single (Player 0)) (d_sender (st_duel st)) = [(Player 0, Some (Chan 7))]"
proof -
  obtain st where st: "reachable sample_sorts (sample_env room_modules) (Running st)"
    "get_player (st_duel st) 0 = Some (DuelPlayer_from (BaseDuelPlayer_new (Chan 7)))"
    using sample_reachable by blast
  from reachable_routing [OF permuting_sample st, of 0] st(1) show ?thesis
    by (auto simp: BaseDuelPlayer_new_def)
qed

lemma reachable_judge_witness:
  "\<exists>st. reachable sample_sorts (sample_env room_modules) (Running st) \<and>
     (\<exists>s. on_judge_continue_match (st_duel st) = Inr s)"
  using sample_reachable reachable_judge [OF permuting_sample] by blast

lemma reachable_views_witness:
  "\<exists>st d'. reachable sample_sorts (sample_env room_modules) (Running st) \<and>
     send_game_message GM_Retry To_All (PlayerTransformer 0) (st_duel st) = Inr d'"
proof -
  obtain st where st: "reachable sample_sorts (sample_env room_modules) (Running st)"
    "get_player (st_duel st) 0 = Some (DuelPlayer_from (BaseDuelPlayer_new (Chan 7)))" "\<not> d_no_mask (st_duel st)"
    using sample_reachable by blast
  then have "d_players (st_duel st) \<noteq> []" by (auto simp: get_player_def split: if_splits)
  from reachable_views [OF permuting_sample st(1) this st(3), of To_All GM_Retry 0] st(1) show ?thesis by auto
qed

lemma reachable_leaving_witness:
  "\<exists>st r. reachable sample_sorts (sample_env room_modules) (Running st) \<and>
     on_leave_game (sample_env room_modules) (Observer 3) (st_duel st) = Inr r"
proof -
  obtain st where st: "reachable sample_sorts (sample_env room_modules) (Running st)" using sample_reachable by blast
  have "\<exists>r. on_leave_game (sample_env room_modules) (Observer 3) (st_duel st) = Inr r"
    using reachable_leaving [OF permuting_sample st, of "Observer 3"] by simp
  with st show ?thesis by blast
qed

end
