(* ===== verification/Draining.thy ===== *)
theory Draining
  imports RoomProperties "HOL-Library.Multiset"
begin

text \<open>
  A room sends requests to itself: a message of a client starts a duel, the duel ends, a replay is made,
  the match is judged. Every request has a rank, and what its handlers queue has a smaller one. So a
  room that is left alone comes to rest.
\<close>

section \<open>Ranks\<close>

fun message_rank :: "ygopro_Message \<Rightarrow> nat" where
    "message_rank Y_DuelInit = 7"
  | "message_rank Y_DuelStart = 6"
  | "message_rank (Y_Timeout i) = 5"
  | "message_rank (Y_DuelEnd w r) = 4"
  | "message_rank Y_JudgeContinueMatch = 3"
  | "message_rank (Y_ValidateDeck i k) = 3"
  | "message_rank Y_MatchEnd = 1"
  | "message_rank m = 2"

fun rank :: "RoomRequest \<Rightarrow> nat" where
    "rank (Req_Message m p) = 8"
  | "rank (Req_MessageEx m t) = message_rank m"
  | "rank Req_Evolve = 5"
  | "rank (Req_Command name arg) =
       (if name = lit ''terminate'' then 0 else if name = lit ''send_response'' then 9 else 6)"

text \<open>The room has queued nothing but requests of smaller rank since its queue was rs.\<close>

definition grows :: "nat \<Rightarrow> RoomRequest list \<Rightarrow> ('c, 'a) Duel_scheme \<Rightarrow> bool" where
  "grows n rs d \<longleftrightarrow> (\<exists>new. d_requests d = rs @ new \<and> (\<forall>r \<in> set new. rank r < n))"

lemma grows_start [simp]: "grows n (d_requests d) d"
  by (simp add: grows_def)

lemma grows_queue [simp]: "grows n rs d \<Longrightarrow> rank r < n \<Longrightarrow> grows n rs (queue r d)"
  by (auto simp: grows_def queue_def)

lemma grows_queue_ex [simp]: "grows n rs d \<Longrightarrow> message_rank m < n \<Longrightarrow> grows n rs (queue_request_ex m d)"
  by (simp add: queue_request_ex_def)

lemma grows_queue_list: "grows n rs d \<Longrightarrow> \<forall>r \<in> set new. rank r < n \<Longrightarrow> grows n rs (queue_list new d)"
  by (induction new d rule: queue_list.induct) simp_all

section \<open>What leaves the queue alone\<close>

lemma reqs_ops [simp]:
  "d_requests (send m t d) = d_requests d" "d_requests (map_sender f d) = d_requests d"
  "d_requests (map_core g d) = d_requests d" "d_requests (map_player i h d) = d_requests d"
  by (simp_all add: send_def map_sender_def map_core_def map_player_def)

lemma reqs_set_slot: "set_slot i p d = Inr d' \<Longrightarrow> d_requests d' = d_requests d"
  by (auto simp: set_slot_def split: if_splits)

lemma reqs_free_seat: "free_seat i d = Inr d' \<Longrightarrow> d_requests d' = d_requests d"
  by (auto simp: free_seat_def dest: reqs_set_slot)

lemma reqs_hand_result_decided [simp]: "d_requests (hand_result_decided a b d) = d_requests d"
  by (simp add: hand_result_decided_def Let_def split: option.split)

lemma reqs_on_hand_result: "on_hand_result i h d = Inr d' \<Longrightarrow> d_requests d' = d_requests d"
  by (auto simp: on_hand_result_def Let_def split: list.splits option.splits prod.splits)

lemma reqs_side_deck_accepted [simp]: "d_requests (side_deck_accepted i k d) = d_requests d"
  by (simp add: side_deck_accepted_def Let_def)

lemma reqs_on_update_deck: "on_update_deck env i k d = Inr (d', r) \<Longrightarrow> d_requests d' = d_requests d"
  by (auto simp: on_update_deck_def split: option.splits if_splits prod.splits)

lemma reqs_insert_observer: "insert_observer env p d = (k, d') \<Longrightarrow> d_requests d' = d_requests d"
  by (auto simp: insert_observer_def split: prod.splits)

lemma reqs_remove_sender:
  "remove_sender_observer k d = Inr d' \<Longrightarrow> d_requests d' = d_requests d"
  "remove_sender_undecided k d = Inr d' \<Longrightarrow> d_requests d' = d_requests d"
  by (auto simp: remove_sender_observer_def remove_sender_undecided_def)

lemma reqs_take_seat: "take_seat env pos p d = Inr d' \<Longrightarrow> d_requests d' = d_requests d"
  by (cases pos) (auto simp: insert_observer_def split: prod.splits dest: reqs_set_slot)

lemma reqs_seat_client: "seat_client env p d = Inr (pos, ms, d') \<Longrightarrow> d_requests d' = d_requests d"
  unfolding seat_client_def Let_def by (auto elim!: and_then_E dest!: reqs_take_seat split: if_splits)

lemma reqs_on_join_game: "on_join_game env p pass d = Inr (q, d', r) \<Longrightarrow> d_requests d' = d_requests d"
  by (auto simp: on_join_game_def split: if_splits Netplayer.splits option.splits
      dest!: reqs_seat_client reqs_remove_sender(2))

lemma reqs_on_hs_to_duelist: "on_hs_to_duelist p d = Inr (q, d', r) \<Longrightarrow> d_requests d' = d_requests d"
  by (auto simp: on_hs_to_duelist_def Let_def split: Netplayer.splits option.splits if_splits
      dest!: reqs_set_slot reqs_remove_sender(1))

lemma reqs_on_hs_to_observer: "on_hs_to_observer env e i d = Inr (q, d', r) \<Longrightarrow> d_requests d' = d_requests d"
  by (auto simp: on_hs_to_observer_def insert_observer_def slab_insert_def Let_def split: option.splits if_splits)

lemma reqs_hand_over [simp]: "d_requests (hand_over h d) = d_requests d"
  by (simp add: hand_over_def Let_def split: Netplayer.split)

lemma reqs_leave_player: "leave_player i d = Inr d' \<Longrightarrow> d_requests d' = d_requests d"
  by (auto simp: leave_player_def split: if_splits dest!: reqs_free_seat)

lemma reqs_leave_position: "leave_position p d = Inr d' \<Longrightarrow> d_requests d' = d_requests d"
  by (cases p) (auto simp: leave_observer_def leave_undecided_def split: option.splits if_splits
      dest!: reqs_leave_player reqs_remove_sender)

lemma reqs_on_leave_game: "on_leave_game env p d = Inr (d', b) \<Longrightarrow> d_requests d' = d_requests d"
  by (auto simp: on_leave_game_def Let_def split: if_splits option.splits dest!: reqs_leave_position)

lemma reqs_on_hs_start: "on_hs_start p d = Inr d' \<Longrightarrow> d_requests d' = d_requests d"
  by (auto simp: on_hs_start_def begin_duel_def Let_def split: if_splits list.splits option.splits)

lemma reqs_on_hs_not_ready: "on_hs_not_ready i d = Inr d' \<Longrightarrow> d_requests d' = d_requests d"
  by (auto simp: on_hs_not_ready_def split: if_splits option.splits)

lemma reqs_on_hs_kick: "on_hs_kick k t d = Inr d' \<Longrightarrow> d_requests d' = d_requests d"
  by (auto simp: on_hs_kick_def Let_def split: if_splits Netplayer.splits)

lemma reqs_on_validate_deck: "on_validate_deck env i k d = Inr d' \<Longrightarrow> d_requests d' = d_requests d"
  by (auto simp: on_validate_deck_def)

lemma reqs_on_send_deck_validation: "on_send_deck_validation i d = Inr (d', ms, t) \<Longrightarrow> d_requests d' = d_requests d"
  by (auto simp: on_send_deck_validation_def split: if_splits option.splits)

lemma reqs_connect_client [simp]: "d_requests (connect_client env c r d) = d_requests d"
  by (simp add: connect_client_def split: prod.split)

lemma reqs_on_client_join: "on_client_join env c r d = (r', d') \<Longrightarrow> d_requests d' = d_requests d"
  by (auto simp: on_client_join_def split: if_splits option.splits prod.splits)

lemma reqs_total [simp]:
  "d_requests (on_create_game i n p d) = d_requests d" "d_requests (on_player_info q nm d) = d_requests d"
  "d_requests (on_client_join_final c r d) = d_requests d" "d_requests (on_duel_end env d) = d_requests d"
  "d_requests (on_match_end d) = d_requests d" "d_requests (on_recreate_duel env d) = d_requests d"
  by (simp_all add: on_create_game_def on_player_info_def on_client_join_final_def on_duel_end_def on_match_end_def
      on_recreate_duel_def Let_def split: Netplayer.split)

text \<open>The engine's messages.\<close>

lemma reqs_send_game_message: "send_game_message m t tr d = Inr d' \<Longrightarrow> d_requests d' = d_requests d"
  by (auto simp: send_game_message_def Let_def split: if_splits)

lemma reqs_send_all: "send_all ms tr d = Inr d' \<Longrightarrow> d_requests d' = d_requests d"
  by (induction ms arbitrary: d) (auto dest: reqs_send_game_message)

lemma reqs_query_location_cards: "query_location_cards env p l q d = Inr (m, d') \<Longrightarrow> d_requests d' = d_requests d"
  by (auto simp: query_location_cards_def split: prod.splits)

lemma reqs_refresh_locations: "refresh_locations env q pls d = Inr (ms, d') \<Longrightarrow> d_requests d' = d_requests d"
  by (induction env q pls d arbitrary: ms rule: refresh_locations.induct)
    (auto elim!: and_then_E dest!: reqs_query_location_cards)

lemma reqs_refresh: "refresh env p l i q tr d = Inr d' \<Longrightarrow> d_requests d' = d_requests d"
  by (auto simp: refresh_def refresh_card_def refresh_location_def split: if_splits prod.splits
      dest!: reqs_send_game_message reqs_send_all reqs_refresh_locations)

lemma reqs_evolve_round:
  assumes "evolve_round env d = Inr (ms, flag, d')"
  shows "d_requests d' = d_requests d"
proof -
  obtain result core where p: "Core_process (env_api env) (d_core d) = (result, core)" by fastforce
  obtain buf core' where g: "Core_get_message (env_api env) (d_core_request_buffer d) core = (buf, core')" by fastforce
  show ?thesis using assms by (auto simp: evolve_round_def p g Let_def split: if_splits)
qed

lemma reqs_evolve: "evolve env d = Inr (ms, d') \<Longrightarrow> d_requests d' = d_requests d"
  by (auto simp: evolve_def split: if_splits option.splits dest!: reqs_evolve_round
      elim: evolve_loop_inv [where I = "\<lambda>e. d_requests e = d_requests d"])


section \<open>What the handlers queue\<close>

lemma grows_ops [simp]:
  "grows n rs (send m t d) = grows n rs d" "grows n rs (map_sender f d) = grows n rs d"
  "grows n rs (map_core g d) = grows n rs d" "grows n rs (map_player i h d) = grows n rs d"
  "grows n rs (d_stage_update u1 d) = grows n rs d" "grows n rs (d_start_time_update u2 d) = grows n rs d"
  "grows n rs (d_client_responses_update u3 d) = grows n rs d" "grows n rs (d_response_buffer_update u4 d) = grows n rs d"
  "grows n rs (d_players_update u5 d) = grows n rs d" "grows n rs (d_last_response_update u6 d) = grows n rs d"
  by (simp_all add: grows_def)

lemma grows_total [simp]:
  "grows n rs (on_create_game i nm p d) = grows n rs d" "grows n rs (on_player_info q nm d) = grows n rs d"
  "grows n rs (on_client_join_final c r d) = grows n rs d" "grows n rs (on_duel_end env d) = grows n rs d"
  "grows n rs (on_match_end d) = grows n rs d" "grows n rs (on_recreate_duel env d) = grows n rs d"
  by (simp_all add: grows_def)

lemma grows_eq: "grows n rs d \<Longrightarrow> d_requests d' = d_requests d \<Longrightarrow> grows n rs d'"
  by (simp add: grows_def)

lemma grows_on_response: "grows 8 rs d \<Longrightarrow> grows 8 rs (on_response env i r d)"
  by (simp add: on_response_def Let_def)

lemma grows_on_tp_result: "grows 8 rs d \<Longrightarrow> grows 8 rs (on_tp_result env d)"
  by (simp add: on_tp_result_def Let_def)

lemma grows_on_hs_ready: "grows 8 rs d \<Longrightarrow> on_hs_ready i d = Inr d' \<Longrightarrow> grows 8 rs d'"
  by (auto simp: on_hs_ready_def split: if_splits option.splits)

lemma grows_on_duel_start: "grows 6 rs d \<Longrightarrow> grows 6 rs (on_duel_start env d)"
  by (simp add: on_duel_start_def)

lemmas reqs_messages =
  reqs_on_hand_result reqs_on_update_deck reqs_on_join_game reqs_on_hs_to_duelist reqs_on_hs_to_observer
  reqs_on_leave_game reqs_on_hs_start reqs_on_hs_not_ready reqs_on_hs_kick

lemma YGOPRO_HANDLERS_grow:
  fixes rs :: "RoomRequest list"
  assumes "(k, h) \<in> set (YGOPRO_HANDLERS env)"
  shows "keeps_room (grows 8 rs) (h_run h)"
proof -
  have "keeps_room (grows 8 rs) (run_on_response env)" "keeps_room (grows 8 rs) (run_on_tp_result env)"
    "keeps_room (grows 8 rs) run_on_create_game"
    unfolding run_on_response_def run_on_tp_result_def run_on_create_game_def
    by (rule keeps_intros; auto intro: grows_on_response grows_on_tp_result)+
  moreover have "keeps_room (grows 8 rs) run_on_hand_result"
    unfolding run_on_hand_result_def by (rule keeps_intros) (auto intro: grows_eq dest: reqs_on_hand_result)
  moreover have "keeps_room (grows 8 rs) (run_on_update_deck env)"
    unfolding run_on_update_deck_def
    by (rule keeps_on_duel) (auto simp: skipped_def split: option.splits ctos_Message.splits intro: grows_eq dest: reqs_on_update_deck)
  moreover have "keeps_room (grows 8 rs) (run_on_join_game env)"
    unfolding run_on_join_game_def
    by (rule keeps_on_duel) (auto simp: skipped_def split: ctos_Message.splits intro: grows_eq dest: reqs_on_join_game)
  moreover have "keeps_room (grows 8 rs) run_on_hs_to_duelist" "keeps_room (grows 8 rs) (run_on_leave_game env)"
    unfolding run_on_hs_to_duelist_def run_on_leave_game_def
    by (rule keeps_on_duel; auto intro: grows_eq dest: reqs_on_hs_to_duelist reqs_on_leave_game)+
  moreover have "keeps_room (grows 8 rs) (run_on_hs_to_observer env)"
    unfolding run_on_hs_to_observer_def
    by (rule keeps_on_duel) (auto simp: skipped_def split: option.splits intro: grows_eq dest: reqs_on_hs_to_observer)
  moreover have "keeps_room (grows 8 rs) run_on_hs_start" "keeps_room (grows 8 rs) run_on_hs_kick"
    "keeps_room (grows 8 rs) run_on_player_info"
    unfolding run_on_hs_start_def run_on_hs_kick_def run_on_player_info_def
    by (rule keeps_intros; auto intro: grows_eq dest: reqs_on_hs_start reqs_on_hs_kick)+
  moreover have "keeps_room (grows 8 rs) run_on_hs_ready" "keeps_room (grows 8 rs) run_on_hs_not_ready"
    unfolding run_on_hs_ready_def run_on_hs_not_ready_def
    by (rule keeps_intros; auto intro: grows_on_hs_ready intro: grows_eq dest: reqs_on_hs_not_ready)+
  ultimately show ?thesis using assms by (auto simp: YGOPRO_HANDLERS_def Let_def)
qed

lemma YGOPRO_HANDLERS_EX_grow:
  fixes rs :: "RoomRequest list"
  assumes "(k, h) \<in> set (YGOPRO_HANDLERS_EX env)" and "n = (if k = 4 then 6 else n)"
  shows "keeps_room (grows n rs) (h_run h)"
proof -
  have "n = 6 \<Longrightarrow> keeps_room (grows n rs) (run_on_duel_start env)"
    unfolding run_on_duel_start_def by (rule keeps_intros) (auto intro: grows_on_duel_start)
  moreover have "keeps_room (grows n rs) (run_on_duel_end env)"
    "keeps_room (grows n rs) run_on_match_end" "keeps_room (grows n rs) (run_on_recreate_duel env)"
    unfolding run_on_duel_end_def run_on_match_end_def run_on_recreate_duel_def
    by (rule keeps_intros; auto)+
  moreover have "keeps_room (grows n rs) (run_on_validate_deck env)"
    unfolding run_on_validate_deck_def
    by (rule keeps_on_ex) (auto split: ygopro_Message.splits intro: grows_eq dest: reqs_on_validate_deck)
  moreover have "keeps_room (grows n rs) run_on_send_deck_validation"
    unfolding run_on_send_deck_validation_def
    by (rule keeps_on_duel)
      (auto simp: skipped_def split: ygopro_Message.splits intro: grows_eq dest: reqs_on_send_deck_validation)
  moreover have "keeps_room (grows n rs) (run_on_client_join env)"
    unfolding run_on_client_join_def
    by (rule keeps_on_duel)
      (auto simp: skipped_def done_with_def split: ygopro_Message.splits prod.splits intro: grows_eq dest: reqs_on_client_join)
  moreover have "keeps_room (grows n rs) run_on_client_join_final"
    unfolding run_on_client_join_final_def by (rule keeps_intros) (auto)
  moreover have "keeps_room (grows n rs) (run_on_generate_replay env)"
    "keeps_room (grows n rs) run_on_generate_replay_final"
    unfolding run_on_generate_replay_def run_on_generate_replay_final_def
    by (rule keeps_intros; auto simp: done_with_def on_generate_replay_def on_generate_replay_final_def split: option.splits)+
  ultimately show ?thesis using assms
    by (auto simp: YGOPRO_HANDLERS_EX_def Let_def run_on_judge_match_kill_def run_on_judge_somebody_leave_def
        intro: keeps_judging)
qed


lemma grows_refill_time [simp]: "grows n rs (refill_time t d) = grows n rs d"
  by (simp add: refill_time_def)

lemma reqs_plugins [simp]:
  "d_requests (after_meaningful f i r d) = d_requests d" "d_requests (reset_time_backed bcfg d) = d_requests d"
  "d_requests (compensator_on_new_turn ccfg d) = d_requests d"
  "d_requests (snd (compensator_on_time_confirm ccfg i t d)) = d_requests d"
  "d_requests (soumatou arg d) = d_requests d"
  by (simp_all add: after_meaningful_def reset_time_backed_def compensator_on_new_turn_def Let_def soumatou_def
      compensator_on_time_confirm_def split: option.split Argument.split)

lemma reqs_preload: "preload_on_tp_result env d = Inr d' \<Longrightarrow> d_requests d' = d_requests d"
  by (auto simp: preload_on_tp_result_def)

lemma reqs_field_info: "field_info env d = Inr (m, d') \<Longrightarrow> d_requests d' = d_requests d"
  by (auto simp: field_info_def split: prod.splits option.splits)

lemma reqs_field_cards: "field_cards env me ls d = Inr (ms, d') \<Longrightarrow> d_requests d' = d_requests d"
  by (induction env me ls d arbitrary: ms rule: field_cards.induct)
    (auto simp: refresh_location_def dest!: reqs_refresh_locations)

lemma reqs_top_of_deck: "top_of_deck env b p d = Inr (ms, d') \<Longrightarrow> d_requests d' = d_requests d"
  unfolding top_of_deck_def by (auto elim!: and_then_E split: option.splits dest!: reqs_query_location_cards)

lemma reqs_on_request_field:
  assumes "on_request_field env seats r t i d = Inr d'"
  shows "d_requests d' = d_requests d"
proof (cases r)
  case (Some r')
  then obtain ms d1 where ms: "field_messages env seats r' t i d = Inr (ms, d1)"
    and d': "d' = map_sender (tell_all ms (SendTarget_of_index i)) d1"
    using assms by (auto simp: on_request_field_def)
  from ms show ?thesis
    by (rule field_messages_steps) (simp add: d' reqs_field_info reqs_field_cards reqs_top_of_deck)
qed (use assms in \<open>simp add: on_request_field_def\<close>)

text \<open>An observer who joins late is told the history by a command.\<close>

lemma grows_soumatou_on_join: "grows 8 rs d \<Longrightarrow> grows 8 rs (soumatou_on_join p d)"
  by (simp add: soumatou_on_join_def queue_command_def split: Netplayer.split)

lemma plugin_handlers_grow:
  fixes rs :: "RoomRequest list"
  assumes "(k, h) \<in> set (plugin_handlers env)"
  shows "keeps_room (grows 8 rs) (h_run h)"
proof -
  have "keeps_room (grows 8 rs) (timed time_on_create_game r)" for r
    by (rule keeps_intros) (simp add: time_on_create_game_def)
  moreover have "keeps_room (grows 8 rs) (timed_by_player time_on_time_confirm)"
    "keeps_room (grows 8 rs) (timed_by_player time_on_response)"
    by (rule keeps_intros; auto simp: time_on_time_confirm_def time_on_response_def)+
  moreover have "keeps_room (grows 8 rs) (run_backed_on_response env)"
    "keeps_room (grows 8 rs) (run_compensator_on_response env)"
    unfolding run_backed_on_response_def run_compensator_on_response_def
    by (rule keeps_intros; simp add: backed_on_response_def compensator_on_response_def grows_def)+
  moreover have "keeps_room (grows 8 rs) (run_backed_on_tp_result env)" "keeps_room (grows 8 rs) (run_preload_on_tp_result env)"
    unfolding run_backed_on_tp_result_def run_preload_on_tp_result_def
    by (rule keeps_intros; auto simp: grows_def dest: reqs_preload)+
  moreover have "keeps_room (grows 8 rs) (run_compensator_on_time_confirm env)"
    by (rule keeps_intros) (simp_all add: grows_def)
  moreover have "keeps_room (grows 8 rs) run_soumatou_on_join"
    unfolding run_soumatou_on_join_def by (rule keeps_intros) (auto intro: grows_soumatou_on_join)
  ultimately show ?thesis using assms
    by (auto simp: plugin_handlers_def intro: keeps_terminate_on_leave_game keeps_before_join_game)
qed

lemma plugin_handlers_ex_grow:
  fixes rs :: "RoomRequest list"
  assumes "(k, h) \<in> set (plugin_handlers_ex env)"
  shows "keeps_room (grows n rs) (h_run h)"
proof -
  have "keeps_room (grows n rs) (timed time_on_duel_start r)" "keeps_room (grows n rs) (timed time_on_duel_end r)" for r
    by (rule keeps_intros; simp add: time_on_duel_start_def time_on_duel_end_def Let_def)+
  moreover have "keeps_room (grows n rs) (run_soumatou_on_client_join env)"
    by (rule keeps_intros) (simp add: grows_def)
  moreover have "keeps_room (grows n rs) (run_replay_on_generate_replay env)"
    by (rule keeps_intros) simp
  ultimately show ?thesis using assms
    by (auto simp: plugin_handlers_ex_def terminate_on_match_end_def intro: keeps_judging keeps_stop_first_shuffle)
qed

lemma core_handlers_grow:
  fixes rs :: "RoomRequest list"
  assumes "(k, h) \<in> set (YGOCORE_HANDLERS @ plugin_core_handlers env)"
  shows "keeps_room (grows 5 rs) (h_run h)"
proof -
  have "keeps_room (grows 5 rs) (timed time_on_new_turn r)" for r
    by (rule keeps_intros) (simp add: time_on_new_turn_def)
  moreover have "keeps_room (grows 5 rs) (run_backed_on_new_turn env)" "keeps_room (grows 5 rs) (run_compensator_on_new_turn env)"
    unfolding run_backed_on_new_turn_def run_compensator_on_new_turn_def
    by (rule keeps_on_duel; auto simp: grows_def)+
  moreover have "keeps_room (grows 5 rs) (remembering f)" for f
    by (rule keeps_intros) simp
  moreover have "keeps_room (grows 5 rs) run_on_win" "keeps_room (grows 5 rs) run_on_match_kill"
    unfolding run_on_win_def run_on_match_kill_def
    by (rule keeps_on_duel; auto simp: skipped_def on_win_def on_match_kill_def grows_def queue_request_ex_def queue_def
        split: gm_Message.splits gm_GroupA.splits gm_GroupD.splits)+
  ultimately show ?thesis using assms
    by (auto simp: YGOCORE_HANDLERS_def plugin_core_handlers_def Let_def run_reconnect_on_new_phase_def
        run_reconnect_on_new_turn_def run_reconnect_on_reverse_deck_def intro: keeps_deciding)
qed

section \<open>The room for two players\<close>

lemma grows_send_win [simp]: "grows n rs (send_win w r d) = grows n rs d"
  by (simp add: send_win_def)

lemma SINGLE_DUEL_YGOPRO_HANDLERS_grow:
  fixes rs :: "RoomRequest list"
  assumes "(k, h) \<in> set (SINGLE_DUEL_YGOPRO_HANDLERS env)"
  shows "keeps_room (grows 8 rs) (h_run h)"
proof -
  have "keeps_room (grows 8 rs) run_single_create_game"
    unfolding run_single_create_game_def by (rule keeps_intros) (auto simp: single_on_create_game_def grows_def)
  moreover have "keeps_room (grows 8 rs) run_single_tp_result"
    unfolding run_single_tp_result_def by (rule keeps_intros) (auto simp: single_on_tp_result_def grows_def)
  moreover have "keeps_room (grows 8 rs) run_single_leave_game" "keeps_room (grows 8 rs) run_single_surrender"
    unfolding run_single_leave_game_def run_single_surrender_def
    by (rule keeps_intros; auto simp: single_on_leave_game_def single_on_surrender_def Let_def split: Netplayer.split)+
  moreover have "keeps_room (grows 8 rs) run_single_chat"
    unfolding run_single_chat_def by (rule keeps_intros) (auto simp: single_on_chat_def)
  moreover have "keeps_room (grows 8 rs) (run_single_request_field env)"
    unfolding run_single_request_field_def by (rule keeps_intros) (auto simp: grows_def dest: reqs_on_request_field)
  ultimately show ?thesis using assms by (auto simp: SINGLE_DUEL_YGOPRO_HANDLERS_def Let_def)
qed

lemma reqs_shuffle_seat: "shuffle_seat env i d = Inr d' \<Longrightarrow> d_requests d' = d_requests d"
  by (auto simp: shuffle_seat_def split: if_splits option.splits prod.splits)

lemma reqs_on_first_shuffle: "on_first_shuffle env d = Inr d' \<Longrightarrow> d_requests d' = d_requests d"
  by (auto simp: on_first_shuffle_def Let_def split: if_splits dest!: reqs_shuffle_seat)

lemma reqs_init_seats: "init_seats env seats d = Inr d' \<Longrightarrow> d_requests d' = d_requests d"
  by (induction env seats d rule: init_seats.induct) (auto split: if_splits option.splits)

lemma reqs_on_duel_init: "on_duel_init env d = Inr d' \<Longrightarrow> d_requests d' = d_requests d"
  unfolding on_duel_init_def Let_def by (rule reqs_init_seats)

lemma reqs_single_on_duel_start: "single_on_duel_start env d = Inr d' \<Longrightarrow> d_requests d' = d_requests d"
  by (auto simp: single_on_duel_start_def Let_def dest!: reqs_refresh)

lemma reqs_on_swap: "on_swap env m d = Inr d' \<Longrightarrow> d_requests d' = d_requests d"
  by (auto simp: on_swap_def Let_def dest!: reqs_refresh)

lemma reqs_set_waiting [simp]: "d_requests (set_waiting p d) = d_requests d"
  by (simp add: set_waiting_def Let_def split: option.split)

lemma SINGLE_DUEL_YGOPRO_HANDLERS_EX_grow:
  fixes rs :: "RoomRequest list"
  assumes "(k, h) \<in> set (SINGLE_DUEL_YGOPRO_HANDLERS_EX env)" and "k = 21 \<Longrightarrow> n = 5"
  shows "keeps_room (grows n rs) (h_run h)"
proof -
  have "keeps_room (grows n rs) (run_first_shuffle env)" "keeps_room (grows n rs) (run_duel_init env)"
    "keeps_room (grows n rs) (run_single_duel_start env)"
    unfolding run_first_shuffle_def run_duel_init_def run_single_duel_start_def
    by (rule keeps_on_any;
        auto intro: grows_eq dest: reqs_on_first_shuffle reqs_on_duel_init reqs_single_on_duel_start)+
  moreover have "keeps_room (grows n rs) run_single_duel_end" "keeps_room (grows n rs) run_single_recreate_duel"
    unfolding run_single_duel_end_def run_single_recreate_duel_def
    by (rule keeps_intros; auto simp: single_on_duel_end_def single_on_recreate_duel_def Let_def grows_def)+
  moreover have "keeps_room (grows n rs) run_single_generate_replay"
    unfolding run_single_generate_replay_def
    by (rule keeps_intros) (auto simp: done_with_def single_on_generate_replay_def split: if_splits)
  moreover have "keeps_room (grows n rs) run_judge_continue_match"
    unfolding run_judge_continue_match_def by (rule keeps_on_duel) auto
  moreover have "n = 5 \<Longrightarrow> keeps_room (grows n rs) run_single_timeout"
    unfolding run_single_timeout_def by (rule keeps_on_ex) (auto simp: single_on_timeout_def Let_def)
  moreover have "keeps_room (grows n rs) run_reconnect_on_recreate_duel"
    by (rule keeps_run_reconnect_on_recreate_duel) simp
  ultimately show ?thesis using assms by (auto simp: SINGLE_DUEL_YGOPRO_HANDLERS_EX_def Let_def keeps_run_judge_best_of)
qed

lemma SINGLE_DUEL_YGOCORE_HANDLERS_grow:
  fixes rs :: "RoomRequest list"
  assumes "(k, h) \<in> set (SINGLE_DUEL_YGOCORE_HANDLERS env)"
  shows "keeps_room (grows 5 rs) (h_run h)"
proof -
  have "keeps_room (grows 5 rs) run_retry" unfolding run_retry_def by (rule keeps_on_duel) auto
  moreover have "keeps_room (grows 5 rs) run_hint"
    unfolding run_hint_def by (rule keeps_on_duel) (auto simp: skipped_def split: gm_Message.splits gm_GroupA.splits)
  moreover have "keeps_room (grows 5 rs) (run_swap env)"
    unfolding run_swap_def
    by (rule keeps_on_duel)
      (auto simp: skipped_def split: gm_Message.splits gm_GroupB.splits intro: grows_eq dest: reqs_on_swap)
  moreover have "keeps_room (grows 5 rs) run_on_match_kill"
    unfolding run_on_match_kill_def
    by (rule keeps_on_duel)
      (auto simp: skipped_def on_match_kill_def grows_def split: gm_Message.splits gm_GroupD.splits)
  ultimately show ?thesis using assms by (auto simp: SINGLE_DUEL_YGOCORE_HANDLERS_def Let_def)
qed


section \<open>Requests keep their message\<close>

text \<open>A handler may take the reply out of the message of a client that joins, or change whom the answer
  goes to; it does not change which message it is.\<close>

abbreviation same_rank :: "nat \<Rightarrow> ex_request \<Rightarrow> 'd State \<Rightarrow> bool" where
  "same_rank n q st \<equiv> message_rank (rq_message q) = n"

lemma YGOPRO_HANDLERS_EX_same:
  fixes h :: "('c, 'a) ex_handler"
  assumes "(k, h) \<in> set (YGOPRO_HANDLERS_EX env)"
  shows "keeps (same_rank n) (h_run h)"
proof -
  have any: "keeps (same_rank n) (on_any f)" for f :: "('c, 'a) Duel_scheme \<Rightarrow> ('c, 'a) Duel_scheme res"
    by (rule keeps_on_any)
  have ex: "keeps (same_rank n) (on_ex pick f)" for pick :: "ygopro_Message \<Rightarrow> 'x option" and f
    :: "'x \<Rightarrow> ('c, 'a) Duel_scheme \<Rightarrow> ('c, 'a) Duel_scheme res"
    by (rule keeps_on_ex)
  have "keeps (same_rank n) (run_on_send_deck_validation :: ('c, 'a) ex_body)"
    unfolding run_on_send_deck_validation_def
    by (rule keeps_on_duel) (auto simp: skipped_def split: ygopro_Message.splits option.splits)
  moreover have "keeps (same_rank n) (run_on_client_join env)"
    unfolding run_on_client_join_def
    by (rule keeps_on_duel) (auto simp: skipped_def done_with_def split: ygopro_Message.splits prod.splits)
  moreover have "keeps (same_rank n) (run_on_generate_replay env)"
    "keeps (same_rank n) (run_on_generate_replay_final :: ('c, 'a) ex_body)"
    unfolding run_on_generate_replay_def run_on_generate_replay_final_def
    by (rule keeps_on_state; auto simp: done_with_def split: prod.splits)+
  ultimately show ?thesis using assms
    by (auto simp: YGOPRO_HANDLERS_EX_def Let_def run_on_judge_match_kill_def run_on_judge_somebody_leave_def
        run_on_duel_start_def run_on_duel_end_def run_on_match_end_def run_on_recreate_duel_def run_on_validate_deck_def
        run_on_client_join_final_def any ex intro: keeps_judging)
qed

lemma plugin_handlers_ex_same:
  fixes h :: "('c, 'a) ex_handler"
  assumes "(k, h) \<in> set (plugin_handlers_ex env)"
  shows "keeps (same_rank n) (h_run h)"
proof -
  have "keeps (same_rank n) (timed f r)" for f :: "TimeLimit \<Rightarrow> ('c, 'a) Duel_scheme \<Rightarrow> _" and r
    by (rule keeps_timed)
  moreover have "keeps (same_rank n) (run_soumatou_on_client_join env :: ('c, 'a) ex_body)"
    by (rule keeps_soumatou_on_client_join) auto
  moreover have "keeps (same_rank n) (run_replay_on_generate_replay env :: ('c, 'a) ex_body)"
    by (rule keeps_replay_on_generate_replay) auto
  ultimately show ?thesis using assms
    by (auto simp: plugin_handlers_ex_def terminate_on_match_end_def intro: keeps_judging keeps_stop_first_shuffle)
qed

lemma SINGLE_DUEL_YGOPRO_HANDLERS_EX_same:
  fixes h :: "'c single_ex_handler"
  assumes "(k, h) \<in> set (SINGLE_DUEL_YGOPRO_HANDLERS_EX env)"
  shows "keeps (same_rank n) (h_run h)"
proof -
  have any: "keeps (same_rank n) (on_any f)" for f :: "'c SingleDuel \<Rightarrow> 'c SingleDuel res"
    by (rule keeps_on_any)
  have ex: "keeps (same_rank n) (on_ex pick f)" for pick :: "ygopro_Message \<Rightarrow> 'x option" and f
    :: "'x \<Rightarrow> 'c SingleDuel \<Rightarrow> 'c SingleDuel res"
    by (rule keeps_on_ex)
  have "keeps (same_rank n) (run_single_generate_replay :: 'c single_ex_body)"
    unfolding run_single_generate_replay_def by (rule keeps_on_state) (auto simp: done_with_def)
  moreover have "keeps (same_rank n) (run_judge_continue_match :: 'c single_ex_body)"
    unfolding run_judge_continue_match_def by (rule keeps_on_duel) auto
  moreover have "keeps (same_rank n) (run_reconnect_on_recreate_duel :: 'c single_ex_body)"
    by (rule keeps_run_reconnect_on_recreate_duel) simp
  ultimately show ?thesis using assms
    by (auto simp: SINGLE_DUEL_YGOPRO_HANDLERS_EX_def Let_def keeps_run_judge_best_of run_first_shuffle_def run_duel_init_def
        run_single_duel_start_def run_single_duel_end_def run_single_recreate_duel_def run_single_timeout_def any ex)
qed

lemma processed_messages_rank:
  "\<forall>r \<in> set (process_continue m). rank r < message_rank m"
  "\<forall>r \<in> set (process_terminate m). rank r < message_rank m"
  by (cases m; simp)+

section \<open>One request\<close>

lemma run_processor_keeps_request:
  assumes "\<And>xs. set (srt xs) = set xs"
    and "\<And>k' h. (k' = k \<or> is_all k') \<Longrightarrow> (k', h) \<in> set ts \<union> set ss \<Longrightarrow> keeps P (h_run h)"
    and "run_processor mul r (new_with_dual_group srt ts ss groups tg sg is_all) k q st = Inr (q', st', r')"
    and "P q st"
  shows "P q' st'"
proof -
  from assms(3) obtain b where
    b: "process_bundle mul (new_with_dual_group srt ts ss groups tg sg is_all) (Bundle_new q st r) k = Inr b"
    and out: "q' = request b" "st' = state b"
    unfolding run_processor_def by (auto elim: and_then_E)
  show ?thesis
    using process_bundle_keeps [where P = P, OF assms(1,2) b] assms(4) out by (simp add: Bundle_new_def)
qed

lemma message_rank_keys:
  "ygopro_message_key m = 4 \<Longrightarrow> message_rank m = 6" "ygopro_message_key m = 21 \<Longrightarrow> message_rank m = 5"
  by (cases m; simp)+

lemma process_ex_grows:
  assumes "permuting srt" and "process_ex srt env m t st = Inr (q, st', r)" and "grows (message_rank m) rs (st_duel st)"
  shows "grows (message_rank m) rs (st_duel st') \<and> message_rank (rq_message q) = message_rank m"
proof
  note run = assms(2) [unfolded process_ex_def ygopro_ex_processor_def]
  note key = message_rank_keys [of m]
  have k4: "(0 :: u8) \<noteq> 4" "(0 :: u8) \<noteq> 21" by simp_all
  show "grows (message_rank m) rs (st_duel st')"
  proof (rule run_processor_keeps_request [where P = "\<lambda>q st. grows (message_rank m) rs (st_duel st)",
        OF permutingD(2) [OF assms(1)] _ run assms(3)])
    fix k' h
    assume k: "k' = ygopro_message_key m \<or> k' = 0"
      and "(k', h) \<in> set (SINGLE_DUEL_YGOPRO_HANDLERS_EX env) \<union> set (YGOPRO_HANDLERS_EX env @ plugin_handlers_ex env)"
    then show "keeps_room (grows (message_rank m) rs) (h_run h)"
      using key k4 by (auto intro: SINGLE_DUEL_YGOPRO_HANDLERS_EX_grow YGOPRO_HANDLERS_EX_grow plugin_handlers_ex_grow)
  qed
  show "message_rank (rq_message q) = message_rank m"
  proof (rule run_processor_keeps_request [where P = "same_rank (message_rank m)",
        OF permutingD(2) [OF assms(1)] _ run])
    fix k' h
    assume "(k', h) \<in> set (SINGLE_DUEL_YGOPRO_HANDLERS_EX env) \<union> set (YGOPRO_HANDLERS_EX env @ plugin_handlers_ex env)"
    then show "keeps (same_rank (message_rank m)) (h_run h)"
      by (auto intro: SINGLE_DUEL_YGOPRO_HANDLERS_EX_same YGOPRO_HANDLERS_EX_same plugin_handlers_ex_same)
  qed simp
qed


lemma grows_send_list [simp]: "grows n rs (send_list ms t d) = grows n rs d"
  by (induction ms arbitrary: d) (simp_all add: send_list_def)

lemma grows_answer_client: "grows n rs (st_duel (fst (answer_client p r st))) = grows n rs (st_duel st)"
  by (cases r) (simp_all add: answer_client_def)

lemma grows_answer_ex:
  "grows (message_rank (rq_message q)) rs (st_duel st) \<Longrightarrow>
   grows (message_rank (rq_message q)) rs (st_duel (answer_ex q r st))"
  by (cases r) (simp_all add: answer_ex_def grows_queue_list processed_messages_rank)

lemma step_message_grows:
  assumes "permuting srt" and "step_message srt env m p st = Inr (st', ends)" and "grows 8 rs (st_duel st)"
  shows "grows 8 rs (st_duel st')"
proof (cases "gated m p (st_duel st)")
  case False
  with assms(2) obtain q st0 r where
    run: "run_processor Response_mul Response_default (ygopro_processor srt env) (ctos_MessageType_into (ctos_type m))
       \<lparr> rq_message = m, rq_extra = p \<rparr> st = Inr (q, st0, r)"
    and st': "st' = fst (answer_client (rq_extra q) r st0)"
    unfolding step_message_def by (auto elim!: and_then_E)
  have "grows 8 rs (st_duel st0)"
    by (rule run_processor_keeps [where I = "grows 8 rs", OF permutingD(1) [OF assms(1)] _
          run [unfolded ygopro_processor_def] assms(3)])
      (auto intro: SINGLE_DUEL_YGOPRO_HANDLERS_grow YGOPRO_HANDLERS_grow plugin_handlers_grow)
  then show ?thesis by (simp add: st' grows_answer_client)
qed (use assms in \<open>simp add: step_message_def\<close>)

lemma step_ex_grows:
  assumes "permuting srt" and "step_ex srt env m t st = Inr st'" and "grows (message_rank m) rs (st_duel st)"
  shows "grows (message_rank m) rs (st_duel st')"
proof -
  from assms(2) obtain q st0 r where run: "process_ex srt env m t st = Inr (q, st0, r)" and st': "st' = answer_ex q r st0"
    unfolding step_ex_def by (auto elim!: and_then_E)
  from process_ex_grows [OF assms(1) run assms(3)] grows_answer_ex [of q rs st0 r] show ?thesis by (simp add: st')
qed

lemma reqs_route_core_message:
  assumes "route_core_message env m r d = Inr d'"
  shows "d_requests d' = d_requests d"
proof -
  have "d_requests (if is_retry m then retry_waiting (pop_response d) else d) = d_requests d"
    by (simp add: retry_waiting_def pop_response_def split: option.split)
  then show ?thesis
    using assms unfolding route_core_message_def Let_def
    by (auto split: option.splits if_splits elim!: and_then_E dest!: reqs_refresh reqs_send_game_message)
qed

lemma core_messages_grows:
  assumes "permuting srt"
  shows "core_messages srt env ms st = Inr st' \<Longrightarrow> grows 5 rs (st_duel st) \<Longrightarrow> grows 5 rs (st_duel st')"
proof (induction ms arbitrary: st)
  case (Cons m ms)
  from Cons.prems(1) obtain q st0 r d where
    run: "run_processor CoreResponse_mul CoreResponse_default (ygocore_processor srt env) (gm_type m)
          \<lparr> rq_message = m, rq_extra = UnknownPlayer \<rparr> st = Inr (q, st0, r)"
    and route: "route_core_message env (rq_message q) r (st_duel st0) = Inr d"
    and rest: "core_messages srt env ms (st0 \<lparr> st_duel := d \<rparr>) = Inr st'"
    by (auto elim!: and_then_E)
  have "grows 5 rs (st_duel st0)"
    by (rule run_processor_keeps [where I = "grows 5 rs", OF permutingD(3) [OF assms] _
          run [unfolded ygocore_processor_def] Cons.prems(2)])
      (auto intro: SINGLE_DUEL_YGOCORE_HANDLERS_grow core_handlers_grow [unfolded set_append Un_iff])
  then have "grows 5 rs d" by (rule grows_eq) (rule reqs_route_core_message [OF route])
  then show ?case using Cons.IH [OF rest] by simp
qed simp

lemma step_evolve_grows:
  assumes "permuting srt" and "step_evolve srt env st = Inr st'" and "grows 5 rs (st_duel st)"
  shows "grows 5 rs (st_duel st')"
proof -
  from assms(2) obtain ms d where ev: "evolve env (st_duel st) = Inr (ms, d)"
    and rest: "core_messages srt env ms (st \<lparr> st_duel := d \<rparr>) = Inr st'"
    unfolding step_evolve_def by (auto elim!: and_then_E)
  have "grows 5 rs d" using assms(3) reqs_evolve [OF ev] by (rule grows_eq)
  then show ?thesis using core_messages_grows [OF assms(1) rest] by simp
qed

lemma grows_timer_tick: "grows 6 rs d \<Longrightarrow> grows 6 rs (snd (timer_tick t d))"
  by (auto simp: timer_tick_def Let_def split: option.split)

lemma grows_send_response: "grows 9 rs d \<Longrightarrow> grows 9 rs (send_response arg d)"
  by (simp add: send_response_def queue_request_def split: Argument.split option.split)

lemma run_command_grows:
  assumes "grows (rank (Req_Command name arg)) rs (st_duel st)"
  shows "grows (rank (Req_Command name arg)) rs (st_duel (snd (run_command env name arg st)))"
proof -
  consider "name = lit ''terminate''" | "name = lit ''send_response''" | "rank (Req_Command name arg) = 6"
    and "name \<noteq> lit ''send_response''" by fastforce
  then show ?thesis
  proof cases
    case 1
    then show ?thesis using assms unfolding 1 by (simp add: run_command_def Let_def)
  next
    case 2
    have "rank (Req_Command name arg) = 9" unfolding 2 by simp
    then show ?thesis using assms unfolding 2 by (simp add: run_command_def Let_def grows_send_response)
  next
    case 3
    let ?st' = "snd (run_command env name arg st)"
    have "st_duel ?st' = st_duel st \<or> st_duel ?st' = snd (timer_tick (time_limit_of st) (st_duel st)) \<or>
        st_duel ?st' = soumatou arg (st_duel st)"
      using 3(2) by (simp add: run_command_def Let_def)
    moreover have "grows 6 rs (soumatou arg (st_duel st))" if "grows 6 rs (st_duel st)"
      by (rule grows_eq [OF that]) simp
    ultimately show ?thesis using assms grows_timer_tick unfolding 3(1) by metis
  qed
qed

lemma step_request_grows:
  assumes "permuting srt" and "step_request srt env r st = Inr (st', ends)"
  shows "grows (rank r) (d_requests (st_duel st)) (st_duel st')"
proof -
  have start: "grows (rank r) (d_requests (st_duel st)) (st_duel st)" by simp
  show ?thesis
  proof (cases r)
    case (Req_Message m p)
    then show ?thesis using step_message_grows [OF assms(1)] assms(2) start by simp
  next
    case (Req_MessageEx m t)
    then show ?thesis using step_ex_grows [OF assms(1)] assms(2) start by (auto elim!: and_then_E)
  next
    case Req_Evolve
    then show ?thesis using step_evolve_grows [OF assms(1)] assms(2) start by (auto elim!: and_then_E)
  next
    case (Req_Command n a)
    then show ?thesis
      using run_command_grows [of n a "d_requests (st_duel st)" st env] assms(2) start by (auto split: prod.splits)
  qed
qed

section \<open>A room comes to rest\<close>

definition work :: "'c SingleDuel State \<Rightarrow> nat multiset" where
  "work st = image_mset rank (mset (d_requests (st_duel st)))"

lemma step_request_work:
  assumes "permuting srt" and "take_request st = Some (r, st0)" and "step_request srt env r st0 = Inr (st', ends)"
  shows "(work st', work st) \<in> mult less_than"
proof -
  have rs: "d_requests (st_duel st) = r # d_requests (st_duel st0)"
    using take_request_Some [OF assms(2)] by (rule conjunct2)
  from step_request_grows [OF assms(1,3)] obtain new where
    new: "d_requests (st_duel st') = d_requests (st_duel st0) @ new" "\<forall>x \<in> set new. rank x < rank r"
    by (auto simp: grows_def)
  have "(image_mset rank (mset (d_requests (st_duel st0))) + image_mset rank (mset new),
      image_mset rank (mset (d_requests (st_duel st0))) + {#rank r#}) \<in> mult less_than"
    by (rule one_step_implies_mult) (use new(2) in auto)
  then show ?thesis by (simp add: work_def rs new(1))
qed

text \<open>A number of steps of a room nobody sends anything to.\<close>

fun settle :: "'c sorts \<Rightarrow> 'c env \<Rightarrow> nat \<Rightarrow> 'c Room \<Rightarrow> 'c Room" where
    "settle srt env (Suc n) (Running st) =
       (case room_step srt env st of None \<Rightarrow> Running st | Some room \<Rightarrow> settle srt env n room)"
  | "settle srt env n room = room"

text \<open>At rest: closed, crashed, or nothing left to do.\<close>

fun at_rest :: "'c Room \<Rightarrow> bool" where
    "at_rest (Running st) \<longleftrightarrow> d_requests (st_duel st) = []"
  | "at_rest room \<longleftrightarrow> True"

lemma settle_rest: "\<not> (\<exists>st. room = Running st) \<Longrightarrow> at_rest (settle srt env n room)"
  by (cases room; cases n) simp_all

text \<open>C4: a room that is left alone comes to rest: from any state, whatever is in its queue, whatever the
  engine and the plugins do, after finitely many steps its queue is empty, the room is closed, or its
  task has crashed. The room never keeps itself busy by requests it sends to itself. (A step in which the
  engine itself never returns counts as a crash.)\<close>

theorem room_comes_to_rest:
  assumes "permuting srt"
  shows "\<exists>n. at_rest (settle srt env n (Running st))"
proof -
  have "wf (inv_image (mult less_than) work)" by (intro wf_inv_image wf_mult wf_less_than)
  then show ?thesis
  proof (induction st rule: wf_induct_rule)
    case (less st)
    show ?case
    proof (cases "room_step srt env st")
      case None
      then have "d_requests (st_duel st) = []"
        by (auto simp: room_step_def take_request_def split: option.splits list.splits)
      then have "at_rest (settle srt env 0 (Running st))" by simp
      then show ?thesis ..
    next
      case (Some room)
      have "\<exists>n. at_rest (settle srt env n room)"
      proof (cases "\<exists>st'. room = Running st'")
        case True
        then obtain st' where st': "room = Running st'" ..
        with Some obtain r st0 where "take_request st = Some (r, st0)" and "step_request srt env r st0 = Inr (st', False)"
          by (auto simp: room_step_def close_room_def split: option.splits sum.splits if_splits prod.splits)
        then have "(work st', work st) \<in> mult less_than" by (rule step_request_work [OF assms])
        then show ?thesis using less [of st'] by (simp add: st')
      qed (use settle_rest in blast)
      then obtain n where "at_rest (settle srt env n room)" ..
      then have "at_rest (settle srt env (Suc n) (Running st))" using Some by simp
      then show ?thesis ..
    qed
  qed
qed


lemma room_comes_to_rest_witness:
  "\<exists>n. at_rest (settle sample_sorts (sample_env room_modules) n
     (Running (arrive (Req_MessageEx Y_DuelInit To_All) (room_start (sample_env room_modules) HostInfo_default False))))"
  by (rule room_comes_to_rest [OF permuting_sample])

section \<open>Every request gets its turn\<close>

text \<open>A history of a room: requests arrive, and between the arrivals the task takes steps.\<close>

fun play :: "'c sorts \<Rightarrow> 'c env \<Rightarrow> RoomRequest option list \<Rightarrow> 'c Room \<Rightarrow> 'c Room" where
    "play srt env (Some r # es) (Running st) = play srt env es (Running (arrive r st))"
  | "play srt env (None # es) (Running st) =
       play srt env es (case room_step srt env st of None \<Rightarrow> Running st | Some room \<Rightarrow> room)"
  | "play srt env es room = room"

definition steps :: "RoomRequest option list \<Rightarrow> nat" where
  "steps es = length (filter (\<lambda>e. e = None) es)"

lemma play_over: "\<not> (\<exists>st. room = Running st) \<Longrightarrow> play srt env es room = room"
  by (cases room; cases es) simp_all

lemma take_request_first: "d_requests (st_duel st) = r # rs \<Longrightarrow> \<exists>st0. take_request st = Some (r, st0)"
  by (simp add: take_request_def)

lemma reqs_arrive: "d_requests (st_duel (arrive r st)) = d_requests (st_duel st) @ [r]"
  by (simp add: arrive_def queue_def)

text \<open>C14: every request gets its turn: whatever else arrives in the meantime, and whatever the room sends to itself,
  a request with i requests before it is the next one to be handled after exactly i steps of the task,
  unless the room has closed or its task has crashed by then.\<close>

theorem every_request_gets_its_turn:
  assumes "permuting srt" and "i < length (d_requests (st_duel st))" and "steps es = i"
  shows "case play srt env es (Running st) of
      Running st' \<Rightarrow> \<exists>st0. take_request st' = Some (d_requests (st_duel st) ! i, st0)
    | _ \<Rightarrow> True"
  using assms(2,3)
proof (induction es arbitrary: st i)
  case Nil
  then show ?case using take_request_first [of st] by (cases "d_requests (st_duel st)") (auto simp: steps_def)
next
  case (Cons e es)
  show ?case
  proof (cases e)
    case (Some r)
    have same: "d_requests (st_duel (arrive r st)) ! i = d_requests (st_duel st) ! i"
      using Cons.prems(1) by (simp add: reqs_arrive nth_append)
    show ?thesis
      using Cons.IH [of i "arrive r st", unfolded same] Cons.prems Some by (simp add: steps_def reqs_arrive)
  next
    case None
    then obtain j where i: "i = Suc j" "steps es = j" using Cons.prems(2) by (auto simp: steps_def)
    obtain r rs where rs: "d_requests (st_duel st) = r # rs" using Cons.prems(1) by (cases "d_requests (st_duel st)") auto
    from take_request_first [OF this] obtain st0 where st0: "take_request st = Some (r, st0)" ..
    then have q: "d_requests (st_duel st0) = rs" using take_request_Some [OF st0] rs by simp
    obtain room where room: "room_step srt env st = Some room" using st0 by (simp add: room_step_def)
    show ?thesis
    proof (cases "\<exists>st1. room = Running st1")
      case True
      then obtain st1 where st1: "room = Running st1" ..
      then have "step_request srt env r st0 = Inr (st1, False)"
        using room st0 by (auto simp: room_step_def close_room_def split: sum.splits if_splits prod.splits)
      from step_request_grows [OF assms(1) this] obtain new where new: "d_requests (st_duel st1) = rs @ new"
        by (auto simp: grows_def q)
      have same: "d_requests (st_duel st1) ! j = d_requests (st_duel st) ! i"
        using Cons.prems(1) by (simp add: new rs i(1) nth_append)
      show ?thesis
        using Cons.IH [of j st1, unfolded same] Cons.prems(1) None i room st1 rs new by simp
    next
      case False
      then show ?thesis using None room play_over [OF False] by (auto split: Room.split)
    qed
  qed
qed

lemma every_request_gets_its_turn_witness:
  "case play sample_sorts (sample_env room_modules) [None, Some Req_Evolve]
      (Running (arrive Req_Evolve (arrive (Req_MessageEx Y_MatchEnd To_All)
        (room_start (sample_env room_modules) HostInfo_default False)))) of
      Running st' \<Rightarrow> \<exists>st0. take_request st' = Some (Req_Evolve, st0)
    | _ \<Rightarrow> True"
proof -
  let ?st = "arrive Req_Evolve (arrive (Req_MessageEx Y_MatchEnd To_All)
      (room_start (sample_env room_modules) HostInfo_default False))"
  have q: "d_requests (st_duel ?st) = [Req_MessageEx Y_MatchEnd To_All, Req_Evolve]"
    by (simp only: reqs_arrive) (simp add: room_start_def SingleDuel_new_def Duel_new_def Duel.Duel.defs)
  have second: "d_requests (st_duel ?st) ! 1 = Req_Evolve" by (simp only: q) simp
  show ?thesis
    by (rule every_request_gets_its_turn [OF permuting_sample, of 1 ?st "[None, Some Req_Evolve]", unfolded second])
      (simp_all only: q steps_def, simp_all)
qed

end
