(* ===== verification/TagDuel.thy ===== *)
theory TagDuel
  imports SingleRoom
begin

text \<open>
  The room for two teams of two (tag\_duel.rs): the teams, the player of each team whose turn it is, the
  handlers that need them. The loop of the room is in the next theory.
\<close>

section \<open>Teams\<close>

datatype TeamIndex = Team1 | Team2

fun leader :: "TeamIndex \<Rightarrow> PlayerIndex" where
    "leader Team1 = 0"
  | "leader Team2 = 2"

fun member :: "TeamIndex \<Rightarrow> PlayerIndex list" where
    "member Team1 = [0, 1]"
  | "member Team2 = [2, 3]"

fun opponent_team :: "TeamIndex \<Rightarrow> TeamIndex" where
    "opponent_team Team1 = Team2"
  | "opponent_team Team2 = Team1"

definition team :: "PlayerIndex \<Rightarrow> TeamIndex" where
  "team i = (if i < 2 then Team1 else Team2)"

definition teammate :: "PlayerIndex \<Rightarrow> PlayerIndex" where
  "teammate i = i XOR 1"

fun opponent :: "TeamIndex \<Rightarrow> PlayerIndex \<Rightarrow> PlayerIndex" where
    "opponent Team1 i = (if i < 2 then 3 - i else i - 2)"
  | "opponent Team2 i = (if i < 2 then i + 2 else 3 - i)"

record 'c TagDuel = "'c Duel" +
  td_first_attack_team :: "TeamIndex option"
  td_duel_winner :: "TeamIndex option list"
  td_current_turn_player :: "PlayerIndex option"
  td_surrender :: "bool list"

definition TagDuel_new :: "'c env \<Rightarrow> HostInfo \<Rightarrow> bool \<Rightarrow> 'c TagDuel" where
  "TagDuel_new env host_info no_mask =
     Duel.Duel.extend (Duel_new env host_info no_mask) (TagDuel.TagDuel.fields None [] None (replicate 4 False))"

definition first_team :: "'c TagDuel \<Rightarrow> TeamIndex" where
  "first_team d = (case td_first_attack_team d of None \<Rightarrow> Team1 | Some t \<Rightarrow> t)"

section \<open>Players of the engine and positions at the table\<close>

record TagTransformer =
  tt_first_attack_team :: TeamIndex
  tt_current_turn_player :: "PlayerIndex option"

definition player_transformer :: "'c TagDuel \<Rightarrow> TagTransformer" where
  "player_transformer d =
     \<lparr> tt_first_attack_team = first_team d, tt_current_turn_player = td_current_turn_player d \<rparr>"

definition tag_to_player_index :: "TagTransformer \<Rightarrow> CorePlayer \<Rightarrow> PlayerIndex option" where
  "tag_to_player_index t p =
     (if p = FirstAttackPlayer \<or> p = SecondAttackPlayer
      then case tt_current_turn_player t of
             None \<Rightarrow> None
           | Some current \<Rightarrow>
               Some (if (team current = tt_first_attack_team t) = (p = FirstAttackPlayer) then current
                     else opponent (tt_first_attack_team t) current)
      else None)"

definition team_to_core_player :: "TagTransformer \<Rightarrow> TeamIndex \<Rightarrow> CorePlayer" where
  "team_to_core_player t x = (if x = tt_first_attack_team t then FirstAttackPlayer else SecondAttackPlayer)"

definition tag_to_core_player :: "TagTransformer \<Rightarrow> Netplayer \<Rightarrow> CorePlayer" where
  "tag_to_core_player t p =
     (case p of
        Player i \<Rightarrow>
          (case tt_current_turn_player t of
             None \<Rightarrow> team_to_core_player t (team i)
           | Some current \<Rightarrow>
               if i = current \<or> i = opponent (tt_first_attack_team t) current then team_to_core_player t (team i)
               else if team_to_core_player t (team i) = FirstAttackPlayer then NoPlayer
               else RulePlayer)
      | _ \<Rightarrow> NoPlayer)"

definition tag_transform :: "TagTransformer \<Rightarrow> CorePlayer \<Rightarrow> SendTarget" where
  "tag_transform t p =
     (case tag_to_player_index t p of
        Some i \<Rightarrow> To_Single (Player i)
      | None \<Rightarrow> if p = AllPlayers then To_All else To_None)"

definition tag_to_net_player :: "TagTransformer \<Rightarrow> CorePlayer \<Rightarrow> Netplayer" where
  "tag_to_net_player t p = (case tag_to_player_index t p of Some i \<Rightarrow> Player i | None \<Rightarrow> UnknownPlayer)"

definition Tag_PlayerTransformer :: "TagTransformer \<Rightarrow> Transformer" where
  "Tag_PlayerTransformer t =
     \<lparr> tr_transform = tag_transform t, tr_to_net = tag_to_net_player t, tr_to_core = tag_to_core_player t \<rparr>"

abbreviation tag_transformer :: "'c TagDuel \<Rightarrow> Transformer" where
  "tag_transformer d \<equiv> Tag_PlayerTransformer (player_transformer d)"

definition next_operator :: "TeamIndex \<Rightarrow> CorePlayer \<Rightarrow> PlayerIndex option \<Rightarrow> PlayerIndex" where
  "next_operator first player current =
     (if current = Some (leader first) \<and> player = FirstAttackPlayer then leader first
      else case current of
             Some i \<Rightarrow> opponent first (teammate i)
           | None \<Rightarrow> leader first)"

definition rotate_turn_player :: "CorePlayer \<Rightarrow> 'c TagDuel \<Rightarrow> 'c TagDuel" where
  "rotate_turn_player player d =
     d \<lparr> td_current_turn_player := Some (next_operator (first_team d) player (td_current_turn_player d)) \<rparr>"

section \<open>Waiting for a player\<close>

definition four_players :: "PlayerIndex list" where
  "four_players = [0, 1, 2, 3]"

definition send_to_players :: "stoc_Message \<Rightarrow> PlayerIndex list \<Rightarrow> ('c, 'a) Duel_scheme \<Rightarrow> ('c, 'a) Duel_scheme" where
  "send_to_players m = fold (\<lambda>i. send m (To_Single (Player i)))"

definition tag_set_waiting :: "CorePlayer \<Rightarrow> 'c TagDuel \<Rightarrow> 'c TagDuel" where
  "tag_set_waiting player d =
     (case tag_to_player_index (player_transformer d) player of
        None \<Rightarrow> d
      | Some i \<Rightarrow>
          let d1 = send_to_players (Stoc_GameMessage GM_Waiting) (filter (\<lambda>j. j \<noteq> i) four_players)
                     (d \<lparr> d_last_response := Some i \<rparr>) in
          if 0 < hi_time_limit (d_host_info d1)
          then (case get_player d1 i of
                  None \<Rightarrow> d1
                | Some p \<Rightarrow>
                    map_player i (set_state (Allow_Some ctos_T_TimeConfirm))
                      (send_to_players (Stoc_TimeLimit player (dp_time_limit p)) four_players d1))
          else map_player i (set_state (Allow_Some ctos_T_Response)) d1)"

section \<open>Handlers of client messages\<close>

definition tag_on_create_game :: "'c TagDuel \<Rightarrow> 'c TagDuel" where
  "tag_on_create_game d = d \<lparr> d_max_player_count := 4, d_players := [None, None, None, None] \<rparr>"

definition tag_on_tp_result :: "PlayerIndex \<Rightarrow> CorePlayer \<Rightarrow> 'c TagDuel \<Rightarrow> 'c TagDuel" where
  "tag_on_tp_result player result d =
     (let first = (if result = FirstAttackPlayer then team player else opponent_team (team player)) in
      d \<lparr> td_first_attack_team := Some first, td_current_turn_player := Some (leader first) \<rparr>)"

definition tag_on_leave_game :: "Netplayer \<Rightarrow> 'c TagDuel \<Rightarrow> 'c TagDuel" where
  "tag_on_leave_game player d =
     (if d_stage d \<noteq> DuelStage_Begin \<and> d_stage d \<noteq> DuelStage_End \<and> \<not> core_ended (d_core d)
      then case PlayerIndex_try_from player of
             None \<Rightarrow> d
           | Some i \<Rightarrow>
               let winner = team_to_core_player (player_transformer d) (opponent_team (team i)) in
               queue_request_ex (Y_DuelEnd winner WinReason_OpponentLeave) (send_win winner WinReason_OpponentLeave d)
      else d)"

definition tag_on_surrender :: "PlayerIndex \<Rightarrow> 'c TagDuel \<Rightarrow> 'c TagDuel res" where
  "tag_on_surrender player d =
     (if core_ended (d_core d) then Inr d
      else and_then (index (td_surrender d) (unat player)) (\<lambda>mine.
        if mine then Inr d
        else and_then (index (td_surrender d) (unat (teammate player))) (\<lambda>other. Inr
          (if \<not> other
           then send Stoc_TeammateSurrender (SendTarget_of_index (teammate player))
                  (send Stoc_TeammateSurrender (SendTarget_of_index player)
                    (d \<lparr> td_surrender := (td_surrender d)[unat player := True] \<rparr>))
           else let winner = team_to_core_player (player_transformer d) (opponent_team (team player)) in
             queue_request_ex (Y_DuelEnd winner WinReason_OpponentSurrender)
               (send_win winner WinReason_OpponentSurrender d)))))"

definition tag_on_chat :: "Netplayer \<Rightarrow> U16String \<Rightarrow> 'c TagDuel \<Rightarrow> 'c TagDuel" where
  "tag_on_chat player msg d =
     send (Stoc_Chat (ChatSource_Player
             (case (td_first_attack_team d, player) of
                (Some Team2, Player i) \<Rightarrow> Player (i XOR 2)
              | _ \<Rightarrow> player)) msg) To_All d"

definition tag_deck_counts :: "Deck \<Rightarrow> Deck \<Rightarrow> 'c TagDuel \<Rightarrow> 'c TagDuel" where
  "tag_deck_counts deck1 deck2 d =
     send_to_players (deck_count deck2 deck1) (member Team2) (send_to_players (deck_count deck1 deck2) (member Team1) d)"

text \<open>Both leaders at once; without their places the access panics.\<close>

definition map_leaders :: "(DuelPlayer \<Rightarrow> DuelPlayer) \<Rightarrow> (DuelPlayer \<Rightarrow> DuelPlayer) \<Rightarrow> 'c TagDuel \<Rightarrow> 'c TagDuel res" where
  "map_leaders f g d =
     (if length (d_players d) \<le> unat (leader Team2) then Inl IndexOutOfBounds
      else Inr (map_player (leader Team2) g (map_player (leader Team1) f d)))"

definition tag_on_hs_start :: "Netplayer \<Rightarrow> 'c TagDuel \<Rightarrow> 'c TagDuel res" where
  "tag_on_hs_start player d =
     (if player \<noteq> d_host_player d \<or> \<not> everybody_ready (d_players d) then Inr d
      else
        let d1 = send Stoc_DuelStart To_All (d \<lparr> d_stage := DuelStage_Finger \<rparr>);
            d2 = d1 \<lparr> d_observers := slab_map (\<lambda>o'. o' \<lparr> bp_state := Allow_None \<rparr>) (d_observers d1) \<rparr>
        in case (get_player d2 (leader Team1), get_player d2 (leader Team2)) of
             (Some p1, Some p2) \<Rightarrow>
               map_leaders ask_hand ask_hand
                 (send_to_players Stoc_SelectHand [leader Team1, leader Team2]
                   (tag_deck_counts (dp_deck p1) (dp_deck p2) d2))
           | _ \<Rightarrow> Inr d2)"

definition leaders_decide :: "Hand \<Rightarrow> Hand \<Rightarrow> 'c TagDuel \<Rightarrow> 'c TagDuel res" where
  "leaders_decide hand1 hand2 d =
     (let chosen = (\<lambda>i d. send Stoc_SelectTp (SendTarget_of_index i) (d \<lparr> d_first_attack_decider := Some i \<rparr>)
                          \<lparr> d_stage := DuelStage_Firstgo \<rparr>)
      in case HandResult_judge (hand1, hand2) of
           HandResult_Draw \<Rightarrow>
             and_then (map_leaders ask_hand ask_hand d)
               (\<lambda>d'. Inr (send_to_players Stoc_SelectHand [leader Team1, leader Team2] d'))
         | HandResult_Win \<Rightarrow>
             and_then (map_leaders (set_state (Allow_Some ctos_T_TpResult)) (set_state Allow_None) d)
               (\<lambda>d'. Inr (chosen (leader Team1) d'))
         | HandResult_Lose \<Rightarrow>
             and_then (map_leaders (set_state Allow_None) (set_state (Allow_Some ctos_T_TpResult)) d)
               (\<lambda>d'. Inr (chosen (leader Team2) d')))"

definition show_hands :: "Hand \<Rightarrow> Hand \<Rightarrow> 'c TagDuel \<Rightarrow> 'c TagDuel" where
  "show_hands hand1 hand2 d =
     (let swapped = (case HandResult_swap (hand1, hand2) of (a, b) \<Rightarrow> Stoc_HandResult a b) in
      send (Stoc_HandResult hand1 hand2) To_AllObserver
        (send_to_players (Stoc_HandResult hand1 hand2) [0, 1] (send_to_players swapped [2, 3] d)))"

definition tag_on_hand_result :: "PlayerIndex \<Rightarrow> Hand \<Rightarrow> 'c TagDuel \<Rightarrow> 'c TagDuel res" where
  "tag_on_hand_result player hand d =
     (if player \<noteq> leader Team1 \<and> player \<noteq> leader Team2 then Inr d
      else let d1 = map_player player (\<lambda>p. p \<lparr> dp_hand := Some hand \<rparr>) d in
        case (Option.bind (get_player d1 (leader Team1)) dp_hand, Option.bind (get_player d1 (leader Team2)) dp_hand) of
          (Some hand1, Some hand2) \<Rightarrow>
            and_then (leaders_decide hand1 hand2 d1) (\<lambda>d2. Inr (show_hands hand1 hand2 d2))
        | _ \<Rightarrow> Inr d1)"

section \<open>Handlers of internal messages\<close>

definition tag_shuffle_seat :: "'c env \<Rightarrow> PlayerIndex \<Rightarrow> 'c TagDuel \<Rightarrow> 'c TagDuel res" where
  "tag_shuffle_seat env i d =
     and_then (index (d_players d) (unat i)) (\<lambda>slot.
       case slot of
         None \<Rightarrow> Inr d
       | Some p \<Rightarrow>
           (case Core_shuffle_deck (env_api env) (dk_main (dp_deck p)) (d_core d) of (main, core) \<Rightarrow>
              Inr (map_player i (\<lambda>p. p \<lparr> dp_deck := dp_deck p \<lparr> dk_main := main \<rparr> \<rparr>) (d \<lparr> d_core := core \<rparr>))))"

fun tag_shuffle_seats :: "'c env \<Rightarrow> PlayerIndex list \<Rightarrow> 'c TagDuel \<Rightarrow> 'c TagDuel res" where
    "tag_shuffle_seats env [] d = Inr d"
  | "tag_shuffle_seats env (i # seats) d = and_then (tag_shuffle_seat env i d) (tag_shuffle_seats env seats)"

definition tag_on_first_shuffle :: "'c env \<Rightarrow> 'c TagDuel \<Rightarrow> 'c TagDuel res" where
  "tag_on_first_shuffle env d =
     (if hi_no_shuffle_deck (d_host_info d) then Inr d
      else let first = first_team d; second = opponent_team first in
        tag_shuffle_seats env [leader first, teammate (leader first), teammate (leader second), leader second] d)"

definition add_tag_cards :: "'c env \<Rightarrow> CorePlayer \<Rightarrow> u8 \<Rightarrow> u32 list \<Rightarrow> 'c Core \<Rightarrow> 'c Core" where
  "add_tag_cards env p location codes core =
     fold (\<lambda>code. Core_new_tag_card (env_api env) code p location) (rev codes) core"

text \<open>Of each team one player has the cards in play, the other one the cards of the tag.\<close>

definition active_player :: "CorePlayer \<Rightarrow> TeamIndex \<Rightarrow> PlayerIndex" where
  "active_player p t = (if p = FirstAttackPlayer then leader t else teammate (leader t))"

fun init_teams :: "'c env \<Rightarrow> (CorePlayer \<times> TeamIndex) list \<Rightarrow> 'c TagDuel \<Rightarrow> 'c TagDuel res" where
    "init_teams env [] d = Inr d"
  | "init_teams env ((p, t) # teams) d =
       and_then (index (d_players d) (unat (active_player p t))) (\<lambda>active.
         case active of None \<Rightarrow> Inr d | Some a \<Rightarrow>
       and_then (index (d_players d) (unat (teammate (active_player p t)))) (\<lambda>partner.
         case partner of None \<Rightarrow> Inr d | Some b \<Rightarrow>
           init_teams env teams
             (map_core (add_tag_cards env p (Location_bits Location_Extra) (dk_extra (dp_deck b)))
               (map_core (add_tag_cards env p (Location_bits Location_Deck) (dk_main (dp_deck b)))
                 (map_core (add_cards env p (Location_bits Location_Extra) (dk_extra (dp_deck a)))
                   (map_core (add_cards env p (Location_bits Location_Deck) (dk_main (dp_deck a))) d))))))"

definition tag_on_duel_init :: "'c env \<Rightarrow> 'c TagDuel \<Rightarrow> 'c TagDuel res" where
  "tag_on_duel_init env d =
     init_teams env [(FirstAttackPlayer, first_team d), (SecondAttackPlayer, opponent_team (first_team d))] d"

definition tag_start_message :: "'c env \<Rightarrow> 'c TagDuel \<Rightarrow> PlayerType \<Rightarrow> stoc_Message" where
  "tag_start_message env d player_type =
     (let info = d_host_info d; lp = hi_start_lp info;
          number = (\<lambda>p l. ucast (Core_query_field_count (env_api env) p (Location_bits l) (d_core d)) :: u16)
      in Stoc_GameMessage (GM_Start
           \<lparr> gm_Start_player_type = player_type, gm_Start_rule = hi_duel_rule info,
             gm_Start_player1_lp = lp, gm_Start_player2_lp = lp,
             gm_Start_player1_deck_count = number FirstAttackPlayer Location_Deck,
             gm_Start_player1_extra_count = number FirstAttackPlayer Location_Extra,
             gm_Start_player2_deck_count = number SecondAttackPlayer Location_Deck,
             gm_Start_player2_extra_count = number SecondAttackPlayer Location_Extra \<rparr>))"

definition tag_on_duel_start :: "'c env \<Rightarrow> 'c TagDuel \<Rightarrow> 'c TagDuel res" where
  "tag_on_duel_start env d =
     (let first = first_team d;
          start = tag_start_message env d;
          seen_by = (\<lambda>p. PlayerType_with_player p PlayerType_new);
          d1 = send_to_players (start (seen_by FirstAttackPlayer)) (member first) d;
          d2 = send_to_players (start (seen_by SecondAttackPlayer)) (member (opponent_team first)) d1;
          observed = (if first = Team1 then FirstAttackPlayer else SecondAttackPlayer)
      in refresh env AllPlayers (Location_bits Location_Extra) (- 1) 0 (tag_transformer d)
           (send (start (PlayerType_with_is_observer True (seen_by observed))) To_AllObserver d2))"

text \<open>The names and decks of the tag players are unwrapped; a replay without them panics.\<close>

definition tag_swap_replay_sides :: "Replay \<Rightarrow> Replay res" where
  "tag_swap_replay_sides r =
     (let b = rp_body r in
      and_then (unwrap (rb_tag_client_name b)) (\<lambda>tag_client_name.
      and_then (unwrap (rb_tag_host_name b)) (\<lambda>tag_host_name.
      and_then (unwrap (rb_tag_client_deck b)) (\<lambda>tag_client_deck.
      and_then (unwrap (rb_tag_host_deck b)) (\<lambda>tag_host_deck. Inr
        (r \<lparr> rp_body := b \<lparr> rb_host_name := tag_client_name, rb_tag_client_name := Some (rb_host_name b),
                            rb_tag_host_name := Some (rb_client_name b), rb_client_name := tag_host_name,
                            rb_host_deck := tag_client_deck, rb_tag_client_deck := Some (rb_host_deck b),
                            rb_tag_host_deck := Some (rb_client_deck b), rb_client_deck := tag_host_deck \<rparr> \<rparr>))))))"

definition tag_on_generate_replay :: "'c TagDuel State \<Rightarrow> 'c TagDuel State res" where
  "tag_on_generate_replay st =
     (if td_first_attack_team (st_duel st) \<noteq> Some Team2 then Inr st
      else case st_replay st of
             None \<Rightarrow> Inr st
           | Some r \<Rightarrow> and_then (tag_swap_replay_sides r) (\<lambda>r'. Inr (st \<lparr> st_replay := Some r' \<rparr>)))"

fun winning_team :: "CorePlayer \<Rightarrow> TeamIndex option \<Rightarrow> TeamIndex option" where
    "winning_team FirstAttackPlayer first = first"
  | "winning_team SecondAttackPlayer first = map_option opponent_team first"
  | "winning_team _ first = None"

definition tag_on_duel_end :: "CorePlayer \<Rightarrow> 'c TagDuel \<Rightarrow> 'c TagDuel" where
  "tag_on_duel_end winner d =
     d \<lparr> td_duel_winner := td_duel_winner d @ [winning_team winner (td_first_attack_team d)] \<rparr>"

definition team_wins :: "TeamIndex \<Rightarrow> TeamIndex option list \<Rightarrow> nat" where
  "team_wins t ws = length (filter (\<lambda>w. w = Some t) ws)"

definition tag_match_over :: "Mode \<Rightarrow> TeamIndex option list \<Rightarrow> bool" where
  "tag_match_over mode winners =
     (let end_count = (if mode = Mode_Match then 3 else 1); end_win_count = (end_count + 1) div 2 in
      end_count \<le> length winners \<or> end_win_count \<le> team_wins Team1 winners \<or> end_win_count \<le> team_wins Team2 winners)"

definition tag_on_judge_continue_match :: "'c TagDuel \<Rightarrow> str" where
  "tag_on_judge_continue_match d =
     lit (if tag_match_over (hi_mode (d_host_info d)) (td_duel_winner d) then ''terminate'' else ''continue'')"

definition tag_on_recreate_duel :: "'c TagDuel \<Rightarrow> 'c TagDuel" where
  "tag_on_recreate_duel d =
     (let decider = (case d_first_attack_decider d of None \<Rightarrow> leader Team1 | Some i \<Rightarrow> i);
          last_team = (if td_duel_winner d = [] then None else last (td_duel_winner d))
      in d \<lparr> td_first_attack_team := None, td_current_turn_player := None, td_surrender := replicate 4 False,
             d_first_attack_decider :=
               Some (case last_team of Some winner \<Rightarrow> leader (opponent_team winner) | None \<Rightarrow> decider XOR 1) \<rparr>)"

definition on_timeout_tag :: "PlayerIndex \<Rightarrow> 'c TagDuel \<Rightarrow> 'c TagDuel" where
  "on_timeout_tag i d =
     (let winner = team_to_core_player (player_transformer d) (opponent_team (team i)) in
      queue_request_ex (Y_DuelEnd winner WinReason_Timeout)
        (send_win winner WinReason_Timeout (d \<lparr> d_last_response := None \<rparr>)))"

section \<open>Handlers of the engine's messages\<close>

definition tag_on_retry :: "'c TagDuel \<Rightarrow> SendTarget" where
  "tag_on_retry d =
     (case d_last_response d of
        Some i \<Rightarrow> To_Core (tag_to_core_player (player_transformer d) (Player i))
      | None \<Rightarrow> To_None)"

definition tag_on_new_turn :: "CorePlayer \<Rightarrow> 'c TagDuel \<Rightarrow> 'c TagDuel \<times> CoreResponse" where
  "tag_on_new_turn player d =
     (rotate_turn_player player d,
      core_refresh AllPlayers
        (Location_bits Location_MZone OR Location_bits Location_SZone OR Location_bits Location_Hand))"

definition tag_on_hint :: "TagTransformer \<Rightarrow> gm_Hint \<Rightarrow> SendTarget" where
  "tag_on_hint t m =
     (if gm_Hint_type m \<in> {Hint_Event, Hint_Message, Hint_SelectMessage, Hint_Effect} then To_Core (gm_Hint_player m)
      else if gm_Hint_type m = Hint_Card then To_All
      else To_Except (tag_to_net_player t (gm_Hint_player m)))"

definition tag_on_swap :: "'c env \<Rightarrow> gm_Swap \<Rightarrow> 'c TagDuel \<Rightarrow> 'c TagDuel res" where
  "tag_on_swap env m d =
     (let tr = tag_transformer d; p1 = gm_Swap_position1 m; p2 = gm_Swap_position2 m in
      and_then (refresh env (il_controller p1) (il_location p1) (il_sequence p1) 0 tr d)
        (refresh env (il_controller p2) (il_location p2) (il_sequence p2) 0 tr))"

definition on_tag_swap :: CoreResponse where
  "on_tag_swap =
     core_refresh AllPlayers
       (Location_bits Location_Extra OR Location_bits Location_MZone OR Location_bits Location_SZone OR
        Location_bits Location_Hand)"

end
