(* ===== verification/TagRoom.thy ===== *)
theory TagRoom
  imports TagDuel
begin

text \<open>
  The loop of the room for two teams (TagDuel::run): the wrappers and registrations of its handlers, the
  processors and the step that takes one request from the queue of the room, the counterpart of the loop of
  the room for two players.
\<close>

section \<open>Wrappers and registrations\<close>

type_synonym 'c tag_ctos_body = "(ctos_request, 'c TagDuel, room_response) body"
type_synonym 'c tag_ex_body = "(ex_request, 'c TagDuel, room_response) body"
type_synonym 'c tag_core_body = "(core_request, 'c TagDuel, CoreResponse) body"
type_synonym 'c tag_ctos_handler = "(ctos_request, 'c TagDuel State, room_response) Handler"
type_synonym 'c tag_ex_handler = "(ex_request, 'c TagDuel State, room_response) Handler"
type_synonym 'c tag_core_handler = "(core_request, 'c TagDuel State, CoreResponse) Handler"

text \<open>A handler that raises the stop flag; one whose parameters cannot be extracted does not run.\<close>

definition stopping :: "('q, 'd, 'r) body \<Rightarrow> ('q, 'd, 'r) body" where
  "stopping f b =
     and_then (f b) (\<lambda>(b', r). Inr (case r of None \<Rightarrow> b' | Some _ \<Rightarrow> b' \<lparr> stop_flag := True \<rparr>, r))"

definition run_tag_create_game :: "'c tag_ctos_body" where
  "run_tag_create_game = on_any (\<lambda>d. Inr (tag_on_create_game d))"

definition run_tag_tp_result :: "'c tag_ctos_body" where
  "run_tag_tp_result =
     by_player (\<lambda>m. case m of Ctos_TpResult r \<Rightarrow> Some r | _ \<Rightarrow> None) (\<lambda>i r d. Inr (tag_on_tp_result i r d))"

definition run_tag_leave_game :: "'c tag_ctos_body" where
  "run_tag_leave_game = by_anybody Some (\<lambda>p m d. Inr (tag_on_leave_game p d))"

definition run_tag_surrender :: "'c tag_ctos_body" where
  "run_tag_surrender = by_player Some (\<lambda>i m d. tag_on_surrender i d)"

definition run_tag_chat :: "'c tag_ctos_body" where
  "run_tag_chat =
     by_anybody (\<lambda>m. case m of Ctos_Chat msg \<Rightarrow> Some msg | _ \<Rightarrow> None) (\<lambda>p msg d. Inr (tag_on_chat p msg d))"

definition run_tag_hs_start :: "'c tag_ctos_body" where
  "run_tag_hs_start = stopping (by_anybody Some (\<lambda>p m d. tag_on_hs_start p d))"

definition run_tag_hand_result :: "'c tag_ctos_body" where
  "run_tag_hand_result =
     stopping (by_player (\<lambda>m. case m of Ctos_HandResult h \<Rightarrow> Some h | _ \<Rightarrow> None) tag_on_hand_result)"

definition run_tag_first_shuffle :: "'c env \<Rightarrow> 'c tag_ex_body" where
  "run_tag_first_shuffle env = on_any (tag_on_first_shuffle env)"

definition run_tag_duel_init :: "'c env \<Rightarrow> 'c tag_ex_body" where
  "run_tag_duel_init env = on_any (tag_on_duel_init env)"

definition run_tag_duel_start :: "'c env \<Rightarrow> 'c tag_ex_body" where
  "run_tag_duel_start env = on_any (tag_on_duel_start env)"

definition run_tag_generate_replay :: "'c tag_ex_body" where
  "run_tag_generate_replay = on_state (\<lambda>q st. and_then (tag_on_generate_replay st) (done_with q))"

definition run_tag_duel_end :: "'c tag_ex_body" where
  "run_tag_duel_end =
     on_ex (\<lambda>m. case m of Y_DuelEnd w r \<Rightarrow> Some w | _ \<Rightarrow> None) (\<lambda>w d. Inr (tag_on_duel_end w d))"

definition run_tag_judge_continue_match :: "'c tag_ex_body" where
  "run_tag_judge_continue_match = judging tag_on_judge_continue_match"

definition run_tag_recreate_duel :: "'c tag_ex_body" where
  "run_tag_recreate_duel = on_any (\<lambda>d. Inr (tag_on_recreate_duel d))"

definition run_timeout_tag :: "'c tag_ex_body" where
  "run_timeout_tag =
     on_ex (\<lambda>m. case m of Y_Timeout i \<Rightarrow> Some i | _ \<Rightarrow> None) (\<lambda>i d. Inr (on_timeout_tag i d))"

definition tag_seats :: "'c TagDuel \<Rightarrow> Seats" where
  "tag_seats d =
     \<lparr> sts_transformer = tag_transformer d,
       sts_first = tag_to_player_index (player_transformer d) FirstAttackPlayer, sts_players = [0, 1, 2, 3] \<rparr>"

definition run_tag_request_field :: "'c env \<Rightarrow> 'c tag_ctos_body" where
  "run_tag_request_field env = requesting_field env tag_seats"

definition run_tag_retry :: "'c tag_core_body" where
  "run_tag_retry = on_duel (\<lambda>q d. Inr (q, d, Some (core_to (tag_on_retry d))))"

definition run_tag_new_turn :: "'c tag_core_body" where
  "run_tag_new_turn =
     on_duel (\<lambda>q d. case rq_message q of
        GM_GroupB (GMB_NewTurn m) \<Rightarrow>
          (case tag_on_new_turn (gm_NewTurn_player m) d of (d', r) \<Rightarrow> Inr (q, d', Some r))
      | _ \<Rightarrow> skipped q d)"

definition run_tag_hint :: "'c tag_core_body" where
  "run_tag_hint =
     on_duel (\<lambda>q d. case rq_message q of
        GM_GroupA (GMA_Hint m) \<Rightarrow> Inr (q, d, Some (core_to (tag_on_hint (player_transformer d) m)))
      | _ \<Rightarrow> skipped q d)"

definition run_tag_swap :: "'c env \<Rightarrow> 'c tag_core_body" where
  "run_tag_swap env =
     on_duel (\<lambda>q d. case rq_message q of
        GM_GroupB (GMB_Swap m) \<Rightarrow> and_then (tag_on_swap env m d) (\<lambda>d'. Inr (q, d', Some (core_nothing ())))
      | _ \<Rightarrow> skipped q d)"

definition run_on_tag_swap :: "'c tag_core_body" where
  "run_on_tag_swap = on_duel (\<lambda>q d. Inr (q, d, Some on_tag_swap))"

definition TAG_DUEL_YGOPRO_HANDLERS :: "'c env \<Rightarrow> (u8 \<times> 'c tag_ctos_handler) list" where
  "TAG_DUEL_YGOPRO_HANDLERS env =
     (let reg = (\<lambda>prio. handler prio ''ygopro::tag_duel::ygopro_handlers'') in
      [(17, reg 128 ''on_create_game'' run_tag_create_game),
       (4, reg 128 ''on_tp_result'' run_tag_tp_result),
       (19, reg 128 ''on_leave_game'' run_tag_leave_game),
       (20, reg 128 ''on_surrender'' run_tag_surrender),
       (22, reg 128 ''on_chat'' run_tag_chat),
       (37, reg 127 ''on_hs_start'' run_tag_hs_start),
       (3, reg 127 ''on_hand_result'' run_tag_hand_result),
       (48, handler 128 ''ygopro::plugin::reconnect'' ''on_request_field_tag'' (run_tag_request_field env))])"

definition TAG_DUEL_YGOPRO_HANDLERS_EX :: "'c env \<Rightarrow> (u8 \<times> 'c tag_ex_handler) list" where
  "TAG_DUEL_YGOPRO_HANDLERS_EX env =
     (let reg = (\<lambda>prio. handler prio ''ygopro::tag_duel::ygopro_handlers'') in
      [(2, reg 128 ''on_first_shuffle'' (run_tag_first_shuffle env)),
       (3, reg 128 ''on_duel_init'' (run_tag_duel_init env)),
       (4, reg 128 ''on_duel_start'' (run_tag_duel_start env)),
       (11, reg 129 ''on_generate_replay'' run_tag_generate_replay),
       (10, reg 128 ''on_duel_end'' run_tag_duel_end),
       (12, reg 128 ''on_judge_continue_match'' run_tag_judge_continue_match),
       (13, reg 128 ''on_recreate_duel'' run_tag_recreate_duel),
       (21, handler 128 ''ygopro::plugin::time_limit'' ''on_timeout_tag'' run_timeout_tag)])"

definition TAG_DUEL_YGOCORE_HANDLERS :: "'c env \<Rightarrow> (u8 \<times> 'c tag_core_handler) list" where
  "TAG_DUEL_YGOCORE_HANDLERS env =
     (let reg = handler 128 ''ygopro::tag_duel::ygocore_handlers'' in
      [(1, reg ''on_retry'' run_tag_retry),
       (40, reg ''on_new_turn'' run_tag_new_turn),
       (2, reg ''on_hint'' run_tag_hint),
       (55, reg ''on_swap'' (run_tag_swap env)),
       (161, reg ''on_tag_swap'' run_on_tag_swap)])"

section \<open>The processors\<close>

record 'c tag_sorts =
  tsrt_ctos :: "'c tag_ctos_handler list \<Rightarrow> 'c tag_ctos_handler list"
  tsrt_ex :: "'c tag_ex_handler list \<Rightarrow> 'c tag_ex_handler list"
  tsrt_core :: "'c tag_core_handler list \<Rightarrow> 'c tag_core_handler list"

definition tag_ygopro_processor :: "'c tag_sorts \<Rightarrow> 'c env \<Rightarrow> (u8, 'c tag_ctos_handler) Processor" where
  "tag_ygopro_processor srt env =
     new_with_dual_group (tsrt_ctos srt) (TAG_DUEL_YGOPRO_HANDLERS env) (YGOPRO_HANDLERS env @ plugin_handlers env)
       (env_plugins env) h_module h_module (\<lambda>k. k = 0)"

definition tag_ygopro_ex_processor :: "'c tag_sorts \<Rightarrow> 'c env \<Rightarrow> (u8, 'c tag_ex_handler) Processor" where
  "tag_ygopro_ex_processor srt env =
     new_with_dual_group (tsrt_ex srt) (TAG_DUEL_YGOPRO_HANDLERS_EX env)
       (YGOPRO_HANDLERS_EX env @ plugin_handlers_ex env) (env_plugins env) h_module h_module (\<lambda>k. k = 0)"

definition tag_ygocore_processor :: "'c tag_sorts \<Rightarrow> 'c env \<Rightarrow> (u8, 'c tag_core_handler) Processor" where
  "tag_ygocore_processor srt env =
     new_with_dual_group (tsrt_core srt) (TAG_DUEL_YGOCORE_HANDLERS env)
       (YGOCORE_HANDLERS @ plugin_core_handlers env) (env_plugins env) h_module h_module (\<lambda>k. k = 0)"

section \<open>One request\<close>

definition tag_answer_client :: "Netplayer \<Rightarrow> room_response \<Rightarrow> 'c TagDuel State \<Rightarrow> 'c TagDuel State \<times> bool" where
  "tag_answer_client position r st =
     (case r of
        Replace m \<Rightarrow> (map_duel (send m (To_Single position)) st, False)
      | ReplaceMultiple ms \<Rightarrow> (map_duel (send_list ms (To_Single position)) st, False)
      | Continue \<Rightarrow> (st, False)
      | Swallow \<Rightarrow> (st, False)
      | Terminate \<Rightarrow> (st, True)
      | Kick \<Rightarrow> (map_duel (send (Stoc_LeaveGame position) (To_Single position)) st, False))"

definition tag_step_message ::
  "'c tag_sorts \<Rightarrow> 'c env \<Rightarrow> ctos_Message \<Rightarrow> Netplayer \<Rightarrow> 'c TagDuel State \<Rightarrow> ('c TagDuel State \<times> bool) res" where
  "tag_step_message srt env m p st =
     (if gated m p (st_duel st) then Inr (st, False)
      else and_then
        (run_processor Response_mul Response_default (tag_ygopro_processor srt env) (ctos_MessageType_into (ctos_type m))
          \<lparr> rq_message = m, rq_extra = p \<rparr> st)
        (\<lambda>(q, st', r). Inr (tag_answer_client (rq_extra q) r st')))"

definition tag_answer_ex :: "ex_request \<Rightarrow> room_response \<Rightarrow> 'c TagDuel State \<Rightarrow> 'c TagDuel State" where
  "tag_answer_ex q r st =
     (case r of
        Replace m \<Rightarrow> map_duel (send m (rq_extra q)) st
      | ReplaceMultiple ms \<Rightarrow> map_duel (send_list ms (rq_extra q)) st
      | Continue \<Rightarrow> map_duel (queue_list (process_continue (rq_message q))) st
      | Swallow \<Rightarrow> st
      | Terminate \<Rightarrow> map_duel (queue_list (process_terminate (rq_message q))) st
      | Kick \<Rightarrow> st)"

definition tag_process_ex ::
  "'c tag_sorts \<Rightarrow> 'c env \<Rightarrow> ygopro_Message \<Rightarrow> SendTarget \<Rightarrow> 'c TagDuel State
   \<Rightarrow> (ex_request \<times> 'c TagDuel State \<times> room_response) res" where
  "tag_process_ex srt env m target =
     run_processor Response_mul Response_default (tag_ygopro_ex_processor srt env) (ygopro_message_key m)
       \<lparr> rq_message = m, rq_extra = target \<rparr>"

definition tag_step_ex ::
  "'c tag_sorts \<Rightarrow> 'c env \<Rightarrow> ygopro_Message \<Rightarrow> SendTarget \<Rightarrow> 'c TagDuel State \<Rightarrow> 'c TagDuel State res" where
  "tag_step_ex srt env m target st =
     and_then (tag_process_ex srt env m target st) (\<lambda>(q, st', r). Inr (tag_answer_ex q r st'))"

definition tag_retry_waiting :: "'c TagDuel \<Rightarrow> 'c TagDuel" where
  "tag_retry_waiting d =
     (case d_last_response d of
        None \<Rightarrow> d
      | Some i \<Rightarrow> tag_set_waiting (tag_to_core_player (player_transformer d) (Player i)) d)"

definition tag_route_core_message ::
  "'c env \<Rightarrow> gm_Message \<Rightarrow> CoreResponse \<Rightarrow> 'c TagDuel \<Rightarrow> 'c TagDuel res" where
  "tag_route_core_message env m r d =
     (let tr = tag_transformer d;
          refreshed = refresh env (cr_player r) (cr_locations r) (cr_sequence r) (cr_query r) tr
      in and_then
           (case gm_waiting_for m of
              Some p \<Rightarrow> refreshed (tag_set_waiting p d)
            | None \<Rightarrow> Inr (if is_retry m then tag_retry_waiting (pop_response d) else d))
         (\<lambda>d1. and_then (send_game_message m (cr_target r) tr d1)
         (\<lambda>d2. if gm_waiting_for m = None then refreshed d2 else Inr d2)))"

fun tag_core_messages ::
  "'c tag_sorts \<Rightarrow> 'c env \<Rightarrow> gm_Message list \<Rightarrow> 'c TagDuel State \<Rightarrow> 'c TagDuel State res" where
    "tag_core_messages srt env [] st = Inr st"
  | "tag_core_messages srt env (m # ms) st =
       and_then (run_processor CoreResponse_mul CoreResponse_default (tag_ygocore_processor srt env) (gm_type m)
                   \<lparr> rq_message = m, rq_extra = UnknownPlayer \<rparr> st) (\<lambda>(q, st', r).
       and_then (tag_route_core_message env (rq_message q) r (st_duel st')) (\<lambda>d.
         tag_core_messages srt env ms (st' \<lparr> st_duel := d \<rparr>)))"

definition tag_step_evolve :: "'c tag_sorts \<Rightarrow> 'c env \<Rightarrow> 'c TagDuel State \<Rightarrow> 'c TagDuel State res" where
  "tag_step_evolve srt env st =
     and_then (evolve env (st_duel st)) (\<lambda>(ms, d). tag_core_messages srt env ms (st \<lparr> st_duel := d \<rparr>))"

fun tag_step_request ::
  "'c tag_sorts \<Rightarrow> 'c env \<Rightarrow> RoomRequest \<Rightarrow> 'c TagDuel State \<Rightarrow> ('c TagDuel State \<times> bool) res" where
    "tag_step_request srt env (Req_Message m p) st = tag_step_message srt env m p st"
  | "tag_step_request srt env (Req_MessageEx m target) st = and_then (tag_step_ex srt env m target st) (\<lambda>st'. Inr (st', False))"
  | "tag_step_request srt env Req_Evolve st = and_then (tag_step_evolve srt env st) (\<lambda>st'. Inr (st', False))"
  | "tag_step_request srt env (Req_Command name arg) st = (case run_command env name arg st of (ends, st') \<Rightarrow> Inr (st', ends))"

section \<open>The loop\<close>

datatype 'c Tag_Room = Tag_Running "'c TagDuel State" | Tag_Closed "'c TagDuel State" | Tag_Crashed panic

definition tag_close_room :: "'c tag_sorts \<Rightarrow> 'c env \<Rightarrow> 'c TagDuel State \<Rightarrow> 'c Tag_Room" where
  "tag_close_room srt env st =
     (case tag_process_ex srt env Y_Terminate To_None st of
        Inl p \<Rightarrow> Tag_Crashed p
      | Inr (q, st', r) \<Rightarrow> Tag_Closed st')"

definition tag_take_request :: "'c TagDuel State \<Rightarrow> (RoomRequest \<times> 'c TagDuel State) option" where
  "tag_take_request st =
     (case d_requests (st_duel st) of
        [] \<Rightarrow> None
      | r # rs \<Rightarrow> Some (r, map_duel (d_requests_update (\<lambda>_. rs)) st))"

definition tag_room_step :: "'c tag_sorts \<Rightarrow> 'c env \<Rightarrow> 'c TagDuel State \<Rightarrow> 'c Tag_Room option" where
  "tag_room_step srt env st =
     (case tag_take_request st of
        None \<Rightarrow> None
      | Some (r, st') \<Rightarrow> Some
          (case tag_step_request srt env r st' of
             Inl p \<Rightarrow> Tag_Crashed p
           | Inr (st'', ends) \<Rightarrow> if ends then tag_close_room srt env st'' else Tag_Running st''))"

definition tag_room_start :: "'c env \<Rightarrow> HostInfo \<Rightarrow> bool \<Rightarrow> 'c TagDuel State" where
  "tag_room_start env host_info no_mask =
     \<lparr> st_duel = TagDuel_new env host_info no_mask, st_replay = None, st_time_limit = None, st_reconnect = None \<rparr>"

definition tag_arrive :: "RoomRequest \<Rightarrow> 'c TagDuel State \<Rightarrow> 'c TagDuel State" where
  "tag_arrive r = map_duel (queue r)"

text \<open>The rooms for two teams that can be reached, whatever requests arrive and whenever they do.\<close>

inductive tag_reachable :: "'c tag_sorts \<Rightarrow> 'c env \<Rightarrow> 'c Tag_Room \<Rightarrow> bool" for srt env where
  start: "tag_reachable srt env (Tag_Running (tag_room_start env host_info no_mask))"
| arrival: "tag_reachable srt env (Tag_Running st) \<Longrightarrow> tag_reachable srt env (Tag_Running (tag_arrive r st))"
| step: "tag_reachable srt env (Tag_Running st) \<Longrightarrow> tag_room_step srt env st = Some room \<Longrightarrow> tag_reachable srt env room"

end
