(* ===== verification/TagInvariants.thy ===== *)
theory TagInvariants
  imports TagRoom SingleInvariants
begin

text \<open>
  What holds in every room for two teams that can be reached: the channels are where the positions say,
  there are four seats or none yet, the player whose turn it is has one of the four seats, and a team
  attacks first exactly if somebody has the turn.
\<close>

definition one_of_four :: "PlayerIndex option \<Rightarrow> bool" where
  "one_of_four i \<longleftrightarrow> (case i of None \<Rightarrow> True | Some i \<Rightarrow> unat i < 4)"

definition team_ext :: "'c TagDuel \<Rightarrow> bool" where
  "team_ext d \<longleftrightarrow>
     d_max_player_count d \<in> {0, 4} \<and> one_of_four (td_current_turn_player d) \<and> length (td_surrender d) = 4"

definition tag_inv :: "'c TagDuel \<Rightarrow> bool" where
  "tag_inv d \<longleftrightarrow> base_inv (d_max_player_count d, Duel.Duel.more d) d \<and> team_ext d"

lemma tag_inv_same:
  fixes d d' :: "'c TagDuel"
  assumes "base_inv x d'" and "base_inv x d" and "team_ext d"
  shows "tag_inv d'"
proof -
  have "Duel.Duel.more d' = Duel.Duel.more d" "d_max_player_count d' = d_max_player_count d"
    using assms(1,2) by (auto simp: base_inv_def)
  moreover from this have "td_current_turn_player d' = td_current_turn_player d" "td_surrender d' = td_surrender d"
    by (cases d; cases d'; simp)+
  ultimately show ?thesis using assms by (auto simp: tag_inv_def team_ext_def base_inv_def)
qed

lemma tag_inv_by_base:
  fixes d d' :: "'c TagDuel"
  assumes "tag_inv d" and "\<And>x. base_inv x d \<Longrightarrow> base_inv x d'"
  shows "tag_inv d'"
proof -
  from assms(1) have "base_inv (d_max_player_count d, Duel.Duel.more d) d" and "team_ext d"
    by (simp_all add: tag_inv_def)
  from tag_inv_same [OF assms(2) [OF this(1)] this] show ?thesis .
qed

lemma keeps_tag:
  fixes run :: "('q, 'c TagDuel, 'r) body"
  assumes "\<And>x. keeps_room (base_inv x) run"
  shows "keeps_room tag_inv run"
  using assms tag_inv_by_base unfolding keeps_def by metis

lemma opponent_seat: "unat i < 4 \<Longrightarrow> unat (opponent t i) < 4" for i :: u8
proof -
  assume "unat i < 4"
  then have "i \<in> {0, 1, 2, 3}" by (auto simp: word_unat_eq_iff)
  then show ?thesis by (cases t) auto
qed

lemma teammate_seat: "unat i < 4 \<Longrightarrow> unat (teammate i) < 4"
proof -
  assume "unat i < 4"
  then have "i \<in> {0, 1, 2, 3}" by (auto simp: word_unat_eq_iff)
  then show ?thesis by (auto simp: teammate_def)
qed

lemma leader_seat [simp]: "unat (leader t) < 4"
  by (cases t) simp_all

lemma tag_inv_send [simp]: "tag_inv (send m t d) = tag_inv d"
proof -
  have "team_ext (send m t d) = team_ext d" by (simp add: send_def team_ext_def)
  moreover have "Duel.Duel.more (send m t d) = Duel.Duel.more d" "d_max_player_count (send m t d) = d_max_player_count d"
    by (simp_all add: send_def)
  ultimately show ?thesis by (simp add: tag_inv_def)
qed

lemma tag_inv_queue [simp]: "tag_inv (queue r d) = tag_inv d" "tag_inv (queue_request_ex y d) = tag_inv d"
  by (simp_all add: queue_request_ex_def queue_def tag_inv_def base_inv_def routed_def team_ext_def)

lemma base_inv_send_to_players [simp]: "base_inv x (send_to_players m is d) = base_inv x d"
  by (induction "is" arbitrary: d) (simp_all add: send_to_players_def)

section \<open>The handlers of the room\<close>

lemma tag_inv_create_game:
  assumes "tag_inv d"
  shows "tag_inv (tag_on_create_game d)"
proof -
  have "length (s_players (d_sender d)) \<le> 4"
    using assms by (auto simp: tag_inv_def base_inv_def routed_def seats_match_def team_ext_def)
  then have "seats_match [None, None, None, None] (s_players (d_sender d))"
    using seats_match_empty [of 4] by (simp add: numeral_eq_Suc)
  then show ?thesis
    using assms by (simp add: tag_on_create_game_def tag_inv_def base_inv_def routed_def team_ext_def)
qed

lemma tag_inv_tp_result: "tag_inv d \<Longrightarrow> tag_inv (tag_on_tp_result i r d)"
  by (simp add: tag_on_tp_result_def Let_def tag_inv_def base_inv_def routed_def team_ext_def one_of_four_def)

lemma tag_inv_leave_game: "tag_inv d \<Longrightarrow> tag_inv (tag_on_leave_game p d)"
  by (simp add: tag_on_leave_game_def send_win_def Let_def split: option.split)

lemma tag_inv_surrendered: "tag_inv d \<Longrightarrow> tag_inv (d \<lparr> td_surrender := (td_surrender d)[i := b] \<rparr>)"
  by (simp add: tag_inv_def base_inv_def routed_def team_ext_def)

lemma tag_inv_surrender: "tag_inv d \<Longrightarrow> tag_on_surrender i d = Inr d' \<Longrightarrow> tag_inv d'"
  by (auto simp: tag_on_surrender_def send_win_def Let_def tag_inv_surrendered split: if_splits)

lemma base_inv_map_leaders:
  assumes "base_inv x d" and "map_leaders f g d = Inr d'"
    and "\<And>p. dp_channel (f p) = dp_channel p" and "\<And>p. dp_channel (g p) = dp_channel p"
  shows "base_inv x d'"
  using assms by (auto simp: map_leaders_def split: if_splits intro!: base_inv_map_player)

lemma base_inv_tag_hs_start:
  assumes "base_inv x d" and "tag_on_hs_start p d = Inr d'"
  shows "base_inv x d'"
  using assms
  by (auto simp: tag_on_hs_start_def tag_deck_counts_def ask_hand_def base_inv_update_observer Let_def
      split: if_splits option.splits elim!: base_inv_map_leaders [rotated])

lemma base_inv_leaders_decide:
  assumes "base_inv x d" and "leaders_decide a b d = Inr d'"
  shows "base_inv x d'"
  using assms
  by (auto simp: leaders_decide_def ask_hand_def Let_def split: HandResult.splits elim!: base_inv_map_leaders [rotated])

lemma base_inv_tag_hand_result:
  assumes "base_inv x d" and "tag_on_hand_result i h d = Inr d'"
  shows "base_inv x d'"
proof -
  have hand: "base_inv x (map_player j (\<lambda>p. p \<lparr> dp_hand := Some h \<rparr>) d)" for j
    using assms(1) by (rule base_inv_map_player) simp
  from assms show ?thesis
    by (auto simp: tag_on_hand_result_def show_hands_def HandResult_swap_def Let_def hand split: if_splits option.splits
        dest: base_inv_leaders_decide [OF hand])
qed

lemma tag_inv_duel_end: "tag_inv d \<Longrightarrow> tag_inv (tag_on_duel_end w d)"
  by (simp add: tag_on_duel_end_def tag_inv_def base_inv_def routed_def team_ext_def)

lemma tag_inv_recreate: "tag_inv d \<Longrightarrow> tag_inv (tag_on_recreate_duel d)"
  by (simp add: tag_on_recreate_duel_def Let_def tag_inv_def base_inv_def routed_def team_ext_def one_of_four_def)

lemma base_inv_timeout_tag [simp]: "base_inv x (on_timeout_tag i d) = base_inv x d"
  by (simp add: on_timeout_tag_def Let_def send_win_def)

lemma base_inv_tag_shuffle_seat: "base_inv x d \<Longrightarrow> tag_shuffle_seat env i d = Inr d' \<Longrightarrow> base_inv x d'"
  by (auto simp: tag_shuffle_seat_def split: if_splits option.splits prod.splits intro!: base_inv_map_player)

lemma base_inv_tag_shuffle_seats: "base_inv x d \<Longrightarrow> tag_shuffle_seats env is d = Inr d' \<Longrightarrow> base_inv x d'"
  by (induction "is" arbitrary: d) (auto dest: base_inv_tag_shuffle_seat)

lemma base_inv_tag_first_shuffle: "base_inv x d \<Longrightarrow> tag_on_first_shuffle env d = Inr d' \<Longrightarrow> base_inv x d'"
  by (auto simp only: tag_on_first_shuffle_def Let_def split: if_splits intro: base_inv_tag_shuffle_seats)

lemma base_inv_init_teams: "base_inv x d \<Longrightarrow> init_teams env ts d = Inr d' \<Longrightarrow> base_inv x d'"
  by (induction env ts d rule: init_teams.induct) (auto split: if_splits option.splits)

lemma base_inv_tag_duel_init: "base_inv x d \<Longrightarrow> tag_on_duel_init env d = Inr d' \<Longrightarrow> base_inv x d'"
  unfolding tag_on_duel_init_def by (rule base_inv_init_teams)

lemma base_inv_tag_duel_start: "base_inv x d \<Longrightarrow> tag_on_duel_start env d = Inr d' \<Longrightarrow> base_inv x d'"
  by (auto simp: tag_on_duel_start_def Let_def intro: base_inv_refresh [rotated])

lemma base_inv_tag_swap: "base_inv x d \<Longrightarrow> tag_on_swap env m d = Inr d' \<Longrightarrow> base_inv x d'"
  by (auto simp: tag_on_swap_def Let_def intro: base_inv_refresh)

lemma base_inv_tag_set_waiting: "base_inv x d \<Longrightarrow> base_inv x (tag_set_waiting p d)"
  by (auto simp: tag_set_waiting_def Let_def split: option.split intro!: base_inv_map_player)

lemma next_operator_seat: "one_of_four i \<Longrightarrow> unat (next_operator t p i) < 4"
  by (auto simp: next_operator_def one_of_four_def split: option.splits intro: opponent_seat teammate_seat)

lemma tag_inv_rotate: "tag_inv d \<Longrightarrow> tag_inv (rotate_turn_player p d)"
  by (simp add: rotate_turn_player_def tag_inv_def base_inv_def routed_def team_ext_def)
    (simp add: one_of_four_def [of "Some _"] next_operator_seat)

section \<open>The registrations\<close>

lemma keeps_stopping: "keeps_room I run \<Longrightarrow> keeps_room I (stopping run)"
  unfolding keeps_def stopping_def by (fastforce split: option.splits)

lemma TAG_DUEL_YGOPRO_HANDLERS_keep:
  assumes "(k, h) \<in> set (TAG_DUEL_YGOPRO_HANDLERS env)"
  shows "keeps_room tag_inv (h_run h)"
proof -
  have "keeps_room tag_inv run_tag_create_game"
    unfolding run_tag_create_game_def by (rule keeps_intros) (auto intro: tag_inv_create_game)
  moreover have "keeps_room tag_inv run_tag_tp_result" "keeps_room tag_inv run_tag_leave_game"
    "keeps_room tag_inv run_tag_surrender" "keeps_room tag_inv run_tag_chat"
    unfolding run_tag_tp_result_def run_tag_leave_game_def run_tag_surrender_def run_tag_chat_def
    by (rule keeps_intros; auto simp: tag_on_chat_def intro: tag_inv_tp_result tag_inv_leave_game tag_inv_surrender)+
  moreover have "keeps_room tag_inv run_tag_hs_start" "keeps_room tag_inv run_tag_hand_result"
    unfolding run_tag_hs_start_def run_tag_hand_result_def
    by (rule keeps_stopping, rule keeps_tag, rule keeps_intros;
        auto intro: base_inv_tag_hs_start base_inv_tag_hand_result)+
  moreover have "keeps_room tag_inv (run_tag_request_field env)"
    unfolding run_tag_request_field_def
    by (rule keeps_tag, rule keeps_requesting_field) (simp add: base_inv_on_request_field)
  ultimately show ?thesis using assms by (auto simp: TAG_DUEL_YGOPRO_HANDLERS_def Let_def)
qed

lemma TAG_DUEL_YGOPRO_HANDLERS_EX_keep:
  assumes "(k, h) \<in> set (TAG_DUEL_YGOPRO_HANDLERS_EX env)"
  shows "keeps_room tag_inv (h_run h)"
proof -
  have "keeps_room tag_inv (run_tag_first_shuffle env)" "keeps_room tag_inv (run_tag_duel_init env)"
    "keeps_room tag_inv (run_tag_duel_start env)"
    unfolding run_tag_first_shuffle_def run_tag_duel_init_def run_tag_duel_start_def
    by (rule keeps_tag, rule keeps_on_any, simp,
        (rule base_inv_tag_first_shuffle base_inv_tag_duel_init base_inv_tag_duel_start; assumption))+
  moreover have "keeps_room tag_inv run_tag_duel_end" "keeps_room tag_inv run_tag_recreate_duel"
    unfolding run_tag_duel_end_def run_tag_recreate_duel_def
    by (rule keeps_intros; auto intro: tag_inv_duel_end tag_inv_recreate)+
  moreover have "keeps_room tag_inv run_tag_generate_replay"
    unfolding run_tag_generate_replay_def
    by (rule keeps_intros) (auto simp: done_with_def tag_on_generate_replay_def split: if_splits option.splits)
  moreover have "keeps_room tag_inv run_tag_judge_continue_match"
    unfolding run_tag_judge_continue_match_def judging_def by (rule keeps_on_duel) auto
  moreover have "keeps_room tag_inv run_timeout_tag"
    unfolding run_timeout_tag_def by (rule keeps_tag, rule keeps_on_ex) auto
  ultimately show ?thesis using assms by (auto simp: TAG_DUEL_YGOPRO_HANDLERS_EX_def Let_def)
qed

lemma TAG_DUEL_YGOCORE_HANDLERS_keep:
  assumes "(k, h) \<in> set (TAG_DUEL_YGOCORE_HANDLERS env)"
  shows "keeps_room tag_inv (h_run h)"
proof -
  have "keeps_room tag_inv run_tag_retry" "keeps_room tag_inv run_on_tag_swap"
    unfolding run_tag_retry_def run_on_tag_swap_def by (rule keeps_on_duel; auto)+
  moreover have "keeps_room tag_inv run_tag_new_turn" "keeps_room tag_inv run_tag_hint"
    unfolding run_tag_new_turn_def run_tag_hint_def
    by (rule keeps_on_duel; auto simp: skipped_def tag_on_new_turn_def tag_inv_rotate
        split: gm_Message.splits gm_GroupA.splits gm_GroupB.splits)+
  moreover have "keeps_room tag_inv (run_tag_swap env)"
    unfolding run_tag_swap_def
    by (rule keeps_tag, rule keeps_on_duel)
      (auto simp: skipped_def split: gm_Message.splits gm_GroupB.splits intro: base_inv_tag_swap)
  ultimately show ?thesis using assms by (auto simp: TAG_DUEL_YGOCORE_HANDLERS_def Let_def)
qed

section \<open>Steps and reachable rooms\<close>

definition tag_permuting :: "'c tag_sorts \<Rightarrow> bool" where
  "tag_permuting srt \<longleftrightarrow> (\<forall>xs. set (tsrt_ctos srt xs) = set xs) \<and> (\<forall>xs. set (tsrt_ex srt xs) = set xs) \<and>
     (\<forall>xs. set (tsrt_core srt xs) = set xs)"

lemma tag_permutingD [dest]:
  assumes "tag_permuting srt"
  shows "set (tsrt_ctos srt xs) = set xs" "set (tsrt_ex srt ys) = set ys" "set (tsrt_core srt zs) = set zs"
  using assms by (simp_all add: tag_permuting_def)

lemma tag_ctos_processor:
  assumes "tag_permuting srt" and "run_processor mul r (tag_ygopro_processor srt env) k q st = Inr (q', st', r')"
    and "tag_inv (st_duel st)"
  shows "tag_inv (st_duel st')"
  by (rule run_processor_keeps [where I = tag_inv, OF tag_permutingD(1) [OF assms(1)] _ assms(2) [unfolded tag_ygopro_processor_def] assms(3)])
    (auto intro: TAG_DUEL_YGOPRO_HANDLERS_keep keeps_tag YGOPRO_HANDLERS_keep plugin_handlers_keep)

lemma tag_ex_processor:
  assumes "tag_permuting srt" and "run_processor mul r (tag_ygopro_ex_processor srt env) k q st = Inr (q', st', r')"
    and "tag_inv (st_duel st)"
  shows "tag_inv (st_duel st')"
  by (rule run_processor_keeps [where I = tag_inv, OF tag_permutingD(2) [OF assms(1)] _ assms(2) [unfolded tag_ygopro_ex_processor_def] assms(3)])
    (auto intro: TAG_DUEL_YGOPRO_HANDLERS_EX_keep keeps_tag YGOPRO_HANDLERS_EX_keep plugin_handlers_ex_keep)

lemma tag_core_processor:
  assumes "tag_permuting srt" and "run_processor mul r (tag_ygocore_processor srt env) k q st = Inr (q', st', r')"
    and "tag_inv (st_duel st)"
  shows "tag_inv (st_duel st')"
  by (rule run_processor_keeps [where I = tag_inv, OF tag_permutingD(3) [OF assms(1)] _ assms(2) [unfolded tag_ygocore_processor_def] assms(3)])
    (auto intro: TAG_DUEL_YGOCORE_HANDLERS_keep keeps_tag core_handlers_keep [unfolded set_append Un_iff])

lemma tag_inv_send_list [simp]: "tag_inv (send_list ms t d) = tag_inv d"
  by (induction ms arbitrary: d) (simp_all add: send_list_def)

lemma tag_inv_queue_list [simp]: "tag_inv (queue_list rs d) = tag_inv d"
  by (induction rs d rule: queue_list.induct) simp_all

lemma tag_inv_step_message:
  assumes "tag_permuting srt" and "tag_step_message srt env m p st = Inr (st', ends)" and "tag_inv (st_duel st)"
  shows "tag_inv (st_duel st')"
proof (cases "gated m p (st_duel st)")
  case False
  with assms(2) obtain q st0 r where
    "run_processor Response_mul Response_default (tag_ygopro_processor srt env) (ctos_MessageType_into (ctos_type m))
       \<lparr> rq_message = m, rq_extra = p \<rparr> st = Inr (q, st0, r)"
    and "st' = fst (tag_answer_client (rq_extra q) r st0)"
    unfolding tag_step_message_def by (auto elim!: and_then_E)
  with tag_ctos_processor [OF assms(1) this(1) assms(3)] show ?thesis
    by (cases r) (simp_all add: tag_answer_client_def)
qed (use assms in \<open>simp add: tag_step_message_def\<close>)

lemma tag_inv_process_ex:
  "tag_permuting srt \<Longrightarrow> tag_process_ex srt env m t st = Inr (q, st', r) \<Longrightarrow> tag_inv (st_duel st) \<Longrightarrow> tag_inv (st_duel st')"
  unfolding tag_process_ex_def by (rule tag_ex_processor)

lemma tag_inv_answer_ex: "tag_inv (st_duel st) \<Longrightarrow> tag_inv (st_duel (tag_answer_ex q r st))"
  by (cases r) (simp_all add: tag_answer_ex_def)

lemma tag_inv_step_ex:
  "tag_permuting srt \<Longrightarrow> tag_step_ex srt env m t st = Inr st' \<Longrightarrow> tag_inv (st_duel st) \<Longrightarrow> tag_inv (st_duel st')"
  unfolding tag_step_ex_def by (auto elim!: and_then_E intro!: tag_inv_answer_ex elim: tag_inv_process_ex)

lemma base_inv_tag_retry_waiting: "base_inv x d \<Longrightarrow> base_inv x (tag_retry_waiting d)"
  by (simp add: tag_retry_waiting_def base_inv_tag_set_waiting split: option.split)

lemma base_inv_tag_route:
  assumes "base_inv x d" and "tag_route_core_message env m r d = Inr d'"
  shows "base_inv x d'"
proof -
  let ?refresh = "refresh env (cr_player r) (cr_locations r) (cr_sequence r) (cr_query r) (tag_transformer d)"
  from assms(2) obtain d1 d2 where
    1: "(case gm_waiting_for m of
          Some p \<Rightarrow> ?refresh (tag_set_waiting p d)
        | None \<Rightarrow> Inr (if is_retry m then tag_retry_waiting (pop_response d) else d)) = Inr d1"
    and 2: "send_game_message m (cr_target r) (tag_transformer d) d1 = Inr d2"
    and 3: "(if gm_waiting_for m = None then ?refresh d2 else Inr d2) = Inr d'"
    unfolding tag_route_core_message_def Let_def by (elim and_then_E)
  have "base_inv x d1"
    using 1 assms(1)
    by (cases "gm_waiting_for m")
      (auto split: if_splits intro: base_inv_tag_retry_waiting base_inv_refresh [OF base_inv_tag_set_waiting])
  then have "base_inv x d2" by (rule base_inv_send_game_message [OF _ 2])
  then show ?thesis using 3 by (auto split: if_splits intro: base_inv_refresh)
qed

lemma tag_inv_core_messages:
  assumes "tag_permuting srt"
  shows "tag_core_messages srt env ms st = Inr st' \<Longrightarrow> tag_inv (st_duel st) \<Longrightarrow> tag_inv (st_duel st')"
proof (induction ms arbitrary: st)
  case (Cons m ms)
  from Cons.prems(1) obtain q st0 r d where
    1: "run_processor CoreResponse_mul CoreResponse_default (tag_ygocore_processor srt env) (gm_type m)
          \<lparr> rq_message = m, rq_extra = UnknownPlayer \<rparr> st = Inr (q, st0, r)"
    and 2: "tag_route_core_message env (rq_message q) r (st_duel st0) = Inr d"
    and 3: "tag_core_messages srt env ms (st0 \<lparr> st_duel := d \<rparr>) = Inr st'"
    by (auto elim!: and_then_E)
  have "tag_inv d"
    using tag_inv_by_base [OF tag_core_processor [OF assms 1 Cons.prems(2)]] base_inv_tag_route [OF _ 2]
    by blast
  then show ?case using Cons.IH [OF 3] by simp
qed simp

lemma tag_inv_step_evolve:
  assumes "tag_permuting srt" and "tag_step_evolve srt env st = Inr st'" and "tag_inv (st_duel st)"
  shows "tag_inv (st_duel st')"
proof -
  from assms(2) obtain ms d where 1: "evolve env (st_duel st) = Inr (ms, d)"
    and 2: "tag_core_messages srt env ms (st \<lparr> st_duel := d \<rparr>) = Inr st'"
    unfolding tag_step_evolve_def by (auto elim!: and_then_E)
  have "tag_inv d" using tag_inv_by_base [OF assms(3)] base_inv_evolve [OF _ 1] by blast
  then show ?thesis using tag_inv_core_messages [OF assms(1) 2] by simp
qed

lemma tag_inv_run_command: "tag_inv (st_duel st) \<Longrightarrow> tag_inv (st_duel (snd (run_command env name arg st)))"
  by (erule tag_inv_by_base) (rule base_inv_run_command)

lemma tag_inv_step_request:
  assumes "tag_permuting srt" and "tag_step_request srt env r st = Inr (st', ends)" and "tag_inv (st_duel st)"
  shows "tag_inv (st_duel st')"
  using assms tag_inv_step_message tag_inv_step_ex tag_inv_step_evolve
proof (cases r)
  case (Req_Command n a)
  then show ?thesis using assms tag_inv_run_command [of st env n a] by (auto split: prod.splits)
qed (use assms tag_inv_step_message tag_inv_step_ex tag_inv_step_evolve in \<open>auto elim!: and_then_E\<close>)

fun tag_room_state :: "'c Tag_Room \<Rightarrow> 'c TagDuel State option" where
    "tag_room_state (Tag_Running st) = Some st"
  | "tag_room_state (Tag_Closed st) = Some st"
  | "tag_room_state (Tag_Crashed p) = None"

definition tag_room_inv :: "'c Tag_Room \<Rightarrow> bool" where
  "tag_room_inv room \<longleftrightarrow> (case tag_room_state room of None \<Rightarrow> True | Some st \<Rightarrow> tag_inv (st_duel st))"

lemma tag_inv_requests [simp]: "tag_inv (d_requests_update f d) = tag_inv d"
  by (simp add: tag_inv_def base_inv_def routed_def team_ext_def)

lemma tag_take_request_Some:
  "tag_take_request st = Some (r, st') \<Longrightarrow> st' = map_duel (d_requests_update tl) st"
  by (auto simp: tag_take_request_def map_duel_def split: list.splits)

lemma tag_room_inv_close: "tag_permuting srt \<Longrightarrow> tag_inv (st_duel st) \<Longrightarrow> tag_room_inv (tag_close_room srt env st)"
  using tag_inv_process_ex by (fastforce simp: tag_close_room_def tag_room_inv_def split: sum.split)

lemma tag_room_inv_step:
  assumes "tag_permuting srt" and "tag_inv (st_duel st)" and "tag_room_step srt env st = Some room"
  shows "tag_room_inv room"
proof -
  from assms(3) obtain r st0 where t: "tag_take_request st = Some (r, st0)"
    by (auto simp: tag_room_step_def split: option.splits)
  then have i: "tag_inv (st_duel st0)" using tag_take_request_Some [OF t] assms(2) by simp
  show ?thesis
  proof (cases "tag_step_request srt env r st0")
    case (Inl p)
    then show ?thesis using assms(3) t by (auto simp: tag_room_step_def tag_room_inv_def)
  next
    case (Inr x)
    obtain st1 ends where x: "x = (st1, ends)" by (cases x)
    have "tag_inv (st_duel st1)" using tag_inv_step_request [OF assms(1) _ i] Inr x by simp
    then show ?thesis
      using assms(1,3) t Inr x tag_room_inv_close by (auto simp: tag_room_step_def tag_room_inv_def split: if_splits)
  qed
qed

lemma tag_inv_new: "tag_inv (TagDuel_new env info no_mask)"
  by (simp add: tag_inv_def base_inv_def routed_def team_ext_def TagDuel_new_def Duel_new_def Sender_new_def
      one_of_four_def Duel.Duel.extend_def TagDuel.TagDuel.fields_def)

lemma tag_reachable_inv:
  assumes "tag_permuting srt" and "tag_reachable srt env room"
  shows "tag_room_inv room"
  using assms(2)
proof (induction rule: tag_reachable.induct)
  case (start info no_mask)
  then show ?case by (simp add: tag_room_inv_def tag_room_start_def tag_inv_new)
next
  case (arrival st r)
  then show ?case by (simp add: tag_room_inv_def tag_arrive_def)
next
  case (step st room)
  then show ?case using tag_room_inv_step [OF assms(1)] by (simp add: tag_room_inv_def)
qed

end
