(* ===== verification/TagProperties.thy ===== *)
theory TagProperties
  imports TagInvariants RoomSamples
begin

text \<open>
  Properties of the rooms for two teams: the seats and the turn player of a reachable room, how the players
  of the engine and the positions at the table correspond, the order in which the four players have their
  turns, and when a team gives up.
\<close>

lemma four_seats:
  fixes i :: PlayerIndex
  assumes "unat i < 4"
  obtains "i = 0" | "i = 1" | "i = 2" | "i = 3"
proof -
  from assms have "i \<in> {0, 1, 2, 3}" by (auto simp: word_unat_eq_iff)
  then show ?thesis using that by blast
qed

lemma tag_inv_seats:
  assumes "tag_inv d"
  shows "d_max_player_count d \<in> {0, 4}" "length (d_players d) = d_max_player_count d"
    "one_of_four (td_current_turn_player d)" "length (td_surrender d) = 4" "routed d"
  using assms by (auto simp: tag_inv_def base_inv_def routed_def team_ext_def)

lemma tag_reachable_tag_inv:
  "tag_permuting srt \<Longrightarrow> tag_reachable srt env (Tag_Running st) \<Longrightarrow> tag_inv (st_duel st)"
  using tag_reachable_inv by (fastforce simp: tag_room_inv_def)

section \<open>A small run\<close>

definition tag_sample_sorts :: "'c tag_sorts" where
  "tag_sample_sorts = \<lparr> tsrt_ctos = sort_key h_priority, tsrt_ex = sort_key h_priority, tsrt_core = sort_key h_priority \<rparr>"

definition tag_modules :: "str list" where
  "tag_modules = [lit ''ygopro::ygopro_handlers'', lit ''ygopro::tag_duel::ygopro_handlers'']"

lemma tag_permuting_sample: "tag_permuting (tag_sample_sorts :: 'c tag_sorts)"
  by (simp add: tag_permuting_def tag_sample_sorts_def)

lemma tag_create_game_chain:
  "map h_run (handlers_for (tag_ygopro_processor tag_sample_sorts (sample_env tag_modules)) 17) =
     [run_tag_create_game, run_on_create_game]"
  by (simp add: tag_ygopro_processor_def tag_sample_sorts_def tag_modules_def TAG_DUEL_YGOPRO_HANDLERS_def dispatch_defs)

lemma tag_tp_result_chain:
  "map h_run (handlers_for (tag_ygopro_processor tag_sample_sorts (sample_env tag_modules)) 4) =
     [run_tag_tp_result, run_on_tp_result (sample_env tag_modules)]"
  by (simp add: tag_ygopro_processor_def tag_sample_sorts_def tag_modules_def TAG_DUEL_YGOPRO_HANDLERS_def dispatch_defs)

lemmas tag_step_evaluation =
  tag_step_message_def gated_def run_processor_def process_bundle_def run_chain_bodies Bundle_new_def on_any_def
  by_anybody_def by_player_def on_duel_def on_state_def done_with_def tag_answer_client_def map_duel_def
  Response_default_def into_response_unit_def

lemma tag_sample_create_game:
  "tag_step_message tag_sample_sorts (sample_env tag_modules) (Ctos_CreateGame info name pass) UnknownPlayer st =
   Inr (map_duel (\<lambda>d. on_create_game info name pass (tag_on_create_game d)) st, False)"
  by (simp add: tag_step_evaluation tag_create_game_chain run_tag_create_game_def run_on_create_game_def)

lemma tag_sample_tp_result:
  assumes "get_player (st_duel st) 0 = None" and "d_max_player_count (st_duel st) = 4"
  shows "tag_step_message tag_sample_sorts (sample_env tag_modules) (Ctos_TpResult FirstAttackPlayer) (Player 0) st =
   Inr (map_duel (\<lambda>d. on_tp_result (sample_env tag_modules) (tag_on_tp_result 0 FirstAttackPlayer d)) st, False)"
  using assms
  by (simp add: tag_step_evaluation tag_tp_result_chain run_tag_tp_result_def run_on_tp_result_def extract_player_def)

lemma tag_reach_by:
  assumes "tag_reachable srt env (Tag_Running st)" and "d_requests (st_duel st) = []"
    and "tag_step_request srt env r st = Inr (st', False)"
  shows "tag_reachable srt env (Tag_Running st')"
proof (rule tag_reachable.step)
  show "tag_reachable srt env (Tag_Running (tag_arrive r st))" using assms(1) by (rule tag_reachable.arrival)
  have "tag_take_request (tag_arrive r st) = Some (r, st)"
    using assms(2) by (simp add: tag_take_request_def tag_arrive_def map_duel_def queue_def)
  then show "tag_room_step srt env (tag_arrive r st) = Some (Tag_Running st')"
    using assms(3) by (simp add: tag_room_step_def)
qed

text \<open>A game is created and somebody in the first seat says who attacks first.\<close>

lemma tag_sample_reachable:
  "\<exists>st. tag_reachable tag_sample_sorts (sample_env tag_modules) (Tag_Running st) \<and>
     td_current_turn_player (st_duel st) = Some 0 \<and> td_first_attack_team (st_duel st) = Some Team1 \<and>
     td_surrender (st_duel st) = replicate 4 False \<and> \<not> core_ended (d_core (st_duel st))"
proof -
  let ?srt = "tag_sample_sorts :: unit tag_sorts" and ?env = "sample_env tag_modules"
  let ?st0 = "tag_room_start ?env HostInfo_default False"
  let ?name = "FixedLengthString_allocate 20"
  let ?st1 = "map_duel (\<lambda>d. on_create_game HostInfo_default ?name ?name (tag_on_create_game d)) ?st0"
  let ?st2 = "map_duel (\<lambda>d. on_tp_result ?env (tag_on_tp_result 0 FirstAttackPlayer d)) ?st1"
  note evaluation = tag_room_start_def TagDuel_new_def Duel_new_def Duel.Duel.extend_def TagDuel.TagDuel.fields_def
    map_duel_def on_create_game_def tag_on_create_game_def
  have "tag_step_request ?srt ?env (Req_Message (Ctos_CreateGame HostInfo_default ?name ?name) UnknownPlayer) ?st0 =
      Inr (?st1, False)"
    by (simp add: tag_sample_create_game)
  from tag_reach_by [OF tag_reachable.start _ this]
  have 1: "tag_reachable ?srt ?env (Tag_Running ?st1)" by (simp add: evaluation)
  have "tag_step_request ?srt ?env (Req_Message (Ctos_TpResult FirstAttackPlayer) (Player 0)) ?st1 = Inr (?st2, False)"
    using tag_sample_tp_result [of ?st1] by (simp add: evaluation get_player_def)
  from tag_reach_by [OF 1 _ this] have "tag_reachable ?srt ?env (Tag_Running ?st2)" by (simp add: evaluation)
  moreover have "td_current_turn_player (st_duel ?st2) = Some 0" "td_first_attack_team (st_duel ?st2) = Some Team1"
      "td_surrender (st_duel ?st2) = replicate 4 False" "\<not> core_ended (d_core (st_duel ?st2))"
    by (simp_all add: evaluation on_tp_result_def tag_on_tp_result_def queue_request_ex_def queue_def map_core_def
        team_def Core_set_player_info_def sample_env_def Let_def)
  ultimately show ?thesis by blast
qed

section \<open>The players of the engine\<close>

lemma opponent_other_team: "unat i < 4 \<Longrightarrow> team (opponent t i) = opponent_team (team i)"
  by (erule four_seats; cases t) (simp_all add: team_def)

lemma team_teammate: "unat i < 4 \<Longrightarrow> team (teammate i) = team i"
  by (erule four_seats) (simp_all add: team_def teammate_def)

lemma teammate_neq: "teammate i \<noteq> i"
proof
  assume "teammate i = i"
  moreover have "i XOR teammate i = 1" by (simp add: teammate_def xor.assoc [symmetric])
  ultimately show False by simp
qed

lemma teammate_teammate [simp]: "teammate (teammate i) = i"
  by (simp add: teammate_def xor.assoc)

lemma opponent_team_neq [simp]: "opponent_team t \<noteq> t" "t \<noteq> opponent_team t" "opponent_team (opponent_team t) = t"
  by (cases t; simp)+

lemma other_team: "s \<noteq> t \<Longrightarrow> opponent_team t = s"
  by (cases s; cases t) simp_all

text \<open>C8: while a turn is running, each of the two players of the engine is one of the four clients: the
  first one a member of the team that attacks first, the second one of the other team. In every room for two
  teams that can be reached the two positions exist, the position is mapped back to the player of the
  engine it came from, and the partners of the two are nobody to the engine, so that they get the masked
  copy of what only their team mate may see.\<close>

theorem tag_transformer_faithful:
  assumes "tag_permuting srt" and "tag_reachable srt env (Tag_Running st)"
    and "td_current_turn_player (st_duel st) \<noteq> None"
  shows "\<exists>a b. let t = player_transformer (st_duel st) in
    tag_to_player_index t FirstAttackPlayer = Some a \<and> tag_to_player_index t SecondAttackPlayer = Some b \<and>
    unat a < 4 \<and> unat b < 4 \<and> team a = first_team (st_duel st) \<and> team b \<noteq> team a \<and>
    tag_to_core_player t (Player a) = FirstAttackPlayer \<and> tag_to_core_player t (Player b) = SecondAttackPlayer \<and>
    tag_to_core_player t (Player (teammate a)) = NoPlayer \<and> tag_to_core_player t (Player (teammate b)) = RulePlayer"
proof -
  define t where "t = player_transformer (st_duel st)"
  obtain i where i: "td_current_turn_player (st_duel st) = Some i" "unat i < 4"
    using assms(3) tag_inv_seats(3) [OF tag_reachable_tag_inv [OF assms(1,2)]] by (auto simp: one_of_four_def)
  let ?f = "first_team (st_duel st)"
  let ?j = "opponent ?f i"
  have t: "tt_current_turn_player t = Some i" "tt_first_attack_team t = ?f"
    by (simp_all add: t_def player_transformer_def i)
  note teams = opponent_other_team [OF i(2)] opponent_seat [OF i(2)] team_teammate [OF i(2)]
    team_teammate [OF opponent_seat [OF i(2)]]
  have partners: "teammate i \<noteq> i" "teammate i \<noteq> ?j" "teammate ?j \<noteq> i" "teammate ?j \<noteq> ?j"
    using teams by (metis opponent_team_neq(1) teammate_neq)+
  show ?thesis
  proof (cases "team i = ?f")
    case True
    then show ?thesis using i(2) teams partners
      by (intro exI [of _ i] exI [of _ ?j])
        (simp add: t_def [symmetric] t tag_to_player_index_def tag_to_core_player_def team_to_core_player_def)
  next
    case False
    then have "opponent_team (team i) = ?f" by (metis other_team)
    then show ?thesis using False i(2) teams partners
      by (intro exI [of _ ?j] exI [of _ i])
        (simp add: t_def [symmetric] t tag_to_player_index_def tag_to_core_player_def team_to_core_player_def)
  qed
qed

lemma tag_transformer_faithful_witness:
  "\<exists>st a. tag_reachable tag_sample_sorts (sample_env tag_modules) (Tag_Running st) \<and>
     tag_to_player_index (player_transformer (st_duel st)) FirstAttackPlayer = Some a \<and> team a = Team1"
proof -
  obtain st where st: "tag_reachable tag_sample_sorts (sample_env tag_modules) (Tag_Running st)"
    "td_current_turn_player (st_duel st) = Some 0" "td_first_attack_team (st_duel st) = Some Team1"
    using tag_sample_reachable by blast
  with tag_transformer_faithful [OF tag_permuting_sample st(1)] show ?thesis
    by (auto simp: first_team_def Let_def)
qed

section \<open>The order of the turns\<close>

definition turn_order :: "TeamIndex \<Rightarrow> PlayerIndex list" where
  "turn_order first =
     [leader first, leader (opponent_team first), teammate (leader first), teammate (leader (opponent_team first))]"

text \<open>The messages of the engine for a number of turns, the players taking turns.\<close>

definition whose_turn :: "nat \<Rightarrow> CorePlayer" where
  "whose_turn n = (if even n then FirstAttackPlayer else SecondAttackPlayer)"

primrec play_turns :: "nat \<Rightarrow> 'c TagDuel \<Rightarrow> 'c TagDuel" where
    "play_turns 0 d = d"
  | "play_turns (Suc n) d = fst (tag_on_new_turn (whose_turn n) (play_turns n d))"

lemma first_team_rotate [simp]: "first_team (fst (tag_on_new_turn p d)) = first_team d"
  by (simp add: tag_on_new_turn_def rotate_turn_player_def first_team_def)

lemma first_team_play [simp]: "first_team (play_turns n d) = first_team d"
  by (induction n) simp_all

lemma next_in_order:
  "next_operator first (whose_turn (Suc n)) (Some (turn_order first ! (n mod 4))) = turn_order first ! (Suc n mod 4)"
proof -
  have "n mod 4 \<in> {0, 1, 2, 3}" by auto
  moreover have "even n \<longleftrightarrow> even (n mod 4)" by presburger
  moreover have "Suc n mod 4 = Suc (n mod 4) mod 4" by presburger
  ultimately show ?thesis
    by (cases first) (auto simp: next_operator_def whose_turn_def turn_order_def teammate_def)
qed

text \<open>C10: the four players have their turns in a fixed order: the leader of the team that attacks first, the
  leader of the other team, the partner of the first, the partner of the second, and so on from the
  beginning; and the player whose turn it is belongs to the team the engine names. The duel begins, as the
  handler that says who attacks first leaves it, with the leader of the first team.\<close>

theorem tag_turn_order:
  assumes "td_current_turn_player d = Some (leader (first_team d))"
  shows "td_current_turn_player (play_turns (Suc n) d) = Some (turn_order (first_team d) ! (n mod 4)) \<and>
    team_to_core_player (player_transformer (play_turns (Suc n) d)) (team (turn_order (first_team d) ! (n mod 4))) =
      whose_turn n"
proof
  show "td_current_turn_player (play_turns (Suc n) d) = Some (turn_order (first_team d) ! (n mod 4))"
  proof (induction n)
    case 0
    then show ?case using assms
      by (simp add: tag_on_new_turn_def rotate_turn_player_def next_operator_def whose_turn_def turn_order_def)
  next
    case (Suc n)
    have "td_current_turn_player (play_turns (Suc (Suc n)) d) =
        Some (next_operator (first_team (play_turns (Suc n) d)) (whose_turn (Suc n))
          (td_current_turn_player (play_turns (Suc n) d)))"
      by (simp add: tag_on_new_turn_def [of "whose_turn (Suc n)"] rotate_turn_player_def)
    then show ?case by (simp only: Suc.IH first_team_play next_in_order)
  qed
next
  have "n mod 4 \<in> {0, 1, 2, 3}" by auto
  moreover have "even n \<longleftrightarrow> even (n mod 4)" by presburger
  ultimately show "team_to_core_player (player_transformer (play_turns (Suc n) d))
      (team (turn_order (first_team d) ! (n mod 4))) = whose_turn n"
    unfolding team_to_core_player_def player_transformer_def
    by (cases "first_team d")
      (auto simp del: play_turns.simps simp: whose_turn_def turn_order_def team_def teammate_def)
qed

lemma tag_turn_order_witness:
  fixes d :: "unit TagDuel"
  defines "d \<equiv> tag_on_tp_result 3 FirstAttackPlayer (TagDuel_new (sample_env []) HostInfo_default False)"
  shows "td_current_turn_player (play_turns 4 d) = Some 1"
proof -
  have first: "first_team d = Team2" and "td_current_turn_player d = Some (leader (first_team d))"
    by (simp_all add: d_def tag_on_tp_result_def first_team_def team_def Let_def)
  from tag_turn_order [OF this(2), of 3] have "td_current_turn_player (play_turns (Suc 3) d) = Some (turn_order Team2 ! 3)"
    unfolding first by simp
  moreover have "turn_order Team2 ! 3 = 1" by (simp add: turn_order_def teammate_def)
  moreover have "Suc 3 = 4" by simp
  ultimately show ?thesis by metis
qed

section \<open>Giving up\<close>

text \<open>A team gives up when both of its members do. In every room for two teams that can be reached, while
  the duel is running, a member whose partner has not given up is only recorded, and both members are told;
  a member whose partner has given up ends the duel in favour of the other team; a member that has given up
  before changes nothing. No other seat's record changes, and the handler never panics for a seat.\<close>

theorem tag_surrender_takes_both:
  assumes "tag_permuting srt" and "tag_reachable srt env (Tag_Running st)" and "unat i < 4"
    and "\<not> core_ended (d_core (st_duel st))"
  shows "\<exists>d'. tag_on_surrender i (st_duel st) = Inr d' \<and>
    d_requests d' = d_requests (st_duel st) @
      (if \<not> td_surrender (st_duel st) ! unat i \<and> td_surrender (st_duel st) ! unat (teammate i)
       then [Req_MessageEx (Y_DuelEnd
               (if team i = first_team (st_duel st) then SecondAttackPlayer else FirstAttackPlayer)
               WinReason_OpponentSurrender) To_All]
       else []) \<and>
    (\<forall>j. td_surrender d' ! j =
      (td_surrender (st_duel st) ! j \<or>
        j = unat i \<and> \<not> td_surrender (st_duel st) ! unat (teammate i)))"
proof -
  have n: "length (td_surrender (st_duel st)) = 4"
    using tag_inv_seats(4) [OF tag_reachable_tag_inv [OF assms(1,2)]] .
  have j: "unat (teammate i) < 4" using assms(3) by (rule teammate_seat)
  have win: "team_to_core_player (player_transformer (st_duel st)) (opponent_team (team i)) =
      (if team i = first_team (st_duel st) then SecondAttackPlayer else FirstAttackPlayer)"
    by (cases "team i"; cases "first_team (st_duel st)") (simp_all add: team_to_core_player_def player_transformer_def)
  show ?thesis
    using n j assms(3,4)
    by (auto simp: tag_on_surrender_def win send_win_def queue_request_ex_def queue_def send_def nth_list_update)
qed

lemma tag_surrender_takes_both_witness:
  "\<exists>st d'. tag_reachable tag_sample_sorts (sample_env tag_modules) (Tag_Running st) \<and>
     tag_on_surrender 2 (st_duel st) = Inr d' \<and> td_surrender d' ! 2"
proof -
  obtain st where st: "tag_reachable tag_sample_sorts (sample_env tag_modules) (Tag_Running st)"
    "td_surrender (st_duel st) = replicate 4 False" "\<not> core_ended (d_core (st_duel st))"
    using tag_sample_reachable by blast
  have "teammate 2 = 3" by (simp add: teammate_def)
  with st(2) tag_surrender_takes_both [OF tag_permuting_sample st(1) _ st(3), of 2]
  obtain d' where "tag_on_surrender 2 (st_duel st) = Inr d'" "td_surrender d' ! 2" by auto
  with st(1) show ?thesis by blast
qed

section \<open>The next duel of a match\<close>

text \<open>After a duel without a winner the choice goes to seat one, the partner of the leader who had it, not to
  the other team.\<close>

lemma drawn_tag_duel_keeps_the_team:
  assumes "d_first_attack_decider d = Some (leader t)" and "td_duel_winner d \<noteq> []" and "last (td_duel_winner d) = None"
  shows "d_first_attack_decider (tag_on_recreate_duel d) = Some (teammate (leader t)) \<and> team (teammate (leader t)) = t"
  using assms by (cases t) (simp_all add: tag_on_recreate_duel_def Let_def teammate_def team_def)

end
