(* ===== verification/SlotMap.thy ===== *)
theory SlotMap
  imports Prelude
begin

text \<open>
  The crate slotmap as the board uses it: a store that hands out keys which are never given to another
  value, so that an old key finds nothing rather than something else. Which key an insertion gets is the
  crate's decision; the model keeps the keys handed out so far, and the choice is the parameter fresh of
  the operations that insert. What the crate documents is the law of the locale.
\<close>

type_synonym CardKey = nat

type_synonym fresh_key = "CardKey list \<Rightarrow> CardKey"

record 'a SlotMap =
  sm_items :: "CardKey \<Rightarrow> 'a option"
  sm_keys :: "CardKey list"

definition SlotMap_new :: "'a SlotMap" where
  "SlotMap_new = \<lparr> sm_items = (\<lambda>k. None), sm_keys = [] \<rparr>"

definition sm_get :: "'a SlotMap \<Rightarrow> CardKey \<Rightarrow> 'a option" where
  "sm_get m k = sm_items m k"

definition sm_insert :: "fresh_key \<Rightarrow> 'a \<Rightarrow> 'a SlotMap \<Rightarrow> CardKey \<times> 'a SlotMap" where
  "sm_insert fresh x m =
     (let k = fresh (sm_keys m) in (k, \<lparr> sm_items = (sm_items m)(k := Some x), sm_keys = k # sm_keys m \<rparr>))"

definition sm_remove :: "CardKey \<Rightarrow> 'a SlotMap \<Rightarrow> 'a SlotMap" where
  "sm_remove k m = m \<lparr> sm_items := (sm_items m)(k := None) \<rparr>"

text \<open>Changing the value of a key, if there is one, and of every key of a set.\<close>

definition sm_update :: "CardKey \<Rightarrow> ('a \<Rightarrow> 'a) \<Rightarrow> 'a SlotMap \<Rightarrow> 'a SlotMap" where
  "sm_update k g m = m \<lparr> sm_items := (sm_items m)(k := map_option g (sm_items m k)) \<rparr>"

definition sm_update_all :: "CardKey set \<Rightarrow> ('a \<Rightarrow> 'a) \<Rightarrow> 'a SlotMap \<Rightarrow> 'a SlotMap" where
  "sm_update_all ks g m = m \<lparr> sm_items := (\<lambda>k. if k \<in> ks then map_option g (sm_items m k) else sm_items m k) \<rparr>"

lemma sm_get_update [simp]: "sm_get (sm_update k g m) j = (if j = k then map_option g (sm_get m j) else sm_get m j)"
  by (simp add: sm_get_def sm_update_def)

lemma sm_get_update_all [simp]:
  "sm_get (sm_update_all ks g m) j = (if j \<in> ks then map_option g (sm_get m j) else sm_get m j)"
  by (simp add: sm_get_def sm_update_all_def)

lemma sm_get_remove [simp]: "sm_get (sm_remove k m) j = (if j = k then None else sm_get m j)"
  by (simp add: sm_get_def sm_remove_def)

lemma sm_get_new [simp]: "sm_get SlotMap_new k = None"
  by (simp add: sm_get_def SlotMap_new_def)

lemma sm_get_insert: "sm_insert fresh x m = (k, m') \<Longrightarrow> sm_get m' j = (if j = k then Some x else sm_get m j)"
  by (auto simp: sm_insert_def sm_get_def Let_def)

lemma sm_keys_ops [simp]:
  "sm_keys (sm_update k g m) = sm_keys m" "sm_keys (sm_update_all ks g m) = sm_keys m" "sm_keys (sm_remove k m) = sm_keys m"
  by (simp_all add: sm_update_def sm_update_all_def sm_remove_def)

text \<open>Every value has a key that was handed out.\<close>

definition wf_slotmap :: "'a SlotMap \<Rightarrow> bool" where
  "wf_slotmap m \<longleftrightarrow> (\<forall>k x. sm_items m k = Some x \<longrightarrow> k \<in> set (sm_keys m))"

lemma wf_slotmap_ops [simp]:
  "wf_slotmap SlotMap_new" "wf_slotmap m \<Longrightarrow> wf_slotmap (sm_update k g m)"
  "wf_slotmap m \<Longrightarrow> wf_slotmap (sm_update_all ks g m)" "wf_slotmap m \<Longrightarrow> wf_slotmap (sm_remove k m)"
  by (auto simp: wf_slotmap_def SlotMap_new_def sm_update_def sm_update_all_def sm_remove_def split: if_splits)

locale slotmap_crate =
  fixes fresh :: fresh_key
  assumes fresh_new: "fresh ks \<notin> set ks"
begin

lemma wf_insert: "wf_slotmap m \<Longrightarrow> sm_insert fresh x m = (k, m') \<Longrightarrow> wf_slotmap m'"
  by (auto simp: wf_slotmap_def sm_insert_def Let_def split: if_splits)

lemma insert_fresh: "wf_slotmap m \<Longrightarrow> sm_insert fresh x m = (k, m') \<Longrightarrow> sm_get m k = None \<and> k \<notin> set (sm_keys m)"
  using fresh_new [of "sm_keys m"] by (cases "sm_items m k") (auto simp: wf_slotmap_def sm_insert_def sm_get_def Let_def)

end

text \<open>Counting upwards is such a choice.\<close>

definition next_key :: fresh_key where
  "next_key ks = Suc (fold max ks 0)"

lemma fold_max_ge: "n \<le> fold max ks (n :: nat) \<and> (k \<in> set ks \<longrightarrow> k \<le> fold max ks n)"
  by (induction ks arbitrary: n) (auto, (meson dual_order.trans max.cobounded1 max.cobounded2)+)

interpretation counting: slotmap_crate next_key
proof
  fix ks show "next_key ks \<notin> set ks"
    using fold_max_ge [of 0 ks "next_key ks"] by (auto simp: next_key_def)
qed

end
