(* ===== verification/DuelField.thy ===== *)
theory DuelField
  imports SlotMap GameMessage
begin

text \<open>
  The board of a duel rebuilt from the messages of the engine (ygopro-data/src/field.rs): the cards in a
  slot map, the zones as lists or slots of keys for each of the two players, overlay materials in the card
  above them, the chain, the life points. A zone of a player is looked up by index in an array of two,
  which panics for anybody but the two players.
\<close>

section \<open>Cards, chains, life points\<close>

record FieldCard =
  fc_code :: u32
  fc_alias :: u32
  fc_card_type :: u32
  fc_level :: u32
  fc_rank :: u32
  fc_link :: u32
  fc_attribute :: u32
  fc_race :: u32
  fc_attack :: i32
  fc_defense :: i32
  fc_base_attack :: i32
  fc_base_defense :: i32
  fc_left_scale :: u32
  fc_right_scale :: u32
  fc_link_marker :: u32
  fc_reason :: u32
  fc_owner :: CorePlayer
  fc_controller :: CorePlayer
  fc_location :: u8
  fc_sequence :: u8
  fc_position :: u8
  fc_status :: u32
  fc_card_hint_type :: "CardHint option"
  fc_card_hint_value :: i32
  fc_overlay_target :: "CardKey option"
  fc_overlayed :: "CardKey list"
  fc_equip_target :: "CardKey option"
  fc_equipped :: "CardKey set"
  fc_card_target :: "CardKey set"
  fc_owner_target :: "CardKey set"
  fc_counters :: "u16 \<Rightarrow> u16 option"
  fc_description_hints :: "i32 \<Rightarrow> i32 option"

definition FieldCard_default :: FieldCard where
  "FieldCard_default =
     \<lparr> fc_code = 0, fc_alias = 0, fc_card_type = 0, fc_level = 0, fc_rank = 0, fc_link = 0, fc_attribute = 0,
       fc_race = 0, fc_attack = 0, fc_defense = 0, fc_base_attack = 0, fc_base_defense = 0, fc_left_scale = 0,
       fc_right_scale = 0, fc_link_marker = 0, fc_reason = 0, fc_owner = NoPlayer, fc_controller = NoPlayer,
       fc_location = Location_bits Location_Limbo, fc_sequence = 0, fc_position = Position_bits Position_Any,
       fc_status = 0, fc_card_hint_type = None, fc_card_hint_value = 0, fc_overlay_target = None,
       fc_overlayed = [], fc_equip_target = None, fc_equipped = {}, fc_card_target = {}, fc_owner_target = {},
       fc_counters = (\<lambda>t. None), fc_description_hints = (\<lambda>v. None) \<rparr>"

definition set_code :: "u32 \<Rightarrow> FieldCard \<Rightarrow> FieldCard" where
  "set_code code c = (if fc_code c = code then c else c \<lparr> fc_code := code \<rparr>)"

definition clear_card :: "FieldCard \<Rightarrow> FieldCard" where
  "clear_card c =
     c \<lparr> fc_alias := 0, fc_card_type := 0, fc_level := 0, fc_rank := 0, fc_race := 0, fc_attribute := 0,
         fc_attack := 0, fc_defense := 0, fc_base_attack := 0, fc_base_defense := 0, fc_left_scale := 0,
         fc_right_scale := 0, fc_link := 0, fc_link_marker := 0, fc_status := 0, fc_counters := (\<lambda>t. None) \<rparr>"

record ChainInfo =
  ci_chain_card :: "CardKey option"
  ci_code :: u32
  ci_description :: i32
  ci_controller :: CorePlayer
  ci_location :: u8
  ci_sequence :: u8
  ci_solved :: bool
  ci_negated :: bool
  ci_disabled :: bool
  ci_target :: "CardKey set"

definition ChainInfo_default :: ChainInfo where
  "ChainInfo_default =
     \<lparr> ci_chain_card = None, ci_code = 0, ci_description = 0, ci_controller = NoPlayer,
       ci_location = Location_bits Location_Limbo, ci_sequence = 0, ci_solved = False, ci_negated = False,
       ci_disabled = False, ci_target = {} \<rparr>"

record DuelInfo =
  di_lp :: "i32 list"
  di_turn :: i32
  di_duel_rule :: MasterRule

definition DuelInfo_default :: DuelInfo where
  "DuelInfo_default = \<lparr> di_lp = [0, 0], di_turn = 0, di_duel_rule = MasterRule_MasterRule2020 \<rparr>"

definition player_index :: "CorePlayer \<Rightarrow> nat" where
  "player_index p = unat (CorePlayer_repr p)"

definition max0 :: "i32 \<Rightarrow> i32" where
  "max0 x = (if sint x < 0 then 0 else x)"

definition change_lp :: "CorePlayer \<Rightarrow> (i32 \<Rightarrow> i32) \<Rightarrow> DuelInfo \<Rightarrow> DuelInfo res" where
  "change_lp p g d =
     and_then (index (di_lp d) (player_index p)) (\<lambda>lp. Inr (d \<lparr> di_lp := (di_lp d)[player_index p := g lp] \<rparr>))"

definition DuelInfo_evolve :: "gm_Message \<Rightarrow> DuelInfo \<Rightarrow> DuelInfo res" where
  "DuelInfo_evolve m d =
     (case m of
        GM_NewTurn p \<Rightarrow> Inr (d \<lparr> di_turn := di_turn d + 1 \<rparr>)
      | GM_Damage x \<Rightarrow> change_lp (gm_Damage_player x) (\<lambda>lp. max0 (lp - gm_Damage_value x)) d
      | GM_Recover x \<Rightarrow> change_lp (gm_Recover_player x) (\<lambda>lp. lp + gm_Recover_value x) d
      | GM_LPUpdate x \<Rightarrow> change_lp (gm_LPUpdate_player x) (\<lambda>lp. gm_LPUpdate_lp x) d
      | GM_PayLPCost x \<Rightarrow> change_lp (gm_PayLPCost_player x) (\<lambda>lp. max0 (lp - gm_PayLPCost_cost x)) d
      | _ \<Rightarrow> Inr d)"

section \<open>The field\<close>

record DuelField =
  f_cards :: "FieldCard SlotMap"
  f_deck :: "CardKey list list"
  f_hand :: "CardKey list list"
  f_mzone :: "CardKey option list list"
  f_szone :: "CardKey option list list"
  f_grave :: "CardKey list list"
  f_remove :: "CardKey list list"
  f_extra :: "CardKey list list"
  f_extra_pendulum_count :: "i32 list"
  f_duel_info :: DuelInfo
  f_chains :: "ChainInfo list"
  f_current_chain :: ChainInfo
  f_attacker :: "CardKey option"
  f_attack_target :: "CardKey option"
  f_disabled_field :: u32
  f_deck_reversed :: bool
  f_player_description_hints :: "(i32 \<Rightarrow> i32 option) list"

definition DuelField_default :: DuelField where
  "DuelField_default =
     \<lparr> f_cards = SlotMap_new, f_deck = [[], []], f_hand = [[], []],
       f_mzone = [replicate 7 None, replicate 7 None], f_szone = [replicate 8 None, replicate 8 None],
       f_grave = [[], []], f_remove = [[], []], f_extra = [[], []], f_extra_pendulum_count = [0, 0],
       f_duel_info = DuelInfo_default, f_chains = [], f_current_chain = ChainInfo_default, f_attacker = None,
       f_attack_target = None, f_disabled_field = 0, f_deck_reversed = False,
       f_player_description_hints = [\<lambda>v. None, \<lambda>v. None] \<rparr>"

definition clear_field :: "DuelField \<Rightarrow> DuelField" where
  "clear_field f = DuelField_default \<lparr> f_duel_info := f_duel_info f \<rparr>"

subsection \<open>Cards by key\<close>

definition create_card :: "fresh_key \<Rightarrow> DuelField \<Rightarrow> CardKey \<times> DuelField" where
  "create_card fresh f =
     (case sm_insert fresh FieldCard_default (f_cards f) of (k, m) \<Rightarrow> (k, f \<lparr> f_cards := m \<rparr>))"

definition with_card :: "CardKey \<Rightarrow> (FieldCard \<Rightarrow> FieldCard) \<Rightarrow> DuelField \<Rightarrow> DuelField" where
  "with_card k g f = f \<lparr> f_cards := sm_update k g (f_cards f) \<rparr>"

definition with_cards :: "CardKey set \<Rightarrow> (FieldCard \<Rightarrow> FieldCard) \<Rightarrow> DuelField \<Rightarrow> DuelField" where
  "with_cards ks g f = f \<lparr> f_cards := sm_update_all ks g (f_cards f) \<rparr>"

definition card :: "DuelField \<Rightarrow> CardKey \<Rightarrow> FieldCard option" where
  "card f k = sm_get (f_cards f) k"

definition drop_card :: "CardKey \<Rightarrow> DuelField \<Rightarrow> DuelField" where
  "drop_card k f = f \<lparr> f_cards := sm_remove k (f_cards f) \<rparr>"

definition clear_card_target :: "CardKey \<Rightarrow> DuelField \<Rightarrow> DuelField" where
  "clear_card_target k f =
     (case card f k of
        None \<Rightarrow> f
      | Some c \<Rightarrow>
          with_card k (\<lambda>c. c \<lparr> fc_card_target := {}, fc_owner_target := {} \<rparr>)
            (with_cards (fc_owner_target c) (\<lambda>c. c \<lparr> fc_card_target := fc_card_target c - {k} \<rparr>)
              (with_cards (fc_card_target c) (\<lambda>c. c \<lparr> fc_owner_target := fc_owner_target c - {k} \<rparr>) f)))"

definition release_equip :: "CardKey \<Rightarrow> DuelField \<Rightarrow> DuelField" where
  "release_equip k f =
     (case Option.bind (card f k) fc_equip_target of
        None \<Rightarrow> f
      | Some t \<Rightarrow>
          with_card k (\<lambda>c. c \<lparr> fc_equip_target := None \<rparr>)
            (with_card t (\<lambda>c. c \<lparr> fc_equipped := fc_equipped c - {k} \<rparr>) f))"

definition drop_overlays :: "CardKey list \<Rightarrow> DuelField \<Rightarrow> DuelField" where
  "drop_overlays ks f = fold (\<lambda>k f. drop_card k (clear_card_target k f)) ks f"

definition destroy_card :: "CardKey \<Rightarrow> DuelField \<Rightarrow> DuelField" where
  "destroy_card k f =
     (case card f k of
        None \<Rightarrow> f
      | Some c \<Rightarrow>
          let f1 = with_cards (fc_equipped c) (\<lambda>e. e \<lparr> fc_equip_target := None \<rparr>) (drop_card k f);
              f2 = (case fc_equip_target c of None \<Rightarrow> f1
                    | Some t \<Rightarrow> with_card t (\<lambda>e. e \<lparr> fc_equipped := fc_equipped e - {k} \<rparr>) f1);
              f3 = drop_overlays (fc_overlayed c) f2;
              f4 = (case fc_overlay_target c of None \<Rightarrow> f3
                    | Some t \<Rightarrow> with_card t (\<lambda>e. e \<lparr> fc_overlayed := filter (\<lambda>j. j \<noteq> k) (fc_overlayed e) \<rparr>) f3)
          in with_cards (fc_owner_target c) (\<lambda>e. e \<lparr> fc_card_target := fc_card_target e - {k} \<rparr>)
               (with_cards (fc_card_target c) (\<lambda>e. e \<lparr> fc_owner_target := fc_owner_target e - {k} \<rparr>) f4))"

definition reset_sequence :: "CardKey list \<Rightarrow> DuelField \<Rightarrow> DuelField" where
  "reset_sequence ks f = fold (\<lambda>(i, k). with_card k (\<lambda>c. c \<lparr> fc_sequence := of_nat i \<rparr>)) (enumerate 0 ks) f"

subsection \<open>Zones\<close>

definition is_list_zone :: "u8 \<Rightarrow> bool" where
  "is_list_zone l \<longleftrightarrow> l \<in> Location_bits ` {Location_Deck, Location_Hand, Location_Grave, Location_Removed, Location_Extra}"

definition is_slot_zone :: "u8 \<Rightarrow> bool" where
  "is_slot_zone l \<longleftrightarrow> l = Location_bits Location_MZone \<or> l = Location_bits Location_SZone"

definition zone_lists :: "u8 \<Rightarrow> DuelField \<Rightarrow> CardKey list list" where
  "zone_lists l f =
     (if l = Location_bits Location_Deck then f_deck f
      else if l = Location_bits Location_Hand then f_hand f
      else if l = Location_bits Location_Grave then f_grave f
      else if l = Location_bits Location_Removed then f_remove f
      else f_extra f)"

definition set_zone_lists :: "u8 \<Rightarrow> CardKey list list \<Rightarrow> DuelField \<Rightarrow> DuelField" where
  "set_zone_lists l zs f =
     (if l = Location_bits Location_Deck then f \<lparr> f_deck := zs \<rparr>
      else if l = Location_bits Location_Hand then f \<lparr> f_hand := zs \<rparr>
      else if l = Location_bits Location_Grave then f \<lparr> f_grave := zs \<rparr>
      else if l = Location_bits Location_Removed then f \<lparr> f_remove := zs \<rparr>
      else f \<lparr> f_extra := zs \<rparr>)"

definition zone_slots :: "u8 \<Rightarrow> DuelField \<Rightarrow> CardKey option list list" where
  "zone_slots l f = (if l = Location_bits Location_MZone then f_mzone f else f_szone f)"

definition set_zone_slots :: "u8 \<Rightarrow> CardKey option list list \<Rightarrow> DuelField \<Rightarrow> DuelField" where
  "set_zone_slots l zs f = (if l = Location_bits Location_MZone then f \<lparr> f_mzone := zs \<rparr> else f \<lparr> f_szone := zs \<rparr>)"

text \<open>The list of a player, and the same replaced; a slot of a player written if it exists.\<close>

definition zone_list :: "u8 \<Rightarrow> nat \<Rightarrow> DuelField \<Rightarrow> CardKey list res" where
  "zone_list l p f = index (zone_lists l f) p"

definition put_list :: "u8 \<Rightarrow> nat \<Rightarrow> CardKey list \<Rightarrow> DuelField \<Rightarrow> DuelField" where
  "put_list l p z f = set_zone_lists l ((zone_lists l f)[p := z]) f"

definition put_slot :: "u8 \<Rightarrow> nat \<Rightarrow> nat \<Rightarrow> CardKey option \<Rightarrow> DuelField \<Rightarrow> DuelField" where
  "put_slot l p i k f = set_zone_slots l ((zone_slots l f)[p := (zone_slots l f ! p)[i := k]]) f"

definition slot_at :: "u8 \<Rightarrow> nat \<Rightarrow> nat \<Rightarrow> DuelField \<Rightarrow> CardKey option res" where
  "slot_at l p i f = and_then (index (zone_slots l f) p) (\<lambda>z. Inr (Option.bind (get z i) id))"

definition without_overlay :: "u8 \<Rightarrow> u8" where
  "without_overlay l = l AND NOT (Location_bits Location_Overlay)"

definition key_at :: "CorePlayer \<Rightarrow> u8 \<Rightarrow> u8 \<Rightarrow> DuelField \<Rightarrow> CardKey option res" where
  "key_at p l seq f =
     (if is_list_zone l then and_then (zone_list l (player_index p) f) (\<lambda>z. Inr (get z (unat seq)))
      else if is_slot_zone l then slot_at l (player_index p) (unat seq) f
      else Inr None)"

definition get_card_key :: "CorePlayer \<Rightarrow> u8 \<Rightarrow> u8 \<Rightarrow> i8 \<Rightarrow> DuelField \<Rightarrow> CardKey option res" where
  "get_card_key p l seq sub f =
     and_then (key_at p (without_overlay l) seq f) (\<lambda>key. Inr
       (if \<not> contains l (Location_bits Location_Overlay) then key
        else Option.bind (Option.bind key (card f)) (\<lambda>c. get (fc_overlayed c) (nat (sint sub)))))"

definition remove_nth :: "nat \<Rightarrow> 'a list \<Rightarrow> 'a list" where
  "remove_nth i xs = take i xs @ drop (Suc i) xs"

definition insert_nth :: "nat \<Rightarrow> 'a \<Rightarrow> 'a list \<Rightarrow> 'a list" where
  "insert_nth i x xs = take i xs @ x # drop i xs"

definition remove_from_list :: "u8 \<Rightarrow> nat \<Rightarrow> u8 \<Rightarrow> DuelField \<Rightarrow> (CardKey option \<times> DuelField) res" where
  "remove_from_list l p seq f =
     and_then (zone_list l p f) (\<lambda>z. Inr
       (if length z \<le> unat seq then (None, f)
        else let z' = remove_nth (unat seq) z in
          (Some (z ! unat seq), reset_sequence z' (put_list l p z' f))))"

definition is_faceup_pendulum :: "FieldCard \<Rightarrow> bool" where
  "is_faceup_pendulum c \<longleftrightarrow>
     intersects (fc_position c) (Position_bits Position_Faceup) \<and> intersects (fc_card_type c) (Type_bits Type_Pendulum)"

definition faceup_key :: "DuelField \<Rightarrow> CardKey \<Rightarrow> bool" where
  "faceup_key f k \<longleftrightarrow> (case card f k of None \<Rightarrow> False | Some c \<Rightarrow> is_faceup_pendulum c)"

definition add_pendulums :: "nat \<Rightarrow> i32 \<Rightarrow> DuelField \<Rightarrow> DuelField" where
  "add_pendulums p n f =
     f \<lparr> f_extra_pendulum_count := (f_extra_pendulum_count f)[p := f_extra_pendulum_count f ! p + n] \<rparr>"

definition add_to_deck :: "CardKey \<Rightarrow> nat \<Rightarrow> u8 \<Rightarrow> DuelField \<Rightarrow> DuelField res" where
  "add_to_deck k p seq f =
     and_then (zone_list (Location_bits Location_Deck) p f) (\<lambda>z.
       let z' = insert_nth (min (unat seq) (length z)) k z in
       Inr (clear_card_target k (with_card k clear_card
         (reset_sequence z' (put_list (Location_bits Location_Deck) p z' f)))))"

definition add_to_hand :: "CardKey \<Rightarrow> nat \<Rightarrow> DuelField \<Rightarrow> DuelField res" where
  "add_to_hand k p f =
     and_then (zone_list (Location_bits Location_Hand) p f) (\<lambda>z.
       Inr (reset_sequence (z @ [k]) (put_list (Location_bits Location_Hand) p (z @ [k]) f)))"

definition add_to_pile :: "u8 \<Rightarrow> CardKey \<Rightarrow> nat \<Rightarrow> DuelField \<Rightarrow> DuelField res" where
  "add_to_pile l k p f =
     and_then (zone_list l p f) (\<lambda>z.
       Inr (with_card k (\<lambda>c. c \<lparr> fc_sequence := of_nat (length z) \<rparr>) (put_list l p (z @ [k]) f)))"

definition add_to_slot :: "u8 \<Rightarrow> CardKey \<Rightarrow> nat \<Rightarrow> u8 \<Rightarrow> DuelField \<Rightarrow> DuelField res" where
  "add_to_slot l k p seq f =
     and_then (index (zone_slots l f) p) (\<lambda>z. Inr (put_slot l p (unat seq) (Some k) f))"

definition add_to_extra :: "CardKey \<Rightarrow> nat \<Rightarrow> DuelField \<Rightarrow> DuelField res" where
  "add_to_extra k p f =
     and_then (zone_list (Location_bits Location_Extra) p f) (\<lambda>z.
       let n = f_extra_pendulum_count f ! p; faceup = faceup_key f k;
           z' = (if n = 0 \<or> faceup then z @ [k] else insert_nth (length z - nat (sint n)) k z);
           f' = reset_sequence z' (put_list (Location_bits Location_Extra) p z' f)
       in Inr (if faceup then add_pendulums p 1 f' else f'))"

definition add_card :: "CardKey \<Rightarrow> CorePlayer \<Rightarrow> u8 \<Rightarrow> u8 \<Rightarrow> DuelField \<Rightarrow> DuelField res" where
  "add_card k controller l seq f =
     (let p = player_index controller;
          f1 = with_card k (\<lambda>c. c \<lparr> fc_controller := controller, fc_location := l, fc_sequence := seq \<rparr>) f
      in if l = Location_bits Location_Deck then add_to_deck k p seq f1
         else if l = Location_bits Location_Hand then add_to_hand k p f1
         else if is_slot_zone l then add_to_slot l k p seq f1
         else if l = Location_bits Location_Grave \<or> l = Location_bits Location_Removed then add_to_pile l k p f1
         else if l = Location_bits Location_Extra then add_to_extra k p f1
         else Inr f1)"

definition take_key :: "CorePlayer \<Rightarrow> u8 \<Rightarrow> u8 \<Rightarrow> DuelField \<Rightarrow> (CardKey option \<times> DuelField) res" where
  "take_key controller l seq f =
     (let p = player_index controller in
      if l = Location_bits Location_Extra
      then and_then (remove_from_list l p seq f) (\<lambda>(key, f'). Inr
             (key, if (case key of None \<Rightarrow> False | Some k \<Rightarrow> faceup_key f' k) then add_pendulums p (- 1) f' else f'))
      else if is_list_zone l then remove_from_list l p seq f
      else if is_slot_zone l
      then and_then (slot_at l p (unat seq) f) (\<lambda>key. Inr (key, put_slot l p (unat seq) None f))
      else Inr (None, f))"

definition remove_card :: "CorePlayer \<Rightarrow> u8 \<Rightarrow> u8 \<Rightarrow> DuelField \<Rightarrow> (CardKey option \<times> DuelField) res" where
  "remove_card controller l seq f =
     and_then (take_key controller l seq f) (\<lambda>(key, f'). Inr
       (key, case key of None \<Rightarrow> f'
             | Some k \<Rightarrow> with_card k (\<lambda>c. c \<lparr> fc_location := Location_bits Location_Limbo \<rparr>) f'))"

end
