(* ===== verification/FieldEvolve.thy ===== *)
theory FieldEvolve
  imports DuelField
begin

text \<open>
  The messages of the engine applied to the board (Field::evolve and its handlers in
  ygopro-data/src/field.rs).
\<close>

fun fold_res :: "('x \<Rightarrow> 's \<Rightarrow> 's res) \<Rightarrow> 'x list \<Rightarrow> 's \<Rightarrow> 's res" where
    "fold_res g [] s = Inr s"
  | "fold_res g (x # xs) s = and_then (g x s) (fold_res g xs)"

abbreviation Deck_bits :: u8 where "Deck_bits \<equiv> Location_bits Location_Deck"
abbreviation Hand_bits :: u8 where "Hand_bits \<equiv> Location_bits Location_Hand"
abbreviation MZone_bits :: u8 where "MZone_bits \<equiv> Location_bits Location_MZone"
abbreviation SZone_bits :: u8 where "SZone_bits \<equiv> Location_bits Location_SZone"
abbreviation Grave_bits :: u8 where "Grave_bits \<equiv> Location_bits Location_Grave"
abbreviation Removed_bits :: u8 where "Removed_bits \<equiv> Location_bits Location_Removed"
abbreviation Extra_bits :: u8 where "Extra_bits \<equiv> Location_bits Location_Extra"
abbreviation Limbo_bits :: u8 where "Limbo_bits \<equiv> Location_bits Location_Limbo"
abbreviation Overlay_bits :: u8 where "Overlay_bits \<equiv> Location_bits Location_Overlay"

definition at_info :: "InfoLocation \<Rightarrow> DuelField \<Rightarrow> CardKey option res" where
  "at_info p = get_card_key (il_controller p) (il_location p) (il_sequence p) (il_overlay_sequence p)"

definition at_position :: "CardPosition \<Rightarrow> i8 \<Rightarrow> DuelField \<Rightarrow> CardKey option res" where
  "at_position p = get_card_key (cp_controller p) (cp_location p) (cp_sequence p)"

text \<open>An early return when there is no such card.\<close>

definition when_card :: "CardKey option res \<Rightarrow> DuelField \<Rightarrow> (CardKey \<Rightarrow> DuelField res) \<Rightarrow> DuelField res" where
  "when_card key f g = and_then key (\<lambda>k. case k of None \<Rightarrow> Inr f | Some k \<Rightarrow> g k)"

definition new_card :: "fresh_key \<Rightarrow> (FieldCard \<Rightarrow> FieldCard) \<Rightarrow> DuelField \<Rightarrow> CardKey \<times> DuelField" where
  "new_card fresh g f = (case create_card fresh f of (k, f') \<Rightarrow> (k, with_card k g f'))"

section \<open>What a query says of a card\<close>

definition set_equip_card :: "CardKey \<Rightarrow> CardPosition \<Rightarrow> DuelField \<Rightarrow> DuelField res" where
  "set_equip_card k p f =
     when_card (at_position p (cp_sub_sequence p) f) f (\<lambda>t. Inr
       (with_card t (\<lambda>c. c \<lparr> fc_equipped := insert k (fc_equipped c) \<rparr>)
         (with_card k (\<lambda>c. c \<lparr> fc_equip_target := Some t \<rparr>) f)))"

definition target :: "CardKey \<Rightarrow> CardKey \<Rightarrow> DuelField \<Rightarrow> DuelField" where
  "target k t f =
     with_card t (\<lambda>c. c \<lparr> fc_owner_target := insert k (fc_owner_target c) \<rparr>)
       (with_card k (\<lambda>c. c \<lparr> fc_card_target := insert t (fc_card_target c) \<rparr>) f)"

definition untarget :: "CardKey \<Rightarrow> CardKey \<Rightarrow> DuelField \<Rightarrow> DuelField" where
  "untarget k t f =
     with_card t (\<lambda>c. c \<lparr> fc_owner_target := fc_owner_target c - {k} \<rparr>)
       (with_card k (\<lambda>c. c \<lparr> fc_card_target := fc_card_target c - {t} \<rparr>) f)"

definition add_card_target_query :: "CardKey \<Rightarrow> CardPosition \<Rightarrow> DuelField \<Rightarrow> DuelField res" where
  "add_card_target_query k p f =
     when_card (at_position p (cp_sub_sequence p) f) f (\<lambda>t. Inr (target k t f))"

text \<open>A new material under a card.\<close>

definition attach_overlay ::
  "fresh_key \<Rightarrow> CardKey \<Rightarrow> u8 \<Rightarrow> CorePlayer \<Rightarrow> CorePlayer \<Rightarrow> DuelField \<Rightarrow> CardKey \<times> DuelField" where
  "attach_overlay fresh k seq owner controller f =
     (case create_card fresh f of (overlay, f1) \<Rightarrow>
        (overlay,
         with_card overlay (\<lambda>c. c \<lparr> fc_overlay_target := Some k, fc_location := Overlay_bits, fc_sequence := seq,
                                    fc_owner := owner, fc_controller := controller \<rparr>)
           (with_card k (\<lambda>c. c \<lparr> fc_overlayed := fc_overlayed c @ [overlay] \<rparr>) f1)))"

definition overlay_code :: "fresh_key \<Rightarrow> CardKey \<Rightarrow> CorePlayer \<Rightarrow> CorePlayer \<Rightarrow> nat \<times> u32 \<Rightarrow> DuelField \<Rightarrow> DuelField" where
  "overlay_code fresh k owner controller = (\<lambda>(i, code) f.
     case Option.bind (card f k) (\<lambda>c. get (fc_overlayed c) i) of
       Some overlay \<Rightarrow> with_card overlay (set_code code) f
     | None \<Rightarrow> (case attach_overlay fresh k (of_nat i) owner controller f of (overlay, f') \<Rightarrow>
         with_card overlay (set_code code) f'))"

definition update_overlay_cards :: "fresh_key \<Rightarrow> CardKey \<Rightarrow> u32 list \<Rightarrow> DuelField \<Rightarrow> DuelField" where
  "update_overlay_cards fresh k codes f =
     (case card f k of
        None \<Rightarrow> f
      | Some c \<Rightarrow>
          let f1 = fold (overlay_code fresh k (fc_owner c) (fc_controller c)) (enumerate 0 codes) f in
          (case card f1 k of
             None \<Rightarrow> f1
           | Some c1 \<Rightarrow>
               drop_overlays (drop (length codes) (fc_overlayed c1))
                 (with_card k (\<lambda>c. c \<lparr> fc_overlayed := take (length codes) (fc_overlayed c) \<rparr>) f1)))"

fun update_query :: "fresh_key \<Rightarrow> CardKey \<Rightarrow> QueryData \<Rightarrow> DuelField \<Rightarrow> DuelField res" where
    "update_query fresh k QD_Clear f = Inr (with_card k clear_card f)"
  | "update_query fresh k (QD_Code code) f =
       Inr (with_card k (set_code code) (if code = 0 then with_card k clear_card f else f))"
  | "update_query fresh k (QD_Position p) f = Inr (with_card k (\<lambda>c. c \<lparr> fc_position := il_position p \<rparr>) f)"
  | "update_query fresh k (QD_Alias x) f = Inr (with_card k (\<lambda>c. c \<lparr> fc_alias := x \<rparr>) f)"
  | "update_query fresh k (QD_Type x) f = Inr (with_card k (\<lambda>c. c \<lparr> fc_card_type := x \<rparr>) f)"
  | "update_query fresh k (QD_Level x) f = Inr (with_card k (\<lambda>c. c \<lparr> fc_level := x \<rparr>) f)"
  | "update_query fresh k (QD_Rank x) f = Inr (with_card k (\<lambda>c. c \<lparr> fc_rank := x \<rparr>) f)"
  | "update_query fresh k (QD_Attribute x) f = Inr (with_card k (\<lambda>c. c \<lparr> fc_attribute := x \<rparr>) f)"
  | "update_query fresh k (QD_Race x) f = Inr (with_card k (\<lambda>c. c \<lparr> fc_race := x \<rparr>) f)"
  | "update_query fresh k (QD_Attack x) f = Inr (with_card k (\<lambda>c. c \<lparr> fc_attack := x \<rparr>) f)"
  | "update_query fresh k (QD_Defense x) f = Inr (with_card k (\<lambda>c. c \<lparr> fc_defense := x \<rparr>) f)"
  | "update_query fresh k (QD_BaseAttack x) f = Inr (with_card k (\<lambda>c. c \<lparr> fc_base_attack := x \<rparr>) f)"
  | "update_query fresh k (QD_BaseDefense x) f = Inr (with_card k (\<lambda>c. c \<lparr> fc_base_defense := x \<rparr>) f)"
  | "update_query fresh k (QD_Reason x) f = Inr (with_card k (\<lambda>c. c \<lparr> fc_reason := x \<rparr>) f)"
  | "update_query fresh k (QD_ReasonCard x) f = Inr f"
  | "update_query fresh k (QD_EquipCard p) f = set_equip_card k p f"
  | "update_query fresh k (QD_TargetCard ps) f = fold_res (add_card_target_query k) ps f"
  | "update_query fresh k (QD_OverlayCard codes) f = Inr (update_overlay_cards fresh k codes f)"
  | "update_query fresh k (QD_Counters cs) f =
       Inr (with_card k (\<lambda>c. c \<lparr> fc_counters := fold (\<lambda>(t, n) m. m(t := Some n)) cs (fc_counters c) \<rparr>) f)"
  | "update_query fresh k (QD_Owner p) f = Inr (with_card k (\<lambda>c. c \<lparr> fc_owner := p \<rparr>) f)"
  | "update_query fresh k (QD_Status x) f = Inr (with_card k (\<lambda>c. c \<lparr> fc_status := x \<rparr>) f)"
  | "update_query fresh k (QD_LeftScale x) f = Inr (with_card k (\<lambda>c. c \<lparr> fc_left_scale := x \<rparr>) f)"
  | "update_query fresh k (QD_RightScale x) f = Inr (with_card k (\<lambda>c. c \<lparr> fc_right_scale := x \<rparr>) f)"
  | "update_query fresh k (QD_Link l ms) f = Inr (with_card k (\<lambda>c. c \<lparr> fc_link := l, fc_link_marker := ms \<rparr>) f)"

fun update_card_info :: "fresh_key \<Rightarrow> CardKey \<Rightarrow> UpdateCardInfo \<Rightarrow> DuelField \<Rightarrow> DuelField res" where
    "update_card_info fresh k UC_Empty f = Inr f"
  | "update_card_info fresh k (UC_Data qs) f = fold_res (update_query fresh k) qs f"

definition update_data :: "fresh_key \<Rightarrow> gm_UpdateData \<Rightarrow> DuelField \<Rightarrow> DuelField res" where
  "update_data fresh m =
     fold_res (\<lambda>(i, info) f.
         when_card (get_card_key (gm_UpdateData_player m) (gm_UpdateData_location m) (of_nat i) 0 f) f
           (\<lambda>k. update_card_info fresh k info f))
       (enumerate 0 (gm_UpdateData_data m))"

definition update_card :: "fresh_key \<Rightarrow> gm_UpdateCard \<Rightarrow> DuelField \<Rightarrow> DuelField res" where
  "update_card fresh m f =
     when_card (at_position (gm_UpdateCard_position m) 0 f) f (\<lambda>k. update_card_info fresh k (gm_UpdateCard_data m) f)"

section \<open>Filling the field\<close>

definition initial_zone :: "fresh_key \<Rightarrow> u8 \<Rightarrow> CorePlayer \<Rightarrow> u16 \<Rightarrow> DuelField \<Rightarrow> DuelField res" where
  "initial_zone fresh l player n =
     fold_res (\<lambda>i f.
         case new_card fresh (\<lambda>c. c \<lparr> fc_owner := player, fc_controller := player, fc_location := l,
                 fc_sequence := of_nat i, fc_position := Position_bits Position_FacedownDefense \<rparr>) f of
           (k, f') \<Rightarrow> and_then (zone_list l (player_index player) f')
             (\<lambda>z. Inr (put_list l (player_index player) (z @ [k]) f')))
       [0 ..< unat n]"

definition initial :: "fresh_key \<Rightarrow> CorePlayer \<Rightarrow> u16 \<Rightarrow> u16 \<Rightarrow> DuelField \<Rightarrow> DuelField res" where
  "initial fresh player deck_count extra_count f =
     and_then (initial_zone fresh Deck_bits player deck_count f) (initial_zone fresh Extra_bits player extra_count)"

definition start_field :: "fresh_key \<Rightarrow> gm_Start \<Rightarrow> DuelField \<Rightarrow> DuelField res" where
  "start_field fresh m f =
     (let f1 = clear_field f;
          f2 = f1 \<lparr> f_duel_info := \<lparr> di_lp = [gm_Start_player1_lp m, gm_Start_player2_lp m], di_turn = 0,
                                    di_duel_rule = gm_Start_rule m \<rparr>, f_cards := SlotMap_new \<rparr>
      in and_then (initial fresh FirstAttackPlayer (gm_Start_player1_deck_count m) (gm_Start_player1_extra_count m) f2)
           (initial fresh SecondAttackPlayer (gm_Start_player2_deck_count m) (gm_Start_player2_extra_count m)))"

text \<open>The loop that brings a zone to a size takes cards away, or adds them, one by one.\<close>

primrec shrink_zone :: "u8 \<Rightarrow> nat \<Rightarrow> nat \<Rightarrow> DuelField \<Rightarrow> DuelField res" where
    "shrink_zone l p 0 f = Inr f"
  | "shrink_zone l p (Suc n) f =
       and_then (zone_list l p f) (\<lambda>z.
         if z = [] then Inr f
         else shrink_zone l p n (destroy_card (last z) (put_list l p (butlast z) f)))"

primrec grow_zone :: "fresh_key \<Rightarrow> u8 \<Rightarrow> CorePlayer \<Rightarrow> nat \<Rightarrow> DuelField \<Rightarrow> DuelField res" where
    "grow_zone fresh l player 0 f = Inr f"
  | "grow_zone fresh l player (Suc n) f =
       and_then (zone_list l (player_index player) f) (\<lambda>z.
         case new_card fresh (\<lambda>c. c \<lparr> fc_owner := player, fc_controller := player, fc_location := l,
                 fc_sequence := of_nat (length z) \<rparr>) f of
           (k, f') \<Rightarrow> grow_zone fresh l player n (put_list l (player_index player) (z @ [k]) f'))"

definition resize_zone :: "fresh_key \<Rightarrow> CorePlayer \<Rightarrow> u8 \<Rightarrow> nat \<Rightarrow> DuelField \<Rightarrow> DuelField res" where
  "resize_zone fresh player l n f =
     and_then (zone_list l (player_index player) f) (\<lambda>z.
       if n < length z then shrink_zone l (player_index player) (length z - n) f
       else grow_zone fresh l player (n - length z) f)"

definition load_mzone :: "fresh_key \<Rightarrow> CorePlayer \<Rightarrow> nat \<times> MzoneSlot \<Rightarrow> DuelField \<Rightarrow> DuelField res" where
  "load_mzone fresh player = (\<lambda>(i, slot) f.
     if mz_occupied slot = 0 then Inr f
     else case create_card fresh f of (k, f1) \<Rightarrow>
       and_then (add_card k player MZone_bits (of_nat i) f1) (\<lambda>f2. Inr
         (fold (\<lambda>j f. snd (attach_overlay fresh k
                    (of_nat (case card f k of None \<Rightarrow> 0 | Some c \<Rightarrow> length (fc_overlayed c))) player player f))
           [0 ..< unat (mz_xyz_count slot)]
           (with_card k (\<lambda>c. c \<lparr> fc_owner := player, fc_position := mz_position slot \<rparr>) f2))))"

definition load_szone :: "fresh_key \<Rightarrow> CorePlayer \<Rightarrow> nat \<times> SzonaSlot \<Rightarrow> DuelField \<Rightarrow> DuelField res" where
  "load_szone fresh player = (\<lambda>(i, slot) f.
     if sz_occupied slot = 0 then Inr f
     else case create_card fresh f of (k, f1) \<Rightarrow>
       and_then (add_card k player SZone_bits (of_nat i) f1)
         (\<lambda>f2. Inr (with_card k (\<lambda>c. c \<lparr> fc_owner := player, fc_position := sz_position slot \<rparr>) f2)))"

definition load_cards :: "fresh_key \<Rightarrow> CorePlayer \<Rightarrow> u8 \<Rightarrow> u8 \<Rightarrow> DuelField \<Rightarrow> DuelField res" where
  "load_cards fresh player l n =
     fold_res (\<lambda>i f. case create_card fresh f of (k, f1) \<Rightarrow>
         and_then (add_card k player l (of_nat i) f1) (\<lambda>f2. Inr (with_card k (\<lambda>c. c \<lparr> fc_owner := player \<rparr>) f2)))
       [0 ..< unat n]"

definition load_player_field :: "fresh_key \<Rightarrow> CorePlayer \<Rightarrow> gm_PlayerField \<Rightarrow> DuelField \<Rightarrow> DuelField res" where
  "load_player_field fresh player m f =
     and_then (change_lp player (\<lambda>lp. gm_PlayerField_lp m) (f_duel_info f)) (\<lambda>info.
     and_then (fold_res (load_mzone fresh player) (enumerate 0 (gm_PlayerField_mzone m)) (f \<lparr> f_duel_info := info \<rparr>)) (\<lambda>f1.
     and_then (fold_res (load_szone fresh player) (enumerate 0 (gm_PlayerField_szone m)) f1) (\<lambda>f2.
     and_then (load_cards fresh player Deck_bits (gm_PlayerField_main_count m) f2) (\<lambda>f3.
     and_then (load_cards fresh player Hand_bits (gm_PlayerField_hand_count m) f3) (\<lambda>f4.
     and_then (load_cards fresh player Grave_bits (gm_PlayerField_grave_count m) f4) (\<lambda>f5.
     and_then (load_cards fresh player Removed_bits (gm_PlayerField_remove_count m) f5) (\<lambda>f6.
     and_then (load_cards fresh player Extra_bits (gm_PlayerField_extra_count m) f6) (\<lambda>f7. Inr
       (f7 \<lparr> f_extra_pendulum_count :=
               (f_extra_pendulum_count f7)[player_index player := ucast (gm_PlayerField_extra_p_count m)] \<rparr>)))))))))"

definition reload_chain :: "gm_ChainLink \<Rightarrow> DuelField \<Rightarrow> DuelField res" where
  "reload_chain link f =
     (let p = gm_ChainLink_card_position link in
      and_then (at_position p (cp_sub_sequence p) f) (\<lambda>key.
        let f1 = (case key of None \<Rightarrow> f | Some k \<Rightarrow> with_card k (\<lambda>c. c \<lparr> fc_code := gm_ChainLink_code link \<rparr>) f) in
        Inr (f1 \<lparr> f_chains := f_chains f1 @
          [\<lparr> ci_chain_card = key, ci_code = gm_ChainLink_code link, ci_description = gm_ChainLink_description link,
             ci_controller = gm_ChainLink_controller link, ci_location = gm_ChainLink_location link,
             ci_sequence = gm_ChainLink_sequence link, ci_solved = False, ci_negated = False, ci_disabled = False,
             ci_target = {} \<rparr>] \<rparr>)))"

definition reload_field :: "fresh_key \<Rightarrow> gm_ReloadField \<Rightarrow> DuelField \<Rightarrow> DuelField res" where
  "reload_field fresh m f =
     (let f1 = clear_field f in
      and_then (load_player_field fresh FirstAttackPlayer (gm_ReloadField_player1 m)
        (f1 \<lparr> f_duel_info := f_duel_info f1 \<lparr> di_duel_rule := gm_ReloadField_duel_rule m \<rparr> \<rparr>)) (\<lambda>f2.
      and_then (load_player_field fresh SecondAttackPlayer (gm_ReloadField_player2 m) f2)
        (fold_res reload_chain (gm_ReloadField_chains m))))"

section \<open>Codes shown and hidden\<close>

text \<open>Codes given from the top of a list downwards, below a number of cards. The place is computed in a
  machine word, as in the code.\<close>

fun code_from_top :: "u8 \<Rightarrow> nat \<Rightarrow> u64 \<Rightarrow> (nat \<times> CardPosition) list \<Rightarrow> DuelField \<Rightarrow> DuelField res" where
    "code_from_top l p skip [] f = Inr f"
  | "code_from_top l p skip ((offset, position) # ps) f =
       (if CardCode_id (cp_code position) = 0 then code_from_top l p skip ps f
        else and_then (zone_list l p f) (\<lambda>z.
          let back = unat (1 + skip + of_nat offset) in
          if length z < back then Inr f
          else and_then (index z (length z - back)) (\<lambda>k.
            code_from_top l p skip ps (with_card k (set_code (CardCode_id (cp_code position))) f))))"

definition confirm_decktop :: "gm_ConfirmDecktop \<Rightarrow> DuelField \<Rightarrow> DuelField res" where
  "confirm_decktop m =
     code_from_top Deck_bits (player_index (gm_ConfirmDecktop_controller m)) 0 (enumerate 0 (gm_ConfirmDecktop_codes m))"

definition confirm_cards :: "gm_ConfirmCards \<Rightarrow> DuelField \<Rightarrow> DuelField res" where
  "confirm_cards m =
     fold_res (\<lambda>p f. if CardCode_id (cp_code p) = 0 then Inr f
                     else when_card (at_position p 0 f) f (\<lambda>k. Inr (with_card k (set_code (CardCode_id (cp_code p))) f)))
       (gm_ConfirmCards_cards m)"

definition shuffle_deck :: "CorePlayer \<Rightarrow> DuelField \<Rightarrow> DuelField res" where
  "shuffle_deck player f =
     and_then (zone_list Deck_bits (player_index player) f)
       (\<lambda>z. Inr (fold (\<lambda>k. with_card k (\<lambda>c. c \<lparr> fc_code := 0 \<rparr>)) z f))"

definition shuffle_hand :: "gm_ShuffleHand \<Rightarrow> DuelField \<Rightarrow> DuelField res" where
  "shuffle_hand m f =
     and_then (zone_list Hand_bits (player_index (gm_ShuffleHand_player m)) f) (\<lambda>z. Inr
       (fold (\<lambda>(k, code). with_card k (\<lambda>c. set_code code c \<lparr> fc_description_hints := (\<lambda>v. None) \<rparr>))
         (zip z (gm_ShuffleHand_codes m)) f))"

definition deck_top :: "gm_DeckTop \<Rightarrow> DuelField \<Rightarrow> DuelField res" where
  "deck_top m f =
     and_then (zone_list Deck_bits (player_index (gm_DeckTop_player m)) f) (\<lambda>z.
       let back = 1 + unat (gm_DeckTop_sequence m) in
       Inr (if length z < back then f
            else with_card (z ! (length z - back)) (set_code (CardCode_id (gm_DeckTop_code m))) f))"

fun code_facedown :: "CardKey list \<Rightarrow> u32 list \<Rightarrow> DuelField \<Rightarrow> DuelField" where
    "code_facedown [] codes f = f"
  | "code_facedown (k # ks) codes f =
       (if (case card f k of None \<Rightarrow> False | Some c \<Rightarrow> intersects (fc_position c) (Position_bits Position_Faceup))
        then code_facedown ks codes f
        else case codes of [] \<Rightarrow> f | code # cs \<Rightarrow> code_facedown ks cs (with_card k (set_code code) f))"

definition shuffle_extra :: "gm_ShuffleExtra \<Rightarrow> DuelField \<Rightarrow> DuelField res" where
  "shuffle_extra m f =
     and_then (zone_list Extra_bits (player_index (gm_ShuffleExtra_player m)) f)
       (\<lambda>z. Inr (code_facedown z (gm_ShuffleExtra_codes m) f))"

definition confirm_extra_top :: "gm_ConfirmExtraTop \<Rightarrow> DuelField \<Rightarrow> DuelField res" where
  "confirm_extra_top m f =
     (let p = player_index (gm_ConfirmExtraTop_player m) in
      and_then (index (f_extra_pendulum_count f) p) (\<lambda>n.
        code_from_top Extra_bits p (scast n) (enumerate 0 (gm_ConfirmExtraTop_selectable_cards m)) f))"

section \<open>Whole zones\<close>

definition is_extra_deck_card :: "FieldCard \<Rightarrow> bool" where
  "is_extra_deck_card c \<longleftrightarrow>
     intersects (fc_card_type c) (Type_bits Type_Fusion OR Type_bits Type_Synchro OR Type_bits Type_Xyz OR Type_bits Type_Link)"

fun return_grave :: "CorePlayer \<Rightarrow> CardKey list \<Rightarrow> u8 \<Rightarrow> CardKey list \<Rightarrow> DuelField \<Rightarrow> (CardKey list \<times> DuelField) res" where
    "return_grave player [] n remaining f = Inr (remaining, f)"
  | "return_grave player (k # ks) n remaining f =
       (if (case card f k of None \<Rightarrow> False | Some c \<Rightarrow> is_extra_deck_card c)
        then and_then (add_card k player Extra_bits 0
               (with_card k (\<lambda>c. c \<lparr> fc_position := Position_bits Position_Facedown \<rparr>) f))
               (return_grave player ks n remaining)
        else return_grave player ks (n + 1) (remaining @ [k])
               (with_card k (\<lambda>c. c \<lparr> fc_location := Deck_bits, fc_sequence := n \<rparr>) f))"

definition swap_grave_deck :: "CorePlayer \<Rightarrow> DuelField \<Rightarrow> DuelField res" where
  "swap_grave_deck player f =
     (let p = player_index player in
      and_then (zone_list Grave_bits p f) (\<lambda>grave.
      and_then (zone_list Deck_bits p f) (\<lambda>deck.
        let f1 = put_list Deck_bits p [] (put_list Grave_bits p deck f);
            f2 = fold (\<lambda>k. with_card k (\<lambda>c. c \<lparr> fc_location := Grave_bits \<rparr>)) deck f1
        in and_then (return_grave player grave 0 [] f2) (\<lambda>(remaining, f3). Inr (put_list Deck_bits p remaining f3)))))"

fun select_set_cards :: "u8 \<Rightarrow> InfoLocation list \<Rightarrow> DuelField \<Rightarrow> (CardKey option list \<times> DuelField) res" where
    "select_set_cards l [] f = Inr ([], f)"
  | "select_set_cards l (p # ps) f =
       and_then (slot_at l (player_index (il_controller p)) (unat (il_sequence p)) f) (\<lambda>key.
       and_then (select_set_cards l ps (case key of None \<Rightarrow> f | Some k \<Rightarrow> with_card k (set_code 0) f))
         (\<lambda>(keys, f'). Inr (key # keys, f')))"

definition place_set_card :: "u8 \<Rightarrow> CardKey option \<times> InfoLocation \<Rightarrow> DuelField \<Rightarrow> DuelField res" where
  "place_set_card l = (\<lambda>(key, position) f.
     if il_location position = Limbo_bits then Inr f
     else case key of None \<Rightarrow> Inr f | Some k \<Rightarrow>
     (case card f k of None \<Rightarrow> Inr f | Some c \<Rightarrow>
       let p = player_index (il_controller position); i = unat (il_sequence position); j = unat (fc_sequence c) in
       and_then (slot_at l p i f) (\<lambda>previous.
         let f1 = put_slot l p i None f;
             f2 = (case previous of None \<Rightarrow> f1
                   | Some q \<Rightarrow> put_slot l p j (Some q) (with_card q (\<lambda>c'. c' \<lparr> fc_sequence := fc_sequence c \<rparr>) f1))
         in Inr (with_card k (\<lambda>c. c \<lparr> fc_sequence := il_sequence position \<rparr>) (put_slot l p i (Some k) f2)))))"

definition shuffle_set_card :: "gm_ShuffleSetCard \<Rightarrow> DuelField \<Rightarrow> DuelField res" where
  "shuffle_set_card m f =
     (let l = (if gm_ShuffleSetCard_location m = MZone_bits then MZone_bits else SZone_bits) in
      and_then (select_set_cards l (gm_ShuffleSetCard_old_locations m) f) (\<lambda>(selected, f1).
        fold_res (place_set_card l) (zip selected (gm_ShuffleSetCard_new_locations m)) f1))"

definition reverse_player_deck :: "nat \<Rightarrow> DuelField \<Rightarrow> DuelField res" where
  "reverse_player_deck p f =
     and_then (zone_list Deck_bits p f) (\<lambda>z. Inr (reset_sequence (rev z) (put_list Deck_bits p (rev z) f)))"

definition reverse_deck :: "DuelField \<Rightarrow> DuelField res" where
  "reverse_deck f =
     and_then (fold_res reverse_player_deck [0, 1] f) (\<lambda>f'. Inr (f' \<lparr> f_deck_reversed := \<not> f_deck_reversed f' \<rparr>))"

end
