(* ===== verification/FieldMessages.thy ===== *)
theory FieldMessages
  imports FieldEvolve
begin

text \<open>
  The second half of the handlers of the board (Field::move\_card to Field::player\_hint in
  ygopro-data/src/field.rs), and the dispatcher Field::evolve over all of them.
\<close>

section \<open>Moves\<close>

definition resequence_overlays :: "CardKey \<Rightarrow> DuelField \<Rightarrow> DuelField" where
  "resequence_overlays k f =
     (case card f k of None \<Rightarrow> f | Some c \<Rightarrow>
        with_card k (\<lambda>d. d \<lparr> fc_overlayed := fc_overlayed c \<rparr>)
          (reset_sequence (fc_overlayed c) (with_card k (\<lambda>d. d \<lparr> fc_overlayed := [] \<rparr>) f)))"

definition no_hint :: "FieldCard \<Rightarrow> FieldCard" where
  "no_hint c = c \<lparr> fc_card_hint_type := None, fc_card_hint_value := 0 \<rparr>"

definition no_counters :: "FieldCard \<Rightarrow> FieldCard" where
  "no_counters c = c \<lparr> fc_counters := (\<lambda>t. None) \<rparr>"

text \<open>A card put under another one: the material goes last, and gets the index as its sequence.\<close>

definition push_overlay :: "CardKey \<Rightarrow> CardKey \<Rightarrow> DuelField \<Rightarrow> (u8 \<times> DuelField) option" where
  "push_overlay host k f =
     (case card f host of None \<Rightarrow> None | Some c \<Rightarrow>
        Some (of_nat (length (fc_overlayed c)), with_card host (\<lambda>c. c \<lparr> fc_overlayed := fc_overlayed c @ [k] \<rparr>) f))"

definition overlay_key :: "CardKey \<Rightarrow> u8 \<Rightarrow> DuelField \<Rightarrow> CardKey option" where
  "overlay_key host i f = Option.bind (card f host) (\<lambda>c. get (fc_overlayed c) (unat i))"

definition pull_overlay :: "CardKey \<Rightarrow> u8 \<Rightarrow> DuelField \<Rightarrow> DuelField" where
  "pull_overlay host i f =
     resequence_overlays host (with_card host (\<lambda>c. c \<lparr> fc_overlayed := remove_nth (unat i) (fc_overlayed c) \<rparr>) f)"

definition appear :: "fresh_key \<Rightarrow> gm_Move \<Rightarrow> DuelField \<Rightarrow> DuelField res" where
  "appear fresh m f =
     (let now = gm_Move_current m in
      case new_card fresh (\<lambda>c. set_code (gm_Move_code m)
             (c \<lparr> fc_owner := il_controller now, fc_position := il_position now \<rparr>)) f of
        (k, f') \<Rightarrow> add_card k (il_controller now) (il_location now) (il_sequence now) f')"

definition vanish :: "gm_Move \<Rightarrow> DuelField \<Rightarrow> DuelField res" where
  "vanish m f =
     (let old = gm_Move_previous m; code = gm_Move_code m in
      when_card (at_info old f) f (\<lambda>k.
        and_then (remove_card (il_controller old) (il_location old) (il_sequence old)
            (clear_card_target k (if code \<noteq> 0 then with_card k (set_code code) f else f)))
          (\<lambda>(_, f'). Inr (destroy_card k f'))))"

definition at_info0 :: "InfoLocation \<Rightarrow> DuelField \<Rightarrow> CardKey option res" where
  "at_info0 p = get_card_key (il_controller p) (il_location p) (il_sequence p) 0"

definition under_info :: "InfoLocation \<Rightarrow> DuelField \<Rightarrow> CardKey option res" where
  "under_info p = get_card_key (il_controller p) (without_overlay (il_location p)) (il_sequence p) 0"

definition travel :: "gm_Move \<Rightarrow> DuelField \<Rightarrow> DuelField res" where
  "travel m f =
     (let old = gm_Move_previous m; now = gm_Move_current m; code = gm_Move_code m in
      when_card (at_info0 old f) f (\<lambda>k.
        let card_code = (case card f k of None \<Rightarrow> 0 | Some c \<Rightarrow> fc_code c);
            f1 = (if code \<noteq> 0 \<and> card_code \<noteq> code \<or> il_location now = Extra_bits \<and> card_code \<noteq> code
                  then with_card k (set_code code) f else f);
            f2 = with_card k no_hint f1;
            f3 = (if intersects (il_location old) (Location_bits Location_OnField) \<and> il_location now \<noteq> il_location old
                  then with_card k no_counters f2 else f2);
            f4 = (if il_location now \<noteq> il_location old then release_equip k (clear_card_target k f3) else f3)
        in and_then (remove_card (il_controller old) (il_location old) (il_sequence old) f4) (\<lambda>(_, f5).
             add_card k (il_controller now) (il_location now) (il_sequence now)
               (with_card k (\<lambda>c. c \<lparr> fc_position := il_position now \<rparr>) f5))))"

definition go_under :: "gm_Move \<Rightarrow> DuelField \<Rightarrow> DuelField res" where
  "go_under m f =
     (let old = gm_Move_previous m; now = gm_Move_current m; code = gm_Move_code m in
      when_card (at_info0 old f) f (\<lambda>k.
        let f1 = release_equip k (clear_card_target k (with_card k (\<lambda>c. no_hint (no_counters c))
                   (if code \<noteq> 0 then with_card k (set_code code) f else f)))
        in when_card (under_info now f1) f1 (\<lambda>host.
          and_then (remove_card (il_controller old) (il_location old) (il_sequence old) f1) (\<lambda>(_, f2). Inr
            (case push_overlay host k f2 of
               None \<Rightarrow> f2
             | Some (n, f3) \<Rightarrow> with_card k (\<lambda>c. c \<lparr> fc_overlay_target := Some host, fc_location := Overlay_bits,
                                                    fc_sequence := n \<rparr>) f3)))))"

definition come_out :: "gm_Move \<Rightarrow> DuelField \<Rightarrow> DuelField res" where
  "come_out m f =
     (let old = gm_Move_previous m; now = gm_Move_current m in
      when_card (under_info old f) f (\<lambda>host.
        case overlay_key host (il_overlay_sequence old) f of None \<Rightarrow> Inr f | Some k \<Rightarrow>
          add_card k (il_controller now) (il_location now) (il_sequence now)
            (with_card k (\<lambda>c. c \<lparr> fc_overlay_target := None, fc_position := il_position now \<rparr>)
              (pull_overlay host (il_overlay_sequence old) f))))"

definition change_target :: "gm_Move \<Rightarrow> DuelField \<Rightarrow> DuelField res" where
  "change_target m f =
     (let old = gm_Move_previous m; now = gm_Move_current m in
      when_card (under_info old f) f (\<lambda>previous_host.
      when_card (under_info now f) f (\<lambda>current_host. Inr
        (case overlay_key previous_host (il_overlay_sequence old) f of None \<Rightarrow> f | Some k \<Rightarrow>
           let f1 = pull_overlay previous_host (il_overlay_sequence old) f in
           (case push_overlay current_host k f1 of
              None \<Rightarrow> f1
            | Some (n, f2) \<Rightarrow> with_card k (\<lambda>c. c \<lparr> fc_overlay_target := Some current_host, fc_sequence := n \<rparr>) f2)))))"

definition move_card :: "fresh_key \<Rightarrow> gm_Move \<Rightarrow> DuelField \<Rightarrow> DuelField res" where
  "move_card fresh m f =
     (let old = il_location (gm_Move_previous m); now = il_location (gm_Move_current m) in
      if old = Limbo_bits then appear fresh m f
      else if now = Limbo_bits then vanish m f
      else if \<not> contains old Overlay_bits \<and> \<not> contains now Overlay_bits then travel m f
      else if \<not> contains old Overlay_bits then go_under m f
      else if \<not> contains now Overlay_bits then come_out m f
      else change_target m f)"

definition position_change :: "gm_PositionChange \<Rightarrow> DuelField \<Rightarrow> DuelField res" where
  "position_change m f =
     when_card (get_card_key (gm_PositionChange_controller m) (gm_PositionChange_location m)
         (gm_PositionChange_sequence m) 0 f) f (\<lambda>k.
       let f1 = (if intersects (gm_PositionChange_previous_position m) (Position_bits Position_Faceup)
                    \<and> intersects (gm_PositionChange_current_position m) (Position_bits Position_Facedown)
                 then clear_card_target k (with_card k no_counters f) else f);
           f2 = (if gm_PositionChange_card m \<noteq> 0 then with_card k (set_code (gm_PositionChange_card m)) f1 else f1)
       in Inr (with_card k (\<lambda>c. c \<lparr> fc_position := gm_PositionChange_current_position m \<rparr>) f2))"

definition swap_cards :: "gm_Swap \<Rightarrow> DuelField \<Rightarrow> DuelField res" where
  "swap_cards m f =
     (let p = gm_Swap_position1 m; q = gm_Swap_position2 m in
      when_card (at_info p f) f (\<lambda>first.
      when_card (at_info q f) f (\<lambda>second.
        and_then (remove_card (il_controller p) (il_location p) (il_sequence p) f) (\<lambda>(_, f1).
        and_then (remove_card (il_controller q) (il_location q) (il_sequence q) f1) (\<lambda>(_, f2).
        and_then (add_card first (il_controller q) (il_location q) (il_sequence q) f2)
          (add_card second (il_controller p) (il_location p) (il_sequence p)))))))"

definition flip_summoning :: "gm_FlipSummoning \<Rightarrow> DuelField \<Rightarrow> DuelField res" where
  "flip_summoning m f =
     when_card (at_info (gm_FlipSummoning_position m) f) f (\<lambda>k. Inr
       (with_card k (\<lambda>c. set_code (gm_FlipSummoning_code m) c
                           \<lparr> fc_position := il_position (gm_FlipSummoning_position m) \<rparr>) f))"

primrec draw_cards :: "CorePlayer \<Rightarrow> nat \<Rightarrow> DuelField \<Rightarrow> DuelField res" where
    "draw_cards player 0 f = Inr f"
  | "draw_cards player (Suc n) f =
       and_then (zone_list Deck_bits (player_index player) f) (\<lambda>z.
         if z = [] then Inr f
         else and_then (add_card (last z) player Hand_bits 0 (put_list Deck_bits (player_index player) (butlast z) f))
                (draw_cards player n))"

definition show_code :: "CardKey \<times> CardCode \<Rightarrow> DuelField \<Rightarrow> DuelField" where
  "show_code = (\<lambda>(k, code) f. if \<not> f_deck_reversed f \<or> CardCode_id code \<noteq> 0
                                 then with_card k (set_code (CardCode_id code)) f else f)"

definition draw :: "gm_Draw \<Rightarrow> DuelField \<Rightarrow> DuelField res" where
  "draw m f =
     (let codes = gm_Draw_codes m; p = player_index (gm_Draw_player m) in
      if codes = [] then Inr f
      else and_then (zone_list Deck_bits p f) (\<lambda>z.
        let f1 = fold show_code (zip (rev z) codes) f
        in draw_cards (gm_Draw_player m) (length codes) f1))"

section \<open>Chains\<close>

definition chaining :: "gm_Chaining \<Rightarrow> DuelField \<Rightarrow> DuelField res" where
  "chaining m f =
     (let p = gm_Chaining_previous m; now = gm_Chaining_current m in
      and_then (at_position p (cp_sub_sequence p) f) (\<lambda>key.
        let f1 = (case key of None \<Rightarrow> f | Some k \<Rightarrow> with_card k (\<lambda>c. c \<lparr> fc_code := gm_Chaining_card m \<rparr>) f) in
        Inr (f1 \<lparr> f_current_chain :=
          \<lparr> ci_chain_card = key, ci_code = gm_Chaining_card m, ci_description = cp_description now,
            ci_controller = cp_controller now, ci_location = cp_location now, ci_sequence = cp_sequence now,
            ci_solved = False, ci_negated = False, ci_disabled = False, ci_target = {} \<rparr> \<rparr>)))"

definition chained :: "DuelField \<Rightarrow> DuelField" where
  "chained f = f \<lparr> f_chains := f_chains f @ [f_current_chain f], f_current_chain := ChainInfo_default \<rparr>"

text \<open>The links are counted from one; there is no link zero.\<close>

definition with_chain :: "u8 \<Rightarrow> (ChainInfo \<Rightarrow> ChainInfo) \<Rightarrow> DuelField \<Rightarrow> DuelField" where
  "with_chain i g f =
     (if i = 0 then f
      else case get (f_chains f) (unat (i - 1)) of
             None \<Rightarrow> f
           | Some c \<Rightarrow> f \<lparr> f_chains := (f_chains f)[unat (i - 1) := g c] \<rparr>)"

definition become_target :: "gm_BecomeTarget \<Rightarrow> DuelField \<Rightarrow> DuelField res" where
  "become_target m =
     fold_res (\<lambda>p f. when_card (at_info p f) f (\<lambda>k. Inr
         (f \<lparr> f_current_chain := (f_current_chain f) \<lparr> ci_target := insert k (ci_target (f_current_chain f)) \<rparr> \<rparr>)))
       (gm_BecomeTarget_pcards m)"

section \<open>Relations, counters, battles, hints\<close>

definition equip :: "InfoLocation \<Rightarrow> InfoLocation \<Rightarrow> DuelField \<Rightarrow> DuelField res" where
  "equip p q f =
     when_card (at_info p f) f (\<lambda>k.
     when_card (at_info q f) f (\<lambda>t. Inr
       (with_card t (\<lambda>c. c \<lparr> fc_equipped := insert k (fc_equipped c) \<rparr>)
         (with_card k (\<lambda>c. c \<lparr> fc_equip_target := Some t \<rparr>) (release_equip k f)))))"

definition unequip :: "InfoLocation \<Rightarrow> DuelField \<Rightarrow> DuelField res" where
  "unequip p f = when_card (at_info p f) f (\<lambda>k. Inr (release_equip k f))"

definition add_card_target :: "InfoLocation \<Rightarrow> InfoLocation \<Rightarrow> DuelField \<Rightarrow> DuelField res" where
  "add_card_target p q f =
     when_card (at_info p f) f (\<lambda>k. when_card (at_info q f) f (\<lambda>t. Inr (target k t f)))"

definition cancel_target :: "InfoLocation \<Rightarrow> InfoLocation \<Rightarrow> DuelField \<Rightarrow> DuelField res" where
  "cancel_target p q f =
     when_card (at_info p f) f (\<lambda>k. when_card (at_info q f) f (\<lambda>t. Inr (untarget k t f)))"

definition add_counter :: "CardPosition \<Rightarrow> u16 \<Rightarrow> u16 \<Rightarrow> DuelField \<Rightarrow> DuelField res" where
  "add_counter p t n f =
     when_card (at_position p 0 f) f (\<lambda>k. Inr
       (with_card k (\<lambda>c. c \<lparr> fc_counters := (fc_counters c)(t \<mapsto>
          (case fc_counters c t of None \<Rightarrow> 0 | Some m \<Rightarrow> m) + n) \<rparr>) f))"

definition less_counters :: "u16 \<Rightarrow> u16 \<Rightarrow> u16 option" where
  "less_counters m n = (if m \<le> n then None else Some (m - n))"

definition remove_counter :: "CardPosition \<Rightarrow> u16 \<Rightarrow> u16 \<Rightarrow> DuelField \<Rightarrow> DuelField res" where
  "remove_counter p t n f =
     when_card (at_position p 0 f) f (\<lambda>k. Inr
       (with_card k (\<lambda>c. case fc_counters c t of None \<Rightarrow> c
                        | Some m \<Rightarrow> c \<lparr> fc_counters := (fc_counters c)(t := less_counters m n) \<rparr>) f))"

definition attack :: "gm_Attack \<Rightarrow> DuelField \<Rightarrow> DuelField res" where
  "attack m f =
     and_then (at_info (gm_Attack_attacker m) f) (\<lambda>attacker.
     and_then (if il_location (gm_Attack_defenser m) = Limbo_bits then Inr None else at_info (gm_Attack_defenser m) f)
       (\<lambda>t. Inr (f \<lparr> f_attacker := attacker, f_attack_target := t \<rparr>)))"

definition battle :: "gm_Battle \<Rightarrow> DuelField \<Rightarrow> DuelField res" where
  "battle m f =
     when_card (at_info (gm_Battle_attacker m) f) f (\<lambda>k.
       let f1 = with_card k (\<lambda>c. c \<lparr> fc_attack := gm_Battle_attacker_attack m, fc_defense := gm_Battle_attacker_defense m \<rparr>) f in
       when_card (at_info (gm_Battle_defenser m) f1) f1 (\<lambda>t. Inr
         (with_card t (\<lambda>c. c \<lparr> fc_attack := gm_Battle_defenser_attack m, fc_defense := gm_Battle_defenser_defense m \<rparr>) f1)))"

text \<open>A hint counted by its value: a count that comes to zero is removed.\<close>

definition more_hints :: "i32 \<Rightarrow> (i32 \<Rightarrow> i32 option) \<Rightarrow> (i32 \<Rightarrow> i32 option)" where
  "more_hints v hs = hs(v \<mapsto> (case hs v of None \<Rightarrow> 0 | Some n \<Rightarrow> n) + 1)"

definition fewer_hints :: "i32 \<Rightarrow> (i32 \<Rightarrow> i32 option) \<Rightarrow> (i32 \<Rightarrow> i32 option)" where
  "fewer_hints v hs = (case hs v of None \<Rightarrow> hs | Some n \<Rightarrow> hs(v := if n = 1 then None else Some (n - 1)))"

definition card_hint :: "gm_CardHint \<Rightarrow> DuelField \<Rightarrow> DuelField res" where
  "card_hint m f =
     (let v = gm_CardHint_value m in
      when_card (at_info (gm_CardHint_position m) f) f (\<lambda>k. Inr
        (with_card k
          (case gm_CardHint_card_hint_type m of
             CardHint_DescriptionAdd \<Rightarrow> (\<lambda>c. c \<lparr> fc_description_hints := more_hints v (fc_description_hints c) \<rparr>)
           | CardHint_DescriptionRemove \<Rightarrow> (\<lambda>c. c \<lparr> fc_description_hints := fewer_hints v (fc_description_hints c) \<rparr>)
           | t \<Rightarrow> (\<lambda>c. c \<lparr> fc_card_hint_type := Some t, fc_card_hint_value := v \<rparr>)) f)))"

definition name_cards :: "u8 \<Rightarrow> nat \<Rightarrow> CardCode list \<Rightarrow> DuelField \<Rightarrow> DuelField res" where
  "name_cards l p codes f =
     and_then (zone_list l p f) (\<lambda>z. Inr (fold (\<lambda>(k, code). with_card k (set_code (CardCode_id code))) (zip z codes) f))"

definition tag_swap :: "fresh_key \<Rightarrow> gm_TagSwap \<Rightarrow> DuelField \<Rightarrow> DuelField res" where
  "tag_swap fresh m f =
     (let player = gm_TagSwap_player m; p = player_index player in
      and_then (resize_zone fresh player Deck_bits (unat (gm_TagSwap_main_count m)) f) (\<lambda>f1.
      and_then (resize_zone fresh player Hand_bits (length (gm_TagSwap_hand_codes m)) f1) (\<lambda>f2.
      and_then (resize_zone fresh player Extra_bits (length (gm_TagSwap_extra_codes m)) f2) (\<lambda>f3.
      and_then (index (f_extra_pendulum_count f3) p) (\<lambda>_.
      let f4 = f3 \<lparr> f_extra_pendulum_count := (f_extra_pendulum_count f3)[p := ucast (gm_TagSwap_extra_p_count m)] \<rparr> in
      and_then (zone_list Deck_bits p f4) (\<lambda>deck.
      let f5 = (if deck = [] then f4 else with_card (last deck) (\<lambda>c. c \<lparr> fc_code := gm_TagSwap_top_code m \<rparr>) f4) in
      and_then (name_cards Hand_bits p (gm_TagSwap_hand_codes m) f5)
        (name_cards Extra_bits p (gm_TagSwap_extra_codes m))))))))"

definition player_hint :: "gm_PlayerHint \<Rightarrow> DuelField \<Rightarrow> DuelField res" where
  "player_hint m f =
     (let p = player_index (gm_PlayerHint_player m); v = gm_PlayerHint_value m in
      and_then (index (f_player_description_hints f) p) (\<lambda>hs.
        let hs' = (case gm_PlayerHint_player_hint_type m of
                     PlayerHint_DescriptionAdd \<Rightarrow> more_hints v hs
                   | PlayerHint_DescriptionRemove \<Rightarrow> fewer_hints v hs)
        in Inr (f \<lparr> f_player_description_hints := (f_player_description_hints f)[p := hs'] \<rparr>)))"

section \<open>The dispatcher\<close>

text \<open>The arms of the dispatcher, by the groups of the message type; the order of the arms does not matter,
  as no two have the same message.\<close>

fun evolve_A :: "fresh_key \<Rightarrow> gm_GroupA \<Rightarrow> DuelField \<Rightarrow> DuelField res" where
    "evolve_A fresh (GMA_Start m) f = start_field fresh m f"
  | "evolve_A fresh (GMA_UpdateData m) f = update_data fresh m f"
  | "evolve_A fresh (GMA_UpdateCard m) f = update_card fresh m f"
  | "evolve_A fresh _ f = Inr f"

fun evolve_B :: "fresh_key \<Rightarrow> gm_GroupB \<Rightarrow> DuelField \<Rightarrow> DuelField res" where
    "evolve_B fresh (GMB_ConfirmDecktop m) f = confirm_decktop m f"
  | "evolve_B fresh (GMB_ConfirmCards m) f = confirm_cards m f"
  | "evolve_B fresh (GMB_ShuffleDeck m) f = shuffle_deck (gm_ShuffleDeck_player m) f"
  | "evolve_B fresh (GMB_ShuffleHand m) f = shuffle_hand m f"
  | "evolve_B fresh (GMB_SwapGraveDeck m) f = swap_grave_deck (gm_SwapGraveDeck_player m) f"
  | "evolve_B fresh (GMB_ShuffleSetCard m) f = shuffle_set_card m f"
  | "evolve_B fresh GMB_ReverseDeck f = reverse_deck f"
  | "evolve_B fresh (GMB_DeckTop m) f = deck_top m f"
  | "evolve_B fresh (GMB_ShuffleExtra m) f = shuffle_extra m f"
  | "evolve_B fresh (GMB_ConfirmExtraTop m) f = confirm_extra_top m f"
  | "evolve_B fresh (GMB_Move m) f = move_card fresh m f"
  | "evolve_B fresh (GMB_PositionChange m) f = position_change m f"
  | "evolve_B fresh (GMB_Swap m) f = swap_cards m f"
  | "evolve_B fresh (GMB_FieldDisabled m) f = Inr (f \<lparr> f_disabled_field := gm_FieldDisabled_disabled m \<rparr>)"
  | "evolve_B fresh (GMB_FlipSummoning m) f = flip_summoning m f"
  | "evolve_B fresh _ f = Inr f"

fun evolve_C :: "gm_GroupC \<Rightarrow> DuelField \<Rightarrow> DuelField res" where
    "evolve_C (GMC_Chaining m) f = chaining m f"
  | "evolve_C (GMC_Chained m) f = Inr (chained f)"
  | "evolve_C (GMC_ChainSolving m) f = Inr (with_chain (gm_ChainSolving_chain_index m) (\<lambda>c. c \<lparr> ci_solved := True \<rparr>) f)"
  | "evolve_C GMC_ChainEnd f = Inr (f \<lparr> f_chains := [] \<rparr>)"
  | "evolve_C (GMC_ChainNegated m) f = Inr (with_chain (gm_ChainNegated_chain_index m) (\<lambda>c. c \<lparr> ci_negated := True \<rparr>) f)"
  | "evolve_C (GMC_ChainDisabled m) f = Inr (with_chain (gm_ChainDisabled_chain_index m) (\<lambda>c. c \<lparr> ci_disabled := True \<rparr>) f)"
  | "evolve_C (GMC_BecomeTarget m) f = become_target m f"
  | "evolve_C (GMC_Draw m) f = draw m f"
  | "evolve_C (GMC_Equip m) f = equip (gm_Equip_position1 m) (gm_Equip_position2 m) f"
  | "evolve_C (GMC_Unequip m) f = unequip (gm_Unequip_position m) f"
  | "evolve_C (GMC_CardTarget m) f = add_card_target (gm_CardTarget_position1 m) (gm_CardTarget_position2 m) f"
  | "evolve_C (GMC_CancelTarget m) f = cancel_target (gm_CancelTarget_position1 m) (gm_CancelTarget_position2 m) f"
  | "evolve_C (GMC_AddCounter m) f =
       add_counter (gm_AddCounter_position m) (gm_AddCounter_counter_type m) (gm_AddCounter_count m) f"
  | "evolve_C (GMC_RemoveCounter m) f =
       remove_counter (gm_RemoveCounter_position m) (gm_RemoveCounter_counter_type m) (gm_RemoveCounter_count m) f"
  | "evolve_C (GMC_Attack m) f = attack m f"
  | "evolve_C (GMC_Battle m) f = battle m f"
  | "evolve_C GMC_AttackDisabled f = Inr (f \<lparr> f_attacker := None, f_attack_target := None \<rparr>)"
  | "evolve_C _ f = Inr f"

fun evolve_D :: "fresh_key \<Rightarrow> gm_GroupD \<Rightarrow> DuelField \<Rightarrow> DuelField res" where
    "evolve_D fresh (GMD_CardHint m) f = card_hint m f"
  | "evolve_D fresh (GMD_TagSwap m) f = tag_swap fresh m f"
  | "evolve_D fresh (GMD_ReloadField m) f = reload_field fresh m f"
  | "evolve_D fresh (GMD_PlayerHint m) f = player_hint m f"
  | "evolve_D fresh _ f = Inr f"

fun evolve_groups :: "fresh_key \<Rightarrow> gm_Message \<Rightarrow> DuelField \<Rightarrow> DuelField res" where
    "evolve_groups fresh (GM_GroupA m) f = evolve_A fresh m f"
  | "evolve_groups fresh (GM_GroupB m) f = evolve_B fresh m f"
  | "evolve_groups fresh (GM_GroupC m) f = evolve_C m f"
  | "evolve_groups fresh (GM_GroupD m) f = evolve_D fresh m f"
  | "evolve_groups fresh (GM_Unknown bs) f = Inr f"

definition Field_evolve :: "fresh_key \<Rightarrow> gm_Message \<Rightarrow> DuelField \<Rightarrow> DuelField res" where
  "Field_evolve fresh m f =
     and_then (DuelInfo_evolve m (f_duel_info f)) (\<lambda>d. evolve_groups fresh m (f \<lparr> f_duel_info := d \<rparr>))"

definition Field_evolve_all :: "fresh_key \<Rightarrow> gm_Message list \<Rightarrow> DuelField \<Rightarrow> DuelField res" where
  "Field_evolve_all fresh = fold_res (Field_evolve fresh)"

end
