(* ===== verification/FieldSafety.thy ===== *)
theory FieldSafety
  imports FieldMessages
begin

text \<open>
  The board never panics: every message about the two players is applied to a board of the right shape,
  and leaves one (two players, seven places for monsters, eight for spells and traps). A result is sound if
  it is a board of that shape; each handler has one lemma that says when it is.
\<close>

definition shape :: "DuelField \<Rightarrow> bool" where
  "shape f \<longleftrightarrow>
     length (f_deck f) = 2 \<and> length (f_hand f) = 2 \<and> length (f_grave f) = 2 \<and> length (f_remove f) = 2 \<and>
     length (f_extra f) = 2 \<and> map length (f_mzone f) = [7, 7] \<and> map length (f_szone f) = [8, 8] \<and>
     length (f_extra_pendulum_count f) = 2 \<and> length (di_lp (f_duel_info f)) = 2 \<and>
     length (f_player_description_hints f) = 2"

definition two :: "CorePlayer \<Rightarrow> bool" where
  "two p \<longleftrightarrow> p = FirstAttackPlayer \<or> p = SecondAttackPlayer"

definition sound :: "DuelField res \<Rightarrow> bool" where
  "sound r \<longleftrightarrow> (\<exists>f. r = Inr f \<and> shape f)"

named_theorems sound_intros \<open>when the result of an operation on the board is sound\<close>

lemma two_index: "two p \<Longrightarrow> player_index p < 2"
  by (auto simp: two_def player_index_def)

lemma two_simps [simp]: "two FirstAttackPlayer" "two SecondAttackPlayer"
  by (simp_all add: two_def)

lemma sound_Inr [simp]: "sound (Inr f) = shape f"
  by (simp add: sound_def)

lemma sound_and_then [sound_intros]:
  "sound m \<Longrightarrow> (\<And>f. shape f \<Longrightarrow> sound (g f)) \<Longrightarrow> sound (and_then m g)"
  by (auto simp: sound_def)

lemma sound_fold_res:
  assumes "shape f" and "\<And>x f. x \<in> set xs \<Longrightarrow> shape f \<Longrightarrow> sound (g x f)"
  shows "sound (fold_res g xs f)"
  using assms by (induction xs arbitrary: f) (auto intro: sound_and_then)

lemma sound_fold:
  assumes "shape f" and "\<And>x f. x \<in> set xs \<Longrightarrow> shape f \<Longrightarrow> shape (g x f)"
  shows "shape (fold g xs f)"
  using assms by (induction xs arbitrary: f) auto

subsection \<open>The store of cards\<close>

lemma shape_cards [simp]: "shape (f \<lparr> f_cards := m \<rparr>) = shape f"
  by (simp add: shape_def)

lemma shape_store [simp]:
  "shape (with_card k g f) = shape f" "shape (with_cards ks g f) = shape f" "shape (drop_card k f) = shape f"
  by (simp_all add: with_card_def with_cards_def drop_card_def)

lemma shape_clear_card_target [simp]: "shape (clear_card_target k f) = shape f"
  by (simp add: clear_card_target_def split: option.split)

lemma shape_release_equip [simp]: "shape (release_equip k f) = shape f"
  by (simp add: release_equip_def split: option.split)

lemma shape_drop_overlays [simp]: "shape (drop_overlays ks f) = shape f"
  by (induction ks arbitrary: f) (simp_all add: drop_overlays_def)

lemma shape_destroy_card [simp]: "shape (destroy_card k f) = shape f"
  by (simp add: destroy_card_def Let_def split: option.split)

lemma shape_fold_cards [simp]: "shape (fold (\<lambda>x. with_card (j x) (g x)) xs f) = shape f"
  by (induction xs arbitrary: f) simp_all

lemma shape_reset_sequence [simp]: "shape (reset_sequence ks f) = shape f"
  unfolding reset_sequence_def case_prod_unfold by simp

lemma shape_create: "create_card fresh f = (k, f') \<Longrightarrow> shape f' = shape f"
  by (auto simp: create_card_def split: prod.splits)

lemma shape_new: "new_card fresh g f = (k, f') \<Longrightarrow> shape f' = shape f"
  by (auto simp: new_card_def split: prod.splits dest: shape_create)

subsection \<open>Zones\<close>

lemma zone_lists_two: "shape f \<Longrightarrow> length (zone_lists l f) = 2"
  by (simp add: shape_def zone_lists_def)

lemma zone_slots_two: "shape f \<Longrightarrow> length (zone_slots l f) = 2"
  by (auto simp: shape_def zone_slots_def dest!: arg_cong [where f = length])

lemma zone_list_ok: "shape f \<Longrightarrow> p < 2 \<Longrightarrow> zone_list l p f = Inr (zone_lists l f ! p)"
  by (simp add: zone_list_def zone_lists_two)

lemma zone_slot_ok:
  assumes "shape f" and "p < 2"
  shows "index (zone_slots l f) p = Inr (zone_slots l f ! p)"
  using zone_slots_two [OF assms(1), of l] assms(2) by (simp only: index.simps if_True)

lemma shape_put_list [simp]: "shape f \<Longrightarrow> shape (put_list l p z f)"
  by (simp add: put_list_def set_zone_lists_def zone_lists_def shape_def)

lemma map_length_update: "length ys = length (xs ! p) \<Longrightarrow> map length (xs[p := ys]) = map length xs"
  by (cases "p < length xs") (auto simp: nth_list_update list_update_beyond intro!: nth_equalityI)

lemma shape_put_slot [simp]: "shape f \<Longrightarrow> shape (put_slot l p i k f)"
  by (simp add: put_slot_def set_zone_slots_def zone_slots_def shape_def map_length_update)

lemma shape_add_pendulums [simp]: "shape (add_pendulums p n f) = shape f"
  by (simp add: add_pendulums_def shape_def)

lemma sound_zone [sound_intros]:
  "shape f \<Longrightarrow> p < 2 \<Longrightarrow> (\<And>z. sound (g z)) \<Longrightarrow> sound (and_then (zone_list l p f) g)"
  by (simp add: zone_list_ok)

lemma slot_at_ok: "shape f \<Longrightarrow> p < 2 \<Longrightarrow> \<exists>k. slot_at l p i f = Inr k"
  by (simp add: slot_at_def zone_slot_ok del: index.simps)

lemma get_card_key_ok:
  assumes "shape f" and "two p"
  shows "\<exists>k. get_card_key p l seq sub f = Inr k"
proof -
  have "\<exists>k. key_at p (without_overlay l) seq f = Inr k"
    using assms two_index [of p] slot_at_ok [of f "player_index p"] by (simp add: key_at_def zone_list_ok)
  then show ?thesis by (auto simp: get_card_key_def)
qed

lemma sound_when_card:
  assumes "\<exists>k. key = Inr k" and "shape f" and "\<And>k. sound (g k)"
  shows "sound (when_card key f g)"
  using assms by (auto simp: when_card_def split: option.split)

lemma sound_when_key [sound_intros]:
  "shape f \<Longrightarrow> two p \<Longrightarrow> shape f' \<Longrightarrow> (\<And>k. sound (g k)) \<Longrightarrow> sound (when_card (get_card_key p l seq sub f) f' g)"
  by (rule sound_when_card) (auto intro: get_card_key_ok)

lemma sound_when_info [sound_intros]:
  "shape f \<Longrightarrow> two (il_controller i) \<Longrightarrow> shape f' \<Longrightarrow> (\<And>k. sound (g k)) \<Longrightarrow> sound (when_card (at_info i f) f' g)"
  "shape f \<Longrightarrow> two (il_controller i) \<Longrightarrow> shape f' \<Longrightarrow> (\<And>k. sound (g k)) \<Longrightarrow> sound (when_card (at_info0 i f) f' g)"
  "shape f \<Longrightarrow> two (il_controller i) \<Longrightarrow> shape f' \<Longrightarrow> (\<And>k. sound (g k)) \<Longrightarrow> sound (when_card (under_info i f) f' g)"
  by (simp_all add: at_info_def at_info0_def under_info_def sound_when_key)

lemma sound_when_position [sound_intros]:
  "shape f \<Longrightarrow> two (cp_controller i) \<Longrightarrow> shape f' \<Longrightarrow> (\<And>k. sound (g k)) \<Longrightarrow> sound (when_card (at_position i s f) f' g)"
  by (simp add: at_position_def sound_when_key)

lemma remove_from_list_ok:
  assumes "shape f" and "p < 2"
  shows "\<exists>k f'. remove_from_list l p seq f = Inr (k, f') \<and> shape f'"
  using assms by (simp add: remove_from_list_def zone_list_ok Let_def)

lemma take_key_ok:
  assumes "shape f" and "two p"
  shows "\<exists>k f'. take_key p l seq f = Inr (k, f') \<and> shape f'"
proof -
  let ?i = "player_index p"
  note i = two_index [OF assms(2)]
  obtain k f' where r: "remove_from_list l ?i seq f = Inr (k, f')" "shape f'"
    using remove_from_list_ok [OF assms(1) i] by blast
  obtain s where "slot_at l ?i (unat seq) f = Inr s" using slot_at_ok [OF assms(1) i] by blast
  with r assms(1) show ?thesis
    by (cases "l = Location_bits Location_Extra"; cases "\<exists>j. k = Some j \<and> faceup_key f' j")
      (auto simp: take_key_def Let_def split: option.split)
qed

lemma remove_card_ok:
  assumes "shape f" and "two p"
  shows "\<exists>k f'. remove_card p l seq f = Inr (k, f') \<and> shape f'"
proof -
  obtain k f' where "take_key p l seq f = Inr (k, f')" "shape f'" using take_key_ok [OF assms] by blast
  then show ?thesis by (cases k) (simp_all add: remove_card_def)
qed

lemma sound_remove_card [sound_intros]:
  assumes "shape f" and "two p" and "\<And>k f'. shape f' \<Longrightarrow> sound (g (k, f'))"
  shows "sound (and_then (remove_card p l seq f) g)"
proof -
  obtain k f' where "remove_card p l seq f = Inr (k, f')" "shape f'" using remove_card_ok [OF assms(1,2)] by blast
  then show ?thesis using assms(3) by simp
qed

lemma sound_add_card [sound_intros]:
  assumes "shape f" and "two p"
  shows "sound (add_card k p l seq f)"
  using assms two_index [of p]
  by (simp add: add_card_def add_to_deck_def add_to_hand_def add_to_slot_def add_to_pile_def add_to_extra_def
      zone_list_ok zone_slot_ok Let_def del: index.simps)

section \<open>The handlers\<close>

lemma sound_update_query [sound_intros]:
  assumes "shape f" and "case q of QD_EquipCard p \<Rightarrow> two (cp_controller p) | QD_TargetCard ps \<Rightarrow> list_all (two \<circ> cp_controller) ps | _ \<Rightarrow> True"
  shows "sound (update_query fresh k q f)"
proof -
  have overlay: "shape (update_overlay_cards fresh k codes f)" for codes
  proof -
    have "shape (fold (overlay_code fresh k o1 o2) xs f)" for o1 o2 xs
      using assms(1)
      by (auto intro!: sound_fold simp: overlay_code_def attach_overlay_def split: option.split prod.splits
          dest: shape_create)
    then show ?thesis using assms(1) by (simp add: update_overlay_cards_def Let_def split: option.split)
  qed
  show ?thesis
    using assms
    by (cases q) (auto simp: set_equip_card_def add_card_target_query_def target_def overlay list_all_iff
        intro!: sound_intros sound_fold_res)
qed

definition query_about_players :: "QueryData \<Rightarrow> bool" where
  "query_about_players q \<longleftrightarrow>
     (case q of QD_EquipCard p \<Rightarrow> two (cp_controller p) | QD_TargetCard ps \<Rightarrow> list_all (two \<circ> cp_controller) ps | _ \<Rightarrow> True)"

fun info_about_players :: "UpdateCardInfo \<Rightarrow> bool" where
    "info_about_players UC_Empty \<longleftrightarrow> True"
  | "info_about_players (UC_Data qs) \<longleftrightarrow> list_all query_about_players qs"

lemma sound_update_card_info: "shape f \<Longrightarrow> info_about_players u \<Longrightarrow> sound (update_card_info fresh k u f)"
  by (cases u) (auto simp: list_all_iff query_about_players_def intro!: sound_fold_res sound_update_query)

lemma sound_update_data:
  "shape f \<Longrightarrow> two (gm_UpdateData_player m) \<Longrightarrow> list_all info_about_players (gm_UpdateData_data m) \<Longrightarrow>
   sound (update_data fresh m f)"
  by (auto simp: update_data_def list_all_iff in_set_enumerate_eq intro!: sound_fold_res sound_intros sound_update_card_info)

lemma sound_update_card:
  "shape f \<Longrightarrow> two (cp_controller (gm_UpdateCard_position m)) \<Longrightarrow> info_about_players (gm_UpdateCard_data m) \<Longrightarrow>
   sound (update_card fresh m f)"
  by (auto simp: update_card_def intro!: sound_intros sound_update_card_info)

lemma sound_initial_zone: "shape f \<Longrightarrow> two p \<Longrightarrow> sound (initial_zone fresh l p n f)"
  unfolding initial_zone_def
  by (rule sound_fold_res) (auto split: prod.split dest: shape_new intro!: sound_zone two_index)

lemma sound_start: "shape f \<Longrightarrow> sound (start_field fresh m f)"
proof -
  have "shape (clear_field f \<lparr> f_duel_info := \<lparr> di_lp = [a, b], di_turn = 0, di_duel_rule = r \<rparr>, f_cards := SlotMap_new \<rparr>)" for a b r
    by (simp add: shape_def clear_field_def DuelField_default_def numeral_eq_Suc)
  then show ?thesis
    unfolding start_field_def initial_def Let_def by (intro sound_and_then sound_initial_zone) simp_all
qed

lemma sound_shrink: "shape f \<Longrightarrow> p < 2 \<Longrightarrow> sound (shrink_zone l p n f)"
  by (induction n arbitrary: f) (auto intro!: sound_zone)

lemma sound_grow: "shape f \<Longrightarrow> two p \<Longrightarrow> sound (grow_zone fresh l p n f)"
  by (induction n arbitrary: f) (auto intro!: sound_zone two_index split: prod.split dest!: shape_new)

lemma sound_resize: "shape f \<Longrightarrow> two p \<Longrightarrow> sound (resize_zone fresh p l n f)"
  unfolding resize_zone_def by (intro sound_zone two_index) (auto intro: sound_shrink sound_grow two_index)

lemma shape_attach [simp]: "shape f \<Longrightarrow> shape (snd (attach_overlay fresh k i a b f))"
  by (auto simp: attach_overlay_def split: prod.splits dest: shape_create)

lemma sound_load_mzone: "shape f \<Longrightarrow> two p \<Longrightarrow> sound (load_mzone fresh p x f)"
  unfolding load_mzone_def
  by (auto split: prod.split dest: shape_create intro!: sound_intros sound_fold)

lemma sound_load_szone: "shape f \<Longrightarrow> two p \<Longrightarrow> sound (load_szone fresh p x f)"
  unfolding load_szone_def by (auto split: prod.split dest: shape_create intro!: sound_intros)

lemma sound_load_cards: "shape f \<Longrightarrow> two p \<Longrightarrow> sound (load_cards fresh p l n f)"
  unfolding load_cards_def
  by (rule sound_fold_res) (auto split: prod.split dest: shape_create intro!: sound_intros)

lemma shape_lp: "shape f \<Longrightarrow> change_lp p g (f_duel_info f) = Inr d \<Longrightarrow> shape (f \<lparr> f_duel_info := d \<rparr>)"
  by (auto simp: change_lp_def shape_def split: if_splits)

lemma change_lp_ok: "length (di_lp d) = 2 \<Longrightarrow> two p \<Longrightarrow> \<exists>d'. change_lp p g d = Inr d'"
  using two_index [of p] by (simp add: change_lp_def)

lemma sound_load_player_field:
  assumes "shape f" and "two p"
  shows "sound (load_player_field fresh p m f)"
proof -
  have "length (di_lp (f_duel_info f)) = 2" using assms(1) by (simp add: shape_def)
  then obtain d where d: "change_lp p (\<lambda>lp. gm_PlayerField_lp m) (f_duel_info f) = Inr d"
    using change_lp_ok [OF _ assms(2)] by blast
  note s = shape_lp [OF assms(1) d]
  have last: "shape f7 \<Longrightarrow> sound (Inr (f7 \<lparr> f_extra_pendulum_count := (f_extra_pendulum_count f7)[i := n] \<rparr>))" for f7 i n
    by (simp add: shape_def)
  show ?thesis
    unfolding load_player_field_def d and_then.simps
    by (intro sound_and_then sound_fold_res sound_load_mzone sound_load_szone sound_load_cards last s assms(2))
qed

lemma at_position_ok: "shape f \<Longrightarrow> two (cp_controller p) \<Longrightarrow> \<exists>k. at_position p s f = Inr k"
  unfolding at_position_def by (rule get_card_key_ok)

lemma at_info_ok: "shape f \<Longrightarrow> two (il_controller p) \<Longrightarrow> \<exists>k. at_info p f = Inr k"
  unfolding at_info_def by (rule get_card_key_ok)

lemma shape_chains [simp]:
  "shape (f \<lparr> f_chains := cs \<rparr>) = shape f" "shape (f \<lparr> f_current_chain := c \<rparr>) = shape f"
  "shape (f \<lparr> f_attacker := a, f_attack_target := t \<rparr>) = shape f" "shape (f \<lparr> f_disabled_field := x \<rparr>) = shape f"
  "shape (f \<lparr> f_deck_reversed := r \<rparr>) = shape f"
  by (simp_all add: shape_def)

lemma sound_reload_chain: "shape f \<Longrightarrow> two (cp_controller (gm_ChainLink_card_position c)) \<Longrightarrow> sound (reload_chain c f)"
  using at_position_ok [of f "gm_ChainLink_card_position c" "cp_sub_sequence (gm_ChainLink_card_position c)"]
  by (auto simp: reload_chain_def Let_def split: option.split)

lemma sound_reload_field:
  assumes "shape f" and "list_all (\<lambda>c. two (cp_controller (gm_ChainLink_card_position c))) (gm_ReloadField_chains m)"
  shows "sound (reload_field fresh m f)"
proof -
  let ?f1 = "clear_field f"
  have "shape (?f1 \<lparr> f_duel_info := (f_duel_info ?f1) \<lparr> di_duel_rule := r \<rparr> \<rparr>)" for r
    using assms(1) by (simp add: shape_def clear_field_def DuelField_default_def numeral_eq_Suc)
  then show ?thesis
    using assms(2) unfolding reload_field_def Let_def
    by (intro sound_and_then sound_load_player_field sound_fold_res) (auto simp: list_all_iff intro: sound_reload_chain)
qed

lemma sound_code_from_top:
  assumes "shape f" and "p < 2" and "\<forall>i \<in> fst ` set ps. 0 < unat (1 + skip + of_nat i :: u64)"
  shows "sound (code_from_top l p skip ps f)"
  using assms(1,3)
proof (induction ps arbitrary: f)
  case (Cons x ps)
  obtain i position where x: "x = (i, position)" by (cases x)
  let ?z = "zone_lists l f ! p" and ?depth = "unat (1 + skip + of_nat i :: u64)"
  have pos: "0 < ?depth" and rest: "\<forall>i \<in> fst ` set ps. 0 < unat (1 + skip + of_nat i :: u64)"
    using Cons.prems(2) x by simp_all
  have IH: "sound (code_from_top l p skip ps (with_card k g f))" "sound (code_from_top l p skip ps f)" for k g
    using Cons.IH [OF _ rest] Cons.prems(1) by simp_all
  show ?case
  proof (cases "length ?z < ?depth")
    case True
    then show ?thesis using IH Cons.prems(1) by (simp add: x zone_list_ok [OF _ assms(2)])
  next
    case False
    then have "index ?z (length ?z - ?depth) = Inr (?z ! (length ?z - ?depth))" using pos by auto
    then show ?thesis using False IH Cons.prems(1)
      by (simp add: x zone_list_ok [OF _ assms(2)] Let_def del: index.simps)
  qed
qed simp

lemma uint_top:
  fixes n :: i32
  shows "uint (1 + scast n + of_nat i :: u64) = (1 + sint n + int i) mod 2 ^ 64"
proof -
  have "(1 + scast n + of_nat i :: u64) = word_of_int (1 + sint n + int i)"
    unfolding scast_eq by (simp only: of_int_add of_int_1 of_int_of_nat_eq)
  then show ?thesis by (simp only: uint_word_of_int) simp
qed

lemma top_place:
  fixes n :: i32
  assumes "0 \<le> sint n" and "i < 2 ^ 32"
  shows "unat (1 + scast n + of_nat i :: u64) = 1 + nat (sint n) + i"
proof -
  have "sint n < 2 ^ 31" using sint_lt [of n] by simp
  with assms have "(1 + sint n + int i) mod 2 ^ 64 = 1 + sint n + int i"
    by (intro mod_pos_pos_trivial) simp_all
  then show ?thesis using assms(1) by (simp add: unat_eq_nat_uint uint_top)
qed

lemma sound_from_top:
  fixes n :: i32
  assumes "shape f" and "p < 2" and "0 \<le> sint n" and "length ps < 2 ^ 32"
  shows "sound (code_from_top l p (scast n) (enumerate 0 ps) f)"
  using assms(1,2)
proof (rule sound_code_from_top, intro ballI)
  fix i assume "i \<in> fst ` set (enumerate 0 ps)"
  then have "i < 2 ^ 32" using assms(4) by (auto simp: in_set_enumerate_eq intro: less_trans)
  then show "0 < unat (1 + scast n + of_nat i :: u64)" unfolding top_place [OF assms(3) \<open>i < 2 ^ 32\<close>] by simp
qed

lemma sound_return_grave:
  assumes "two player" and "shape f"
  shows "\<exists>z f'. return_grave player ks n remaining f = Inr (z, f') \<and> shape f'"
  using assms(2)
proof (induction ks arbitrary: n remaining f)
  case (Cons k ks)
  show ?case
  proof (cases "case card f k of None \<Rightarrow> False | Some c \<Rightarrow> is_extra_deck_card c")
    case True
    have "sound (add_card k player Extra_bits 0 (with_card k (\<lambda>c. c \<lparr> fc_position := Position_bits Position_Facedown \<rparr>) f))"
      using Cons.prems assms(1) by (intro sound_add_card) simp_all
    then obtain f1 where "add_card k player Extra_bits 0
        (with_card k (\<lambda>c. c \<lparr> fc_position := Position_bits Position_Facedown \<rparr>) f) = Inr f1" "shape f1"
      by (auto simp: sound_def)
    with True Cons.IH [of f1] show ?thesis by simp
  qed (use Cons in simp)
qed simp

lemma sound_swap_grave_deck:
  assumes "shape f" and "two p"
  shows "sound (swap_grave_deck p f)"
proof -
  let ?f = "\<lambda>deck. fold (\<lambda>k. with_card k (\<lambda>c. c \<lparr> fc_location := Grave_bits \<rparr>)) deck
      (put_list Deck_bits (player_index p) [] (put_list Grave_bits (player_index p) deck f))"
  have "shape (?f deck)" for deck
    using assms(1) shape_fold_cards [of "\<lambda>k. k" "\<lambda>k c. c \<lparr> fc_location := Grave_bits \<rparr>" deck] by simp
  then obtain z f' where "return_grave p (zone_lists Grave_bits f ! player_index p) 0 []
      (?f (zone_lists Deck_bits f ! player_index p)) = Inr (z, f')" "shape f'"
    using sound_return_grave [OF assms(2)] by blast
  then show ?thesis
    by (simp add: swap_grave_deck_def zone_list_ok [OF assms(1) two_index [OF assms(2)]] Let_def)
qed

lemma sound_select_set_cards:
  assumes "list_all (\<lambda>p. two (il_controller p)) ps" and "shape f"
  shows "\<exists>ks f'. select_set_cards l ps f = Inr (ks, f') \<and> shape f'"
  using assms
proof (induction ps arbitrary: f)
  case (Cons p ps)
  obtain key where key: "slot_at l (player_index (il_controller p)) (unat (il_sequence p)) f = Inr key"
    using slot_at_ok [OF Cons.prems(2) two_index] Cons.prems(1) by (simp, blast)
  have "shape (case key of None \<Rightarrow> f | Some k \<Rightarrow> with_card k (set_code 0) f)"
    using Cons.prems(2) by (simp split: option.split)
  from Cons.IH [OF _ this] Cons.prems(1) obtain ks f' where
    "select_set_cards l ps (case key of None \<Rightarrow> f | Some k \<Rightarrow> with_card k (set_code 0) f) = Inr (ks, f')" "shape f'"
    by (simp, blast)
  then show ?case by (simp add: key)
qed simp

lemma sound_place_set_card:
  assumes "shape f" and "two (il_controller (snd x))"
  shows "sound (place_set_card l x f)"
proof -
  obtain key p where x: "x = (key, p)" by (cases x)
  obtain old where "slot_at l (player_index (il_controller p)) (unat (il_sequence p)) f = Inr old"
    using slot_at_ok [OF assms(1) two_index] assms(2) x by (simp, blast)
  then show ?thesis
    using assms(1) by (auto simp: place_set_card_def x Let_def split: option.split)
qed

lemma sound_shuffle_set_card:
  assumes "shape f" and "list_all (\<lambda>p. two (il_controller p)) (gm_ShuffleSetCard_old_locations m)"
    and "list_all (\<lambda>p. two (il_controller p)) (gm_ShuffleSetCard_new_locations m)"
  shows "sound (shuffle_set_card m f)"
proof -
  let ?l = "if gm_ShuffleSetCard_location m = MZone_bits then MZone_bits else SZone_bits"
  obtain ks f1 where "select_set_cards ?l (gm_ShuffleSetCard_old_locations m) f = Inr (ks, f1)" "shape f1"
    using sound_select_set_cards [OF assms(2,1)] by blast
  moreover have "sound (fold_res (place_set_card ?l) (zip ks (gm_ShuffleSetCard_new_locations m)) f1)" if "shape f1"
    using that assms(3)
    by (intro sound_fold_res sound_place_set_card) (auto simp: list_all_iff dest: set_zip_rightD)
  ultimately show ?thesis by (simp add: shuffle_set_card_def Let_def)
qed

lemma shape_fold_pairs [simp]: "shape (fold (\<lambda>(k, x). with_card k (g x)) xs f) = shape f"
  unfolding case_prod_unfold by simp

lemma sound_names:
  assumes "shape f" and "two p"
  shows "sound (shuffle_deck p f)" "sound (reverse_deck f)" "sound (name_cards l (player_index p) codes f)"
    "gm_ShuffleHand_player h = p \<Longrightarrow> sound (shuffle_hand h f)" "gm_DeckTop_player t = p \<Longrightarrow> sound (deck_top t f)"
  using assms two_index [OF assms(2)]
  by (auto simp: shuffle_deck_def reverse_deck_def reverse_player_deck_def name_cards_def shuffle_hand_def deck_top_def
      zone_list_ok Let_def)

lemma shape_code_facedown [simp]: "shape (code_facedown ks cs f) = shape f"
  by (induction ks cs f rule: code_facedown.induct) (auto split: list.split)

lemma sound_shuffle_extra: "shape f \<Longrightarrow> two (gm_ShuffleExtra_player m) \<Longrightarrow> sound (shuffle_extra m f)"
  by (simp add: shuffle_extra_def zone_list_ok two_index)

lemma sound_confirm_cards:
  "shape f \<Longrightarrow> list_all (\<lambda>p. two (cp_controller p)) (gm_ConfirmCards_cards m) \<Longrightarrow> sound (confirm_cards m f)"
  unfolding confirm_cards_def by (rule sound_fold_res) (auto simp: list_all_iff intro!: sound_intros)

lemma sound_confirm_decktop:
  "shape f \<Longrightarrow> two (gm_ConfirmDecktop_controller m) \<Longrightarrow> length (gm_ConfirmDecktop_codes m) < 2 ^ 32 \<Longrightarrow>
   sound (confirm_decktop m f)"
  using sound_from_top [of f "player_index (gm_ConfirmDecktop_controller m)" 0 "gm_ConfirmDecktop_codes m" Deck_bits]
  by (simp add: confirm_decktop_def two_index)

lemma sound_confirm_extra_top:
  assumes "shape f" and "two (gm_ConfirmExtraTop_player m)" and "length (gm_ConfirmExtraTop_selectable_cards m) < 2 ^ 32"
    and "0 \<le> sint (f_extra_pendulum_count f ! player_index (gm_ConfirmExtraTop_player m))"
  shows "sound (confirm_extra_top m f)"
proof -
  have "length (f_extra_pendulum_count f) = 2" using assms(1) by (simp add: shape_def)
  then show ?thesis
    using sound_from_top [OF assms(1) two_index [OF assms(2)] assms(4,3)] two_index [OF assms(2)]
    by (simp add: confirm_extra_top_def Let_def)
qed

section \<open>Moves and the rest\<close>

lemma shape_resequence [simp]: "shape (resequence_overlays k f) = shape f"
  by (simp add: resequence_overlays_def split: option.split)

lemma shape_pull [simp]: "shape (pull_overlay k i f) = shape f"
  by (simp add: pull_overlay_def)

lemma shape_push: "push_overlay t k f = Some (n, f') \<Longrightarrow> shape f' = shape f"
  by (auto simp: push_overlay_def split: option.splits)

lemma sound_travel:
  assumes "shape f" and "two (il_controller (gm_Move_previous m))" and "two (il_controller (gm_Move_current m))"
  shows "sound (travel m f)"
  unfolding travel_def Let_def using assms
  by (intro sound_when_info sound_remove_card) (auto intro!: sound_add_card)

lemma sound_move_card:
  assumes "shape f" and "il_location (gm_Move_previous m) \<noteq> Limbo_bits \<longrightarrow> two (il_controller (gm_Move_previous m))"
    and "il_location (gm_Move_current m) \<noteq> Limbo_bits \<longrightarrow> two (il_controller (gm_Move_current m))"
    and "il_location (gm_Move_previous m) = Limbo_bits \<longrightarrow> two (il_controller (gm_Move_current m))"
  shows "sound (move_card fresh m f)"
proof -
  let ?old = "gm_Move_previous m" and ?now = "gm_Move_current m"
  have "sound (appear fresh m f)" if "two (il_controller ?now)"
    using assms(1) that by (auto simp: appear_def Let_def split: prod.split dest: shape_new intro!: sound_add_card)
  moreover have "sound (vanish m f)" if "two (il_controller ?old)"
    unfolding vanish_def Let_def using assms(1) that by (intro sound_when_info sound_remove_card) auto
  moreover have "sound (travel m f)" if "two (il_controller ?old)" "two (il_controller ?now)"
    using assms(1) that by (rule sound_travel)
  moreover have "sound (go_under m f)" if "two (il_controller ?old)" "two (il_controller ?now)"
    unfolding go_under_def Let_def using assms(1) that
    by (intro sound_when_info sound_remove_card) (auto split: option.split dest: shape_push)
  moreover have "sound (come_out m f)" if "two (il_controller ?old)" "two (il_controller ?now)"
    unfolding come_out_def Let_def using assms(1) that
    by (intro sound_when_info) (auto split: option.split intro!: sound_add_card)
  moreover have "sound (change_target m f)" if "two (il_controller ?old)" "two (il_controller ?now)"
    unfolding change_target_def Let_def using assms(1) that
    by (intro sound_when_info) (auto split: option.split dest: shape_push)
  ultimately show ?thesis using assms(2-4) unfolding move_card_def Let_def by (auto split: if_splits)
qed

lemma sound_swap_cards:
  assumes "shape f" and "two (il_controller (gm_Swap_position1 m))" and "two (il_controller (gm_Swap_position2 m))"
  shows "sound (swap_cards m f)"
  unfolding swap_cards_def Let_def using assms
  by (intro sound_when_info sound_remove_card)
    (auto intro!: sound_remove_card sound_and_then [OF sound_add_card] sound_add_card)

lemma sound_draw_cards: "shape f \<Longrightarrow> two p \<Longrightarrow> sound (draw_cards p n f)"
  by (induction n arbitrary: f) (auto intro!: sound_intros two_index)

lemma sound_draw:
  assumes "shape f" and "two (gm_Draw_player m)"
  shows "sound (draw m f)"
proof -
  have "shape (fold show_code xs f)" for xs
    using assms(1) by (intro sound_fold) (auto simp: show_code_def)
  then show ?thesis
    using assms by (simp add: draw_def zone_list_ok two_index Let_def sound_draw_cards)
qed

lemma sound_chaining: "shape f \<Longrightarrow> two (cp_controller (gm_Chaining_previous m)) \<Longrightarrow> sound (chaining m f)"
  using at_position_ok [of f "gm_Chaining_previous m" "cp_sub_sequence (gm_Chaining_previous m)"]
  by (auto simp: chaining_def Let_def split: option.split)

lemma shape_with_chain [simp]: "shape (with_chain i g f) = shape f"
  by (simp add: with_chain_def split: option.split del: get.simps)

lemma sound_become_target:
  "shape f \<Longrightarrow> list_all (\<lambda>p. two (il_controller p)) (gm_BecomeTarget_pcards m) \<Longrightarrow> sound (become_target m f)"
  unfolding become_target_def by (rule sound_fold_res) (auto simp: list_all_iff intro!: sound_intros)

lemma sound_relations:
  assumes "shape f" and "two (il_controller p)" and "two (il_controller q)"
  shows "sound (equip p q f)" "sound (unequip p f)" "sound (add_card_target p q f)" "sound (cancel_target p q f)"
  unfolding equip_def unequip_def add_card_target_def cancel_target_def target_def untarget_def
  using assms by (auto intro!: sound_when_info)

lemma sound_counters:
  assumes "shape f" and "two (cp_controller p)"
  shows "sound (add_counter p t n f)" "sound (remove_counter p t n f)"
  unfolding add_counter_def remove_counter_def using assms by (auto intro!: sound_when_position)

lemma sound_attack:
  assumes "shape f" and "two (il_controller (gm_Attack_attacker m))"
    and "il_location (gm_Attack_defenser m) \<noteq> Limbo_bits \<longrightarrow> two (il_controller (gm_Attack_defenser m))"
  shows "sound (attack m f)"
  using at_info_ok [OF assms(1,2)] at_info_ok [OF assms(1), of "gm_Attack_defenser m"] assms
  by (auto simp: attack_def)

lemma sound_battle:
  assumes "shape f" and "two (il_controller (gm_Battle_attacker m))" and "two (il_controller (gm_Battle_defenser m))"
  shows "sound (battle m f)"
  unfolding battle_def Let_def using assms by (auto intro!: sound_when_info)

lemma sound_hints:
  assumes "shape f"
  shows "two (il_controller (gm_CardHint_position c)) \<Longrightarrow> sound (card_hint c f)"
    and "two (gm_PlayerHint_player p) \<Longrightarrow> sound (player_hint p f)"
proof -
  show "sound (card_hint c f)" if "two (il_controller (gm_CardHint_position c))"
    unfolding card_hint_def Let_def using assms that by (auto intro!: sound_when_info)
  show "sound (player_hint p f)" if "two (gm_PlayerHint_player p)"
    using assms two_index [OF that] by (simp add: player_hint_def shape_def Let_def)
qed

lemma sound_tag_swap:
  assumes "shape f" and "two (gm_TagSwap_player m)"
  shows "sound (tag_swap fresh m f)"
proof -
  let ?p = "player_index (gm_TagSwap_player m)"
  have "index (f_extra_pendulum_count g) ?p = Inr (f_extra_pendulum_count g ! ?p)" if "shape g" for g
    using that two_index [OF assms(2)] by (simp add: shape_def)
  moreover have "shape (g \<lparr> f_extra_pendulum_count := (f_extra_pendulum_count g)[i := n] \<rparr>)" if "shape g" for g i n
    using that by (simp add: shape_def)
  ultimately show ?thesis
    unfolding tag_swap_def Let_def using assms
    by (intro sound_and_then [OF sound_resize])
      (auto simp del: index.simps intro!: sound_zone sound_and_then [OF sound_names(3)] sound_names(3) two_index)
qed

lemma sound_position_change:
  "shape f \<Longrightarrow> two (gm_PositionChange_controller m) \<Longrightarrow> sound (position_change m f)"
  unfolding position_change_def Let_def by (intro sound_when_key) auto

lemma sound_flip: "shape f \<Longrightarrow> two (il_controller (gm_FlipSummoning_position m)) \<Longrightarrow> sound (flip_summoning m f)"
  unfolding flip_summoning_def by (intro sound_when_info) auto

section \<open>Every message about the two players\<close>

abbreviation places :: "InfoLocation list \<Rightarrow> bool" where
  "places \<equiv> list_all (\<lambda>p. two (il_controller p))"

text \<open>The players a message names are the two players of the duel. A move names a player only where it does
  not come from nowhere or go to nowhere, an attack only where there is a target. Cards shown from the top of
  the extra deck are counted below the face-up ones, whose number must not be negative.\<close>

fun about_players_A :: "gm_GroupA \<Rightarrow> bool" where
    "about_players_A (GMA_UpdateData m) \<longleftrightarrow>
       two (gm_UpdateData_player m) \<and> list_all info_about_players (gm_UpdateData_data m)"
  | "about_players_A (GMA_UpdateCard m) \<longleftrightarrow>
       two (cp_controller (gm_UpdateCard_position m)) \<and> info_about_players (gm_UpdateCard_data m)"
  | "about_players_A _ \<longleftrightarrow> True"

definition move_about_players :: "gm_Move \<Rightarrow> bool" where
  "move_about_players m \<longleftrightarrow>
     (let old = gm_Move_previous m; now = gm_Move_current m in
      (il_location old \<noteq> Limbo_bits \<longrightarrow> two (il_controller old)) \<and>
      (il_location now \<noteq> Limbo_bits \<or> il_location old = Limbo_bits \<longrightarrow> two (il_controller now)))"

fun about_players_B :: "DuelField \<Rightarrow> gm_GroupB \<Rightarrow> bool" where
    "about_players_B f (GMB_ConfirmDecktop m) \<longleftrightarrow>
       two (gm_ConfirmDecktop_controller m) \<and> length (gm_ConfirmDecktop_codes m) < 2 ^ 32"
  | "about_players_B f (GMB_ConfirmCards m) \<longleftrightarrow> list_all (\<lambda>p. two (cp_controller p)) (gm_ConfirmCards_cards m)"
  | "about_players_B f (GMB_ShuffleDeck m) \<longleftrightarrow> two (gm_ShuffleDeck_player m)"
  | "about_players_B f (GMB_ShuffleHand m) \<longleftrightarrow> two (gm_ShuffleHand_player m)"
  | "about_players_B f (GMB_SwapGraveDeck m) \<longleftrightarrow> two (gm_SwapGraveDeck_player m)"
  | "about_players_B f (GMB_ShuffleSetCard m) \<longleftrightarrow>
       places (gm_ShuffleSetCard_old_locations m) \<and> places (gm_ShuffleSetCard_new_locations m)"
  | "about_players_B f (GMB_DeckTop m) \<longleftrightarrow> two (gm_DeckTop_player m)"
  | "about_players_B f (GMB_ShuffleExtra m) \<longleftrightarrow> two (gm_ShuffleExtra_player m)"
  | "about_players_B f (GMB_ConfirmExtraTop m) \<longleftrightarrow>
       two (gm_ConfirmExtraTop_player m) \<and> length (gm_ConfirmExtraTop_selectable_cards m) < 2 ^ 32 \<and>
       0 \<le> sint (f_extra_pendulum_count f ! player_index (gm_ConfirmExtraTop_player m))"
  | "about_players_B f (GMB_Move m) \<longleftrightarrow> move_about_players m"
  | "about_players_B f (GMB_PositionChange m) \<longleftrightarrow> two (gm_PositionChange_controller m)"
  | "about_players_B f (GMB_Swap m) \<longleftrightarrow> places [gm_Swap_position1 m, gm_Swap_position2 m]"
  | "about_players_B f (GMB_FlipSummoning m) \<longleftrightarrow> places [gm_FlipSummoning_position m]"
  | "about_players_B f _ \<longleftrightarrow> True"

fun about_players_C :: "gm_GroupC \<Rightarrow> bool" where
    "about_players_C (GMC_Chaining m) \<longleftrightarrow> two (cp_controller (gm_Chaining_previous m))"
  | "about_players_C (GMC_BecomeTarget m) \<longleftrightarrow> places (gm_BecomeTarget_pcards m)"
  | "about_players_C (GMC_Draw m) \<longleftrightarrow> two (gm_Draw_player m)"
  | "about_players_C (GMC_Damage m) \<longleftrightarrow> two (gm_Damage_player m)"
  | "about_players_C (GMC_Recover m) \<longleftrightarrow> two (gm_Recover_player m)"
  | "about_players_C (GMC_LPUpdate m) \<longleftrightarrow> two (gm_LPUpdate_player m)"
  | "about_players_C (GMC_PayLPCost m) \<longleftrightarrow> two (gm_PayLPCost_player m)"
  | "about_players_C (GMC_Equip m) \<longleftrightarrow> places [gm_Equip_position1 m, gm_Equip_position2 m]"
  | "about_players_C (GMC_Unequip m) \<longleftrightarrow> places [gm_Unequip_position m]"
  | "about_players_C (GMC_CardTarget m) \<longleftrightarrow> places [gm_CardTarget_position1 m, gm_CardTarget_position2 m]"
  | "about_players_C (GMC_CancelTarget m) \<longleftrightarrow> places [gm_CancelTarget_position1 m, gm_CancelTarget_position2 m]"
  | "about_players_C (GMC_AddCounter m) \<longleftrightarrow> two (cp_controller (gm_AddCounter_position m))"
  | "about_players_C (GMC_RemoveCounter m) \<longleftrightarrow> two (cp_controller (gm_RemoveCounter_position m))"
  | "about_players_C (GMC_Attack m) \<longleftrightarrow>
       places [gm_Attack_attacker m] \<and>
       (il_location (gm_Attack_defenser m) \<noteq> Limbo_bits \<longrightarrow> places [gm_Attack_defenser m])"
  | "about_players_C (GMC_Battle m) \<longleftrightarrow> places [gm_Battle_attacker m, gm_Battle_defenser m]"
  | "about_players_C _ \<longleftrightarrow> True"

fun about_players_D :: "gm_GroupD \<Rightarrow> bool" where
    "about_players_D (GMD_CardHint m) \<longleftrightarrow> places [gm_CardHint_position m]"
  | "about_players_D (GMD_TagSwap m) \<longleftrightarrow> two (gm_TagSwap_player m)"
  | "about_players_D (GMD_ReloadField m) \<longleftrightarrow>
       list_all (\<lambda>c. two (cp_controller (gm_ChainLink_card_position c))) (gm_ReloadField_chains m)"
  | "about_players_D (GMD_PlayerHint m) \<longleftrightarrow> two (gm_PlayerHint_player m)"
  | "about_players_D _ \<longleftrightarrow> True"

fun about_players :: "DuelField \<Rightarrow> gm_Message \<Rightarrow> bool" where
    "about_players f (GM_GroupA m) \<longleftrightarrow> about_players_A m"
  | "about_players f (GM_GroupB m) \<longleftrightarrow> about_players_B f m"
  | "about_players f (GM_GroupC m) \<longleftrightarrow> about_players_C m"
  | "about_players f (GM_GroupD m) \<longleftrightarrow> about_players_D m"
  | "about_players f (GM_Unknown bs) \<longleftrightarrow> True"

lemma about_players_duel_info [simp]: "about_players (f \<lparr> f_duel_info := d \<rparr>) m = about_players f m"
proof (cases m)
  case (GM_GroupB b)
  then show ?thesis by (cases b) simp_all
qed simp_all

lemma sound_evolve_A: "shape f \<Longrightarrow> about_players_A m \<Longrightarrow> sound (evolve_A fresh m f)"
  by (cases m) (simp_all add: sound_start sound_update_data sound_update_card)

lemma sound_evolve_B: "shape f \<Longrightarrow> about_players_B f m \<Longrightarrow> sound (evolve_B fresh m f)"
  by (cases m) (simp_all add: sound_confirm_decktop sound_confirm_cards sound_names [where p = FirstAttackPlayer]
      sound_names sound_swap_grave_deck sound_shuffle_set_card sound_shuffle_extra sound_confirm_extra_top
      sound_move_card sound_position_change sound_swap_cards sound_flip move_about_players_def Let_def)

lemma sound_evolve_C: "shape f \<Longrightarrow> about_players_C m \<Longrightarrow> sound (evolve_C m f)"
  by (cases m) (simp_all add: sound_chaining chained_def sound_become_target sound_draw sound_relations sound_counters
      sound_attack sound_battle)

lemma sound_evolve_D: "shape f \<Longrightarrow> about_players_D m \<Longrightarrow> sound (evolve_D fresh m f)"
  by (cases m) (simp_all add: sound_hints sound_tag_swap sound_reload_field)

lemma DuelInfo_evolve_ok:
  assumes "shape f" and "about_players f m"
  shows "\<exists>d. DuelInfo_evolve m (f_duel_info f) = Inr d \<and> shape (f \<lparr> f_duel_info := d \<rparr>)"
proof -
  have n: "length (di_lp (f_duel_info f)) = 2" using assms(1) by (simp add: shape_def)
  have lp: "\<exists>d. change_lp p g (f_duel_info f) = Inr d \<and> shape (f \<lparr> f_duel_info := d \<rparr>)" if "two p" for p g
    using change_lp_ok [OF n that, of g] shape_lp [OF assms(1)] by blast
  have turn: "shape (f \<lparr> f_duel_info := f_duel_info f \<lparr> di_turn := t \<rparr> \<rparr>)" for t
    using assms(1) by (simp add: shape_def)
  show ?thesis
  proof (cases m)
    case (GM_GroupB b)
    then show ?thesis using assms(1) turn by (cases b) (simp_all add: DuelInfo_evolve_def)
  next
    case (GM_GroupC c)
    then show ?thesis using assms lp by (cases c) (simp_all add: DuelInfo_evolve_def)
  qed (simp_all add: DuelInfo_evolve_def assms(1))
qed

text \<open>C13: the board never panics on a message about the two players. A zone of a player is looked up by index,
  which fails for anybody else, and so would a negative number of face-up cards in the extra deck; on every
  message that names only the two players, on a board of the right shape, the whole handler returns, and
  leaves a board of the right shape, whatever keys the store of cards hands out.\<close>

theorem evolve_never_panics:
  assumes "shape f" and "about_players f m"
  shows "\<exists>f'. Field_evolve fresh m f = Inr f' \<and> shape f'"
proof -
  obtain d where d: "DuelInfo_evolve m (f_duel_info f) = Inr d" and s: "shape (f \<lparr> f_duel_info := d \<rparr>)"
    using DuelInfo_evolve_ok [OF assms] by blast
  have a: "about_players (f \<lparr> f_duel_info := d \<rparr>) m" using assms(2) by simp
  have "sound (evolve_groups fresh m (f \<lparr> f_duel_info := d \<rparr>))"
    using s a by (cases m) (simp_all del: about_players_duel_info add: sound_evolve_A sound_evolve_B sound_evolve_C sound_evolve_D)
  then show ?thesis by (simp add: Field_evolve_def d sound_def)
qed

lemma shape_default [simp]: "shape DuelField_default"
  by (simp add: shape_def DuelField_default_def DuelInfo_default_def numeral_eq_Suc)

lemma evolve_never_panics_witness:
  "\<exists>f'. Field_evolve next_key
     (GM_ConfirmExtraTop \<lparr> gm_ConfirmExtraTop_player = SecondAttackPlayer, gm_ConfirmExtraTop_selectable_cards = [] \<rparr>)
     DuelField_default = Inr f' \<and> shape f'"
  by (rule evolve_never_panics [OF shape_default]) (simp add: DuelField_default_def player_index_def)

end
