(* ===== verification/FieldMoves.thy ===== *)
theory FieldMoves
  imports FieldSafety
begin

text \<open>
  What moving cards does to the board: no card is lost or doubled, the card that moves says where it is, and
  drawing takes the top of the deck to the hand.
\<close>

section \<open>The cards in the zones\<close>

definition list_zones :: "u8 list" where
  "list_zones = [Deck_bits, Hand_bits, Grave_bits, Removed_bits, Extra_bits]"

definition slot_keys :: "CardKey option list list \<Rightarrow> CardKey multiset" where
  "slot_keys zs = image_mset the (filter_mset (\<lambda>x. x \<noteq> None) (mset (concat zs)))"

definition zone_keys :: "DuelField \<Rightarrow> CardKey multiset" where
  "zone_keys f =
     mset (concat (f_deck f)) + mset (concat (f_hand f)) + mset (concat (f_grave f)) + mset (concat (f_remove f)) +
     mset (concat (f_extra f)) + slot_keys (f_mzone f) + slot_keys (f_szone f)"

lemma zone_keys_cards [simp]:
  "zone_keys (f \<lparr> f_cards := m \<rparr>) = zone_keys f" "zone_keys (f \<lparr> f_duel_info := d \<rparr>) = zone_keys f"
  "zone_keys (with_card k g f) = zone_keys f" "zone_keys (with_cards ks g f) = zone_keys f"
  "zone_keys (add_pendulums p n f) = zone_keys f"
  by (simp_all add: zone_keys_def with_card_def with_cards_def add_pendulums_def)

lemma zone_keys_targets [simp]:
  "zone_keys (clear_card_target k f) = zone_keys f" "zone_keys (release_equip k f) = zone_keys f"
  by (simp_all add: clear_card_target_def release_equip_def split: option.split)

lemma zone_keys_fold [simp]: "zone_keys (fold (\<lambda>x. with_card (j x) (g x)) xs f) = zone_keys f"
  by (induction xs arbitrary: f) simp_all

lemma zone_keys_reset [simp]: "zone_keys (reset_sequence ks f) = zone_keys f"
  unfolding reset_sequence_def case_prod_unfold by simp

lemma exchange:
  fixes a :: "'x multiset"
  assumes "a + b = c + d" and "d + e = b + g"
  shows "a + e = c + g"
proof -
  have "(a + e) + b = (a + b) + e" by (simp add: ac_simps)
  also have "\<dots> = c + (d + e)" by (simp add: assms(1) add.assoc)
  also have "\<dots> = (c + g) + b" by (simp add: assms(2) ac_simps)
  finally show ?thesis by simp
qed

lemma concat_update: "p < length zs \<Longrightarrow> mset (concat (zs[p := z])) + mset (zs ! p) = mset (concat zs) + mset z"
  by (induction zs arbitrary: p) (auto split: nat.split simp: add.assoc add.left_commute nth_Cons' add.commute)

lemma zone_keys_put_list:
  assumes "shape f" and "p < 2" and "is_list_zone l"
  shows "zone_keys (put_list l p z f) + mset (zone_lists l f ! p) = zone_keys f + mset z"
proof -
  have "zone_keys (put_list l p z f) + mset (concat (zone_lists l f)) =
      zone_keys f + mset (concat ((zone_lists l f)[p := z]))"
    using assms(3) by (auto simp: is_list_zone_def put_list_def set_zone_lists_def zone_lists_def zone_keys_def)
  moreover have "mset (concat ((zone_lists l f)[p := z])) + mset (zone_lists l f ! p) =
      mset (concat (zone_lists l f)) + mset z"
    by (rule concat_update) (simp add: zone_lists_two [OF assms(1)] assms(2))
  ultimately show ?thesis by (rule exchange)
qed

abbreviation key_mset :: "CardKey option \<Rightarrow> CardKey multiset" where
  "key_mset k \<equiv> mset (case k of None \<Rightarrow> [] | Some k \<Rightarrow> [k])"

lemma slot_keys_update:
  assumes "p < length zs" and "i < length (zs ! p)"
  shows "slot_keys (zs[p := (zs ! p)[i := k]]) + key_mset (zs ! p ! i) = slot_keys zs + key_mset k"
proof -
  let ?row = "(zs ! p)[i := k]"
  have "mset (concat (zs[p := ?row])) + mset (zs ! p) = mset (concat zs) + mset ?row"
    by (rule concat_update [OF assms(1)])
  moreover have "mset ?row + {#zs ! p ! i#} = mset (zs ! p) + {#k#}"
    using assms(2) by (simp add: mset_update)
  ultimately have "mset (concat (zs[p := ?row])) + {#zs ! p ! i#} = mset (concat zs) + {#k#}"
    by (rule exchange)
  from arg_cong [OF this, of "\<lambda>m. image_mset the (filter_mset (\<lambda>x. x \<noteq> None) m)"]
  show ?thesis by (cases k; cases "zs ! p ! i") (simp_all add: slot_keys_def)
qed

lemma zone_slots_row:
  assumes "shape f" and "p < 2"
  shows "length (zone_slots l f ! p) = (if l = MZone_bits then 7 else 8)"
proof -
  have "map length (f_mzone f) ! p = [7, 7] ! p" "map length (f_szone f) ! p = [8, 8] ! p"
    "length (f_mzone f) = 2" "length (f_szone f) = 2"
    using assms(1) zone_slots_two [OF assms(1), of MZone_bits] zone_slots_two [OF assms(1), of SZone_bits]
    by (simp_all add: shape_def zone_slots_def)
  moreover have "p = 0 \<or> p = 1" using assms(2) by auto
  ultimately show ?thesis by (auto simp: zone_slots_def)
qed

lemma zone_keys_put_slot:
  assumes "shape f" and "p < 2" and "is_slot_zone l" and "i < length (zone_slots l f ! p)"
  shows "zone_keys (put_slot l p i k f) + key_mset (zone_slots l f ! p ! i) = zone_keys f + key_mset k"
proof -
  have "zone_keys (put_slot l p i k f) + slot_keys (zone_slots l f) =
      zone_keys f + slot_keys ((zone_slots l f)[p := (zone_slots l f ! p)[i := k]])"
    using assms(3) by (auto simp: is_slot_zone_def put_slot_def set_zone_slots_def zone_slots_def zone_keys_def)
  moreover have "slot_keys ((zone_slots l f)[p := (zone_slots l f ! p)[i := k]]) + key_mset (zone_slots l f ! p ! i) =
      slot_keys (zone_slots l f) + key_mset k"
    by (rule slot_keys_update) (simp_all add: zone_slots_two [OF assms(1)] assms)
  ultimately show ?thesis by (rule exchange)
qed

section \<open>What a card says of itself\<close>

definition looks :: "FieldCard \<Rightarrow> CorePlayer \<times> u8 \<times> u8 \<times> CorePlayer \<times> u32" where
  "looks c = (fc_controller c, fc_location c, fc_position c, fc_owner c, fc_code c)"

definition look :: "DuelField \<Rightarrow> CardKey \<Rightarrow> (CorePlayer \<times> u8 \<times> u8 \<times> CorePlayer \<times> u32) option" where
  "look f k = map_option looks (card f k)"

lemma card_with_card [simp]: "card (with_card k g f) j = (if j = k then map_option g (card f j) else card f j)"
  by (simp add: card_def with_card_def)

lemma card_with_cards [simp]: "card (with_cards ks g f) j = (if j \<in> ks then map_option g (card f j) else card f j)"
  by (simp add: card_def with_cards_def)

lemma look_with_card: "(\<And>c. looks (g c) = looks c) \<Longrightarrow> look (with_card k g f) j = look f j"
  by (simp add: look_def option.map_comp comp_def)

lemma look_with_cards: "(\<And>c. looks (g c) = looks c) \<Longrightarrow> look (with_cards ks g f) j = look f j"
  by (simp add: look_def option.map_comp comp_def)

lemma look_targets [simp]: "look (clear_card_target k f) j = look f j" "look (release_equip k f) j = look f j"
  by (simp_all add: clear_card_target_def release_equip_def look_with_card look_with_cards looks_def split: option.split)

lemma look_fold: "(\<And>x c. looks (g x c) = looks c) \<Longrightarrow> look (fold (\<lambda>x. with_card (j x) (g x)) xs f) i = look f i"
  by (induction xs arbitrary: f) (simp_all add: look_with_card)

lemma look_reset [simp]: "look (reset_sequence ks f) j = look f j"
  unfolding reset_sequence_def case_prod_unfold by (rule look_fold) (simp add: looks_def)

lemma card_zones [simp]:
  "card (put_list l p z f) k = card f k" "card (put_slot l p i x f) k = card f k" "card (add_pendulums p n f) k = card f k"
  by (simp_all add: card_def put_list_def set_zone_lists_def put_slot_def set_zone_slots_def add_pendulums_def)

lemma look_zones [simp]:
  "look (put_list l p z f) k = look f k" "look (put_slot l p i x f) k = look f k" "look (add_pendulums p n f) k = look f k"
  by (simp_all add: look_def)

section \<open>Taking a card from a zone and putting it into one\<close>

lemma list_zone_cases:
  assumes "is_list_zone l"
  obtains "l = Deck_bits" | "l = Hand_bits" | "l = Grave_bits" | "l = Removed_bits" | "l = Extra_bits"
  using assms by (auto simp: is_list_zone_def)

lemma not_both_zones: "is_slot_zone l \<Longrightarrow> \<not> is_list_zone l"
  by (auto simp: is_slot_zone_def is_list_zone_def)

lemma zone_not_overlay:
  assumes "is_list_zone l \<or> is_slot_zone l"
  shows "without_overlay l = l" "\<not> contains l Overlay_bits" "l \<noteq> Limbo_bits"
  using assms by (auto simp: is_list_zone_def is_slot_zone_def without_overlay_def contains_def)

lemma at_zone:
  assumes "is_list_zone l \<or> is_slot_zone l"
  shows "get_card_key p l seq 0 f = key_at p l seq f"
  using zone_not_overlay [OF assms] by (cases "key_at p l seq f") (simp_all add: get_card_key_def)

lemma key_at_list:
  assumes "shape f" and "two p" and "is_list_zone l" and "key_at p l seq f = Inr (Some k)"
  shows "unat seq < length (zone_lists l f ! player_index p)" "zone_lists l f ! player_index p ! unat seq = k"
  using assms(3,4) by (auto simp: key_at_def zone_list_ok [OF assms(1) two_index [OF assms(2)]] split: if_splits)

lemma slot_at_row:
  assumes "shape f" and "p < 2"
  shows "slot_at l p i f = Inr (if i < length (zone_slots l f ! p) then zone_slots l f ! p ! i else None)"
  using zone_slot_ok [OF assms] by (simp add: slot_at_def del: index.simps)

lemma key_at_slot:
  assumes "shape f" and "two p" and "is_slot_zone l" and "key_at p l seq f = Inr (Some k)"
  shows "unat seq < length (zone_slots l f ! player_index p)" "zone_slots l f ! player_index p ! unat seq = Some k"
  using assms(3,4) not_both_zones
  by (auto simp: key_at_def slot_at_row [OF assms(1) two_index [OF assms(2)]] split: if_splits)

lemma mset_remove_nth: "i < length z \<Longrightarrow> mset (remove_nth i z) + {#z ! i#} = mset z"
  by (metis add_mset_add_single id_take_nth_drop mset.simps(2) mset_append remove_nth_def union_mset_add_mset_right)

lemma mset_insert_nth: "mset (insert_nth i k z) = mset z + {#k#}"
proof -
  have "mset (take i z) + mset (drop i z) = mset z" by (metis append_take_drop_id mset_append)
  then show ?thesis by (simp add: insert_nth_def)
qed

lemma slots_of_list_ops [simp]:
  "zone_slots s (put_list l p z f) = zone_slots s f" "zone_slots s (add_pendulums p n f) = zone_slots s f"
  "zone_slots s (with_card k g f) = zone_slots s f" "zone_slots s (with_cards ks g f) = zone_slots s f"
  "zone_slots s (f \<lparr> f_duel_info := d \<rparr>) = zone_slots s f"
  by (simp_all add: zone_slots_def put_list_def set_zone_lists_def add_pendulums_def with_card_def with_cards_def)

lemma slots_of_fold [simp]: "zone_slots s (fold (\<lambda>x. with_card (j x) (g x)) xs f) = zone_slots s f"
  by (induction xs arbitrary: f) simp_all

lemma slots_of_targets [simp]:
  "zone_slots s (reset_sequence ks f) = zone_slots s f" "zone_slots s (clear_card_target k f) = zone_slots s f"
  "zone_slots s (release_equip k f) = zone_slots s f"
  by (simp_all add: reset_sequence_def case_prod_unfold clear_card_target_def release_equip_def split: option.split)

lemma zone_slots_put:
  "zone_slots s (put_slot l p i k f) =
     (if (s = MZone_bits) = (l = MZone_bits) then (zone_slots s f)[p := (zone_slots s f ! p)[i := k]] else zone_slots s f)"
  by (simp add: put_slot_def set_zone_slots_def zone_slots_def)

lemma row_emptied:
  "q < length xs \<Longrightarrow> i < length (xs ! q) \<Longrightarrow> xs ! q ! i = None \<Longrightarrow> xs[p := (xs ! p)[j := None]] ! q ! i = None"
  by (cases "p = q"; cases "j = i") simp_all

lemma free_put_slot:
  assumes "shape f" and "q < 2" and "slot_at s q i f = Inr None"
  shows "slot_at s q i (put_slot l p j None f) = Inr None"
proof -
  let ?g = "put_slot l p j None f"
  have n: "length (zone_slots s ?g ! q) = length (zone_slots s f ! q)"
    by (simp only: zone_slots_row [OF shape_put_slot [OF assms(1)] assms(2)] zone_slots_row [OF assms(1,2)])
  have "zone_slots s ?g ! q ! i = None" if "i < length (zone_slots s f ! q)"
    using that assms(3) zone_slots_two [OF assms(1), of s] assms(2)
    by (simp add: zone_slots_put row_emptied slot_at_row [OF assms(1,2)])
  then show ?thesis using n by (simp add: slot_at_row [OF shape_put_slot [OF assms(1)] assms(2)])
qed

lemma look_away:
  "look (with_card k (\<lambda>c. c \<lparr> fc_location := l \<rparr>) f) j =
     (if j = k then map_option (\<lambda>(c, l', b). (c, l, b)) (look f j) else look f j)"
  by (simp add: look_def looks_def option.map_comp comp_def)

lemma slot_at_with_card [simp]: "slot_at s q i (with_card k g f) = slot_at s q i f"
  by (simp add: slot_at_def)

lemma zone_extra: "l = Extra_bits \<Longrightarrow> is_list_zone l"
  by (simp add: is_list_zone_def)

lemma remove_card_takes:
  assumes "shape f" and "two p" and "is_list_zone l \<or> is_slot_zone l" and "key_at p l seq f = Inr (Some k)"
  shows "\<exists>f'. remove_card p l seq f = Inr (Some k, f') \<and> shape f' \<and> zone_keys f' + {#k#} = zone_keys f \<and>
    look f' k = map_option (\<lambda>(c, l, b). (c, Limbo_bits, b)) (look f k) \<and> (\<forall>j. j \<noteq> k \<longrightarrow> look f' j = look f j) \<and>
    (\<forall>s q i. q < 2 \<longrightarrow> slot_at s q i f = Inr None \<longrightarrow> slot_at s q i f' = Inr None)"
proof -
  let ?p = "player_index p" and ?away = "with_card k (\<lambda>c. c \<lparr> fc_location := Limbo_bits \<rparr>)"
  note p = two_index [OF assms(2)]
  obtain g where g: "take_key p l seq f = Inr (Some k, g)" "shape g" "zone_keys g + {#k#} = zone_keys f"
    "\<And>j. look g j = look f j" "\<And>s q i. q < 2 \<Longrightarrow> slot_at s q i f = Inr None \<Longrightarrow> slot_at s q i g = Inr None"
  proof (cases "is_list_zone l")
    case True
    let ?z = "zone_lists l f ! ?p"
    let ?z' = "remove_nth (unat seq) ?z"
    let ?g = "reset_sequence ?z' (put_list l ?p ?z' f)"
    note at = key_at_list [OF assms(1,2) True assms(4)]
    have rm: "remove_from_list l ?p seq f = Inr (Some k, ?g)"
      using at by (simp add: remove_from_list_def zone_list_ok [OF assms(1) p] Let_def)
    have "zone_keys ?g + mset ?z = zone_keys f + mset ?z'"
      using zone_keys_put_list [OF assms(1) p True] by simp
    moreover have "mset ?z' + {#k#} = mset ?z + {#}" using mset_remove_nth [OF at(1)] at(2) by simp
    ultimately have "zone_keys ?g + {#k#} = zone_keys f + {#}" by (rule exchange)
    then have keys: "zone_keys ?g + {#k#} = zone_keys f" by simp
    show ?thesis
    proof (cases "l = Extra_bits \<and> faceup_key ?g k")
      case True
      show ?thesis
        by (rule that [of "add_pendulums ?p (- 1) ?g"])
          (use True rm keys assms(1) in \<open>auto simp: take_key_def Let_def slot_at_def\<close>)
    next
      case False
      show ?thesis
        by (rule that [of ?g])
          (use False \<open>is_list_zone l\<close> rm keys assms(1) in \<open>auto simp: take_key_def Let_def slot_at_def\<close>)
    qed
  next
    case False
    then have l: "is_slot_zone l" using assms(3) by simp
    note at = key_at_slot [OF assms(1,2) l assms(4)]
    have "zone_keys (put_slot l ?p (unat seq) None f) + {#k#} = zone_keys f"
      using zone_keys_put_slot [OF assms(1) p l at(1), of None] at(2) by simp
    then show ?thesis
      using False l zone_extra at assms(1) p free_put_slot [OF assms(1)]
      by (intro that [of "put_slot l ?p (unat seq) None f"]) (auto simp: take_key_def slot_at_row Let_def)
  qed
  show ?thesis
    by (rule exI [of _ "?away g"]) (use g in \<open>simp add: remove_card_def look_away\<close>)
qed

text \<open>Where a card may be put: any list, and a free place.\<close>

definition room_at :: "CorePlayer \<Rightarrow> u8 \<Rightarrow> u8 \<Rightarrow> DuelField \<Rightarrow> bool" where
  "room_at p l seq f \<longleftrightarrow>
     is_list_zone l \<or>
     is_slot_zone l \<and> unat seq < (if l = MZone_bits then 7 else 8) \<and> slot_at l (player_index p) (unat seq) f = Inr None"

lemma look_put_down:
  "look (with_card k (\<lambda>c. c \<lparr> fc_controller := p, fc_location := l, fc_sequence := s \<rparr>) f) j =
     (if j = k then map_option (\<lambda>(c, l', b). (p, l, b)) (look f j) else look f j)"
  by (simp add: look_def looks_def option.map_comp comp_def)

lemma looks_clear_card [simp]: "looks (clear_card c) = looks c"
  by (simp add: looks_def clear_card_def)

lemma add_card_puts:
  assumes "shape f" and "two p" and "room_at p l seq f"
  shows "\<exists>f'. add_card k p l seq f = Inr f' \<and> shape f' \<and> zone_keys f' = zone_keys f + {#k#} \<and>
    look f' k = map_option (\<lambda>(c, l', b). (p, l, b)) (look f k) \<and> (\<forall>j. j \<noteq> k \<longrightarrow> look f' j = look f j)"
proof -
  let ?p = "player_index p"
  define f1 where "f1 = with_card k (\<lambda>c. c \<lparr> fc_controller := p, fc_location := l, fc_sequence := seq \<rparr>) f"
  note p = two_index [OF assms(2)]
  have s1: "shape f1" and keys: "zone_keys f1 = zone_keys f" using assms(1) by (simp_all add: f1_def)
  have put: "zone_keys (put_list l ?p (insert_nth i k (zone_lists l f1 ! ?p)) f1) = zone_keys f + {#k#}"
      "zone_keys (put_list l ?p (zone_lists l f1 ! ?p @ [k]) f1) = zone_keys f + {#k#}" if "is_list_zone l" for i
    using zone_keys_put_list [OF s1 p that, of "insert_nth i k (zone_lists l f1 ! ?p)"]
      zone_keys_put_list [OF s1 p that, of "zone_lists l f1 ! ?p @ [k]"] by (simp_all add: mset_insert_nth keys)
  have add: "add_card k p l seq f =
      (if l = Deck_bits then add_to_deck k ?p seq f1 else if l = Hand_bits then add_to_hand k ?p f1
       else if is_slot_zone l then add_to_slot l k ?p seq f1
       else if l = Grave_bits \<or> l = Removed_bits then add_to_pile l k ?p f1
       else if l = Extra_bits then add_to_extra k ?p f1 else Inr f1)"
    by (simp only: add_card_def f1_def Let_def)
  note ops = add_to_deck_def add_to_hand_def add_to_pile_def add_to_extra_def add_to_slot_def
    zone_list_ok [OF s1 p] Let_def
  have "\<exists>f'. add_card k p l seq f = Inr f' \<and> shape f' \<and> zone_keys f' = zone_keys f + {#k#} \<and> (\<forall>j. look f' j = look f1 j)"
  proof (cases "is_list_zone l")
    case True
    then have ok: "\<not> is_slot_zone l" using not_both_zones by blast
    show ?thesis
      unfolding add using True put [OF True] s1 ok
      by (elim list_zone_cases) (simp_all add: ops look_with_card looks_def clear_card_def)
  next
    case False
    with assms(3) have l: "is_slot_zone l" "unat seq < (if l = MZone_bits then 7 else 8)"
      "slot_at l ?p (unat seq) f1 = Inr None"
      by (simp_all add: room_at_def f1_def)
    then have i: "unat seq < length (zone_slots l f1 ! ?p)" by (simp only: zone_slots_row [OF s1 p])
    with l(3) have "zone_slots l f1 ! ?p ! unat seq = None" by (simp add: slot_at_row [OF s1 p] split: if_splits)
    with zone_keys_put_slot [OF s1 p l(1) i, of "Some k"]
    have "zone_keys (put_slot l ?p (unat seq) (Some k) f1) = zone_keys f + {#k#}" by (simp add: keys)
    moreover have "add_card k p l seq f = Inr (put_slot l ?p (unat seq) (Some k) f1)"
      using l(1) by (auto simp: is_slot_zone_def add add_to_slot_def zone_slot_ok [OF s1 p] Let_def simp del: index.simps)
    ultimately show ?thesis using s1 by simp
  qed
  then show ?thesis unfolding f1_def by (auto simp: look_put_down)
qed

section \<open>A card moves\<close>

lemma look_code: "look (with_card k (set_code c) f) j =
    (if j = k then map_option (\<lambda>(p, l, pos, o', d). (p, l, pos, o', c)) (look f j) else look f j)"
  by (auto simp: look_def looks_def set_code_def option.map_comp comp_def intro: option.map_cong0)

lemma look_position: "look (with_card k (\<lambda>c. c \<lparr> fc_position := pos \<rparr>) f) j =
    (if j = k then map_option (\<lambda>(p, l, pos', b). (p, l, pos, b)) (look f j) else look f j)"
  by (simp add: look_def looks_def option.map_comp comp_def)

lemma look_strips [simp]: "look (with_card k no_hint f) j = look f j" "look (with_card k no_counters f) j = look f j"
  by (simp_all add: look_with_card looks_def no_hint_def no_counters_def)

lemma slot_at_slots: "zone_slots s f = zone_slots s g \<Longrightarrow> slot_at s p i f = slot_at s p i g"
  by (simp add: slot_at_def)

lemma room_at_slots: "(\<And>s. zone_slots s g = zone_slots s f) \<Longrightarrow> room_at p l seq g = room_at p l seq f"
  by (simp add: room_at_def slot_at_slots [of l g f])

text \<open>Zones as far as a position can see them.\<close>

definition same_zones :: "DuelField \<Rightarrow> DuelField \<Rightarrow> bool" where
  "same_zones f g \<longleftrightarrow> (\<forall>l. zone_lists l g = zone_lists l f) \<and> (\<forall>s. zone_slots s g = zone_slots s f)"

lemma zone_lists_ops [simp]:
  "zone_lists l (with_card k g f) = zone_lists l f" "zone_lists l (with_cards ks g f) = zone_lists l f"
  by (simp_all add: zone_lists_def with_card_def with_cards_def)

lemma zone_lists_targets [simp]:
  "zone_lists l (clear_card_target k f) = zone_lists l f" "zone_lists l (release_equip k f) = zone_lists l f"
  by (simp_all add: clear_card_target_def release_equip_def split: option.split)

lemma key_at_same: "same_zones f g \<Longrightarrow> key_at p l seq g = key_at p l seq f"
  by (simp add: same_zones_def key_at_def zone_list_def slot_at_def)

lemma room_at_same: "same_zones f g \<Longrightarrow> room_at p l seq g = room_at p l seq f"
  by (intro room_at_slots) (simp add: same_zones_def)

definition prepared :: "CardKey \<Rightarrow> gm_Move \<Rightarrow> DuelField \<Rightarrow> DuelField" where
  "prepared k m f =
     (let old = gm_Move_previous m; now = gm_Move_current m; code = gm_Move_code m;
          card_code = (case card f k of None \<Rightarrow> 0 | Some c \<Rightarrow> fc_code c);
          f1 = (if code \<noteq> 0 \<and> card_code \<noteq> code \<or> il_location now = Extra_bits \<and> card_code \<noteq> code
                then with_card k (set_code code) f else f);
          f2 = with_card k no_hint f1;
          f3 = (if intersects (il_location old) (Location_bits Location_OnField) \<and> il_location now \<noteq> il_location old
                then with_card k no_counters f2 else f2)
      in if il_location now \<noteq> il_location old then release_equip k (clear_card_target k f3) else f3)"

lemma travel_prepared:
  "travel m f = when_card (at_info0 (gm_Move_previous m) f) f (\<lambda>k.
     and_then (remove_card (il_controller (gm_Move_previous m)) (il_location (gm_Move_previous m))
         (il_sequence (gm_Move_previous m)) (prepared k m f)) (\<lambda>(_, f5).
       add_card k (il_controller (gm_Move_current m)) (il_location (gm_Move_current m)) (il_sequence (gm_Move_current m))
         (with_card k (\<lambda>c. c \<lparr> fc_position := il_position (gm_Move_current m) \<rparr>) f5)))"
  by (simp only: travel_def prepared_def Let_def)

definition code_after :: "gm_Move \<Rightarrow> u32 \<Rightarrow> u32" where
  "code_after m code =
     (if gm_Move_code m \<noteq> 0 \<or> il_location (gm_Move_current m) = Extra_bits then gm_Move_code m else code)"

lemma prepared_facts:
  assumes "card f k = Some c"
  shows "same_zones f (prepared k m f)" "zone_keys (prepared k m f) = zone_keys f" "shape (prepared k m f) = shape f"
    "look (prepared k m f) k = Some (fc_controller c, fc_location c, fc_position c, fc_owner c, code_after m (fc_code c))"
    "j \<noteq> k \<Longrightarrow> look (prepared k m f) j = look f j"
proof -
  show "same_zones f (prepared k m f)" "zone_keys (prepared k m f) = zone_keys f" "shape (prepared k m f) = shape f"
    by (simp_all add: prepared_def Let_def same_zones_def)
  have "look f k = Some (fc_controller c, fc_location c, fc_position c, fc_owner c, fc_code c)"
    using assms by (simp add: look_def looks_def)
  then show "look (prepared k m f) k =
      Some (fc_controller c, fc_location c, fc_position c, fc_owner c, code_after m (fc_code c))"
    using assms by (auto simp: prepared_def Let_def look_code code_after_def)
  show "look (prepared k m f) j = look f j" if "j \<noteq> k"
    using that by (auto simp: prepared_def Let_def look_code)
qed

definition a_zone :: "u8 \<Rightarrow> bool" where
  "a_zone l \<longleftrightarrow> is_list_zone l \<or> is_slot_zone l"


text \<open>A board of two cards in the deck of the first player.\<close>

definition sample_field_card :: "u32 \<Rightarrow> FieldCard" where
  "sample_field_card code = FieldCard_default \<lparr> fc_code := code, fc_owner := FirstAttackPlayer,
     fc_controller := FirstAttackPlayer, fc_location := Deck_bits \<rparr>"

definition sample_board :: DuelField where
  "sample_board = DuelField_default
     \<lparr> f_cards := \<lparr> sm_items = [1 \<mapsto> sample_field_card 0, 2 \<mapsto> sample_field_card 0], sm_keys = [2, 1] \<rparr>,
       f_deck := [[1, 2], []] \<rparr>"

lemma sample_board_shape: "shape sample_board"
  using shape_default by (simp add: shape_def sample_board_def DuelField_default_def)


section \<open>Drawing\<close>

text \<open>The board without the cards themselves.\<close>

definition board :: "DuelField \<Rightarrow> DuelField" where
  "board f = f \<lparr> f_cards := SlotMap_new \<rparr>"

lemma board_with_card [simp]: "board (with_card k g f) = board f"
  by (simp add: board_def with_card_def)

lemma board_fold [simp]: "board (fold (\<lambda>x. with_card (j x) (g x)) xs f) = board f"
  by (induction xs arbitrary: f) simp_all

lemma board_reset [simp]: "board (reset_sequence ks f) = board f"
  unfolding reset_sequence_def case_prod_unfold by simp

lemma board_put_list: "board (put_list l p z f) = put_list l p z (board f)"
  by (simp add: board_def put_list_def set_zone_lists_def zone_lists_def)

lemma zone_lists_hand_deck [simp]:
  "zone_lists 2 f = f_hand f" "zone_lists 1 f = f_deck f"
  by (simp_all add: zone_lists_def)

lemma put_hand_deck:
  "put_list 2 p z f = f \<lparr> f_hand := (f_hand f)[p := z] \<rparr>"
  "put_list 1 p z f = f \<lparr> f_deck := (f_deck f)[p := z] \<rparr>"
  by (simp_all add: put_list_def set_zone_lists_def zone_lists_def)

lemma add_to_hand_ok:
  assumes "shape f" and "two p"
  shows "\<exists>f'. add_card k p Hand_bits 0 f = Inr f' \<and> shape f' \<and>
    board f' = board (put_list Hand_bits (player_index p) (f_hand f ! player_index p @ [k]) f) \<and>
    (\<forall>j. look f' j = (if j = k then map_option (\<lambda>(c, l, b). (p, Hand_bits, b)) (look f j) else look f j))"
proof -
  have "is_slot_zone Hand_bits = False" by (simp add: is_slot_zone_def)
  then show ?thesis
    using assms two_index [OF assms(2)]
    by (simp add: add_card_def add_to_hand_def zone_list_ok Let_def look_put_down board_put_list)
qed

lemma take_rev_Suc: "z \<noteq> [] \<Longrightarrow> take (Suc n) (rev z) = last z # take n (rev (butlast z))"
  by (cases z rule: rev_cases) simp_all

lemma draw_cards_ok:
  assumes "shape f" and "two p"
  shows "\<exists>f'. draw_cards p n f = Inr f' \<and> shape f' \<and>
    board f' = (let i = player_index p; deck = f_deck f ! i in
      (board f) \<lparr> f_deck := (f_deck f)[i := take (length deck - n) deck],
                  f_hand := (f_hand f)[i := f_hand f ! i @ take n (rev deck)] \<rparr>) \<and>
    (\<forall>j. look f' j = (if j \<in> set (take n (rev (f_deck f ! player_index p)))
                      then map_option (\<lambda>(c, l, b). (p, Hand_bits, b)) (look f j) else look f j))"
  using assms(1)
proof (induction n arbitrary: f)
  case 0
  then show ?case by (simp add: board_def)
next
  case (Suc n)
  let ?i = "player_index p"
  note i = two_index [OF assms(2)]
  have two: "length (f_deck f) = 2" "length (f_hand f) = 2" using Suc.prems by (simp_all add: shape_def)
  show ?case
  proof (cases "f_deck f ! ?i = []")
    case True
    then have "(f_deck f)[?i := []] = f_deck f" using list_update_id [of "f_deck f" ?i] by simp
    then show ?thesis using True Suc.prems i by (simp add: zone_list_ok board_def Let_def)
  next
    case False
    let ?z = "f_deck f ! ?i"
    let ?g = "put_list Deck_bits ?i (butlast ?z) f"
    have "shape ?g" using Suc.prems by simp
    from add_to_hand_ok [OF this assms(2), of "last ?z"] obtain g where
      g: "add_card (last ?z) p Hand_bits 0 ?g = Inr g" "shape g"
        "board g = board (put_list Hand_bits ?i (f_hand ?g ! ?i @ [last ?z]) ?g)"
        "\<And>j. look g j = (if j = last ?z then map_option (\<lambda>(c, l, b). (p, Hand_bits, b)) (look ?g j) else look ?g j)"
      by blast
    from arg_cong [OF g(3), of f_deck] arg_cong [OF g(3), of f_hand] have zones: "f_deck g = (f_deck f)[?i := butlast ?z]" "f_hand g = (f_hand f)[?i := f_hand f ! ?i @ [last ?z]]"
      by (simp_all add: board_def put_hand_deck)
    have b: "board g = (board f) \<lparr> f_deck := f_deck g, f_hand := f_hand g \<rparr>"
      unfolding g(3) zones by (simp add: board_def put_hand_deck)
    have "draw_cards p (Suc n) f = draw_cards p n g"
      using False Suc.prems i g(1) by (simp add: zone_list_ok)
    moreover have "take (length ?z - Suc n) (butlast ?z) = take (length ?z - Suc n) ?z"
      by (simp add: butlast_conv_take)
    ultimately show ?thesis
      using Suc.IH [OF g(2)] i two False
      by (auto simp: zones b g(4) take_rev_Suc Let_def option.map_comp comp_def case_prod_unfold)
  qed
qed

text \<open>The code a drawn card gets: what the message says, unless the deck lies face up and it says nothing.\<close>

definition shown_code :: "DuelField \<Rightarrow> CardCode \<Rightarrow> u32 \<Rightarrow> u32" where
  "shown_code f code old = (if \<not> f_deck_reversed f \<or> CardCode_id code \<noteq> 0 then CardCode_id code else old)"

lemma show_code_facts:
  "board (show_code (k, code) f) = board f" "shape (show_code (k, code) f) = shape f"
  "f_deck_reversed (show_code (k, code) f) = f_deck_reversed f"
  "look (show_code (k, code) f) j =
     (if j = k then map_option (\<lambda>(c, l, pos, own, old). (c, l, pos, own, shown_code f code old)) (look f j) else look f j)"
proof -
  show "board (show_code (k, code) f) = board f" "shape (show_code (k, code) f) = shape f"
    by (simp_all add: show_code_def)
  show "f_deck_reversed (show_code (k, code) f) = f_deck_reversed f"
    by (simp add: show_code_def with_card_def)
  show "look (show_code (k, code) f) j =
     (if j = k then map_option (\<lambda>(c, l, pos, own, old). (c, l, pos, own, shown_code f code old)) (look f j) else look f j)"
    by (cases "look f j") (auto simp: show_code_def look_code shown_code_def)
qed

lemma shown_code_same: "f_deck_reversed g = f_deck_reversed f \<Longrightarrow> shown_code g = shown_code f"
  by (simp add: shown_code_def fun_eq_iff)

lemma show_codes_facts:
  "board (fold show_code (zip ks cs) f) = board f \<and> shape (fold show_code (zip ks cs) f) = shape f \<and>
   (\<forall>j. j \<notin> set (take (length cs) ks) \<longrightarrow> look (fold show_code (zip ks cs) f) j = look f j) \<and>
   (distinct ks \<longrightarrow> (\<forall>i < length ks. i < length cs \<longrightarrow>
      look (fold show_code (zip ks cs) f) (ks ! i) =
        map_option (\<lambda>(c, l, pos, own, old). (c, l, pos, own, shown_code f (cs ! i) old)) (look f (ks ! i))))"
proof (induction ks arbitrary: cs f)
  case Nil
  then show ?case by simp
next
  case (Cons k ks)
  show ?case
  proof (cases cs)
    case (Cons code codes)
    let ?g = "show_code (k, code) f"
    note IH = Cons.IH [of codes ?g, unfolded show_code_facts shown_code_same [OF show_code_facts(3)]]
    have "look (fold show_code (zip (k # ks) cs) f) ((k # ks) ! i) =
        map_option (\<lambda>(c, l, pos, own, old). (c, l, pos, own, shown_code f (cs ! i) old)) (look f ((k # ks) ! i))"
      if "distinct (k # ks)" "i < Suc (length ks)" "i < length cs" for i
    proof (cases i)
      case 0
      have "k \<notin> set (take (length codes) ks)" using that(1) by (auto dest: in_set_takeD)
      then show ?thesis using 0 IH Cons by simp
    next
      case (Suc h)
      then have "ks ! h \<noteq> k" using that by auto
      then show ?thesis using Suc IH Cons that by simp
    qed
    then show ?thesis using IH Cons by simp
  qed simp
qed

text \<open>C12: drawing takes as many cards as the message has codes from the top of the player's deck to the end of the
  hand, the top card first, or the whole deck if it has fewer; nothing else on the board changes. The
  drawn cards lie in the hand of the player with the codes of the message, unless the deck is face up and
  the message does not say; the other cards look as before.\<close>

theorem draw_takes_the_top:
  assumes "shape f" and "two (gm_Draw_player m)"
  shows "\<exists>f'. Field_evolve fresh (GM_Draw m) f = Inr f' \<and>
    (let i = player_index (gm_Draw_player m); deck = f_deck f ! i; codes = gm_Draw_codes m; n = length codes in
      board f' = (board f) \<lparr> f_deck := (f_deck f)[i := take (length deck - n) deck],
                             f_hand := (f_hand f)[i := f_hand f ! i @ take n (rev deck)] \<rparr> \<and>
      (\<forall>j. j \<notin> set (take n (rev deck)) \<longrightarrow> look f' j = look f j) \<and>
      (distinct deck \<longrightarrow> (\<forall>h < length deck. h < n \<longrightarrow>
        look f' (rev deck ! h) =
          map_option (\<lambda>(c, l, pos, own, old). (gm_Draw_player m, Hand_bits, pos, own, shown_code f (codes ! h) old))
            (look f (rev deck ! h)))))"
proof -
  let ?p = "gm_Draw_player m" and ?codes = "gm_Draw_codes m"
  let ?i = "player_index ?p"
  let ?deck = "f_deck f ! ?i"
  let ?f1 = "fold show_code (zip (rev ?deck) ?codes) f"
  note facts = show_codes_facts [of "rev ?deck" ?codes f]
  have "shape ?f1" using facts assms(1) by blast
  from draw_cards_ok [OF this assms(2), of "length ?codes"] obtain f' where
    f': "draw_cards ?p (length ?codes) ?f1 = Inr f'"
      "board f' = (let i = ?i; deck = f_deck ?f1 ! i in
        (board ?f1) \<lparr> f_deck := (f_deck ?f1)[i := take (length deck - length ?codes) deck],
                       f_hand := (f_hand ?f1)[i := f_hand ?f1 ! i @ take (length ?codes) (rev deck)] \<rparr>)"
      "\<And>j. look f' j = (if j \<in> set (take (length ?codes) (rev (f_deck ?f1 ! ?i)))
                      then map_option (\<lambda>(c, l, b). (?p, Hand_bits, b)) (look ?f1 j) else look ?f1 j)"
    by blast
  have b: "board ?f1 = board f" using facts by blast
  from arg_cong [OF b, of f_deck] arg_cong [OF b, of f_hand]
  have zones: "f_deck ?f1 = f_deck f" "f_hand ?f1 = f_hand f" by (simp_all add: board_def)
  have "draw m f = Inr f'"
    using f'(1) assms(1) two_index [OF assms(2)] by (auto simp: draw_def zone_list_ok Let_def)
  then have "Field_evolve fresh (GM_Draw m) f = Inr f'"
    by (simp add: Field_evolve_def DuelInfo_evolve_def)
  moreover have "look f' j = look f j" if "j \<notin> set (take (length ?codes) (rev ?deck))" for j
    using that facts f'(3) by (simp add: zones)
  moreover have "look f' (rev ?deck ! h) =
      map_option (\<lambda>(c, l, pos, own, old). (?p, Hand_bits, pos, own, shown_code f (?codes ! h) old)) (look f (rev ?deck ! h))"
    if "distinct ?deck" "h < length ?deck" "h < length ?codes" for h
  proof -
    have "look ?f1 (rev ?deck ! h) =
        map_option (\<lambda>(c, l, pos, own, old). (c, l, pos, own, shown_code f (?codes ! h) old)) (look f (rev ?deck ! h))"
      using facts that by simp
    moreover have "rev ?deck ! h \<in> set (take (length ?codes) (rev ?deck))"
      using that by (auto simp: in_set_conv_nth intro!: exI [of _ h])
    ultimately show ?thesis by (simp add: f'(3) zones option.map_comp comp_def case_prod_unfold)
  qed
  ultimately show ?thesis using f'(2) by (auto simp: zones b Let_def)
qed

lemma draw_takes_the_top_witness:
  "\<exists>f'. Field_evolve next_key
     (GM_Draw \<lparr> gm_Draw_player = FirstAttackPlayer, gm_Draw_codes = [5] \<rparr>) sample_board = Inr f' \<and>
     f_deck f' = [[1], []] \<and> f_hand f' = [[2], []] \<and>
     look f' 2 = Some (FirstAttackPlayer, Hand_bits, 0, FirstAttackPlayer, 5)"
proof -
  let ?m = "\<lparr> gm_Draw_player = FirstAttackPlayer, gm_Draw_codes = [5] \<rparr>"
  have "two (gm_Draw_player ?m)" by simp
  from draw_takes_the_top [OF sample_board_shape this, of next_key] obtain f' where
    f': "Field_evolve next_key (GM_Draw ?m) sample_board = Inr f'"
      "board f' = (board sample_board) \<lparr> f_deck := [[1], []], f_hand := [[2], []] \<rparr>"
      "look f' 2 = map_option (\<lambda>(c, l, pos, own, old). (FirstAttackPlayer, Hand_bits, pos, own,
         shown_code sample_board 5 old)) (look sample_board 2)"
    by (auto simp: sample_board_def DuelField_default_def player_index_def Let_def)
  have "f_deck f' = [[1], []]" "f_hand f' = [[2], []]"
    using arg_cong [OF f'(2), of f_deck] arg_cong [OF f'(2), of f_hand] by (simp_all add: board_def)
  then show ?thesis
    using f'(1,3) by (simp add: shown_code_def CardCode_id_def look_def looks_def card_def sm_get_def sample_board_def
        sample_field_card_def FieldCard_default_def DuelField_default_def)
qed

end
