(* ===== verification/FieldLife.thy ===== *)
theory FieldLife
  imports FieldMoves
begin

text \<open>
  The life points of the board, as plain integers: only the messages about life points change them, and
  they change them as the rules of the game say, as long as nothing leaves the range of 32-bit numbers.
\<close>

section \<open>Handlers that leave the life points alone\<close>

definition keeps_info :: "DuelInfo \<Rightarrow> DuelField res \<Rightarrow> bool" where
  "keeps_info d r \<longleftrightarrow> (\<forall>f. r = Inr f \<longrightarrow> f_duel_info f = d)"

named_theorems info_intros \<open>when an operation keeps the life points\<close>

lemma keeps_Inr [simp]: "keeps_info d (Inr f) \<longleftrightarrow> f_duel_info f = d"
  by (simp add: keeps_info_def)

lemma keeps_Inl [simp]: "keeps_info d (Inl e)"
  by (simp add: keeps_info_def)

lemma keeps_and_then: "keeps_info d m \<Longrightarrow> (\<And>f. f_duel_info f = d \<Longrightarrow> keeps_info d (g f)) \<Longrightarrow> keeps_info d (and_then m g)"
  by (cases m) simp_all

lemma keeps_any: "(\<And>x. keeps_info d (g x)) \<Longrightarrow> keeps_info d (and_then m g)"
  by (cases m) simp_all

lemma keeps_zone: "(\<And>z. keeps_info d (g z)) \<Longrightarrow> keeps_info d (and_then (zone_list l p f) g)"
  by (rule keeps_any)

lemma keeps_when_card [info_intros]:
  "f_duel_info f = d \<Longrightarrow> (\<And>k. keeps_info d (g k)) \<Longrightarrow> keeps_info d (when_card key f g)"
  unfolding when_card_def by (rule keeps_any) (simp split: option.split)

lemma keeps_fold_res:
  "f_duel_info f = d \<Longrightarrow> (\<And>x f. x \<in> set xs \<Longrightarrow> f_duel_info f = d \<Longrightarrow> keeps_info d (g x f)) \<Longrightarrow>
   keeps_info d (fold_res g xs f)"
  by (induction xs arbitrary: f) (auto intro!: keeps_and_then)

lemma info_store [simp]:
  "f_duel_info (with_card k g f) = f_duel_info f" "f_duel_info (with_cards ks g f) = f_duel_info f"
  "f_duel_info (drop_card k f) = f_duel_info f" "f_duel_info (put_list l p z f) = f_duel_info f"
  "f_duel_info (put_slot l p i x f) = f_duel_info f" "f_duel_info (add_pendulums p n f) = f_duel_info f"
  by (simp_all add: with_card_def with_cards_def drop_card_def put_list_def set_zone_lists_def put_slot_def
      set_zone_slots_def add_pendulums_def)

lemma info_fold: "(\<And>x f. f_duel_info (g x f) = f_duel_info f) \<Longrightarrow> f_duel_info (fold g xs f) = f_duel_info f"
  by (induction xs arbitrary: f) simp_all

lemma info_cards [simp]:
  "f_duel_info (clear_card_target k f) = f_duel_info f" "f_duel_info (release_equip k f) = f_duel_info f"
  "f_duel_info (drop_overlays ks f) = f_duel_info f" "f_duel_info (reset_sequence ks f) = f_duel_info f"
proof -
  show t: "f_duel_info (clear_card_target k f) = f_duel_info f" for k f
    by (simp add: clear_card_target_def split: option.split)
  show "f_duel_info (release_equip k f) = f_duel_info f" by (simp add: release_equip_def split: option.split)
  show "f_duel_info (drop_overlays ks f) = f_duel_info f"
    unfolding drop_overlays_def by (rule info_fold) (simp add: t)
  show "f_duel_info (reset_sequence ks f) = f_duel_info f"
    unfolding reset_sequence_def by (rule info_fold) (simp split: prod.split)
qed

lemma info_destroy [simp]: "f_duel_info (destroy_card k f) = f_duel_info f"
  by (simp add: destroy_card_def Let_def split: option.split)

lemma info_create: "create_card fresh f = (k, f') \<Longrightarrow> f_duel_info f' = f_duel_info f"
  by (auto simp: create_card_def split: prod.splits)

lemma info_new: "new_card fresh g f = (k, f') \<Longrightarrow> f_duel_info f' = f_duel_info f"
  by (auto simp: new_card_def split: prod.splits dest: info_create)

lemma info_attach: "attach_overlay fresh k i a b f = (j, f') \<Longrightarrow> f_duel_info f' = f_duel_info f"
  by (auto simp: attach_overlay_def split: prod.splits dest: info_create)

lemma keeps_add_card [info_intros]: "f_duel_info f = d \<Longrightarrow> keeps_info d (add_card k p l seq f)"
  by (auto simp: add_card_def add_to_deck_def add_to_hand_def add_to_slot_def add_to_pile_def add_to_extra_def Let_def
      intro!: keeps_any)

lemma keeps_take_key:
  assumes "f_duel_info f = d" and "\<And>k f'. f_duel_info f' = d \<Longrightarrow> keeps_info d (g (k, f'))"
  shows "keeps_info d (and_then (take_key p l seq f) g)"
proof (cases "take_key p l seq f")
  case (Inr r)
  have list: "f_duel_info f' = d" if "remove_from_list l q seq f = Inr (k, f')" for q k f'
    using that assms(1)
    by (cases "zone_list l q f") (auto simp: remove_from_list_def Let_def split: if_splits)
  obtain k f' where r: "r = (k, f')" by (cases r)
  have "f_duel_info f' = d"
    using Inr list assms(1) unfolding r take_key_def Let_def
    by (cases "remove_from_list l (player_index p) seq f"; cases "slot_at l (player_index p) (unat seq) f")
      (auto split: if_splits prod.splits)
  then show ?thesis using Inr r assms(2) by simp
qed simp

lemma keeps_remove_card [info_intros]:
  assumes "f_duel_info f = d" and "\<And>k f'. f_duel_info f' = d \<Longrightarrow> keeps_info d (g (k, f'))"
  shows "keeps_info d (and_then (remove_card p l seq f) g)"
proof (cases "remove_card p l seq f")
  case (Inr r)
  have "keeps_info d (and_then (take_key p l seq f) (\<lambda>(key, f'). and_then
      (Inr (key, case key of None \<Rightarrow> f' | Some k \<Rightarrow> with_card k (\<lambda>c. c \<lparr> fc_location := Limbo_bits \<rparr>) f')) g))"
    by (rule keeps_take_key [OF assms(1)]) (simp add: assms(2) split: option.split)
  then show ?thesis by (cases "take_key p l seq f") (auto simp: remove_card_def split: prod.splits)
qed simp

lemma keeps_update_query [info_intros]: "f_duel_info f = d \<Longrightarrow> keeps_info d (update_query fresh k q f)"
proof -
  assume f: "f_duel_info f = d"
  have code: "f_duel_info (overlay_code fresh k o1 o2 x g) = f_duel_info g" for o1 o2 x g
    by (auto simp: overlay_code_def split: prod.split option.split dest: info_attach)
  have "f_duel_info (update_overlay_cards fresh k codes f) = d" for codes
    using f info_fold [of "overlay_code fresh k _ _", OF code]
    by (simp add: update_overlay_cards_def Let_def split: option.split)
  then show ?thesis
    using f by (cases q) (auto simp: set_equip_card_def add_card_target_query_def target_def intro!: info_intros keeps_fold_res)
qed

lemma keeps_update_info [info_intros]: "f_duel_info f = d \<Longrightarrow> keeps_info d (update_card_info fresh k u f)"
  by (cases u) (auto intro!: keeps_fold_res info_intros)

lemma keeps_evolve_A_update:
  "f_duel_info f = d \<Longrightarrow> keeps_info d (update_data fresh m f)" "f_duel_info f = d \<Longrightarrow> keeps_info d (update_card fresh n f)"
  by (auto simp: update_data_def update_card_def intro!: keeps_fold_res info_intros)

lemma keeps_initial: "f_duel_info f = d \<Longrightarrow> keeps_info d (initial_zone fresh l p n f)"
  unfolding initial_zone_def
  by (rule keeps_fold_res) (auto split: prod.split dest: info_new intro!: keeps_any)

lemma keeps_shrink: "f_duel_info f = d \<Longrightarrow> keeps_info d (shrink_zone l p n f)"
  by (induction n arbitrary: f) (auto intro!: keeps_any)

lemma keeps_grow: "f_duel_info f = d \<Longrightarrow> keeps_info d (grow_zone fresh l p n f)"
  by (induction n arbitrary: f) (auto intro!: keeps_any split: prod.split dest!: info_new)

lemma keeps_resize: "f_duel_info f = d \<Longrightarrow> keeps_info d (resize_zone fresh p l n f)"
  unfolding resize_zone_def by (auto intro!: keeps_any keeps_shrink keeps_grow)

lemma keeps_load_mzone: "f_duel_info f = d \<Longrightarrow> keeps_info d (load_mzone fresh p x f)"
proof -
  assume f: "f_duel_info f = d"
  have "f_duel_info (snd (attach_overlay fresh k i a b g)) = f_duel_info g" for k i a b g
    using info_attach [of fresh k i a b g] by (cases "attach_overlay fresh k i a b g") simp
  then show ?thesis
    using f unfolding load_mzone_def
    by (auto split: prod.split dest!: info_create intro!: keeps_and_then [OF keeps_add_card] simp: info_fold)
qed

lemma keeps_load_szone: "f_duel_info f = d \<Longrightarrow> keeps_info d (load_szone fresh p x f)"
  unfolding load_szone_def by (auto split: prod.split dest!: info_create intro!: keeps_and_then [OF keeps_add_card])

lemma keeps_load_cards: "f_duel_info f = d \<Longrightarrow> keeps_info d (load_cards fresh p l n f)"
  unfolding load_cards_def
  by (rule keeps_fold_res) (auto split: prod.split dest!: info_create intro!: keeps_and_then [OF keeps_add_card])

lemma keeps_code_from_top: "f_duel_info f = d \<Longrightarrow> keeps_info d (code_from_top l p skip ps f)"
  by (induction l p skip ps f rule: code_from_top.induct) (auto simp: Let_def intro!: keeps_any)

lemma info_code_facedown: "f_duel_info (code_facedown ks codes f) = f_duel_info f"
  by (induction ks codes f rule: code_facedown.induct) (auto split: list.split option.split)

lemma keeps_swap_grave_deck: "f_duel_info f = d \<Longrightarrow> keeps_info d (swap_grave_deck p f)"
proof -
  assume f: "f_duel_info f = d"
  have ret: "f_duel_info g = d \<Longrightarrow> (\<And>x g'. f_duel_info g' = d \<Longrightarrow> keeps_info d (h (x, g'))) \<Longrightarrow>
      keeps_info d (and_then (return_grave q ks n remaining g) h)" for q ks n remaining g h
  proof (induction ks arbitrary: n remaining g)
    case (Cons k ks)
    have "keeps_info d (and_then (and_then (add_card k q Extra_bits 0 g') (return_grave q ks n remaining)) h)"
      if "f_duel_info g' = d" for g' n remaining
    proof (cases "add_card k q Extra_bits 0 g'")
      case (Inr g2)
      with keeps_add_card [OF that, of k q Extra_bits 0] have "f_duel_info g2 = d" by simp
      then show ?thesis using Inr Cons by simp
    qed simp
    then show ?case using Cons by (auto split: option.split)
  qed simp
  show ?thesis
    using f unfolding swap_grave_deck_def Let_def
    by (intro keeps_any ret) (auto simp: info_fold split: prod.split)
qed

lemma keeps_shuffle_set_card: "f_duel_info f = d \<Longrightarrow> keeps_info d (shuffle_set_card m f)"
proof -
  assume f: "f_duel_info f = d"
  have sel: "f_duel_info g' = f_duel_info g" if "select_set_cards l ps g = Inr (ks, g')" for l ps g ks g'
    using that
  proof (induction ps arbitrary: g ks g')
    case (Cons p ps)
    then show ?case
      by (cases "slot_at l (player_index (il_controller p)) (unat (il_sequence p)) g")
        (auto split: option.splits prod.splits dest!: Cons.IH)
  qed simp
  have place: "keeps_info (f_duel_info g) (place_set_card l x g)" for l x g
    by (auto simp: place_set_card_def Let_def split: option.split prod.split intro!: keeps_any)
  show ?thesis
    unfolding shuffle_set_card_def Let_def
    by (cases "select_set_cards (if gm_ShuffleSetCard_location m = MZone_bits then MZone_bits else SZone_bits)
          (gm_ShuffleSetCard_old_locations m) f")
      (auto dest: sel simp: f intro!: keeps_fold_res place)
qed

lemma keeps_move_card: "f_duel_info f = d \<Longrightarrow> keeps_info d (move_card fresh m f)"
proof -
  assume f: "f_duel_info f = d"
  have pull: "f_duel_info (pull_overlay k i g) = f_duel_info g" for k i g
    by (simp add: pull_overlay_def resequence_overlays_def split: option.split)
  have push: "f_duel_info g' = f_duel_info g" if "push_overlay host k g = Some (n, g')" for host k g n g'
    using that by (auto simp: push_overlay_def split: option.splits)
  have "keeps_info d (appear fresh m f)"
    using f by (auto simp: appear_def Let_def split: prod.split dest: info_new intro!: info_intros)
  moreover have "keeps_info d (vanish m f)" "keeps_info d (travel m f)" "keeps_info d (come_out m f)"
    using f by (auto simp: vanish_def travel_def come_out_def Let_def pull intro!: info_intros split: option.split)
  moreover have "keeps_info d (go_under m f)" "keeps_info d (change_target m f)"
    using f by (auto simp: go_under_def change_target_def Let_def pull intro!: info_intros split: option.split dest!: push)
  ultimately show ?thesis by (simp add: move_card_def Let_def)
qed

lemma keeps_draw_cards: "f_duel_info f = d \<Longrightarrow> keeps_info d (draw_cards p n f)"
  by (induction n arbitrary: f) (auto intro!: keeps_zone keeps_and_then [OF keeps_add_card])

lemma keeps_draw: "f_duel_info f = d \<Longrightarrow> keeps_info d (draw m f)"
proof -
  have "f_duel_info (fold show_code xs g) = f_duel_info g" for xs g
    by (rule info_fold) (auto simp: show_code_def)
  then show "f_duel_info f = d \<Longrightarrow> keeps_info d (draw m f)"
    by (auto simp: draw_def Let_def intro!: keeps_zone keeps_draw_cards)
qed

lemma keeps_tag_swap: "f_duel_info f = d \<Longrightarrow> keeps_info d (tag_swap fresh m f)"
proof -
  assume f: "f_duel_info f = d"
  have names: "f_duel_info g = d \<Longrightarrow> keeps_info d (name_cards l p codes g)" for l p codes g
    by (auto simp: name_cards_def info_fold case_prod_unfold intro!: keeps_any)
  show ?thesis
    unfolding tag_swap_def Let_def
    by (rule keeps_and_then [OF keeps_resize [OF f]], rule keeps_and_then [OF keeps_resize], assumption,
        rule keeps_and_then [OF keeps_resize], assumption, rule keeps_any, rule keeps_any,
        rule keeps_and_then [OF names]) (simp_all add: names)
qed

lemma info_chains [simp]:
  "f_duel_info (chained f) = f_duel_info f" "f_duel_info (with_chain i g f) = f_duel_info f"
  by (simp_all add: chained_def with_chain_def split: option.split)

lemma keeps_evolve_B: "f_duel_info f = d \<Longrightarrow> keeps_info d (evolve_B fresh m f)"
proof -
  assume f: "f_duel_info f = d"
  have swap: "keeps_info d (swap_cards x f)" for x
    using f by (auto simp: swap_cards_def Let_def intro!: info_intros keeps_and_then [OF keeps_add_card])
  have names: "keeps_info d (shuffle_deck p f)" "keeps_info d (shuffle_hand x f)" "keeps_info d (deck_top y f)"
    "keeps_info d (shuffle_extra z f)" "keeps_info d (confirm_decktop u f)" "keeps_info d (confirm_extra_top v f)" for p x y z u v
    using f by (auto simp: shuffle_deck_def shuffle_hand_def deck_top_def shuffle_extra_def confirm_decktop_def
        confirm_extra_top_def Let_def info_fold case_prod_unfold info_code_facedown intro!: keeps_any keeps_code_from_top)
  have rest: "keeps_info d (confirm_cards x f)" "keeps_info d (position_change y f)" "keeps_info d (flip_summoning z f)" for x y z
    using f by (auto simp: confirm_cards_def position_change_def flip_summoning_def Let_def intro!: info_intros keeps_fold_res)
  have "keeps_info d (reverse_deck f)"
    using f unfolding reverse_deck_def
    by (intro keeps_and_then keeps_fold_res) (auto simp: reverse_player_deck_def intro!: keeps_any)
  then show ?thesis
    using f by (cases m) (simp_all add: names rest swap keeps_swap_grave_deck keeps_shuffle_set_card keeps_move_card)
qed

lemma keeps_evolve_C: "f_duel_info f = d \<Longrightarrow> keeps_info d (evolve_C m f)"
proof -
  assume f: "f_duel_info f = d"
  have "keeps_info d (chaining x f)" "keeps_info d (become_target y f)" "keeps_info d (equip p q f)" "keeps_info d (unequip p f)"
    "keeps_info d (add_card_target p q f)" "keeps_info d (cancel_target p q f)" "keeps_info d (add_counter r t n f)"
    "keeps_info d (remove_counter r t n f)" "keeps_info d (attack z f)" "keeps_info d (battle u f)" for x y z u p q r t n
    using f by (auto simp: chaining_def become_target_def equip_def unequip_def add_card_target_def cancel_target_def
        add_counter_def remove_counter_def attack_def battle_def target_def untarget_def Let_def
        intro!: info_intros keeps_any keeps_fold_res split: option.split)
  then show ?thesis using f by (cases m) (simp_all add: keeps_draw)
qed

section \<open>Life points as integers\<close>

definition life :: "DuelField \<Rightarrow> CorePlayer \<Rightarrow> int" where
  "life f p = sint (di_lp (f_duel_info f) ! player_index p)"

text \<open>What a message means for the life points of the two players.\<close>

definition life_after :: "gm_Message \<Rightarrow> (CorePlayer \<Rightarrow> int) \<Rightarrow> CorePlayer \<Rightarrow> int" where
  "life_after m l =
     (case m of
        GM_Damage x \<Rightarrow> l(gm_Damage_player x := max 0 (l (gm_Damage_player x) - sint (gm_Damage_value x)))
      | GM_PayLPCost x \<Rightarrow> l(gm_PayLPCost_player x := max 0 (l (gm_PayLPCost_player x) - sint (gm_PayLPCost_cost x)))
      | GM_Recover x \<Rightarrow> l(gm_Recover_player x := l (gm_Recover_player x) + sint (gm_Recover_value x))
      | GM_LPUpdate x \<Rightarrow> l(gm_LPUpdate_player x := sint (gm_LPUpdate_lp x))
      | GM_Start x \<Rightarrow> l(FirstAttackPlayer := sint (gm_Start_player1_lp x), SecondAttackPlayer := sint (gm_Start_player2_lp x))
      | GM_ReloadField x \<Rightarrow> l(FirstAttackPlayer := sint (gm_PlayerField_lp (gm_ReloadField_player1 x)),
                              SecondAttackPlayer := sint (gm_PlayerField_lp (gm_ReloadField_player2 x)))
      | _ \<Rightarrow> l)"

definition fits32 :: "int \<Rightarrow> bool" where
  "fits32 x \<longleftrightarrow> - (2 ^ 31) \<le> x \<and> x < 2 ^ 31"

text \<open>The number before it is cut off at zero.\<close>

definition life_fits :: "gm_Message \<Rightarrow> (CorePlayer \<Rightarrow> int) \<Rightarrow> bool" where
  "life_fits m l =
     (case m of
        GM_Damage x \<Rightarrow> fits32 (l (gm_Damage_player x) - sint (gm_Damage_value x))
      | GM_PayLPCost x \<Rightarrow> fits32 (l (gm_PayLPCost_player x) - sint (gm_PayLPCost_cost x))
      | GM_Recover x \<Rightarrow> fits32 (l (gm_Recover_player x) + sint (gm_Recover_value x))
      | _ \<Rightarrow> True)"

lemma sint_fits:
  fixes x y :: i32
  shows "fits32 (sint x - sint y) \<Longrightarrow> sint (x - y) = sint x - sint y"
    and "fits32 (sint x + sint y) \<Longrightarrow> sint (x + y) = sint x + sint y"
  by (simp_all add: fits32_def sint_word_ariths signed_take_bit_int_eq_self)

lemma sint_max0: "sint (max0 x) = max 0 (sint x)"
  by (simp add: max0_def)

lemma change_lp_life:
  assumes "change_lp p g d = Inr d'" and "two p" and "two q" and "length (di_lp d) = 2"
  shows "sint (di_lp d' ! player_index q) =
    (if q = p then sint (g (di_lp d ! player_index p)) else sint (di_lp d ! player_index q))"
  using assms by (auto simp: change_lp_def two_def player_index_def split: if_splits)

lemma keeps_evolve_A:
  "f_duel_info f = d \<Longrightarrow> (\<And>x. m \<noteq> GMA_Start x) \<Longrightarrow> keeps_info d (evolve_A fresh m f)"
  by (cases m) (auto simp: keeps_evolve_A_update)

lemma keeps_evolve_D:
  "f_duel_info f = d \<Longrightarrow> (\<And>x. m \<noteq> GMD_ReloadField x) \<Longrightarrow> keeps_info d (evolve_D fresh m f)"
  by (cases m) (auto simp: keeps_tag_swap card_hint_def player_hint_def Let_def intro!: info_intros keeps_any)

lemma start_life:
  assumes "start_field fresh m f = Inr f'"
  shows "f_duel_info f' = \<lparr> di_lp = [gm_Start_player1_lp m, gm_Start_player2_lp m], di_turn = 0, di_duel_rule = gm_Start_rule m \<rparr>"
proof -
  have "keeps_info \<lparr> di_lp = [gm_Start_player1_lp m, gm_Start_player2_lp m], di_turn = 0, di_duel_rule = gm_Start_rule m \<rparr>
      (start_field fresh m f)"
    unfolding start_field_def initial_def Let_def by (intro keeps_and_then keeps_initial) simp_all
  then show ?thesis using assms by (simp add: keeps_info_def)
qed

lemma load_player_life:
  assumes "load_player_field fresh p m f = Inr f'"
  shows "change_lp p (\<lambda>lp. gm_PlayerField_lp m) (f_duel_info f) = Inr (f_duel_info f')"
proof (cases "change_lp p (\<lambda>lp. gm_PlayerField_lp m) (f_duel_info f)")
  case (Inr d)
  have "keeps_info d (load_player_field fresh p m f)"
    unfolding load_player_field_def Inr and_then.simps
    by (intro keeps_and_then keeps_fold_res keeps_load_mzone keeps_load_szone keeps_load_cards) simp_all
  then show ?thesis using assms Inr by (simp add: keeps_info_def)
qed (use assms in \<open>simp add: load_player_field_def\<close>)

lemma change_lp_lps:
  "change_lp p g d = Inr d' \<Longrightarrow> di_lp d' = (di_lp d)[player_index p := g (di_lp d ! player_index p)]"
  by (auto simp: change_lp_def split: if_splits)

lemma reload_life:
  assumes "shape f" and "reload_field fresh m f = Inr f'"
  shows "di_lp (f_duel_info f') = [gm_PlayerField_lp (gm_ReloadField_player1 m), gm_PlayerField_lp (gm_ReloadField_player2 m)]"
proof -
  let ?f1 = "clear_field f \<lparr> f_duel_info := f_duel_info (clear_field f) \<lparr> di_duel_rule := gm_ReloadField_duel_rule m \<rparr> \<rparr>"
  obtain f2 f3 where f: "load_player_field fresh FirstAttackPlayer (gm_ReloadField_player1 m) ?f1 = Inr f2"
    "load_player_field fresh SecondAttackPlayer (gm_ReloadField_player2 m) f2 = Inr f3"
    "fold_res reload_chain (gm_ReloadField_chains m) f3 = Inr f'"
    using assms(2) by (auto simp: reload_field_def Let_def)
  have "keeps_info (f_duel_info f3) (fold_res reload_chain (gm_ReloadField_chains m) f3)"
    by (rule keeps_fold_res) (auto simp: reload_chain_def Let_def intro!: keeps_any split: option.split)
  then have same: "f_duel_info f' = f_duel_info f3" using f(3) by (simp add: keeps_info_def)
  have n: "length (di_lp (f_duel_info ?f1)) = 2"
    using assms(1) by (simp add: shape_def clear_field_def)
  have "di_lp (f_duel_info f2) = (di_lp (f_duel_info ?f1))[0 := gm_PlayerField_lp (gm_ReloadField_player1 m)]"
    using change_lp_lps [OF load_player_life [OF f(1)]] by (simp add: player_index_def)
  moreover have "di_lp (f_duel_info f3) = (di_lp (f_duel_info f2))[1 := gm_PlayerField_lp (gm_ReloadField_player2 m)]"
    using change_lp_lps [OF load_player_life [OF f(2)]] by (simp add: player_index_def)
  ultimately have "di_lp (f_duel_info f3) = (di_lp (f_duel_info ?f1))
      [0 := gm_PlayerField_lp (gm_ReloadField_player1 m), 1 := gm_PlayerField_lp (gm_ReloadField_player2 m)]" by simp
  then show ?thesis using same n by (auto simp: length_Suc_conv numeral_2_eq_2)
qed

text \<open>Where the message is none of those that set the life points anew, only DuelInfo::evolve counts.\<close>

lemma groups_keep_info:
  assumes "evolve_groups fresh m f = Inr f'"
    and "\<And>x. m \<noteq> GM_Start x" and "\<And>x. m \<noteq> GM_ReloadField x"
  shows "f_duel_info f' = f_duel_info f"
proof -
  have "keeps_info (f_duel_info f) (evolve_groups fresh m f)"
  proof (cases m)
    case (GM_GroupA a)
    then show ?thesis using assms(2) keeps_evolve_A [OF refl, of a] by auto
  next
    case (GM_GroupD e)
    then show ?thesis using assms(3) keeps_evolve_D [OF refl, of e] by auto
  qed (simp_all add: keeps_evolve_B keeps_evolve_C)
  then show ?thesis using assms(1) by (simp add: keeps_info_def)
qed

lemma DuelInfo_life:
  assumes "DuelInfo_evolve m d = Inr d'" and "length (di_lp d) = 2" and "two p" and "about_players f m"
    and "life_fits m (\<lambda>p. sint (di_lp d ! player_index p))"
    and "\<And>x. m \<noteq> GM_Start x" and "\<And>x. m \<noteq> GM_ReloadField x"
  shows "sint (di_lp d' ! player_index p) = life_after m (\<lambda>p. sint (di_lp d ! player_index p)) p"
proof (cases m)
  case (GM_GroupA a)
  then show ?thesis using assms by (cases a) (auto simp: DuelInfo_evolve_def life_after_def)
next
  case (GM_GroupB b)
  then show ?thesis using assms by (cases b) (auto simp: DuelInfo_evolve_def life_after_def)
next
  case (GM_GroupC c)
  then show ?thesis
    using assms(1,3,4,5) change_lp_life [OF _ _ assms(3,2)]
    by (cases c) (auto simp: DuelInfo_evolve_def life_after_def life_fits_def sint_max0 sint_fits)
next
  case (GM_GroupD e)
  then show ?thesis using assms by (cases e) (auto simp: DuelInfo_evolve_def life_after_def)
qed (use assms in \<open>auto simp: DuelInfo_evolve_def life_after_def\<close>)

text \<open>C11: the life points of the board are those of the game. As integers, the life points of the two players after
  any message about them are what the message means for them: damage and costs take away and stop at
  zero, recovery adds, updates, a new game and a reloaded field set them, and no other message changes
  them; as long as the number before the cut at zero fits into 32 bits.\<close>

theorem life_points_follow:
  assumes "shape f" and "about_players f m" and "life_fits m (life f)" and "two p"
  shows "\<exists>f'. Field_evolve fresh m f = Inr f' \<and> life f' p = life_after m (life f) p"
proof -
  obtain d where d: "DuelInfo_evolve m (f_duel_info f) = Inr d" "shape (f \<lparr> f_duel_info := d \<rparr>)"
    using DuelInfo_evolve_ok [OF assms(1,2)] by blast
  let ?f1 = "f \<lparr> f_duel_info := d \<rparr>"
  have "about_players ?f1 m" using assms(2) by simp
  then have "sound (evolve_groups fresh m ?f1)"
    using d(2) by (cases m) (simp_all del: about_players_duel_info
        add: sound_evolve_A sound_evolve_B sound_evolve_C sound_evolve_D)
  then obtain f' where f': "evolve_groups fresh m ?f1 = Inr f'" by (auto simp: sound_def)
  have n: "length (di_lp (f_duel_info f)) = 2" using assms(1) by (simp add: shape_def)
  have p: "p = FirstAttackPlayer \<or> p = SecondAttackPlayer" using assms(4) by (simp add: two_def)
  have "life f' p = life_after m (life f) p"
  proof -
    consider x where "m = GM_Start x" | x where "m = GM_ReloadField x"
      | "\<And>x. m \<noteq> GM_Start x" "\<And>x. m \<noteq> GM_ReloadField x" by blast
    then show ?thesis
    proof cases
      case 1
      then show ?thesis using start_life [of fresh _ ?f1 f'] f' p by (auto simp: life_def life_after_def player_index_def)
    next
      case 2
      then show ?thesis using reload_life [OF d(2), of fresh _ f'] f' p by (auto simp: life_def life_after_def player_index_def)
    next
      case 3
      then show ?thesis
        using groups_keep_info [OF f' 3] DuelInfo_life [OF d(1) n assms(4,2) _ 3] assms(3) by (simp add: life_def [abs_def])
    qed
  qed
  then show ?thesis using f' by (simp add: Field_evolve_def d(1))
qed

lemma life_points_follow_witness:
  "\<exists>f'. Field_evolve next_key (GM_Damage \<lparr> gm_Damage_player = SecondAttackPlayer, gm_Damage_value = 3000 \<rparr>)
     (DuelField_default \<lparr> f_duel_info := (DuelInfo_default \<lparr> di_lp := [8000, 2500] \<rparr>) \<rparr>) = Inr f' \<and>
     life f' SecondAttackPlayer = 0"
proof -
  let ?f = "DuelField_default \<lparr> f_duel_info := (DuelInfo_default \<lparr> di_lp := [8000, 2500] \<rparr>) \<rparr>"
  let ?m = "GM_Damage \<lparr> gm_Damage_player = SecondAttackPlayer, gm_Damage_value = 3000 \<rparr>"
  have "shape ?f" using shape_default by (simp add: shape_def)
  moreover have "about_players ?f ?m" "life_fits ?m (life ?f)" "life_after ?m (life ?f) SecondAttackPlayer = 0"
    by (simp_all add: life_fits_def fits32_def life_def life_after_def player_index_def)
  ultimately show ?thesis using life_points_follow [of ?f ?m SecondAttackPlayer next_key] by simp
qed

end
