(* ===== verification/ReplayHost.thy ===== *)
theory ReplayHost
  imports TagRoom
begin

text \<open>
  Playing a saved duel again (replay.rs of the server): a room is put together as it would be after
  the players have sat down, with the decks of the replay, and is sent straight into the duel. The
  answers of the replay are fed by the command of PluginSet or by the host.
\<close>

definition replay_modules :: "str list" where
  "replay_modules = [lit ''ygopro::replay'', lit ''ygopro::plugin::soumatou'']"

definition counterfeit_player :: "FixedLengthString \<Rightarrow> Deck \<Rightarrow> chan \<Rightarrow> ('c, 'a) Duel_scheme \<Rightarrow> ('c, 'a) Duel_scheme" where
  "counterfeit_player name deck c d =
     map_sender (Sender_set_player (length (d_players d)) c)
       (d \<lparr> d_players := d_players d @
              [Some \<lparr> dp_player = \<lparr> bp_name = name, bp_stoc_sender = c, bp_state = Allow_Any \<rparr>,
                 dp_ready = False, dp_deck = deck, dp_hand = None, dp_deck_error = None,
                 dp_time_limit = 999, dp_time_compensator = 0, dp_time_backed = 0 \<rparr>] \<rparr>)"

text \<open>The seats: the host, the host's partner, the client, the client's partner; a replay of two has
  no partners.\<close>

definition counterfeit_seats :: "Replay \<Rightarrow> (FixedLengthString \<times> Deck) list res" where
  "counterfeit_seats r =
     (let b = rp_body r; host = (rb_host_name b, Deck_from_ReplayDeck (rb_host_deck b));
          client = (rb_client_name b, Deck_from_ReplayDeck (rb_client_deck b))
      in if is_tag (rp_header r)
         then and_then (unwrap (rb_tag_host_name b)) (\<lambda>n1.
              and_then (unwrap (rb_tag_host_deck b)) (\<lambda>k1.
              and_then (unwrap (rb_tag_client_name b)) (\<lambda>n2.
              and_then (unwrap (rb_tag_client_deck b)) (\<lambda>k2. Inr
                [host, (n1, Deck_from_ReplayDeck k1), client, (n2, Deck_from_ReplayDeck k2)]))))
         else Inr [host, client])"

fun seat_all :: "(FixedLengthString \<times> Deck) list \<Rightarrow> chan list \<Rightarrow> ('c, 'a) Duel_scheme \<Rightarrow> ('c, 'a) Duel_scheme" where
    "seat_all ((n, k) # ps) (c # cs) d = seat_all ps cs (counterfeit_player n k c d)"
  | "seat_all ps cs d = d"

text \<open>The channels of the players are those the host listens to; the engine is made from the seed.\<close>

definition counterfeit_duel ::
  "'c env \<Rightarrow> (u32 list \<Rightarrow> 'c Core) \<Rightarrow> chan list \<Rightarrow> Replay \<Rightarrow> 'c Duel res" where
  "counterfeit_duel env core_of cs r =
     and_then (counterfeit_seats r) (\<lambda>ps.
       let d = Duel_new env (Replay_host_info r) True
                 \<lparr> d_core := core_of (rh_seed_sequence (rp_header r)),
                   d_max_player_count := if is_tag (rp_header r) then 4 else 2 \<rparr>
       in Inr (queue_request_ex Y_DuelInit
            (send Stoc_DuelStart To_All (seat_all ps cs d \<lparr> d_stage := DuelStage_Dueling \<rparr>))))"

definition counterfeit_single :: "'c Duel \<Rightarrow> 'c SingleDuel State" where
  "counterfeit_single d =
     \<lparr> st_duel = Duel.Duel.extend d (SingleDuel.SingleDuel.fields (Some 0) []),
       st_replay = None, st_time_limit = None, st_reconnect = None \<rparr>"

definition counterfeit_tag :: "'c Duel \<Rightarrow> 'c TagDuel State" where
  "counterfeit_tag d =
     \<lparr> st_duel = Duel.Duel.extend d (TagDuel.TagDuel.fields (Some Team1) [] None (replicate 4 False)),
       st_replay = None, st_time_limit = None, st_reconnect = None \<rparr>"

section \<open>Feeding the answers\<close>

text \<open>One step of the host, on the messages the players are sent: those it takes, and whether it is
  through. It waits when none is left.\<close>

record ReplayHost =
  rhost_datas :: "PlayerResponse list"
  rhost_pos :: nat

datatype host_step =
    Host_Feed PlayerResponse Netplayer bool ReplayHost "stoc_Message list"
  | Host_Done
  | Host_Waits

definition is_finished :: "ReplayHost \<Rightarrow> bool" where
  "is_finished h \<longleftrightarrow> length (rhost_datas h) \<le> rhost_pos h"

fun host_listen :: "PlayerResponse \<Rightarrow> ReplayHost \<Rightarrow> stoc_Message list \<Rightarrow> host_step" where
    "host_listen r h [] = Host_Waits"
  | "host_listen r h (m # ms) =
       (case m of
          Stoc_GameMessage g \<Rightarrow>
            (case gm_waiting_for g of
               Some p \<Rightarrow>
                 (let h' = h \<lparr> rhost_pos := rhost_pos h + 1 \<rparr> in Host_Feed r (CorePlayer_to_net p) (is_finished h') h' ms)
             | None \<Rightarrow> if gm_type g = gm_T_Retry then Host_Done else host_listen r h ms)
        | _ \<Rightarrow> host_listen r h ms)"

definition host_step :: "ReplayHost \<Rightarrow> stoc_Message list \<Rightarrow> host_step" where
  "host_step h ms =
     (case get (rhost_datas h) (rhost_pos h) of
        None \<Rightarrow> Host_Done
      | Some r \<Rightarrow> host_listen r h ms)"

lemma host_listen_takes: "host_listen r h ms = Host_Feed r' p b h' ms' \<Longrightarrow> length ms' < length ms"
  by (induction r h ms rule: host_listen.induct)
    (auto simp: Let_def less_SucI split: stoc_Message.splits option.splits if_splits)

lemma host_step_takes: "host_step h ms = Host_Feed r p b h' ms' \<Longrightarrow> length ms' < length ms"
  by (auto simp: host_step_def host_listen_takes split: option.splits)

text \<open>Feeding all: the answers that are fed, each with the seat it is fed to.\<close>

function drain :: "ReplayHost \<Rightarrow> stoc_Message list \<Rightarrow> (PlayerResponse \<times> Netplayer) list" where
  "drain h ms =
     (case host_step h ms of
        Host_Feed r p done' h' ms' \<Rightarrow> (r, p) # (if done' then [] else drain h' ms')
      | _ \<Rightarrow> [])"
  by pat_completeness auto
termination by (relation "measure (length \<circ> snd)") (auto dest: host_step_takes)

end
