(* ===== verification/ReplaySafety.thy ===== *)
theory ReplaySafety
  imports ReplayHost TagInvariants RoomSamples
begin

text \<open>
  A room made for a replay is one of the rooms the invariants are about: its table is full, everybody is
  where messages for them are sent. And the host feeds the answers of the replay one by one, each when
  the engine asks for it.
\<close>

section \<open>The room\<close>

text \<open>A table that is full: everybody is where messages for them are sent.\<close>

definition full_table :: "('c, 'a) Duel_scheme \<Rightarrow> bool" where
  "full_table d \<longleftrightarrow> routed d \<and> length (s_players (d_sender d)) = length (d_players d)"

lemma seats_match_append:
  assumes "seats_match ps cs" and "length cs = length ps" and "c = dp_channel p"
  shows "seats_match (ps @ [Some p]) (cs @ [c])"
  unfolding seats_match_def
proof (rule conjI; (intro allI impI)?)
  fix i q assume "i < length (ps @ [Some p])" and "(ps @ [Some p]) ! i = Some q"
  then show "i < length (cs @ [c]) \<and> (cs @ [c]) ! i = dp_channel q"
    using assms seats_matchD [of ps cs i q] by (cases "i = length ps") (auto simp: nth_append)
qed (simp add: assms)

lemma full_table_counterfeit_player:
  assumes "full_table d"
  shows "full_table (counterfeit_player n k c d)"
proof -
  let ?cs = "s_players (d_sender d)" and ?ps = "d_players d"
  have len: "length ?cs = length ?ps" using assms by (simp add: full_table_def)
  have cs: "(pad_players (length ?ps) ?cs)[length ?ps := c] = ?cs @ [c]"
    by (simp add: pad_players_def len [symmetric] list_update_append)
  show ?thesis
    using assms len by (auto simp: counterfeit_player_def full_table_def routed_def map_sender_def cs dp_channel_def
        Sender_set_player_def intro!: seats_match_append)
qed

lemma seat_all_full:
  "full_table d \<Longrightarrow> length cs = length ps \<Longrightarrow>
   full_table (seat_all ps cs d) \<and> length (d_players (seat_all ps cs d)) = length (d_players d) + length ps \<and>
   map (map_option (\<lambda>p. (dp_name p, dp_deck p))) (d_players (seat_all ps cs d)) =
     map (map_option (\<lambda>p. (dp_name p, dp_deck p))) (d_players d) @ map Some ps"
proof (induction ps cs d rule: seat_all.induct)
  case (1 n k ps c cs d)
  have "full_table (counterfeit_player n k c d)" using 1(2) by (rule full_table_counterfeit_player)
  with 1 show ?case by (simp add: counterfeit_player_def map_sender_def dp_name_def)
qed auto

lemma seat_all_max [simp]: "d_max_player_count (seat_all ps cs d) = d_max_player_count d"
  by (induction ps cs d rule: seat_all.induct) (simp_all add: counterfeit_player_def map_sender_def)

lemma full_table_new: "full_table (Duel_new env info b \<lparr> d_core := core, d_max_player_count := n \<rparr>)"
  by (simp add: full_table_def routed_def Duel_new_def Sender_new_def)

lemma counterfeit_base:
  assumes "counterfeit_duel env core_of cs r = Inr d" and "length cs = (if is_tag (rp_header r) then 4 else 2)"
  shows "routed d \<and> length (d_players d) = length cs \<and> d_max_player_count d = length cs \<and>
    (\<exists>ps. counterfeit_seats r = Inr ps \<and> map (map_option (\<lambda>p. (dp_name p, dp_deck p))) (d_players d) = map Some ps) \<and>
    d_requests d = [Req_MessageEx Y_DuelInit To_All] \<and> d_stage d = DuelStage_Dueling"
proof -
  from assms(1) obtain ps where ps: "counterfeit_seats r = Inr ps" and d: "d = queue_request_ex Y_DuelInit
      (send Stoc_DuelStart To_All (seat_all ps cs (Duel_new env (Replay_host_info r) True
        \<lparr> d_core := core_of (rh_seed_sequence (rp_header r)),
          d_max_player_count := if is_tag (rp_header r) then 4 else 2 \<rparr>) \<lparr> d_stage := DuelStage_Dueling \<rparr>))"
    by (auto simp: counterfeit_duel_def Let_def)
  have len: "length cs = length ps"
    using ps assms(2) by (auto simp: counterfeit_seats_def Let_def split: if_splits)
  let ?d0 = "Duel_new env (Replay_host_info r) True
        \<lparr> d_core := core_of (rh_seed_sequence (rp_header r)),
          d_max_player_count := if is_tag (rp_header r) then 4 else 2 \<rparr>"
  have reqs: "d_requests (seat_all ps cs e) = d_requests e" for ps cs and e :: "'a Duel"
    by (induction ps cs e rule: seat_all.induct) (simp_all add: counterfeit_player_def map_sender_def)
  note seated = seat_all_full [OF full_table_new [where env = env and info = "Replay_host_info r" and b = True
      and core = "core_of (rh_seed_sequence (rp_header r))" and n = "if is_tag (rp_header r) then 4 else 2"] len]
  show ?thesis
    using seated assms(2) len ps reqs [of ps cs ?d0]
    by (auto simp: d queue_request_ex_def queue_def send_def full_table_def routed_def Duel_new_def)
qed



section \<open>The answers\<close>

text \<open>The prompts among the messages the players are sent, up to the first sign that the replay does not
  fit the engine.\<close>

fun prompts :: "stoc_Message list \<Rightarrow> Netplayer list" where
    "prompts [] = []"
  | "prompts (m # ms) =
       (case m of
          Stoc_GameMessage g \<Rightarrow>
            (case gm_waiting_for g of
               Some p \<Rightarrow> CorePlayer_to_net p # prompts ms
             | None \<Rightarrow> if gm_type g = gm_T_Retry then [] else prompts ms)
        | _ \<Rightarrow> prompts ms)"

lemma host_listen_prompts:
  "(case host_listen r h ms of
      Host_Feed r' p b h' ms' \<Rightarrow>
        r' = r \<and> prompts ms = p # prompts ms' \<and> h' = h \<lparr> rhost_pos := rhost_pos h + 1 \<rparr> \<and> b = is_finished h'
    | _ \<Rightarrow> prompts ms = [])"
  by (induction r h ms rule: host_listen.induct)
    (auto simp: Let_def split: stoc_Message.splits option.splits if_splits host_step.splits)


end
