(* ===== verification/WatchSafety.thy ===== *)
theory WatchSafety
  imports RoomInvariants RoomSamples
begin

text \<open>
  What a client is told who comes into a duel that is running. An observer who joins late is told the
  history the observers were told. Showing a player the field again changes nothing in the room but what this player is sent, and shows
  the cards of the other side only as masked.
\<close>

section \<open>A late observer\<close>


definition watched_room :: "unit Duel" where
  "watched_room =
     Duel_new (sample_env []) HostInfo_default False
       \<lparr> d_sender := Sender_new
           \<lparr> s_observers := \<lparr> slab_items = [(0, Chan 7)], slab_ops = [] \<rparr>,
             s_masked_messages := [Stoc_SelectHand, Stoc_DuelStart, Stoc_SelectTp, Stoc_GameMessage GM_Waiting] \<rparr> \<rparr>"


section \<open>Asking the engine\<close>

text \<open>A room the engine was asked about: only the engine and the buffer for its answers are different.\<close>

definition asked :: "('c, 'a) Duel_scheme \<Rightarrow> ('c, 'a) Duel_scheme \<Rightarrow> bool" where
  "asked d d' \<longleftrightarrow> (\<exists>core buf. d' = d \<lparr> d_core := core, d_core_request_buffer := buf \<rparr>)"

lemma askedI: "d' = d \<lparr> d_core := core, d_core_request_buffer := buf \<rparr> \<Longrightarrow> asked d d'"
  unfolding asked_def by (intro exI)

lemma asked_refl [simp]: "asked d d"
  by (rule askedI [where core = "d_core d" and buf = "d_core_request_buffer d"]) simp

lemma asked_trans [trans]:
  assumes "asked d d'" and "asked d' d''"
  shows "asked d d''"
proof -
  from assms obtain core buf core' buf' where d': "d' = d \<lparr> d_core := core, d_core_request_buffer := buf \<rparr>"
    and d'': "d'' = d' \<lparr> d_core := core', d_core_request_buffer := buf' \<rparr>"
    by (auto simp: asked_def)
  show ?thesis by (rule askedI [where core = core' and buf = buf']) (simp add: d' d'')
qed

lemma asked_fields:
  "asked d d' \<Longrightarrow> d_sender d' = d_sender d" "asked d d' \<Longrightarrow> d_no_mask d' = d_no_mask d"
  "asked d d' \<Longrightarrow> d_last_select_message d' = d_last_select_message d"
  by (auto simp: asked_def)

lemma asked_query:
  assumes "query_location_cards env p l q d = Inr (m, d')"
  shows "asked d d'" and "\<exists>u. m = GM_UpdateData u \<and> gm_UpdateData_player u = p"
  using assms by (auto simp: query_location_cards_def intro: askedI split: prod.splits)

lemma asked_locations:
  assumes "refresh_locations env q pls d = Inr (ms, d')"
  shows "asked d d'" and "\<forall>u. GM_UpdateData u \<in> set ms \<longrightarrow> gm_UpdateData_player u \<in> fst ` set pls"
proof -
  have "asked d d' \<and> (\<forall>u. GM_UpdateData u \<in> set ms \<longrightarrow> gm_UpdateData_player u \<in> fst ` set pls)"
    using assms
  proof (induction env q pls d arbitrary: ms rule: refresh_locations.induct)
    case (2 env q p l pls d)
    then obtain m d1 ms' where m: "query_location_cards env p l (if q = 0 then default_query l else q) d = Inr (m, d1)"
      and rest: "refresh_locations env q pls d1 = Inr (ms', d')" and ms: "ms = m # ms'" by auto
    have "asked d1 d' \<and> (\<forall>u. GM_UpdateData u \<in> set ms' \<longrightarrow> gm_UpdateData_player u \<in> fst ` set pls)"
      using 2 rest by blast
    with asked_query [OF m] asked_trans [of d d1 d'] show ?case by (auto simp: ms)
  qed simp
  then show "asked d d'" and "\<forall>u. GM_UpdateData u \<in> set ms \<longrightarrow> gm_UpdateData_player u \<in> fst ` set pls" by blast+
qed

lemma asked_info: "field_info env d = Inr (m, d') \<Longrightarrow> asked d d'"
  by (auto simp: field_info_def intro: askedI split: prod.splits option.splits)

lemma asked_top_of_deck:
  assumes "top_of_deck env b p d = Inr (ms, d')"
  shows "asked d d'" and "GM_UpdateData u \<notin> set ms"
proof -
  from assms obtain m where q:
    "query_location_cards env p (Location_bits Location_Deck) (Query_bits Query_Code OR Query_bits Query_Position) d = Inr (m, d')"
    unfolding top_of_deck_def by (auto split: option.splits)
  then show "asked d d'" by (rule asked_query)
  have "GM_UpdateData u \<noteq> g" if "top_message b p t = Inr (Some g)" for t g
    using that by (auto simp: top_message_def Let_def split: prod.splits if_splits)
  then show "GM_UpdateData u \<notin> set ms"
    using assms unfolding top_of_deck_def by (auto elim!: and_then_E split: option.splits)
qed

text \<open>The cards of the other side are masked.\<close>

lemma asked_cards:
  assumes "CorePlayer_opponent me \<noteq> me" and "field_cards env me ls d = Inr (ms, d')"
  shows "asked d d'" and "\<not> d_no_mask d \<Longrightarrow>
    \<forall>u. GM_UpdateData u \<in> set ms \<longrightarrow> gm_UpdateData_player u \<noteq> me \<longrightarrow> gm_mask (GM_UpdateData u) = GM_UpdateData u"
proof -
  have one: "me \<noteq> AllPlayers" "CorePlayer_opponent me \<noteq> AllPlayers" using assms(1) by (cases me; simp)+
  have "asked d d' \<and> (\<not> d_no_mask d \<longrightarrow>
    (\<forall>u. GM_UpdateData u \<in> set ms \<longrightarrow> gm_UpdateData_player u \<noteq> me \<longrightarrow> gm_mask (GM_UpdateData u) = GM_UpdateData u))"
    using assms(2)
  proof (induction ls arbitrary: d ms)
    case (Cons l ls)
    then obtain theirs d1 mine d2 ms' where
      theirs: "refresh_location env (CorePlayer_opponent me) l Query_all d = Inr (theirs, d1)"
      and mine: "refresh_location env me l Query_all d1 = Inr (mine, d2)"
      and rest: "field_cards env me ls d2 = Inr (ms', d')"
      and ms: "ms = hide_from (d_no_mask d) theirs @ mine @ ms'" by auto
    have d2: "asked d d2"
      using theirs mine unfolding refresh_location_def by (blast intro: asked_trans asked_locations(1))
    have own: "gm_UpdateData_player u = me" if "GM_UpdateData u \<in> set mine" for u
      using asked_locations(2) [OF mine [unfolded refresh_location_def]] that one by auto
    have masked: "gm_mask g = g" if "g \<in> set (hide_from False theirs)" for g
      using that by (auto simp: hide_from_def gm.mask_mask simp del: gm_mask.simps)
    show ?case
      using Cons.IH [OF rest] own masked asked_trans [OF d2] asked_fields(2) [OF d2] by (auto simp: ms simp del: gm_mask.simps)
  qed simp
  then show "asked d d'" and "\<not> d_no_mask d \<Longrightarrow>
    \<forall>u. GM_UpdateData u \<in> set ms \<longrightarrow> gm_UpdateData_player u \<noteq> me \<longrightarrow> gm_mask (GM_UpdateData u) = GM_UpdateData u" by blast+
qed

section \<open>The request\<close>

text \<open>C30: asking for the field tells a player nothing new: nobody else is sent anything, nothing is recorded,
  and every list of cards that is sent is of the player's own side or masked, unless the engine gives it
  as the state of the field or as the prompt this player was last given.\<close>

theorem requested_field_hides_the_other_side:
  assumes "on_request_field env seats (Some r) t i d = Inr d'"
    and "tr_to_core (sts_transformer seats) (Player i) = me" and "CorePlayer_opponent me \<noteq> me" and "\<not> d_no_mask d"
  shows "\<exists>ms. d_sender d' = d_sender d \<lparr> s_out := s_out (d_sender d) @
        concat (map (channel_send (get (s_players (d_sender d)) (unat i))) ms) \<rparr> \<and>
      (\<forall>u. Stoc_GameMessage (GM_UpdateData u) \<in> set ms \<longrightarrow>
        gm_UpdateData_player u = me \<or> gm_mask (GM_UpdateData u) = GM_UpdateData u \<or>
        (\<exists>d1. field_info env d = Inr (GM_UpdateData u, d1)) \<or> d_last_select_message d = Some (GM_UpdateData u))"
proof -
  obtain ms d4 where ms: "field_messages env seats r t i d = Inr (ms, d4)"
    and d': "d' = map_sender (tell_all ms (SendTarget_of_index i)) d4"
    using assms(1) by (auto simp: on_request_field_def)
  from ms obtain info d1 cards d2 top1 d3 top2 where info: "field_info env d = Inr (info, d1)"
    and cards: "field_cards env me shown_locations d1 = Inr (cards, d2)"
    and top1: "top_of_deck env (rc_deck_reversed r) FirstAttackPlayer d2 = Inr (top1, d3)"
    and top2: "top_of_deck env (rc_deck_reversed r) SecondAttackPlayer d3 = Inr (top2, d4)"
    and all: "ms = Stoc_DuelStart #
         map Stoc_GameMessage (restart_message (d_host_info d) me #
           turn_messages r @ [info] @ cards @ (if rc_deck_reversed r then [GM_ReverseDeck] else []) @ top1 @ top2) @
         time_messages seats t d4 @ [Stoc_FieldFinish] @ prompt_messages seats i d4"
    by (rule field_messages_steps) (auto simp: assms(2))
  have d1: "asked d d1" by (rule asked_info [OF info])
  have d4: "asked d d4"
    using asked_trans [OF d1] asked_trans [OF asked_cards(1) [OF assms(3) cards]]
      asked_trans [OF asked_top_of_deck(1) [OF top1] asked_top_of_deck(1) [OF top2]] by blast
  have hidden: "gm_UpdateData_player u = me \<or> gm_mask (GM_UpdateData u) = GM_UpdateData u"
    if "GM_UpdateData u \<in> set cards" for u
    using asked_cards(2) [OF assms(3) cards] assms(4) that asked_fields(2) [OF d1] by blast
  have out: "d_sender d' = d_sender d \<lparr> s_out := s_out (d_sender d) @
        concat (map (channel_send (get (s_players (d_sender d)) (unat i))) ms) \<rparr>"
    by (simp add: d' map_sender_def tell_all_out asked_fields(1) [OF d4] SendTarget_of_index_def deliver_def del: get.simps)
  have rest: "Stoc_GameMessage (GM_UpdateData u) \<notin> set (time_messages seats t d4)"
    "Stoc_GameMessage (GM_UpdateData u) \<in> set (prompt_messages seats i d4) \<Longrightarrow> d_last_select_message d = Some (GM_UpdateData u)" for u
    using asked_fields(3) [OF d4] by (auto simp: time_messages_def prompt_messages_def Let_def split: option.splits if_splits)
  have "gm_UpdateData_player u = me \<or> gm_mask (GM_UpdateData u) = GM_UpdateData u \<or>
        (\<exists>d1. field_info env d = Inr (GM_UpdateData u, d1)) \<or> d_last_select_message d = Some (GM_UpdateData u)"
    if "Stoc_GameMessage (GM_UpdateData u) \<in> set ms" for u
    using that hidden [of u] rest [of u] info asked_top_of_deck(2) [OF top1] asked_top_of_deck(2) [OF top2]
    by (auto simp: all restart_message_def turn_messages_def simp del: gm_mask.simps split: if_splits)
  then show ?thesis using out by blast
qed

text \<open>An engine that has nothing on its field and says so by an empty message.\<close>

definition field_api :: "unit core_api" where
  "field_api = idle_api \<lparr> api_query_field_info := (\<lambda>buf c. (1, 37 # replicate 9 0, c)) \<rparr>"

definition field_env :: "unit env" where
  "field_env = sample_env [] \<lparr> env_api := field_api \<rparr>"

definition field_room :: "unit Duel" where
  "field_room = Duel_new field_env HostInfo_default False
     \<lparr> d_sender := Sender_new \<lparr> s_players := [Chan 1, Chan 2] \<rparr>, d_core_request_buffer := replicate 10 0 \<rparr>"

definition field_seats :: Seats where
  "field_seats = \<lparr> sts_transformer = PlayerTransformer 0, sts_first = Some 0, sts_players = [0, 1] \<rparr>"

lemma read_cards_Nil: "read_cards [] = Inr []"
  by (subst read_cards.simps) (simp add: e_UpdateCardInfo_def e_bind_def e_fixed_def)

lemma requested_field_hides_the_other_side_witness:
  "case on_request_field field_env field_seats (Some Reconnect_default) None 1 field_room of
     Inl p \<Rightarrow> False
   | Inr d' \<Rightarrow> (\<exists>ms. s_out (d_sender d') = map (\<lambda>m. (2, m)) ms)"
proof -
  have "\<exists>d'. on_request_field field_env field_seats (Some Reconnect_default) None 1 field_room = Inr d'"
  proof -
    have query: "query_location_cards field_env q l qs d =
        Inr (GM_UpdateData \<lparr> gm_UpdateData_player = q, gm_UpdateData_location = l, gm_UpdateData_data = [] \<rparr>, d)" for q l qs
      and d :: "unit Duel"
      by (simp add: query_location_cards_def field_env_def field_api_def sample_env_def idle_api_def
          Core_query_field_card_def slice_to_def usize_of_i32_def read_cards_Nil)
    have "\<exists>ms. refresh_locations field_env qs pls d = Inr (ms, d)" for qs pls and d :: "unit Duel"
      by (induction pls) (auto simp: query)
    then have loc: "\<exists>ms. refresh_location field_env q l qs d = Inr (ms, d)" for q l qs and d :: "unit Duel"
      unfolding refresh_location_def by blast
    have cards: "\<exists>ms. field_cards field_env me ls d = Inr (ms, d)" for me ls and d :: "unit Duel"
    proof (induction ls)
      case (Cons l ls)
      then obtain ms where ms: "field_cards field_env me ls d = Inr (ms, d)" ..
      obtain theirs mine where "refresh_location field_env (CorePlayer_opponent me) l Query_all d = Inr (theirs, d)"
        and "refresh_location field_env me l Query_all d = Inr (mine, d)" using loc by blast
      then show ?case by (simp add: ms)
    qed simp
    have top: "top_of_deck field_env b q d = Inr ([], d)" for b q and d :: "unit Duel"
      by (simp add: top_of_deck_def query)
    have "rd_gm (env_lzma field_env) [37] = Inr (Some (GM_ReverseDeck, []))"
      by (simp add: rd_gm_def gm_unit_def)
    then obtain m d1 where info: "field_info field_env field_room = Inr (m, d1)"
      by (simp add: field_info_def field_env_def field_api_def sample_env_def idle_api_def Core_query_field_info_def
          slice_to_def usize_of_i32_def)
    obtain ms where "field_cards field_env (tr_to_core (sts_transformer field_seats) (Player 1)) shown_locations d1 = Inr (ms, d1)"
      using cards by blast
    then show ?thesis by (simp add: on_request_field_def field_messages_def Let_def info top)
  qed
  then obtain d' where d': "on_request_field field_env field_seats (Some Reconnect_default) None 1 field_room = Inr d'" ..
  have me: "tr_to_core (sts_transformer field_seats) (Player 1) = SecondAttackPlayer"
    by (simp add: field_seats_def PlayerTransformer_def to_core_player_def turned_def)
  have "\<exists>ms. d_sender d' = d_sender field_room \<lparr> s_out := s_out (d_sender field_room) @
      concat (map (channel_send (get (s_players (d_sender field_room)) (unat (1 :: u8)))) ms) \<rparr>"
    using requested_field_hides_the_other_side [OF d' me] by (auto simp: field_room_def Duel_new_def)
  moreover have "concat (map (channel_send (Some (Chan 2))) ms) = map (\<lambda>m. (2, m)) ms" for ms
    by (induction ms) simp_all
  ultimately have "\<exists>ms. s_out (d_sender d') = map (\<lambda>m. (2, m)) ms" by (auto simp: field_room_def Sender_new_def)
  then show ?thesis unfolding d' by simp
qed

end
