(* ===== verification/Host.thy ===== *)
theory Host
  imports TagRoom
begin

text \<open>
  The host of a room (host.rs): it starts the room its settings ask for and connects clients to it. The
  task that serves one client is a state machine over what arrives from the client and from the room; it
  speaks for the client as the position the room told last. Waiting for both streams at once is the
  choice of the next event.
\<close>

section \<open>Starting a room\<close>

definition create_request :: "HostInfo \<Rightarrow> RoomRequest" where
  "create_request info =
     Req_Message (Ctos_CreateGame info (FixedLengthString_allocate 20) (FixedLengthString_allocate 20)) UnknownPlayer"

datatype 'c Hosted = Hosted_Single "'c SingleDuel State" | Hosted_Tag "'c TagDuel State"

definition DuelHost_new :: "'c env \<Rightarrow> HostInfo \<Rightarrow> bool \<Rightarrow> 'c Hosted" where
  "DuelHost_new env info no_mask =
     (if hi_mode info = Mode_Tag
      then Hosted_Tag (tag_arrive (create_request info) (tag_room_start env info no_mask))
      else Hosted_Single (arrive (create_request info) (room_start env info no_mask)))"

section \<open>Serving a client\<close>

text \<open>A client's message may fail to be parsed; a stream ends once.\<close>

datatype bridge_event =
    From_client "ctos_Message option"
  | Client_gone
  | From_room stoc_Message
  | Room_gone

record Bridge =
  br_position :: Netplayer
  br_open :: bool
  br_requests :: "RoomRequest list"
  br_delivered :: "stoc_Message list"

definition join_request :: "chan \<Rightarrow> nat \<Rightarrow> RoomRequest" where
  "join_request c reply = Req_MessageEx (Y_ClientJoin c (Some reply)) To_None"

text \<open>The position is the answer to the request, if it comes.\<close>

definition Bridge_new :: "Netplayer option \<Rightarrow> Bridge" where
  "Bridge_new answer =
     \<lparr> br_position = (case answer of None \<Rightarrow> UnknownPlayer | Some p \<Rightarrow> p), br_open = True, br_requests = [], br_delivered = [] \<rparr>"

definition speak :: "ctos_Message \<Rightarrow> Bridge \<Rightarrow> Bridge" where
  "speak m b = b \<lparr> br_requests := br_requests b @ [Req_Message m (br_position b)] \<rparr>"

definition pass_on :: "stoc_Message \<Rightarrow> Bridge \<Rightarrow> Bridge" where
  "pass_on m b = b \<lparr> br_delivered := br_delivered b @ [m] \<rparr>"

definition bridge_step :: "bridge_event \<Rightarrow> Bridge \<Rightarrow> Bridge" where
  "bridge_step e b =
     (if \<not> br_open b then b
      else case e of
        From_client None \<Rightarrow> b
      | From_client (Some m) \<Rightarrow> speak m b
      | Client_gone \<Rightarrow> speak Ctos_LeaveGame b \<lparr> br_open := False \<rparr>
      | From_room m \<Rightarrow>
          (case m of
             Stoc_TypeChange p h \<Rightarrow> pass_on m (b \<lparr> br_position := p \<rparr>)
           | Stoc_LeaveGame p \<Rightarrow> if p = br_position b then b \<lparr> br_open := False \<rparr> else pass_on m b
           | _ \<Rightarrow> pass_on m b)
      | Room_gone \<Rightarrow> b \<lparr> br_open := False \<rparr>)"

definition bridge_run :: "bridge_event list \<Rightarrow> Bridge \<Rightarrow> Bridge" where
  "bridge_run es b = fold bridge_step es b"

lemma bridge_closed: "\<not> br_open b \<Longrightarrow> bridge_run es b = b"
  by (induction es arbitrary: b) (simp_all add: bridge_run_def bridge_step_def)

text \<open>What a client sends is passed on in its order, and the room hears of a departure once.\<close>

fun spoken :: "bridge_event \<Rightarrow> ctos_Message list" where
    "spoken (From_client (Some m)) = [m]"
  | "spoken Client_gone = [Ctos_LeaveGame]"
  | "spoken _ = []"

lemma bridge_step_requests:
  "map (\<lambda>r. case r of Req_Message m p \<Rightarrow> Some m | _ \<Rightarrow> None) (br_requests (bridge_step e b)) =
   map (\<lambda>r. case r of Req_Message m p \<Rightarrow> Some m | _ \<Rightarrow> None) (br_requests b) @
     (if br_open b then map Some (spoken e) else [])"
  by (simp add: bridge_step_def speak_def pass_on_def
      split: bridge_event.split option.split stoc_Message.split)

end
