(* ===== verification/Managers.thy ===== *)
theory Managers
  imports DataManager LFList
begin

text \<open>
  The other global tables of the server (managers.rs) and the archives they read from (ypk.rs): the
  configuration of system.conf, the forbidden and limited lists, and the scripts and card records the
  engine asks for. Reading a file is the parameter fs, the archives are lists of readers; a path is a
  string, joined as on Unix.
\<close>

section \<open>The configuration\<close>

record ConfigManager =
  cfg_entries :: "(str, str) hmap"

definition ConfigManager_new :: ConfigManager where
  "ConfigManager_new = \<lparr> cfg_entries = [] \<rparr>"

definition ConfigManager_from :: "(str, str) hmap \<Rightarrow> ConfigManager" where
  "ConfigManager_from entries = \<lparr> cfg_entries = entries \<rparr>"

text \<open>A line is trimmed; an empty line, a comment or a line without an equals sign is skipped.\<close>

definition config_line :: "str \<Rightarrow> (str \<times> str) option" where
  "config_line l =
     (let t = trim l in
      if t = [] \<or> starts_with (lit ''#'') t then None
      else case dropWhile (\<lambda>c. c \<noteq> of_char CHR ''='') t of
             [] \<Rightarrow> None
           | _ # v \<Rightarrow> Some (trim (takeWhile (\<lambda>c. c \<noteq> of_char CHR ''='') t), trim v))"

definition config_insert :: "str \<times> str \<Rightarrow> ConfigManager \<Rightarrow> ConfigManager" where
  "config_insert = (\<lambda>(k, v) m. m \<lparr> cfg_entries := hmap_insert k v (cfg_entries m) \<rparr>)"

definition load_content :: "str \<Rightarrow> ConfigManager \<Rightarrow> ConfigManager" where
  "load_content content =
     fold (\<lambda>l m. case config_line l of None \<Rightarrow> m | Some e \<Rightarrow> config_insert e m) (lines content)"

text \<open>Loading fails, and leaves the table alone, when the file cannot be read as text.\<close>

definition ConfigManager_load :: "(str \<Rightarrow> str option) \<Rightarrow> str \<Rightarrow> ConfigManager \<Rightarrow> ConfigManager \<times> bool" where
  "ConfigManager_load text_of path m =
     (case text_of path of None \<Rightarrow> (m, False) | Some content \<Rightarrow> (load_content content m, True))"

text \<open>Lower case is that of ASCII: the names of the variables are ASCII.\<close>

definition to_ascii_lowercase :: "nat \<Rightarrow> nat" where
  "to_ascii_lowercase c = (if 65 \<le> c \<and> c \<le> 90 then c + 32 else c)"

definition load_env :: "(str \<times> str) list \<Rightarrow> ConfigManager \<Rightarrow> ConfigManager" where
  "load_env vars =
     fold (\<lambda>(key, value) m. case strip_prefix (lit ''YGOPRO_'') key of
             None \<Rightarrow> m
           | Some name \<Rightarrow> config_insert (map to_ascii_lowercase name, value) m) vars"

definition ConfigManager_get :: "ConfigManager \<Rightarrow> str \<Rightarrow> str option" where
  "ConfigManager_get m key = hmap_get (cfg_entries m) key"

definition ConfigManager_get_or :: "ConfigManager \<Rightarrow> str \<Rightarrow> str \<Rightarrow> str" where
  "ConfigManager_get_or m key d = (case hmap_get (cfg_entries m) key of None \<Rightarrow> d | Some v \<Rightarrow> v)"

definition config_path :: "(str \<times> str) list \<Rightarrow> str" where
  "config_path vars =
     (case map_of vars (lit ''YGOPRO_CONFIG_PATH'') of None \<Rightarrow> lit ''system.conf'' | Some p \<Rightarrow> p)"

definition config_init :: "(str \<Rightarrow> str option) \<Rightarrow> (str \<times> str) list \<Rightarrow> ConfigManager" where
  "config_init text_of vars =
     load_env vars (fst (ConfigManager_load text_of (config_path vars) ConfigManager_new))"

function split_on :: "nat \<Rightarrow> str \<Rightarrow> str list" where
  "split_on c s =
     (case dropWhile (\<lambda>x. x \<noteq> c) s of
        [] \<Rightarrow> [s]
      | _ # r \<Rightarrow> takeWhile (\<lambda>x. x \<noteq> c) s # split_on c r)"
  by pat_completeness auto
termination
proof (relation "measure (length \<circ> snd)")
  fix c x and s r :: str
  assume "dropWhile (\<lambda>x. x \<noteq> c) s = x # r"
  then have "length (x # r) \<le> length s" by (metis length_dropWhile_le)
  then show "((c, r), (c, s)) \<in> measure (length \<circ> snd)" by simp
qed simp

declare split_on.simps [simp del]

definition split_paths :: "str \<Rightarrow> str list" where
  "split_paths path = filter (\<lambda>s. s \<noteq> []) (map trim (split_on (of_char CHR '','') path))"

section \<open>The texts\<close>

definition split_once :: "nat \<Rightarrow> str \<Rightarrow> (str \<times> str) option" where
  "split_once c s =
     (case dropWhile (\<lambda>x. x \<noteq> c) s of [] \<Rightarrow> None | _ # r \<Rightarrow> Some (takeWhile (\<lambda>x. x \<noteq> c) s, r))"

text \<open>The parser of a signed integer type.\<close>

definition parse_signed :: "int \<Rightarrow> str \<Rightarrow> int option" where
  "parse_signed half s =
     (case s of
        [] \<Rightarrow> None
      | c # r \<Rightarrow>
          if c \<noteq> of_char CHR ''-'' then parse_uint half s
          else if r = [] then None
          else case digits_val 0 r of None \<Rightarrow> None | Some n \<Rightarrow> if n \<le> half then Some (- n) else None)"

definition parse_i32 :: "str \<Rightarrow> i32 option" where
  "parse_i32 s = map_option of_int (parse_signed (2 ^ 31) s)"

type_synonym strings = "(str, (i32, str) hmap) hmap"

text \<open>A line of strings.conf: an exclamation mark, the category, the number and the text. Everything else is
  skipped; a line that ends after the number has an empty text.\<close>

definition strings_line :: "str \<Rightarrow> (str \<times> i32 \<times> str) option" where
  "strings_line l =
     (let t = trim l in
      if t = [] \<or> starts_with (lit ''#'') t \<or> \<not> starts_with (lit ''!'') t then None
      else case split_once 32 (tl t) of
        None \<Rightarrow> None
      | Some (category, rest) \<Rightarrow>
          let (number, value) = (case split_once 32 rest of None \<Rightarrow> (rest, []) | Some p \<Rightarrow> p)
          in map_option (\<lambda>i. (category, i, value)) (parse_i32 number))"

definition insert_string :: "str \<times> i32 \<times> str \<Rightarrow> strings \<Rightarrow> strings" where
  "insert_string = (\<lambda>(c, i, v) m. hmap_insert c (hmap_insert i v (get_or [] m c)) m)"

definition load_strings_conf :: "(str \<Rightarrow> str option) \<Rightarrow> str \<Rightarrow> strings" where
  "load_strings_conf text_of path =
     (case text_of path of
        None \<Rightarrow> []
      | Some content \<Rightarrow>
          fold (\<lambda>l m. case strings_line l of None \<Rightarrow> m | Some e \<Rightarrow> insert_string e m) (lines content) [])"

section \<open>Files\<close>

definition path_join :: "str \<Rightarrow> str \<Rightarrow> str" where
  "path_join p s =
     (if starts_with (lit ''/'') s \<or> p = [] then s
      else if last p = of_char CHR ''/'' then p @ s
      else p @ lit ''/'' @ s)"

type_synonym file_reader = "str \<Rightarrow> bytes option"

text \<open>The first archive that holds a file of the name, and can read it.\<close>

fun read_from_archives :: "file_reader list \<Rightarrow> file_reader" where
    "read_from_archives [] name = None"
  | "read_from_archives (a # as) name = (case a name of Some bs \<Rightarrow> Some bs | None \<Rightarrow> read_from_archives as name)"

definition read_file :: "file_reader \<Rightarrow> file_reader list \<Rightarrow> file_reader" where
  "read_file fs archives name =
     (case fs name of Some bs \<Rightarrow> Some bs | None \<Rightarrow> read_from_archives archives name)"

text \<open>The name of a script is a string of C, or null. A name below the script folder is looked for in
  three places, in an order that the configuration chooses.\<close>

definition base_path :: "ConfigManager \<Rightarrow> str" where
  "base_path cfg = ConfigManager_get_or cfg (lit ''path'') (lit ''./'')"

definition prefer_expansion_script :: "ConfigManager \<Rightarrow> bool" where
  "prefer_expansion_script cfg =
     (case ConfigManager_get cfg (lit ''prefer_expansion_script'') of
        None \<Rightarrow> False | Some v \<Rightarrow> trim v \<noteq> lit ''0'')"

fun or_else :: "'a option \<Rightarrow> 'a option \<Rightarrow> 'a option" where
    "or_else (Some x) y = Some x"
  | "or_else None y = y"

definition script_reader ::
  "file_reader \<Rightarrow> file_reader list \<Rightarrow> ConfigManager \<Rightarrow> str option \<Rightarrow> bytes option" where
  "script_reader fs archives cfg script_path =
     (case script_path of
        None \<Rightarrow> None
      | Some script \<Rightarrow>
          let name = (case strip_prefix (lit ''./'') script of None \<Rightarrow> script | Some r \<Rightarrow> r);
              path = path_join (base_path cfg) name;
              expansions = path_join (path_join (base_path cfg) (lit ''expansions'')) name
          in if \<not> starts_with (lit ''./script'') script then fs path
             else if prefer_expansion_script cfg
               then or_else (fs expansions) (or_else (read_from_archives archives name) (fs path))
               else or_else (read_from_archives archives name) (or_else (fs path) (fs expansions)))"

text \<open>The record the engine is given for a code: the card, or the default when there is none.\<close>

definition CoreCard_default :: CoreCard where
  "CoreCard_default =
     \<lparr> cd_code = 0, cd_alias = 0, cd_setcode = replicate SIZE_SETCODE 0, cd_type = 0, cd_level = 0,
       cd_attribute = 0, cd_race = 0, cd_attack = 0, cd_defense = 0, cd_left_scale = 0, cd_right_scale = 0,
       cd_link_marker = 0, cd_rule_code = 0 \<rparr>"

definition get_core_card :: "DataManager \<Rightarrow> u32 \<Rightarrow> CoreCard option" where
  "get_core_card dm code = map_option CoreCard.truncate (get_card dm code)"

definition card_reader :: "DataManager \<Rightarrow> u32 \<Rightarrow> CoreCard" where
  "card_reader dm code = (case get_core_card dm code of Some c \<Rightarrow> c | None \<Rightarrow> CoreCard_default)"

definition is_expansion_archive :: "str option \<Rightarrow> bool" where
  "is_expansion_archive extension =
     (case extension of None \<Rightarrow> False | Some e \<Rightarrow> e = lit ''zip'' \<or> e = lit ''ypk'')"

text \<open>The part of a file name after its last dot, unless that is its only dot and its first character.\<close>

definition path_extension :: "str \<Rightarrow> str option" where
  "path_extension p =
     (let name = rev (takeWhile (\<lambda>c. c \<noteq> of_char CHR ''/'') (rev p)) in
      if name = lit ''..'' then None
      else case dropWhile (\<lambda>c. c \<noteq> of_char CHR ''.'') (rev name) of
        [] \<Rightarrow> None
      | _ # before \<Rightarrow> if before = [] then None else Some (rev (takeWhile (\<lambda>c. c \<noteq> of_char CHR ''.'') (rev name))))"

text \<open>The archives: those below the folder of expansions, in the order of the walk, then the scripts. What
  cannot be opened as an archive is left out; walking a folder and opening an archive are parameters.\<close>

definition archives_init ::
  "(str \<Rightarrow> 'a option) \<Rightarrow> (str \<Rightarrow> str option list) \<Rightarrow> ConfigManager \<Rightarrow> 'a list" where
  "archives_init open_archive walk cfg =
     List.map_filter (\<lambda>entry. case entry of
         None \<Rightarrow> None
       | Some p \<Rightarrow> if is_expansion_archive (path_extension p) then open_archive p else None)
       (walk (path_join (base_path cfg) (lit ''expansions'')))
     @ (case open_archive (path_join (base_path cfg) (lit ''scripts.zip'')) of None \<Rightarrow> [] | Some a \<Rightarrow> [a])"

definition ends_with :: "str \<Rightarrow> str \<Rightarrow> bool" where
  "ends_with suffix s \<longleftrightarrow> starts_with (rev suffix) (rev s)"

text \<open>An archive also has the names of its members, in their order.\<close>

definition cdb_names :: "str list list \<Rightarrow> str list" where
  "cdb_names = concat \<circ> map (filter (ends_with (lit ''.cdb'')))"

section \<open>The lists\<close>

record DeckManager =
  dm_lflists :: "LFList list"

definition DeckManager_new :: DeckManager where
  "DeckManager_new = \<lparr> dm_lflists = [] \<rparr>"

definition load_lflist :: "(str \<Rightarrow> str option) \<Rightarrow> str \<Rightarrow> DeckManager \<Rightarrow> DeckManager" where
  "load_lflist text_of path m =
     (case text_of path of
        None \<Rightarrow> m
      | Some content \<Rightarrow> m \<lparr> dm_lflists := dm_lflists m @ parse_lflist_content content \<rparr>)"

text \<open>The patterns of the configuration are expanded by a library; a list without limits is added
  last, when there is any other.\<close>

definition no_limits :: LFList where
  "no_limits = LFList_new (lit ''N/A'') \<lparr> lf_hash := 0 \<rparr>"

definition deck_init :: "(str \<Rightarrow> str option) \<Rightarrow> (str \<Rightarrow> str list) \<Rightarrow> ConfigManager \<Rightarrow> DeckManager" where
  "deck_init text_of glob cfg =
     (let patterns = split_paths (ConfigManager_get_or cfg (lit ''lflist_path'') (lit ''expansions/lflist.conf, lflist.conf''));
          paths = concat (map (\<lambda>p. glob (path_join (base_path cfg) p)) patterns);
          m = fold (load_lflist text_of) paths DeckManager_new
      in if dm_lflists m \<noteq> [] then m \<lparr> dm_lflists := dm_lflists m @ [no_limits] \<rparr> else m)"

definition get_lflist_by_index :: "DeckManager \<Rightarrow> u32 \<Rightarrow> LFList option" where
  "get_lflist_by_index m i = get (dm_lflists m) (unat i)"

definition DeckManager_get_lflist_by_hash :: "DeckManager \<Rightarrow> u32 \<Rightarrow> LFList option" where
  "DeckManager_get_lflist_by_hash m h = find (\<lambda>l. lf_hash l = h) (dm_lflists m)"

definition get_lflist_name :: "DeckManager \<Rightarrow> u32 \<Rightarrow> str" where
  "get_lflist_name m h = (case DeckManager_get_lflist_by_hash m h of Some l \<Rightarrow> lf_name l | None \<Rightarrow> lit ''???'')"

section \<open>Loading the cards\<close>

text \<open>The cards of a database file are read by SQLite: none for a file that is no database.\<close>

definition load_db_from_bytes :: "(bytes \<Rightarrow> Card list option) \<Rightarrow> bytes \<Rightarrow> DataManager \<Rightarrow> DataManager" where
  "load_db_from_bytes cards_of bs m = (case cards_of bs of None \<Rightarrow> m | Some cards \<Rightarrow> insert_cards cards m)"

definition load_named_db ::
  "(bytes \<Rightarrow> Card list option) \<Rightarrow> file_reader \<Rightarrow> file_reader list \<Rightarrow> str \<Rightarrow> DataManager \<Rightarrow> DataManager" where
  "load_named_db cards_of fs archives name m =
     (case read_file fs archives name of None \<Rightarrow> m | Some bs \<Rightarrow> load_db_from_bytes cards_of bs m)"

definition data_init ::
  "(bytes \<Rightarrow> Card list option) \<Rightarrow> file_reader \<Rightarrow> file_reader list \<Rightarrow> str list list \<Rightarrow> (str \<Rightarrow> str list)
   \<Rightarrow> ConfigManager \<Rightarrow> DataManager" where
  "data_init cards_of fs archives members glob cfg =
     (let patterns = split_paths (ConfigManager_get_or cfg (lit ''db_path'') (lit ''cards.cdb, expansions/*.cdb''));
          paths = concat (map (\<lambda>p. glob (path_join (base_path cfg) p)) patterns)
      in finalize_db (fold (load_named_db cards_of fs archives) (paths @ cdb_names members) DataManager_new))"

section \<open>Starting\<close>

text \<open>All tables, in the order they are filled: the later ones are found through the configuration. An
  archive is read by its member names and a reader of its files.\<close>

record globals =
  g_config :: ConfigManager
  g_strings :: strings
  g_archives :: "file_reader list"
  g_data :: DataManager
  g_decks :: DeckManager

record machine =
  mc_text_of :: "str \<Rightarrow> str option"
  mc_file_reader :: file_reader
  mc_variables :: "(str \<times> str) list"
  mc_open_archive :: "str \<Rightarrow> (str list \<times> file_reader) option"
  mc_walk :: "str \<Rightarrow> str option list"
  mc_glob :: "str \<Rightarrow> str list"
  mc_cards_of :: "bytes \<Rightarrow> Card list option"

definition globals_init :: "machine \<Rightarrow> globals" where
  "globals_init mc =
     (let cfg = config_init (mc_text_of mc) (mc_variables mc);
          archives = archives_init (mc_open_archive mc) (mc_walk mc) cfg
      in \<lparr> g_config = cfg,
           g_strings = load_strings_conf (mc_text_of mc) (lit ''strings.conf''),
           g_archives = map snd archives,
           g_data = data_init (mc_cards_of mc) (mc_file_reader mc) (map snd archives) (map fst archives) (mc_glob mc) cfg,
           g_decks = deck_init (mc_text_of mc) (mc_glob mc) cfg \<rparr>)"

section \<open>Lemmas\<close>


lemma config_insert_get [simp]:
  "ConfigManager_get (config_insert (k, v) m) key = (if key = k then Some v else ConfigManager_get m key)"
  by (simp add: config_insert_def ConfigManager_get_def hmap_get_insert)

lemma or_else_None [simp]: "or_else x None = x"
  by (cases x) auto

text \<open>The value of a key is that of the last entry for it.\<close>

definition last_value :: "(str \<times> str) list \<Rightarrow> str \<Rightarrow> str option" where
  "last_value es k = map_of (rev es) k"

lemma fold_config_insert:
  "ConfigManager_get (fold config_insert es m) k = or_else (last_value es k) (ConfigManager_get m k)"
proof (induction es arbitrary: m)
  case (Cons e es)
  then show ?case
    by (cases e) (auto simp: last_value_def map_add_def split: option.split)
qed (simp add: last_value_def)

lemma load_content_fold:
  "load_content content m = fold config_insert (List.map_filter config_line (lines content)) m"
proof -
  have "fold (\<lambda>l m. case config_line l of None \<Rightarrow> m | Some e \<Rightarrow> config_insert e m) ls m =
      fold config_insert (List.map_filter config_line ls) m" for ls
    by (induction ls arbitrary: m) (auto simp: List.map_filter_def split: option.split)
  then show ?thesis by (simp add: load_content_def)
qed

definition env_entry :: "str \<times> str \<Rightarrow> (str \<times> str) option" where
  "env_entry = (\<lambda>(key, value). map_option (\<lambda>name. (map to_ascii_lowercase name, value)) (strip_prefix (lit ''YGOPRO_'') key))"

lemma load_env_fold: "load_env vars m = fold config_insert (List.map_filter env_entry vars) m"
proof -
  have "fold (\<lambda>(key, value) m. case strip_prefix (lit ''YGOPRO_'') key of
             None \<Rightarrow> m
           | Some name \<Rightarrow> config_insert (map to_ascii_lowercase name, value) m) vs m =
      fold config_insert (List.map_filter env_entry vs) m" for vs
    by (induction vs arbitrary: m)
      (auto simp: List.map_filter_def env_entry_def simp del: lit_simps split: option.split prod.split)
  then show ?thesis by (simp only: load_env_def)
qed

lemma config_init_get:
  "ConfigManager_get (config_init text_of vars) key =
     or_else (last_value (List.map_filter env_entry vars) key)
       (case text_of (config_path vars) of
          None \<Rightarrow> None
        | Some content \<Rightarrow> last_value (List.map_filter config_line (lines content)) key)"
  by (simp add: config_init_def ConfigManager_load_def load_env_fold load_content_fold fold_config_insert
      split: option.split) (simp add: ConfigManager_get_def ConfigManager_new_def)

text \<open>Where a script may come from, in order.\<close>

definition script_places :: "file_reader \<Rightarrow> file_reader list \<Rightarrow> ConfigManager \<Rightarrow> str \<Rightarrow> bytes option list" where
  "script_places fs archives cfg name =
     (let base = fs (path_join (base_path cfg) name);
          packed = map (\<lambda>a. a name) archives;
          expansion = fs (path_join (path_join (base_path cfg) (lit ''expansions'')) name)
      in if prefer_expansion_script cfg then expansion # packed @ [base] else packed @ [base, expansion])"

fun first_found :: "'a option list \<Rightarrow> 'a option" where
    "first_found [] = None"
  | "first_found (x # xs) = or_else x (first_found xs)"

text \<open>A text is the last one given for its category and number.\<close>

definition string_of :: "strings \<Rightarrow> str \<times> i32 \<Rightarrow> str option" where
  "string_of m = (\<lambda>(c, i). hmap_get (get_or [] m c) i)"

lemma string_of_insert: "string_of (insert_string (c, i, v) m) k = (if k = (c, i) then Some v else string_of m k)"
  by (cases k) (simp add: string_of_def insert_string_def hmap_get_insert)

lemma load_strings_last:
  "string_of (load_strings_conf text_of path) k =
     (case text_of path of
        None \<Rightarrow> None
      | Some content \<Rightarrow> map_of (rev (map (\<lambda>(c, i, v). ((c, i), v)) (List.map_filter strings_line (lines content)))) k)"
proof -
  have "string_of (fold (\<lambda>l m. case strings_line l of None \<Rightarrow> m | Some e \<Rightarrow> insert_string e m) ls m) k =
      or_else (map_of (rev (map (\<lambda>(c, i, v). ((c, i), v)) (List.map_filter strings_line ls))) k) (string_of m k)" for ls m
  proof (induction ls arbitrary: m)
    case (Cons l ls)
    show ?case
      by (cases "strings_line l")
        (auto simp: Cons.IH List.map_filter_def string_of_insert map_add_def split: option.split)
  qed (simp add: List.map_filter_def)
  moreover have "string_of [] k = None" by (cases k) (simp add: string_of_def)
  ultimately show ?thesis by (simp add: load_strings_conf_def split: option.split)
qed

lemma or_else_assoc: "or_else (or_else x y) z = or_else x (or_else y z)"
  by (cases x) simp_all

lemma first_found_append: "first_found (xs @ ys) = or_else (first_found xs) (first_found ys)"
  by (induction xs) (simp_all add: or_else_assoc)

lemma first_found_archives: "first_found (map (\<lambda>a. a name) as) = read_from_archives as name"
  by (induction as) (auto split: option.split)

lemma strip_prefix_append: "strip_prefix (p @ q) s = Option.bind (strip_prefix p s) (strip_prefix q)"
  by (induction p s rule: strip_prefix.induct) auto

lemma script_reader_places:
  assumes "starts_with (lit ''./script'') script"
  shows "\<exists>name. script = lit ''./'' @ name \<and>
    script_reader fs archives cfg (Some script) = first_found (script_places fs archives cfg name)"
proof -
  have "strip_prefix (lit ''./'' @ lit ''script'') script \<noteq> None"
    using assms by (simp add: starts_with_def)
  then obtain name where name: "strip_prefix (lit ''./'') script = Some name"
    unfolding strip_prefix_append by (cases "strip_prefix (lit ''./'') script") auto
  have "strip_prefix p s = Some r \<Longrightarrow> s = p @ r" for p s r
    by (induction p s rule: strip_prefix.induct) (auto split: if_splits)
  then have "script = lit ''./'' @ name" using name by blast
  moreover have "script_reader fs archives cfg (Some script) = first_found (script_places fs archives cfg name)"
    using assms name
    by (simp add: script_reader_def script_places_def Let_def first_found_append first_found_archives or_else_assoc
        del: lit_simps)
  ultimately show ?thesis by blast
qed

end
