(* ===== verification/CommandLine.thy ===== *)
theory CommandLine
  imports Managers HostInfo
begin

text \<open>
  The arguments of the server (cli.rs) and the arguments the bridge to an external server writes
  (room\_provider.rs). Whether a path exists, and the codec base64 of the crate of that name, are
  parameters.
\<close>

section \<open>Reading\<close>

definition SEED_COUNT :: nat where
  "SEED_COUNT = 8"

datatype CliError = BadParamCount | InvalidPort str | InvalidSeed str

record ServerArguments =
  sa_port :: u16
  sa_host_info :: HostInfo
  sa_replay_mode :: u32
  sa_seeds :: "u32 list list"
  sa_base_path :: str

datatype ArgsFormat = Args_Mycard | Args_Mobile | Args_Unknown

definition parse_u16 :: "str \<Rightarrow> u16 option" where
  "parse_u16 s = map_option of_int (parse_uint (2 ^ 16) s)"

fun unwrap_or :: "'a \<Rightarrow> 'a option \<Rightarrow> 'a" where
    "unwrap_or d None = d"
  | "unwrap_or d (Some x) = x"

definition parse_mode :: "str \<Rightarrow> Mode" where
  "parse_mode argument =
     (let v = unwrap_or 0 (parse_u8 argument) in
      if v > 2 then Mode_Single else unwrap_or Mode_Single (try_from Mode_repr Mode_all v))"

definition parse_duel_rule :: "str \<Rightarrow> MasterRule" where
  "parse_duel_rule argument =
     (if argument = lit ''T'' then MasterRule_MasterRuleNew
      else if argument = lit ''F'' then MasterRule_MasterRule2020
      else case parse_u8 argument of
             None \<Rightarrow> MasterRule_MasterRule2020
           | Some v \<Rightarrow>
               if v \<noteq> 0 then unwrap_or MasterRule_MasterRule2020 (try_from MasterRule_repr MasterRule_all v)
               else MasterRule_MasterRule2020)"

text \<open>A seed has eight numbers: more bytes are ignored, missing ones are zero.\<close>

fun chunks_u32 :: "bytes \<Rightarrow> u32 list" where
  "chunks_u32 bs = (case rd_u32 bs of None \<Rightarrow> [] | Some (w, r) \<Rightarrow> w # (if length r < length bs then chunks_u32 r else []))"

declare chunks_u32.simps [simp del]

definition decode_seed :: "(str \<Rightarrow> bytes option) \<Rightarrow> str \<Rightarrow> CliError + u32 list" where
  "decode_seed decode s =
     (case decode s of
        None \<Rightarrow> Inl (InvalidSeed s)
      | Some bs \<Rightarrow> let ws = take SEED_COUNT (chunks_u32 bs) in Inr (ws @ replicate (SEED_COUNT - length ws) 0))"

fun collect :: "('e + 'a) list \<Rightarrow> 'e + 'a list" where
    "collect [] = Inr []"
  | "collect (Inl e # xs) = Inl e"
  | "collect (Inr x # xs) = (case collect xs of Inl e \<Rightarrow> Inl e | Inr ys \<Rightarrow> Inr (x # ys))"

definition infer_format :: "(str \<Rightarrow> bool) \<Rightarrow> (str \<Rightarrow> bytes option) \<Rightarrow> str \<Rightarrow> CliError + ArgsFormat" where
  "infer_format exists_path decode tail =
     (if exists_path tail then Inr Args_Mobile
      else case decode tail of Some bs \<Rightarrow> Inr Args_Mycard | None \<Rightarrow> Inl BadParamCount)"

definition chosen_format ::
  "(str \<Rightarrow> bool) \<Rightarrow> (str \<Rightarrow> bytes option) \<Rightarrow> str list \<Rightarrow> ArgsFormat \<Rightarrow> CliError + ArgsFormat" where
  "chosen_format exists_path decode args format =
     (if format \<noteq> Args_Unknown then Inr format
      else case get args 12 of None \<Rightarrow> Inr Args_Mycard | Some tail \<Rightarrow> infer_format exists_path decode tail)"

definition arguments_host_info :: "DeckManager \<Rightarrow> str list \<Rightarrow> HostInfo" where
  "arguments_host_info decks args =
     \<lparr> hi_lflist = (case get_lflist_by_index decks (unwrap_or 0 (parse_u32 (args ! 1))) of
                      None \<Rightarrow> 0 | Some l \<Rightarrow> lf_hash l),
       hi_rule = unwrap_or Rule_All (try_from Rule_repr Rule_all (unwrap_or 0 (parse_u8 (args ! 2)))),
       hi_mode = parse_mode (args ! 3),
       hi_duel_rule = parse_duel_rule (args ! 4),
       hi_no_check_deck = (args ! 5 = lit ''T''),
       hi_no_shuffle_deck = (args ! 6 = lit ''T''),
       hi_start_lp = unwrap_or 8000 (parse_u32 (args ! 7)),
       hi_start_hand = unwrap_or 5 (parse_u8 (args ! 8)),
       hi_draw_count = unwrap_or 1 (parse_u8 (args ! 9)),
       hi_time_limit = unwrap_or 180 (parse_u16 (args ! 10)) \<rparr>"

definition quick_arguments :: "u16 \<Rightarrow> ServerArguments" where
  "quick_arguments port =
     \<lparr> sa_port = port, sa_host_info = HostInfo_default, sa_replay_mode = 0, sa_seeds = [], sa_base_path = lit ''./'' \<rparr>"

definition parse_cli_args ::
  "(str \<Rightarrow> bool) \<Rightarrow> (str \<Rightarrow> bytes option) \<Rightarrow> DeckManager \<Rightarrow> str list \<Rightarrow> ArgsFormat \<Rightarrow> CliError + ServerArguments" where
  "parse_cli_args exists_path decode decks args format =
     (if args = [] then Inr (quick_arguments 0)
      else if length args = 1 then
        (case parse_u16 (args ! 0) of None \<Rightarrow> Inl (InvalidPort (args ! 0)) | Some port \<Rightarrow> Inr (quick_arguments port))
      else if length args < 12 then Inl BadParamCount
      else case chosen_format exists_path decode args format of
        Inl e \<Rightarrow> Inl e
      | Inr chosen \<Rightarrow> (case parse_u16 (args ! 0) of
          None \<Rightarrow> Inl (InvalidPort (args ! 0))
        | Some port \<Rightarrow>
            let from = (if chosen = Args_Mobile then 13 else 12);
                base = (if chosen = Args_Mobile then unwrap_or (lit ''./'') (get args 12) else lit ''./'')
            in (case collect (map (decode_seed decode) (drop from args)) of
                  Inl e \<Rightarrow> Inl e
                | Inr seeds \<Rightarrow> Inr
                    \<lparr> sa_port = port, sa_host_info = arguments_host_info decks args,
                      sa_replay_mode = unwrap_or 0 (parse_u32 (args ! 11)), sa_seeds = seeds,
                      sa_base_path = base \<rparr>)))"

section \<open>Writing\<close>

definition encode_seed :: "(bytes \<Rightarrow> str) \<Rightarrow> u32 list \<Rightarrow> str" where
  "encode_seed encode seed = encode (wr_vec wr_u32 seed)"

definition u8_to_string :: "u8 \<Rightarrow> str" where
  "u8_to_string w = decimal (unat w)"

definition u16_to_string :: "u16 \<Rightarrow> str" where
  "u16_to_string w = decimal (unat w)"

definition flag_to_string :: "bool \<Rightarrow> str" where
  "flag_to_string b = (if b then lit ''T'' else lit ''F'')"

definition generate_args :: "(bytes \<Rightarrow> str) \<Rightarrow> HostInfo \<Rightarrow> u32 list list option \<Rightarrow> str list" where
  "generate_args encode h seed =
     [lit ''0'', u32_to_string (hi_lflist h), u8_to_string (Rule_repr (hi_rule h)), u8_to_string (Mode_repr (hi_mode h)),
      u8_to_string (MasterRule_repr (hi_duel_rule h)), flag_to_string (hi_no_check_deck h),
      flag_to_string (hi_no_shuffle_deck h), u32_to_string (hi_start_lp h), u8_to_string (hi_start_hand h),
      u8_to_string (hi_draw_count h), u16_to_string (hi_time_limit h), lit ''0'']
     @ (case seed of None \<Rightarrow> [] | Some seeds \<Rightarrow> map (encode_seed encode) seeds)"

section \<open>Seeds\<close>

datatype DuelSeed = Seed_None | Seed_Single u32 | Seed_Complicated "u32 list"

text \<open>The numbers a random generator is made from (random.rs): drawn by the crate rand when there is
  no seed. The duel of the engine is made from the same numbers (new\_with\_api).\<close>

fun seed_array :: "u32 list \<Rightarrow> DuelSeed \<Rightarrow> u32 list" where
    "seed_array rand Seed_None = rand"
  | "seed_array rand (Seed_Single s) = replicate SEED_COUNT s"
  | "seed_array rand (Seed_Complicated seq) = seq"

text \<open>The duels of the host that is built from the arguments use the given seeds in order.\<close>

definition pre_seed :: "u32 list list \<Rightarrow> u8 \<Rightarrow> DuelSeed" where
  "pre_seed seeds duel_count = (case get seeds (unat duel_count) of Some s \<Rightarrow> Seed_Complicated s | None \<Rightarrow> Seed_None)"

section \<open>Embedding\<close>

text \<open>The arguments as one string (ffi.rs, and the bridge to mobile clients): white space outside quotes
  separates, quotes are dropped, and an empty argument cannot be written.\<close>

definition split_step :: "nat \<Rightarrow> str list \<times> str \<times> bool \<Rightarrow> str list \<times> str \<times> bool" where
  "split_step c = (\<lambda>(result, current, in_quotes).
     if c = 34 then (result, current, \<not> in_quotes)
     else if is_whitespace c \<and> \<not> in_quotes
       then (if current = [] then (result, current, in_quotes) else (result @ [current], [], in_quotes))
     else (result, current @ [c], in_quotes))"

definition split_command_line :: "str \<Rightarrow> str list" where
  "split_command_line s =
     (case fold split_step s ([], [], False) of
        (result, current, in_quotes) \<Rightarrow> if current = [] then result else result @ [current])"

definition configure_resource_paths :: "ServerArguments \<Rightarrow> ConfigManager" where
  "configure_resource_paths a = ConfigManager_from [(lit ''path'', sa_base_path a)]"

text \<open>What the library knows: the server that runs, by its port, and the tables that starting one replaces.
  Binding a port, which fails or gives the port that was bound, is a parameter.\<close>

record embedded =
  emb_handle :: "u16 option"
  emb_config :: ConfigManager
  emb_decks :: DeckManager

definition start_ygopro_server ::
  "(str \<Rightarrow> bool) \<Rightarrow> (str \<Rightarrow> bytes option) \<Rightarrow> (u16 \<Rightarrow> u16 option) \<Rightarrow> str \<Rightarrow> embedded
   \<Rightarrow> (ServerArguments \<times> u16) option \<times> embedded" where
  "start_ygopro_server exists_path decode bind s e =
     (case parse_cli_args exists_path decode (emb_decks e) (split_command_line s) Args_Unknown of
        Inl _ \<Rightarrow> (None, e)
      | Inr a \<Rightarrow>
          (map_option (Pair a) (bind (sa_port a)), e \<lparr> emb_config := configure_resource_paths a \<rparr>))"

definition START_ALREADY_RUNNING :: int where "START_ALREADY_RUNNING = - 1"
definition START_BAD_ARGUMENTS :: int where "START_BAD_ARGUMENTS = - 2"
definition START_RUNTIME_ERROR :: int where "START_RUNTIME_ERROR = - 3"

text \<open>The single server of a mobile client: the tables are filled from the base path before the server
  starts, which then reads the arguments again.\<close>

definition start_server ::
  "machine \<Rightarrow> (str \<Rightarrow> bool) \<Rightarrow> (str \<Rightarrow> bytes option) \<Rightarrow> (u16 \<Rightarrow> u16 option) \<Rightarrow> str option \<Rightarrow> embedded
   \<Rightarrow> int \<times> embedded" where
  "start_server mc exists_path decode bind arguments e =
     (if emb_handle e \<noteq> None then (START_ALREADY_RUNNING, e)
      else let s = unwrap_or [] arguments in
        case parse_cli_args exists_path decode (emb_decks e) (split_command_line s) Args_Mobile of
          Inl _ \<Rightarrow> (START_BAD_ARGUMENTS, e)
        | Inr a \<Rightarrow>
            let cfg = configure_resource_paths a;
                e' = e \<lparr> emb_config := cfg, emb_decks := deck_init (mc_text_of mc) (mc_glob mc) cfg \<rparr>
            in case start_ygopro_server exists_path decode bind s e' of
                 (None, e'') \<Rightarrow> (START_RUNTIME_ERROR, e'')
               | (Some (_, port), e'') \<Rightarrow> (int (unat port), e'' \<lparr> emb_handle := Some port \<rparr>))"

definition stop_server :: "embedded \<Rightarrow> embedded" where
  "stop_server e = e \<lparr> emb_handle := None \<rparr>"

section \<open>Lemmas\<close>

text \<open>Arguments in quotes are split as they were.\<close>

fun quoted :: "str list \<Rightarrow> str" where
    "quoted [] = []"
  | "quoted (a # as) = 34 # a @ 34 # 32 # quoted as"

lemma split_step_simps [simp]:
  "split_step 34 (res, cur, q) = (res, cur, \<not> q)"
  "c \<noteq> 34 \<Longrightarrow> split_step c (res, cur, True) = (res, cur @ [c], True)"
  "split_step 32 (res, cur, False) = (if cur = [] then (res, [], False) else (res @ [cur], [], False))"
  by (simp_all add: split_step_def is_whitespace_def)

lemma fold_split_quoted:
  "34 \<notin> set a \<Longrightarrow> fold split_step a (res, cur, True) = (res, cur @ a, True)"
  by (induction a arbitrary: cur) auto

lemma fold_split_command_line:
  assumes "\<forall>a \<in> set as. a \<noteq> [] \<and> 34 \<notin> set a"
  shows "fold split_step (quoted as) (res, [], False) = (res @ as, [], False)"
  using assms
proof (induction as arbitrary: res)
  case (Cons a as)
  then show ?case by (simp add: fold_split_quoted)
qed simp

lemma split_quoted:
  "\<forall>a \<in> set as. a \<noteq> [] \<and> 34 \<notin> set a \<Longrightarrow> split_command_line (quoted as) = as"
  by (simp add: split_command_line_def fold_split_command_line)

text \<open>The two readings of the arguments agree when there is a base path and it exists.\<close>

lemma layouts_agree:
  assumes "12 < length args" and "exists_path (args ! 12)"
  shows "parse_cli_args exists_path decode decks args Args_Unknown =
    parse_cli_args exists_path decode decks args Args_Mobile"
  using assms by (auto simp: parse_cli_args_def chosen_format_def infer_format_def)

text \<open>A second server is not started, and a stopped one can be started again.\<close>

lemma start_server_running:
  "emb_handle e \<noteq> None \<Longrightarrow> start_server mc exists_path decode bind arguments e = (START_ALREADY_RUNNING, e)"
  by (simp add: start_server_def)

lemma start_server_handle:
  assumes "start_server mc exists_path decode bind arguments e = (code, e')" and "emb_handle e = None"
  shows "0 \<le> code \<longleftrightarrow> emb_handle e' \<noteq> None"
  using assms
  by (auto simp: start_server_def start_ygopro_server_def START_BAD_ARGUMENTS_def START_RUNTIME_ERROR_def Let_def
      split: sum.splits option.splits)

lemma parse_uint_decimal: "int n < limit \<Longrightarrow> parse_uint limit (decimal n) = Some (int n)"
  by (simp add: parse_uint_digits decimal_digits digits_val_decimal)

lemma parse_u8_decimal [simp]: "parse_u8 (u8_to_string w) = Some w"
  using uint_lt2p [of w] by (simp add: parse_u8_def u8_to_string_def parse_uint_decimal)

lemma parse_u16_decimal [simp]: "parse_u16 (u16_to_string w) = Some w"
  using uint_lt2p [of w] by (simp add: parse_u16_def u16_to_string_def parse_uint_decimal)

lemma flag_to_string_T [simp]: "flag_to_string b = lit ''T'' \<longleftrightarrow> b"
  by (simp add: flag_to_string_def)

lemma decimal_not_letter: "65 \<le> c \<Longrightarrow> decimal n \<noteq> [c]"
  using decimal_digits [of n] by (auto simp: is_ascii_digit_def)

lemma parse_mode_repr [simp]: "parse_mode (u8_to_string (Mode_repr m)) = m"
  by (cases m) (simp_all add: parse_mode_def try_from_def Mode_all_def)

lemma parse_duel_rule_repr [simp]: "parse_duel_rule (u8_to_string (MasterRule_repr r)) = r"
proof -
  have "u8_to_string w \<noteq> lit ''T''" "u8_to_string w \<noteq> lit ''F''" for w
    by (simp_all add: u8_to_string_def decimal_not_letter)
  moreover have "MasterRule_repr r \<noteq> 0" by (cases r) simp_all
  ultimately show ?thesis by (simp add: parse_duel_rule_def del: lit_simps)
qed

lemma chunks_u32_wr: "chunks_u32 (wr_vec wr_u32 ws) = ws"
proof (induction ws)
  case Nil
  then show ?case by (simp add: chunks_u32.simps)
next
  case (Cons w ws)
  then show ?case
    by (subst chunks_u32.simps) (simp add: u32.rd_wr)
qed

lemma decode_encode_seed:
  assumes "decode (encode (wr_vec wr_u32 s)) = Some (wr_vec wr_u32 s)" and "length s = SEED_COUNT"
  shows "decode_seed decode (encode_seed encode s) = Inr s"
  using assms by (simp add: decode_seed_def encode_seed_def chunks_u32_wr)

lemma collect_Inr: "collect (map (\<lambda>x. Inr (f x)) xs) = Inr (map f xs)"
  by (induction xs) auto

lemma collect_map_Inr: "\<forall>x \<in> set xs. g x = Inr (f x) \<Longrightarrow> collect (map g xs) = Inr (map f xs)"
  by (induction xs) auto

section \<open>Properties\<close>

text \<open>C36: The server reads the arguments the bridge writes: every setting of the room but one, and the
  seeds in order, are those the bridge was asked for, as long as base64 decodes what it encodes. The
  exception is the limit list: the bridge writes the hash of the list where the server reads its index.\<close>

theorem bridge_arguments_read_back:
  assumes "\<And>bs. decode (encode bs) = Some bs" and "\<forall>s \<in> set seeds. length s = SEED_COUNT"
  shows "parse_cli_args exists_path decode decks (generate_args encode h (Some seeds)) Args_Mycard =
     Inr \<lparr> sa_port = 0,
           sa_host_info = h \<lparr> hi_lflist := (case get_lflist_by_index decks (hi_lflist h) of None \<Rightarrow> 0 | Some l \<Rightarrow> lf_hash l) \<rparr>,
           sa_replay_mode = 0, sa_seeds = seeds, sa_base_path = lit ''./'' \<rparr>"
proof -
  let ?args = "generate_args encode h (Some seeds)"
  have head: "?args \<noteq> []" "length ?args = 12 + length seeds" "drop 12 ?args = map (encode_seed encode) seeds"
    "?args ! 0 = lit ''0''" "?args ! 11 = lit ''0''"
    by (simp_all add: generate_args_def del: lit_simps)
  have info: "arguments_host_info decks ?args =
      h \<lparr> hi_lflist := (case get_lflist_by_index decks (hi_lflist h) of None \<Rightarrow> 0 | Some l \<Rightarrow> lf_hash l) \<rparr>"
    by (simp add: arguments_host_info_def generate_args_def Rule.try_from_repr del: lit_simps)
  have seeds: "collect (map (decode_seed decode \<circ> encode_seed encode) seeds) = Inr seeds"
    using collect_map_Inr [of seeds "decode_seed decode \<circ> encode_seed encode" id] assms
    by (simp add: decode_encode_seed)
  have zero: "parse_u16 (lit ''0'') = Some 0" "parse_u32 (lit ''0'') = Some 0"
    by (simp_all add: parse_u16_def parse_u32_def parse_uint_def is_ascii_digit_def)
  show ?thesis
    by (simp add: parse_cli_args_def head info seeds zero chosen_format_def Let_def del: lit_simps)
qed

definition sample_encode :: "bytes \<Rightarrow> str" where
  "sample_encode bs = map (\<lambda>b. 65 + unat b) bs"

definition sample_decode :: "str \<Rightarrow> bytes option" where
  "sample_decode s = Some (map (\<lambda>c. of_nat (c - 65)) s)"

theorem bridge_arguments_read_back_witness:
  "parse_cli_args (\<lambda>p. False) sample_decode DeckManager_new
     (generate_args sample_encode HostInfo_default (Some [[1, 2, 3, 4, 5, 6, 7, 8]])) Args_Mycard =
   Inr \<lparr> sa_port = 0, sa_host_info = HostInfo_default, sa_replay_mode = 0,
         sa_seeds = [[1, 2, 3, 4, 5, 6, 7, 8]], sa_base_path = lit ''./'' \<rparr>"
proof -
  have "sample_decode (sample_encode bs) = Some bs" for bs
    by (simp add: sample_decode_def sample_encode_def comp_def)
  from bridge_arguments_read_back [where decode = sample_decode and encode = sample_encode, OF this,
      where seeds = "[[1, 2, 3, 4, 5, 6, 7, 8]]" and decks = DeckManager_new and h = HostInfo_default]
  show ?thesis
    by (simp add: SEED_COUNT_def get_lflist_by_index_def DeckManager_new_def HostInfo_default_def del: lit_simps)
qed

end
