(* ===== verification/Settings.thy ===== *)
theory Settings
  imports CommandLine Host
begin

text \<open>
  The configuration of a room (configuration.rs), the configurations of the plugins as their derive macro
  makes them from the tables (plugin/*.rs, derive/configuration.rs), and the room a command line asks for
  (build\_duel\_host in cli.rs). A typed map holds one value of each type: here its keys are the plugins.
\<close>

section \<open>Plugins\<close>

record ReplayConfig =
  rcf_mode :: u32
  rcf_save_path :: str
  rcf_format :: Format
  rcf_file_template :: str
  rcf_time_format :: str
  rcf_machine :: u16

datatype plugin_configuration =
    Config_Bo u8
  | Config_PreloadScript "str list"
  | Config_Replay ReplayConfig
  | Config_Terminate SendTarget bool
  | Config_TimeBacked TimeBackedConfig
  | Config_TimeCompensator TimeCompensatorConfig

fun configured_plugin :: "plugin_configuration \<Rightarrow> str" where
    "configured_plugin (Config_Bo _) = lit ''ygopro::plugin::bo''"
  | "configured_plugin (Config_PreloadScript _) = lit ''ygopro::plugin::preload_script''"
  | "configured_plugin (Config_Replay _) = lit ''ygopro::plugin::replay''"
  | "configured_plugin (Config_Terminate _ _) = lit ''ygopro::plugin::terminate''"
  | "configured_plugin (Config_TimeBacked _) = lit ''ygopro::plugin::time_backed''"
  | "configured_plugin (Config_TimeCompensator _) = lit ''ygopro::plugin::time_compensator''"

text \<open>A field takes the value the tables have for the last part of the name of the plugin and its own name,
  if that can be parsed.\<close>

definition setting :: "ConfigManager \<Rightarrow> str \<Rightarrow> str \<Rightarrow> (str \<Rightarrow> 'a option) \<Rightarrow> 'a \<Rightarrow> 'a" where
  "setting cfg plugin field parse d =
     unwrap_or d (Option.bind (ConfigManager_get cfg (plugin @ lit ''_'' @ field)) parse)"

definition parse_bool :: "str \<Rightarrow> bool option" where
  "parse_bool s = (if s = lit ''true'' then Some True else if s = lit ''false'' then Some False else None)"

definition parse_i16 :: "str \<Rightarrow> i16 option" where
  "parse_i16 s = map_option of_int (parse_signed (2 ^ 15) s)"

definition bo_configuration :: "ConfigManager \<Rightarrow> plugin_configuration" where
  "bo_configuration cfg = Config_Bo (setting cfg (lit ''bo'') (lit ''override_best_of'') parse_u8 0)"

definition preload_configuration :: "ConfigManager \<Rightarrow> plugin_configuration" where
  "preload_configuration cfg = Config_PreloadScript [lit ''./script/special.lua'']"

definition replay_configuration :: "ConfigManager \<Rightarrow> plugin_configuration" where
  "replay_configuration cfg =
     (let p = lit ''replay'' in Config_Replay
       \<lparr> rcf_mode = 0,
         rcf_save_path = setting cfg p (lit ''save_path'') Some (lit ''replays''),
         rcf_format = setting cfg p (lit ''format'') Format_from_str Format_Ygopro,
         rcf_file_template = setting cfg p (lit ''file_template'') Some (lit ''{time} {players} Duel {duel}''),
         rcf_time_format = setting cfg p (lit ''time_format'') Some (lit ''%Y-%m-%d %H-%M-%S''),
         rcf_machine = setting cfg p (lit ''machine'') parse_u16 0 \<rparr>)"

definition terminate_configuration :: "ConfigManager \<Rightarrow> plugin_configuration" where
  "terminate_configuration cfg =
     Config_Terminate To_All (setting cfg (lit ''terminate'') (lit ''terminate_when_match_end'') parse_bool True)"

definition time_backed_configuration :: "ConfigManager \<Rightarrow> plugin_configuration" where
  "time_backed_configuration cfg =
     (let p = lit ''time_backed'' in Config_TimeBacked
       \<lparr> tb_add_time_after_operation = setting cfg p (lit ''add_time_after_operation'') parse_u16 1,
         tb_max_add_time_each_turn = setting cfg p (lit ''max_add_time_each_turn'') parse_u16 0 \<rparr>)"

definition time_compensator_configuration :: "ConfigManager \<Rightarrow> plugin_configuration" where
  "time_compensator_configuration cfg =
     (let p = lit ''time_compensator'' in Config_TimeCompensator
       \<lparr> tc_add_small_time_deposit_after_operation = setting cfg p (lit ''add_small_time_deposit_after_operation'') parse_u16 1,
         tc_ignore_small_time_under_this_duration = setting cfg p (lit ''ignore_small_time_under_this_duration'') parse_u16 10,
         tc_initial_time_balance = setting cfg p (lit ''initial_time_balance'') parse_i16 0 \<rparr>)"

definition CONFIGURATIONS :: "(str \<times> (ConfigManager \<Rightarrow> plugin_configuration)) list" where
  "CONFIGURATIONS =
     [(lit ''ygopro::plugin::bo'', bo_configuration),
      (lit ''ygopro::plugin::preload_script'', preload_configuration),
      (lit ''ygopro::plugin::replay'', replay_configuration),
      (lit ''ygopro::plugin::terminate'', terminate_configuration),
      (lit ''ygopro::plugin::time_backed'', time_backed_configuration),
      (lit ''ygopro::plugin::time_compensator'', time_compensator_configuration)]"

definition DEFAULT_ENABLED_PLUGINS :: "str list" where
  "DEFAULT_ENABLED_PLUGINS =
     [lit ''ygopro::ygopro_handlers'', lit ''ygopro::ygocore_handlers'',
      lit ''ygopro::single_duel::ygopro_handlers'', lit ''ygopro::single_duel::ygocore_handlers'',
      lit ''ygopro::tag_duel::ygopro_handlers'', lit ''ygopro::tag_duel::ygocore_handlers'',
      lit ''ygopro::plugin::reconnect'', lit ''ygopro::plugin::time_backed'', lit ''ygopro::plugin::time_compensator'',
      lit ''ygopro::plugin::preload_script'', lit ''ygopro::plugin::time_limit'', lit ''ygopro::plugin::terminate'',
      lit ''ygopro::plugin::version_check'', lit ''ygopro::plugin::soumatou'', lit ''ygopro::plugin::replay'']"

section \<open>The configuration of a room\<close>

record Configuration =
  cf_no_mask :: bool
  cf_seed_generator :: "(u8 \<Rightarrow> DuelSeed) option"
  cf_enable_plugins :: "str list"
  cf_configurations :: "(str, plugin_configuration) hmap"

definition insert_configuration :: "plugin_configuration \<Rightarrow> Configuration \<Rightarrow> Configuration" where
  "insert_configuration v c = c \<lparr> cf_configurations := hmap_insert (configured_plugin v) v (cf_configurations c) \<rparr>"

definition admit :: "str \<Rightarrow> Configuration \<Rightarrow> Configuration" where
  "admit plugin c = c \<lparr> cf_enable_plugins := List.insert plugin (cf_enable_plugins c) \<rparr>"

definition enable_plugin :: "ConfigManager \<Rightarrow> str \<Rightarrow> Configuration \<Rightarrow> Configuration" where
  "enable_plugin cfg plugin c =
     admit plugin (fold (\<lambda>(name, init) c. if name = plugin then insert_configuration (init cfg) c else c) CONFIGURATIONS c)"

definition enable_plugin_with_configuration :: "str \<Rightarrow> plugin_configuration \<Rightarrow> Configuration \<Rightarrow> Configuration" where
  "enable_plugin_with_configuration plugin v c = insert_configuration v (admit plugin c)"

text \<open>The type that is asked for is the key.\<close>

definition enable_plugin_with_inited ::
  "ConfigManager \<Rightarrow> str \<Rightarrow> str \<Rightarrow> (plugin_configuration \<Rightarrow> plugin_configuration) \<Rightarrow> Configuration \<Rightarrow> Configuration" where
  "enable_plugin_with_inited cfg plugin key change c =
     (let c' = (if plugin \<in> set (cf_enable_plugins c) then c else enable_plugin cfg plugin c) in
      case hmap_get (cf_configurations c') key of
        None \<Rightarrow> c'
      | Some v \<Rightarrow> c' \<lparr> cf_configurations := hmap_insert key (change v) (cf_configurations c') \<rparr>)"

definition disable_plugin :: "str \<Rightarrow> str \<Rightarrow> Configuration \<Rightarrow> plugin_configuration option \<times> Configuration" where
  "disable_plugin plugin key c =
     (hmap_get (cf_configurations c) key,
      c \<lparr> cf_enable_plugins := removeAll plugin (cf_enable_plugins c),
          cf_configurations := AList.delete key (cf_configurations c) \<rparr>)"

definition Configuration_default :: "ConfigManager \<Rightarrow> Configuration" where
  "Configuration_default cfg =
     fold (enable_plugin cfg) DEFAULT_ENABLED_PLUGINS
       \<lparr> cf_no_mask = False, cf_seed_generator = None, cf_enable_plugins = [], cf_configurations = [] \<rparr>"

definition Configuration_seed :: "Configuration \<Rightarrow> u8 \<Rightarrow> DuelSeed" where
  "Configuration_seed c match_count = (case cf_seed_generator c of Some g \<Rightarrow> g match_count | None \<Rightarrow> Seed_None)"

section \<open>The room of a command line\<close>

definition host_replay :: "u32 \<Rightarrow> plugin_configuration" where
  "host_replay mode = Config_Replay
     \<lparr> rcf_mode = mode, rcf_save_path = lit ''replays'', rcf_format = Format_Ygopro,
       rcf_file_template = lit ''{time} {players} Duel {duel}'', rcf_time_format = lit ''%Y-%m-%d %H-%M-%S'',
       rcf_machine = 0 \<rparr>"

definition host_configuration :: "ConfigManager \<Rightarrow> u32 \<Rightarrow> u32 list list \<Rightarrow> Configuration" where
  "host_configuration cfg mode seeds =
     enable_plugin_with_configuration (lit ''ygopro::plugin::replay'') (host_replay mode)
       (Configuration_default cfg \<lparr> cf_seed_generator := Some (pre_seed seeds) \<rparr>)"

text \<open>What a room takes from its configuration; a plugin that has none is not asked. The numbers for a duel
  without a seed come from the crate rand.\<close>

definition configured :: "(u32 list \<Rightarrow> 'c Core) \<Rightarrow> (u8 \<Rightarrow> u32 list) \<Rightarrow> Configuration \<Rightarrow> 'c env \<Rightarrow> 'c env" where
  "configured core_of rand c env =
     fold (\<lambda>(k, v) env. case v of
         Config_Bo n \<Rightarrow> env \<lparr> env_override_best_of := n \<rparr>
       | Config_PreloadScript s \<Rightarrow> env \<lparr> env_preloaded_scripts := s \<rparr>
       | Config_Replay r \<Rightarrow> env \<lparr> env_replay_mode := rcf_mode r \<rparr>
       | Config_Terminate t e \<Rightarrow> env \<lparr> env_terminate_when := t, env_terminate_when_match_end := e \<rparr>
       | Config_TimeBacked t \<Rightarrow> env \<lparr> env_time_backed := t \<rparr>
       | Config_TimeCompensator t \<Rightarrow> env \<lparr> env_time_compensator := t \<rparr>)
       (cf_configurations c)
       (env \<lparr> env_plugins := cf_enable_plugins c,
              env_new_core := (\<lambda>i. core_of (seed_array (rand i) (Configuration_seed c i))) \<rparr>)"

definition build_duel_host ::
  "(u32 list \<Rightarrow> 'c Core) \<Rightarrow> (u8 \<Rightarrow> u32 list) \<Rightarrow> 'c env \<Rightarrow> ConfigManager \<Rightarrow> ServerArguments \<Rightarrow> 'c Hosted" where
  "build_duel_host core_of rand env cfg a =
     (let c = host_configuration cfg (sa_replay_mode a) (sa_seeds a)
      in DuelHost_new (configured core_of rand c env) (sa_host_info a) (cf_no_mask c))"

section \<open>Lemmas\<close>

lemma default_enabled: "cf_enable_plugins (Configuration_default cfg) = rev DEFAULT_ENABLED_PLUGINS"
  by (simp add: Configuration_default_def DEFAULT_ENABLED_PLUGINS_def enable_plugin_def CONFIGURATIONS_def admit_def
      insert_configuration_def List.insert_def)

lemma default_configurations:
  "cf_configurations (Configuration_default cfg) =
     map (\<lambda>v. (configured_plugin v, v))
       [time_backed_configuration cfg, time_compensator_configuration cfg, preload_configuration cfg,
        terminate_configuration cfg, replay_configuration cfg]"
  by (simp add: Configuration_default_def DEFAULT_ENABLED_PLUGINS_def enable_plugin_def CONFIGURATIONS_def admit_def
      insert_configuration_def time_backed_configuration_def time_compensator_configuration_def preload_configuration_def
      terminate_configuration_def replay_configuration_def Let_def)

lemma host_enabled: "set (cf_enable_plugins (host_configuration cfg mode seeds)) = set DEFAULT_ENABLED_PLUGINS"
  by (auto simp: host_configuration_def enable_plugin_with_configuration_def insert_configuration_def admit_def
      default_enabled DEFAULT_ENABLED_PLUGINS_def simp del: lit_simps)

lemma host_configurations:
  "cf_configurations (host_configuration cfg mode seeds) =
     map (\<lambda>v. (configured_plugin v, v))
       [time_backed_configuration cfg, time_compensator_configuration cfg, preload_configuration cfg,
        terminate_configuration cfg, host_replay mode]"
  by (simp add: host_configuration_def enable_plugin_with_configuration_def insert_configuration_def admit_def
      default_configurations host_replay_def time_backed_configuration_def time_compensator_configuration_def
      preload_configuration_def terminate_configuration_def replay_configuration_def Let_def)

lemma host_seed: "Configuration_seed (host_configuration cfg mode seeds) i = pre_seed seeds i"
  by (simp add: host_configuration_def enable_plugin_with_configuration_def insert_configuration_def admit_def
      Configuration_seed_def)

lemma host_masks: "cf_no_mask (host_configuration cfg mode seeds) = False"
  by (simp add: host_configuration_def enable_plugin_with_configuration_def Configuration_default_def
      DEFAULT_ENABLED_PLUGINS_def enable_plugin_def CONFIGURATIONS_def insert_configuration_def admit_def)

text \<open>What the tables say of a key: the environment, else the file.\<close>

definition told :: "(str \<Rightarrow> str option) \<Rightarrow> (str \<times> str) list \<Rightarrow> str \<Rightarrow> str option" where
  "told text_of vars key =
     or_else (last_value (List.map_filter env_entry vars) key)
       (Option.bind (text_of (config_path vars)) (\<lambda>content. last_value (List.map_filter config_line (lines content)) key))"

definition told_or :: "(str \<Rightarrow> str option) \<Rightarrow> (str \<times> str) list \<Rightarrow> string \<Rightarrow> (str \<Rightarrow> 'a option) \<Rightarrow> 'a \<Rightarrow> 'a" where
  "told_or text_of vars key parse d = unwrap_or d (Option.bind (told text_of vars (lit key)) parse)"

lemma setting_told:
  "setting (config_init text_of vars) (lit plugin) (lit field) parse d =
     told_or text_of vars (plugin @ ''_'' @ field) parse d"
proof -
  have "lit plugin @ lit ''_'' @ lit field = lit (plugin @ ''_'' @ field)" by (simp add: lit_def)
  then show ?thesis
    by (simp add: setting_def told_or_def told_def config_init_get del: lit_simps split: option.split)
qed


end
