(* ===== verification/Forge.thy ===== *)
theory Forge
  imports ReplayPlugin Managers
begin

text \<open>
  Replays that hold the messages of a duel: their file format (the module forge of data/replay.rs), the
  translation between the messages of the server and theirs (the module forge of message/utils.rs and the
  chat of game\_message.rs), the host that shows one (the module forge of replay.rs), and what the replay
  plugin saves (plugin/replay.rs). The decoder of names is the parameter dec.
\<close>

section \<open>The file\<close>

text \<open>A record is the type of a message and the rest of its bytes.\<close>

type_synonym forge_record = "u8 \<times> bytes"

definition wr_record :: "forge_record writer" where
  "wr_record = wr_pair wr_u8 (wr_vec32 wr_u8)"

definition rd_record :: "forge_record reader" where
  "rd_record = rd_pair rd_u8 (rd_vec32 rd_u8)"

definition record_of :: "lzma_crate \<Rightarrow> gm_Message \<Rightarrow> forge_record option" where
  "record_of z m = (case wr_gm z m of None \<Rightarrow> None | Some [] \<Rightarrow> None | Some (t # payload) \<Rightarrow> Some (t, payload))"

fun records_of :: "lzma_crate \<Rightarrow> gm_Message list \<Rightarrow> forge_record list option" where
    "records_of z [] = Some []"
  | "records_of z (m # ms) =
       (case record_of z m of
          None \<Rightarrow> None
        | Some rec \<Rightarrow> map_option ((#) rec) (records_of z ms))"

definition wr_forge :: "lzma_crate \<Rightarrow> gm_Message list \<Rightarrow> bytes option" where
  "wr_forge z ms = map_option (wr_vec wr_record) (records_of z ms)"

fun messages_of :: "lzma_crate \<Rightarrow> forge_record list \<Rightarrow> gm_Message list option res" where
    "messages_of z [] = Inr (Some [])"
  | "messages_of z ((t, payload) # rs) =
       and_then (rd_gm z (t # payload)) (\<lambda>r. case r of
          None \<Rightarrow> Inr None
        | Some (m, _) \<Rightarrow> and_then (messages_of z rs) (\<lambda>q. Inr (map_option ((#) m) q)))"

text \<open>A record that is cut off ends the file.\<close>

definition rd_forge :: "lzma_crate \<Rightarrow> bytes \<Rightarrow> gm_Message list option res" where
  "rd_forge z bs = (case rd_until_eof rd_record bs of None \<Rightarrow> Inr None | Some (rs, _) \<Rightarrow> messages_of z rs)"

section \<open>Chat\<close>

definition CHAT_COLOR_PREFIX :: str where
  "CHAT_COLOR_PREFIX = lit ''[888888]''"

definition CHAT_COLOR_SUFFIX :: str where
  "CHAT_COLOR_SUFFIX = lit ''[-]''"

fun speaker :: "decoder \<Rightarrow> gm_SibylName \<Rightarrow> ChatSource \<Rightarrow> str" where
    "speaker dec n (ChatSource_Player (Player i)) =
       (if i = 0 then FixedLengthString_deref dec (gm_SibylName_host_name n)
        else if i = 1 then FixedLengthString_deref dec (gm_SibylName_client_name n)
        else if i = 2 then FixedLengthString_deref dec (gm_SibylName_host_tag_name n)
        else if i = 3 then FixedLengthString_deref dec (gm_SibylName_client_tag_name n)
        else lit ''[---]'')"
  | "speaker dec n (ChatSource_System c) = lit ''[System]''"
  | "speaker dec n _ = lit ''[---]''"

definition speaking_player :: "decoder \<Rightarrow> gm_SibylName \<Rightarrow> str \<Rightarrow> ChatSource" where
  "speaking_player dec n s =
     (if FixedLengthString_deref dec (gm_SibylName_host_name n) = s then ChatSource_Player (Player 0)
      else if FixedLengthString_deref dec (gm_SibylName_client_name n) = s then ChatSource_Player (Player 1)
      else if FixedLengthString_deref dec (gm_SibylName_host_tag_name n) = s then ChatSource_Player (Player 2)
      else if FixedLengthString_deref dec (gm_SibylName_client_tag_name n) = s then ChatSource_Player (Player 3)
      else if s = lit ''[System]'' then ChatSource_System Color_System
      else ChatSource_Player (Observer 255))"

definition sibyl_of_chat :: "decoder \<Rightarrow> gm_SibylName \<Rightarrow> ChatSource \<Rightarrow> U16String \<Rightarrow> gm_SibylChat" where
  "sibyl_of_chat dec n s msg =
     \<lparr> gm_SibylChat_msg = U16String_new
         (CHAT_COLOR_PREFIX @ speaker dec n s @ lit '':'' @ U16String_deref dec msg @ CHAT_COLOR_SUFFIX) \<rparr>"

definition strip_suffix :: "str \<Rightarrow> str \<Rightarrow> str option" where
  "strip_suffix suf s = map_option rev (strip_prefix (rev suf) (rev s))"

definition chat_of_sibyl :: "decoder \<Rightarrow> gm_SibylName option \<Rightarrow> gm_SibylChat \<Rightarrow> stoc_Message" where
  "chat_of_sibyl dec name c =
     (let whole = U16String_deref dec (gm_SibylChat_msg c);
          msg = (case Option.bind (strip_prefix CHAT_COLOR_PREFIX whole) (strip_suffix CHAT_COLOR_SUFFIX) of
                   None \<Rightarrow> whole | Some s \<Rightarrow> s)
      in case (name, split_once (of_char CHR '':'') msg) of
           (Some n, Some (s, said)) \<Rightarrow> Stoc_Chat (speaking_player dec n s) (U16String_new said)
         | _ \<Rightarrow> Stoc_Chat (ChatSource_System Color_Babyblue) (U16String_new msg))"

section \<open>From the messages of the server\<close>

definition NO_TAG :: str where
  "NO_TAG = lit ''---''"

definition nameless :: "gm_SibylName res" where
  "nameless =
     and_then (FixedLengthString_new 50 NO_TAG) (\<lambda>t. Inr
       \<lparr> gm_SibylName_host_name = FixedLengthString_allocate 50, gm_SibylName_host_tag_name = t,
         gm_SibylName_host_current_name = FixedLengthString_allocate 50,
         gm_SibylName_client_name = FixedLengthString_allocate 50, gm_SibylName_client_tag_name = t,
         gm_SibylName_client_current_name = FixedLengthString_allocate 50,
         gm_SibylName_master_rule = MasterRule_MasterRule2020 \<rparr>)"

fun note_name :: "decoder \<Rightarrow> stoc_Message \<Rightarrow> gm_SibylName \<Rightarrow> gm_SibylName res" where
    "note_name dec (Stoc_JoinGame info) n = Inr (n \<lparr> gm_SibylName_master_rule := hi_duel_rule info \<rparr>)"
  | "note_name dec (Stoc_HsPlayerEnter name (Player i)) n =
       (if 3 < i then Inr n
        else and_then (FixedLengthString_new 50 (FixedLengthString_deref dec name)) (\<lambda>s. Inr
          (if i = 0 then n \<lparr> gm_SibylName_host_name := s, gm_SibylName_host_current_name := s \<rparr>
           else if i = 1 then n \<lparr> gm_SibylName_client_name := s, gm_SibylName_client_current_name := s \<rparr>
           else if i = 2 then n \<lparr> gm_SibylName_host_tag_name := s \<rparr>
           else n \<lparr> gm_SibylName_client_tag_name := s \<rparr>)))"
  | "note_name dec m n = Inr n"

fun note_names :: "decoder \<Rightarrow> stoc_Message list \<Rightarrow> gm_SibylName \<Rightarrow> gm_SibylName res" where
    "note_names dec [] n = Inr n"
  | "note_names dec (m # ms) n = and_then (note_name dec m n) (note_names dec ms)"

text \<open>The messages from the last start of a duel on, or all of them.\<close>

definition since_start :: "stoc_Message list \<Rightarrow> stoc_Message list" where
  "since_start ms =
     (case filter (\<lambda>i. ms ! i = Stoc_DuelStart) [0..<length ms] of [] \<Rightarrow> ms | i # is \<Rightarrow> drop (last (i # is)) ms)"

fun forge_message :: "decoder \<Rightarrow> gm_SibylName \<Rightarrow> stoc_Message \<Rightarrow> gm_Message option" where
    "forge_message dec n (Stoc_GameMessage g) = Some g"
  | "forge_message dec n (Stoc_Chat s msg) = Some (GM_SibylChat (sibyl_of_chat dec n s msg))"
  | "forge_message dec n (Stoc_Replay r) = Some (GM_SibylReplay \<lparr> gm_SibylReplay_replay = r \<rparr>)"
  | "forge_message dec n _ = None"

definition stoc_to_forge :: "decoder \<Rightarrow> stoc_Message list \<Rightarrow> gm_Message list res" where
  "stoc_to_forge dec ms =
     and_then nameless (\<lambda>n0. and_then (note_names dec ms n0) (\<lambda>n. Inr
       (GM_SibylName n # List.map_filter (forge_message dec n) (since_start ms))))"

section \<open>To the messages of the server\<close>

definition has_tag :: "decoder \<Rightarrow> FixedLengthString \<Rightarrow> bool" where
  "has_tag dec name \<longleftrightarrow> \<not> FixedLengthString_is_empty name \<and> FixedLengthString_deref dec name \<noteq> NO_TAG"

definition entering :: "decoder \<Rightarrow> FixedLengthString \<Rightarrow> u8 \<Rightarrow> stoc_Message res" where
  "entering dec name i =
     and_then (FixedLengthString_new 20 (FixedLengthString_deref dec name)) (\<lambda>s. Inr (Stoc_HsPlayerEnter s (Player i)))"

definition entering_tag :: "decoder \<Rightarrow> FixedLengthString \<Rightarrow> u8 \<Rightarrow> stoc_Message list res" where
  "entering_tag dec name i =
     (if has_tag dec name then and_then (entering dec name i) (\<lambda>m. Inr [m]) else Inr [])"

fun stoc_messages :: "decoder \<Rightarrow> gm_SibylName option \<Rightarrow> gm_Message \<Rightarrow> stoc_Message list res" where
    "stoc_messages dec name (GM_GroupD (GMD_SibylName n)) =
       and_then (entering dec (gm_SibylName_host_name n) 0) (\<lambda>e0.
       and_then (entering dec (gm_SibylName_client_name n) 1) (\<lambda>e1.
       and_then (entering_tag dec (gm_SibylName_host_tag_name n) 2) (\<lambda>e2.
       and_then (entering_tag dec (gm_SibylName_client_tag_name n) 3) (\<lambda>e3. Inr
         ([Stoc_JoinGame (HostInfo_default \<lparr> hi_duel_rule := gm_SibylName_master_rule n \<rparr>), e0, e1] @ e2 @ e3 @
          [Stoc_DuelStart])))))"
  | "stoc_messages dec name (GM_GroupD (GMD_SibylChat c)) = Inr [chat_of_sibyl dec name c]"
  | "stoc_messages dec name (GM_GroupD (GMD_SibylReplay r)) = Inr [Stoc_Replay (gm_SibylReplay_replay r)]"
  | "stoc_messages dec name m = Inr [Stoc_GameMessage m]"

fun stoc_of_all :: "decoder \<Rightarrow> gm_SibylName option \<Rightarrow> gm_Message list \<Rightarrow> stoc_Message list res" where
    "stoc_of_all dec name [] = Inr []"
  | "stoc_of_all dec name (m # ms) =
       and_then (stoc_messages dec name m) (\<lambda>a. and_then (stoc_of_all dec name ms) (\<lambda>b. Inr (a @ b)))"

fun recorded_names :: "gm_Message list \<Rightarrow> gm_SibylName option" where
    "recorded_names [] = None"
  | "recorded_names (GM_GroupD (GMD_SibylName n) # ms) = Some n"
  | "recorded_names (m # ms) = recorded_names ms"

definition forge_to_stoc :: "decoder \<Rightarrow> gm_Message list \<Rightarrow> stoc_Message list res" where
  "forge_to_stoc dec ms = stoc_of_all dec (recorded_names ms) ms"

section \<open>Showing and saving\<close>

text \<open>What an observer of a replay is shown: no prompts, and a change of type after the first message.
  Inserting it panics when there is no first message.\<close>

definition play_forge :: "decoder \<Rightarrow> gm_Message list \<Rightarrow> stoc_Message list res" where
  "play_forge dec replay =
     and_then (forge_to_stoc dec (filter (\<lambda>m. gm_waiting_for m = None) replay)) (\<lambda>ms.
       if ms = [] then Inl IndexOutOfBounds
       else Inr (take 1 ms @ [Stoc_TypeChange (Observer 255) False] @ drop 1 ms))"

definition create_replay_forge :: "decoder \<Rightarrow> bool \<Rightarrow> ('c, 'a) Duel_scheme \<Rightarrow> gm_Message list option res" where
  "create_replay_forge dec masked d =
     (let ms = (if masked then s_masked_messages (d_sender d) else s_messages (d_sender d)) in
      if Stoc_DuelStart \<notin> set ms then Inr None else and_then (stoc_to_forge dec ms) (\<lambda>f. Inr (Some f)))"

fun is_sibyl_chat :: "gm_Message \<Rightarrow> bool" where
    "is_sibyl_chat (GM_GroupD (GMD_SibylChat c)) \<longleftrightarrow> True"
  | "is_sibyl_chat m \<longleftrightarrow> False"

definition generate_replay_binary ::
  "'c env \<Rightarrow> Format \<Rightarrow> bool \<Rightarrow> ('c, 'a) Duel_scheme \<Rightarrow> Replay option \<Rightarrow> (str \<times> bytes) option res" where
  "generate_replay_binary env format include_chat d replay =
     (case format of
        Format_Ygopro \<Rightarrow> Inr (map_option (\<lambda>r. (lit ''yrp'', wr_Replay (fst (env_lzma env)) r)) replay)
      | Format_YgoproForge \<Rightarrow>
          and_then (create_replay_forge (env_decode env) False d) (\<lambda>f. Inr (case f of
             None \<Rightarrow> None
           | Some ms \<Rightarrow>
               let all = ms @ (case replay of None \<Rightarrow> [] | Some r \<Rightarrow> [GM_SibylReplay \<lparr> gm_SibylReplay_replay = r \<rparr>]);
                   kept = (if include_chat then all else filter (\<lambda>m. \<not> is_sibyl_chat m) all)
               in map_option (\<lambda>bs. (lit ''yrp3d'', bs)) (wr_forge (env_lzma env) kept)))
      | Format_Srvpro \<Rightarrow>
          and_then (srvpro_binary (env_lzma env) include_chat (s_messages (d_sender d))) (\<lambda>b.
            Inr (map_option (\<lambda>bs. (lit ''bin'', bs)) b)))"

text \<open>The name of a saved file. What is filled in may hold the next pattern: the replacements run one
  after the other. The characters that separate folders are replaced last.\<close>

function replace_str :: "str \<Rightarrow> str \<Rightarrow> str \<Rightarrow> str" where
  "replace_str pat by s =
     (case s of
        [] \<Rightarrow> []
      | c # r \<Rightarrow> (case strip_prefix pat s of
          Some rest \<Rightarrow> if length rest < length s then by @ replace_str pat by rest else c # replace_str pat by r
        | None \<Rightarrow> c # replace_str pat by r))"
  by pat_completeness auto
termination by (relation "measure (\<lambda>(pat, by, s). length s)") auto

declare replace_str.simps [simp del]

definition unsafe_chars :: "nat list" where
  "unsafe_chars = [47, 92, 63, 42]"

definition render_replay_name :: "'c env \<Rightarrow> ('c, 'a) Duel_scheme \<Rightarrow> str \<Rightarrow> str \<Rightarrow> str \<Rightarrow> str" where
  "render_replay_name env d template time uid =
     (let name = replace_str (lit ''{id}'') uid
                   (replace_str (lit ''{duel}'') (decimal (unat (d_duel_count d)))
                     (replace_str (lit ''{players}'') (render_players_string env d)
                       (replace_str (lit ''{time}'') time template)))
      in map (\<lambda>c. if c \<in> set unsafe_chars then 95 else c) name)"

text \<open>Where a replay is saved, if it is.\<close>

definition saved_path :: "u32 \<Rightarrow> str \<Rightarrow> str \<Rightarrow> str \<Rightarrow> str \<Rightarrow> str option" where
  "saved_path mode save_path template name extension =
     (if contains mode (ReplayMode_bits RM_SaveInServer) \<and> template \<noteq> []
      then Some (path_join save_path (name @ lit ''.'' @ extension)) else None)"

section \<open>The file is read back\<close>

interpretation forge_record: codec wr_record rd_record "valid_pair always (\<lambda>xs. length xs < 2 ^ 32 \<and> (\<forall>x \<in> set xs. always x))"
  unfolding wr_record_def rd_record_def
  by (intro codec_pair codec_vec32) unfold_locales

lemma records_read_back:
  assumes "\<forall>r \<in> set rs. length (snd r) < 2 ^ 32" and "length rs \<le> n"
  shows "rd_eof rd_record n (wr_vec wr_record rs) = rs"
  using assms
proof (induction rs arbitrary: n)
  case Nil
  then show ?case by (cases n) (simp_all add: rd_record_def rd_pair_def rd_bind_def)
next
  case (Cons r rs)
  then obtain m where n: "n = Suc m" by (cases n) auto
  have "rd_record (wr_record r @ wr_vec wr_record rs) = Some (r, wr_vec wr_record rs)"
    using Cons.prems(1) by (intro forge_record.rd_wr) (simp add: valid_pair_def case_prod_beta)
  with Cons n show ?case by simp
qed

lemma wr_record_long: "length rs \<le> length (wr_vec wr_record rs)"
proof (induction rs)
  case (Cons r rs)
  then show ?case by (cases r) (simp add: wr_record_def wr_u8_def)
qed simp

lemma rd_written_records:
  "\<forall>r \<in> set rs. length (snd r) < 2 ^ 32 \<Longrightarrow> rd_until_eof rd_record (wr_vec wr_record rs) = Some (rs, [])"
  by (simp add: rd_until_eof_def records_read_back wr_record_long)

lemma messages_of_records:
  assumes "records_of z ms = Some rs" and "\<forall>m \<in> set ms. valid_gm z m"
  shows "messages_of z rs = Inr (Some ms)"
  using assms
proof (induction ms arbitrary: rs)
  case (Cons m ms)
  then obtain t payload rs' where rs: "rs = (t, payload) # rs'" and rest: "records_of z ms = Some rs'"
    and m: "wr_gm z m = Some (t # payload)"
    by (auto simp: record_of_def split: option.splits list.splits)
  have "rd_gm z (t # payload) = Inr (Some (m, []))" using wr_gm_written [OF _ m] Cons.prems(2) by simp
  then show ?case using Cons.IH [OF rest] Cons.prems(2) by (simp add: rs)
qed simp

lemma records_short:
  assumes "records_of z ms = Some rs" and "\<forall>m \<in> set ms. \<forall>bs. wr_gm z m = Some bs \<longrightarrow> length bs \<le> 2 ^ 32"
  shows "\<forall>r \<in> set rs. length (snd r) < 2 ^ 32"
  using assms
  by (induction ms arbitrary: rs) (fastforce simp: record_of_def split: option.splits list.splits)+


definition sample_lp :: gm_Message where
  "sample_lp = GM_LPUpdate \<lparr> gm_LPUpdate_player = SecondAttackPlayer, gm_LPUpdate_lp = 8000 \<rparr>"

definition sample_lzma :: lzma_crate where
  "sample_lzma = ((\<lambda>b. b), (\<lambda>n b. Some b))"

lemma wr_sample_lp: "wr_gm sample_lzma sample_lp = Some [94, 1, 64, 31, 0, 0]"
  by (simp add: sample_lp_def sample_lzma_def wr_gm_LPUpdate_def wr_enum_def wr_u8_def wr_u32_def)


section \<open>What is shown of a duel\<close>

fun engine_message :: "gm_Message \<Rightarrow> bool" where
    "engine_message (GM_GroupD (GMD_SibylName n)) \<longleftrightarrow> False"
  | "engine_message (GM_GroupD (GMD_SibylChat c)) \<longleftrightarrow> False"
  | "engine_message (GM_GroupD (GMD_SibylReplay r)) \<longleftrightarrow> False"
  | "engine_message m \<longleftrightarrow> True"

fun game_message :: "stoc_Message \<Rightarrow> gm_Message option" where
    "game_message (Stoc_GameMessage g) = Some g"
  | "game_message m = None"

definition games :: "stoc_Message list \<Rightarrow> gm_Message list" where
  "games = List.map_filter game_message"

lemma games_simps [simp]:
  "games [] = []" "games (m # ms) = (case game_message m of None \<Rightarrow> games ms | Some g \<Rightarrow> g # games ms)"
  "games (xs @ ys) = games xs @ games ys"
  by (auto simp: games_def List.map_filter_def split: option.split)

lemma games_chat [simp]: "game_message (chat_of_sibyl dec n c) = None"
  by (auto simp: chat_of_sibyl_def Let_def split: option.split prod.split)

lemma games_entering [simp]: "entering dec name i = Inr m \<Longrightarrow> game_message m = None"
  by (auto simp: entering_def)

lemma games_entering_tag [simp]: "entering_tag dec name i = Inr ms \<Longrightarrow> games ms = []"
  by (auto simp: entering_tag_def split: if_splits)

lemma games_stoc_messages: "stoc_messages dec name m = Inr a \<Longrightarrow> games a = (if engine_message m then [m] else [])"
  by (induction dec name m rule: stoc_messages.induct) auto

lemma games_stoc_of_all: "stoc_of_all dec name ms = Inr a \<Longrightarrow> games a = filter engine_message ms"
  by (induction ms arbitrary: a) (auto dest: games_stoc_messages)

lemma forge_engine_messages:
  "\<forall>g \<in> set (games ms). engine_message g \<Longrightarrow>
   filter engine_message (List.map_filter (forge_message dec n) ms) = games ms"
proof (induction ms)
  case (Cons m ms)
  then show ?case by (cases m) (auto simp: List.map_filter_simps)
qed (simp add: List.map_filter_simps)

lemma games_play:
  assumes "play_forge dec replay = Inr shown"
  shows "games shown = filter (\<lambda>m. engine_message m \<and> gm_waiting_for m = None) replay"
proof -
  from assms obtain ms where ms: "forge_to_stoc dec (filter (\<lambda>m. gm_waiting_for m = None) replay) = Inr ms"
    and shown: "shown = take 1 ms @ [Stoc_TypeChange (Observer 255) False] @ drop 1 ms"
    by (auto simp: play_forge_def split: if_splits)
  have "games shown = games (take 1 ms @ drop 1 ms)" unfolding shown games_simps by simp
  also have "\<dots> = filter engine_message (filter (\<lambda>m. gm_waiting_for m = None) replay)"
    using games_stoc_of_all [OF ms [unfolded forge_to_stoc_def]] by simp
  finally show ?thesis by (simp add: conj_commute)
qed

text \<open>C39: A duel that is recorded and shown again shows an observer exactly the messages of the engine since
  the last start of a duel, in their order, without the prompts.\<close>

theorem shown_duel_is_the_recorded:
  assumes "stoc_to_forge dec ms = Inr replay" and "play_forge dec replay = Inr shown"
    and "\<forall>g \<in> set (games (since_start ms)). engine_message g"
  shows "games shown = filter (\<lambda>g. gm_waiting_for g = None) (games (since_start ms))"
proof -
  from assms(1) obtain n where replay: "replay = GM_SibylName n # List.map_filter (forge_message dec n) (since_start ms)"
    by (auto simp: stoc_to_forge_def)
  have "games shown = filter (\<lambda>m. gm_waiting_for m = None) (filter engine_message (List.map_filter (forge_message dec n) (since_start ms)))"
    unfolding games_play [OF assms(2)] replay by (simp add: conj_commute)
  then show ?thesis unfolding forge_engine_messages [OF assms(3)] .
qed

theorem shown_duel_is_the_recorded_witness:
  "\<exists>replay shown. stoc_to_forge (\<lambda>bs. Some []) [Stoc_DuelStart, Stoc_GameMessage sample_lp] = Inr replay \<and>
     play_forge (\<lambda>bs. Some []) replay = Inr shown \<and> games shown = [sample_lp]"
proof -
  let ?dec = "\<lambda>bs. Some [] :: str option" and ?ms = "[Stoc_DuelStart, Stoc_GameMessage sample_lp]"
  have since: "since_start ?ms = ?ms" by (simp add: since_start_def)
  have wait: "gm_waiting_for sample_lp = None" by (simp add: sample_lp_def)
  have empty: "entering ?dec (FixedLengthString_allocate 50) i =
      Inr (Stoc_HsPlayerEnter \<lparr> fls_data = replicate 20 0, fls_str = Some [] \<rparr> (Player i))" for i
    by (simp add: entering_def FixedLengthString_deref_def FixedLengthString_allocate_def cast_to_string_def
        FixedLengthString_new_def cast_to_fix_length_array_def encode_utf16_def)
  obtain tag where tag: "FixedLengthString_new 50 NO_TAG = Inr tag" and shows_tag: "fls_str tag = Some NO_TAG"
    by (simp add: FixedLengthString_new_def cast_to_fix_length_array_def NO_TAG_def encode_utf16_def)
  obtain replay where replay: "stoc_to_forge ?dec ?ms = Inr replay"
    by (simp add: stoc_to_forge_def nameless_def tag)
  obtain shown where shown: "play_forge ?dec replay = Inr shown"
    using replay
    by (auto simp: stoc_to_forge_def nameless_def tag since List.map_filter_simps play_forge_def forge_to_stoc_def wait empty
        entering_tag_def has_tag_def FixedLengthString_deref_def shows_tag) (simp add: sample_lp_def)+
  from shown_duel_is_the_recorded [OF replay shown] show ?thesis
    using replay shown by (simp add: since wait) (simp add: sample_lp_def)
qed

text \<open>Two files that stop the task that shows them: one with no message an observer is shown, and one with
  a name that is too long for a player who enters.\<close>

lemma play_nothing: "\<forall>m \<in> set replay. gm_waiting_for m \<noteq> None \<Longrightarrow> play_forge dec replay = Inl IndexOutOfBounds"
  by (simp add: play_forge_def forge_to_stoc_def filter_False)

lemma play_long_name:
  assumes "20 < length (encode_utf16 (FixedLengthString_deref dec (gm_SibylName_host_name n)))"
  shows "play_forge dec (GM_SibylName n # replay) = Inl IndexOutOfBounds"
  using assms
  by (simp add: play_forge_def forge_to_stoc_def entering_def FixedLengthString_new_def cast_to_fix_length_array_def Let_def)

section \<open>Saved files stay in their folder\<close>

lemma saved_name_is_safe: "set (render_replay_name env d template time uid) \<inter> set unsafe_chars = {}"
  by (auto simp: render_replay_name_def Let_def unsafe_chars_def)

end
