(* ===== verification/Wrappers.thy ===== *)
theory Wrappers
  imports RoomHandlers Complex
begin

text \<open>
  How a function becomes a handler (handler.rs and extract.rs of ygopro-handler): its parameters are
  extracted from the bundle, its value is a future that is polled until it is ready, and three wrappers
  erase its type: one behind a service of the crate tower, one asynchronous, one synchronous. The other
  theories use the synchronous one, whose future is always ready. A future may use the bundle while it
  is polled, since extracted references point into it; it may also stay pending forever.
\<close>

section \<open>Extracting parameters\<close>

text \<open>An extractor may change the bundle: a message that is not parsed yet is parsed.\<close>

type_synonym ('b, 'a) from_request = "'b \<Rightarrow> ('a option \<times> 'b) res"

definition from_extra :: "(((('m, 'e) Request), 's, 'r) Bundle, 'e) from_request" where
  "from_extra b = Inr (Some (rq_extra (request b)), b)"

definition from_bundle :: "('b, 'b) from_request" where
  "from_bundle b = Inr (Some b, b)"

definition from_any :: "(('q, 's, 'r) Bundle, 'q) from_request" where
  "from_any b = Inr (Some (request b), b)"

definition from_message :: "((('m, 'e) Request, 's, 'r) Bundle, 'm) from_request" where
  "from_message b = Inr (Some (rq_message (request b)), b)"

definition from_response :: "(('q, 's, 'r) Bundle, 'r) from_request" where
  "from_response b = Inr (Some (response b), b)"

definition from_stop_flag :: "(('q, 's, 'r) Bundle, bool) from_request" where
  "from_stop_flag b = Inr (Some (stop_flag b), b)"

definition from_map :: "('s \<Rightarrow> 'v) \<Rightarrow> (('q, 's, 'r) Bundle, 'v) from_request" where
  "from_map get_map b = Inr (Some (get_map (state b)), b)"

text \<open>A variant of a message: of a request, of a message alone, and of one that is parsed on demand.\<close>

definition from_variant :: "('m \<Rightarrow> 'v option) \<Rightarrow> ((('m, 'e) Request, 's, 'r) Bundle, 'v) from_request" where
  "from_variant variant b = Inr (variant (rq_message (request b)), b)"

definition from_plain_variant :: "('m \<Rightarrow> 'v option) \<Rightarrow> (('m, 's, 'r) Bundle, 'v) from_request" where
  "from_plain_variant variant b = Inr (variant (request b), b)"

type_synonym 'm parser = "bytes \<Rightarrow> ('m \<times> bytes) option res"

definition from_complex_variant ::
  "'m parser \<Rightarrow> ('m \<Rightarrow> 'v option) \<Rightarrow> ((('m Complex, 'e) Request, 's, 'r) Bundle, 'v) from_request" where
  "from_complex_variant rd variant b =
     and_then (Complex_deref rd (rq_message (request b))) (\<lambda>(m, c).
       Inr (variant m, b \<lparr> request := (request b) \<lparr> rq_message := c \<rparr> \<rparr>))"

definition from_plain_complex_variant ::
  "'m parser \<Rightarrow> ('m \<Rightarrow> 'v option) \<Rightarrow> (('m Complex, 's, 'r) Bundle, 'v) from_request" where
  "from_plain_complex_variant rd variant b =
     and_then (Complex_deref rd (request b)) (\<lambda>(m, c). Inr (variant m, b \<lparr> request := c \<rparr>))"

fun game_message_variant :: "(gm_Message \<Rightarrow> 'v option) \<Rightarrow> stoc_Message \<Rightarrow> 'v option" where
    "game_message_variant variant (Stoc_GameMessage g) = variant g"
  | "game_message_variant variant m = None"

definition from_gm_of_stoc ::
  "stoc_Message parser \<Rightarrow> (gm_Message \<Rightarrow> 'v option) \<Rightarrow> (((stoc_Message Complex, 'e) Request, 's, 'r) Bundle, 'v) from_request" where
  "from_gm_of_stoc rd variant = from_complex_variant rd (game_message_variant variant)"

definition from_plain_gm_of_stoc ::
  "stoc_Message parser \<Rightarrow> (gm_Message \<Rightarrow> 'v option) \<Rightarrow> ((stoc_Message Complex, 's, 'r) Bundle, 'v) from_request" where
  "from_plain_gm_of_stoc rd variant = from_plain_complex_variant rd (game_message_variant variant)"

section \<open>Keys\<close>

definition ctos_message_key :: "ctos_Message \<Rightarrow> u8" where
  "ctos_message_key m = ctos_MessageType_into (ctos_type m)"

definition stoc_message_key :: "stoc_Message \<Rightarrow> u8" where
  "stoc_message_key m = stoc_MessageType_into (stoc_type m)"

definition gm_message_key :: "gm_Message \<Rightarrow> u8" where
  "gm_message_key m = gm_type m"

definition request_message_key :: "('m \<Rightarrow> u8) \<Rightarrow> ('m, 'e) Request \<Rightarrow> u8" where
  "request_message_key key q = key (rq_message q)"

section \<open>Futures\<close>

codatatype (dead 'b, 'r) future = Future (poll: "'b \<Rightarrow> ('b \<times> ('r + ('b, 'r) future)) res")

definition ready :: "'r \<Rightarrow> ('b, 'r) future" where
  "ready r = Future (\<lambda>b. Inr (b, Inl r))"

text \<open>A handler extracts its parameters when it is called; when one is missing its future is ready
  with nothing. The two bodies differ in when the function runs.\<close>

type_synonym ('b, 'r) handler_fn = "'b \<Rightarrow> ('b \<times> ('b, 'r option) future) res"

definition with_param :: "('b, 'a) from_request \<Rightarrow> ('a \<Rightarrow> ('b, 'r) handler_fn) \<Rightarrow> ('b, 'r) handler_fn" where
  "with_param ex h b =
     and_then (ex b) (\<lambda>(v, b'). case v of None \<Rightarrow> Inr (b', ready None) | Some x \<Rightarrow> h x b')"

definition sync_body :: "('o \<Rightarrow> 'r) \<Rightarrow> ('b \<Rightarrow> ('b \<times> 'o) res) \<Rightarrow> ('b, 'r) handler_fn" where
  "sync_body into f b = and_then (f b) (\<lambda>(b', out). Inr (b', ready (Some (into out))))"

definition async_body :: "('o \<Rightarrow> 'r) \<Rightarrow> ('b, 'o) future \<Rightarrow> ('b, 'r) handler_fn" where
  "async_body into f b = Inr (b, map_future (\<lambda>out. Some (into out)) f)"

section \<open>The wrappers\<close>

definition finish :: "('r \<Rightarrow> 'r \<Rightarrow> 'r) \<Rightarrow> 'r option \<Rightarrow> ('q, 's, 'r) Bundle \<Rightarrow> ('q, 's, 'r) Bundle" where
  "finish mul out b = (case out of None \<Rightarrow> b | Some r \<Rightarrow> b \<lparr> response := mul (response b) r \<rparr>)"

text \<open>The asynchronous wrapper: a block that calls the handler and awaits its future.\<close>

datatype ('b, 'r) async_state = Async_Start 'b | Async_Await "('b, 'r option) future" 'b | Async_Done

definition async_await ::
  "('r \<Rightarrow> 'r \<Rightarrow> 'r) \<Rightarrow> (('q, 's, 'r) Bundle, 'r option) future \<Rightarrow> ('q, 's, 'r) Bundle
   \<Rightarrow> ((('q, 's, 'r) Bundle, 'r) async_state \<times> ('q, 's, 'r) Bundle option) res" where
  "async_await mul f b =
     and_then (poll f b) (\<lambda>(b', r). Inr (case r of
        Inl out \<Rightarrow> (Async_Done, Some (finish mul out b'))
      | Inr f' \<Rightarrow> (Async_Await f' b', None)))"

fun async_poll ::
  "('r \<Rightarrow> 'r \<Rightarrow> 'r) \<Rightarrow> (('q, 's, 'r) Bundle, 'r) handler_fn \<Rightarrow> (('q, 's, 'r) Bundle, 'r) async_state
   \<Rightarrow> ((('q, 's, 'r) Bundle, 'r) async_state \<times> ('q, 's, 'r) Bundle option) res" where
    "async_poll mul h (Async_Start b) = and_then (h b) (\<lambda>(b', f). async_await mul f b')"
  | "async_poll mul h (Async_Await f b) = async_await mul f b"
  | "async_poll mul h Async_Done = Inl Unreachable"

text \<open>The wrapper of tower: the service calls the handler and boxes the bundle beside the future, and
  takes it out of the box when the future is ready. The crate calls the service at the first poll.\<close>

record ('b, 'r) service_future =
  sf_future :: "('b, 'r option) future"
  sf_bundle :: "'b option"

definition service_call :: "('b, 'r) handler_fn \<Rightarrow> 'b \<Rightarrow> ('b, 'r) service_future res" where
  "service_call h b = and_then (h b) (\<lambda>(b', f). Inr \<lparr> sf_future = f, sf_bundle = Some b' \<rparr>)"

definition service_poll ::
  "('r \<Rightarrow> 'r \<Rightarrow> 'r) \<Rightarrow> (('q, 's, 'r) Bundle, 'r) service_future
   \<Rightarrow> ((('q, 's, 'r) Bundle, 'r) service_future \<times> ('q, 's, 'r) Bundle option) res" where
  "service_poll mul s =
     and_then (unwrap (sf_bundle s)) (\<lambda>b.
     and_then (poll (sf_future s) b) (\<lambda>(b', r). Inr (case r of
        Inl out \<Rightarrow> (s \<lparr> sf_bundle := None \<rparr>, Some (finish mul out b'))
      | Inr f' \<Rightarrow> (s \<lparr> sf_future := f', sf_bundle := Some b' \<rparr>, None))))"

datatype ('b, 'r) tower_state = Tower_Start 'b | Tower_Called "('b, 'r) service_future"

definition tower_await ::
  "('r \<Rightarrow> 'r \<Rightarrow> 'r) \<Rightarrow> (('q, 's, 'r) Bundle, 'r) service_future
   \<Rightarrow> ((('q, 's, 'r) Bundle, 'r) tower_state \<times> ('q, 's, 'r) Bundle option) res" where
  "tower_await mul s = and_then (service_poll mul s) (\<lambda>(s', r). Inr (Tower_Called s', r))"

fun tower_poll ::
  "('r \<Rightarrow> 'r \<Rightarrow> 'r) \<Rightarrow> (('q, 's, 'r) Bundle, 'r) handler_fn \<Rightarrow> (('q, 's, 'r) Bundle, 'r) tower_state
   \<Rightarrow> ((('q, 's, 'r) Bundle, 'r) tower_state \<times> ('q, 's, 'r) Bundle option) res" where
    "tower_poll mul h (Tower_Start b) = and_then (service_call h b) (tower_await mul)"
  | "tower_poll mul h (Tower_Called s) = tower_await mul s"

text \<open>The synchronous wrapper takes the value out of a future that is ready.\<close>

definition into_inner :: "('b, 'r) future \<Rightarrow> 'b \<Rightarrow> ('b \<times> 'r) res" where
  "into_inner f b =
     and_then (poll f b) (\<lambda>(b', r). case r of Inl out \<Rightarrow> Inr (b', out) | Inr _ \<Rightarrow> Inl UnwrapFailed)"

definition sync_call ::
  "('r \<Rightarrow> 'r \<Rightarrow> 'r) \<Rightarrow> (('q, 's, 'r) Bundle, 'r) handler_fn \<Rightarrow> ('q, 's, 'r) Bundle \<Rightarrow> ('q, 's, 'r) Bundle res" where
  "sync_call mul h b =
     and_then (h b) (\<lambda>(b', f). and_then (into_inner f b') (\<lambda>(b'', out). Inr (finish mul out b'')))"

text \<open>The handler of the chains of the rooms.\<close>

definition erased :: "u8 \<Rightarrow> str \<Rightarrow> str \<Rightarrow> (('q, 's, 'r) Bundle, 'r) handler_fn \<Rightarrow> ('q, 's, 'r) Handler" where
  "erased prio name module h =
     \<lparr> h_priority = prio, h_name = name, h_module = module,
       h_run = (\<lambda>b. and_then (h b) (\<lambda>(b', f). into_inner f b')) \<rparr>"

section \<open>Streams of messages\<close>

text \<open>A processor over a stream: each item is turned into a bundle, run through its chain and handed
  on, one after the other.\<close>

definition process_item ::
  "('r \<Rightarrow> 'r \<Rightarrow> 'r) \<Rightarrow> ('k, ('q, 's, 'r) Handler) Processor \<Rightarrow> ('i \<Rightarrow> 'k) \<Rightarrow> ('i \<Rightarrow> 'q)
   \<Rightarrow> ('q \<Rightarrow> ('q, 's, 'r) Bundle) \<Rightarrow> (('q, 's, 'r) Bundle \<Rightarrow> ('q, 's, 'r) Bundle) \<Rightarrow> 'i \<Rightarrow> ('q, 's, 'r) Bundle res" where
  "process_item mul p key into assemble consume item =
     and_then (process_bundle mul p (assemble (into item)) (key item)) (\<lambda>b. Inr (consume b))"

fun process_stream ::
  "('r \<Rightarrow> 'r \<Rightarrow> 'r) \<Rightarrow> ('k, ('q, 's, 'r) Handler) Processor \<Rightarrow> ('i \<Rightarrow> 'k) \<Rightarrow> ('i \<Rightarrow> 'q)
   \<Rightarrow> ('q \<Rightarrow> ('q, 's, 'r) Bundle) \<Rightarrow> (('q, 's, 'r) Bundle \<Rightarrow> ('q, 's, 'r) Bundle) \<Rightarrow> 'i list
   \<Rightarrow> ('q, 's, 'r) Bundle list res" where
    "process_stream mul p key into assemble consume [] = Inr []"
  | "process_stream mul p key into assemble consume (i # is) =
       and_then (process_item mul p key into assemble consume i) (\<lambda>b.
         and_then (process_stream mul p key into assemble consume is) (\<lambda>bs. Inr (b # bs)))"

definition default_bundle :: "'s \<Rightarrow> 'r \<Rightarrow> 'q \<Rightarrow> ('q, 's, 'r) Bundle" where
  "default_bundle state_default response_default q =
     \<lparr> request = q, response = response_default, stop_flag = False, state = state_default \<rparr>"

section \<open>The wrappers agree\<close>

text \<open>Polling a machine up to n times: the bundle, or the state in which it is still pending.\<close>

fun run_polls :: "('m \<Rightarrow> ('m \<times> 'o option) res) \<Rightarrow> nat \<Rightarrow> 'm \<Rightarrow> ('o + 'm) res" where
    "run_polls step 0 s = Inr (Inr s)"
  | "run_polls step (Suc n) s =
       and_then (step s) (\<lambda>(s', r). case r of Some out \<Rightarrow> Inr (Inl out) | None \<Rightarrow> run_polls step n s')"

definition outcome :: "('o + 'm) res \<Rightarrow> 'o option res" where
  "outcome r = and_then r (\<lambda>x. Inr (case x of Inl out \<Rightarrow> Some out | Inr s \<Rightarrow> None))"

lemma outcome_simps [simp]:
  "outcome (Inl p) = Inl p" "outcome (Inr (Inl out)) = Inr (Some out)" "outcome (Inr (Inr s)) = Inr None"
  by (simp_all add: outcome_def)

lemma service_poll_called:
  "service_poll mul \<lparr> sf_future = f, sf_bundle = Some b \<rparr> =
     and_then (poll f b) (\<lambda>(b', r). Inr (case r of
        Inl out \<Rightarrow> (\<lparr> sf_future = f, sf_bundle = None \<rparr>, Some (finish mul out b'))
      | Inr f' \<Rightarrow> (\<lparr> sf_future = f', sf_bundle = Some b' \<rparr>, None)))"
  by (simp add: service_poll_def cong: sum.case_cong)

lemma awaiting_agrees:
  "outcome (run_polls (tower_poll mul h) n (Tower_Called \<lparr> sf_future = f, sf_bundle = Some b \<rparr>)) =
   outcome (run_polls (async_poll mul h) n (Async_Await f b))"
proof (induction n arbitrary: f b)
  case (Suc n)
  show ?case
  proof (cases "poll f b")
    case (Inr x)
    obtain b' r where x: "x = (b', r)" by (cases x)
    show ?thesis
      by (cases r) (simp_all add: tower_await_def async_await_def service_poll_called Inr x Suc.IH)
  qed (simp add: tower_await_def async_await_def service_poll_called)
qed simp

lemma starting_agrees:
  "outcome (run_polls (tower_poll mul h) n (Tower_Start b)) = outcome (run_polls (async_poll mul h) n (Async_Start b))"
proof (cases n)
  case (Suc k)
  show ?thesis
  proof (cases "h b")
    case (Inr x)
    obtain b' f where x: "x = (b', f)" by (cases x)
    show ?thesis using awaiting_agrees [of mul h n f b']
      by (simp add: Suc service_call_def Inr x)
  qed (simp add: Suc service_call_def)
qed simp

definition synchronous :: "('b, 'r) handler_fn \<Rightarrow> bool" where
  "synchronous h \<longleftrightarrow> (\<forall>b b' f. h b = Inr (b', f) \<longrightarrow> (\<exists>out. f = ready out))"

lemma synchronous_sync_body [simp]: "synchronous (sync_body into f)"
  by (auto simp: synchronous_def sync_body_def)

lemma synchronous_with_param: "(\<And>x. synchronous (h x)) \<Longrightarrow> synchronous (with_param ex h)"
  by (fastforce simp: synchronous_def with_param_def split: option.splits)

lemma sync_call_erased: "call mul (erased prio name module h) b = sync_call mul h b"
proof (cases "h b")
  case (Inr x)
  obtain b' f where x: "x = (b', f)" by (cases x)
  show ?thesis
    by (cases "into_inner f b'") (auto simp: call_def erased_def sync_call_def Inr x finish_def split: option.split)
qed (simp add: call_def erased_def sync_call_def)

lemma sync_agrees:
  assumes "synchronous h"
  shows "outcome (run_polls (async_poll mul h) (Suc n) (Async_Start b)) = map_sum id Some (sync_call mul h b)"
proof (cases "h b")
  case (Inr x)
  obtain b' f where x: "x = (b', f)" by (cases x)
  then obtain out where f: "f = ready out" using assms Inr unfolding synchronous_def by blast
  show ?thesis by (simp add: sync_call_def Inr x f async_await_def into_inner_def ready_def)
qed (simp add: sync_call_def)

text \<open>C15: The three wrappers of a handler agree: polled the same number of times, the wrapper of tower and
  the asynchronous wrapper have the same bundle, or are both pending, or panic alike; and a handler whose
  future is ready gives at the first poll what the synchronous wrapper gives, which is what the chains of
  the rooms run.\<close>

theorem wrappers_agree:
  "outcome (run_polls (tower_poll mul h) n (Tower_Start b)) = outcome (run_polls (async_poll mul h) n (Async_Start b)) \<and>
   (synchronous h \<and> 0 < n \<longrightarrow>
      outcome (run_polls (async_poll mul h) n (Async_Start b)) =
        map_sum id Some (call mul (erased prio name module h) b))"
  using starting_agrees sync_agrees [of h mul "n - 1" b] by (cases n) (simp_all add: sync_call_erased del: run_polls.simps)

section \<open>Keys are the first byte\<close>

lemma ctos_key_written: "wr_ctos m = b # bs \<Longrightarrow> ctos_message_key m = b"
  by (cases m) (auto simp: ctos_message_key_def)

lemma stoc_key_written: "wr_stoc z m = Inr (Some (b # bs)) \<Longrightarrow> stoc_message_key m = b"
  by (cases m) (auto simp: stoc_message_key_def)

lemma gm_key_written: "wr_gm z m = Some (b # bs) \<Longrightarrow> gm_message_key m = b"
proof (cases m)
  case (GM_GroupA x)
  then show "wr_gm z m = Some (b # bs) \<Longrightarrow> ?thesis" by (cases x) (auto simp: gm_message_key_def split: if_splits)
next
  case (GM_GroupB x)
  then show "wr_gm z m = Some (b # bs) \<Longrightarrow> ?thesis" by (cases x) (auto simp: gm_message_key_def split: if_splits)
next
  case (GM_GroupC x)
  then show "wr_gm z m = Some (b # bs) \<Longrightarrow> ?thesis" by (cases x) (auto simp: gm_message_key_def split: if_splits)
next
  case (GM_GroupD x)
  then show "wr_gm z m = Some (b # bs) \<Longrightarrow> ?thesis" by (cases x) (auto simp: gm_message_key_def split: if_splits)
qed (auto simp: gm_message_key_def)

text \<open>A message is dispatched to the same handlers whether it is parsed or not, apart from the empty one.\<close>

lemma lazy_key:
  assumes "Complex_from_message (wr_stoc z) m = Inr c" and "cx_data c \<noteq> []"
  shows "Complex_message_flag c = stoc_message_key m"
  using assms stoc_key_written [of z m]
  by (auto simp: Complex_from_message_def Complex_message_flag_def neq_Nil_conv split: option.splits)

section \<open>Witnesses\<close>

definition sample_wrapped :: "((unit, nat, nat) Bundle, nat) handler_fn" where
  "sample_wrapped = with_param from_response (\<lambda>r. sync_body id (\<lambda>b. Inr (b \<lparr> state := state b + r \<rparr>, 5)))"

theorem wrappers_agree_witness:
  "outcome (run_polls (tower_poll (+) sample_wrapped) 2 (Tower_Start (Bundle_new () 1 2))) =
     Inr (Some (Bundle_new () 3 7))"
proof -
  have "synchronous sample_wrapped"
    unfolding sample_wrapped_def by (intro synchronous_with_param synchronous_sync_body)
  then have "outcome (run_polls (tower_poll (+) sample_wrapped) 2 (Tower_Start (Bundle_new () 1 2))) =
      map_sum id Some (call (+) (erased 0 [] [] sample_wrapped) (Bundle_new () 1 2))"
    using wrappers_agree [of "(+)" sample_wrapped 2 "Bundle_new () 1 2" 0 "[]" "[]"] by simp
  also have "\<dots> = Inr (Some (Bundle_new () 3 7))"
    by (simp add: sync_call_erased sync_call_def sample_wrapped_def with_param_def from_response_def sync_body_def
        into_inner_def ready_def finish_def Bundle_new_def)
  finally show ?thesis .
qed

end
