(* ===== verification/Driver.thy ===== *)
theory Driver
  imports Stoc DataManager
begin

text \<open>
  Clients that play a replay to a room (the toolkits): the way into a duel and the answers on demand
  (common/start\_game.rs), the validation of a replay (validate\_replay.rs), the workbench that steps through
  one (tsukuyomi.rs), and the bridge to an external server (room\_provider.rs). The streams a program waits
  on at once are one list of events, each with the player it is for; none as a message is the end of a stream.
\<close>

datatype ReconstructionError =
    Io | Parse | MissingCards "u32 list" | TagReplayNotSupported | EmptyReplay | Retry | DuelDidNotEnd | Disconnected | Timeout

type_synonym 'a attempt = "ReconstructionError + 'a"

fun try_then :: "'a attempt \<Rightarrow> ('a \<Rightarrow> 'b attempt) \<Rightarrow> 'b attempt" where
    "try_then (Inl e) f = Inl e"
  | "try_then (Inr x) f = f x"

section \<open>Into the duel\<close>

fun wait_for :: "stoc_MessageType \<Rightarrow> stoc_Message list \<Rightarrow> stoc_Message list attempt" where
    "wait_for t [] = Inl DuelDidNotEnd"
  | "wait_for t (m # ms) = (if stoc_type m = t then Inr ms else wait_for t ms)"

definition joining :: "u16 \<Rightarrow> FixedLengthString \<Rightarrow> ctos_Message list" where
  "joining version name = [Ctos_PlayerInfo name, Ctos_JoinGame version 0 (FixedLengthString_allocate 20)]"

text \<open>What the two clients send, given what each is sent; and what is left of that.\<close>

definition start_duel ::
  "u16 \<Rightarrow> Replay \<Rightarrow> stoc_Message list \<Rightarrow> stoc_Message list
   \<Rightarrow> ((CorePlayer \<times> ctos_Message) list \<times> stoc_Message list \<times> stoc_Message list) attempt" where
  "start_duel version r s1 s2 =
     (let b = rp_body r; to1 = map (Pair FirstAttackPlayer); to2 = map (Pair SecondAttackPlayer) in
      try_then (wait_for stoc_T_TypeChange s1) (\<lambda>s1.
      try_then (wait_for stoc_T_TypeChange s2) (\<lambda>s2.
      try_then (wait_for stoc_T_HsPlayerEnter s1) (\<lambda>s1.
      try_then (wait_for stoc_T_HsPlayerChange s2) (\<lambda>s2.
      try_then (wait_for stoc_T_SelectHand s1) (\<lambda>s1.
      try_then (wait_for stoc_T_SelectTp s1) (\<lambda>s1. Inr
        (to1 (joining version (rb_host_name b)) @ to2 (joining version (rb_client_name b)) @
         to1 [Ctos_UpdateDeck (Deck_from_ReplayDeck (rb_host_deck b)), Ctos_HsReady] @
         to2 [Ctos_UpdateDeck (Deck_from_ReplayDeck (rb_client_deck b)), Ctos_HsReady] @
         to1 [Ctos_HsStart] @ to1 [Ctos_HandResult Hand_Paper] @ to2 [Ctos_HandResult Hand_Rock] @
         to1 [Ctos_TpResult FirstAttackPlayer], s1, s2))))))))"

section \<open>Answers on demand\<close>

type_synonym event = "CorePlayer \<times> stoc_Message option"

fun asks :: "stoc_Message \<Rightarrow> bool" where
    "asks (Stoc_GameMessage g) \<longleftrightarrow> gm_waiting_for g \<noteq> None"
  | "asks m \<longleftrightarrow> False"

fun rejects :: "stoc_Message \<Rightarrow> bool" where
    "rejects (Stoc_GameMessage g) \<longleftrightarrow> gm_waiting_for g = None \<and> gm_type g = gm_T_Retry"
  | "rejects m \<longleftrightarrow> False"

text \<open>Whether it is the player's turn to answer, and what is sent in between.\<close>

definition respond :: "CorePlayer \<Rightarrow> stoc_Message \<Rightarrow> (bool \<times> ctos_Message list) attempt" where
  "respond p m =
     (if asks m then Inr (True, [])
      else if rejects m then Inl Retry
      else case m of
        Stoc_TimeLimit q t \<Rightarrow> Inr (False, if q = p then [Ctos_TimeConfirm] else [])
      | _ \<Rightarrow> Inr (False, []))"

text \<open>The end: the events that are left, an error, or nothing when no more events come.\<close>

type_synonym feeding = "(CorePlayer \<times> ctos_Message) list \<times> event list attempt option"

fun send_responses :: "event list \<Rightarrow> PlayerResponse list \<Rightarrow> feeding" where
    "send_responses evs [] = ([], Some (Inr evs))"
  | "send_responses [] (r # rs) = ([], None)"
  | "send_responses ((p, None) # evs) (r # rs) = ([], Some (Inl Disconnected))"
  | "send_responses ((p, Some m) # evs) (r # rs) =
       (case respond p m of
          Inl e \<Rightarrow> ([], Some (Inl e))
        | Inr (True, out) \<Rightarrow> apfst ((@) ((p, Ctos_Response r) # map (Pair p) out)) (send_responses evs rs)
        | Inr (False, out) \<Rightarrow> apfst ((@) (map (Pair p) out)) (send_responses evs (r # rs)))"

text \<open>The winner, if a win is seen before the next prompt, the end of a stream or the end of the patience.\<close>

fun scan_winner :: "event list \<Rightarrow> Netplayer option" where
    "scan_winner [] = None"
  | "scan_winner ((p, None) # evs) = None"
  | "scan_winner ((p, Some (Stoc_GameMessage (GM_GroupA (GMA_Win w)))) # evs) =
       (case gm_Win_winner w of
          FirstAttackPlayer \<Rightarrow> Some (Player 0)
        | SecondAttackPlayer \<Rightarrow> Some (Player 1)
        | _ \<Rightarrow> None)"
  | "scan_winner ((p, Some m) # evs) = (if asks m then None else scan_winner evs)"

definition drive_duel :: "event list \<Rightarrow> PlayerResponse list \<Rightarrow> (Netplayer option \<times> bool) attempt" where
  "drive_duel evs rs =
     (case snd (send_responses evs rs) of
        None \<Rightarrow> Inl Timeout
      | Some (Inl e) \<Rightarrow> Inl e
      | Some (Inr rest) \<Rightarrow> let winner = scan_winner rest in Inr (winner, winner = None))"

section \<open>Validation\<close>

definition check_deck_cards :: "DataManager \<Rightarrow> ReplayDeck \<Rightarrow> unit attempt" where
  "check_deck_cards dm k =
     (let missing = filter (\<lambda>code. get_card dm code = None) (rdk_main k @ rdk_extra k) in
      if missing = [] then Inr () else Inl (MissingCards missing))"

definition validate_before :: "DataManager \<Rightarrow> Replay \<Rightarrow> unit attempt" where
  "validate_before dm r =
     (if is_tag (rp_header r) then Inl TagReplayNotSupported
      else if rb_datas (rp_body r) = [] then Inl EmptyReplay
      else try_then (check_deck_cards dm (rb_host_deck (rp_body r))) (\<lambda>u. check_deck_cards dm (rb_client_deck (rp_body r))))"

record ValidationSummary =
  vs_response_count :: nat
  vs_winner :: "Netplayer option"
  vs_replayed_to_end :: bool

text \<open>What comes after the way into the duel: the events of the two clients.\<close>

definition validate_with_room ::
  "u16 \<Rightarrow> Replay \<Rightarrow> stoc_Message list \<Rightarrow> stoc_Message list \<Rightarrow> event list \<Rightarrow> ValidationSummary attempt" where
  "validate_with_room version r s1 s2 evs =
     try_then (start_duel version r s1 s2) (\<lambda>_.
     try_then (drive_duel evs (rb_datas (rp_body r))) (\<lambda>(winner, to_end). Inr
       \<lparr> vs_response_count = length (rb_datas (rp_body r)), vs_winner = winner, vs_replayed_to_end = to_end \<rparr>))"

definition read_replay :: "lzma_crate \<Rightarrow> bytes option \<Rightarrow> Replay attempt" where
  "read_replay z file =
     (case file of
        None \<Rightarrow> Inl Io
      | Some bs \<Rightarrow> (case rd_Replay (snd z) bs of None \<Rightarrow> Inl Parse | Some (r, _) \<Rightarrow> Inr r))"

text \<open>The room in this process has no clock.\<close>

definition validation_info :: "Replay \<Rightarrow> HostInfo" where
  "validation_info r = (Replay_host_info r) \<lparr> hi_time_limit := 0 \<rparr>"

text \<open>The room is made from the settings; what its two clients are sent is an argument here.\<close>

definition validate_replay ::
  "lzma_crate \<Rightarrow> DataManager \<Rightarrow> u16 \<Rightarrow> bytes option
   \<Rightarrow> (HostInfo \<Rightarrow> u32 list \<Rightarrow> stoc_Message list \<times> stoc_Message list \<times> event list) \<Rightarrow> ValidationSummary attempt" where
  "validate_replay z dm version file room =
     try_then (read_replay z file) (\<lambda>r.
     try_then (validate_before dm r) (\<lambda>u.
       case room (validation_info r) (rh_seed_sequence (rp_header r)) of
         (s1, s2, evs) \<Rightarrow> validate_with_room version r s1 s2 evs))"

section \<open>The workbench\<close>

datatype Command = Cmd_Save | Cmd_Swap | Cmd_Back | Cmd_Back2 | Cmd_Restart | Cmd_Help | Cmd_Clear | Cmd_Exit

definition commands :: "(str \<times> Command) list" where
  "commands =
     [(lit ''save'', Cmd_Save), (lit ''swap'', Cmd_Swap), (lit ''back'', Cmd_Back), (lit ''back2'', Cmd_Back2),
      (lit ''restart'', Cmd_Restart), (lit ''help'', Cmd_Help), (lit ''clear'', Cmd_Clear), (lit ''exit'', Cmd_Exit)]"

definition Command_try_from :: "str \<Rightarrow> Command option" where
  "Command_try_from s = map_of commands s"

definition is_pass :: "PlayerResponse \<Rightarrow> bool" where
  "is_pass r \<longleftrightarrow> r = R_Cancel \<or> r = R_Unknown [255, 255, 255, 255]"

definition drop_passes :: "PlayerResponse list \<Rightarrow> PlayerResponse list" where
  "drop_passes ds = rev (dropWhile is_pass (rev ds))"

definition step_over :: "PlayerResponse list \<Rightarrow> PlayerResponse list" where
  "step_over ds = drop_passes (butlast (drop_passes ds))"

record workbench =
  wb_origin :: Replay
  wb_current :: Replay
  wb_swapped :: bool

text \<open>What a step does to the outside: a message to one of the two clients inside the room (they change
  places when they are swapped) or to one of those outside, a new room that a replay is played to, or the
  end of the program. The texts of the help are left out.\<close>

datatype bench_effect =
    Bench_In nat ctos_Message | Bench_Out nat stoc_Message | Bench_Room Replay bool | Bench_Swap | Bench_Told | Bench_Exit

definition map_datas :: "(PlayerResponse list \<Rightarrow> PlayerResponse list) \<Rightarrow> Replay \<Rightarrow> Replay" where
  "map_datas f r = r \<lparr> rp_body := (rp_body r) \<lparr> rb_datas := f (rb_datas (rp_body r)) \<rparr> \<rparr>"

text \<open>A new room: both clients ask for the field.\<close>

definition operate :: "Replay \<Rightarrow> bool \<Rightarrow> bench_effect list" where
  "operate r swapped = [Bench_Room r swapped, Bench_In 0 Ctos_RequestField, Bench_In 1 Ctos_RequestField]"

definition with_datas :: "(PlayerResponse list \<Rightarrow> PlayerResponse list) \<Rightarrow> workbench \<Rightarrow> workbench \<times> bench_effect list" where
  "with_datas f w =
     (let r = map_datas f (wb_current w) in (w \<lparr> wb_current := r \<rparr>, operate r (wb_swapped w)))"

fun process_command :: "Command \<Rightarrow> workbench \<Rightarrow> workbench \<times> bench_effect list" where
    "process_command Cmd_Save w = (w \<lparr> wb_origin := wb_current w \<rparr>, [Bench_Told])"
  | "process_command Cmd_Swap w =
       (w \<lparr> wb_swapped := \<not> wb_swapped w \<rparr>, [Bench_Swap, Bench_In 0 Ctos_RequestField, Bench_In 1 Ctos_RequestField])"
  | "process_command Cmd_Back w = with_datas step_over w"
  | "process_command Cmd_Back2 w = with_datas butlast w"
  | "process_command Cmd_Restart w = (w, operate (wb_origin w) (wb_swapped w))"
  | "process_command Cmd_Help w = (w, [Bench_Told])"
  | "process_command Cmd_Clear w = with_datas (\<lambda>ds. []) w"
  | "process_command Cmd_Exit w = (w, [Bench_Exit])"

definition chat_command :: "decoder \<Rightarrow> ctos_Message \<Rightarrow> Command option" where
  "chat_command dec m = (case m of Ctos_Chat s \<Rightarrow> Command_try_from (U16String_deref dec s) | _ \<Rightarrow> None)"

definition record_response :: "ctos_Message \<Rightarrow> workbench \<Rightarrow> workbench" where
  "record_response m w =
     (case m of Ctos_Response r \<Rightarrow> w \<lparr> wb_current := map_datas (\<lambda>ds. ds @ [r]) (wb_current w) \<rparr> | _ \<Rightarrow> w)"

definition intercept_message :: "stoc_Message \<Rightarrow> bool" where
  "intercept_message m \<longleftrightarrow>
     (case m of Stoc_GameMessage g \<Rightarrow> gm_type g = gm_T_Win | _ \<Rightarrow> False) \<or>
     stoc_type m = stoc_T_DuelEnd \<or> stoc_type m = stoc_T_Replay"

datatype bench_event = Bench_Client nat ctos_Message | Bench_Server nat stoc_Message

fun dispatch :: "decoder \<Rightarrow> bench_event \<Rightarrow> workbench \<Rightarrow> workbench \<times> bench_effect list" where
    "dispatch dec (Bench_Client i m) w =
       (case chat_command dec m of
          Some c \<Rightarrow> process_command c w
        | None \<Rightarrow> (record_response m w, [Bench_In i m]))"
  | "dispatch dec (Bench_Server i m) w =
       (if stoc_type m = stoc_T_DuelEnd then (w, operate (wb_origin w) (wb_swapped w))
        else (w, if intercept_message m then [] else [Bench_Out i m]))"

section \<open>The players of the workbench\<close>

text \<open>Two places: a connection takes the first that is free, or is refused; one that ends frees its place.\<close>

record bench_places =
  first_free :: bool
  second_free :: bool

fun take_place :: "bench_places \<Rightarrow> CorePlayer option \<times> bench_places" where
  "take_place s =
     (if first_free s then (Some FirstAttackPlayer, s \<lparr> first_free := False \<rparr>)
      else if second_free s then (Some SecondAttackPlayer, s \<lparr> second_free := False \<rparr>)
      else (None, s))"

fun leave_place :: "CorePlayer \<Rightarrow> bench_places \<Rightarrow> bench_places" where
    "leave_place FirstAttackPlayer s = s \<lparr> first_free := True \<rparr>"
  | "leave_place SecondAttackPlayer s = s \<lparr> second_free := True \<rparr>"
  | "leave_place _ s = s"

text \<open>Frames are skipped until one asks to join; looking at the first byte of an empty frame panics.\<close>

fun await_join :: "bytes list \<Rightarrow> bytes list res" where
    "await_join [] = Inr []"
  | "await_join ([] # fs) = Inl IndexOutOfBounds"
  | "await_join ((b # bs) # fs) =
       (if b = ctos_MessageType_into ctos_T_JoinGame then Inr fs else await_join fs)"

definition greeting :: "HostInfo \<Rightarrow> CorePlayer \<Rightarrow> stoc_Message list" where
  "greeting info p = [Stoc_JoinGame info, Stoc_TypeChange (CorePlayer_to_net p) (p = FirstAttackPlayer)]"

datatype viewer_event = Viewer_Frame "bytes option" | Viewer_Message "stoc_Message option"

text \<open>Then messages pass both ways until a side ends: what the room is sent, and what the client is. A frame
  that is no message is skipped.\<close>

fun pass_both :: "viewer_event list \<Rightarrow> ctos_Message list \<times> stoc_Message list" where
    "pass_both [] = ([], [])"
  | "pass_both (Viewer_Frame None # evs) = ([], [])"
  | "pass_both (Viewer_Frame (Some bs) # evs) =
       apfst ((@) (case rd_ctos bs of None \<Rightarrow> [] | Some (m, _) \<Rightarrow> [m])) (pass_both evs)"
  | "pass_both (Viewer_Message None # evs) = ([], [])"
  | "pass_both (Viewer_Message (Some m) # evs) = apsnd ((#) m) (pass_both evs)"

definition bridge_player ::
  "HostInfo \<Rightarrow> CorePlayer \<Rightarrow> bytes list \<Rightarrow> viewer_event list \<Rightarrow> (ctos_Message list \<times> stoc_Message list) res" where
  "bridge_player info p before evs =
     and_then (await_join before) (\<lambda>fs. Inr
       (map_prod ((#) Ctos_RequestField) ((@) (greeting info p))
         (pass_both (map (\<lambda>f. Viewer_Frame (Some f)) fs @ evs))))"

lemma empty_frame_panics: "bridge_player info p ([] # before) evs = Inl IndexOutOfBounds"
  by (simp add: bridge_player_def)

text \<open>Nobody sits at a place that is taken.\<close>

lemma place_was_free: "take_place s = (Some p, s') \<Longrightarrow> leave_place p s' = s"
  by (cases s) (auto split: if_splits)

section \<open>The bridge to an external server\<close>

datatype proxy_event = Proxy_Frame "bytes option" | Proxy_Client "ctos_Message option"

text \<open>Either side's end, and a frame that is no message, end the bridge.\<close>

fun proxy :: "lzma_crate \<Rightarrow> proxy_event list \<Rightarrow> (stoc_Message list \<times> bytes list) res" where
    "proxy z [] = Inr ([], [])"
  | "proxy z (Proxy_Frame None # evs) = Inr ([], [])"
  | "proxy z (Proxy_Frame (Some bs) # evs) =
       and_then (rd_stoc z bs) (\<lambda>r. case r of
          None \<Rightarrow> Inr ([], [])
        | Some (m, _) \<Rightarrow> and_then (proxy z evs) (\<lambda>(ms, out). Inr (m # ms, out)))"
  | "proxy z (Proxy_Client None # evs) = Inr ([], [])"
  | "proxy z (Proxy_Client (Some m) # evs) = and_then (proxy z evs) (\<lambda>(ms, out). Inr (ms, wr_ctos m # out))"

section \<open>Lemmas\<close>

text \<open>The reference: the players that are asked before the first refusal or the first end of a stream.\<close>

fun goes_on :: "event \<Rightarrow> bool" where
    "goes_on (p, None) \<longleftrightarrow> False"
  | "goes_on (p, Some m) \<longleftrightarrow> \<not> rejects m"

definition prompted :: "event list \<Rightarrow> CorePlayer list" where
  "prompted evs = map fst (filter (\<lambda>(p, m). case m of None \<Rightarrow> False | Some m \<Rightarrow> asks m) (takeWhile goes_on evs))"

fun answer :: "CorePlayer \<times> ctos_Message \<Rightarrow> (CorePlayer \<times> PlayerResponse) option" where
    "answer (p, Ctos_Response r) = Some (p, r)"
  | "answer (p, m) = None"

definition answers_sent :: "(CorePlayer \<times> ctos_Message) list \<Rightarrow> (CorePlayer \<times> PlayerResponse) list" where
  "answers_sent = List.map_filter answer"

lemma answers_sent_simps [simp]:
  "answers_sent [] = []" "answers_sent (x # xs) = (case answer x of None \<Rightarrow> answers_sent xs | Some a \<Rightarrow> a # answers_sent xs)"
  "answers_sent (xs @ ys) = answers_sent xs @ answers_sent ys"
  by (auto simp: answers_sent_def List.map_filter_def split: option.split)

lemma prompted_simps [simp]:
  "prompted [] = []" "prompted ((p, None) # evs) = []"
  "prompted ((p, Some m) # evs) = (if rejects m then [] else (if asks m then [p] else []) @ prompted evs)"
  by (auto simp: prompted_def)

lemma asks_accepts: "asks m \<Longrightarrow> \<not> rejects m"
  by (cases m) auto

lemma respond_cases:
  "respond p m = (if asks m then Inr (True, []) else if rejects m then Inl Retry
     else Inr (False, if (\<exists>t. m = Stoc_TimeLimit p t) then [Ctos_TimeConfirm] else []))"
  by (auto simp: respond_def split: stoc_Message.split)

lemma send_responses_answers:
  "answers_sent (fst (send_responses evs rs)) = zip (prompted evs) rs"
proof (induction evs rs rule: send_responses.induct)
  case (4 p m evs r rs)
  then show ?case by (auto simp: respond_cases asks_accepts)
qed simp_all

lemma send_responses_fed:
  "(\<exists>rest. snd (send_responses evs rs) = Some (Inr rest)) \<longleftrightarrow> length rs \<le> length (prompted evs)"
proof (induction evs rs rule: send_responses.induct)
  case (4 p m evs r rs)
  then show ?case by (auto simp: respond_cases asks_accepts)
qed simp_all

text \<open>C40: The answers of a replay are given in order, each to the player who is asked, until the replay is
  refused or a stream ends; and driving the replay succeeds exactly when there are as many prompts
  before that as the replay has answers.\<close>

theorem answers_follow_prompts:
  "answers_sent (fst (send_responses evs rs)) = zip (prompted evs) rs \<and>
   ((\<exists>w. drive_duel evs rs = Inr w) \<longleftrightarrow> length rs \<le> length (prompted evs))"
proof -
  have "(\<exists>w. drive_duel evs rs = Inr w) \<longleftrightarrow> (\<exists>rest. snd (send_responses evs rs) = Some (Inr rest))"
    by (auto simp: drive_duel_def Let_def split: option.split sum.split)
  then show ?thesis by (simp add: send_responses_answers send_responses_fed)
qed

text \<open>So a replay whose last answer the engine refuses is taken for valid: the refusal comes after the
  last answer, where only a win is looked for.\<close>

lemma last_refusal_is_not_seen:
  assumes "asks m" and "rejects n" and "asks k"
  shows "drive_duel [(p, Some m), (p, Some n), (p, Some k)] [r] = Inr (None, True)"
proof -
  have "\<not> asks n" using asks_accepts assms(2) by blast
  moreover obtain g where n: "n = Stoc_GameMessage g" and g: "gm_type g = gm_T_Retry"
    using assms(2) by (cases n) auto
  have "scan_winner ((q, Some x) # evs) = (if asks x then None else scan_winner evs)"
    if "\<And>w. x \<noteq> Stoc_GameMessage (GM_GroupA (GMA_Win w))" for q x and evs :: "event list"
    using that by (cases "(q, Some x) # evs" rule: scan_winner.cases) auto
  moreover have "n \<noteq> Stoc_GameMessage (GM_GroupA (GMA_Win w))" for w using g by (auto simp: n)
  moreover have "k \<noteq> Stoc_GameMessage (GM_GroupA (GMA_Win w))" for w using assms(3) by auto
  ultimately show ?thesis using assms by (simp add: drive_duel_def respond_cases)
qed

text \<open>Stepping back undoes the last answer that is not a pass, and the passes around it.\<close>

lemma drop_passes_append: "\<forall>d \<in> set ps. is_pass d \<Longrightarrow> drop_passes (ds @ ps) = drop_passes ds"
  using dropWhile_append2 [of "rev ps" is_pass "rev ds"] by (simp add: drop_passes_def)

lemma drop_passes_last: "\<not> is_pass d \<Longrightarrow> drop_passes (ds @ [d]) = ds @ [d]"
  by (simp add: drop_passes_def)

lemma step_over_undoes:
  assumes "\<not> is_pass d" and "\<forall>x \<in> set ps. is_pass x" and "\<forall>x \<in> set qs. is_pass x"
  shows "step_over (ds @ qs @ [d] @ ps) = drop_passes ds"
  using assms drop_passes_append [of ps "ds @ qs @ [d]"] drop_passes_last [of d "ds @ qs"] drop_passes_append [of qs ds]
  by (simp add: step_over_def butlast_append)

end
