(* ===== verification/Registry.thy ===== *)
theory Registry
  imports Prelude
begin

text \<open>
  The registry plugin (plugin/registry.rs): scripts of the engine keep strings from one duel of a match to the
  next. The table of the Lua state is the list of its entries, in the order Lua iterates them; a value
  of Lua is anything, and coercing it to a string is the parameter coerce. A script is the list of the calls
  it makes.
\<close>

type_synonym registry = "(str, str) hmap"

section \<open>The functions of the table Duel\<close>

definition GetRegistryValue :: "('v \<Rightarrow> str option) \<Rightarrow> 'v \<Rightarrow> registry \<Rightarrow> str option" where
  "GetRegistryValue coerce key store = (case coerce key of Some k \<Rightarrow> hmap_get store k | None \<Rightarrow> None)"

text \<open>A key that is no string is an error of the script; nil removes the key; a value that is no string is
  ignored.\<close>

definition SetRegistryValue :: "('v \<Rightarrow> str option) \<Rightarrow> 'v \<Rightarrow> 'v option \<Rightarrow> registry \<Rightarrow> registry option" where
  "SetRegistryValue coerce key value store =
     (case coerce key of
        None \<Rightarrow> None
      | Some k \<Rightarrow> Some (case value of
            None \<Rightarrow> AList.delete k store
          | Some v \<Rightarrow> (case coerce v of None \<Rightarrow> store | Some s \<Rightarrow> hmap_insert k s store)))"

text \<open>The results, one for each key, or nil.\<close>

definition GetRegistryKeys :: "registry \<Rightarrow> str option list" where
  "GetRegistryKeys store = (if store = [] then [None] else map (\<lambda>e. Some (fst e)) store)"

definition GetRegistry :: "registry \<Rightarrow> registry" where
  "GetRegistry store = fold (\<lambda>(k, v) t. hmap_insert k v t) store []"

definition set_pair :: "('v \<Rightarrow> str option) \<Rightarrow> 'v \<times> 'v \<Rightarrow> registry \<Rightarrow> registry" where
  "set_pair coerce e store =
     (case (coerce (fst e), coerce (snd e)) of (Some k, Some v) \<Rightarrow> hmap_insert k v store | _ \<Rightarrow> store)"

definition SetRegistry :: "('v \<Rightarrow> str option) \<Rightarrow> ('v \<times> 'v) list \<Rightarrow> bool \<Rightarrow> registry \<Rightarrow> registry" where
  "SetRegistry coerce table override store =
     fold (set_pair coerce) table (if override then [] else store)"

definition ClearRegistry :: "registry \<Rightarrow> registry" where
  "ClearRegistry store = []"

section \<open>The life of a match\<close>

definition install :: "registry \<Rightarrow> registry" where
  "install entries = fold (\<lambda>(k, v) t. hmap_insert k v t) entries []"

text \<open>What is read back when the duel ends; before that the engine may have been freed.\<close>

definition dump :: "registry option \<Rightarrow> registry \<Rightarrow> registry" where
  "dump lua entries = (case lua of None \<Rightarrow> entries | Some store \<Rightarrow> fold (\<lambda>(k, v) t. hmap_insert k v t) store [])"

datatype 'v registry_call =
    Call_Set 'v "'v option"
  | Call_SetAll "('v \<times> 'v) list" bool
  | Call_Clear

text \<open>A call that fails leaves the table as it is; the script may go on.\<close>

fun run_call :: "('v \<Rightarrow> str option) \<Rightarrow> 'v registry_call \<Rightarrow> registry \<Rightarrow> registry" where
    "run_call coerce (Call_Set k v) store =
       (case SetRegistryValue coerce k v store of None \<Rightarrow> store | Some t \<Rightarrow> t)"
  | "run_call coerce (Call_SetAll table override) store = SetRegistry coerce table override store"
  | "run_call coerce Call_Clear store = ClearRegistry store"

definition play_duel :: "('v \<Rightarrow> str option) \<Rightarrow> 'v registry_call list \<Rightarrow> registry \<Rightarrow> registry" where
  "play_duel coerce script entries = dump (Some (fold (run_call coerce) script (install entries))) entries"

section \<open>Lemmas\<close>

lemma copied:
  assumes "wf_hmap entries"
  shows "hmap_get (fold (\<lambda>(k, v) t. hmap_insert k v t) entries t) = hmap_get t ++ hmap_get entries"
  using assms
proof (induction entries arbitrary: t)
  case (Cons e es)
  obtain k v where e: "e = (k, v)" by (cases e)
  have "k \<notin> dom (hmap_get es)" and "wf_hmap es" using Cons.prems by (auto simp: e wf_hmap_def dom_map_of_conv_image_fst)
  then show ?case using Cons.IH by (auto simp: e hmap_get_insert map_add_def fun_eq_iff split: option.split)
qed simp

lemma copied_wf: "wf_hmap t \<Longrightarrow> wf_hmap (fold (\<lambda>(k, v) t. hmap_insert k v t) entries t)"
  by (induction entries arbitrary: t) auto

lemma set_pair_wf: "wf_hmap store \<Longrightarrow> wf_hmap (set_pair coerce e store)"
  by (auto simp: set_pair_def split: option.split)

lemma set_pairs_wf: "wf_hmap store \<Longrightarrow> wf_hmap (fold (set_pair coerce) table store)"
  by (induction table arbitrary: store) (auto simp: set_pair_wf)

lemma wf_hmap_delete: "wf_hmap store \<Longrightarrow> wf_hmap (AList.delete k store)"
  by (simp add: wf_hmap_def distinct_delete)

lemma run_call_wf: "wf_hmap store \<Longrightarrow> wf_hmap (run_call coerce c store)"
  by (cases c) (auto simp: SetRegistryValue_def SetRegistry_def ClearRegistry_def set_pairs_wf wf_hmap_delete split: option.split)

lemma run_calls_wf: "wf_hmap store \<Longrightarrow> wf_hmap (fold (run_call coerce) script store)"
  by (induction script arbitrary: store) (auto simp: run_call_wf)

text \<open>A call depends on what the table holds, not on the order it is iterated in.\<close>

lemma set_pair_get: "hmap_get (set_pair coerce e store) =
    (case (coerce (fst e), coerce (snd e)) of (Some k, Some v) \<Rightarrow> (hmap_get store)(k \<mapsto> v) | _ \<Rightarrow> hmap_get store)"
  by (simp add: set_pair_def hmap_get_insert split: option.split)

lemma set_pairs_get:
  "hmap_get s = hmap_get t \<Longrightarrow> hmap_get (fold (set_pair coerce) table s) = hmap_get (fold (set_pair coerce) table t)"
proof (induction table arbitrary: s t)
  case (Cons e es)
  have "hmap_get (set_pair coerce e s) = hmap_get (set_pair coerce e t)"
    unfolding set_pair_get Cons.prems ..
  from Cons.IH [OF this] show ?case by simp
qed simp

lemma run_call_get:
  assumes "hmap_get s = hmap_get t"
  shows "hmap_get (run_call coerce c s) = hmap_get (run_call coerce c t)"
proof (cases c)
  case (Call_Set k v)
  have "hmap_get (AList.delete x s) = hmap_get (AList.delete x t)" "hmap_get (hmap_insert x y s) = hmap_get (hmap_insert x y t)" for x y
    unfolding delete_conv' update_conv' assms by (rule refl)+
  with assms show ?thesis by (simp add: Call_Set SetRegistryValue_def split: option.split)
next
  case (Call_SetAll table override)
  have "hmap_get (fold (set_pair coerce) table s) = hmap_get (fold (set_pair coerce) table t)"
    using assms by (rule set_pairs_get)
  then show ?thesis by (simp add: Call_SetAll SetRegistry_def)
qed (simp add: ClearRegistry_def)

lemma run_calls_get:
  "hmap_get s = hmap_get t \<Longrightarrow> hmap_get (fold (run_call coerce) script s) = hmap_get (fold (run_call coerce) script t)"
proof (induction script arbitrary: s t)
  case (Cons c cs)
  show ?case using Cons.IH [OF run_call_get [OF Cons.prems]] by simp
qed simp

lemma play_duel_get:
  assumes "wf_hmap entries"
  shows "hmap_get (play_duel coerce script entries) = hmap_get (fold (run_call coerce) script entries)"
    and "wf_hmap (play_duel coerce script entries)"
proof -
  have "wf_hmap (install entries)" by (simp add: install_def copied_wf)
  then have wf: "wf_hmap (fold (run_call coerce) script (install entries))" by (rule run_calls_wf)
  have "hmap_get (install entries) = hmap_get entries" using copied [OF assms, of "[]"] by (simp add: install_def)
  then have "hmap_get (fold (run_call coerce) script (install entries)) = hmap_get (fold (run_call coerce) script entries)"
    by (rule run_calls_get)
  moreover have "hmap_get (play_duel coerce script entries) = hmap_get (fold (run_call coerce) script (install entries))"
    using copied [OF wf, of "[]"] by (simp add: play_duel_def dump_def)
  ultimately show "hmap_get (play_duel coerce script entries) = hmap_get (fold (run_call coerce) script entries)"
    by simp
  show "wf_hmap (play_duel coerce script entries)" by (simp add: play_duel_def dump_def copied_wf)
qed

text \<open>So the duels of a match are, for the registry, one script: what a duel wrote, the next one reads.\<close>

lemma match_is_one_script:
  "wf_hmap entries \<Longrightarrow>
    hmap_get (fold (play_duel coerce) scripts entries) = hmap_get (fold (run_call coerce) (concat scripts) entries)"
proof (induction scripts arbitrary: entries)
  case (Cons s ss)
  show ?case
    unfolding fold_simps(2) concat.simps fold_append comp_apply Cons.IH [OF play_duel_get(2) [OF Cons.prems]]
    by (rule run_calls_get) (rule play_duel_get(1) [OF Cons.prems])
qed simp

end
