(* ===== verification/Spec2Isabelle.thy ===== *)
theory Spec2Isabelle
  imports Deck DataManager GameMessageWire Seating RoomProperties Draining TagProperties FieldLife ReplaySafety WatchSafety Host
    Settings Forge Wrappers Driver Registry
begin

text \<open>
  A model of ygopru, a server for a card game, with the library of its protocol.

  \<^bold>\<open>The program.\<close> Clients send messages (ctos) to a room; the room answers with messages (stoc), some of
  which carry a message of the duel engine (gm). The crates and how they meet:

  \<^item> ygopro-data: the types of the protocol with their wire formats, decks, limit lists, replays, and a board
    rebuilt from the messages of the engine.
  \<^item> ygopro-handler: a framework. A handler is a function from a request and the state to a response;
    modules register handlers under message keys, a processor sorts them and dispatches a message to a chain.
  \<^item> ygopro-core-wrapper: the calls into the duel engine, a C++ library outside the repository.
  \<^item> ygopro: the server. A room is one task that takes requests from a queue: a message of a client, a
    client that comes or goes, a message the room sends to itself, a command. It runs the engine until the engine
    waits for an answer, sends everybody their own copy of what happened, and asks the next player. There are
    rooms for two players and for two teams of two. Plugins are modules of handlers beside those of the room.
  \<^item> ygopro-toolkits and the external bridges: programs around the server, which play replays to a room, or run
    the server for somebody else.

  \<^bold>\<open>Conventions.\<close> A machine integer is a word of its width and wraps, as in the release profile; signed ones
  are words read by sint. A panic is a value: a function that can panic returns the type res, which is
  Inl of the panic or Inr of the result. A reader takes the remaining bytes and returns the value and the rest,
  or none. A hash map whose order is visible is a list of its entries. A queue to a client is the part
  of one list of deliveries that has the number of its channel. The state of a room is the record Duel with the
  fields of the kind of room as its extension. A handler of the program is one definition on the room; the
  definition with the prefix run is its wrapper: it extracts the parameters (a handler whose parameters are not
  there is skipped) and converts the result.

  \<^bold>\<open>The theories.\<close> Paths are below src.

  \<^item> Shared: Prelude (panics, words, lists), Codec (readers and writers, the locales codec,
    fixed\_codec, exact\_codec, repr\_enum, repr\_codec), RustStr (strings of the standard library), Slab and
    SlotMap (two crates that hand out keys, with the locales slab\_crate and slotmap\_crate).
  \<^item> ygopro-data/src/constants.rs: Flags (bit sets), Constants (enumerations, positions, packed
    structs). data/card.rs: Card. data/deck.rs: Deck. data/lflist.rs: LFList. data/query.rs: CardQuery, with the
    locale maskable. data/replay.rs: Replay. utils.rs: WireString (strings of the wire), Complex (messages that
    are parsed when they are first looked at). message/: HostInfo and MessageType (utils.rs), PlayerResponse
    (response.rs), GameMessage (game\_message.rs: structs, masks, who is asked), GameMessageWire
    (its wire format), Ctos, Stoc.
  \<^item> ygopro-data/src/field.rs: DuelField (the board and its queries), FieldEvolve and FieldMessages (a
    handler for every message and the dispatcher), FieldSafety, FieldMoves, FieldLife (what they keep and do).
  \<^item> ygopro-handler/src: Handler (responses, conversions, bundles, chains, processors), with the locale
    priority\_sort for the sort of the standard library; Wrappers (extract.rs, handler.rs: extractors, futures and the
    three wrappers that make a handler of a function).
  \<^item> ygopro-core-wrapper/src: Core, over a record of the functions of the engine.
  \<^item> ygopro/src: DataManager (the card database of managers.rs), Managers (the rest of managers.rs, ypk.rs,
    ygopro-data/src/data/strings.rs: configuration, texts, lists, archives, scripts), CommandLine (cli.rs, ffi.rs and
    the external bridges: arguments), Settings (configuration.rs, the configurations of the plugins, the room of a command
    line), Player (player.rs), Duel (duel.rs, message.rs: targets,
    recipients, queries, queue), RoomHandlers (ygopro\_handlers.rs: joining, seats, decks, choices, match), CoreHandlers
    (ygocore\_handlers.rs: the engine loop and its messages), SingleDuel and SingleRoom (single\_duel.rs:
    handlers; wrappers, registrations, loop), TagDuel and TagRoom (tag\_duel.rs), ReplayHost (replay.rs), Host (host.rs).
  \<^item> ygopro/src/plugin: Plugins (terminate, version\_check, time\_limit), ClockPlugins (time\_backed,
    time\_compensator), WatchPlugins (no\_init\_shuffle\_deck, preload\_script, soumatou), Reconnect (reconnect),
    ReplayPlugin (replay), PluginSet (the registrations of these, and the commands, command.rs). The plugin bo is in
    SingleDuel, the only room that has it. Registry (registry) works on the Lua state of the engine, which
    the rooms do not look into, so its handlers are not among the registrations.
  \<^item> Forge: replays that hold messages, across data/replay.rs, message/utils.rs, game\_message.rs, duel.rs, replay.rs and
    plugin/replay.rs: their files, recording, showing and saving.
  \<^item> ygopro-toolkits/src: Driver (start\_game.rs, validate\_replay.rs, tsukuyomi.rs).
  \<^item> Properties of rooms: Chains (a relation that every handler of a chain keeps is kept by the chain),
    RoomInvariants (the shared handlers keep who is reached where), SingleInvariants and TagInvariants (the
    two kinds of room), Seating (an abstract room that the operations on seats refine), RoomProperties and
    TagProperties (reachable rooms), Draining (rooms come to rest), WatchSafety (late observers, the
    field shown again), ReplaySafety (rooms made for a replay), RoomSamples (an engine and an environment to evaluate
    rooms with).
\<close>

text \<open>
  \<^bold>\<open>What is shown.\<close>

  \<^item> The protocol: every message of a client, of the server and of the engine, an answer, a card
    update, a deck, a replay file are read back as they were written, under the conditions the formats
    have; where a format loses something, what is read is stated. Readers of messages never fail on a
    non-empty input.
  \<^item> Hidden information: the copy of a message a player gets holds no code the player must not see; in every
    reachable room this is the copy each client gets. The field shown again and the history told to
    late observers hide the same.
  \<^item> Decks and lists: when a deck is accepted, what loading keeps, exactly when loading panics; the hash of a limit
    list; the card database does not depend on the order its files are iterated in.
  \<^item> Handlers: which handlers are dispatched to a key and in what order; responses form a monoid graded by
    severity; a chain never lowers a severity; the wrappers of a handler agree, so what is shown of the
    synchronous one holds of all.
  \<^item> Rooms: in every reachable room what is sent to a position goes to the client there; moving at the
    table refines moving a client in a map; the judge follows best of three (with the plugin, best of n); four
    players take turns in order and the two sides of the engine are the operators of the turn; leaving panics exactly where
    it is said. Reachability is an inductive predicate: a room is created, and then requests arrive or one is
    taken from the queue.
  \<^item> Progress: what a room sends to itself has a rank that falls, so a room left alone comes to rest; a request is the
    next after as many steps as there are requests before it.
  \<^item> The board: it never panics on a message about the two players; a moved card is neither lost nor doubled; drawing
    takes the top; life points are the integers the messages mean while they are in range.
  \<^item> Clocks, replays: the time that a player can use in a turn is bounded; a recording holds what was sent; a room made
    for a replay is a sound room, and answers are fed one for each prompt, by the host and by the tools; a replay of messages
    is read back as written, and what it shows is what was recorded.
  \<^item> Starting: the server reads the arguments the bridge writes; its room uses the given seeds and settings, which come
    from the environment, else the file, else a default; the registry carries what one duel wrote to the next.

  \<^bold>\<open>Parameters.\<close> What is not code of the repository is an argument: the engine (a record of functions on an
  abstract state), LZMA (compress, decompress), the decoder of UTF-16, the keys a slab or a slot map hands
  out, the unstable sort of the processors, clocks, random numbers, base64, SQLite, patterns of file names, what is
  on the disk and in the environment (the record machine). In the theories of the rooms the configuration is the record
  env; Settings says how a configuration fills it. The laws used
  of them are hypotheses of the theorems or of the locales: the decoder inverts the encoder, a new
  key is not in use, the sort returns the same handlers sorted by priority. Each has an instance in the development.

  \<^bold>\<open>Bounds and loops.\<close> There is no fuel. Readers of lists recurse on the count that was read or on the rest of
  the input; a reader that makes no progress would be read forever, so there the result is the panic value
  Diverges. The loop that runs the engine (evolve\_loop) need not end, for the engine is a parameter: it is a
  partial function to an option, and when it has no value the result is Diverges as well. The recursions of
  the queue, of the chains and of the host of a replay are total: the host recurses on the
  messages that are still to be heard. That a room comes to rest is shown with a multiset of ranks.

  \<^bold>\<open>Not modelled.\<close> Request::Query, which runs an arbitrary closure on the room; the statistics and the
  log lines of the loops, and the print plugin, which only logs; threads, sockets, processes, frames and raw pointers, of the
  server, of the foreign interface, of the bridges and of the tools; the derive macros (their output is in the models
  of what they are applied to: message types, readers, masks, registrations, configurations); the formats of clocks, and
  creating folders and writing files; the declarations of the functions of the engine. Lower case of the names
  of variables in the environment is that of ASCII.
\<close>

end
